(* ===== verification/Calls_Prelude.thy ===== *)
theory Calls_Prelude
  imports Complex_Main "HOL-Library.Word" "HOL-Library.AList"
begin

text \<open>
  Shared vocabulary of the development: the result-and-state programs in which the asynchronous Rust
  functions are written, the decimal and text routines of the Rust standard library that the
  services use, 64-bit signed arithmetic, and the association lists that stand for
  \<^verbatim>\<open>HashMap\<close> and \<^verbatim>\<open>HashSet\<close>.

  Strings are \<^typ>\<open>string\<close>, one \<^typ>\<open>char\<close> per Unicode scalar value; the model covers the
  scalar values below 256.
\<close>

section \<open>Programs\<close>

text \<open>
  \<open>('s, 'e, 'a) prog\<close> is a Rust function returning \<^verbatim>\<open>Result<'a, 'e>\<close> over a state
  \<open>'s\<close> (\<^term>\<open>Inl\<close> is \<^verbatim>\<open>Err\<close>); \<open>('s, 'a) act\<close> is one that cannot fail.
  \<open>tryM m f\<close> is the \<^verbatim>\<open>?\<close> operator: stop at an error, keeping the state reached.
  \<open>bindM m f\<close> is plain sequencing: the whole result is handed on.
\<close>

type_synonym ('s, 'a) act = "'s \<Rightarrow> 'a \<times> 's"
type_synonym ('s, 'e, 'a) prog = "'s \<Rightarrow> ('e + 'a) \<times> 's"

named_theorems prog_simps "evaluation rules of the program combinators"
named_theorems keeps_intros "rules that push an invariant through a program"

definition retM :: "'a \<Rightarrow> ('s, 'a) act" where
  "retM x = (\<lambda>s. (x, s))"

definition okM :: "'a \<Rightarrow> ('s, 'e, 'a) prog" where
  "okM x = (\<lambda>s. (Inr x, s))"

definition failM :: "'e \<Rightarrow> ('s, 'e, 'a) prog" where
  "failM e = (\<lambda>s. (Inl e, s))"

definition bindM :: "('s, 'a) act \<Rightarrow> ('a \<Rightarrow> ('s, 'b) act) \<Rightarrow> ('s, 'b) act" where
  "bindM m f = (\<lambda>s. f (fst (m s)) (snd (m s)))"

definition tryM :: "('s, 'e, 'a) prog \<Rightarrow> ('a \<Rightarrow> ('s, 'e, 'b) prog) \<Rightarrow> ('s, 'e, 'b) prog" where
  "tryM m f = (\<lambda>s. case fst (m s) of Inl e \<Rightarrow> (Inl e, snd (m s)) | Inr x \<Rightarrow> f x (snd (m s)))"

definition map_errM :: "('e \<Rightarrow> 'f) \<Rightarrow> ('s, 'e, 'a) prog \<Rightarrow> ('s, 'f, 'a) prog" where
  "map_errM g m = (\<lambda>s. (map_sum g id (fst (m s)), snd (m s)))"

text \<open>A loop \<^verbatim>\<open>for x in xs\<close> whose body cannot fail, and one whose body ends in \<^verbatim>\<open>?\<close>.\<close>

fun forM :: "('a \<Rightarrow> ('s, unit) act) \<Rightarrow> 'a list \<Rightarrow> ('s, unit) act" where
  "forM f [] = retM ()"
| "forM f (x # xs) = bindM (f x) (\<lambda>_. forM f xs)"

fun forE :: "('a \<Rightarrow> ('s, 'e, unit) prog) \<Rightarrow> 'a list \<Rightarrow> ('s, 'e, unit) prog" where
  "forE f [] = okM ()"
| "forE f (x # xs) = tryM (f x) (\<lambda>_. forE f xs)"

text \<open>\<^verbatim>\<open>let _ = m\<close> and \<^verbatim>\<open>if let Err(e) = m { warn!(..) }\<close>: run and drop the result.\<close>

definition ignoreM :: "('s, 'a) act \<Rightarrow> ('s, unit) act" where
  "ignoreM m = (\<lambda>s. ((), snd (m s)))"

text \<open>Reading and updating the state of a component.\<close>

definition getM :: "('s \<Rightarrow> 'a) \<Rightarrow> ('s, 'a) act" where
  "getM f = (\<lambda>s. (f s, s))"

definition modM :: "('s \<Rightarrow> 's) \<Rightarrow> ('s, unit) act" where
  "modM f = (\<lambda>s. ((), f s))"

definition liftM :: "('s, 'a) act \<Rightarrow> ('s, 'e, 'a) prog" where
  "liftM m = (\<lambda>s. (Inr (fst (m s)), snd (m s)))"

lemma prog_apply [prog_simps]:
  "retM x s = (x, s)"
  "okM x s = (Inr x, s)"
  "failM e s = (Inl e, s)"
  "bindM a f s = f (fst (a s)) (snd (a s))"
  "tryM m g s = (case fst (m s) of Inl e \<Rightarrow> (Inl e, snd (m s)) | Inr x \<Rightarrow> g x (snd (m s)))"
  "map_errM h q s = (map_sum h id (fst (q s)), snd (q s))"
  "ignoreM n s = ((), snd (n s))"
  "getM k s = (k s, s)"
  "modM u s = ((), u s)"
  "liftM b s = (Inr (fst (b s)), snd (b s))"
  by (simp_all add: retM_def okM_def failM_def bindM_def tryM_def map_errM_def ignoreM_def
      getM_def modM_def liftM_def)

subsection \<open>Invariants of programs\<close>

text \<open>\<open>keeps I m\<close>: running \<open>m\<close> from a state that satisfies \<open>I\<close> ends in one that does, whatever
  the result.\<close>

definition keeps :: "('s \<Rightarrow> bool) \<Rightarrow> ('s, 'a) act \<Rightarrow> bool" where
  "keeps I m \<longleftrightarrow> (\<forall>s. I s \<longrightarrow> I (snd (m s)))"

lemma keepsI: "(\<And>s. I s \<Longrightarrow> I (snd (m s))) \<Longrightarrow> keeps I m"
  by (simp add: keeps_def)

lemma keepsD: "keeps I m \<Longrightarrow> I s \<Longrightarrow> I (snd (m s))"
  by (simp add: keeps_def)

lemma keeps_basic [keeps_intros]:
  "keeps I (retM x)" "keeps I (okM y)" "keeps I (failM e)" "keeps I (getM k)"
  by (simp_all add: keeps_def prog_simps)

lemma keeps_bindM [keeps_intros]:
  "keeps I m \<Longrightarrow> (\<And>x. keeps I (f x)) \<Longrightarrow> keeps I (bindM m f)"
  by (simp add: keeps_def prog_simps)

lemma keeps_tryM [keeps_intros]:
  "keeps I m \<Longrightarrow> (\<And>x. keeps I (f x)) \<Longrightarrow> keeps I (tryM m f)"
  by (auto simp: keeps_def prog_simps split: sum.splits)

lemma keeps_map_errM [keeps_intros]: "keeps I m \<Longrightarrow> keeps I (map_errM g m)"
  by (simp add: keeps_def prog_simps)

lemma keeps_ignoreM [keeps_intros]: "keeps I m \<Longrightarrow> keeps I (ignoreM m)"
  by (simp add: keeps_def prog_simps)

lemma keeps_liftM [keeps_intros]: "keeps I m \<Longrightarrow> keeps I (liftM m)"
  by (simp add: keeps_def prog_simps)

lemma keeps_modM [keeps_intros]: "(\<And>s. I s \<Longrightarrow> I (u s)) \<Longrightarrow> keeps I (modM u)"
  by (simp add: keeps_def prog_simps)

lemma keeps_forM [keeps_intros]: "(\<And>x. keeps I (f x)) \<Longrightarrow> keeps I (forM f xs)"
  by (induction xs) (auto intro: keeps_intros)

lemma keeps_forE [keeps_intros]: "(\<And>x. keeps I (f x)) \<Longrightarrow> keeps I (forE f xs)"
  by (induction xs) (auto intro: keeps_intros)

lemma keeps_if [keeps_intros]: "keeps I a \<Longrightarrow> keeps I b \<Longrightarrow> keeps I (if c then a else b)"
  by simp

lemma keeps_option [keeps_intros]:
  "keeps I a \<Longrightarrow> (\<And>x. keeps I (b x)) \<Longrightarrow> keeps I (case z of None \<Rightarrow> a | Some x \<Rightarrow> b x)"
  by (cases z) auto

lemma keeps_sum [keeps_intros]:
  "(\<And>x. keeps I (a x)) \<Longrightarrow> (\<And>x. keeps I (b x)) \<Longrightarrow> keeps I (case z of Inl x \<Rightarrow> a x | Inr y \<Rightarrow> b y)"
  by (cases z) auto

lemma keeps_forM_on:
  "(\<And>x. x \<in> set xs \<Longrightarrow> keeps I (f x)) \<Longrightarrow> keeps I (forM f xs)"
  by (induction xs) (auto intro: keeps_intros)

section \<open>Signed 64-bit arithmetic\<close>

text \<open>\<^verbatim>\<open>i64\<close> values are integers kept in range; subtraction and the cast from \<^verbatim>\<open>u64\<close> wrap.\<close>

definition wrap_i64 :: "int \<Rightarrow> int" where
  "wrap_i64 x = (x + 2 ^ 63) mod 2 ^ 64 - 2 ^ 63"

definition sub_i64 :: "int \<Rightarrow> int \<Rightarrow> int" where
  "sub_i64 a b = wrap_i64 (a - b)"

definition cast_i64 :: "64 word \<Rightarrow> int" where
  "cast_i64 w = sint w"

lemma wrap_i64_id: "- (2 ^ 63) \<le> x \<Longrightarrow> x < 2 ^ 63 \<Longrightarrow> wrap_i64 x = x"
  by (simp add: wrap_i64_def)

lemma sub_i64_id: "- (2 ^ 63) \<le> a - b \<Longrightarrow> a - b < 2 ^ 63 \<Longrightarrow> sub_i64 a b = a - b"
  by (simp add: sub_i64_def wrap_i64_id)

section \<open>Text\<close>

text \<open>\<^verbatim>\<open>char::is_whitespace\<close> below 256, and \<^verbatim>\<open>str::trim\<close>.\<close>

definition is_whitespace :: "char \<Rightarrow> bool" where
  "is_whitespace c \<longleftrightarrow> (let n = of_char c :: nat in (9 \<le> n \<and> n \<le> 13) \<or> n = 32 \<or> n = 133 \<or> n = 160)"

definition trim_start :: "string \<Rightarrow> string" where
  "trim_start s = dropWhile is_whitespace s"

definition trim_end :: "string \<Rightarrow> string" where
  "trim_end s = rev (dropWhile is_whitespace (rev s))"

definition trim :: "string \<Rightarrow> string" where
  "trim s = trim_end (trim_start s)"

definition is_digit :: "char \<Rightarrow> bool" where
  "is_digit c \<longleftrightarrow> (let n = of_char c :: nat in 48 \<le> n \<and> n \<le> 57)"

definition is_ascii_alphanumeric :: "char \<Rightarrow> bool" where
  "is_ascii_alphanumeric c \<longleftrightarrow>
     (let n = of_char c :: nat in (48 \<le> n \<and> n \<le> 57) \<or> (65 \<le> n \<and> n \<le> 90) \<or> (97 \<le> n \<and> n \<le> 122))"

text \<open>\<^verbatim>\<open>str::split\<close> on a character (never empty), and \<^verbatim>\<open>str::split_once\<close>.\<close>

fun split_on :: "char \<Rightarrow> string \<Rightarrow> string list" where
  "split_on d [] = [[]]"
| "split_on d (c # s) =
     (if c = d then [] # split_on d s
      else (case split_on d s of [] \<Rightarrow> [[c]] | w # ws \<Rightarrow> (c # w) # ws))"

fun split_once :: "char \<Rightarrow> string \<Rightarrow> (string \<times> string) option" where
  "split_once d [] = None"
| "split_once d (c # s) =
     (if c = d then Some ([], s)
      else (case split_once d s of None \<Rightarrow> None | Some (a, b) \<Rightarrow> Some (c # a, b)))"

fun strip_prefix :: "string \<Rightarrow> string \<Rightarrow> string option" where
  "strip_prefix [] s = Some s"
| "strip_prefix (p # ps) [] = None"
| "strip_prefix (p # ps) (c # s) = (if p = c then strip_prefix ps s else None)"

definition strip_suffix :: "string \<Rightarrow> string \<Rightarrow> string option" where
  "strip_suffix p s = map_option rev (strip_prefix (rev p) (rev s))"

definition ends_with :: "string \<Rightarrow> string \<Rightarrow> bool" where
  "ends_with p s \<longleftrightarrow> strip_suffix p s \<noteq> None"

lemma strip_prefix_iff: "strip_prefix p s = Some r \<longleftrightarrow> s = p @ r"
  by (induction p s rule: strip_prefix.induct) auto

lemma strip_suffix_iff: "strip_suffix p s = Some r \<longleftrightarrow> s = r @ p"
proof -
  have "strip_suffix p s = Some r \<longleftrightarrow> strip_prefix (rev p) (rev s) = Some (rev r)"
    by (auto simp: strip_suffix_def)
  also have "\<dots> \<longleftrightarrow> s = r @ p"
    by (metis rev_append rev_rev_ident strip_prefix_iff)
  finally show ?thesis .
qed

lemma ends_with_iff: "ends_with p s \<longleftrightarrow> (\<exists>r. s = r @ p)"
  using strip_suffix_iff [of p s] by (cases "strip_suffix p s") (auto simp: ends_with_def)

lemma split_once_append: "d \<notin> set a \<Longrightarrow> split_once d (a @ d # b) = Some (a, b)"
  by (induction a) auto

lemma split_on_append: "d \<notin> set a \<Longrightarrow> split_on d (a @ d # b) = a # split_on d b"
  by (induction a) auto

lemma split_on_single: "d \<notin> set a \<Longrightarrow> split_on d a = [a]"
  by (induction a) auto

text \<open>\<^verbatim>\<open>str::lines\<close>: a carriage return goes with the line feed it precedes, and a final line that is empty is none.\<close>

definition strip_cr :: "string \<Rightarrow> string" where
  "strip_cr l = (if l \<noteq> [] \<and> last l = CHR 0x0D then butlast l else l)"

definition str_lines :: "string \<Rightarrow> string list" where
  "str_lines s = (let ps = split_on (CHR 0x0A) s
     in map strip_cr (butlast ps) @ (if last ps = [] then [] else [last ps]))"

subsection \<open>Decimal numbers\<close>

definition digit_char :: "nat \<Rightarrow> char" where
  "digit_char d = char_of (48 + d)"

definition char_digit :: "char \<Rightarrow> nat" where
  "char_digit c = of_char c - 48"

fun show_nat :: "nat \<Rightarrow> string" where
  "show_nat n = (if n < 10 then [digit_char n] else show_nat (n div 10) @ [digit_char (n mod 10)])"

declare show_nat.simps [simp del]

definition show_int :: "int \<Rightarrow> string" where
  "show_int i = (if i < 0 then CHR ''-'' # show_nat (nat (- i)) else show_nat (nat i))"

definition digits_value :: "string \<Rightarrow> nat option" where
  "digits_value s =
     (if s \<noteq> [] \<and> list_all is_digit s then Some (foldl (\<lambda>a c. 10 * a + char_digit c) 0 s) else None)"

text \<open>\<^verbatim>\<open>str::parse\<close> at an unsigned type with maximum \<open>m\<close>: an optional plus sign, at least one digit,
  and no overflow; at \<^verbatim>\<open>i64\<close> a minus sign is accepted too.\<close>

definition parse_unsigned :: "nat \<Rightarrow> string \<Rightarrow> nat option" where
  "parse_unsigned m s =
     (case digits_value (case s of CHR ''+'' # r \<Rightarrow> r | _ \<Rightarrow> s) of
        None \<Rightarrow> None | Some n \<Rightarrow> if n \<le> m then Some n else None)"

definition parse_u16 :: "string \<Rightarrow> 16 word option" where
  "parse_u16 s = map_option of_nat (parse_unsigned (2 ^ 16 - 1) s)"

definition parse_u32 :: "string \<Rightarrow> 32 word option" where
  "parse_u32 s = map_option of_nat (parse_unsigned (2 ^ 32 - 1) s)"

definition parse_u64 :: "string \<Rightarrow> 64 word option" where
  "parse_u64 s = map_option of_nat (parse_unsigned (2 ^ 64 - 1) s)"

definition parse_i64 :: "string \<Rightarrow> int option" where
  "parse_i64 s =
     (case s of
        CHR ''-'' # r \<Rightarrow>
          (case digits_value r of None \<Rightarrow> None
           | Some n \<Rightarrow> if n \<le> 2 ^ 63 then Some (- int n) else None)
      | _ \<Rightarrow> map_option int (parse_unsigned (2 ^ 63 - 1) s))"

lemma of_char_digit_char: "d < 10 \<Longrightarrow> of_char (digit_char d) = 48 + d"
  by (simp add: digit_char_def)

lemma is_digit_digit_char: "d < 10 \<Longrightarrow> is_digit (digit_char d)"
  by (simp add: is_digit_def of_char_digit_char)

lemma char_digit_digit_char: "d < 10 \<Longrightarrow> char_digit (digit_char d) = d"
  by (simp add: char_digit_def of_char_digit_char)

lemma show_nat_digits: "show_nat n \<noteq> [] \<and> list_all is_digit (show_nat n)"
proof (induction n rule: show_nat.induct)
  case (1 n)
  then show ?case
    by (subst (1 2) show_nat.simps) (simp add: is_digit_digit_char)
qed

lemma show_nat_value: "foldl (\<lambda>a c. 10 * a + char_digit c) 0 (show_nat n) = n"
proof (induction n rule: show_nat.induct)
  case (1 n)
  then show ?case
    by (subst show_nat.simps) (simp add: char_digit_digit_char)
qed

lemma digits_value_show_nat: "digits_value (show_nat n) = Some n"
  using show_nat_digits [of n] by (simp add: digits_value_def show_nat_value)

lemma digit_not_sign: "is_digit c \<Longrightarrow> c \<noteq> CHR ''+'' \<and> c \<noteq> CHR ''-''"
  by (auto simp: is_digit_def)

lemma show_nat_head: "\<exists>c r. show_nat n = c # r \<and> is_digit c"
  using show_nat_digits [of n] by (cases "show_nat n") auto

lemma parse_unsigned_show_nat: "n \<le> m \<Longrightarrow> parse_unsigned m (show_nat n) = Some n"
proof -
  assume "n \<le> m"
  obtain c r where c: "show_nat n = c # r" "is_digit c" using show_nat_head by blast
  have "(case show_nat n of CHR ''+'' # r \<Rightarrow> r | _ \<Rightarrow> show_nat n) = show_nat n"
    using c digit_not_sign [of c] by (auto split: list.splits char.splits bool.splits)
  then show ?thesis using \<open>n \<le> m\<close> by (simp add: parse_unsigned_def digits_value_show_nat)
qed

lemma parse_u16_show: "parse_u16 (show_nat (unat p)) = Some p"
proof -
  have "unat p \<le> 2 ^ 16 - 1" using unsigned_less [of p, where ?'a = nat] by simp
  then show ?thesis by (simp add: parse_u16_def parse_unsigned_show_nat)
qed

lemma parse_u32_show: "parse_u32 (show_nat (unat p)) = Some p"
proof -
  have "unat p \<le> 2 ^ 32 - 1" using unsigned_less [of p, where ?'a = nat] by simp
  then show ?thesis by (simp add: parse_u32_def parse_unsigned_show_nat)
qed

lemma parse_i64_show_int:
  assumes "- (2 ^ 63) \<le> i" "i < 2 ^ 63"
  shows "parse_i64 (show_int i) = Some i"
proof (cases "i < 0")
  case True
  have "nat (- i) \<le> 2 ^ 63" using assms(1) True by (simp add: nat_le_iff)
  then show ?thesis using True
    by (simp add: parse_i64_def show_int_def digits_value_show_nat)
next
  case False
  obtain c r where c: "show_nat (nat i) = c # r" "is_digit c" using show_nat_head by blast
  have "nat i \<le> 2 ^ 63 - 1" using assms(2) False by (simp add: nat_le_iff)
  then have "parse_unsigned (2 ^ 63 - 1) (show_nat (nat i)) = Some (nat i)"
    by (rule parse_unsigned_show_nat)
  moreover have "parse_i64 (show_nat (nat i)) =
      map_option int (parse_unsigned (2 ^ 63 - 1) (show_nat (nat i)))"
    using c digit_not_sign [of c]
    by (auto simp: parse_i64_def split: list.splits char.splits bool.splits)
  ultimately show ?thesis using False by (simp add: show_int_def)
qed

lemma show_nat_no_char: "\<not> is_digit c \<Longrightarrow> c \<notin> set (show_nat n)"
  using show_nat_digits [of n] by (auto simp: list_all_iff)

section \<open>Collections\<close>

text \<open>
  A \<^verbatim>\<open>HashMap\<close> that the code iterates over is an association list: its order is an iteration
  order, which Rust leaves open. \<open>AList.update\<close> is \<^verbatim>\<open>insert\<close>, \<open>AList.delete\<close> is
  \<^verbatim>\<open>remove\<close>, \<open>map_of\<close> is \<^verbatim>\<open>get\<close>.
\<close>

abbreviation distinct_keys :: "('k \<times> 'v) list \<Rightarrow> bool" where
  "distinct_keys xs \<equiv> distinct (map fst xs)"

lemma map_of_update [simp]: "map_of (AList.update k v xs) = (map_of xs)(k \<mapsto> v)"
  by (rule update_conv')

lemma map_of_delete [simp]: "map_of (AList.delete k xs) = (map_of xs)(k := None)"
  by (rule delete_conv')

lemma distinct_keys_update [simp]: "distinct_keys xs \<Longrightarrow> distinct_keys (AList.update k v xs)"
  by (rule distinct_update)

lemma distinct_keys_delete [simp]: "distinct_keys xs \<Longrightarrow> distinct_keys (AList.delete k xs)"
  by (rule distinct_delete)

lemma set_delete: "set (AList.delete k xs) = {p \<in> set xs. fst p \<noteq> k}"
  by (induction xs) auto

lemma set_update:
  "distinct_keys xs \<Longrightarrow> set (AList.update k v xs) = insert (k, v) {p \<in> set xs. fst p \<noteq> k}"
  by (induction xs) force+

text \<open>Rust's \<^verbatim>\<open>Iterator::min_by\<close> with a comparison of keys: the first of the least elements.\<close>

fun min_by :: "('a \<Rightarrow> 'b::linorder) \<Rightarrow> 'a list \<Rightarrow> 'a option" where
  "min_by f [] = None"
| "min_by f (x # xs) =
     (case min_by f xs of None \<Rightarrow> Some x | Some y \<Rightarrow> if f x \<le> f y then Some x else Some y)"

lemma min_by_None: "min_by f xs = None \<longleftrightarrow> xs = []"
  by (cases xs) (auto split: option.splits)

lemma min_by_in: "min_by f xs = Some y \<Longrightarrow> y \<in> set xs"
  by (induction xs arbitrary: y) (auto split: option.splits if_splits)

lemma min_by_least: "min_by f xs = Some y \<Longrightarrow> x \<in> set xs \<Longrightarrow> f y \<le> f x"
  by (induction xs arbitrary: y) (force simp: min_by_None split: option.splits if_splits)+

text \<open>Lookup in a possibly absent table, and the default of an absent entry.\<close>

definition get_or :: "'v \<Rightarrow> ('k \<rightharpoonup> 'v) \<Rightarrow> 'k \<Rightarrow> 'v" where
  "get_or d m k = (case m k of None \<Rightarrow> d | Some v \<Rightarrow> v)"

definition nonempty :: "string option \<Rightarrow> string option" where
  "nonempty v = (case v of None \<Rightarrow> None | Some s \<Rightarrow> if s = [] then None else Some s)"

lemma nonempty_simps [simp]:
  "nonempty None = None" "nonempty (Some []) = None" "nonempty (Some (c # s)) = Some (c # s)"
  by (simp_all add: nonempty_def)

lemma nonempty_Some: "nonempty v = Some s \<longleftrightarrow> v = Some s \<and> s \<noteq> []"
  by (cases v) (auto simp: nonempty_def)

lemma get_or_simps [simp]: "m k = Some v \<Longrightarrow> get_or d m k = v" "m k = None \<Longrightarrow> get_or d m k = d"
  by (simp_all add: get_or_def)

end
