(* ===== verification/Store_Models.thy ===== *)
theory Store_Models
  imports Calls_Prelude
begin

text \<open>
  The shared vocabulary of \<^verbatim>\<open>common/control_store\<close>: the Redis key names and key builders of
  \<^verbatim>\<open>keys.rs\<close>, the records of \<^verbatim>\<open>models.rs\<close>, and the JSON text layer (serde_json on
  the Rust side, cjson inside the Redis server) as a parameter with its laws.
\<close>

section \<open>Keys\<close>

definition SIGNALING_NODES_KEY :: string where
  "SIGNALING_NODES_KEY = ''signaling:nodes''"
definition SIGNALING_INSTANCE_LOAD_KEY :: string where
  "SIGNALING_INSTANCE_LOAD_KEY = ''signaling:instance_load''"
definition SIGNALING_SESSION_PREFIX :: string where
  "SIGNALING_SESSION_PREFIX = ''signaling:session:''"
definition SIGNALING_NICK_PREFIX :: string where
  "SIGNALING_NICK_PREFIX = ''signaling:nick:''"
definition SIGNALING_ROOM_PREFIX :: string where
  "SIGNALING_ROOM_PREFIX = ''signaling:room:''"
definition SIGNALING_JTI_PREFIX :: string where
  "SIGNALING_JTI_PREFIX = ''signaling:jti:''"
definition ROOM_BINDING_PREFIX :: string where
  "ROOM_BINDING_PREFIX = ''room:''"
definition SFU_INSTANCES_KEY :: string where
  "SFU_INSTANCES_KEY = ''sfu:instances''"
definition SFU_ROOM_LOAD_KEY :: string where
  "SFU_ROOM_LOAD_KEY = ''sfu:room_load''"
definition SUPERVISOR_HEARTBEAT_KEY :: string where
  "SUPERVISOR_HEARTBEAT_KEY = ''supervisor:heartbeat''"

definition session_key :: "string \<Rightarrow> string" where
  "session_key session_id = SIGNALING_SESSION_PREFIX @ session_id"

definition session_lock_key :: "string \<Rightarrow> string" where
  "session_lock_key session_id = SIGNALING_SESSION_PREFIX @ session_id @ '':lock''"

definition nick_key :: "string \<Rightarrow> string" where
  "nick_key nickname = SIGNALING_NICK_PREFIX @ nickname"

definition room_members_key :: "string \<Rightarrow> string" where
  "room_members_key room_id = SIGNALING_ROOM_PREFIX @ room_id @ '':members''"

definition room_binding_key :: "string \<Rightarrow> string" where
  "room_binding_key room_id = ROOM_BINDING_PREFIX @ room_id @ '':binding''"

text \<open>The replay guard of the signaling service builds its key inline.\<close>

definition jti_key :: "string \<Rightarrow> string" where
  "jti_key jti = ''signaling:jti:'' @ jti"

lemmas key_name_defs = SIGNALING_NODES_KEY_def SIGNALING_INSTANCE_LOAD_KEY_def
  SIGNALING_SESSION_PREFIX_def SIGNALING_NICK_PREFIX_def SIGNALING_ROOM_PREFIX_def
  SIGNALING_JTI_PREFIX_def ROOM_BINDING_PREFIX_def SFU_INSTANCES_KEY_def SFU_ROOM_LOAD_KEY_def
  SUPERVISOR_HEARTBEAT_KEY_def

lemmas key_defs = key_name_defs session_key_def session_lock_key_def nick_key_def
  room_members_key_def room_binding_key_def jti_key_def

text \<open>Every builder is injective, and no two builders or names meet: the components share one key
  space without touching each other's keys. The session lock shares the session prefix, so only
  a session id that itself ends in \<^verbatim>\<open>:lock\<close> could collide.\<close>

lemma key_inj [simp]:
  "session_key a = session_key b \<longleftrightarrow> a = b"
  "session_lock_key a = session_lock_key b \<longleftrightarrow> a = b"
  "nick_key a = nick_key b \<longleftrightarrow> a = b"
  "room_members_key a = room_members_key b \<longleftrightarrow> a = b"
  "room_binding_key a = room_binding_key b \<longleftrightarrow> a = b"
  "jti_key a = jti_key b \<longleftrightarrow> a = b"
  by (simp_all add: key_defs)

lemma key_disjoint [simp]:
  "session_key a \<noteq> nick_key b" "nick_key b \<noteq> session_key a"
  "session_key a \<noteq> room_members_key b" "room_members_key b \<noteq> session_key a"
  "session_key a \<noteq> room_binding_key b" "room_binding_key b \<noteq> session_key a"
  "session_key a \<noteq> jti_key b" "jti_key b \<noteq> session_key a"
  "session_lock_key a \<noteq> nick_key b" "nick_key b \<noteq> session_lock_key a"
  "session_lock_key a \<noteq> room_members_key b" "room_members_key b \<noteq> session_lock_key a"
  "session_lock_key a \<noteq> room_binding_key b" "room_binding_key b \<noteq> session_lock_key a"
  "session_lock_key a \<noteq> jti_key b" "jti_key b \<noteq> session_lock_key a"
  "nick_key a \<noteq> room_members_key b" "room_members_key b \<noteq> nick_key a"
  "nick_key a \<noteq> room_binding_key b" "room_binding_key b \<noteq> nick_key a"
  "nick_key a \<noteq> jti_key b" "jti_key b \<noteq> nick_key a"
  "room_members_key a \<noteq> room_binding_key b" "room_binding_key b \<noteq> room_members_key a"
  "room_members_key a \<noteq> jti_key b" "jti_key b \<noteq> room_members_key a"
  "room_binding_key a \<noteq> jti_key b" "jti_key b \<noteq> room_binding_key a"
  by (simp_all add: key_defs)

lemma key_names_disjoint [simp]:
  "SFU_INSTANCES_KEY \<noteq> room_binding_key a" "room_binding_key a \<noteq> SFU_INSTANCES_KEY"
  "SFU_ROOM_LOAD_KEY \<noteq> room_binding_key a" "room_binding_key a \<noteq> SFU_ROOM_LOAD_KEY"
  "SFU_INSTANCES_KEY \<noteq> room_members_key a" "room_members_key a \<noteq> SFU_INSTANCES_KEY"
  "SFU_ROOM_LOAD_KEY \<noteq> room_members_key a" "room_members_key a \<noteq> SFU_ROOM_LOAD_KEY"
  "SFU_INSTANCES_KEY \<noteq> session_key a" "session_key a \<noteq> SFU_INSTANCES_KEY"
  "SFU_ROOM_LOAD_KEY \<noteq> session_key a" "session_key a \<noteq> SFU_ROOM_LOAD_KEY"
  "SFU_INSTANCES_KEY \<noteq> SFU_ROOM_LOAD_KEY" "SFU_ROOM_LOAD_KEY \<noteq> SFU_INSTANCES_KEY"
  "SIGNALING_NODES_KEY \<noteq> room_binding_key a" "room_binding_key a \<noteq> SIGNALING_NODES_KEY"
  "SIGNALING_NODES_KEY \<noteq> room_members_key a" "room_members_key a \<noteq> SIGNALING_NODES_KEY"
  "SIGNALING_NODES_KEY \<noteq> session_key a" "session_key a \<noteq> SIGNALING_NODES_KEY"
  "SIGNALING_NODES_KEY \<noteq> SFU_ROOM_LOAD_KEY" "SFU_ROOM_LOAD_KEY \<noteq> SIGNALING_NODES_KEY"
  "SIGNALING_NODES_KEY \<noteq> SFU_INSTANCES_KEY" "SFU_INSTANCES_KEY \<noteq> SIGNALING_NODES_KEY"
  "SIGNALING_NODES_KEY \<noteq> SIGNALING_INSTANCE_LOAD_KEY"
  "SIGNALING_INSTANCE_LOAD_KEY \<noteq> SIGNALING_NODES_KEY"
  "SIGNALING_INSTANCE_LOAD_KEY \<noteq> session_key a" "session_key a \<noteq> SIGNALING_INSTANCE_LOAD_KEY"
  "SIGNALING_INSTANCE_LOAD_KEY \<noteq> session_lock_key a" "session_lock_key a \<noteq> SIGNALING_INSTANCE_LOAD_KEY"
  "SIGNALING_INSTANCE_LOAD_KEY \<noteq> nick_key a" "nick_key a \<noteq> SIGNALING_INSTANCE_LOAD_KEY"
  "SIGNALING_INSTANCE_LOAD_KEY \<noteq> jti_key a" "jti_key a \<noteq> SIGNALING_INSTANCE_LOAD_KEY"
  "SIGNALING_INSTANCE_LOAD_KEY \<noteq> room_binding_key a" "room_binding_key a \<noteq> SIGNALING_INSTANCE_LOAD_KEY"
  "SIGNALING_INSTANCE_LOAD_KEY \<noteq> room_members_key a" "room_members_key a \<noteq> SIGNALING_INSTANCE_LOAD_KEY"
  "SIGNALING_INSTANCE_LOAD_KEY \<noteq> SFU_ROOM_LOAD_KEY" "SFU_ROOM_LOAD_KEY \<noteq> SIGNALING_INSTANCE_LOAD_KEY"
  "SIGNALING_INSTANCE_LOAD_KEY \<noteq> SFU_INSTANCES_KEY" "SFU_INSTANCES_KEY \<noteq> SIGNALING_INSTANCE_LOAD_KEY"
  "SUPERVISOR_HEARTBEAT_KEY \<noteq> room_binding_key a" "room_binding_key a \<noteq> SUPERVISOR_HEARTBEAT_KEY"
  "SUPERVISOR_HEARTBEAT_KEY \<noteq> session_key a" "session_key a \<noteq> SUPERVISOR_HEARTBEAT_KEY"
  by (simp_all add: key_defs)

lemma session_lock_collision:
  "session_key a = session_lock_key b \<longleftrightarrow> a = b @ '':lock''"
  by (simp add: key_defs)

section \<open>Records\<close>

record SfuInstance =
  instance_id :: string
  grpc_addr :: string
  max_rooms :: "32 word"
  alive :: bool
  state :: string
  last_ping_unix :: int
  idle_since_unix :: int

record SfuCandidate =
  cand_instance_id :: string
  cand_grpc_addr :: string
  cand_max_rooms :: "32 word"

record RoomBinding =
  rb_room_id :: string
  rb_owner_id :: string
  rb_owner_host :: string
  rb_owner_port :: "16 word"
  rb_state :: string
  rb_sfu_instance_id :: "string option"
  rb_sfu_grpc_addr :: "string option"

record SupervisorStatus =
  last_seen_unix :: int
  sup_instance_id :: "string option"

section \<open>The JSON text layer\<close>

text \<open>
  \<open>to_json\<close> and \<open>from_json\<close> are \<^verbatim>\<open>serde_json::to_string\<close> and
  \<^verbatim>\<open>serde_json::from_str\<close> at \<^typ>\<open>SfuInstance\<close> (absent: the text does not decode).
  \<open>json_set_idle i p\<close> parses \<open>p\<close> as a JSON value, assigns its field
  \<^verbatim>\<open>idle_since_unix\<close> and prints it again. \<open>cjson_decode\<close> and \<open>cjson_encode\<close> are
  the cjson library of the Lua interpreter inside Redis; a decoded table has the fields the script
  reads, two of them possibly absent.
\<close>

record lua_inst =
  lua_instance_id :: string
  lua_grpc_addr :: string
  lua_max_rooms :: "int option"
  lua_alive :: bool
  lua_state :: string
  lua_last_ping_unix :: "int option"
  lua_idle_since_unix :: int

record json_api =
  to_json :: "SfuInstance \<Rightarrow> string"
  from_json :: "string \<Rightarrow> SfuInstance option"
  json_set_idle :: "int \<Rightarrow> string \<Rightarrow> string option"
  cjson_decode :: "string \<Rightarrow> lua_inst option"
  cjson_encode :: "lua_inst \<Rightarrow> string"

definition lua_of_inst :: "SfuInstance \<Rightarrow> lua_inst" where
  "lua_of_inst i =
     \<lparr>lua_instance_id = instance_id i, lua_grpc_addr = grpc_addr i,
      lua_max_rooms = Some (uint (max_rooms i)), lua_alive = alive i, lua_state = state i,
      lua_last_ping_unix = Some (last_ping_unix i), lua_idle_since_unix = idle_since_unix i\<rparr>"

text \<open>The laws the services rely on: each layer reads back what either of them wrote.\<close>

locale json_layer =
  fixes J :: json_api
  assumes from_to: "from_json J (to_json J i) = Some i"
    and set_idle: "from_json J p = Some i \<Longrightarrow>
      \<exists>q. json_set_idle J t p = Some q \<and> from_json J q = Some (i\<lparr>idle_since_unix := t\<rparr>)"
    and cjson_reads: "from_json J p = Some i \<Longrightarrow> cjson_decode J p = Some (lua_of_inst i)"
    and cjson_writes: "from_json J (cjson_encode J (lua_of_inst i)) = Some i"

end
