(* ===== verification/Redis_Commands.thy ===== *)
theory Redis_Commands
  imports Store_Models
begin

text \<open>
  Redis as the services see it. \<open>cmd\<close> lists the commands the code issues; the server, the
  client crate, the connection and the operation time-outs are one parameter, the field \<open>redis\<close>
  of the environment record \<open>env\<close>. What the code relies on is stated over an abstract view of
  the server's keys: \<open>cmd_effect\<close> and \<open>cmd_reply\<close> write down the documented behaviour of each
  command, and the locales \<open>redis_server\<close> and \<open>redis_up\<close> say that the parameter behaves so.
  The two Lua scripts of the repository are translated here as well, since the server runs them.
\<close>

section \<open>Commands, replies, keys\<close>

datatype set_ttl = NoTtl | Ex nat | Px nat

record assign_args =
  k_instances :: string
  k_room_load :: string
  k_binding :: string
  a_room_id :: string
  a_owner_host :: string
  a_owner_port :: string
  a_owner_id :: string
  a_room_state :: string
  a_now :: int
  a_stale_after :: int

datatype cmd =
    Ping
  | Get string
  | SetNx string string set_ttl
  | Del string
  | Exists string
  | Expire string int
  | Hget string string
  | Hgetall string
  | Hset string string string
  | Hdel string string
  | Sadd string string
  | Srem string string
  | Scard string
  | Sismember string string
  | Smembers string
  | Zadd string string real
  | Zincr string string real
  | Zscore string string
  | Zrem string string
  | Zrange string
  | ZrangeWithscores string
  | Zrangebyscore string real
  | Zremrangebyscore string real
  | Scan "64 word" string nat
  | CompareAndDel string string
  | AssignRoom assign_args
  | Multi "cmd list"

datatype reply =
    NilReply
  | StatusReply string
  | IntReply int
  | BulkReply string
  | ListReply "string list"
  | HashReply "(string \<times> string) list"
  | ScoreReply real
  | ScoresReply "(string \<times> real) list"
  | ScanReply "64 word" "string list"
  | MultiReply

text \<open>\<open>OpTimeout\<close>: the operation's time-out fired while the command was awaited; \<open>RedisFailure\<close>:
  any other error of the crate (connection, server error reply, reply of an unexpected type).\<close>

datatype redis_error = OpTimeout | RedisFailure string

datatype rval =
    StrVal string
  | HashVal "string \<rightharpoonup> string"
  | SetVal "string set"
  | ZsetVal "string \<rightharpoonup> real"

text \<open>The live keys of the server, each with the time to live (milliseconds) it was last given.\<close>

type_synonym store = "string \<rightharpoonup> rval \<times> nat option"

definition ttl_of :: "store \<Rightarrow> string \<Rightarrow> nat option" where
  "ttl_of st k = (case st k of None \<Rightarrow> None | Some (_, t) \<Rightarrow> t)"

definition str_of :: "store \<Rightarrow> string \<Rightarrow> string option" where
  "str_of st k = (case st k of Some (StrVal v, _) \<Rightarrow> Some v | _ \<Rightarrow> None)"

definition hash_of :: "store \<Rightarrow> string \<Rightarrow> (string \<rightharpoonup> string)" where
  "hash_of st k = (case st k of Some (HashVal h, _) \<Rightarrow> h | _ \<Rightarrow> Map.empty)"

definition set_of :: "store \<Rightarrow> string \<Rightarrow> string set" where
  "set_of st k = (case st k of Some (SetVal s, _) \<Rightarrow> s | _ \<Rightarrow> {})"

definition zset_of :: "store \<Rightarrow> string \<Rightarrow> (string \<rightharpoonup> real)" where
  "zset_of st k = (case st k of Some (ZsetVal z, _) \<Rightarrow> z | _ \<Rightarrow> Map.empty)"

definition is_str :: "store \<Rightarrow> string \<Rightarrow> bool" where
  "is_str st k \<longleftrightarrow> (case st k of None \<Rightarrow> True | Some (StrVal _, _) \<Rightarrow> True | _ \<Rightarrow> False)"

definition is_hash :: "store \<Rightarrow> string \<Rightarrow> bool" where
  "is_hash st k \<longleftrightarrow> (case st k of None \<Rightarrow> True | Some (HashVal h, _) \<Rightarrow> h \<noteq> Map.empty | _ \<Rightarrow> False)"

definition is_set :: "store \<Rightarrow> string \<Rightarrow> bool" where
  "is_set st k \<longleftrightarrow> (case st k of None \<Rightarrow> True | Some (SetVal s, _) \<Rightarrow> s \<noteq> {} \<and> finite s | _ \<Rightarrow> False)"

definition is_zset :: "store \<Rightarrow> string \<Rightarrow> bool" where
  "is_zset st k \<longleftrightarrow> (case st k of None \<Rightarrow> True | Some (ZsetVal z, _) \<Rightarrow> z \<noteq> Map.empty | _ \<Rightarrow> False)"

text \<open>Writing a collection back keeps the key's time to live; an emptied collection is removed.\<close>

definition put_hash :: "string \<Rightarrow> (string \<rightharpoonup> string) \<Rightarrow> store \<Rightarrow> store" where
  "put_hash k h st = st(k := if h = Map.empty then None else Some (HashVal h, ttl_of st k))"

definition put_set :: "string \<Rightarrow> string set \<Rightarrow> store \<Rightarrow> store" where
  "put_set k s st = st(k := if s = {} then None else Some (SetVal s, ttl_of st k))"

definition put_zset :: "string \<Rightarrow> (string \<rightharpoonup> real) \<Rightarrow> store \<Rightarrow> store" where
  "put_zset k z st = st(k := if z = Map.empty then None else Some (ZsetVal z, ttl_of st k))"

lemma put_hash_view [simp]:
  "hash_of (put_hash k h st) k' = (if k' = k then h else hash_of st k')"
  "set_of (put_hash k h st) k' = (if k' = k then {} else set_of st k')"
  "zset_of (put_hash k h st) k' = (if k' = k then Map.empty else zset_of st k')"
  "str_of (put_hash k h st) k' = (if k' = k then None else str_of st k')"
  "is_hash (put_hash k h st) k' = (k' = k \<or> is_hash st k')"
  "k' \<noteq> k \<Longrightarrow> is_set (put_hash k h st) k' = is_set st k'"
  "k' \<noteq> k \<Longrightarrow> is_zset (put_hash k h st) k' = is_zset st k'"
  "k' \<noteq> k \<Longrightarrow> is_str (put_hash k h st) k' = is_str st k'"
  by (auto simp: put_hash_def hash_of_def set_of_def zset_of_def str_of_def is_hash_def is_set_def
      is_zset_def is_str_def)

lemma put_set_view [simp]:
  "hash_of (put_set k s st) k' = (if k' = k then Map.empty else hash_of st k')"
  "set_of (put_set k s st) k' = (if k' = k then s else set_of st k')"
  "zset_of (put_set k s st) k' = (if k' = k then Map.empty else zset_of st k')"
  "str_of (put_set k s st) k' = (if k' = k then None else str_of st k')"
  "is_set (put_set k s st) k' = (if k' = k then finite s else is_set st k')"
  "k' \<noteq> k \<Longrightarrow> is_hash (put_set k s st) k' = is_hash st k'"
  "k' \<noteq> k \<Longrightarrow> is_zset (put_set k s st) k' = is_zset st k'"
  "k' \<noteq> k \<Longrightarrow> is_str (put_set k s st) k' = is_str st k'"
  by (auto simp: put_set_def hash_of_def set_of_def zset_of_def str_of_def is_hash_def is_set_def
      is_zset_def is_str_def)

lemma put_zset_view [simp]:
  "hash_of (put_zset k z st) k' = (if k' = k then Map.empty else hash_of st k')"
  "set_of (put_zset k z st) k' = (if k' = k then {} else set_of st k')"
  "zset_of (put_zset k z st) k' = (if k' = k then z else zset_of st k')"
  "str_of (put_zset k z st) k' = (if k' = k then None else str_of st k')"
  "is_zset (put_zset k z st) k' = (k' = k \<or> is_zset st k')"
  "k' \<noteq> k \<Longrightarrow> is_hash (put_zset k z st) k' = is_hash st k'"
  "k' \<noteq> k \<Longrightarrow> is_set (put_zset k z st) k' = is_set st k'"
  "k' \<noteq> k \<Longrightarrow> is_str (put_zset k z st) k' = is_str st k'"
  by (auto simp: put_zset_def hash_of_def set_of_def zset_of_def str_of_def is_hash_def is_set_def
      is_zset_def is_str_def)

lemma del_view [simp]:
  "hash_of (st(k := None)) k' = (if k' = k then Map.empty else hash_of st k')"
  "set_of (st(k := None)) k' = (if k' = k then {} else set_of st k')"
  "zset_of (st(k := None)) k' = (if k' = k then Map.empty else zset_of st k')"
  "str_of (st(k := None)) k' = (if k' = k then None else str_of st k')"
  "is_hash (st(k := None)) k' = (k' = k \<or> is_hash st k')"
  "is_set (st(k := None)) k' = (k' = k \<or> is_set st k')"
  "is_zset (st(k := None)) k' = (k' = k \<or> is_zset st k')"
  "is_str (st(k := None)) k' = (k' = k \<or> is_str st k')"
  by (auto simp: hash_of_def set_of_def zset_of_def str_of_def is_hash_def is_set_def is_zset_def
      is_str_def)

lemma str_put_view [simp]:
  "hash_of (st(k \<mapsto> (StrVal v, t))) k' = (if k' = k then Map.empty else hash_of st k')"
  "set_of (st(k \<mapsto> (StrVal v, t))) k' = (if k' = k then {} else set_of st k')"
  "zset_of (st(k \<mapsto> (StrVal v, t))) k' = (if k' = k then Map.empty else zset_of st k')"
  "str_of (st(k \<mapsto> (StrVal v, t))) k' = (if k' = k then Some v else str_of st k')"
  "is_str (st(k \<mapsto> (StrVal v, t))) k' = (k' = k \<or> is_str st k')"
  "k' \<noteq> k \<Longrightarrow> is_hash (st(k \<mapsto> (StrVal v, t))) k' = is_hash st k'"
  "k' \<noteq> k \<Longrightarrow> is_set (st(k \<mapsto> (StrVal v, t))) k' = is_set st k'"
  "k' \<noteq> k \<Longrightarrow> is_zset (st(k \<mapsto> (StrVal v, t))) k' = is_zset st k'"
  by (auto simp: hash_of_def set_of_def zset_of_def str_of_def is_hash_def is_set_def is_zset_def
      is_str_def)

lemma put_other [simp]:
  "k' \<noteq> k \<Longrightarrow> put_hash k h st k' = st k'"
  "k' \<noteq> k \<Longrightarrow> put_set k s st k' = st k'"
  "k' \<noteq> k \<Longrightarrow> put_zset k z st k' = st k'"
  by (simp_all add: put_hash_def put_set_def put_zset_def)

lemma ttl_put [simp]:
  "ttl_of (put_hash k h st) k' = (if k' = k \<and> h = Map.empty then None else ttl_of st k')"
  "ttl_of (put_set k s st) k' = (if k' = k \<and> s = {} then None else ttl_of st k')"
  "ttl_of (put_zset k z st) k' = (if k' = k \<and> z = Map.empty then None else ttl_of st k')"
  by (auto simp: ttl_of_def put_hash_def put_set_def put_zset_def)

lemma put_hash_put_hash [simp]: "h' \<noteq> Map.empty \<Longrightarrow> put_hash k h (put_hash k h' st) = put_hash k h st"
  by (simp add: put_hash_def [of k h])  (simp add: put_hash_def)

lemma put_hash_exists [simp]: "put_hash k h st k = None \<longleftrightarrow> h = Map.empty"
  by (simp add: put_hash_def)

lemma typed_exists:
  "is_hash st k \<Longrightarrow> st k = None \<longleftrightarrow> hash_of st k = Map.empty"
  "is_set st k \<Longrightarrow> st k = None \<longleftrightarrow> set_of st k = {}"
  "is_zset st k \<Longrightarrow> st k = None \<longleftrightarrow> zset_of st k = Map.empty"
  "is_str st k \<Longrightarrow> st k = None \<longleftrightarrow> str_of st k = None"
  by (auto simp: is_hash_def is_set_def is_zset_def is_str_def hash_of_def set_of_def zset_of_def
      str_of_def split: option.splits rval.splits)

lemma is_set_finite: "is_set st k \<Longrightarrow> finite (set_of st k)"
  by (auto simp: is_set_def set_of_def split: option.splits rval.splits)

section \<open>The Lua scripts\<close>

text \<open>\<open>COMPARE_AND_DEL_LUA\<close> and \<open>ASSIGN_ROOM_TO_SFU_LUA\<close>. Redis runs a script without
  interruption; \<open>listing\<close> is the order in which \<^verbatim>\<open>HGETALL\<close> answers. A payload that cjson
  cannot decode raises, which the first component \<open>None\<close> stands for.\<close>

definition COMPARE_AND_DEL_LUA :: "string \<Rightarrow> string \<Rightarrow> store \<Rightarrow> int \<times> store" where
  "COMPARE_AND_DEL_LUA key arg st = (if str_of st key = Some arg then (1, st(key := None)) else (0, st))"

definition lua_eligible :: "int \<Rightarrow> int \<Rightarrow> real \<Rightarrow> lua_inst \<Rightarrow> bool" where
  "lua_eligible now stale_after load inst \<longleftrightarrow>
     lua_alive inst \<and> lua_state inst = ''ready''
     \<and> now - (case lua_last_ping_unix inst of None \<Rightarrow> 0 | Some t \<Rightarrow> t) \<le> stale_after
     \<and> load < of_int (case lua_max_rooms inst of None \<Rightarrow> 0 | Some m \<Rightarrow> m)"

fun lua_scan :: "json_api \<Rightarrow> (string \<rightharpoonup> real) \<Rightarrow> int \<Rightarrow> int \<Rightarrow> string list \<Rightarrow> (lua_inst \<times> real) option
    \<Rightarrow> (lua_inst \<times> real) option option" where
  "lua_scan J loads now stale_after [] best = Some best"
| "lua_scan J loads now stale_after (payload # ps) best =
     (case cjson_decode J payload of
        None \<Rightarrow> None
      | Some inst \<Rightarrow>
          (let load = get_or 0 loads (lua_instance_id inst)
           in lua_scan J loads now stale_after ps
                (if lua_eligible now stale_after load inst
                    \<and> (case best of None \<Rightarrow> True | Some (_, best_load) \<Rightarrow> load < best_load)
                 then Some (inst, load) else best)))"

definition ASSIGN_ROOM_TO_SFU_LUA ::
    "json_api \<Rightarrow> assign_args \<Rightarrow> (string \<times> string) list \<Rightarrow> store \<Rightarrow> (string list \<times> store) option" where
  "ASSIGN_ROOM_TO_SFU_LUA J a listing st =
     (case lua_scan J (zset_of st (k_room_load a)) (a_now a) (a_stale_after a) (map snd listing) None of
        None \<Rightarrow> None
      | Some None \<Rightarrow> Some ([], st)
      | Some (Some (best_payload, best_load)) \<Rightarrow>
          if st (k_binding a) \<noteq> None then Some ([''__ROOM_EXISTS__'', []], st)
          else
            let best_id = lua_instance_id best_payload;
                best_grpc = lua_grpc_addr best_payload;
                st1 = put_hash (k_binding a)
                  [''owner_host'' \<mapsto> a_owner_host a, ''owner_port'' \<mapsto> a_owner_port a,
                   ''signaling_owner_id'' \<mapsto> a_owner_id a, ''room_state'' \<mapsto> ''active'',
                   ''sfu_instance_id'' \<mapsto> best_id, ''sfu_grpc_addr'' \<mapsto> best_grpc] st;
                st2 = put_zset (k_room_load a)
                  ((zset_of st1 (k_room_load a))
                     (best_id \<mapsto> get_or 0 (zset_of st1 (k_room_load a)) best_id + 1)) st1;
                st3 = put_hash (k_instances a)
                  ((hash_of st2 (k_instances a))
                     (best_id \<mapsto> cjson_encode J (best_payload\<lparr>lua_idle_since_unix := 0\<rparr>))) st2
            in Some ([best_id, best_grpc], st3))"

section \<open>Documented behaviour of the commands\<close>

text \<open>A pattern of \<^verbatim>\<open>SCAN\<close>: the code's patterns use no special character but the star.\<close>

fun glob_match :: "string \<Rightarrow> string \<Rightarrow> bool" where
  "glob_match [] s = (s = [])"
| "glob_match (p # ps) [] = (p = CHR ''*'' \<and> glob_match ps [])"
| "glob_match (p # ps) (c # s) =
     (if p = CHR ''*'' then glob_match ps (c # s) \<or> glob_match (p # ps) s
      else p = c \<and> glob_match ps s)"

definition ttl_ms :: "set_ttl \<Rightarrow> nat option" where
  "ttl_ms t = (case t of NoTtl \<Rightarrow> None | Ex n \<Rightarrow> Some (1000 * n) | Px n \<Rightarrow> Some n)"

text \<open>Effect on the keys, for a command whose keys hold values of the right type. The script that
  assigns a room is treated below, since its effect depends on the listing order.\<close>

fun cmd_effect :: "cmd \<Rightarrow> store \<Rightarrow> store" where
  "cmd_effect (SetNx k v t) st = (if st k = None then st(k \<mapsto> (StrVal v, ttl_ms t)) else st)"
| "cmd_effect (Del k) st = st(k := None)"
| "cmd_effect (Expire k s) st =
     (case st k of None \<Rightarrow> st
      | Some (v, _) \<Rightarrow> if s \<le> 0 then st(k := None) else st(k \<mapsto> (v, Some (nat s * 1000))))"
| "cmd_effect (Hset k f v) st = put_hash k ((hash_of st k)(f \<mapsto> v)) st"
| "cmd_effect (Hdel k f) st = put_hash k ((hash_of st k)(f := None)) st"
| "cmd_effect (Sadd k m) st = put_set k (insert m (set_of st k)) st"
| "cmd_effect (Srem k m) st = put_set k (set_of st k - {m}) st"
| "cmd_effect (Zadd k m x) st = put_zset k ((zset_of st k)(m \<mapsto> x)) st"
| "cmd_effect (Zincr k m x) st = put_zset k ((zset_of st k)(m \<mapsto> get_or 0 (zset_of st k) m + x)) st"
| "cmd_effect (Zrem k m) st = put_zset k ((zset_of st k)(m := None)) st"
| "cmd_effect (Zremrangebyscore k hi) st =
     put_zset k (\<lambda>m. case zset_of st k m of None \<Rightarrow> None | Some x \<Rightarrow> if x \<le> hi then None else Some x) st"
| "cmd_effect (CompareAndDel k a) st = snd (COMPARE_AND_DEL_LUA k a st)"
| "cmd_effect (Multi cs) st = fold cmd_effect cs st"
| "cmd_effect _ st = st"

text \<open>Which replies are correct. Hashes and sets are listed without repetition in an order the server
  chooses; sorted sets are listed by score.\<close>

fun cmd_reply :: "cmd \<Rightarrow> store \<Rightarrow> reply \<Rightarrow> bool" where
  "cmd_reply Ping st r = (r = StatusReply ''PONG'')"
| "cmd_reply (Get k) st r = (r = (case str_of st k of None \<Rightarrow> NilReply | Some v \<Rightarrow> BulkReply v))"
| "cmd_reply (SetNx k v t) st r = (r = (if st k = None then StatusReply ''OK'' else NilReply))"
| "cmd_reply (Del k) st r = (r = IntReply (if st k = None then 0 else 1))"
| "cmd_reply (Exists k) st r = (r = IntReply (if st k = None then 0 else 1))"
| "cmd_reply (Expire k s) st r = (r = IntReply (if st k = None then 0 else 1))"
| "cmd_reply (Hget k f) st r = (r = (case hash_of st k f of None \<Rightarrow> NilReply | Some v \<Rightarrow> BulkReply v))"
| "cmd_reply (Hgetall k) st r = (\<exists>xs. r = HashReply xs \<and> distinct_keys xs \<and> map_of xs = hash_of st k)"
| "cmd_reply (Hset k f v) st r = (r = IntReply (if hash_of st k f = None then 1 else 0))"
| "cmd_reply (Hdel k f) st r = (r = IntReply (if hash_of st k f = None then 0 else 1))"
| "cmd_reply (Sadd k m) st r = (r = IntReply (if m \<in> set_of st k then 0 else 1))"
| "cmd_reply (Srem k m) st r = (r = IntReply (if m \<in> set_of st k then 1 else 0))"
| "cmd_reply (Scard k) st r = (r = IntReply (int (card (set_of st k))))"
| "cmd_reply (Sismember k m) st r = (r = IntReply (if m \<in> set_of st k then 1 else 0))"
| "cmd_reply (Smembers k) st r = (\<exists>xs. r = ListReply xs \<and> distinct xs \<and> set xs = set_of st k)"
| "cmd_reply (Zadd k m x) st r = (r = IntReply (if zset_of st k m = None then 1 else 0))"
| "cmd_reply (Zincr k m x) st r = (r = ScoreReply (get_or 0 (zset_of st k) m + x))"
| "cmd_reply (Zscore k m) st r = (r = (case zset_of st k m of None \<Rightarrow> NilReply | Some x \<Rightarrow> ScoreReply x))"
| "cmd_reply (Zrem k m) st r = (r = IntReply (if zset_of st k m = None then 0 else 1))"
| "cmd_reply (Zrange k) st r =
     (\<exists>xs. r = ListReply xs \<and> distinct xs \<and> set xs = dom (zset_of st k)
        \<and> sorted (map (get_or 0 (zset_of st k)) xs))"
| "cmd_reply (ZrangeWithscores k) st r =
     (\<exists>xs. r = ScoresReply xs \<and> distinct_keys xs \<and> map_of xs = zset_of st k \<and> sorted (map snd xs))"
| "cmd_reply (Zrangebyscore k lo) st r =
     (\<exists>xs. r = ListReply xs \<and> distinct xs
        \<and> set xs = {m. \<exists>x. zset_of st k m = Some x \<and> lo \<le> x}
        \<and> sorted (map (get_or 0 (zset_of st k)) xs))"
| "cmd_reply (Zremrangebyscore k hi) st r =
     (r = IntReply (int (card {m. \<exists>x. zset_of st k m = Some x \<and> x \<le> hi})))"
| "cmd_reply (Scan c p n) st r =
     (\<exists>c' ks. r = ScanReply c' ks \<and> set ks \<subseteq> {k. st k \<noteq> None \<and> glob_match p k})"
| "cmd_reply (CompareAndDel k a) st r = (r = IntReply (fst (COMPARE_AND_DEL_LUA k a st)))"
| "cmd_reply (Multi cs) st r = (r = MultiReply)"
| "cmd_reply (AssignRoom a) st r = False"

text \<open>A command is answered with its documented reply and effect.\<close>

definition cmd_doc :: "json_api \<Rightarrow> cmd \<Rightarrow> store \<Rightarrow> reply \<Rightarrow> store \<Rightarrow> bool" where
  "cmd_doc J c st r st' \<longleftrightarrow>
     (case c of
        AssignRoom a \<Rightarrow>
          (\<exists>listing res. distinct_keys listing \<and> map_of listing = hash_of st (k_instances a)
             \<and> ASSIGN_ROOM_TO_SFU_LUA J a listing st = Some (res, st') \<and> r = ListReply res)
      | _ \<Rightarrow> cmd_reply c st r \<and> st' = cmd_effect c st)"

text \<open>The keys a command touches hold values of the type it expects, so that the server does not
  answer with a type error; the script is given three different keys, and the payloads it reads
  decode. A script is not queued in a transaction.\<close>

definition is_assign :: "cmd \<Rightarrow> bool" where
  "is_assign c \<longleftrightarrow> (case c of AssignRoom _ \<Rightarrow> True | _ \<Rightarrow> False)"

fun cmd_typed :: "json_api \<Rightarrow> cmd \<Rightarrow> store \<Rightarrow> bool" where
  "cmd_typed J (Get k) st = is_str st k"
| "cmd_typed J (Hget k f) st = is_hash st k"
| "cmd_typed J (Hgetall k) st = is_hash st k"
| "cmd_typed J (Hset k f v) st = is_hash st k"
| "cmd_typed J (Hdel k f) st = is_hash st k"
| "cmd_typed J (Sadd k m) st = is_set st k"
| "cmd_typed J (Srem k m) st = is_set st k"
| "cmd_typed J (Scard k) st = is_set st k"
| "cmd_typed J (Sismember k m) st = is_set st k"
| "cmd_typed J (Smembers k) st = is_set st k"
| "cmd_typed J (Zadd k m x) st = is_zset st k"
| "cmd_typed J (Zincr k m x) st = is_zset st k"
| "cmd_typed J (Zscore k m) st = is_zset st k"
| "cmd_typed J (Zrem k m) st = is_zset st k"
| "cmd_typed J (Zrange k) st = is_zset st k"
| "cmd_typed J (ZrangeWithscores k) st = is_zset st k"
| "cmd_typed J (Zrangebyscore k lo) st = is_zset st k"
| "cmd_typed J (Zremrangebyscore k hi) st = is_zset st k"
| "cmd_typed J (CompareAndDel k a) st = is_str st k"
| "cmd_typed J (AssignRoom a) st =
     (distinct [k_instances a, k_room_load a, k_binding a]
      \<and> is_hash st (k_instances a) \<and> is_zset st (k_room_load a)
      \<and> (\<forall>p \<in> ran (hash_of st (k_instances a)). cjson_decode J p \<noteq> None))"
| "cmd_typed J (Multi []) st = True"
| "cmd_typed J (Multi (c # cs)) st =
     (\<not> is_assign c \<and> cmd_typed J c st \<and> cmd_typed J (Multi cs) (cmd_effect c st))"
| "cmd_typed J _ st = True"

end
