(* ===== verification/Redis_Client.thy ===== *)
theory Redis_Client
  imports Redis_Commands
begin

text \<open>
  The environment of a service as a record of parameters, the typed calls of the redis crate the
  code makes (a reply of another shape is an error of the crate), and the contract of the server
  as locales: \<open>redis_server\<close> for a server that may fail at any command, \<open>redis_up\<close> for one that
  answers, \<open>redis_scan\<close> for the guarantee of a complete \<^verbatim>\<open>SCAN\<close> iteration.
\<close>

section \<open>Environment\<close>

text \<open>
  \<open>'w\<close> is the world outside the process. \<open>redis\<close> runs one command, \<open>json\<close> is the text layer,
  \<open>unix_time\<close> the clock in seconds, \<open>new_uuid\<close> is \<^verbatim>\<open>Uuid::new_v4\<close> printed,
  \<open>scan_budget\<close> the number of \<^verbatim>\<open>SCAN\<close> round trips that fit into the time-out of one
  storage operation.
\<close>

record 'w env =
  redis :: "cmd \<Rightarrow> ('w, redis_error, reply) prog"
  json :: json_api
  unix_time :: "('w, int) act"
  new_uuid :: "('w, string) act"
  scan_budget :: nat

section \<open>Typed calls\<close>

definition type_error :: redis_error where
  "type_error = RedisFailure ''unexpected reply type''"

definition as_unit :: "reply \<Rightarrow> ('w, redis_error, unit) prog" where
  "as_unit r = okM ()"

definition as_int :: "reply \<Rightarrow> ('w, redis_error, int) prog" where
  "as_int r = (case r of IntReply i \<Rightarrow> okM i | _ \<Rightarrow> failM type_error)"

definition as_bool :: "reply \<Rightarrow> ('w, redis_error, bool) prog" where
  "as_bool r = (case r of IntReply i \<Rightarrow> okM (i \<noteq> 0) | _ \<Rightarrow> failM type_error)"

definition as_opt_string :: "reply \<Rightarrow> ('w, redis_error, string option) prog" where
  "as_opt_string r =
     (case r of NilReply \<Rightarrow> okM None | BulkReply v \<Rightarrow> okM (Some v) | StatusReply v \<Rightarrow> okM (Some v)
      | _ \<Rightarrow> failM type_error)"

definition as_string :: "reply \<Rightarrow> ('w, redis_error, string) prog" where
  "as_string r = (case r of BulkReply v \<Rightarrow> okM v | StatusReply v \<Rightarrow> okM v | _ \<Rightarrow> failM type_error)"

definition as_list :: "reply \<Rightarrow> ('w, redis_error, string list) prog" where
  "as_list r = (case r of ListReply xs \<Rightarrow> okM xs | _ \<Rightarrow> failM type_error)"

definition as_hash :: "reply \<Rightarrow> ('w, redis_error, (string \<times> string) list) prog" where
  "as_hash r = (case r of HashReply xs \<Rightarrow> okM xs | _ \<Rightarrow> failM type_error)"

definition as_opt_score :: "reply \<Rightarrow> ('w, redis_error, real option) prog" where
  "as_opt_score r =
     (case r of NilReply \<Rightarrow> okM None | ScoreReply x \<Rightarrow> okM (Some x) | _ \<Rightarrow> failM type_error)"

definition as_scores :: "reply \<Rightarrow> ('w, redis_error, (string \<times> real) list) prog" where
  "as_scores r = (case r of ScoresReply xs \<Rightarrow> okM xs | _ \<Rightarrow> failM type_error)"

definition as_scan :: "reply \<Rightarrow> ('w, redis_error, 64 word \<times> string list) prog" where
  "as_scan r = (case r of ScanReply c ks \<Rightarrow> okM (c, ks) | _ \<Rightarrow> failM type_error)"

lemmas as_defs = as_unit_def as_int_def as_bool_def as_opt_string_def as_string_def as_list_def
  as_hash_def as_opt_score_def as_scores_def as_scan_def

lemma as_state [simp]:
  "snd (as_unit r w) = w" "snd (as_int r w) = w" "snd (as_bool r w) = w" "snd (as_opt_string r w) = w"
  "snd (as_string r w) = w" "snd (as_list r w) = w" "snd (as_hash r w) = w" "snd (as_opt_score r w) = w"
  "snd (as_scores r w) = w" "snd (as_scan r w) = w"
  by (simp_all add: as_defs prog_simps split: reply.splits)

lemma as_result [simp]:
  "fst (as_unit r w) = Inr ()"
  "fst (as_int (IntReply i) w) = Inr i"
  "fst (as_bool (IntReply i) w) = Inr (i \<noteq> 0)"
  "fst (as_opt_string NilReply w) = Inr None" "fst (as_opt_string (BulkReply v) w) = Inr (Some v)"
  "fst (as_opt_string (StatusReply v) w) = Inr (Some v)"
  "fst (as_string (StatusReply v) w) = Inr v"
  "fst (as_list (ListReply xs) w) = Inr xs"
  "fst (as_hash (HashReply hs) w) = Inr hs"
  "fst (as_opt_score NilReply w) = Inr None" "fst (as_opt_score (ScoreReply x) w) = Inr (Some x)"
  "fst (as_scores (ScoresReply zs) w) = Inr zs"
  "fst (as_scan (ScanReply c ks) w) = Inr (c, ks)"
  by (simp_all add: as_defs prog_simps)

lemma cmd_doc_plain:
  "\<forall>a. c \<noteq> AssignRoom a \<Longrightarrow> cmd_doc J c st r st' \<longleftrightarrow> cmd_reply c st r \<and> st' = cmd_effect c st"
  by (cases c) (simp_all add: cmd_doc_def)

definition call :: "('w, 'z) env_scheme \<Rightarrow> cmd \<Rightarrow> (reply \<Rightarrow> ('w, redis_error, 'a) prog)
    \<Rightarrow> ('w, redis_error, 'a) prog" where
  "call E c conv = tryM (redis E c) conv"

section \<open>The contract\<close>

locale redis_server =
  fixes E :: "('w, 'z) env_scheme" and view :: "'w \<Rightarrow> store"
  assumes answered: "fst (redis E c w) = Inr r \<Longrightarrow> cmd_doc (json E) c (view w) r (view (snd (redis E c w)))"
    and unanswered: "fst (redis E c w) = Inl e \<Longrightarrow>
      view (snd (redis E c w)) = view w \<or> (\<exists>r. cmd_doc (json E) c (view w) r (view (snd (redis E c w))))"
    and clock_view: "view (snd (unix_time E w)) = view w"
    and uuid_view: "view (snd (new_uuid E w)) = view w"
begin

lemma call_answered:
  assumes "fst (call E c conv w) = Inr x"
  obtains r where "fst (redis E c w) = Inr r" "fst (conv r (snd (redis E c w))) = Inr x"
    "cmd_doc (json E) c (view w) r (view (snd (redis E c w)))"
  using assms answered by (auto simp: call_def prog_simps split: sum.splits)

lemma read_view:
  assumes "\<forall>a. c \<noteq> AssignRoom a" and "cmd_effect c (view w) = view w"
  shows "view (snd (redis E c w)) = view w"
  using assms answered [of c w] unanswered [of c w]
  by (cases "fst (redis E c w)") (auto simp: cmd_doc_plain)

end

locale redis_up = redis_server +
  assumes available: "cmd_typed (json E) c (view w) \<Longrightarrow> \<exists>r. fst (redis E c w) = Inr r"
begin

lemma run:
  assumes "cmd_typed (json E) c (view w)"
  obtains r where "fst (redis E c w) = Inr r"
    "cmd_doc (json E) c (view w) r (view (snd (redis E c w)))"
  using available [OF assms] answered by blast

lemma call_plain:
  assumes "cmd_typed (json E) c (view w)" "\<forall>a. c \<noteq> AssignRoom a" "\<forall>r v. snd (conv r v) = v"
    and "\<forall>r v. cmd_reply c (view w) r \<longrightarrow> (\<exists>x. fst (conv r v) = Inr x \<and> P x)"
  obtains x where "fst (call E c conv w) = Inr x" "P x"
    "view (snd (call E c conv w)) = cmd_effect c (view w)"
proof -
  obtain r where r: "fst (redis E c w) = Inr r"
    "cmd_doc (json E) c (view w) r (view (snd (redis E c w)))"
    using run [OF assms(1)] by blast
  then have d: "cmd_reply c (view w) r" "view (snd (redis E c w)) = cmd_effect c (view w)"
    using assms(2) by (simp_all add: cmd_doc_plain)
  from d(1) assms(4) r(1) obtain x where "fst (call E c conv w) = Inr x" "P x"
    by (auto simp add: call_def prog_simps)
  moreover from d(2) r(1) have "view (snd (call E c conv w)) = cmd_effect c (view w)"
    by (simp add: call_def prog_simps assms(3))
  ultimately show ?thesis by (rule that)
qed

lemma call_exact:
  assumes "cmd_typed (json E) c (view w)" "\<forall>a. c \<noteq> AssignRoom a" "\<forall>r v. snd (conv r v) = v"
    and "\<forall>r v. cmd_reply c (view w) r \<longrightarrow> fst (conv r v) = Inr x"
  shows "fst (call E c conv w) = Inr x" "view (snd (call E c conv w)) = cmd_effect c (view w)"
  by (rule call_plain [of c w conv "\<lambda>y. y = x"]; use assms in auto)+

text \<open>One evaluation rule per call: the result, and the keys afterwards.\<close>

lemma call_ping:
  shows "fst (call E Ping as_string w) = Inr (''PONG'')"
    "view (snd (call E Ping as_string w)) = view w"
  using call_exact [of "Ping" w as_string "''PONG''"]
  by (auto split: option.splits)

lemma call_get:
  assumes "is_str (view w) k"
  shows "fst (call E (Get k) as_opt_string w) = Inr (str_of (view w) k)"
    "view (snd (call E (Get k) as_opt_string w)) = view w"
  using call_exact [of "Get k" w as_opt_string "str_of (view w) k"] assms
  by (auto split: option.splits)

lemma call_setnx:
  shows "fst (call E (SetNx k v t) as_opt_string w) = Inr (if view w k = None then Some ''OK'' else None)"
    "view (snd (call E (SetNx k v t) as_opt_string w)) = cmd_effect (SetNx k v t) (view w)"
  using call_exact [of "SetNx k v t" w as_opt_string "if view w k = None then Some ''OK'' else None"]
  by (auto split: option.splits)

lemma call_del:
  shows "fst (call E (Del k) as_int w) = Inr (if view w k = None then 0 else 1)"
    "view (snd (call E (Del k) as_int w)) = (view w)(k := None)"
  using call_exact [of "Del k" w as_int "if view w k = None then 0 else 1"]
  by (auto split: option.splits)

lemma call_exists:
  shows "fst (call E (Exists k) as_bool w) = Inr (view w k \<noteq> None)"
    "view (snd (call E (Exists k) as_bool w)) = view w"
  using call_exact [of "Exists k" w as_bool "view w k \<noteq> None"]
  by (auto split: option.splits)

lemma call_expire:
  shows "fst (call E (Expire k s) as_bool w) = Inr (view w k \<noteq> None)"
    "view (snd (call E (Expire k s) as_bool w)) = cmd_effect (Expire k s) (view w)"
  using call_exact [of "Expire k s" w as_bool "view w k \<noteq> None"]
  by (auto split: option.splits)

lemma call_hget:
  assumes "is_hash (view w) k"
  shows "fst (call E (Hget k f) as_opt_string w) = Inr (hash_of (view w) k f)"
    "view (snd (call E (Hget k f) as_opt_string w)) = view w"
  using call_exact [of "Hget k f" w as_opt_string "hash_of (view w) k f"] assms
  by (auto split: option.splits)

lemma call_hset:
  assumes "is_hash (view w) k"
  shows "fst (call E (Hset k f v) as_int w) = Inr (if hash_of (view w) k f = None then 1 else 0)"
    "view (snd (call E (Hset k f v) as_int w)) = put_hash k ((hash_of (view w) k)(f \<mapsto> v)) (view w)"
  using call_exact [of "Hset k f v" w as_int "if hash_of (view w) k f = None then 1 else 0"] assms
  by (auto split: option.splits)

lemma call_sadd:
  assumes "is_set (view w) k"
  shows "fst (call E (Sadd k m) as_int w) = Inr (if m \<in> set_of (view w) k then 0 else 1)"
    "view (snd (call E (Sadd k m) as_int w)) = put_set k (insert m (set_of (view w) k)) (view w)"
  using call_exact [of "Sadd k m" w as_int "if m \<in> set_of (view w) k then 0 else 1"] assms
  by (auto split: option.splits)

lemma call_srem:
  assumes "is_set (view w) k"
  shows "fst (call E (Srem k m) as_int w) = Inr (if m \<in> set_of (view w) k then 1 else 0)"
    "view (snd (call E (Srem k m) as_int w)) = put_set k (set_of (view w) k - {m}) (view w)"
  using call_exact [of "Srem k m" w as_int "if m \<in> set_of (view w) k then 1 else 0"] assms
  by (auto split: option.splits)

lemma call_scard:
  assumes "is_set (view w) k"
  shows "fst (call E (Scard k) as_int w) = Inr (int (card (set_of (view w) k)))"
    "view (snd (call E (Scard k) as_int w)) = view w"
  using call_exact [of "Scard k" w as_int "int (card (set_of (view w) k))"] assms
  by (auto split: option.splits)

lemma call_sismember:
  assumes "is_set (view w) k"
  shows "fst (call E (Sismember k m) as_bool w) = Inr (m \<in> set_of (view w) k)"
    "view (snd (call E (Sismember k m) as_bool w)) = view w"
  using call_exact [of "Sismember k m" w as_bool "m \<in> set_of (view w) k"] assms
  by (auto split: option.splits)

lemma call_zadd:
  assumes "is_zset (view w) k"
  shows "fst (call E (Zadd k m x) as_int w) = Inr (if zset_of (view w) k m = None then 1 else 0)"
    "view (snd (call E (Zadd k m x) as_int w)) = put_zset k ((zset_of (view w) k)(m \<mapsto> x)) (view w)"
  using call_exact [of "Zadd k m x" w as_int "if zset_of (view w) k m = None then 1 else 0"] assms
  by (auto split: option.splits)

lemma call_zincr:
  assumes "is_zset (view w) k"
  shows "fst (call E (Zincr k m x) as_opt_score w) = Inr (Some (get_or 0 (zset_of (view w) k) m + x))"
    "view (snd (call E (Zincr k m x) as_opt_score w)) = put_zset k ((zset_of (view w) k)(m \<mapsto> get_or 0 (zset_of (view w) k) m + x)) (view w)"
  using call_exact [of "Zincr k m x" w as_opt_score "Some (get_or 0 (zset_of (view w) k) m + x)"] assms
  by (auto split: option.splits)

lemma call_zscore:
  assumes "is_zset (view w) k"
  shows "fst (call E (Zscore k m) as_opt_score w) = Inr (zset_of (view w) k m)"
    "view (snd (call E (Zscore k m) as_opt_score w)) = view w"
  using call_exact [of "Zscore k m" w as_opt_score "zset_of (view w) k m"] assms
  by (auto split: option.splits)

lemma call_zrem:
  assumes "is_zset (view w) k"
  shows "fst (call E (Zrem k m) as_int w) = Inr (if zset_of (view w) k m = None then 0 else 1)"
    "view (snd (call E (Zrem k m) as_int w)) = put_zset k ((zset_of (view w) k)(m := None)) (view w)"
  using call_exact [of "Zrem k m" w as_int "if zset_of (view w) k m = None then 0 else 1"] assms
  by (auto split: option.splits)

lemma call_compare_and_del:
  assumes "is_str (view w) k"
  shows "fst (call E (CompareAndDel k a) as_int w) = Inr (fst (COMPARE_AND_DEL_LUA k a (view w)))"
    "view (snd (call E (CompareAndDel k a) as_int w)) = snd (COMPARE_AND_DEL_LUA k a (view w))"
  using call_exact [of "CompareAndDel k a" w as_int "fst (COMPARE_AND_DEL_LUA k a (view w))"] assms
  by (auto split: option.splits)

lemma call_hgetall:
  assumes "is_hash (view w) k"
  obtains xs where "fst (call E (Hgetall k) as_hash w) = Inr xs"
    "distinct_keys xs" "map_of xs = hash_of (view w) k"
    "view (snd (call E (Hgetall k) as_hash w)) = view w"
  by (rule call_plain [of "Hgetall k" w as_hash "\<lambda>xs. distinct_keys xs \<and> map_of xs = hash_of (view w) k"]) (use assms that in auto)

lemma call_smembers:
  assumes "is_set (view w) k"
  obtains xs where "fst (call E (Smembers k) as_list w) = Inr xs"
    "distinct xs" "set xs = set_of (view w) k"
    "view (snd (call E (Smembers k) as_list w)) = view w"
  by (rule call_plain [of "Smembers k" w as_list "\<lambda>xs. distinct xs \<and> set xs = set_of (view w) k"]) (use assms that in auto)

lemma call_zrange:
  assumes "is_zset (view w) k"
  obtains xs where "fst (call E (Zrange k) as_list w) = Inr xs"
    "distinct xs" "set xs = dom (zset_of (view w) k)"
    "view (snd (call E (Zrange k) as_list w)) = view w"
  by (rule call_plain [of "Zrange k" w as_list "\<lambda>xs. distinct xs \<and> set xs = dom (zset_of (view w) k)"]) (use assms that in auto)

lemma call_zrange_withscores:
  assumes "is_zset (view w) k"
  obtains xs where "fst (call E (ZrangeWithscores k) as_scores w) = Inr xs"
    "distinct_keys xs" "map_of xs = zset_of (view w) k"
    "view (snd (call E (ZrangeWithscores k) as_scores w)) = view w"
  by (rule call_plain [of "ZrangeWithscores k" w as_scores "\<lambda>xs. distinct_keys xs \<and> map_of xs = zset_of (view w) k"]) (use assms that in auto)

lemma call_zrangebyscore:
  assumes "is_zset (view w) k"
  obtains xs where "fst (call E (Zrangebyscore k lo) as_list w) = Inr xs"
    "distinct xs" "set xs = {m. \<exists>x. zset_of (view w) k m = Some x \<and> lo \<le> x}"
    "view (snd (call E (Zrangebyscore k lo) as_list w)) = view w"
  by (rule call_plain [of "Zrangebyscore k lo" w as_list "\<lambda>xs. distinct xs \<and> set xs = {m. \<exists>x. zset_of (view w) k m = Some x \<and> lo \<le> x}"]) (use assms that in auto)

lemma call_zremrangebyscore:
  assumes "is_zset (view w) k"
  obtains n where "fst (call E (Zremrangebyscore k hi) as_int w) = Inr n"
    "view (snd (call E (Zremrangebyscore k hi) as_int w)) = cmd_effect (Zremrangebyscore k hi) (view w)"
  by (rule call_plain [of "Zremrangebyscore k hi" w as_int "\<lambda>_. True"]) (use assms that in auto)

lemma call_multi:
  assumes "cmd_typed (json E) (Multi cs) (view w)"
  shows "fst (call E (Multi cs) as_unit w) = Inr ()"
    "view (snd (call E (Multi cs) as_unit w)) = fold cmd_effect cs (view w)"
  using call_exact [of "Multi cs" w as_unit "()"] assms by auto

lemma call_assign_room:
  assumes "cmd_typed (json E) (AssignRoom a) (view w)"
  obtains listing res where "fst (call E (AssignRoom a) as_list w) = Inr res"
    "distinct_keys listing" "map_of listing = hash_of (view w) (k_instances a)"
    "ASSIGN_ROOM_TO_SFU_LUA (json E) a listing (view w) =
       Some (res, view (snd (call E (AssignRoom a) as_list w)))"
  by (rule run [OF assms]) (auto simp add: call_def prog_simps as_defs cmd_doc_def intro!: that)

lemmas redis_eval = call_ping call_get call_setnx call_del call_exists call_expire call_hget call_hset
  call_sadd call_srem call_scard call_sismember call_zadd call_zincr call_zscore call_zrem
  call_compare_and_del call_multi clock_view uuid_view

end

section \<open>Complete iterations\<close>

text \<open>
  \<open>scan_pages E p c w pages w'\<close>: starting at cursor \<open>c\<close>, successive \<^verbatim>\<open>SCAN\<close> calls with pattern
  \<open>p\<close> answer \<open>pages\<close>, the last with cursor 0.
\<close>

inductive scan_pages :: "('w, 'z) env_scheme \<Rightarrow> string \<Rightarrow> 64 word \<Rightarrow> 'w \<Rightarrow> string list list \<Rightarrow> 'w \<Rightarrow> bool"
  for E p where
  last_page: "redis E (Scan c p 200) w = (Inr (ScanReply 0 ks), w') \<Longrightarrow> scan_pages E p c w [ks] w'"
| next_page: "redis E (Scan c p 200) w = (Inr (ScanReply c' ks), w1) \<Longrightarrow> c' \<noteq> 0
    \<Longrightarrow> scan_pages E p c' w1 pages w' \<Longrightarrow> scan_pages E p c w (ks # pages) w'"

text \<open>A full iteration returns every key that is present throughout, possibly several times; with
  no write in between these are exactly the matching keys. It fits into the operation's time-out.\<close>

locale redis_scan = redis_up +
  assumes complete_scan: "\<exists>pages w'. scan_pages E p 0 w pages w' \<and> length pages \<le> scan_budget E
      \<and> set (concat pages) = {k. view w k \<noteq> None \<and> glob_match p k} \<and> view w' = view w"

end
