(* ===== verification/Redis_Memory.thy ===== *)
theory Redis_Memory
  imports Redis_Client
begin

text \<open>
  An executable Redis server and JSON layer that meet the contracts of \<open>Redis_Client\<close> and
  \<open>Store_Models\<close>: the interpretations show that the hypotheses the theorems make about the server
  can be met, and the witnesses of the development evaluate the services against it.
\<close>

section \<open>A JSON layer\<close>

definition enc_str :: "string \<Rightarrow> string" where
  "enc_str s = concat (map (\<lambda>c. [CHR ''.'', c]) s) @ ''!''"

fun dec_str :: "string \<Rightarrow> (string \<times> string) option" where
  "dec_str [] = None"
| "dec_str [c] = (if c = CHR ''!'' then Some ([], []) else None)"
| "dec_str (c # d # s) =
     (if c = CHR ''!'' then Some ([], d # s)
      else if c = CHR ''.'' then (case dec_str s of None \<Rightarrow> None | Some (x, r) \<Rightarrow> Some (d # x, r))
      else None)"

lemma dec_enc_str: "dec_str (enc_str s @ r) = Some (s, r)"
  by (induction s) (cases r, auto simp: enc_str_def)

definition dec_int :: "string \<Rightarrow> int option" where
  "dec_int s = (case s of [] \<Rightarrow> None
     | c # r \<Rightarrow> if c = CHR ''-'' then map_option (\<lambda>n. - int n) (digits_value r)
                else map_option int (digits_value s))"

lemma dec_show_int: "dec_int (show_int i) = Some i"
proof (cases "i < 0")
  case True
  then show ?thesis by (simp add: dec_int_def show_int_def digits_value_show_nat)
next
  case False
  obtain c r where c: "show_nat (nat i) = c # r" "is_digit c" using show_nat_head by blast
  have "digits_value (c # r) = Some (nat i)" using digits_value_show_nat [of "nat i"] c by simp
  then show ?thesis using False c digit_not_sign [of c] by (simp add: dec_int_def show_int_def)
qed

definition mem_to_json :: "SfuInstance \<Rightarrow> string" where
  "mem_to_json i =
     enc_str (instance_id i) @ enc_str (grpc_addr i) @ enc_str (show_int (uint (max_rooms i)))
     @ enc_str (if alive i then ''t'' else ''f'') @ enc_str (state i)
     @ enc_str (show_int (last_ping_unix i)) @ enc_str (show_int (idle_since_unix i))"

fun dec_fields :: "nat \<Rightarrow> string \<Rightarrow> string list option" where
  "dec_fields 0 s = (if s = [] then Some [] else None)"
| "dec_fields (Suc n) s =
     (case dec_str s of None \<Rightarrow> None
      | Some (x, r) \<Rightarrow> (case dec_fields n r of None \<Rightarrow> None | Some xs \<Rightarrow> Some (x # xs)))"

definition mem_from_json :: "string \<Rightarrow> SfuInstance option" where
  "mem_from_json s =
     (case dec_fields 7 s of
        Some [i, g, m, a, st, p, t] \<Rightarrow>
          (case (dec_int m, dec_int p, dec_int t) of
             (Some m', Some p', Some t') \<Rightarrow>
               Some \<lparr>instance_id = i, grpc_addr = g, max_rooms = of_int m', alive = (a = ''t''),
                     state = st, last_ping_unix = p', idle_since_unix = t'\<rparr>
           | _ \<Rightarrow> None)
      | _ \<Rightarrow> None)"

lemma enc_str_last: "dec_str (enc_str s) = Some (s, [])"
  using dec_enc_str [of s "[]"] by simp

lemma mem_from_to_json: "mem_from_json (mem_to_json i) = Some i"
  by (simp add: mem_from_json_def mem_to_json_def eval_nat_numeral dec_enc_str enc_str_last dec_show_int)

definition inst_of_lua :: "lua_inst \<Rightarrow> SfuInstance" where
  "inst_of_lua t =
     \<lparr>instance_id = lua_instance_id t, grpc_addr = lua_grpc_addr t,
      max_rooms = of_int (case lua_max_rooms t of None \<Rightarrow> 0 | Some m \<Rightarrow> m), alive = lua_alive t,
      state = lua_state t, last_ping_unix = (case lua_last_ping_unix t of None \<Rightarrow> 0 | Some p \<Rightarrow> p),
      idle_since_unix = lua_idle_since_unix t\<rparr>"

definition mem_json :: json_api where
  "mem_json =
     \<lparr>to_json = mem_to_json, from_json = mem_from_json,
      json_set_idle = (\<lambda>t p. case mem_from_json p of None \<Rightarrow> None
         | Some i \<Rightarrow> Some (mem_to_json (i\<lparr>idle_since_unix := t\<rparr>))),
      cjson_decode = (\<lambda>p. map_option lua_of_inst (mem_from_json p)),
      cjson_encode = (\<lambda>t. mem_to_json (inst_of_lua t))\<rparr>"

lemma inst_of_lua_of_inst: "inst_of_lua (lua_of_inst i) = i"
  by (simp add: inst_of_lua_def lua_of_inst_def)

interpretation mem_text: json_layer mem_json
  by unfold_locales (auto simp: mem_json_def mem_from_to_json inst_of_lua_of_inst)

section \<open>A server\<close>

datatype mval = MStr string | MHash "(string \<times> string) list" | MSet "string list"
  | MZset "(string \<times> real) list"

type_synonym keyspace = "(string \<times> (mval \<times> nat option)) list"

fun abs_val :: "mval \<Rightarrow> rval" where
  "abs_val (MStr v) = StrVal v"
| "abs_val (MHash xs) = HashVal (map_of xs)"
| "abs_val (MSet xs) = SetVal (set xs)"
| "abs_val (MZset xs) = ZsetVal (map_of xs)"

definition kview :: "keyspace \<Rightarrow> store" where
  "kview ks = (\<lambda>k. case map_of ks k of None \<Rightarrow> None | Some (v, t) \<Rightarrow> Some (abs_val v, t))"

definition m_ttl :: "keyspace \<Rightarrow> string \<Rightarrow> nat option" where
  "m_ttl ks k = (case map_of ks k of None \<Rightarrow> None | Some (_, t) \<Rightarrow> t)"

definition m_str :: "keyspace \<Rightarrow> string \<Rightarrow> string option option" where
  "m_str ks k = (case map_of ks k of None \<Rightarrow> Some None | Some (MStr v, _) \<Rightarrow> Some (Some v) | _ \<Rightarrow> None)"

definition m_hash :: "keyspace \<Rightarrow> string \<Rightarrow> (string \<times> string) list option" where
  "m_hash ks k = (case map_of ks k of None \<Rightarrow> Some []
     | Some (MHash xs, _) \<Rightarrow> if xs = [] then None else Some xs | _ \<Rightarrow> None)"

definition m_set :: "keyspace \<Rightarrow> string \<Rightarrow> string list option" where
  "m_set ks k = (case map_of ks k of None \<Rightarrow> Some []
     | Some (MSet xs, _) \<Rightarrow> if xs = [] then None else Some xs | _ \<Rightarrow> None)"

definition m_zset :: "keyspace \<Rightarrow> string \<Rightarrow> (string \<times> real) list option" where
  "m_zset ks k = (case map_of ks k of None \<Rightarrow> Some []
     | Some (MZset xs, _) \<Rightarrow> if xs = [] then None else Some xs | _ \<Rightarrow> None)"

definition m_put :: "string \<Rightarrow> bool \<Rightarrow> mval \<Rightarrow> keyspace \<Rightarrow> keyspace" where
  "m_put k gone v ks = (if gone then AList.delete k ks else AList.update k (v, m_ttl ks k) ks)"

definition wrong_type :: redis_error where
  "wrong_type = RedisFailure ''WRONGTYPE''"

definition on_str :: "keyspace \<Rightarrow> string \<Rightarrow> (string option \<Rightarrow> reply \<times> keyspace)
    \<Rightarrow> (redis_error + reply) \<times> keyspace" where
  "on_str ks k f = (case m_str ks k of None \<Rightarrow> (Inl wrong_type, ks)
     | Some v \<Rightarrow> (Inr (fst (f v)), snd (f v)))"

definition on_hash :: "keyspace \<Rightarrow> string \<Rightarrow> ((string \<times> string) list \<Rightarrow> reply \<times> keyspace)
    \<Rightarrow> (redis_error + reply) \<times> keyspace" where
  "on_hash ks k f = (case m_hash ks k of None \<Rightarrow> (Inl wrong_type, ks)
     | Some v \<Rightarrow> (Inr (fst (f v)), snd (f v)))"

definition on_set :: "keyspace \<Rightarrow> string \<Rightarrow> (string list \<Rightarrow> reply \<times> keyspace)
    \<Rightarrow> (redis_error + reply) \<times> keyspace" where
  "on_set ks k f = (case m_set ks k of None \<Rightarrow> (Inl wrong_type, ks)
     | Some v \<Rightarrow> (Inr (fst (f v)), snd (f v)))"

definition on_zset :: "keyspace \<Rightarrow> string \<Rightarrow> ((string \<times> real) list \<Rightarrow> reply \<times> keyspace)
    \<Rightarrow> (redis_error + reply) \<times> keyspace" where
  "on_zset ks k f = (case m_zset ks k of None \<Rightarrow> (Inl wrong_type, ks)
     | Some v \<Rightarrow> (Inr (fst (f v)), snd (f v)))"

definition m_int :: "bool \<Rightarrow> reply" where
  "m_int b = IntReply (if b then 1 else 0)"

definition mem_assign :: "json_api \<Rightarrow> assign_args \<Rightarrow> keyspace \<Rightarrow> (redis_error + reply) \<times> keyspace" where
  "mem_assign J a ks =
     (case (m_hash ks (k_instances a), m_zset ks (k_room_load a)) of
        (Some insts, Some loads) \<Rightarrow>
          (case lua_scan J (map_of loads) (a_now a) (a_stale_after a)
                  (map snd (AList.clearjunk insts)) None of
             None \<Rightarrow> (Inl (RedisFailure ''cjson''), ks)
           | Some None \<Rightarrow> (Inr (ListReply []), ks)
           | Some (Some (best, _)) \<Rightarrow>
               if \<not> distinct [k_instances a, k_room_load a, k_binding a] then (Inl wrong_type, ks)
               else if map_of ks (k_binding a) \<noteq> None then (Inr (ListReply [''__ROOM_EXISTS__'', []]), ks)
               else
                 let best_id = lua_instance_id best;
                     ks1 = m_put (k_binding a) False (MHash
                       [(''sfu_grpc_addr'', lua_grpc_addr best), (''sfu_instance_id'', best_id),
                        (''room_state'', ''active''), (''signaling_owner_id'', a_owner_id a),
                        (''owner_port'', a_owner_port a), (''owner_host'', a_owner_host a)]) ks;
                     ks2 = (case m_zset ks1 (k_room_load a) of None \<Rightarrow> ks1
                       | Some z \<Rightarrow> m_put (k_room_load a) False
                           (MZset (AList.update best_id (get_or 0 (map_of z) best_id + 1) z)) ks1);
                     ks3 = (case m_hash ks2 (k_instances a) of None \<Rightarrow> ks2
                       | Some h \<Rightarrow> m_put (k_instances a) False
                           (MHash (AList.update best_id
                              (cjson_encode J (best\<lparr>lua_idle_since_unix := 0\<rparr>)) h)) ks2)
                 in (Inr (ListReply [best_id, lua_grpc_addr best]), ks3))
      | _ \<Rightarrow> (Inl wrong_type, ks))"

fun mem_cmd :: "json_api \<Rightarrow> cmd \<Rightarrow> keyspace \<Rightarrow> (redis_error + reply) \<times> keyspace" where
  "mem_cmd J Ping ks = (Inr (StatusReply ''PONG''), ks)"
| "mem_cmd J (Get k) ks =
     on_str ks k (\<lambda>v. (case v of None \<Rightarrow> NilReply | Some x \<Rightarrow> BulkReply x, ks))"
| "mem_cmd J (SetNx k v t) ks =
     (if map_of ks k = None then (Inr (StatusReply ''OK''), AList.update k (MStr v, ttl_ms t) ks)
      else (Inr NilReply, ks))"
| "mem_cmd J (Del k) ks = (Inr (m_int (map_of ks k \<noteq> None)), AList.delete k ks)"
| "mem_cmd J (Exists k) ks = (Inr (m_int (map_of ks k \<noteq> None)), ks)"
| "mem_cmd J (Expire k s) ks =
     (Inr (m_int (map_of ks k \<noteq> None)),
      case map_of ks k of None \<Rightarrow> ks
      | Some (v, _) \<Rightarrow> if s \<le> 0 then AList.delete k ks else AList.update k (v, Some (nat s * 1000)) ks)"
| "mem_cmd J (Hget k f) ks =
     on_hash ks k (\<lambda>h. (case map_of h f of None \<Rightarrow> NilReply | Some x \<Rightarrow> BulkReply x, ks))"
| "mem_cmd J (Hgetall k) ks = on_hash ks k (\<lambda>h. (HashReply (AList.clearjunk h), ks))"
| "mem_cmd J (Hset k f v) ks =
     on_hash ks k (\<lambda>h. (m_int (map_of h f = None), m_put k False (MHash (AList.update f v h)) ks))"
| "mem_cmd J (Hdel k f) ks =
     on_hash ks k (\<lambda>h. (m_int (map_of h f \<noteq> None),
       m_put k (AList.delete f h = []) (MHash (AList.delete f h)) ks))"
| "mem_cmd J (Sadd k m) ks =
     on_set ks k (\<lambda>s. (m_int (m \<notin> set s), m_put k False (MSet (List.insert m s)) ks))"
| "mem_cmd J (Srem k m) ks =
     on_set ks k (\<lambda>s. (m_int (m \<in> set s), m_put k (removeAll m s = []) (MSet (removeAll m s)) ks))"
| "mem_cmd J (Scard k) ks = on_set ks k (\<lambda>s. (IntReply (int (length (remdups s))), ks))"
| "mem_cmd J (Sismember k m) ks = on_set ks k (\<lambda>s. (m_int (m \<in> set s), ks))"
| "mem_cmd J (Smembers k) ks = on_set ks k (\<lambda>s. (ListReply (remdups s), ks))"
| "mem_cmd J (Zadd k m x) ks =
     on_zset ks k (\<lambda>z. (m_int (map_of z m = None), m_put k False (MZset (AList.update m x z)) ks))"
| "mem_cmd J (Zincr k m x) ks =
     on_zset ks k (\<lambda>z. (ScoreReply (get_or 0 (map_of z) m + x),
       m_put k False (MZset (AList.update m (get_or 0 (map_of z) m + x) z)) ks))"
| "mem_cmd J (Zscore k m) ks =
     on_zset ks k (\<lambda>z. (case map_of z m of None \<Rightarrow> NilReply | Some x \<Rightarrow> ScoreReply x, ks))"
| "mem_cmd J (Zrem k m) ks =
     on_zset ks k (\<lambda>z. (m_int (map_of z m \<noteq> None),
       m_put k (AList.delete m z = []) (MZset (AList.delete m z)) ks))"
| "mem_cmd J (Zrange k) ks =
     on_zset ks k (\<lambda>z. (ListReply (map fst (sort_key snd (AList.clearjunk z))), ks))"
| "mem_cmd J (ZrangeWithscores k) ks =
     on_zset ks k (\<lambda>z. (ScoresReply (sort_key snd (AList.clearjunk z)), ks))"
| "mem_cmd J (Zrangebyscore k lo) ks =
     on_zset ks k (\<lambda>z. (ListReply (map fst (sort_key snd (filter (\<lambda>p. lo \<le> snd p) (AList.clearjunk z)))), ks))"
| "mem_cmd J (Zremrangebyscore k hi) ks =
     on_zset ks k (\<lambda>z. (IntReply (int (length (filter (\<lambda>p. snd p \<le> hi) (AList.clearjunk z)))),
       m_put k (filter (\<lambda>p. \<not> snd p \<le> hi) (AList.clearjunk z) = [])
         (MZset (filter (\<lambda>p. \<not> snd p \<le> hi) (AList.clearjunk z))) ks))"
| "mem_cmd J (Scan c p n) ks = (Inr (ScanReply 0 (filter (glob_match p) (map fst ks))), ks)"
| "mem_cmd J (CompareAndDel k a) ks =
     on_str ks k (\<lambda>v. if v = Some a then (IntReply 1, AList.delete k ks) else (IntReply 0, ks))"
| "mem_cmd J (AssignRoom a) ks = mem_assign J a ks"
| "mem_cmd J (Multi []) ks = (Inr MultiReply, ks)"
| "mem_cmd J (Multi (c # cs)) ks =
     (case if is_assign c then (Inl wrong_type, ks) else mem_cmd J c ks of
        (Inl e, _) \<Rightarrow> (Inl e, ks)
      | (Inr _, ks1) \<Rightarrow>
          (case mem_cmd J (Multi cs) ks1 of
             (Inl e, _) \<Rightarrow> (Inl e, ks)
           | (Inr r, ks2) \<Rightarrow> (Inr r, ks2)))"

section \<open>The server meets the contract\<close>

lemma kview_update [simp]: "kview (AList.update k (v, t) ks) = (kview ks)(k \<mapsto> (abs_val v, t))"
  by (auto simp: kview_def fun_eq_iff)

lemma kview_delete [simp]: "kview (AList.delete k ks) = (kview ks)(k := None)"
  by (auto simp: kview_def fun_eq_iff)

lemma kview_None [simp]: "kview ks k = None \<longleftrightarrow> map_of ks k = None"
  by (auto simp: kview_def split: option.splits)

lemma ttl_kview [simp]: "ttl_of (kview ks) k = m_ttl ks k"
  by (auto simp: kview_def ttl_of_def m_ttl_def split: option.splits)

lemma kview_put [simp]:
  "gone = (xs = []) \<Longrightarrow> kview (m_put k gone (MHash xs) ks) = put_hash k (map_of xs) (kview ks)"
  "gone = (ys = []) \<Longrightarrow> kview (m_put k gone (MSet ys) ks) = put_set k (set ys) (kview ks)"
  "gone = (zs = []) \<Longrightarrow> kview (m_put k gone (MZset zs) ks) = put_zset k (map_of zs) (kview ks)"
  by (auto simp: m_put_def put_hash_def put_set_def put_zset_def)

lemma kview_put_member: "m \<in> set ys \<Longrightarrow> kview (m_put k False (MSet ys) ks) = put_set k (set ys) (kview ks)"
  by (rule kview_put(2)) auto

lemma m_str_view:
  "m_str ks k = Some v \<Longrightarrow> is_str (kview ks) k \<and> str_of (kview ks) k = v"
  "m_str ks k = None \<Longrightarrow> \<not> is_str (kview ks) k"
  by (auto simp: m_str_def kview_def is_str_def str_of_def split: option.splits mval.splits)

lemma m_hash_view:
  "m_hash ks k = Some h \<Longrightarrow> is_hash (kview ks) k \<and> hash_of (kview ks) k = map_of h"
  "m_hash ks k = None \<Longrightarrow> \<not> is_hash (kview ks) k"
  by (auto simp: m_hash_def kview_def is_hash_def hash_of_def split: option.splits mval.splits if_splits)

lemma m_set_view:
  "m_set ks k = Some s \<Longrightarrow> is_set (kview ks) k \<and> set_of (kview ks) k = set s"
  "m_set ks k = None \<Longrightarrow> \<not> is_set (kview ks) k"
  by (auto simp: m_set_def kview_def is_set_def set_of_def split: option.splits mval.splits if_splits)

lemma m_zset_view:
  "m_zset ks k = Some z \<Longrightarrow> is_zset (kview ks) k \<and> zset_of (kview ks) k = map_of z"
  "m_zset ks k = None \<Longrightarrow> \<not> is_zset (kview ks) k"
  by (auto simp: m_zset_def kview_def is_zset_def zset_of_def split: option.splits mval.splits if_splits)

text \<open>A run is correct when an error leaves the keys alone and is due to a wrong type, and a reply is
  the documented one.\<close>

definition run_ok :: "json_api \<Rightarrow> cmd \<Rightarrow> keyspace \<Rightarrow> (redis_error + reply) \<times> keyspace \<Rightarrow> bool" where
  "run_ok J c ks o' \<longleftrightarrow>
     (case fst o' of
        Inl e \<Rightarrow> snd o' = ks \<and> \<not> cmd_typed J c (kview ks)
      | Inr r \<Rightarrow> cmd_doc J c (kview ks) r (kview (snd o')))"

lemma on_typed_ok:
  "(\<not> is_str (kview ks) k \<Longrightarrow> \<not> cmd_typed J c (kview ks)) \<Longrightarrow>
   (\<And>v. str_of (kview ks) k = v \<Longrightarrow> cmd_doc J c (kview ks) (fst (f v)) (kview (snd (f v)))) \<Longrightarrow>
   run_ok J c ks (on_str ks k f)"
  "(\<not> is_hash (kview ks) k \<Longrightarrow> \<not> cmd_typed J c (kview ks)) \<Longrightarrow>
   (\<And>h. hash_of (kview ks) k = map_of h \<Longrightarrow> cmd_doc J c (kview ks) (fst (g h)) (kview (snd (g h)))) \<Longrightarrow>
   run_ok J c ks (on_hash ks k g)"
  "(\<not> is_set (kview ks) k \<Longrightarrow> \<not> cmd_typed J c (kview ks)) \<Longrightarrow>
   (\<And>s. set_of (kview ks) k = set s \<Longrightarrow> cmd_doc J c (kview ks) (fst (h s)) (kview (snd (h s)))) \<Longrightarrow>
   run_ok J c ks (on_set ks k h)"
  "(\<not> is_zset (kview ks) k \<Longrightarrow> \<not> cmd_typed J c (kview ks)) \<Longrightarrow>
   (\<And>z. zset_of (kview ks) k = map_of z \<Longrightarrow> cmd_doc J c (kview ks) (fst (q z)) (kview (snd (q z)))) \<Longrightarrow>
   run_ok J c ks (on_zset ks k q)"
  by (auto simp: run_ok_def on_str_def on_hash_def on_set_def on_zset_def
      dest: m_str_view m_hash_view m_set_view m_zset_view split: option.splits)

lemma sorted_scores:
  "sorted (map snd (sort_key snd (xs :: (string \<times> real) list)))"
  "distinct_keys xs \<Longrightarrow> distinct_keys (sort_key snd xs)"
proof -
  show "sorted (map snd (sort_key snd xs))" by simp
  show "distinct_keys (sort_key snd xs)" if "distinct_keys xs"
    using that by (metis distinct_map distinct_sort inj_on_cong set_sort)
qed

lemma map_of_sort: "distinct_keys (xs :: (string \<times> real) list) \<Longrightarrow> map_of (sort_key snd xs) = map_of xs"
  by (rule map_of_inject_set [THEN iffD2]) (auto simp: sorted_scores)

lemma map_of_filter_distinct:
  "distinct_keys xs \<Longrightarrow>
   map_of (filter (\<lambda>p. Q (snd p)) xs) m = (case map_of xs m of None \<Rightarrow> None | Some x \<Rightarrow> if Q x then Some x else None)"
  by (induction xs) (force split: option.splits)+

lemma get_or_in: "distinct_keys xs \<Longrightarrow> p \<in> set xs \<Longrightarrow> get_or d (map_of xs) (fst p) = snd p"
  by (cases p) (simp add: get_or_def)

lemma sorted_by_score:
  "distinct_keys (xs :: (string \<times> real) list) \<Longrightarrow> set ys \<subseteq> set xs \<Longrightarrow> sorted (map snd ys) \<Longrightarrow>
   sorted (map (get_or d (map_of xs)) (map fst ys))"
proof -
  assume a: "distinct_keys xs" "set ys \<subseteq> set xs" "sorted (map snd ys)"
  have "map (get_or d (map_of xs)) (map fst ys) = map snd ys"
    using a by (auto simp: get_or_in)
  then show ?thesis using a(3) by (simp only:)
qed

lemma zset_range:
  fixes Q :: "real \<Rightarrow> bool"
  assumes "zset_of st k = map_of z"
  defines "ys \<equiv> sort_key snd (filter (\<lambda>p. Q (snd p)) (AList.clearjunk z))"
  shows "distinct (map fst ys)" "set (map fst ys) = {m. \<exists>x. zset_of st k m = Some x \<and> Q x}"
    "sorted (map (get_or 0 (zset_of st k)) (map fst ys))"
proof -
  let ?c = "AList.clearjunk z"
  have d: "distinct_keys ?c" and m: "map_of ?c = map_of z"
    by (simp_all add: distinct_clearjunk map_of_clearjunk)
  have df: "distinct_keys (filter (\<lambda>p. Q (snd p)) ?c)" using d by (rule distinct_map_filter)
  then show "distinct (map fst ys)" unfolding ys_def by (rule sorted_scores)
  have "set (map fst ys) = dom (map_of (filter (\<lambda>p. Q (snd p)) ?c))"
    unfolding ys_def by (simp add: dom_map_of_conv_image_fst)
  also have "\<dots> = {m. \<exists>x. zset_of st k m = Some x \<and> Q x}"
    using d by (auto simp: map_of_filter_distinct m assms(1) split: option.splits if_splits)
  finally show "set (map fst ys) = {m. \<exists>x. zset_of st k m = Some x \<and> Q x}" .
  have "sorted (map (get_or 0 (map_of ?c)) (map fst ys))"
    using d unfolding ys_def by (rule sorted_by_score) (auto simp: sorted_scores)
  then show "sorted (map (get_or 0 (zset_of st k)) (map fst ys))" by (simp only: m assms(1))
qed

lemma zset_listing:
  assumes "zset_of st k = map_of z"
  defines "ys \<equiv> sort_key snd (AList.clearjunk z)"
  shows "distinct_keys ys" "map_of ys = zset_of st k" "sorted (map snd ys)"
    "distinct (map fst ys)" "set (map fst ys) = dom (zset_of st k)"
    "sorted (map (get_or 0 (zset_of st k)) (map fst ys))"
proof -
  have d: "distinct_keys (AList.clearjunk z)" by (rule distinct_clearjunk)
  show "distinct_keys ys" "sorted (map snd ys)" "distinct (map fst ys)"
    using d by (simp_all add: ys_def sorted_scores)
  show m: "map_of ys = zset_of st k"
    using d by (simp add: ys_def map_of_sort map_of_clearjunk assms(1))
  show "set (map fst ys) = dom (zset_of st k)"
    using dom_map_of_conv_image_fst [of ys] by (simp add: m)
  show "sorted (map (get_or 0 (zset_of st k)) (map fst ys))"
    using zset_range(3) [OF assms(1), of "\<lambda>_. True"] by (simp add: ys_def)
qed

lemma zset_trim:
  "map_of (filter (\<lambda>p. \<not> snd p \<le> hi) (AList.clearjunk z)) =
   (\<lambda>m. case map_of z m of None \<Rightarrow> None | Some x \<Rightarrow> if x \<le> hi then None else Some (x :: real))"
proof
  fix m
  have "map_of (filter (\<lambda>p. \<not> snd p \<le> hi) (AList.clearjunk z)) m =
      (case map_of (AList.clearjunk z) m of None \<Rightarrow> None | Some x \<Rightarrow> if \<not> x \<le> hi then Some x else None)"
    by (rule map_of_filter_distinct [OF distinct_clearjunk])
  then show "map_of (filter (\<lambda>p. \<not> snd p \<le> hi) (AList.clearjunk z)) m =
      (case map_of z m of None \<Rightarrow> None | Some x \<Rightarrow> if x \<le> hi then None else Some x)"
    by (auto simp: map_of_clearjunk split: option.splits)
qed

lemma zset_count:
  assumes "zset_of st k = map_of z"
  shows "length (filter (\<lambda>p. snd p \<le> hi) (AList.clearjunk z))
    = card {m. \<exists>x. zset_of st k m = Some x \<and> x \<le> (hi :: real)}"
proof -
  let ?ys = "sort_key snd (filter (\<lambda>p. snd p \<le> hi) (AList.clearjunk z))"
  have "length (filter (\<lambda>p. snd p \<le> hi) (AList.clearjunk z)) = length (map fst ?ys)" by simp
  also have "\<dots> = card (set (map fst ?ys))"
    using zset_range(1) [OF assms, of "\<lambda>x. x \<le> hi"] by (simp only: distinct_card)
  also have "\<dots> = card {m. \<exists>x. zset_of st k m = Some x \<and> x \<le> hi}"
    using zset_range(2) [OF assms, of "\<lambda>x. x \<le> hi"] by (simp only:)
  finally show ?thesis .
qed

lemma lua_scan_None:
  "lua_scan J loads now stale ps best = None \<longleftrightarrow> (\<exists>p \<in> set ps. cjson_decode J p = None)"
  by (induction J loads now stale ps best rule: lua_scan.induct) (auto simp: Let_def split: option.splits)

lemma m_put_other: "k' \<noteq> k \<Longrightarrow> map_of (m_put k gone v ks) k' = map_of ks k'"
  by (simp add: m_put_def)

lemma m_other:
  "k' \<noteq> k \<Longrightarrow> m_zset (m_put k gone v ks) k' = m_zset ks k'"
  "k' \<noteq> k \<Longrightarrow> m_hash (m_put k gone v ks) k' = m_hash ks k'"
  by (simp_all add: m_zset_def m_hash_def m_put_other)

lemma mem_assign_new:
  assumes eqs: "m_hash ks (k_instances a) = Some insts" "m_zset ks (k_room_load a) = Some loads"
    and scan: "lua_scan J (map_of loads) (a_now a) (a_stale_after a) (map snd (AList.clearjunk insts)) None
      = Some (Some (best, load))"
    and free: "map_of ks (k_binding a) = None"
  shows "run_ok J (AssignRoom a) ks (mem_assign J a ks)"
proof (cases "distinct [k_instances a, k_room_load a, k_binding a]")
  case True
  note insts = m_hash_view(1) [OF eqs(1)] and loads = m_zset_view(1) [OF eqs(2)]
  from True show ?thesis
    by (auto simp: mem_assign_def run_ok_def eqs scan free cmd_doc_def ASSIGN_ROOM_TO_SFU_LUA_def insts
        loads map_of_clearjunk distinct_clearjunk Let_def m_other fun_upd_twist
        intro!: exI [of _ "AList.clearjunk insts"])
next
  case False
  then show ?thesis by (auto simp: mem_assign_def run_ok_def eqs scan)
qed

lemma mem_assign_ok: "run_ok J (AssignRoom a) ks (mem_assign J a ks)"
proof (cases "m_hash ks (k_instances a)")
  case None
  then show ?thesis by (simp add: mem_assign_def run_ok_def m_hash_view)
next
  case (Some insts)
  note insts = m_hash_view(1) [OF Some]
  show ?thesis
  proof (cases "m_zset ks (k_room_load a)")
    case None
    then show ?thesis using Some by (simp add: mem_assign_def run_ok_def m_zset_view)
  next
    case (Some loads)
    note loads = m_zset_view(1) [OF Some]
    have payloads: "set (map snd (AList.clearjunk insts)) = ran (hash_of (kview ks) (k_instances a))"
      using ran_distinct [OF distinct_clearjunk, of insts] by (simp add: map_of_clearjunk insts)
    let ?scan = "lua_scan J (map_of loads) (a_now a) (a_stale_after a) (map snd (AList.clearjunk insts)) None"
    note eqs = \<open>m_hash ks (k_instances a) = Some insts\<close> Some
    consider (undecodable) "?scan = None" | (none) "?scan = Some None"
      | (exists) best load where "?scan = Some (Some (best, load))" "map_of ks (k_binding a) \<noteq> None"
      | (assign) best load where "?scan = Some (Some (best, load))" "map_of ks (k_binding a) = None"
      by (cases ?scan) (auto, metis option.exhaust prod.exhaust)
    then show ?thesis
    proof cases
      case undecodable
      then obtain p where "p \<in> ran (hash_of (kview ks) (k_instances a))" "cjson_decode J p = None"
        using payloads by (auto simp: lua_scan_None)
      then show ?thesis using undecodable by (auto simp: mem_assign_def run_ok_def eqs)
    next
      case none
      then show ?thesis
        by (auto simp: mem_assign_def run_ok_def eqs cmd_doc_def ASSIGN_ROOM_TO_SFU_LUA_def insts loads
            map_of_clearjunk distinct_clearjunk intro!: exI [of _ "AList.clearjunk insts"])
    next
      case exists
      then show ?thesis
        by (auto 0 3 simp: mem_assign_def run_ok_def eqs cmd_doc_def ASSIGN_ROOM_TO_SFU_LUA_def insts loads
            map_of_clearjunk distinct_clearjunk intro!: exI [of _ "AList.clearjunk insts"])
    next
      case assign
      then show ?thesis
        by (rule mem_assign_new [OF eqs])
    qed
  qed
qed

lemma mem_zrange_ok:
  "run_ok J (Zrange k) ks (mem_cmd J (Zrange k) ks)"
  "run_ok J (Zrangebyscore k lo) ks (mem_cmd J (Zrangebyscore k lo) ks)"
proof -
  have "cmd_doc J (Zrange k) (kview ks) (ListReply (map fst (sort_key snd (AList.clearjunk z)))) (kview ks)"
    if "zset_of (kview ks) k = map_of z" for z
    using zset_listing(4-6) [OF that]
    by (simp only: cmd_doc_def cmd.case cmd_reply.simps cmd_effect.simps) blast
  then show "run_ok J (Zrange k) ks (mem_cmd J (Zrange k) ks)"
    unfolding mem_cmd.simps by (intro on_typed_ok(4)) simp_all
  have "cmd_doc J (Zrangebyscore k lo) (kview ks)
      (ListReply (map fst (sort_key snd (filter (\<lambda>p. lo \<le> snd p) (AList.clearjunk z))))) (kview ks)"
    if "zset_of (kview ks) k = map_of z" for z
    using zset_range [OF that, of "\<lambda>x. lo \<le> x"]
    by (simp only: cmd_doc_def cmd.case cmd_reply.simps cmd_effect.simps) blast
  then show "run_ok J (Zrangebyscore k lo) ks (mem_cmd J (Zrangebyscore k lo) ks)"
    unfolding mem_cmd.simps by (intro on_typed_ok(4)) simp_all
qed

lemma mem_plain_ok:
  "\<not> is_assign c \<Longrightarrow> (\<forall>cs. c \<noteq> Multi cs) \<Longrightarrow> run_ok J c ks (mem_cmd J c ks)"
  apply (cases c)
  subgoal by (simp add: run_ok_def cmd_doc_def)
  subgoal by (simp, rule on_typed_ok; simp add: cmd_doc_def)
  subgoal by (simp add: run_ok_def cmd_doc_def)
  subgoal by (simp add: run_ok_def cmd_doc_def m_int_def)
  subgoal by (simp add: run_ok_def cmd_doc_def m_int_def)
  subgoal by (auto simp add: run_ok_def cmd_doc_def m_int_def kview_def fun_eq_iff split: option.splits)
  subgoal by (simp, rule on_typed_ok; simp add: cmd_doc_def)
  subgoal by (simp, rule on_typed_ok; simp add: cmd_doc_def distinct_clearjunk map_of_clearjunk)
  subgoal by (simp, rule on_typed_ok; simp add: cmd_doc_def m_int_def)
  subgoal by (simp, rule on_typed_ok; simp add: cmd_doc_def m_int_def)
  subgoal by (simp, rule on_typed_ok; simp add: cmd_doc_def m_int_def insert_absorb kview_put_member)
  subgoal by (simp, rule on_typed_ok; simp add: cmd_doc_def m_int_def)
  subgoal by (simp, rule on_typed_ok; simp add: cmd_doc_def length_remdups_card_conv)
  subgoal by (simp, rule on_typed_ok; simp add: cmd_doc_def m_int_def)
  subgoal by (simp, rule on_typed_ok; simp add: cmd_doc_def)
  subgoal by (simp, rule on_typed_ok; simp add: cmd_doc_def m_int_def)
  subgoal by (simp, rule on_typed_ok; simp add: cmd_doc_def)
  subgoal by (simp, rule on_typed_ok; simp add: cmd_doc_def)
  subgoal by (simp, rule on_typed_ok; simp add: cmd_doc_def m_int_def)
  subgoal by (simp only: mem_zrange_ok)
  subgoal by (simp, rule on_typed_ok; simp add: cmd_doc_def sorted_scores map_of_sort distinct_clearjunk
        map_of_clearjunk)
  subgoal by (simp only: mem_zrange_ok)
  subgoal for k hi using zset_count [of "kview ks" k _ hi]
    by (simp, intro on_typed_ok(4)) (simp_all add: cmd_doc_def zset_trim)
  subgoal by (auto simp: run_ok_def cmd_doc_def map_of_eq_None_iff)
  subgoal by (simp, rule on_typed_ok; simp add: cmd_doc_def COMPARE_AND_DEL_LUA_def)
  subgoal by (simp add: is_assign_def)
  subgoal by simp
  done

lemma mem_multi_ok:
  "\<forall>c \<in> set cs. \<forall>ks. run_ok J c ks (mem_cmd J c ks) \<Longrightarrow> run_ok J (Multi cs) ks (mem_cmd J (Multi cs) ks)"
proof (induction cs arbitrary: ks)
  case Nil
  then show ?case by (simp add: run_ok_def cmd_doc_def)
next
  case (Cons c cs)
  have IH: "run_ok J (Multi cs) ks' (mem_cmd J (Multi cs) ks')" for ks' using Cons by simp
  have c: "run_ok J c ks (mem_cmd J c ks)" using Cons.prems by simp
  show ?case
  proof (cases "is_assign c")
    case True
    then show ?thesis by (simp add: run_ok_def)
  next
    case False
    then have plain: "\<forall>a. c \<noteq> AssignRoom a" by (auto simp: is_assign_def)
    obtain o1 ks1 where c1: "mem_cmd J c ks = (o1, ks1)" by (cases "mem_cmd J c ks")
    obtain o2 ks2 where c2: "mem_cmd J (Multi cs) ks1 = (o2, ks2)" by (cases "mem_cmd J (Multi cs) ks1")
    show ?thesis
      using c IH [of ks1] False plain
      by (cases o1; cases o2) (auto simp: run_ok_def c1 c2 cmd_doc_plain)
  qed
qed

lemma mem_cmd_ok: "run_ok J c ks (mem_cmd J c ks)"
proof (induction c arbitrary: ks)
  case (AssignRoom a)
  show ?case by (simp add: mem_assign_ok)
next
  case (Multi cs)
  then show ?case by (auto intro: mem_multi_ok)
qed (rule mem_plain_ok; simp add: is_assign_def)+

section \<open>A world that holds the server\<close>

text \<open>The world of the witnesses: the keys, a clock and a supply of identifiers. Further fields are
  added where a service needs them.\<close>

record mem =
  m_keys :: keyspace
  m_now :: int
  m_next_uuid :: nat

definition mem_uuid :: "nat \<Rightarrow> string" where
  "mem_uuid n = ''00000000-0000-4000-8000-00000000000'' @ [digit_char (n mod 10)]"

definition mem_redis :: "cmd \<Rightarrow> ('x mem_scheme, redis_error, reply) prog" where
  "mem_redis c = (\<lambda>w. case mem_cmd mem_json c (m_keys w) of (r, ks) \<Rightarrow> (r, w\<lparr>m_keys := ks\<rparr>))"

definition mem_view :: "'x mem_scheme \<Rightarrow> store" where
  "mem_view w = kview (m_keys w)"

definition mem_time :: "('x mem_scheme, int) act" where
  "mem_time = (\<lambda>w. (m_now w, w))"

definition mem_new_uuid :: "('x mem_scheme, string) act" where
  "mem_new_uuid = (\<lambda>w. (mem_uuid (m_next_uuid w), w\<lparr>m_next_uuid := Suc (m_next_uuid w)\<rparr>))"

definition mem_env :: "'x mem_scheme env" where
  "mem_env = \<lparr>redis = mem_redis, json = mem_json, unix_time = mem_time, new_uuid = mem_new_uuid,
     scan_budget = 1\<rparr>"

lemma mem_redis_doc:
  "fst (mem_redis c w) = Inr r \<Longrightarrow> cmd_doc mem_json c (mem_view w) r (mem_view (snd (mem_redis c w)))"
  "fst (mem_redis c w) = Inl e \<Longrightarrow> mem_view (snd (mem_redis c w)) = mem_view w"
  "cmd_typed mem_json c (mem_view w) \<Longrightarrow> \<exists>r. fst (mem_redis c w) = Inr r"
  using mem_cmd_ok [of mem_json c "m_keys w"]
  by (auto simp: run_ok_def mem_redis_def mem_view_def split: prod.splits sum.splits)

text \<open>Whatever further services an environment offers, with this server it meets the contract.\<close>

definition mem_like :: "('x mem_scheme, 'z) env_scheme \<Rightarrow> bool" where
  "mem_like E \<longleftrightarrow> redis E = mem_redis \<and> json E = mem_json \<and> unix_time E = mem_time
     \<and> new_uuid E = mem_new_uuid \<and> scan_budget E = 1"

lemma mem_like_scan:
  fixes E :: "('x mem_scheme, 'z) env_scheme"
  assumes "mem_like E"
  shows "redis_scan E mem_view"
proof unfold_locales
  note e = assms [unfolded mem_like_def]
  fix p and w :: "'x mem_scheme"
  let ?page = "filter (glob_match p) (map fst (m_keys w))"
  have "scan_pages E p 0 w [?page] w" by (rule scan_pages.last_page) (simp add: e mem_redis_def)
  moreover have "set ?page = {k. mem_view w k \<noteq> None \<and> glob_match p k}"
    by (auto simp: mem_view_def map_of_eq_None_iff)
  ultimately show "\<exists>pages w'. scan_pages E p 0 w pages w' \<and> length pages \<le> scan_budget E
      \<and> set (concat pages) = {k. mem_view w k \<noteq> None \<and> glob_match p k} \<and> mem_view w' = mem_view w"
    by (intro exI [of _ "[?page]"] exI [of _ w]) (simp add: e)
qed (use assms in \<open>auto simp: mem_like_def mem_redis_doc [unfolded mem_view_def] mem_time_def mem_new_uuid_def mem_view_def\<close>)

interpretation mem: redis_scan mem_env mem_view
  by (rule mem_like_scan) (simp add: mem_like_def mem_env_def)

end
