(* ===== verification/Control_Store.thy ===== *)
theory Control_Store
  imports Redis_Memory
begin

text \<open>
  \<^verbatim>\<open>common/control_store/src/storage.rs\<close>: the storage operations the supervisor and the
  connector share. Every operation runs under one time-out: the future is dropped at the command it
  awaits, which is the outcome \<open>OpTimeout\<close> of that command. Numbers kept in sorted sets are
  reals; counts of rooms are exact in the \<^verbatim>\<open>f64\<close> of the source.
\<close>

section \<open>Errors and the time-out\<close>

text \<open>Errors inside the future (\<^verbatim>\<open>?\<close> on a Redis or a JSON error) and of the operation.\<close>

datatype fut_error = FutRedis redis_error | FutJson

datatype store_error = TimedOut | StoreRedis string | StoreJson | MissingInstance

definition store_error_of :: "fut_error \<Rightarrow> store_error" where
  "store_error_of e = (case e of FutRedis OpTimeout \<Rightarrow> TimedOut | FutRedis (RedisFailure m) \<Rightarrow> StoreRedis m
     | FutJson \<Rightarrow> StoreJson)"

definition with_timeout :: "('w, fut_error, 'a) prog \<Rightarrow> ('w, store_error, 'a) prog" where
  "with_timeout fut = map_errM store_error_of fut"

definition rcall :: "('w, 'z) env_scheme \<Rightarrow> cmd \<Rightarrow> (reply \<Rightarrow> ('w, redis_error, 'a) prog)
    \<Rightarrow> ('w, fut_error, 'a) prog" where
  "rcall E c conv = map_errM FutRedis (call E c conv)"

definition unix_now :: "('w, 'z) env_scheme \<Rightarrow> ('w, int) act" where
  "unix_now E = unix_time E"

text \<open>Collecting pairs into a \<^verbatim>\<open>HashMap\<close>: a later pair replaces an earlier one.\<close>

definition collect_map :: "('k \<times> 'v) list \<Rightarrow> ('k \<rightharpoonup> 'v)" where
  "collect_map xs = map_of (rev xs)"

lemmas store_ops = with_timeout_def rcall_def call_def

lemma keeps_conv [keeps_intros]:
  "keeps I (as_unit r)" "keeps I (as_int r)" "keeps I (as_bool r)" "keeps I (as_opt_string r)"
  "keeps I (as_string r)" "keeps I (as_list r)" "keeps I (as_hash r)" "keeps I (as_opt_score r)"
  "keeps I (as_scores r)" "keeps I (as_scan r)"
  by (simp_all add: keeps_def)

section \<open>Supervisor heartbeat\<close>

definition write_supervisor_heartbeat ::
    "('w, 'z) env_scheme \<Rightarrow> string option \<Rightarrow> int \<Rightarrow> ('w, store_error, unit) prog" where
  "write_supervisor_heartbeat E inst_id now_unix =
     with_timeout (rcall E (Multi
       [Hset SUPERVISOR_HEARTBEAT_KEY ''last_seen_unix'' (show_int now_unix),
        Hset SUPERVISOR_HEARTBEAT_KEY ''instance_id''
          (case inst_id of None \<Rightarrow> [] | Some i \<Rightarrow> i)]) as_unit)"

definition supervisor_status_of :: "(string \<rightharpoonup> string) \<Rightarrow> SupervisorStatus" where
  "supervisor_status_of values =
     \<lparr>last_seen_unix =
        (case values ''last_seen_unix'' of None \<Rightarrow> 0
         | Some v \<Rightarrow> (case parse_i64 v of None \<Rightarrow> 0 | Some n \<Rightarrow> n)),
      sup_instance_id = nonempty (values ''instance_id'')\<rparr>"

definition read_supervisor_status :: "('w, 'z) env_scheme \<Rightarrow> ('w, store_error, SupervisorStatus option) prog" where
  "read_supervisor_status E =
     with_timeout (tryM (rcall E (Hgetall SUPERVISOR_HEARTBEAT_KEY) as_hash) (\<lambda>pairs.
       if pairs = [] then okM None
       else okM (Some (supervisor_status_of (collect_map pairs)))))"

section \<open>Signaling nodes and loads\<close>

definition write_signaling_node_seen :: "('w, 'z) env_scheme \<Rightarrow> string \<Rightarrow> int \<Rightarrow> ('w, store_error, unit) prog" where
  "write_signaling_node_seen E node_id now_unix =
     with_timeout (tryM (rcall E (Zadd SIGNALING_NODES_KEY node_id (of_int now_unix)) as_int) (\<lambda>_. okM ()))"

definition remove_signaling_node :: "('w, 'z) env_scheme \<Rightarrow> string \<Rightarrow> ('w, store_error, unit) prog" where
  "remove_signaling_node E node_id =
     with_timeout (tryM (rcall E (Zrem SIGNALING_NODES_KEY node_id) as_int) (\<lambda>_. okM ()))"

definition alive_signaling_nodes :: "('w, 'z) env_scheme \<Rightarrow> 64 word \<Rightarrow> ('w, store_error, string list) prog" where
  "alive_signaling_nodes E stale_threshold =
     with_timeout (tryM (liftM (unix_now E)) (\<lambda>now.
       let cutoff = sub_i64 now (cast_i64 stale_threshold) in
       rcall E (Zrangebyscore SIGNALING_NODES_KEY (of_int cutoff)) as_list))"

definition remove_signaling_node_heartbeats_below ::
    "('w, 'z) env_scheme \<Rightarrow> int \<Rightarrow> ('w, store_error, unit) prog" where
  "remove_signaling_node_heartbeats_below E cutoff_unix =
     with_timeout (tryM (rcall E (Zremrangebyscore SIGNALING_NODES_KEY (of_int cutoff_unix)) as_int) (\<lambda>_. okM ()))"

definition signaling_load_members :: "('w, 'z) env_scheme \<Rightarrow> ('w, store_error, string list) prog" where
  "signaling_load_members E = with_timeout (rcall E (Zrange SIGNALING_INSTANCE_LOAD_KEY) as_list)"

definition remove_signaling_load :: "('w, 'z) env_scheme \<Rightarrow> string \<Rightarrow> ('w, store_error, unit) prog" where
  "remove_signaling_load E node_id =
     with_timeout (tryM (rcall E (Zrem SIGNALING_INSTANCE_LOAD_KEY node_id) as_int) (\<lambda>_. okM ()))"

section \<open>Iterating over keys\<close>

text \<open>The loop over \<^verbatim>\<open>SCAN\<close> pages. The time-out of the operation bounds the number of round
  trips; when it strikes, the operation fails with it.\<close>

fun scan_loop :: "('w, 'z) env_scheme \<Rightarrow> nat \<Rightarrow> string \<Rightarrow> (string list \<Rightarrow> string list) \<Rightarrow> 64 word
    \<Rightarrow> string list \<Rightarrow> ('w, fut_error, string list) prog" where
  "scan_loop E 0 pattern pick cursor results = failM (FutRedis OpTimeout)"
| "scan_loop E (Suc n) pattern pick cursor results =
     tryM (rcall E (Scan cursor pattern 200) as_scan) (\<lambda>(nxt, keys).
       let results' = results @ pick keys in
       if nxt = 0 then okM results' else scan_loop E n pattern pick nxt results')"

definition pick_session_ids :: "string list \<Rightarrow> string list" where
  "pick_session_ids keys =
     List.map_filter (\<lambda>key. if ends_with '':lock'' key then None else strip_prefix SIGNALING_SESSION_PREFIX key) keys"

definition scan_signaling_session_ids :: "('w, 'z) env_scheme \<Rightarrow> ('w, store_error, string list) prog" where
  "scan_signaling_session_ids E =
     with_timeout (scan_loop E (scan_budget E) (SIGNALING_SESSION_PREFIX @ ''*'') pick_session_ids 0 [])"

definition strip_both :: "string \<Rightarrow> string \<Rightarrow> string \<Rightarrow> string option" where
  "strip_both p q key = (case strip_prefix p key of None \<Rightarrow> None | Some rest \<Rightarrow> strip_suffix q rest)"

definition scan_signaling_room_ids :: "('w, 'z) env_scheme \<Rightarrow> ('w, store_error, string list) prog" where
  "scan_signaling_room_ids E =
     with_timeout (scan_loop E (scan_budget E) (SIGNALING_ROOM_PREFIX @ ''*:members'')
       (List.map_filter (strip_both SIGNALING_ROOM_PREFIX '':members'')) 0 [])"

definition scan_room_binding_ids :: "('w, 'z) env_scheme \<Rightarrow> ('w, store_error, string list) prog" where
  "scan_room_binding_ids E =
     with_timeout (scan_loop E (scan_budget E) (ROOM_BINDING_PREFIX @ ''*:binding'')
       (List.map_filter (strip_both ROOM_BINDING_PREFIX '':binding'')) 0 [])"

section \<open>Sessions, nicknames, room members\<close>

definition get_session_owner :: "('w, 'z) env_scheme \<Rightarrow> string \<Rightarrow> ('w, store_error, string option) prog" where
  "get_session_owner E session_id =
     with_timeout (tryM (rcall E (Hget (session_key session_id) ''signaling_owner_id'') as_opt_string)
       (\<lambda>owner. okM (nonempty owner)))"

definition delete_signaling_session :: "('w, 'z) env_scheme \<Rightarrow> string \<Rightarrow> ('w, store_error, unit) prog" where
  "delete_signaling_session E session_id =
     with_timeout (tryM (rcall E (Del (session_key session_id)) as_int) (\<lambda>_. okM ()))"

definition delete_nick_lease :: "('w, 'z) env_scheme \<Rightarrow> string \<Rightarrow> string \<Rightarrow> ('w, store_error, unit) prog" where
  "delete_nick_lease E nickname session_id =
     with_timeout (tryM (rcall E (CompareAndDel (nick_key nickname) session_id) as_int) (\<lambda>_. okM ()))"

definition delete_signaling_room_members :: "('w, 'z) env_scheme \<Rightarrow> string \<Rightarrow> ('w, store_error, unit) prog" where
  "delete_signaling_room_members E room_id =
     with_timeout (tryM (rcall E (Del (room_members_key room_id)) as_int) (\<lambda>_. okM ()))"

definition get_room_members :: "('w, 'z) env_scheme \<Rightarrow> string \<Rightarrow> ('w, store_error, string list) prog" where
  "get_room_members E room_id = with_timeout (rcall E (Smembers (room_members_key room_id)) as_list)"

definition session_clear_room :: "('w, 'z) env_scheme \<Rightarrow> string \<Rightarrow> ('w, store_error, unit) prog" where
  "session_clear_room E session_id =
     with_timeout (tryM (rcall E (Hset (session_key session_id) ''room_id'' []) as_int) (\<lambda>_. okM ()))"

section \<open>Room bindings\<close>

definition room_binding_of :: "string \<Rightarrow> (string \<rightharpoonup> string) \<Rightarrow> RoomBinding" where
  "room_binding_of room_id values =
     \<lparr>rb_room_id = room_id,
      rb_owner_id = get_or [] values ''signaling_owner_id'',
      rb_owner_host = get_or [] values ''owner_host'',
      rb_owner_port =
        (case values ''owner_port'' of None \<Rightarrow> 0
         | Some v \<Rightarrow> (case parse_u16 v of None \<Rightarrow> 0 | Some p \<Rightarrow> p)),
      rb_state = get_or ''active'' values ''room_state'',
      rb_sfu_instance_id = nonempty (values ''sfu_instance_id''),
      rb_sfu_grpc_addr = nonempty (values ''sfu_grpc_addr'')\<rparr>"

definition get_room_assignment :: "('w, 'z) env_scheme \<Rightarrow> string \<Rightarrow> ('w, store_error, RoomBinding option) prog" where
  "get_room_assignment E room_id =
     with_timeout (tryM (rcall E (Hgetall (room_binding_key room_id)) as_hash) (\<lambda>pairs.
       if pairs = [] then okM None
       else okM (Some (room_binding_of room_id (collect_map pairs)))))"

definition delete_room_assignment :: "('w, 'z) env_scheme \<Rightarrow> string \<Rightarrow> ('w, store_error, unit) prog" where
  "delete_room_assignment E room_id =
     with_timeout (rcall E (Multi [Del (room_binding_key room_id)]) as_unit)"

section \<open>SFU instances\<close>

fun decode_all :: "('a \<Rightarrow> 'b option) \<Rightarrow> 'a list \<Rightarrow> 'b list option" where
  "decode_all f [] = Some []"
| "decode_all f (x # xs) =
     (case f x of None \<Rightarrow> None
      | Some y \<Rightarrow> (case decode_all f xs of None \<Rightarrow> None | Some ys \<Rightarrow> Some (y # ys)))"

definition list_sfu_instances :: "('w, 'z) env_scheme \<Rightarrow> ('w, store_error, SfuInstance list) prog" where
  "list_sfu_instances E =
     with_timeout (tryM (rcall E (Hgetall SFU_INSTANCES_KEY) as_hash) (\<lambda>values.
       case decode_all (from_json (json E)) (map snd values) of
         None \<Rightarrow> failM FutJson | Some instances \<Rightarrow> okM instances))"

definition load_sfu_room_loads :: "('w, 'z) env_scheme \<Rightarrow> ('w, store_error, string \<rightharpoonup> real) prog" where
  "load_sfu_room_loads E =
     with_timeout (tryM (rcall E (ZrangeWithscores SFU_ROOM_LOAD_KEY) as_scores)
       (\<lambda>entries. okM (collect_map entries)))"

definition get_sfu_instance :: "('w, 'z) env_scheme \<Rightarrow> string \<Rightarrow> ('w, store_error, SfuInstance option) prog" where
  "get_sfu_instance E inst_id =
     with_timeout (tryM (rcall E (Hget SFU_INSTANCES_KEY inst_id) as_opt_string) (\<lambda>payload.
       case payload of
         None \<Rightarrow> okM None
       | Some p \<Rightarrow> (case from_json (json E) p of None \<Rightarrow> failM FutJson | Some i \<Rightarrow> okM (Some i))))"

definition save_sfu_instance :: "('w, 'z) env_scheme \<Rightarrow> SfuInstance \<Rightarrow> ('w, store_error, unit) prog" where
  "save_sfu_instance E inst =
     with_timeout (tryM (rcall E (Hset SFU_INSTANCES_KEY (instance_id inst) (to_json (json E) inst)) as_int)
       (\<lambda>_. okM ()))"

definition fresh_instance :: "int \<Rightarrow> SfuCandidate \<Rightarrow> SfuInstance" where
  "fresh_instance now candidate =
     \<lparr>instance_id = cand_instance_id candidate, grpc_addr = cand_grpc_addr candidate,
      max_rooms = cand_max_rooms candidate, alive = False, state = ''unknown'',
      last_ping_unix = 0, idle_since_unix = now\<rparr>"

definition reseeded :: "SfuInstance \<Rightarrow> SfuCandidate \<Rightarrow> SfuInstance" where
  "reseeded inst candidate =
     inst\<lparr>grpc_addr := cand_grpc_addr candidate, max_rooms := cand_max_rooms candidate\<rparr>"

definition seed_one :: "('w, 'z) env_scheme \<Rightarrow> int \<Rightarrow> SfuCandidate \<Rightarrow> ('w, fut_error, unit) prog" where
  "seed_one E now candidate =
     tryM (rcall E (Hget SFU_INSTANCES_KEY (cand_instance_id candidate)) as_opt_string) (\<lambda>existing.
     tryM (case existing of
             Some payload \<Rightarrow>
               (case from_json (json E) payload of
                  None \<Rightarrow> failM FutJson
                | Some inst \<Rightarrow> okM (reseeded inst candidate))
           | None \<Rightarrow> okM (fresh_instance now candidate)) (\<lambda>inst.
     tryM (rcall E (Hset SFU_INSTANCES_KEY (instance_id inst) (to_json (json E) inst)) as_int) (\<lambda>_.
     tryM (rcall E (Zscore SFU_ROOM_LOAD_KEY (instance_id inst)) as_opt_score) (\<lambda>existing_load.
     if existing_load = None
     then tryM (rcall E (Zadd SFU_ROOM_LOAD_KEY (instance_id inst) 0) as_int) (\<lambda>_. okM ())
     else okM ()))))"

definition seed_sfu_inventory :: "('w, 'z) env_scheme \<Rightarrow> SfuCandidate list \<Rightarrow> ('w, store_error, unit) prog" where
  "seed_sfu_inventory E inventory =
     tryM (liftM (unix_now E)) (\<lambda>now. with_timeout (forE (seed_one E now) inventory))"

definition update_sfu_health :: "('w, 'z) env_scheme \<Rightarrow> string \<Rightarrow> bool \<Rightarrow> int \<Rightarrow> ('w, store_error, unit) prog" where
  "update_sfu_health E inst_id is_alive now =
     tryM (get_sfu_instance E inst_id) (\<lambda>found.
       case found of
         None \<Rightarrow> okM ()
       | Some inst \<Rightarrow>
           let inst1 = inst\<lparr>alive := is_alive\<rparr>;
               inst2 = (if is_alive then inst1\<lparr>last_ping_unix := now, state := ''ready''\<rparr> else inst1)
           in save_sfu_instance E inst2)"

definition update_idle_since :: "('w, 'z) env_scheme \<Rightarrow> string \<Rightarrow> int \<Rightarrow> ('w, store_error, unit) prog" where
  "update_idle_since E inst_id idle_since =
     tryM (get_sfu_instance E inst_id) (\<lambda>found.
       case found of
         None \<Rightarrow> failM MissingInstance
       | Some inst \<Rightarrow> save_sfu_instance E (inst\<lparr>idle_since_unix := idle_since\<rparr>))"

definition delete_sfu_instance :: "('w, 'z) env_scheme \<Rightarrow> string \<Rightarrow> ('w, store_error, unit) prog" where
  "delete_sfu_instance E inst_id =
     with_timeout (rcall E (Multi [Hdel SFU_INSTANCES_KEY inst_id, Zrem SFU_ROOM_LOAD_KEY inst_id]) as_unit)"

text \<open>Both services lower a load the same way: by one, but never below zero.\<close>

definition lowered :: "real option \<Rightarrow> real" where
  "lowered current = (let c = (case current of None \<Rightarrow> 0 | Some x \<Rightarrow> x) in if c \<le> 1 then 0 else c - 1)"

definition decrement_sfu_room_load :: "('w, 'z) env_scheme \<Rightarrow> string \<Rightarrow> ('w, store_error, unit) prog" where
  "decrement_sfu_room_load E inst_id =
     tryM (with_timeout
       (tryM (rcall E (Zscore SFU_ROOM_LOAD_KEY inst_id) as_opt_score) (\<lambda>current.
        tryM (rcall E (Zadd SFU_ROOM_LOAD_KEY inst_id (lowered current)) as_int) (\<lambda>_.
        okM (lowered current))))) (\<lambda>nxt.
     if nxt = 0 then tryM (liftM (unix_now E)) (\<lambda>now. update_idle_since E inst_id now) else okM ())"

definition sfu_eligible :: "int \<Rightarrow> (string \<rightharpoonup> real) \<Rightarrow> SfuInstance \<Rightarrow> bool" where
  "sfu_eligible now room_loads inst \<longleftrightarrow>
     alive inst \<and> sub_i64 now (last_ping_unix inst) \<le> 30 \<and> state inst = ''ready''
     \<and> get_or 0 room_loads (instance_id inst) < of_nat (unat (max_rooms inst))"

definition select_least_loaded_instance :: "('w, 'z) env_scheme \<Rightarrow> ('w, store_error, SfuInstance option) prog" where
  "select_least_loaded_instance E =
     tryM (list_sfu_instances E) (\<lambda>instances.
     tryM (load_sfu_room_loads E) (\<lambda>room_loads.
     tryM (liftM (unix_now E)) (\<lambda>now.
     okM (min_by (\<lambda>inst. get_or 0 room_loads (instance_id inst))
            (filter (sfu_eligible now room_loads) instances)))))"

definition assign_room_to_instance ::
    "('w, 'z) env_scheme \<Rightarrow> string \<Rightarrow> string \<Rightarrow> string \<Rightarrow> 16 word \<Rightarrow> SfuInstance \<Rightarrow> ('w, store_error, unit) prog" where
  "assign_room_to_instance E room_id owner_id owner_host owner_port inst =
     tryM (with_timeout (rcall E (Multi
       [Hset (room_binding_key room_id) ''owner_host'' owner_host,
        Hset (room_binding_key room_id) ''owner_port'' (show_nat (unat owner_port)),
        Hset (room_binding_key room_id) ''signaling_owner_id'' owner_id,
        Hset (room_binding_key room_id) ''room_state'' ''active'',
        Hset (room_binding_key room_id) ''sfu_instance_id'' (instance_id inst),
        Hset (room_binding_key room_id) ''sfu_grpc_addr'' (grpc_addr inst)]) as_unit)) (\<lambda>_.
     tryM (with_timeout (tryM (rcall E (Zincr SFU_ROOM_LOAD_KEY (instance_id inst) 1) as_opt_score)
       (\<lambda>_. okM ()))) (\<lambda>_.
     update_idle_since E (instance_id inst) 0))"

definition health_ping :: "('w, 'z) env_scheme \<Rightarrow> ('w, store_error, unit) prog" where
  "health_ping E = with_timeout (tryM (rcall E Ping as_string) (\<lambda>_. okM ()))"

section \<open>Reading a view\<close>

text \<open>What the store says about the SFU inventory: the decoded instances, and whether the table is in
  order (every payload decodes and carries the identifier of its field).\<close>

definition sfu_table :: "json_api \<Rightarrow> store \<Rightarrow> (string \<rightharpoonup> SfuInstance)" where
  "sfu_table J st = (\<lambda>i. case hash_of st SFU_INSTANCES_KEY i of None \<Rightarrow> None | Some p \<Rightarrow> from_json J p)"

definition sfu_ok :: "json_api \<Rightarrow> store \<Rightarrow> bool" where
  "sfu_ok J st \<longleftrightarrow> is_hash st SFU_INSTANCES_KEY \<and> is_zset st SFU_ROOM_LOAD_KEY
     \<and> (\<forall>i p. hash_of st SFU_INSTANCES_KEY i = Some p \<longrightarrow> (\<exists>x. from_json J p = Some x \<and> instance_id x = i))"

definition room_load :: "store \<Rightarrow> string \<Rightarrow> real" where
  "room_load st i = get_or 0 (zset_of st SFU_ROOM_LOAD_KEY) i"

text \<open>The inventory differs at most in the idle time of one instance; and the store after one place on that
  instance was given back: its load is one lower, never below zero, and only one that got empty is marked idle.\<close>

definition idle_only :: "json_api \<Rightarrow> store \<Rightarrow> string \<Rightarrow> store \<Rightarrow> bool" where
  "idle_only J st i st' \<longleftrightarrow>
     (\<exists>t. sfu_table J st' = (sfu_table J st)(i := map_option (\<lambda>x. x\<lparr>idle_since_unix := t\<rparr>) (sfu_table J st i)))"

definition given_back :: "json_api \<Rightarrow> store \<Rightarrow> string \<Rightarrow> store \<Rightarrow> bool" where
  "given_back J st i st' \<longleftrightarrow> sfu_ok J st' \<and> room_load st' = (room_load st)(i := max 0 (room_load st i - 1))
     \<and> (if room_load st' i = 0 then idle_only J st i st' else sfu_table J st' = sfu_table J st)"

text \<open>Load accounting: every load is a natural number.\<close>

definition loads_natural :: "store \<Rightarrow> bool" where
  "loads_natural st \<longleftrightarrow> (\<forall>i x. zset_of st SFU_ROOM_LOAD_KEY i = Some x \<longrightarrow> x \<in> \<nat>)"

definition within_capacity :: "json_api \<Rightarrow> store \<Rightarrow> bool" where
  "within_capacity J st \<longleftrightarrow>
     (\<forall>i inst. sfu_table J st i = Some inst \<longrightarrow> room_load st i \<le> of_nat (unat (max_rooms inst)))"

lemma collect_map_distinct: "distinct_keys xs \<Longrightarrow> collect_map xs = map_of xs"
  unfolding collect_map_def by (rule map_of_inject_set [THEN iffD2]) (simp_all flip: rev_map)

lemma decode_all_eq:
  "decode_all f xs = (if \<forall>x \<in> set xs. f x \<noteq> None then Some (map (the \<circ> f) xs) else None)"
  by (induction xs) (auto split: option.splits)

lemma sfu_ok_typed: "sfu_ok J st \<Longrightarrow> is_hash st SFU_INSTANCES_KEY" "sfu_ok J st \<Longrightarrow> is_zset st SFU_ROOM_LOAD_KEY"
  by (simp_all add: sfu_ok_def)

lemma sfu_ok_decodes:
  "sfu_ok J st \<Longrightarrow> hash_of st SFU_INSTANCES_KEY i = Some p \<Longrightarrow> \<exists>x. from_json J p = Some x \<and> instance_id x = i"
  by (simp add: sfu_ok_def)

lemma sfu_table_id: "sfu_ok J st \<Longrightarrow> sfu_table J st i = Some inst \<Longrightarrow> instance_id inst = i"
  using sfu_ok_decodes [of J st i] by (auto simp: sfu_table_def split: option.splits)

lemma sfu_table_None: "sfu_ok J st \<Longrightarrow> sfu_table J st i = None \<longleftrightarrow> hash_of st SFU_INSTANCES_KEY i = None"
  using sfu_ok_decodes [of J st i] by (auto simp: sfu_table_def split: option.splits)

lemma sfu_table_ran: "sfu_ok J st \<Longrightarrow> ran (sfu_table J st) = (the \<circ> from_json J) ` ran (hash_of st SFU_INSTANCES_KEY)"
  using sfu_ok_decodes [of J st] by (fastforce simp: ran_def sfu_table_def image_iff split: option.splits)

lemma sfu_table_frame:
  "k \<noteq> SFU_INSTANCES_KEY \<Longrightarrow> sfu_table J (put_hash k h st) = sfu_table J st"
  "k \<noteq> SFU_INSTANCES_KEY \<Longrightarrow> sfu_table J (put_set k s st) = sfu_table J st"
  "k \<noteq> SFU_INSTANCES_KEY \<Longrightarrow> sfu_table J (put_zset k z st) = sfu_table J st"
  "k \<noteq> SFU_INSTANCES_KEY \<Longrightarrow> sfu_table J (st(k := None)) = sfu_table J st"
  by (auto simp: sfu_table_def)

lemma sfu_ok_frame:
  "k \<notin> {SFU_INSTANCES_KEY, SFU_ROOM_LOAD_KEY} \<Longrightarrow> sfu_ok J (put_hash k h st) = sfu_ok J st"
  "k \<notin> {SFU_INSTANCES_KEY, SFU_ROOM_LOAD_KEY} \<Longrightarrow> sfu_ok J (put_set k s st) = sfu_ok J st"
  "k \<notin> {SFU_INSTANCES_KEY, SFU_ROOM_LOAD_KEY} \<Longrightarrow> sfu_ok J (st(k := None)) = sfu_ok J st"
  "sfu_ok J st \<Longrightarrow> sfu_ok J (put_zset SFU_ROOM_LOAD_KEY z st)"
  by (auto simp: sfu_ok_def)

lemma room_load_frame:
  "k \<noteq> SFU_ROOM_LOAD_KEY \<Longrightarrow> room_load (put_hash k h st) = room_load st"
  "k \<noteq> SFU_ROOM_LOAD_KEY \<Longrightarrow> room_load (put_set k s st) = room_load st"
  "k \<noteq> SFU_ROOM_LOAD_KEY \<Longrightarrow> room_load (st(k := None)) = room_load st"
  "room_load (put_zset SFU_ROOM_LOAD_KEY z st) i = get_or 0 z i"
  by (auto simp: room_load_def)

lemma room_load_upd:
  "room_load (put_zset SFU_ROOM_LOAD_KEY ((zset_of st SFU_ROOM_LOAD_KEY)(i \<mapsto> x)) st) = (room_load st)(i := x)"
  by (auto simp: room_load_def get_or_def)

lemma loads_natural_iff: "loads_natural st \<longleftrightarrow> (\<forall>i. room_load st i \<in> \<nat>)"
  by (auto simp: loads_natural_def room_load_def get_or_def split: option.splits)

lemma nat_pred: "(x :: real) \<in> \<nat> \<Longrightarrow> max 0 (x - 1) \<in> \<nat>"
proof -
  assume "x \<in> \<nat>"
  then obtain n where "x = of_nat n" by (auto elim: Nats_cases)
  then have "max 0 (x - 1) = of_nat (n - 1)" by (cases n) auto
  then show ?thesis by (simp only: of_nat_in_Nats)
qed

lemma session_lock_suffix: "ends_with '':lock'' (session_key i) \<longleftrightarrow> ends_with '':lock'' i \<or> i = ''lock''"
proof -
  have "(\<exists>r. session_key i = r @ '':lock'') \<longleftrightarrow> (\<exists>r. i = r @ '':lock'') \<or> i = ''lock''"
  proof
    assume "\<exists>r. session_key i = r @ '':lock''"
    then obtain r where "SIGNALING_SESSION_PREFIX @ i = r @ '':lock''" by (auto simp: session_key_def)
    then show "(\<exists>r. i = r @ '':lock'') \<or> i = ''lock''"
      by (auto simp: append_eq_append_conv2 key_name_defs append_eq_Cons_conv Cons_eq_append_conv)
  next
    assume "(\<exists>r. i = r @ '':lock'') \<or> i = ''lock''"
    then show "\<exists>r. session_key i = r @ '':lock''"
      by (auto simp: session_key_def key_name_defs)
  qed
  then show ?thesis by (simp add: ends_with_iff)
qed

context json_layer
begin

lemma sfu_put_inst:
  "sfu_ok J st \<Longrightarrow> sfu_ok J (put_hash SFU_INSTANCES_KEY ((hash_of st SFU_INSTANCES_KEY)(instance_id x \<mapsto> to_json J x)) st)"
  "sfu_table J (put_hash SFU_INSTANCES_KEY ((hash_of st SFU_INSTANCES_KEY)(i \<mapsto> to_json J x)) st)
    = (sfu_table J st)(i \<mapsto> x)"
  by (auto simp: sfu_ok_def sfu_table_def from_to)

end

text \<open>A complete iteration drives the loop to its end, and a pattern with one star matches exactly
  the strings with its prefix and suffix.\<close>

lemma scan_loop_pages:
  "scan_pages E p c w pages w' \<Longrightarrow> length pages \<le> n \<Longrightarrow>
   scan_loop E n p pick c acc w = (Inr (acc @ concat (map pick pages)), w')"
proof (induction arbitrary: n acc rule: scan_pages.induct)
  case (last_page c w ks w')
  then show ?case by (cases n) (simp_all add: rcall_def call_def prog_simps as_defs)
next
  case (next_page c w c' ks w1 pages w')
  then show ?case by (cases n) (simp_all add: rcall_def call_def prog_simps as_defs)
qed

lemma glob_tail: "CHR ''*'' \<notin> set q \<Longrightarrow> glob_match q s \<longleftrightarrow> s = q"
  by (induction q s rule: glob_match.induct) auto

lemma glob_star_tail: "CHR ''*'' \<notin> set q \<Longrightarrow> glob_match (CHR ''*'' # q) s \<longleftrightarrow> (\<exists>r. s = r @ q)"
proof (induction s)
  case (Cons c s)
  have "(\<exists>r. c # s = r @ q) \<longleftrightarrow> c # s = q \<or> (\<exists>r. s = r @ q)" by (metis append_Cons append_Nil neq_Nil_conv list.inject)
  then show ?case using Cons by (simp add: glob_tail)
qed (auto simp: glob_tail)

lemma glob_star:
  "CHR ''*'' \<notin> set p \<Longrightarrow> CHR ''*'' \<notin> set q \<Longrightarrow> glob_match (p @ CHR ''*'' # q) s \<longleftrightarrow> (\<exists>r. s = p @ r @ q)"
proof (induction p arbitrary: s)
  case Nil
  then show ?case by (simp add: glob_star_tail)
next
  case (Cons a p)
  then show ?case by (cases s) auto
qed

lemma set_map_filter: "set (List.map_filter g xs) = {y. \<exists>x \<in> set xs. g x = Some y}"
  by (induction xs) (auto simp: List.map_filter_simps split: option.splits)

lemma strip_both_iff: "strip_both p q k = Some y \<longleftrightarrow> k = p @ y @ q"
  by (auto simp: strip_both_def strip_prefix_iff strip_suffix_iff split: option.splits)
     (metis option.distinct(1) strip_prefix_iff)

section \<open>The operations on an available store\<close>

locale store_world = redis_scan E view + json_layer "json E" for E :: "('w, 'z) env_scheme" and view
begin

lemmas store_eval = with_timeout_def rcall_def prog_simps redis_eval unix_now_def clock_view

lemma heartbeat_eval:
  assumes "is_hash (view w) SUPERVISOR_HEARTBEAT_KEY"
  shows "fst (write_supervisor_heartbeat E i now w) = Inr ()"
    "view (snd (write_supervisor_heartbeat E i now w)) =
       put_hash SUPERVISOR_HEARTBEAT_KEY ((hash_of (view w) SUPERVISOR_HEARTBEAT_KEY)
         (''last_seen_unix'' \<mapsto> show_int now, ''instance_id'' \<mapsto> (case i of None \<Rightarrow> [] | Some x \<Rightarrow> x))) (view w)"
  using assms by (simp_all add: write_supervisor_heartbeat_def store_eval is_assign_def)

lemma read_status_eval:
  assumes "is_hash (view w) SUPERVISOR_HEARTBEAT_KEY"
  shows "fst (read_supervisor_status E w) =
      Inr (if hash_of (view w) SUPERVISOR_HEARTBEAT_KEY = Map.empty then None
           else Some (supervisor_status_of (hash_of (view w) SUPERVISOR_HEARTBEAT_KEY)))"
    "view (snd (read_supervisor_status E w)) = view w"
proof -
  obtain xs where "fst (call E (Hgetall SUPERVISOR_HEARTBEAT_KEY) as_hash w) = Inr xs" "distinct_keys xs"
    "map_of xs = hash_of (view w) SUPERVISOR_HEARTBEAT_KEY"
    "view (snd (call E (Hgetall SUPERVISOR_HEARTBEAT_KEY) as_hash w)) = view w"
    using call_hgetall [OF assms] .
  then show "fst (read_supervisor_status E w) =
      Inr (if hash_of (view w) SUPERVISOR_HEARTBEAT_KEY = Map.empty then None
           else Some (supervisor_status_of (hash_of (view w) SUPERVISOR_HEARTBEAT_KEY)))"
    "view (snd (read_supervisor_status E w)) = view w"
    by (auto simp: read_supervisor_status_def store_eval collect_map_distinct)
qed

lemma get_room_assignment_eval:
  assumes "is_hash (view w) (room_binding_key r)"
  shows "fst (get_room_assignment E r w) =
      Inr (if view w (room_binding_key r) = None then None
           else Some (room_binding_of r (hash_of (view w) (room_binding_key r))))"
    "view (snd (get_room_assignment E r w)) = view w"
proof -
  obtain xs where "fst (call E (Hgetall (room_binding_key r)) as_hash w) = Inr xs" "distinct_keys xs"
    "map_of xs = hash_of (view w) (room_binding_key r)"
    "view (snd (call E (Hgetall (room_binding_key r)) as_hash w)) = view w"
    using call_hgetall [OF assms] .
  then show "fst (get_room_assignment E r w) =
      Inr (if view w (room_binding_key r) = None then None
           else Some (room_binding_of r (hash_of (view w) (room_binding_key r))))"
    "view (snd (get_room_assignment E r w)) = view w"
    by (auto simp: get_room_assignment_def store_eval collect_map_distinct typed_exists(1) [OF assms])
qed

lemma get_sfu_instance_eval:
  assumes "sfu_ok (json E) (view w)"
  shows "fst (get_sfu_instance E i w) = Inr (sfu_table (json E) (view w) i)"
    "view (snd (get_sfu_instance E i w)) = view w"
  using sfu_ok_typed [OF assms] sfu_ok_decodes [OF assms, of i]
  by (auto simp: get_sfu_instance_def store_eval sfu_table_def split: option.splits)

lemma save_sfu_instance_eval:
  assumes "is_hash (view w) SFU_INSTANCES_KEY"
  shows "fst (save_sfu_instance E inst w) = Inr ()"
    "view (snd (save_sfu_instance E inst w)) = put_hash SFU_INSTANCES_KEY
       ((hash_of (view w) SFU_INSTANCES_KEY)(instance_id inst \<mapsto> to_json (json E) inst)) (view w)"
  using assms by (simp_all add: save_sfu_instance_def store_eval)

lemma list_sfu_instances_eval:
  assumes "sfu_ok (json E) (view w)"
  obtains xs where "fst (list_sfu_instances E w) = Inr xs" "set xs = ran (sfu_table (json E) (view w))"
    "view (snd (list_sfu_instances E w)) = view w"
proof -
  let ?h = "hash_of (view w) SFU_INSTANCES_KEY"
  have "is_hash (view w) SFU_INSTANCES_KEY" using assms by (simp add: sfu_ok_def)
  from call_hgetall [OF this] obtain ps where ps: "fst (call E (Hgetall SFU_INSTANCES_KEY) as_hash w) = Inr ps"
    "distinct_keys ps" "map_of ps = ?h" "view (snd (call E (Hgetall SFU_INSTANCES_KEY) as_hash w)) = view w" .
  have vals: "set (map snd ps) = ran ?h" using ran_distinct [OF ps(2)] ps(3) by simp
  have "\<forall>p \<in> set (map snd ps). from_json (json E) p \<noteq> None"
    unfolding vals using sfu_ok_decodes [OF assms] by (fastforce simp: ran_def)
  then have "decode_all (from_json (json E)) (map snd ps) = Some (map (the \<circ> from_json (json E)) (map snd ps))"
    by (subst decode_all_eq) (rule if_P)
  moreover have "set (map (the \<circ> from_json (json E)) (map snd ps)) = ran (sfu_table (json E) (view w))"
    using sfu_table_ran [OF assms] vals by (simp only: set_map [of "the \<circ> from_json (json E)"])
  ultimately show ?thesis using ps
    by (intro that [of "map (the \<circ> from_json (json E)) (map snd ps)"])
      (simp_all add: list_sfu_instances_def store_eval del: map_map set_map)
qed

lemma load_sfu_room_loads_eval:
  assumes "is_zset (view w) SFU_ROOM_LOAD_KEY"
  shows "fst (load_sfu_room_loads E w) = Inr (zset_of (view w) SFU_ROOM_LOAD_KEY)"
    "view (snd (load_sfu_room_loads E w)) = view w"
proof -
  from call_zrange_withscores [OF assms] obtain zs where
    "fst (call E (ZrangeWithscores SFU_ROOM_LOAD_KEY) as_scores w) = Inr zs" "distinct_keys zs"
    "map_of zs = zset_of (view w) SFU_ROOM_LOAD_KEY"
    "view (snd (call E (ZrangeWithscores SFU_ROOM_LOAD_KEY) as_scores w)) = view w" .
  then show "fst (load_sfu_room_loads E w) = Inr (zset_of (view w) SFU_ROOM_LOAD_KEY)"
    "view (snd (load_sfu_room_loads E w)) = view w"
    by (simp_all add: load_sfu_room_loads_def store_eval collect_map_distinct)
qed

text \<open>Selection: an eligible instance of least load, if there is one.\<close>

lemma select_eval:
  assumes "sfu_ok (json E) (view w)"
  obtains xs now where "fst (select_least_loaded_instance E w) =
      Inr (min_by (\<lambda>i. room_load (view w) (instance_id i))
        (filter (sfu_eligible now (zset_of (view w) SFU_ROOM_LOAD_KEY)) xs))"
    "set xs = ran (sfu_table (json E) (view w))" "view (snd (select_least_loaded_instance E w)) = view w"
    "now = fst (unix_time E (snd (load_sfu_room_loads E (snd (list_sfu_instances E w)))))"
proof -
  from list_sfu_instances_eval [OF assms] obtain xs where xs: "fst (list_sfu_instances E w) = Inr xs"
    "set xs = ran (sfu_table (json E) (view w))" "view (snd (list_sfu_instances E w)) = view w" .
  have z: "is_zset (view (snd (list_sfu_instances E w))) SFU_ROOM_LOAD_KEY"
    using assms xs(3) by (simp add: sfu_ok_def)
  show ?thesis
    using xs load_sfu_room_loads_eval [OF z]
    by (intro that [of _ xs]) (simp_all add: select_least_loaded_instance_def prog_simps
        unix_now_def clock_view room_load_def)
qed

lemma update_idle_eval:
  assumes "sfu_ok (json E) (view w)"
  shows "fst (update_idle_since E i t w) =
      (case sfu_table (json E) (view w) i of None \<Rightarrow> Inl MissingInstance | Some _ \<Rightarrow> Inr ())"
    "view (snd (update_idle_since E i t w)) =
      (case sfu_table (json E) (view w) i of None \<Rightarrow> view w
       | Some inst \<Rightarrow> put_hash SFU_INSTANCES_KEY ((hash_of (view w) SFU_INSTANCES_KEY)
           (i \<mapsto> to_json (json E) (inst\<lparr>idle_since_unix := t\<rparr>))) (view w))"
proof -
  have id: "sfu_table (json E) (view w) i = Some inst \<Longrightarrow> instance_id inst = i" for inst
    by (rule sfu_table_id [OF assms])
  note h = sfu_ok_typed(1) [OF assms]
  show "fst (update_idle_since E i t w) =
      (case sfu_table (json E) (view w) i of None \<Rightarrow> Inl MissingInstance | Some _ \<Rightarrow> Inr ())"
    "view (snd (update_idle_since E i t w)) =
      (case sfu_table (json E) (view w) i of None \<Rightarrow> view w
       | Some inst \<Rightarrow> put_hash SFU_INSTANCES_KEY ((hash_of (view w) SFU_INSTANCES_KEY)
           (i \<mapsto> to_json (json E) (inst\<lparr>idle_since_unix := t\<rparr>))) (view w))"
    using get_sfu_instance_eval [OF assms, of i] h id
    by (auto simp: update_idle_since_def prog_simps save_sfu_instance_eval split: option.splits)
qed

lemma decrement_eval:
  fixes i :: string
  assumes ok: "sfu_ok (json E) (view w)"
  defines "w' \<equiv> snd (decrement_sfu_room_load E i w)"
    and "n \<equiv> lowered (zset_of (view w) SFU_ROOM_LOAD_KEY i)"
  shows "room_load (view w') = (room_load (view w))(i := n)" (is ?load)
    "sfu_ok (json E) (view w')" (is ?ok)
    "\<And>k. k \<notin> {SFU_INSTANCES_KEY, SFU_ROOM_LOAD_KEY} \<Longrightarrow> view w' k = view w k" (is "PROP ?frame")
    "fst (decrement_sfu_room_load E i w) =
       (if n = 0 \<and> sfu_table (json E) (view w) i = None then Inl MissingInstance else Inr ())" (is ?res)
    "if n = 0 then idle_only (json E) (view w) i (view w')
     else sfu_table (json E) (view w') = sfu_table (json E) (view w)" (is ?idle)
proof -
  define st where "st = put_zset SFU_ROOM_LOAD_KEY ((zset_of (view w) SFU_ROOM_LOAD_KEY)(i \<mapsto> n)) (view w)"
  define w1 where "w1 = snd (call E (Zadd SFU_ROOM_LOAD_KEY i n) as_int
    (snd (call E (Zscore SFU_ROOM_LOAD_KEY i) as_opt_score w)))"
  define w2 where "w2 = snd (unix_time E w1)"
  define t where "t = fst (unix_time E w1)"
  note z = sfu_ok_typed(2) [OF ok]
  have v: "view w1 = st" "view w2 = st"
    using z by (simp_all add: redis_eval w1_def w2_def st_def)
  have ok1: "sfu_ok (json E) (view w2)" unfolding v st_def using ok by (rule sfu_ok_frame)
  have tb: "sfu_table (json E) st = sfu_table (json E) (view w)"
    unfolding st_def by (simp add: sfu_table_frame)
  have ld: "room_load st = (room_load (view w))(i := n)" unfolding st_def by (rule room_load_upd)
  have fr: "k \<notin> {SFU_INSTANCES_KEY, SFU_ROOM_LOAD_KEY} \<Longrightarrow> st k = view w k" for k by (simp add: st_def)
  have run: "decrement_sfu_room_load E i w = (if n = 0 then update_idle_since E i t w2 else (Inr (), w1))"
    using z by (simp add: decrement_sfu_room_load_def store_eval n_def w1_def w2_def t_def)
  note upd = update_idle_eval [OF ok1, unfolded v tb, of i t]
  have ok2: "sfu_ok (json E) (put_hash SFU_INSTANCES_KEY ((hash_of st SFU_INSTANCES_KEY)
        (i \<mapsto> to_json (json E) (inst\<lparr>idle_since_unix := t\<rparr>))) st)"
    if "sfu_table (json E) (view w) i = Some inst" for inst
    using sfu_put_inst(1) [OF ok1, of "inst\<lparr>idle_since_unix := t\<rparr>"] sfu_table_id [OF ok that] by (simp add: v)
  show ?load unfolding w'_def run using ld
    by (auto simp: upd v room_load_frame split: option.splits)
  show ?ok unfolding w'_def run using ok1 ok2 by (auto simp: upd v split: option.splits)
  show "PROP ?frame" unfolding w'_def run using fr by (auto simp: upd v split: option.splits)
  show ?res unfolding run by (auto simp: upd split: option.splits)
  have mark: "sfu_table (json E) (put_hash SFU_INSTANCES_KEY ((hash_of st SFU_INSTANCES_KEY)
        (i \<mapsto> to_json (json E) (inst\<lparr>idle_since_unix := t\<rparr>))) st) = (sfu_table (json E) (view w))(i \<mapsto> inst\<lparr>idle_since_unix := t\<rparr>)"
    if "sfu_table (json E) (view w) i = Some inst" for inst
    using sfu_put_inst(2) [of st i "inst\<lparr>idle_since_unix := t\<rparr>"] by (simp add: tb)
  have same: "(sfu_table (json E) (view w))(i := None) = sfu_table (json E) (view w)"
    if "sfu_table (json E) (view w) i = None" using that by auto
  show ?idle
  proof (cases "sfu_table (json E) (view w) i")
    case None
    then show ?thesis unfolding w'_def run idle_only_def by (simp add: upd v tb same)
  next
    case (Some inst)
    then show ?thesis unfolding w'_def run idle_only_def
      by (auto simp: upd v tb mark [OF Some] intro!: exI [of _ t])
  qed
qed

lemma assign_eval:
  fixes oid host :: string and port :: "16 word"
  assumes ok: "sfu_ok (json E) (view w)" and h: "is_hash (view w) (room_binding_key r)"
    and known: "sfu_table (json E) (view w) (instance_id inst) = Some cur"
  defines "w' \<equiv> snd (assign_room_to_instance E r oid host port inst w)"
  shows "fst (assign_room_to_instance E r oid host port inst w) = Inr ()"
    "hash_of (view w') (room_binding_key r) = (hash_of (view w) (room_binding_key r))
      (''owner_host'' \<mapsto> host, ''owner_port'' \<mapsto> show_nat (unat port), ''signaling_owner_id'' \<mapsto> oid,
       ''room_state'' \<mapsto> ''active'', ''sfu_instance_id'' \<mapsto> instance_id inst, ''sfu_grpc_addr'' \<mapsto> grpc_addr inst)"
    "is_hash (view w') (room_binding_key r)"
    "room_load (view w') = (room_load (view w))(instance_id inst := room_load (view w) (instance_id inst) + 1)"
    "sfu_table (json E) (view w') = (sfu_table (json E) (view w))(instance_id inst \<mapsto> cur\<lparr>idle_since_unix := 0\<rparr>)"
    "sfu_ok (json E) (view w')"
proof -
  note t = sfu_ok_typed [OF ok]
  note cid = sfu_table_id [OF ok known]
  let ?m = "Multi
       [Hset (room_binding_key r) ''owner_host'' host,
        Hset (room_binding_key r) ''owner_port'' (show_nat (unat port)),
        Hset (room_binding_key r) ''signaling_owner_id'' oid,
        Hset (room_binding_key r) ''room_state'' ''active'',
        Hset (room_binding_key r) ''sfu_instance_id'' (instance_id inst),
        Hset (room_binding_key r) ''sfu_grpc_addr'' (grpc_addr inst)]"
  define w1 where "w1 = snd (call E ?m as_unit w)"
  define w2 where "w2 = snd (call E (Zincr SFU_ROOM_LOAD_KEY (instance_id inst) 1) as_opt_score w1)"
  define h1 where "h1 = (hash_of (view w) (room_binding_key r))
      (''owner_host'' \<mapsto> host, ''owner_port'' \<mapsto> show_nat (unat port), ''signaling_owner_id'' \<mapsto> oid,
       ''room_state'' \<mapsto> ''active'', ''sfu_instance_id'' \<mapsto> instance_id inst, ''sfu_grpc_addr'' \<mapsto> grpc_addr inst)"
  define st where "st = put_zset SFU_ROOM_LOAD_KEY ((zset_of (view w) SFU_ROOM_LOAD_KEY)
      (instance_id inst \<mapsto> room_load (view w) (instance_id inst) + 1)) (put_hash (room_binding_key r) h1 (view w))"
  have m: "fst (call E ?m as_unit w) = Inr ()" "view w1 = put_hash (room_binding_key r) h1 (view w)"
    unfolding w1_def h1_def using call_multi [of _ w] h by (simp_all add: is_assign_def)
  have z: "fst (call E (Zincr SFU_ROOM_LOAD_KEY (instance_id inst) 1) as_opt_score w1)
      = Inr (Some (room_load (view w) (instance_id inst) + 1))" "view w2 = st"
    using call_zincr [of w1 SFU_ROOM_LOAD_KEY "instance_id inst" 1] t
    by (simp_all add: m(2) room_load_def w2_def st_def)
  have tb: "sfu_table (json E) st = sfu_table (json E) (view w)"
    unfolding st_def by (simp add: sfu_table_frame)
  have ok1: "sfu_ok (json E) (view w2)"
    unfolding z st_def using ok by (intro sfu_ok_frame(4)) (simp add: sfu_ok_frame)
  have run: "assign_room_to_instance E r oid host port inst w = update_idle_since E (instance_id inst) 0 w2"
    using m(1) z(1) by (simp add: assign_room_to_instance_def with_timeout_def rcall_def prog_simps w1_def w2_def)
  have u: "fst (update_idle_since E (instance_id inst) 0 w2) = Inr ()"
    "view w' = put_hash SFU_INSTANCES_KEY ((hash_of st SFU_INSTANCES_KEY)
         (instance_id inst \<mapsto> to_json (json E) (cur\<lparr>idle_since_unix := 0\<rparr>))) st"
    using update_idle_eval [OF ok1, of "instance_id inst" 0] by (simp_all add: z(2) tb known w'_def run)
  show "fst (assign_room_to_instance E r oid host port inst w) = Inr ()" by (simp add: run u)
  show "hash_of (view w') (room_binding_key r) = (hash_of (view w) (room_binding_key r))
      (''owner_host'' \<mapsto> host, ''owner_port'' \<mapsto> show_nat (unat port), ''signaling_owner_id'' \<mapsto> oid,
       ''room_state'' \<mapsto> ''active'', ''sfu_instance_id'' \<mapsto> instance_id inst, ''sfu_grpc_addr'' \<mapsto> grpc_addr inst)"
    "is_hash (view w') (room_binding_key r)"
    unfolding u(2) st_def by (simp_all add: h1_def)
  show "room_load (view w') = (room_load (view w))(instance_id inst := room_load (view w) (instance_id inst) + 1)"
    unfolding u(2) st_def by (auto simp: room_load_def get_or_def)
  show "sfu_table (json E) (view w') = (sfu_table (json E) (view w))(instance_id inst \<mapsto> cur\<lparr>idle_since_unix := 0\<rparr>)"
    unfolding u(2) by (simp only: sfu_put_inst tb)
  show "sfu_ok (json E) (view w')"
    unfolding u(2) using sfu_put_inst(1) [OF ok1, of "cur\<lparr>idle_since_unix := 0\<rparr>"] cid by (simp add: z(2))
qed

lemma seed_one_eval:
  fixes now :: int and c :: SfuCandidate
  assumes ok: "sfu_ok (json E) (view w)"
  defines "w' \<equiv> snd (seed_one E now c w)" and "i \<equiv> cand_instance_id c"
    and "inst \<equiv> (case sfu_table (json E) (view w) (cand_instance_id c) of None \<Rightarrow> fresh_instance now c
      | Some x \<Rightarrow> reseeded x c)"
  shows "fst (seed_one E now c w) = Inr ()"
    "sfu_table (json E) (view w') = (sfu_table (json E) (view w))(i \<mapsto> inst)"
    "room_load (view w') = room_load (view w)" "sfu_ok (json E) (view w')"
    "zset_of (view w') SFU_ROOM_LOAD_KEY i \<noteq> None"
proof -
  note t = sfu_ok_typed [OF ok]
  have id: "instance_id inst = i"
    using sfu_table_id [OF ok] by (auto simp: inst_def i_def fresh_instance_def reseeded_def split: option.splits)
  define w1 where "w1 = snd (call E (Hget SFU_INSTANCES_KEY i) as_opt_string w)"
  define w2 where "w2 = snd (call E (Hset SFU_INSTANCES_KEY i (to_json (json E) inst)) as_int w1)"
  define w3 where "w3 = snd (call E (Zscore SFU_ROOM_LOAD_KEY i) as_opt_score w2)"
  define st where "st = put_hash SFU_INSTANCES_KEY ((hash_of (view w) SFU_INSTANCES_KEY)(i \<mapsto> to_json (json E) inst)) (view w)"
  have v: "view w1 = view w" "view w2 = st" "view w3 = st"
    using t by (simp_all add: redis_eval w1_def w2_def w3_def st_def)
  define w4 where "w4 = (if zset_of (view w) SFU_ROOM_LOAD_KEY i = None
    then snd (call E (Zadd SFU_ROOM_LOAD_KEY i 0) as_int w3) else w3)"
  have v4: "view w4 = (if zset_of (view w) SFU_ROOM_LOAD_KEY i = None
    then put_zset SFU_ROOM_LOAD_KEY ((zset_of (view w) SFU_ROOM_LOAD_KEY)(i \<mapsto> 0)) st else st)"
    using t v(3) by (simp add: w4_def redis_eval st_def)
  have first: "fst (call E (Hget SFU_INSTANCES_KEY i) as_opt_string w) = Inr (hash_of (view w) SFU_INSTANCES_KEY i)"
    using t by (simp add: redis_eval)
  have choice: "(case hash_of (view w) SFU_INSTANCES_KEY i of
       Some payload \<Rightarrow> (case from_json (json E) payload of None \<Rightarrow> failM FutJson | Some x \<Rightarrow> okM (reseeded x c))
     | None \<Rightarrow> okM (fresh_instance now c)) = (okM inst :: ('w, fut_error, SfuInstance) prog)"
    using sfu_ok_decodes [OF ok, of i] by (auto simp: inst_def i_def sfu_table_def split: option.splits)
  have run: "seed_one E now c w = (Inr (), w4)"
    using t v v4
    by (simp add: seed_one_def rcall_def prog_simps first choice redis_eval
        w1_def [symmetric] w2_def [symmetric] w3_def [symmetric] i_def [symmetric] id w4_def st_def)
  show "fst (seed_one E now c w) = Inr ()" by (simp add: run)
  show "sfu_table (json E) (view w') = (sfu_table (json E) (view w))(i \<mapsto> inst)"
    by (simp add: w'_def run v4 sfu_table_frame st_def sfu_put_inst)
  show "room_load (view w') = room_load (view w)"
    by (auto simp: w'_def run v4 st_def room_load_def get_or_def fun_eq_iff)
  have "sfu_ok (json E) st" unfolding st_def using sfu_put_inst(1) [OF ok, of inst] by (simp add: id)
  then show "sfu_ok (json E) (view w')" by (auto simp: w'_def run v4 intro: sfu_ok_frame)
  show "zset_of (view w') SFU_ROOM_LOAD_KEY i \<noteq> None" by (auto simp: w'_def run v4 st_def)
qed

lemma seed_all_eval:
  fixes now :: int
  assumes "sfu_ok (json E) (view w)"
  shows "fst (forE (seed_one E now) cs w) = Inr ()
    \<and> sfu_ok (json E) (view (snd (forE (seed_one E now) cs w)))
    \<and> room_load (view (snd (forE (seed_one E now) cs w))) = room_load (view w)
    \<and> (\<forall>i. i \<notin> cand_instance_id ` set cs \<longrightarrow>
        sfu_table (json E) (view (snd (forE (seed_one E now) cs w))) i = sfu_table (json E) (view w) i)
    \<and> (distinct (map cand_instance_id cs) \<longrightarrow> (\<forall>c \<in> set cs.
        sfu_table (json E) (view (snd (forE (seed_one E now) cs w))) (cand_instance_id c) =
          Some (case sfu_table (json E) (view w) (cand_instance_id c) of None \<Rightarrow> fresh_instance now c
                | Some x \<Rightarrow> reseeded x c)))"
  using assms
proof (induction cs arbitrary: w)
  case Nil
  then show ?case by (simp add: prog_simps)
next
  case (Cons c cs)
  note s = seed_one_eval [OF Cons.prems, of now c]
  define w1 where "w1 = snd (seed_one E now c w)"
  have run: "forE (seed_one E now) (c # cs) w = forE (seed_one E now) cs w1"
    using s(1) by (simp add: prog_simps w1_def)
  have IH: "sfu_ok (json E) (view w1)" using s(4) by (simp add: w1_def)
  note IH = Cons.IH [OF this]
  have tb: "sfu_table (json E) (view w1) = (sfu_table (json E) (view w))(cand_instance_id c \<mapsto>
      (case sfu_table (json E) (view w) (cand_instance_id c) of None \<Rightarrow> fresh_instance now c
       | Some x \<Rightarrow> reseeded x c))" "room_load (view w1) = room_load (view w)"
    using s(2,3) by (simp_all add: w1_def)
  show ?case unfolding run using IH tb by (auto simp: image_iff)
qed

lemma scan_ids_eval:
  assumes "\<And>k. pick k = List.map_filter g k"
  obtains xs where "fst (with_timeout (scan_loop E (scan_budget E) p pick 0 []) w) = Inr xs"
    "set xs = {y. \<exists>k. view w k \<noteq> None \<and> glob_match p k \<and> g k = Some y}"
    "view (snd (with_timeout (scan_loop E (scan_budget E) p pick 0 []) w)) = view w"
proof -
  obtain pages w' where s: "scan_pages E p 0 w pages w'" "length pages \<le> scan_budget E"
    "set (concat pages) = {k. view w k \<noteq> None \<and> glob_match p k}" "view w' = view w"
    using complete_scan by blast
  note r = scan_loop_pages [OF s(1,2), of pick "[]"]
  have "set (concat (map pick pages)) = {y. \<exists>k \<in> set (concat pages). g k = Some y}"
    by (auto simp: assms set_map_filter)
  then have "set (concat (map pick pages)) = {y. \<exists>k. view w k \<noteq> None \<and> glob_match p k \<and> g k = Some y}"
    unfolding s(3) by blast
  then show ?thesis
    using s(4) by (intro that [of "concat (map pick pages)"]) (simp_all add: with_timeout_def prog_simps r)
qed

lemma scan_room_binding_ids_eval:
  obtains xs where "fst (scan_room_binding_ids E w) = Inr xs"
    "set xs = {r. view w (room_binding_key r) \<noteq> None}" "view (snd (scan_room_binding_ids E w)) = view w"
proof -
  have "{y. \<exists>k. view w k \<noteq> None \<and> glob_match (ROOM_BINDING_PREFIX @ ''*:binding'') k
      \<and> strip_both ROOM_BINDING_PREFIX '':binding'' k = Some y} = {r. view w (room_binding_key r) \<noteq> None}"
    using glob_star [of ROOM_BINDING_PREFIX "'':binding''"]
    by (auto simp: strip_both_iff room_binding_key_def key_name_defs)
  note eq = this
  show ?thesis
    by (rule scan_ids_eval [where pick = "List.map_filter (strip_both ROOM_BINDING_PREFIX '':binding'')" and g = "strip_both ROOM_BINDING_PREFIX '':binding''"
      and p = "ROOM_BINDING_PREFIX @ ''*:binding''" and w = w])
      (auto simp only: pick_session_ids_def eq scan_room_binding_ids_def [symmetric] intro: that)
qed

lemma scan_signaling_room_ids_eval:
  obtains xs where "fst (scan_signaling_room_ids E w) = Inr xs"
    "set xs = {r. view w (room_members_key r) \<noteq> None}" "view (snd (scan_signaling_room_ids E w)) = view w"
proof -
  have "{y. \<exists>k. view w k \<noteq> None \<and> glob_match (SIGNALING_ROOM_PREFIX @ ''*:members'') k
      \<and> strip_both SIGNALING_ROOM_PREFIX '':members'' k = Some y} = {r. view w (room_members_key r) \<noteq> None}"
    using glob_star [of SIGNALING_ROOM_PREFIX "'':members''"]
    by (auto simp: strip_both_iff room_members_key_def key_name_defs)
  note eq = this
  show ?thesis
    by (rule scan_ids_eval [where pick = "List.map_filter (strip_both SIGNALING_ROOM_PREFIX '':members'')" and g = "strip_both SIGNALING_ROOM_PREFIX '':members''"
      and p = "SIGNALING_ROOM_PREFIX @ ''*:members''" and w = w])
      (auto simp only: pick_session_ids_def eq scan_signaling_room_ids_def [symmetric] intro: that)
qed

lemma scan_signaling_session_ids_eval:
  obtains xs where "fst (scan_signaling_session_ids E w) = Inr xs"
    "set xs = {i. view w (session_key i) \<noteq> None \<and> \<not> ends_with '':lock'' (session_key i)}"
    "view (snd (scan_signaling_session_ids E w)) = view w"
proof -
  let ?g = "\<lambda>key. if ends_with '':lock'' key then None else strip_prefix SIGNALING_SESSION_PREFIX key"
  have "{y. \<exists>k. view w k \<noteq> None \<and> glob_match (SIGNALING_SESSION_PREFIX @ ''*'') k \<and> ?g k = Some y}
      = {i. view w (session_key i) \<noteq> None \<and> \<not> ends_with '':lock'' (session_key i)}"
    using glob_star [of SIGNALING_SESSION_PREFIX "[]"]
    by (auto simp: strip_prefix_iff session_key_def key_name_defs)
  note eq = this
  show ?thesis
    by (rule scan_ids_eval [where pick = pick_session_ids and g = ?g and p = "SIGNALING_SESSION_PREFIX @ ''*''" and w = w])
      (auto simp only: pick_session_ids_def eq scan_signaling_session_ids_def [symmetric] intro: that)
qed

lemma select_least_loaded_spec:
  assumes "sfu_ok (json E) (view w)"
  shows "\<exists>res. fst (select_least_loaded_instance E w) = Inr res
    \<and> view (snd (select_least_loaded_instance E w)) = view w
    \<and> (case res of None \<Rightarrow> \<forall>i inst. \<not> (sfu_table (json E) (view w) i = Some inst
           \<and> sfu_eligible (fst (unix_time E (snd (load_sfu_room_loads E (snd (list_sfu_instances E w))))))
               (zset_of (view w) SFU_ROOM_LOAD_KEY) inst)
       | Some best \<Rightarrow> (sfu_table (json E) (view w) (instance_id best) = Some best
           \<and> sfu_eligible (fst (unix_time E (snd (load_sfu_room_loads E (snd (list_sfu_instances E w))))))
               (zset_of (view w) SFU_ROOM_LOAD_KEY) best)
           \<and> (\<forall>i inst. sfu_table (json E) (view w) i = Some inst
           \<and> sfu_eligible (fst (unix_time E (snd (load_sfu_room_loads E (snd (list_sfu_instances E w))))))
               (zset_of (view w) SFU_ROOM_LOAD_KEY) inst
               \<longrightarrow> room_load (view w) (instance_id best) \<le> room_load (view w) i))"
proof (rule select_eval [OF assms])
  fix xs now
  assume sel: "fst (select_least_loaded_instance E w) =
      Inr (min_by (\<lambda>i. room_load (view w) (instance_id i))
        (filter (sfu_eligible now (zset_of (view w) SFU_ROOM_LOAD_KEY)) xs))"
    and xs: "set xs = ran (sfu_table (json E) (view w))"
    and v: "view (snd (select_least_loaded_instance E w)) = view w"
    and now: "now = fst (unix_time E (snd (load_sfu_room_loads E (snd (list_sfu_instances E w)))))"
  have mem: "x \<in> set xs \<longleftrightarrow> sfu_table (json E) (view w) (instance_id x) = Some x" for x
    unfolding xs using sfu_table_id [OF assms] by (auto simp: ran_def)
  have id: "sfu_table (json E) (view w) i = Some x \<Longrightarrow> instance_id x = i" for i x
    by (rule sfu_table_id [OF assms])
  show ?thesis
  proof (cases "min_by (\<lambda>i. room_load (view w) (instance_id i))
      (filter (sfu_eligible now (zset_of (view w) SFU_ROOM_LOAD_KEY)) xs)")
    case None
    then have none: "\<forall>x \<in> set xs. \<not> sfu_eligible now (zset_of (view w) SFU_ROOM_LOAD_KEY) x"
      by (simp add: min_by_None filter_empty_conv)
    have "\<not> (sfu_table (json E) (view w) i = Some inst \<and> sfu_eligible now (zset_of (view w) SFU_ROOM_LOAD_KEY) inst)"
      for i inst using none mem id by blast
    then show ?thesis
      unfolding now [symmetric] sel None v by simp
  next
    case (Some best)
    note least = min_by_least [OF Some]
    have "room_load (view w) (instance_id best) \<le> room_load (view w) i"
      if "sfu_table (json E) (view w) i = Some inst" "sfu_eligible now (zset_of (view w) SFU_ROOM_LOAD_KEY) inst"
      for i inst using least [of inst] that mem [of inst] id [OF that(1)] by simp
    moreover have "sfu_table (json E) (view w) (instance_id best) = Some best"
      "sfu_eligible now (zset_of (view w) SFU_ROOM_LOAD_KEY) best"
      using min_by_in [OF Some] mem by simp_all
    ultimately show ?thesis
      unfolding now [symmetric] sel Some v by simp
  qed
qed

lemma assign_spec:
  assumes ok: "sfu_ok (json E) (view w)" and free: "view w (room_binding_key r) = None"
    and known: "sfu_table (json E) (view w) (instance_id inst) = Some cur"
    and ne: "instance_id inst \<noteq> []" "grpc_addr inst \<noteq> []"
  shows "fst (assign_room_to_instance E r oid host port inst w) = Inr ()"
    "fst (get_room_assignment E r (snd (assign_room_to_instance E r oid host port inst w))) =
        Inr (Some \<lparr>rb_room_id = r, rb_owner_id = oid, rb_owner_host = host, rb_owner_port = port,
          rb_state = ''active'', rb_sfu_instance_id = Some (instance_id inst),
          rb_sfu_grpc_addr = Some (grpc_addr inst)\<rparr>)"
    "room_load (view (snd (assign_room_to_instance E r oid host port inst w))) =
        (room_load (view w))(instance_id inst := room_load (view w) (instance_id inst) + 1)"
    "sfu_table (json E) (view (snd (assign_room_to_instance E r oid host port inst w))) (instance_id inst) =
        Some (cur\<lparr>idle_since_unix := 0\<rparr>)"
proof -
  have h: "is_hash (view w) (room_binding_key r)" "hash_of (view w) (room_binding_key r) = Map.empty"
    using free by (simp_all add: is_hash_def hash_of_def)
  note a = assign_eval [OF ok h(1) known, of oid host port]
  show "fst (assign_room_to_instance E r oid host port inst w) = Inr ()" by (rule a)
  show "fst (get_room_assignment E r (snd (assign_room_to_instance E r oid host port inst w))) =
        Inr (Some \<lparr>rb_room_id = r, rb_owner_id = oid, rb_owner_host = host, rb_owner_port = port,
          rb_state = ''active'', rb_sfu_instance_id = Some (instance_id inst),
          rb_sfu_grpc_addr = Some (grpc_addr inst)\<rparr>)"
    using a(2,3) ne
    by (simp add: get_room_assignment_eval typed_exists(1) h(2) room_binding_of_def parse_u16_show nonempty_def)
  show "room_load (view (snd (assign_room_to_instance E r oid host port inst w))) =
        (room_load (view w))(instance_id inst := room_load (view w) (instance_id inst) + 1)" by (rule a)
  show "sfu_table (json E) (view (snd (assign_room_to_instance E r oid host port inst w))) (instance_id inst) =
        Some (cur\<lparr>idle_since_unix := 0\<rparr>)" using a(5) by simp
qed

lemma decrement_spec:
  assumes ok: "sfu_ok (json E) (view w)" and nat: "loads_natural (view w)"
  shows "room_load (view (snd (decrement_sfu_room_load E i w))) =
      (room_load (view w))(i := max 0 (room_load (view w) i - 1))"
    "loads_natural (view (snd (decrement_sfu_room_load E i w)))"
    "sfu_ok (json E) (view (snd (decrement_sfu_room_load E i w)))"
    "\<forall>k. k \<notin> {SFU_INSTANCES_KEY, SFU_ROOM_LOAD_KEY} \<longrightarrow> view (snd (decrement_sfu_room_load E i w)) k = view w k"
    "fst (decrement_sfu_room_load E i w) = Inl MissingInstance \<longleftrightarrow>
       room_load (view w) i \<le> 1 \<and> sfu_table (json E) (view w) i = None"
    "given_back (json E) (view w) i (view (snd (decrement_sfu_room_load E i w)))"
proof -
  note d = decrement_eval [OF ok, where i = i]
  have low: "lowered (zset_of (view w) SFU_ROOM_LOAD_KEY i) = max 0 (room_load (view w) i - 1)"
    by (auto simp: lowered_def room_load_def get_or_def Let_def split: option.splits)
  show l: "room_load (view (snd (decrement_sfu_room_load E i w))) =
      (room_load (view w))(i := max 0 (room_load (view w) i - 1))"
    using d(1) by (simp only: low)
  show "loads_natural (view (snd (decrement_sfu_room_load E i w)))"
    using nat l unfolding loads_natural_iff by (auto simp: nat_pred)
  show "sfu_ok (json E) (view (snd (decrement_sfu_room_load E i w)))" by (rule d)
  show "\<forall>k. k \<notin> {SFU_INSTANCES_KEY, SFU_ROOM_LOAD_KEY} \<longrightarrow> view (snd (decrement_sfu_room_load E i w)) k = view w k"
    by (intro allI impI d(3))
  show "fst (decrement_sfu_room_load E i w) = Inl MissingInstance \<longleftrightarrow>
       room_load (view w) i \<le> 1 \<and> sfu_table (json E) (view w) i = None"
    using d(4) by (auto simp: low)
  show "given_back (json E) (view w) i (view (snd (decrement_sfu_room_load E i w)))"
    using d(2,5) l by (simp add: given_back_def low)
qed

lemma seed_spec:
  assumes "sfu_ok (json E) (view w)" "distinct (map cand_instance_id cs)"
  shows "fst (seed_sfu_inventory E cs w) = Inr () \<and> sfu_ok (json E) (view (snd (seed_sfu_inventory E cs w)))
    \<and> room_load (view (snd (seed_sfu_inventory E cs w))) = room_load (view w)
    \<and> (\<forall>i. sfu_table (json E) (view (snd (seed_sfu_inventory E cs w))) i =
        (case find (\<lambda>c. cand_instance_id c = i) cs of
           None \<Rightarrow> sfu_table (json E) (view w) i
         | Some c \<Rightarrow> Some (case sfu_table (json E) (view w) i of None \<Rightarrow> fresh_instance (fst (unix_time E w)) c
             | Some x \<Rightarrow> x\<lparr>grpc_addr := cand_grpc_addr c, max_rooms := cand_max_rooms c\<rparr>)))"
proof -
  define w0 where "w0 = snd (unix_time E w)"
  have v0: "view w0 = view w" by (simp add: w0_def clock_view)
  have run: "seed_sfu_inventory E cs w =
      map_prod (map_sum store_error_of id) id (forE (seed_one E (fst (unix_time E w))) cs w0)"
    by (simp add: seed_sfu_inventory_def with_timeout_def unix_now_def prog_simps w0_def map_prod_def
        split: prod.splits)
  note all = seed_all_eval [of w0 "fst (unix_time E w)" cs, unfolded v0, OF assms(1)]
  have found: "find (\<lambda>c. cand_instance_id c = i) cs = Some c \<Longrightarrow> c \<in> set cs \<and> cand_instance_id c = i" for i c
    by (auto simp: find_Some_iff in_set_conv_nth)
  have none: "find (\<lambda>c. cand_instance_id c = i) cs = None \<Longrightarrow> i \<notin> cand_instance_id ` set cs" for i
    by (auto simp: find_None_iff)
  have tab: "sfu_table (json E) (view (snd (seed_sfu_inventory E cs w))) i =
        (case find (\<lambda>c. cand_instance_id c = i) cs of
           None \<Rightarrow> sfu_table (json E) (view w) i
         | Some c \<Rightarrow> Some (case sfu_table (json E) (view w) i of None \<Rightarrow> fresh_instance (fst (unix_time E w)) c
             | Some x \<Rightarrow> x\<lparr>grpc_addr := cand_grpc_addr c, max_rooms := cand_max_rooms c\<rparr>))" for i
  proof (cases "find (\<lambda>c. cand_instance_id c = i) cs")
    case None
    then show ?thesis using all none [OF None] by (simp add: run)
  next
    case (Some c)
    have "sfu_table (json E) (view (snd (seed_sfu_inventory E cs w))) (cand_instance_id c) =
        Some (case sfu_table (json E) (view w) (cand_instance_id c) of None \<Rightarrow> fresh_instance (fst (unix_time E w)) c
              | Some x \<Rightarrow> reseeded x c)"
      using all assms(2) found [OF Some, THEN conjunct1] by (simp add: run)
    then show ?thesis using found [OF Some] by (simp add: Some reseeded_def split: option.split)
  qed
  show ?thesis using all tab by (simp add: run)
qed

lemma heartbeat_spec:
  assumes "is_hash (view w) SUPERVISOR_HEARTBEAT_KEY" "- (2 ^ 63) \<le> now" "now < 2 ^ 63"
  shows "fst (read_supervisor_status E (snd (write_supervisor_heartbeat E i now w))) =
    Inr (Some \<lparr>last_seen_unix = now, sup_instance_id = nonempty i\<rparr>)"
proof -
  let ?w = "snd (write_supervisor_heartbeat E i now w)"
  note v = heartbeat_eval(2) [OF assms(1), of i now]
  have "is_hash (view ?w) SUPERVISOR_HEARTBEAT_KEY" by (simp add: v)
  from read_status_eval(1) [OF this] show ?thesis
    by (simp add: v supervisor_status_of_def parse_i64_show_int [OF assms(2,3)] split: option.splits)
qed

end

lemma mem_like_store: "mem_like E \<Longrightarrow> store_world E mem_view"
  by (intro store_world.intro mem_like_scan) (auto simp: mem_like_def mem_text.json_layer_axioms)

interpretation mem_store: store_world mem_env mem_view
  by (rule mem_like_store) (simp add: mem_like_def mem_env_def)

section \<open>A small deployment\<close>

text \<open>The store of the witnesses: two SFU instances, one of them loaded, one signaling node, one room.\<close>

definition sfu_a :: SfuInstance where
  "sfu_a = \<lparr>instance_id = ''a'', grpc_addr = ''http://a'', max_rooms = 2, alive = True, state = ''ready'',
     last_ping_unix = 95, idle_since_unix = 0\<rparr>"

definition sfu_b :: SfuInstance where
  "sfu_b = \<lparr>instance_id = ''b'', grpc_addr = ''http://b'', max_rooms = 2, alive = True, state = ''ready'',
     last_ping_unix = 96, idle_since_unix = 40\<rparr>"

definition demo_room :: "(string \<times> string) list" where
  "demo_room = [(''owner_host'', ''h1''), (''owner_port'', ''81''), (''signaling_owner_id'', ''n1''),
     (''room_state'', ''active''), (''sfu_instance_id'', ''a''), (''sfu_grpc_addr'', ''http://a'')]"

definition demo_keys :: keyspace where
  "demo_keys =
     [(SFU_INSTANCES_KEY, MHash [(''a'', mem_to_json sfu_a), (''b'', mem_to_json sfu_b)], None),
      (SFU_ROOM_LOAD_KEY, MZset [(''a'', 1), (''b'', 0)], None),
      (SIGNALING_NODES_KEY, MZset [(''n1'', 90), (''n0'', 10)], None),
      (SIGNALING_INSTANCE_LOAD_KEY, MZset [(''n0'', 0), (''n1'', 1)], None),
      (room_binding_key ''r1'', MHash demo_room, None)]"

definition demo_world :: mem where
  "demo_world = \<lparr>m_keys = demo_keys, m_now = 100, m_next_uuid = 0\<rparr>"

lemma mem_env_sel [simp]:
  "redis mem_env = mem_redis" "json mem_env = mem_json" "unix_time mem_env = mem_time"
  "new_uuid mem_env = mem_new_uuid" "scan_budget mem_env = 1"
  by (simp_all add: mem_env_def)

lemma mem_clock [keeps_intros]: "keeps (\<lambda>w. m_now w = t) (redis mem_env c)"
  by (rule keepsI) (simp add: mem_redis_def split: prod.split)

lemma mem_clock_reads:
  "keeps (\<lambda>w. m_now w = t) (list_sfu_instances mem_env)"
  "keeps (\<lambda>w. m_now w = t) (load_sfu_room_loads mem_env)"
  unfolding list_sfu_instances_def load_sfu_room_loads_def store_ops by (intro keeps_intros)+

lemma sfu_ok_mem:
  assumes "m_hash ks SFU_INSTANCES_KEY = Some xs" "m_zset ks SFU_ROOM_LOAD_KEY \<noteq> None"
    and "list_all (\<lambda>(i, p). case mem_from_json p of None \<Rightarrow> False | Some x \<Rightarrow> instance_id x = i) xs"
  shows "sfu_ok mem_json (kview ks)"
  using assms m_hash_view [of ks SFU_INSTANCES_KEY] m_zset_view [of ks SFU_ROOM_LOAD_KEY]
  by (auto simp: sfu_ok_def mem_json_def list_all_iff dest!: map_of_SomeD split: option.splits)

lemma demo_sfu_ok [simp]: "sfu_ok mem_json (mem_view demo_world)"
  unfolding mem_view_def
  by (rule sfu_ok_mem) (simp_all add: demo_world_def demo_keys_def m_hash_def m_zset_def mem_from_to_json,
      simp_all add: sfu_a_def sfu_b_def mem_from_to_json)

lemma demo_view:
  "hash_of (mem_view demo_world) SFU_INSTANCES_KEY = [''a'' \<mapsto> mem_to_json sfu_a, ''b'' \<mapsto> mem_to_json sfu_b]"
  "zset_of (mem_view demo_world) SFU_ROOM_LOAD_KEY = [''a'' \<mapsto> 1, ''b'' \<mapsto> 0]"
  "mem_view demo_world SUPERVISOR_HEARTBEAT_KEY = None"
  "mem_view demo_world (room_binding_key r) =
     (if r = ''r1'' then Some (HashVal (map_of demo_room), None) else None)"
  by (auto simp: mem_view_def kview_def demo_world_def demo_keys_def hash_of_def zset_of_def key_defs)

lemma demo_sfu_table: "sfu_table mem_json (mem_view demo_world) = [''a'' \<mapsto> sfu_a, ''b'' \<mapsto> sfu_b]"
  by (auto simp: sfu_table_def demo_view mem_json_def mem_from_to_json)

section \<open>Properties\<close>

text \<open>
  C39. Selection of an SFU. On a reachable store whose inventory is in order,
  \<open>select_least_loaded_instance\<close> changes nothing and returns an instance of the table that is alive,
  ready, pinged within thirty seconds and below its capacity, and no other such instance
  carries fewer rooms; it returns none exactly when there is no such instance.
\<close>

theorem select_least_loaded_correct:
  assumes "store_world E view" "sfu_ok (json E) (view w)"
    and "now = fst (unix_time E (snd (load_sfu_room_loads E (snd (list_sfu_instances E w)))))"
    and "cand = (\<lambda>i inst. sfu_table (json E) (view w) i = Some inst
           \<and> sfu_eligible now (zset_of (view w) SFU_ROOM_LOAD_KEY) inst)"
  shows "\<exists>res. fst (select_least_loaded_instance E w) = Inr res
    \<and> view (snd (select_least_loaded_instance E w)) = view w
    \<and> (case res of None \<Rightarrow> \<forall>i inst. \<not> cand i inst
       | Some best \<Rightarrow> cand (instance_id best) best
           \<and> (\<forall>i inst. cand i inst \<longrightarrow> room_load (view w) (instance_id best) \<le> room_load (view w) i))"
  using store_world.select_least_loaded_spec [OF assms(1,2)] unfolding assms(3,4) by simp

text \<open>
  Binding a room. Assigning a free room to a known instance succeeds; reading the binding back
  gives the owner, its host and port and the chosen instance, the room is active, the load of that
  instance alone has grown by one, and the instance is no longer idle.
\<close>

theorem assign_then_get_room_assignment:
  assumes "store_world E view" "sfu_ok (json E) (view w)" "view w (room_binding_key r) = None"
    and "sfu_table (json E) (view w) (instance_id inst) = Some cur" "instance_id inst \<noteq> []" "grpc_addr inst \<noteq> []"
    and "w' = snd (assign_room_to_instance E r oid host port inst w)"
  shows "fst (assign_room_to_instance E r oid host port inst w) = Inr ()
    \<and> fst (get_room_assignment E r w') =
        Inr (Some \<lparr>rb_room_id = r, rb_owner_id = oid, rb_owner_host = host, rb_owner_port = port,
          rb_state = ''active'', rb_sfu_instance_id = Some (instance_id inst),
          rb_sfu_grpc_addr = Some (grpc_addr inst)\<rparr>)
    \<and> room_load (view w') = (room_load (view w))(instance_id inst := room_load (view w) (instance_id inst) + 1)
    \<and> sfu_table (json E) (view w') (instance_id inst) = Some (cur\<lparr>idle_since_unix := 0\<rparr>)"
  unfolding assms(7) by (intro conjI store_world.assign_spec [OF assms(1-6)])

text \<open>
  Lowering a load. Decrementing the load of an instance takes one off, stops at zero, and
  touches no other load and no key but the two tables; when the load reaches zero the idle time of
  the instance is set, and only then can an unknown instance be reported.
\<close>

theorem decrement_load_exact:
  assumes "store_world E view" "sfu_ok (json E) (view w)" "loads_natural (view w)"
    and "w' = snd (decrement_sfu_room_load E i w)"
  shows "room_load (view w') = (room_load (view w))(i := max 0 (room_load (view w) i - 1))
    \<and> loads_natural (view w') \<and> sfu_ok (json E) (view w')
    \<and> (\<forall>k. k \<notin> {SFU_INSTANCES_KEY, SFU_ROOM_LOAD_KEY} \<longrightarrow> view w' k = view w k)
    \<and> (fst (decrement_sfu_room_load E i w) = Inl MissingInstance \<longleftrightarrow>
         room_load (view w) i \<le> 1 \<and> sfu_table (json E) (view w) i = None)"
  unfolding assms(4) by (intro conjI store_world.decrement_spec [OF assms(1-3)])

text \<open>
  Seeding the inventory. Every configured candidate ends up in the table with its configured
  address and capacity; an instance already known keeps its health and idle time, a new one starts
  not alive, and neither loads nor other instances change.
\<close>

theorem seed_inventory_keeps_health:
  assumes "store_world E view" "sfu_ok (json E) (view w)" "distinct (map cand_instance_id cs)"
    and "w' = snd (seed_sfu_inventory E cs w)" and "now = fst (unix_time E w)"
  shows "fst (seed_sfu_inventory E cs w) = Inr () \<and> sfu_ok (json E) (view w')
    \<and> room_load (view w') = room_load (view w)
    \<and> (\<forall>i. sfu_table (json E) (view w') i =
        (case find (\<lambda>c. cand_instance_id c = i) cs of
           None \<Rightarrow> sfu_table (json E) (view w) i
         | Some c \<Rightarrow> Some (case sfu_table (json E) (view w) i of None \<Rightarrow> fresh_instance now c
             | Some x \<Rightarrow> x\<lparr>grpc_addr := cand_grpc_addr c, max_rooms := cand_max_rooms c\<rparr>)))"
  unfolding assms(4,5) by (rule store_world.seed_spec [OF assms(1-3)])

text \<open>
  Heartbeat round trip. What the supervisor writes as its heartbeat is what the status reader
  returns, for every time stamp in range; an empty identifier reads back as none.
\<close>

theorem heartbeat_roundtrip:
  assumes "store_world E view" "is_hash (view w) SUPERVISOR_HEARTBEAT_KEY"
    and "- (2 ^ 63) \<le> now" "now < 2 ^ 63"
  shows "fst (read_supervisor_status E (snd (write_supervisor_heartbeat E i now w))) =
    Inr (Some \<lparr>last_seen_unix = now, sup_instance_id = nonempty i\<rparr>)"
  by (rule store_world.heartbeat_spec [OF assms])

text \<open>
  Enumeration of rooms and sessions. When a complete \<^verbatim>\<open>SCAN\<close> iteration fits into the
  time-out, the scans return exactly the rooms that have a binding, the rooms that have members and
  the sessions (locks left out), and change nothing.
\<close>

theorem scans_complete:
  assumes "store_world E view"
  shows "(\<exists>xs. fst (scan_room_binding_ids E w) = Inr xs \<and> set xs = {r. view w (room_binding_key r) \<noteq> None})
    \<and> (\<exists>xs. fst (scan_signaling_room_ids E w) = Inr xs \<and> set xs = {r. view w (room_members_key r) \<noteq> None})
    \<and> (\<exists>xs. fst (scan_signaling_session_ids E w) = Inr xs
        \<and> set xs = {i. view w (session_key i) \<noteq> None \<and> \<not> ends_with '':lock'' i \<and> i \<noteq> ''lock''})"
proof -
  have lock: "ends_with '':lock'' (session_key i) \<longleftrightarrow> ends_with '':lock'' i \<or> i = ''lock''" for i
    by (rule session_lock_suffix)
  show ?thesis
    by (rule store_world.scan_room_binding_ids_eval [OF assms, of w],
        rule store_world.scan_signaling_room_ids_eval [OF assms, of w],
        rule store_world.scan_signaling_session_ids_eval [OF assms, of w, unfolded lock de_Morgan_disj]) blast
qed

section \<open>Witnesses\<close>

theorem select_least_loaded_correct_witness:
  "store_world mem_env mem_view \<and> sfu_ok mem_json (mem_view demo_world)
   \<and> fst (select_least_loaded_instance mem_env demo_world) = Inr (Some sfu_b)"
proof -
  have now: "fst (mem_time (w :: mem)) = m_now w" for w by (simp add: mem_time_def)
  have clock: "m_now (snd (load_sfu_room_loads mem_env (snd (list_sfu_instances mem_env demo_world)))) = 100"
    using keepsD [OF mem_clock_reads(2) [of 100]] keepsD [OF mem_clock_reads(1) [of 100], of demo_world]
    by (simp add: demo_world_def)
  let ?c = "\<lambda>i inst. sfu_table mem_json (mem_view demo_world) i = Some inst
           \<and> sfu_eligible 100 (zset_of (mem_view demo_world) SFU_ROOM_LOAD_KEY) inst"
  have "\<exists>res. fst (select_least_loaded_instance mem_env demo_world) = Inr res
    \<and> mem_view (snd (select_least_loaded_instance mem_env demo_world)) = mem_view demo_world
    \<and> (case res of None \<Rightarrow> \<forall>i inst. \<not> ?c i inst
       | Some best \<Rightarrow> ?c (instance_id best) best
           \<and> (\<forall>i inst. ?c i inst \<longrightarrow> room_load (mem_view demo_world) (instance_id best) \<le> room_load (mem_view demo_world) i))"
    using select_least_loaded_correct [OF mem_store.store_world_axioms, where w = demo_world and now = 100 and cand = ?c]
    by (simp only: mem_env_sel now clock demo_sfu_ok)
  then obtain res where res: "fst (select_least_loaded_instance mem_env demo_world) = Inr res"
    "case res of None \<Rightarrow> \<forall>i inst. \<not> ?c i inst
       | Some best \<Rightarrow> ?c (instance_id best) best
           \<and> (\<forall>i inst. ?c i inst \<longrightarrow> room_load (mem_view demo_world) (instance_id best) \<le> room_load (mem_view demo_world) i)"
    by blast
  have b: "?c ''b'' sfu_b"
    by (simp add: demo_sfu_table sfu_eligible_def sfu_b_def sub_i64_def wrap_i64_def demo_view)
  have only: "?c i inst \<Longrightarrow> i = ''a'' \<or> inst = sfu_b" for i inst by (auto simp: demo_sfu_table split: if_splits)
  obtain best where best: "res = Some best" "?c (instance_id best) best"
    "room_load (mem_view demo_world) (instance_id best) \<le> room_load (mem_view demo_world) ''b''"
    using res(2) b by (cases res) (simp_all only: option.simps; blast)+
  have "instance_id best \<noteq> ''a''" using best(3) by (auto simp: room_load_def demo_view)
  then have "best = sfu_b" using only [OF best(2)] by simp
  then show ?thesis using res(1) best(1) by (simp add: mem_store.store_world_axioms)
qed

theorem assign_then_get_room_assignment_witness:
  "fst (assign_room_to_instance mem_env ''r2'' ''n1'' ''h1'' 81 sfu_b demo_world) = Inr ()
   \<and> fst (get_room_assignment mem_env ''r2''
         (snd (assign_room_to_instance mem_env ''r2'' ''n1'' ''h1'' 81 sfu_b demo_world))) =
       Inr (Some \<lparr>rb_room_id = ''r2'', rb_owner_id = ''n1'', rb_owner_host = ''h1'', rb_owner_port = 81,
         rb_state = ''active'', rb_sfu_instance_id = Some ''b'', rb_sfu_grpc_addr = Some ''http://b''\<rparr>)"
  using assign_then_get_room_assignment [OF mem_store.store_world_axioms, where w = demo_world and r = "''r2''" and inst = sfu_b
      and cur = sfu_b and oid = "''n1''" and host = "''h1''" and port = 81, OF _ _ _ _ _ refl]
  by (simp add: demo_view demo_sfu_table) (simp add: sfu_b_def)

theorem decrement_load_exact_witness:
  "loads_natural (mem_view demo_world)
   \<and> room_load (mem_view (snd (decrement_sfu_room_load mem_env ''a'' demo_world))) ''a'' = 0
   \<and> fst (decrement_sfu_room_load mem_env ''zz'' demo_world) = Inl MissingInstance"
proof -
  have n: "loads_natural (mem_view demo_world)" by (simp add: loads_natural_def demo_view)
  show ?thesis
    using decrement_load_exact [OF mem_store.store_world_axioms, where w = demo_world and i = "''a''", OF _ n refl]
      decrement_load_exact [OF mem_store.store_world_axioms, where w = demo_world and i = "''zz''", OF _ n refl] n
    by (simp add: room_load_def demo_view demo_sfu_table)
qed

theorem seed_inventory_keeps_health_witness:
  "sfu_table mem_json (mem_view (snd (seed_sfu_inventory mem_env
      [\<lparr>cand_instance_id = ''a'', cand_grpc_addr = ''http://new'', cand_max_rooms = 9\<rparr>] demo_world))) ''a''
   = Some (sfu_a\<lparr>grpc_addr := ''http://new'', max_rooms := 9\<rparr>)"
  using seed_inventory_keeps_health [OF mem_store.store_world_axioms, where w = demo_world
      and cs = "[\<lparr>cand_instance_id = ''a'', cand_grpc_addr = ''http://new'', cand_max_rooms = 9\<rparr>]", OF _ _ refl refl]
  by (simp add: demo_sfu_table)

theorem heartbeat_roundtrip_witness:
  "fst (read_supervisor_status mem_env (snd (write_supervisor_heartbeat mem_env (Some ''s1'') 100 demo_world))) =
    Inr (Some \<lparr>last_seen_unix = 100, sup_instance_id = Some ''s1''\<rparr>)"
  using heartbeat_roundtrip [OF mem_store.store_world_axioms, where w = demo_world and now = 100 and i = "Some ''s1''"]
  by (simp add: is_hash_def demo_view)

theorem scans_complete_witness:
  "\<exists>xs. fst (scan_room_binding_ids mem_env demo_world) = Inr xs \<and> set xs = {''r1''}"
  using scans_complete [OF mem_store.store_world_axioms, where w = demo_world]
  by (auto simp: demo_view)

end
