(* ===== verification/Signaling_Redis.thy ===== *)
theory Signaling_Redis
  imports Control_Store
begin

text \<open>
  \<^verbatim>\<open>services/signaling/src/redis.rs\<close>: the room, session and load operations of a
  signaling node. The service builds its own key names; they agree with those of the shared crate
  (\<open>sig_keys_agree\<close>), and the lemmas use the latter. A \<^verbatim>\<open>Duration\<close> is a number of
  milliseconds.
\<close>

section \<open>Keys of the service\<close>

definition INSTANCE_LOAD_KEY :: string where
  "INSTANCE_LOAD_KEY = ''signaling:instance_load''"
definition SESSION_PREFIX :: string where
  "SESSION_PREFIX = ''signaling:session:''"
definition NICK_PREFIX :: string where
  "NICK_PREFIX = ''signaling:nick:''"
definition SIG_ROOM_BINDING_PREFIX :: string where
  "SIG_ROOM_BINDING_PREFIX = ''room:''"
definition ROOM_MEMBERS_PREFIX :: string where
  "ROOM_MEMBERS_PREFIX = ''signaling:room:''"
definition SIG_SFU_INSTANCES_KEY :: string where
  "SIG_SFU_INSTANCES_KEY = ''sfu:instances''"
definition SIG_SFU_ROOM_LOAD_KEY :: string where
  "SIG_SFU_ROOM_LOAD_KEY = ''sfu:room_load''"

definition sig_session_key :: "string \<Rightarrow> string" where
  "sig_session_key session_id = SESSION_PREFIX @ session_id"

definition sig_session_lock_key :: "string \<Rightarrow> string" where
  "sig_session_lock_key session_id = SESSION_PREFIX @ session_id @ '':lock''"

definition sig_nick_key :: "string \<Rightarrow> string" where
  "sig_nick_key nickname = NICK_PREFIX @ nickname"

definition sig_room_binding_key :: "string \<Rightarrow> string" where
  "sig_room_binding_key room_id = SIG_ROOM_BINDING_PREFIX @ room_id @ '':binding''"

definition sig_room_members_key :: "string \<Rightarrow> string" where
  "sig_room_members_key room_id = ROOM_MEMBERS_PREFIX @ room_id @ '':members''"

text \<open>The signaling service and the shared crate name the same keys.\<close>

lemma sig_keys_agree [simp]:
  "sig_session_key s = session_key s" "sig_session_lock_key s = session_lock_key s"
  "sig_nick_key n = nick_key n" "sig_room_binding_key r = room_binding_key r"
  "sig_room_members_key r = room_members_key r" "INSTANCE_LOAD_KEY = SIGNALING_INSTANCE_LOAD_KEY"
  "SIG_SFU_INSTANCES_KEY = SFU_INSTANCES_KEY" "SIG_SFU_ROOM_LOAD_KEY = SFU_ROOM_LOAD_KEY"
  by (simp_all add: key_defs sig_session_key_def sig_session_lock_key_def sig_nick_key_def
      sig_room_binding_key_def sig_room_members_key_def SESSION_PREFIX_def NICK_PREFIX_def
      SIG_ROOM_BINDING_PREFIX_def ROOM_MEMBERS_PREFIX_def INSTANCE_LOAD_KEY_def
      SIG_SFU_INSTANCES_KEY_def SIG_SFU_ROOM_LOAD_KEY_def)

section \<open>Data and errors\<close>

record SessionState =
  nickname :: string
  room_id :: "string option"

record RoomRoute =
  owner_host :: string
  owner_port :: "16 word"
  room_state :: string
  sfu_grpc_addr :: "string option"

record SfuAssignment =
  assigned_grpc_addr :: string

record LeaveRoomResult =
  room_empty :: bool

datatype RedisRoomError =
    RoomNotFound
  | NicknameTaken
  | ParticipantNotInRoom
  | InvalidRoomTarget
  | NoSfuCapacity
  | RoomAlreadyExists
  | Timeout
  | Redis string

text \<open>A future fails with an error of the crate at a command, or with an error of its own; the
  operation's time-out turns a command that never answered into \<open>Timeout\<close>.\<close>

definition room_error_of :: "redis_error + RedisRoomError \<Rightarrow> RedisRoomError" where
  "room_error_of e = (case e of Inl OpTimeout \<Rightarrow> Timeout | Inl (RedisFailure m) \<Rightarrow> Redis m | Inr r \<Rightarrow> r)"

definition with_op_timeout :: "('w, redis_error + RedisRoomError, 'a) prog \<Rightarrow> ('w, RedisRoomError, 'a) prog" where
  "with_op_timeout fut = map_errM room_error_of fut"

definition scall :: "('w, 'z) env_scheme \<Rightarrow> cmd \<Rightarrow> (reply \<Rightarrow> ('w, redis_error, 'a) prog)
    \<Rightarrow> ('w, redis_error + RedisRoomError, 'a) prog" where
  "scall E c conv = map_errM Inl (call E c conv)"

definition room_fail :: "RedisRoomError \<Rightarrow> ('w, redis_error + RedisRoomError, 'a) prog" where
  "room_fail e = failM (Inr e)"

definition sig_unix_now :: "('w, 'z) env_scheme \<Rightarrow> ('w, int) act" where
  "sig_unix_now E = unix_time E"

definition as_secs :: "nat \<Rightarrow> nat" where
  "as_secs d = d div 1000"

section \<open>Replay guard, locks, leases\<close>

definition consume_jti :: "('w, 'z) env_scheme \<Rightarrow> string \<Rightarrow> nat \<Rightarrow> ('w, RedisRoomError, bool) prog" where
  "consume_jti E jti ttl =
     with_op_timeout (tryM (scall E (SetNx (jti_key jti) ''1'' (Ex (max (as_secs ttl) 1))) as_opt_string)
       (\<lambda>acquired. okM (acquired = Some ''OK'')))"

definition session_set_owner :: "('w, 'z) env_scheme \<Rightarrow> string \<Rightarrow> string \<Rightarrow> ('w, RedisRoomError, unit) prog" where
  "session_set_owner E session_id owner_id =
     with_op_timeout (tryM (scall E (Hset (sig_session_key session_id) ''signaling_owner_id'' owner_id) as_int)
       (\<lambda>_. okM ()))"

definition acquire_session_lock ::
    "('w, 'z) env_scheme \<Rightarrow> string \<Rightarrow> string \<Rightarrow> nat \<Rightarrow> ('w, RedisRoomError, bool) prog" where
  "acquire_session_lock E session_id owner ttl =
     with_op_timeout (tryM (scall E (SetNx (sig_session_lock_key session_id) owner (Px (ttl mod 2 ^ 64))) as_opt_string)
       (\<lambda>acquired. okM (acquired = Some ''OK'')))"

definition release_session_lock :: "('w, 'z) env_scheme \<Rightarrow> string \<Rightarrow> string \<Rightarrow> ('w, RedisRoomError, unit) prog" where
  "release_session_lock E session_id owner =
     with_op_timeout (tryM (scall E (CompareAndDel (sig_session_lock_key session_id) owner) as_int) (\<lambda>_. okM ()))"

definition release_nick_lease :: "('w, 'z) env_scheme \<Rightarrow> string \<Rightarrow> string \<Rightarrow> ('w, RedisRoomError, unit) prog" where
  "release_nick_lease E nick session_id =
     with_op_timeout (tryM (scall E (CompareAndDel (sig_nick_key nick) session_id) as_int) (\<lambda>_. okM ()))"

definition renew_session_ttl :: "('w, 'z) env_scheme \<Rightarrow> string \<Rightarrow> nat \<Rightarrow> ('w, RedisRoomError, unit) prog" where
  "renew_session_ttl E session_id ttl =
     with_op_timeout (tryM (scall E (Expire (sig_session_key session_id) (wrap_i64 (int (as_secs ttl)))) as_bool)
       (\<lambda>_. okM ()))"

section \<open>Sessions\<close>

definition session_state_of :: "(string \<rightharpoonup> string) \<Rightarrow> SessionState" where
  "session_state_of values =
     \<lparr>nickname = get_or [] values ''nickname'', room_id = nonempty (values ''room_id'')\<rparr>"

definition session_get :: "('w, 'z) env_scheme \<Rightarrow> string \<Rightarrow> ('w, RedisRoomError, SessionState option) prog" where
  "session_get E session_id =
     with_op_timeout (tryM (scall E (Hgetall (sig_session_key session_id)) as_hash) (\<lambda>values.
       if values = [] then okM None else okM (Some (session_state_of (collect_map values)))))"

definition session_set_room ::
    "('w, 'z) env_scheme \<Rightarrow> string \<Rightarrow> string option \<Rightarrow> ('w, RedisRoomError, unit) prog" where
  "session_set_room E session_id room =
     with_op_timeout (tryM (scall E (Hset (sig_session_key session_id) ''room_id''
         (case room of None \<Rightarrow> [] | Some r \<Rightarrow> r)) as_int) (\<lambda>_. okM ()))"

definition session_delete :: "('w, 'z) env_scheme \<Rightarrow> string \<Rightarrow> ('w, RedisRoomError, unit) prog" where
  "session_delete E session_id =
     with_op_timeout (tryM (scall E (Del (sig_session_key session_id)) as_int) (\<lambda>_. okM ()))"

section \<open>Load of the node\<close>

definition increment_instance_load :: "('w, 'z) env_scheme \<Rightarrow> string \<Rightarrow> ('w, RedisRoomError, unit) prog" where
  "increment_instance_load E inst_id =
     with_op_timeout (tryM (scall E (Zincr INSTANCE_LOAD_KEY inst_id 1) as_opt_score) (\<lambda>_. okM ()))"

definition decrement_instance_load :: "('w, 'z) env_scheme \<Rightarrow> string \<Rightarrow> ('w, RedisRoomError, unit) prog" where
  "decrement_instance_load E inst_id =
     with_op_timeout (tryM (scall E (Zscore INSTANCE_LOAD_KEY inst_id) as_opt_score) (\<lambda>current.
       tryM (scall E (Zadd INSTANCE_LOAD_KEY inst_id (lowered current)) as_int) (\<lambda>_. okM ())))"

section \<open>Rooms\<close>

definition room_route_of :: "(string \<rightharpoonup> string) \<Rightarrow> RedisRoomError + RoomRoute" where
  "room_route_of values =
     (case nonempty (values ''owner_host'') of
        None \<Rightarrow> Inl InvalidRoomTarget
      | Some host \<Rightarrow>
          (case values ''owner_port'' of
             None \<Rightarrow> Inl InvalidRoomTarget
           | Some p \<Rightarrow>
               (case parse_u16 p of
                  None \<Rightarrow> Inl InvalidRoomTarget
                | Some port \<Rightarrow>
                    Inr \<lparr>owner_host = host, owner_port = port,
                         room_state = get_or ''active'' values ''room_state'',
                         sfu_grpc_addr = nonempty (values ''sfu_grpc_addr'')\<rparr>)))"

definition get_room_route :: "('w, 'z) env_scheme \<Rightarrow> string \<Rightarrow> ('w, RedisRoomError, RoomRoute) prog" where
  "get_room_route E room =
     with_op_timeout (tryM (scall E (Hgetall (sig_room_binding_key room)) as_hash) (\<lambda>values.
       if values = [] then room_fail RoomNotFound
       else (case room_route_of (collect_map values) of Inl e \<Rightarrow> room_fail e | Inr route \<Rightarrow> okM route)))"

definition assign_args_for :: "string \<Rightarrow> string \<Rightarrow> string \<Rightarrow> 16 word \<Rightarrow> int \<Rightarrow> assign_args" where
  "assign_args_for room owner_id host port now =
     \<lparr>k_instances = SIG_SFU_INSTANCES_KEY, k_room_load = SIG_SFU_ROOM_LOAD_KEY,
      k_binding = sig_room_binding_key room, a_room_id = room, a_owner_host = host,
      a_owner_port = show_nat (unat port), a_owner_id = owner_id, a_room_state = ''active'',
      a_now = now, a_stale_after = 30\<rparr>"

definition assign_room_to_least_loaded_sfu ::
    "('w, 'z) env_scheme \<Rightarrow> string \<Rightarrow> string \<Rightarrow> string \<Rightarrow> 16 word \<Rightarrow> ('w, RedisRoomError, SfuAssignment) prog" where
  "assign_room_to_least_loaded_sfu E room owner_id host port =
     tryM (liftM (sig_unix_now E)) (\<lambda>now.
     tryM (with_op_timeout
       (tryM (scall E (AssignRoom (assign_args_for room owner_id host port now)) as_list) (\<lambda>result.
          if result = [] then okM None
          else if hd result = ''__ROOM_EXISTS__'' then room_fail RoomAlreadyExists
          else (case nonempty (if length result > 1 then Some (result ! 1) else None) of
                  None \<Rightarrow> room_fail InvalidRoomTarget
                | Some addr \<Rightarrow> okM (Some \<lparr>assigned_grpc_addr = addr\<rparr>))))) (\<lambda>assignment.
     case assignment of None \<Rightarrow> failM NoSfuCapacity | Some a \<Rightarrow> okM a))"

definition join_room :: "('w, 'z) env_scheme \<Rightarrow> string \<Rightarrow> string \<Rightarrow> ('w, RedisRoomError, string list) prog" where
  "join_room E room nick =
     with_op_timeout
       (tryM (scall E (Exists (sig_room_binding_key room)) as_bool) (\<lambda>ex.
        if \<not> ex then room_fail RoomNotFound else
        tryM (scall E (Sismember (sig_room_members_key room) nick) as_bool) (\<lambda>already_taken.
        if already_taken then room_fail NicknameTaken else
        tryM (scall E (Sadd (sig_room_members_key room) nick) as_int) (\<lambda>_.
        tryM (scall E (Smembers (sig_room_members_key room)) as_list) (\<lambda>participants.
        okM (filter (\<lambda>name. name \<noteq> nick) participants))))))"

definition srem_member :: "('w, 'z) env_scheme \<Rightarrow> string \<Rightarrow> string \<Rightarrow> ('w, RedisRoomError, unit) prog" where
  "srem_member E room nick =
     with_op_timeout (tryM (scall E (Srem (sig_room_members_key room) nick) as_int) (\<lambda>_. okM ()))"

definition leave_room_redis :: "('w, 'z) env_scheme \<Rightarrow> string \<Rightarrow> string \<Rightarrow> ('w, RedisRoomError, LeaveRoomResult) prog" where
  "leave_room_redis E room nick =
     with_op_timeout
       (tryM (scall E (Exists (sig_room_binding_key room)) as_bool) (\<lambda>ex.
        if \<not> ex then room_fail RoomNotFound else
        tryM (scall E (Srem (sig_room_members_key room) nick) as_int) (\<lambda>removed.
        if removed = 0 then room_fail ParticipantNotInRoom else
        tryM (scall E (Scard (sig_room_members_key room)) as_int) (\<lambda>remaining.
        tryM (if remaining = 0
              then tryM (scall E (Del (sig_room_members_key room)) as_int) (\<lambda>_. okM ())
              else okM ()) (\<lambda>_.
        okM \<lparr>room_empty = (remaining = 0)\<rparr>)))))"

definition update_sfu_idle_since :: "('w, 'z) env_scheme \<Rightarrow> string \<Rightarrow> int \<Rightarrow> ('w, RedisRoomError, unit) prog" where
  "update_sfu_idle_since E inst_id idle_since =
     with_op_timeout (tryM (scall E (Hget SIG_SFU_INSTANCES_KEY inst_id) as_opt_string) (\<lambda>payload.
       case payload of
         None \<Rightarrow> okM ()
       | Some p \<Rightarrow>
           (case json_set_idle (json E) idle_since p of
              None \<Rightarrow> room_fail InvalidRoomTarget
            | Some q \<Rightarrow> tryM (scall E (Hset SIG_SFU_INSTANCES_KEY inst_id q) as_int) (\<lambda>_. okM ()))))"

definition sig_decrement_sfu_room_load :: "('w, 'z) env_scheme \<Rightarrow> string \<Rightarrow> ('w, RedisRoomError, unit) prog" where
  "sig_decrement_sfu_room_load E inst_id =
     tryM (with_op_timeout
       (tryM (scall E (Zscore SIG_SFU_ROOM_LOAD_KEY inst_id) as_opt_score) (\<lambda>current.
        tryM (scall E (Zadd SIG_SFU_ROOM_LOAD_KEY inst_id (lowered current)) as_int) (\<lambda>_.
        okM (lowered current))))) (\<lambda>nxt.
     if nxt = 0 then tryM (liftM (sig_unix_now E)) (\<lambda>now. update_sfu_idle_since E inst_id now) else okM ())"

definition close_room_binding :: "('w, 'z) env_scheme \<Rightarrow> string \<Rightarrow> ('w, RedisRoomError, bool) prog" where
  "close_room_binding E room =
     tryM (with_op_timeout
       (tryM (scall E (Hget (sig_room_binding_key room) ''sfu_instance_id'') as_opt_string) (\<lambda>inst_id.
        tryM (scall E (Del (sig_room_binding_key room)) as_int) (\<lambda>deleted.
        okM (if deleted = 0 then None else inst_id))))) (\<lambda>inst_id.
     case inst_id of
       None \<Rightarrow> okM False
     | Some i \<Rightarrow> tryM (sig_decrement_sfu_room_load E i) (\<lambda>_. okM True))"

definition delete_room :: "('w, 'z) env_scheme \<Rightarrow> string \<Rightarrow> ('w, RedisRoomError, unit) prog" where
  "delete_room E room =
     with_op_timeout (tryM (scall E (Del (sig_room_members_key room)) as_int) (\<lambda>_. okM ()))"

text \<open>Start-up: the node only starts once Redis answers a ping.\<close>

definition init_redis :: "('w, 'z) env_scheme \<Rightarrow> ('w, redis_error, unit) prog" where
  "init_redis E = tryM (call E Ping as_string) (\<lambda>_. okM ())"

end
