(* ===== verification/Signaling_Messages.thy ===== *)
theory Signaling_Messages
  imports Signaling_Redis
begin

text \<open>
  The wire protocol of the signaling WebSocket (\<^verbatim>\<open>message.rs\<close>), the connector token
  (\<^verbatim>\<open>auth.rs\<close>) and the configuration (\<^verbatim>\<open>config.rs\<close>) of a signaling node.
  Parameters: \<^verbatim>\<open>Uuid::parse_str\<close>, the token decoder of jsonwebtoken, the process
  environment and the address parser of \<^verbatim>\<open>std::net\<close>.
\<close>

section \<open>Messages\<close>

datatype ServerErrorCode =
    InvalidJson | InvalidPayload
  | Unauthorized | SessionConflict | AlreadyAuthorized | LeaveRoomMismatch
  | RoomNotFound | NicknameTaken | AlreadyInRoom | NotInRoom
  | SfuCapacityExhausted | SfuUnavailable | SfuRejected
  | InvalidRoomAssignment | StorageUnavailable
  | WriteFailed

datatype ClientMessage =
    Attach string
  | Logout string "string list option"
  | Sdp string string string
  | Candidate string string string
  | Create string
  | Join string string
  | Leave string string "string list option"

datatype ServerMessage =
    Attached string string
  | LoggedOut string
  | Sdp string string string
  | Candidate string string string
  | Created string string
  | Joined string string "string list"
  | RoomClosed string string
  | Left string
  | ParticipantJoined string
  | ParticipantLeft string
  | Error ServerErrorCode string
  | ServiceUnavailable string "32 word"

section \<open>Validation\<close>

datatype ValidationError =
    InvalidSessionId | InvalidRoomId | InvalidToken | MissingSdp | MissingCandidate | MissingSdpMid

definition validation_text :: "ValidationError \<Rightarrow> string" where
  "validation_text e =
     (case e of
        InvalidSessionId \<Rightarrow> ''session_id must be a valid UUID''
      | InvalidRoomId \<Rightarrow> ''room_id must be a valid UUID''
      | InvalidToken \<Rightarrow> ''token must not be empty''
      | MissingSdp \<Rightarrow> ''sdp must not be empty''
      | MissingCandidate \<Rightarrow> ''candidate must not be empty''
      | MissingSdpMid \<Rightarrow> ''sdp_mid must not be empty'')"

definition validate_token :: "string \<Rightarrow> ValidationError + unit" where
  "validate_token token = (if trim token = [] then Inl InvalidToken else Inr ())"

definition validate_room_id :: "(string \<Rightarrow> bool) \<Rightarrow> string \<Rightarrow> ValidationError + unit" where
  "validate_room_id uuid_ok room = (if uuid_ok room then Inr () else Inl InvalidRoomId)"

definition validate_session_id :: "(string \<Rightarrow> bool) \<Rightarrow> string \<Rightarrow> ValidationError + unit" where
  "validate_session_id uuid_ok session = (if uuid_ok session then Inr () else Inl InvalidSessionId)"

definition validate_sdp :: "string \<Rightarrow> ValidationError + unit" where
  "validate_sdp sdp = (if trim sdp = [] then Inl MissingSdp else Inr ())"

definition validate_candidate :: "string \<Rightarrow> string \<Rightarrow> ValidationError + unit" where
  "validate_candidate candidate sdp_mid =
     (if trim candidate = [] then Inl MissingCandidate
      else if trim sdp_mid = [] then Inl MissingSdpMid else Inr ())"

definition and_then :: "'e + unit \<Rightarrow> 'e + unit \<Rightarrow> 'e + unit" where
  "and_then a b = (case a of Inl e \<Rightarrow> Inl e | Inr _ \<Rightarrow> b)"

fun validate :: "(string \<Rightarrow> bool) \<Rightarrow> ClientMessage \<Rightarrow> ValidationError + unit" where
  "validate uuid_ok (Attach token) = validate_token token"
| "validate uuid_ok (Logout session _) = validate_session_id uuid_ok session"
| "validate uuid_ok (Create session) = validate_session_id uuid_ok session"
| "validate uuid_ok (Join session room) =
     and_then (validate_session_id uuid_ok session) (validate_room_id uuid_ok room)"
| "validate uuid_ok (Leave session room _) =
     and_then (validate_session_id uuid_ok session) (validate_room_id uuid_ok room)"
| "validate uuid_ok (ClientMessage.Sdp session sdp _) =
     and_then (validate_session_id uuid_ok session) (validate_sdp sdp)"
| "validate uuid_ok (ClientMessage.Candidate session candidate sdp_mid) =
     and_then (validate_session_id uuid_ok session) (validate_candidate candidate sdp_mid)"

definition session_of_message :: "ClientMessage \<Rightarrow> string option" where
  "session_of_message m =
     (case m of Attach _ \<Rightarrow> None | Logout s _ \<Rightarrow> Some s | ClientMessage.Sdp s _ _ \<Rightarrow> Some s
      | ClientMessage.Candidate s _ _ \<Rightarrow> Some s | Create s \<Rightarrow> Some s | Join s _ \<Rightarrow> Some s | Leave s _ _ \<Rightarrow> Some s)"

lemma validate_session:
  "validate uuid_ok m = Inr () \<Longrightarrow> session_of_message m = Some s \<Longrightarrow> uuid_ok s"
  by (cases m) (auto simp: session_of_message_def validate_session_id_def and_then_def split: if_splits)

section \<open>The connector token\<close>

record ConnectorClaims =
  jti :: string
  session_id :: string
  claim_nickname :: string
  signaling_instance_id :: string
  intent :: string
  claim_room_id :: "string option"
  iat :: "64 word"
  exp_at :: "64 word"

datatype TokenError = Invalid | WrongInstance

text \<open>\<open>jwt_decode\<close> is \<^verbatim>\<open>jsonwebtoken::decode\<close> for HS256 with expiry checked: absent when the
  signature, the expiry or the claims do not pass.\<close>

definition validate_connector_token ::
    "(string \<Rightarrow> string \<Rightarrow> ('w, ConnectorClaims option) act) \<Rightarrow> string \<Rightarrow> string \<Rightarrow> string
      \<Rightarrow> ('w, TokenError, ConnectorClaims) prog" where
  "validate_connector_token jwt_decode token secret expected_instance_id =
     tryM (liftM (jwt_decode token secret)) (\<lambda>data.
       case data of
         None \<Rightarrow> failM Invalid
       | Some claims \<Rightarrow>
           if signaling_instance_id claims \<noteq> expected_instance_id then failM WrongInstance
           else okM claims)"

section \<open>Configuration\<close>

record Config =
  signaling_addr :: string
  signaling_public_host :: string
  signaling_public_port :: "16 word"
  admin_grpc_addr :: string
  redis_url :: string
  connector_token_secret :: string
  redis_connect_timeout :: nat
  rpc_connect_timeout :: nat
  ws_read_timeout :: nat
  ws_write_timeout :: nat
  redis_op_timeout :: nat
  sfu_rpc_timeout :: nat
  sfu_backoff_min :: nat
  sfu_backoff_max :: nat
  peer_outbound_capacity :: "64 word"
  session_lock_ttl :: nat
  session_ttl :: nat
  session_renew_interval :: nat

definition get_env_or :: "(string \<Rightarrow> string option) \<Rightarrow> string \<Rightarrow> string \<Rightarrow> string" where
  "get_env_or env_var key dflt = (case env_var key of None \<Rightarrow> dflt | Some v \<Rightarrow> v)"

text \<open>A value that does not parse is an error that names the variable.\<close>

definition duration_from_env :: "(string \<Rightarrow> string option) \<Rightarrow> string \<Rightarrow> nat \<Rightarrow> string + nat" where
  "duration_from_env env_var key default_ms =
     (case env_var key of
        None \<Rightarrow> Inr default_ms
      | Some v \<Rightarrow> (case parse_u64 v of None \<Rightarrow> Inl key | Some ms \<Rightarrow> Inr (unat ms)))"

definition u16_from_env_or :: "(string \<Rightarrow> string option) \<Rightarrow> string \<Rightarrow> 16 word \<Rightarrow> string + 16 word" where
  "u16_from_env_or env_var key dflt =
     (case env_var key of
        None \<Rightarrow> Inr dflt
      | Some v \<Rightarrow> (case parse_u16 v of None \<Rightarrow> Inl key | Some p \<Rightarrow> Inr p))"

definition usize_from_env_or :: "(string \<Rightarrow> string option) \<Rightarrow> string \<Rightarrow> 64 word \<Rightarrow> string + 64 word" where
  "usize_from_env_or env_var key dflt =
     (case env_var key of
        None \<Rightarrow> Inr dflt
      | Some v \<Rightarrow> (case parse_u64 v of None \<Rightarrow> Inl key | Some p \<Rightarrow> Inr p))"

definition duration_from_secs_env :: "(string \<Rightarrow> string option) \<Rightarrow> string \<Rightarrow> nat \<Rightarrow> string + nat" where
  "duration_from_secs_env env_var key default_secs =
     (case env_var key of
        None \<Rightarrow> Inr (1000 * default_secs)
      | Some v \<Rightarrow> (case parse_u64 v of None \<Rightarrow> Inl key | Some secs \<Rightarrow> Inr (1000 * unat secs)))"

text \<open>\<open>socket_addr\<close> parses an address and gives the printed IP and the port.\<close>

definition port_from_addr :: "(string \<Rightarrow> (string \<times> 16 word) option) \<Rightarrow> string \<Rightarrow> 16 word option" where
  "port_from_addr socket_addr addr = map_option snd (socket_addr addr)"

definition host_from_addr :: "(string \<Rightarrow> (string \<times> 16 word) option) \<Rightarrow> string \<Rightarrow> string option" where
  "host_from_addr socket_addr addr = map_option fst (socket_addr addr)"

definition result_bind :: "'e + 'a \<Rightarrow> ('a \<Rightarrow> 'e + 'b) \<Rightarrow> 'e + 'b" where
  "result_bind r f = (case r of Inl e \<Rightarrow> Inl e | Inr x \<Rightarrow> f x)"

definition from_env :: "(string \<Rightarrow> string option) \<Rightarrow> (string \<Rightarrow> (string \<times> 16 word) option) \<Rightarrow> string + Config" where
  "from_env env_var socket_addr =
     (let addr = get_env_or env_var ''SIGNALING_ADDR'' ''0.0.0.0:8080'';
          default_public_port = (case port_from_addr socket_addr addr of None \<Rightarrow> 8080 | Some p \<Rightarrow> p);
          default_public_host = (case host_from_addr socket_addr addr of None \<Rightarrow> ''127.0.0.1'' | Some h \<Rightarrow> h);
          public_host = get_env_or env_var ''SIGNALING_PUBLIC_HOST'' default_public_host
      in result_bind (u16_from_env_or env_var ''SIGNALING_PUBLIC_PORT'' default_public_port) (\<lambda>public_port.
         let admin = get_env_or env_var ''SIGNALING_ADMIN_GRPC_ADDR'' ''0.0.0.0:50071'';
             url = get_env_or env_var ''REDIS_URL'' ''redis://redis:6379/'';
             secret = get_env_or env_var ''CONNECTOR_TOKEN_SECRET'' ''dev-connector-token-secret''
         in result_bind (duration_from_env env_var ''REDIS_CONNECT_TIMEOUT_MS'' 2000) (\<lambda>rct.
            result_bind (duration_from_env env_var ''SFU_CONNECT_TIMEOUT_MS'' 2000) (\<lambda>rpct.
            result_bind (duration_from_env env_var ''WS_READ_TIMEOUT_MS'' 30000) (\<lambda>wsr.
            result_bind (duration_from_env env_var ''WS_WRITE_TIMEOUT_MS'' 10000) (\<lambda>wsw.
            result_bind (duration_from_env env_var ''REDIS_OP_TIMEOUT_MS'' 800) (\<lambda>rot.
            result_bind (duration_from_env env_var ''SFU_RPC_TIMEOUT_MS'' 5000) (\<lambda>srt.
            result_bind (duration_from_env env_var ''SFU_BACKOFF_MIN_MS'' 1000) (\<lambda>bmin.
            result_bind (duration_from_env env_var ''SFU_BACKOFF_MAX_MS'' 30000) (\<lambda>bmax.
            result_bind (usize_from_env_or env_var ''PEER_OUTBOUND_CHANNEL_CAPACITY'' 256) (\<lambda>cap.
            result_bind (duration_from_env env_var ''SESSION_LOCK_TTL_MS'' 5000) (\<lambda>lock.
            result_bind (duration_from_secs_env env_var ''SESSION_TTL_SEC'' 600) (\<lambda>sttl.
            result_bind (duration_from_secs_env env_var ''SESSION_RENEW_SEC'' 60) (\<lambda>renew.
            Inr \<lparr>signaling_addr = addr, signaling_public_host = public_host,
                 signaling_public_port = public_port, admin_grpc_addr = admin, redis_url = url,
                 connector_token_secret = secret, redis_connect_timeout = rct,
                 rpc_connect_timeout = rpct, ws_read_timeout = wsr, ws_write_timeout = wsw,
                 redis_op_timeout = rot, sfu_rpc_timeout = srt, sfu_backoff_min = bmin,
                 sfu_backoff_max = bmax, peer_outbound_capacity = cap, session_lock_ttl = lock,
                 session_ttl = sttl, session_renew_interval = renew\<rparr>))))))))))))))"

definition public_node_id :: "Config \<Rightarrow> string" where
  "public_node_id config = signaling_public_host config @ '':'' @ show_nat (unat (signaling_public_port config))"

text \<open>With an empty environment and the default address the defaults are used.\<close>

lemma from_env_empty:
  "\<exists>c. from_env (\<lambda>_. None) socket_addr = Inr c \<and> session_lock_ttl c = 5000 \<and> session_ttl c = 600000"
  by (simp add: from_env_def duration_from_env_def duration_from_secs_env_def u16_from_env_or_def
      usize_from_env_or_def result_bind_def get_env_or_def Let_def)

end
