(* ===== verification/Connector.thy ===== *)
theory Connector
  imports Signaling_Messages
begin

text \<open>
  \<^verbatim>\<open>services/connector\<close>: the HTTP entry point. It reserves nicknames, creates sessions,
  chooses a signaling node and issues the token the node accepts. Parameters beside Redis: the
  encoder of jsonwebtoken and \<^verbatim>\<open>Uuid::parse_str\<close>. The HTTP framework (routing, JSON
  bodies, CORS headers) is left out: a handler takes the decoded request.
\<close>

section \<open>Requests and validation\<close>

datatype ConnectorErrorCode =
    InvalidPayload | Unauthorized | NicknameTaken | RoomNotFound | StorageUnavailable
  | NoHealthySignaling | UnknownSignalingRoute | TokenIssueFailed

datatype ConnValidationError = InvalidNickname | InvalidSessionId | InvalidRoomId

record AuthResponse =
  auth_nickname :: string
  auth_session_id :: string

record SignalingReadyResponse =
  signaling_url :: string
  ready_session_id :: string
  ready_token :: string

record ErrorResponse =
  err_code :: ConnectorErrorCode
  err_message :: string

definition validate_nickname :: "string \<Rightarrow> ConnValidationError + unit" where
  "validate_nickname nick =
     (let trimmed = trim nick; len = length trimmed in
      if \<not> (3 \<le> len \<and> len \<le> 32) then Inl InvalidNickname
      else if \<not> list_all (\<lambda>ch. is_ascii_alphanumeric ch \<or> ch = CHR ''_'' \<or> ch = CHR ''-'') trimmed
      then Inl InvalidNickname
      else Inr ())"

definition conn_validate_room_id :: "(string \<Rightarrow> bool) \<Rightarrow> string \<Rightarrow> ConnValidationError + unit" where
  "conn_validate_room_id uuid_ok room = (if uuid_ok room then Inr () else Inl InvalidRoomId)"

definition conn_validate_session_id :: "(string \<Rightarrow> bool) \<Rightarrow> string \<Rightarrow> ConnValidationError + unit" where
  "conn_validate_session_id uuid_ok session = (if uuid_ok session then Inr () else Inl InvalidSessionId)"

definition validate_auth :: "string \<Rightarrow> ConnValidationError + unit" where
  "validate_auth nick = validate_nickname nick"

definition validate_create :: "(string \<Rightarrow> bool) \<Rightarrow> string \<Rightarrow> ConnValidationError + unit" where
  "validate_create uuid_ok session = conn_validate_session_id uuid_ok session"

definition validate_join :: "(string \<Rightarrow> bool) \<Rightarrow> string \<Rightarrow> string \<Rightarrow> ConnValidationError + unit" where
  "validate_join uuid_ok session room =
     and_then (conn_validate_session_id uuid_ok session) (conn_validate_room_id uuid_ok room)"

definition validate_logout :: "(string \<Rightarrow> bool) \<Rightarrow> string \<Rightarrow> ConnValidationError + unit" where
  "validate_logout uuid_ok session = conn_validate_session_id uuid_ok session"

definition validate_renew :: "(string \<Rightarrow> bool) \<Rightarrow> string \<Rightarrow> ConnValidationError + unit" where
  "validate_renew uuid_ok session = conn_validate_session_id uuid_ok session"

section \<open>Configuration\<close>

record SignalingInstance =
  sig_id :: string
  ws_url :: string

record ConnectorConfig =
  connector_addr :: string
  conn_redis_url :: string
  conn_redis_connect_timeout :: nat
  conn_redis_op_timeout :: nat
  token_secret :: string
  token_ttl :: nat
  conn_session_ttl :: nat
  signaling_stale_timeout :: nat
  supervisor_stale_sec :: "64 word"
  signaling_instances :: "SignalingInstance list"
  cors_allowed_origins :: "string list"

definition parse_signaling_instances :: "string \<Rightarrow> string + SignalingInstance list" where
  "parse_signaling_instances value =
     (case decode_all (\<lambda>entry. case split_once (CHR ''|'') entry of
             None \<Rightarrow> None | Some (i, url) \<Rightarrow> Some \<lparr>sig_id = i, ws_url = url\<rparr>)
           (filter (\<lambda>entry. trim entry \<noteq> []) (split_on (CHR '','') value)) of
        None \<Rightarrow> Inl ''SIGNALING_INSTANCES entries must be id|ws_url''
      | Some xs \<Rightarrow> Inr xs)"

definition conn_get_env_or :: "(string \<Rightarrow> string option) \<Rightarrow> string \<Rightarrow> string \<Rightarrow> string" where
  "conn_get_env_or env_var key dflt = (case env_var key of None \<Rightarrow> dflt | Some v \<Rightarrow> v)"

definition parse_csv_list_env :: "(string \<Rightarrow> string option) \<Rightarrow> string \<Rightarrow> string list" where
  "parse_csv_list_env env_var key =
     filter (\<lambda>v. v \<noteq> []) (map trim (split_on (CHR '','') (case env_var key of None \<Rightarrow> [] | Some v \<Rightarrow> v)))"

definition conn_duration_from_env :: "(string \<Rightarrow> string option) \<Rightarrow> string \<Rightarrow> nat \<Rightarrow> string + nat" where
  "conn_duration_from_env env_var key default_ms =
     (case env_var key of
        None \<Rightarrow> Inr default_ms
      | Some v \<Rightarrow> (case parse_u64 v of None \<Rightarrow> Inl key | Some ms \<Rightarrow> Inr (unat ms)))"

definition conn_u64_env_or :: "(string \<Rightarrow> string option) \<Rightarrow> string \<Rightarrow> 64 word \<Rightarrow> string + 64 word" where
  "conn_u64_env_or env_var key dflt =
     (case env_var key of
        None \<Rightarrow> Inr dflt
      | Some v \<Rightarrow> (case parse_u64 v of None \<Rightarrow> Inl key | Some n \<Rightarrow> Inr n))"

definition conn_duration_from_secs_env :: "(string \<Rightarrow> string option) \<Rightarrow> string \<Rightarrow> nat \<Rightarrow> string + nat" where
  "conn_duration_from_secs_env env_var key default_secs =
     (case env_var key of
        None \<Rightarrow> Inr (1000 * default_secs)
      | Some v \<Rightarrow> (case parse_u64 v of None \<Rightarrow> Inl key | Some secs \<Rightarrow> Inr (1000 * unat secs)))"

definition connector_from_env :: "(string \<Rightarrow> string option) \<Rightarrow> string + ConnectorConfig" where
  "connector_from_env env_var =
     (let addr = conn_get_env_or env_var ''CONNECTOR_ADDR'' ''0.0.0.0:8090'';
          url = conn_get_env_or env_var ''REDIS_URL'' ''redis://redis:6379/''
      in result_bind (conn_duration_from_env env_var ''REDIS_CONNECT_TIMEOUT_MS'' 2000) (\<lambda>rct.
         result_bind (conn_duration_from_env env_var ''REDIS_OP_TIMEOUT_MS'' 800) (\<lambda>rot.
         let secret = conn_get_env_or env_var ''CONNECTOR_TOKEN_SECRET'' ''dev-connector-token-secret'' in
         result_bind (conn_duration_from_env env_var ''CONNECTOR_TOKEN_TTL_MS'' 120000) (\<lambda>tt.
         result_bind (conn_duration_from_secs_env env_var ''SESSION_TTL_SEC'' 600) (\<lambda>st.
         result_bind (conn_duration_from_secs_env env_var ''SIGNALING_STALE_SEC'' 30) (\<lambda>ss.
         result_bind (conn_u64_env_or env_var ''SUPERVISOR_STALE_SEC'' 30) (\<lambda>sup.
         result_bind (parse_signaling_instances (conn_get_env_or env_var ''SIGNALING_INSTANCES''
             ''127.0.0.1:8080|ws://127.0.0.1:8080/ws'')) (\<lambda>insts.
         Inr \<lparr>connector_addr = addr, conn_redis_url = url, conn_redis_connect_timeout = rct,
              conn_redis_op_timeout = rot, token_secret = secret, token_ttl = tt, conn_session_ttl = st,
              signaling_stale_timeout = ss, supervisor_stale_sec = sup, signaling_instances = insts,
              cors_allowed_origins = parse_csv_list_env env_var ''CONNECTOR_CORS_ALLOWED_ORIGINS''\<rparr>))))))))"

definition signaling_by_id :: "ConnectorConfig \<Rightarrow> string \<Rightarrow> SignalingInstance option" where
  "signaling_by_id c i = find (\<lambda>inst. sig_id inst = i) (signaling_instances c)"

section \<open>Environment and keys\<close>

text \<open>The claims the connector signs, and the signer.\<close>

record IssuedClaims =
  i_jti :: string
  i_session_id :: string
  i_nickname :: string
  i_signaling_instance_id :: string
  i_intent :: string
  i_room_id :: "string option"
  i_iat :: "64 word"
  i_exp :: "64 word"

record 'w conn_env = "'w env" +
  conn_uuid_ok :: "string \<Rightarrow> bool"
  jwt_encode :: "IssuedClaims \<Rightarrow> string \<Rightarrow> string option"

definition CONN_INSTANCE_LOAD_KEY :: string where
  "CONN_INSTANCE_LOAD_KEY = ''signaling:instance_load''"
definition CONN_SIGNALING_NODES_KEY :: string where
  "CONN_SIGNALING_NODES_KEY = ''signaling:nodes''"
definition CONN_SESSION_PREFIX :: string where
  "CONN_SESSION_PREFIX = ''signaling:session:''"
definition CONN_NICK_PREFIX :: string where
  "CONN_NICK_PREFIX = ''signaling:nick:''"
definition CONN_ROOM_BINDING_PREFIX :: string where
  "CONN_ROOM_BINDING_PREFIX = ''room:''"

definition conn_session_key :: "string \<Rightarrow> string" where
  "conn_session_key session = CONN_SESSION_PREFIX @ session"

definition conn_nick_key :: "string \<Rightarrow> string" where
  "conn_nick_key nick = CONN_NICK_PREFIX @ nick"

definition conn_room_binding_key :: "string \<Rightarrow> string" where
  "conn_room_binding_key room = CONN_ROOM_BINDING_PREFIX @ room @ '':binding''"

text \<open>The connector, too, names the keys of the shared crate.\<close>

lemma conn_keys_agree [simp]:
  "conn_session_key s = session_key s" "conn_nick_key n = nick_key n"
  "conn_room_binding_key r = room_binding_key r"
  "CONN_INSTANCE_LOAD_KEY = SIGNALING_INSTANCE_LOAD_KEY" "CONN_SIGNALING_NODES_KEY = SIGNALING_NODES_KEY"
  by (simp_all add: key_defs conn_session_key_def conn_nick_key_def conn_room_binding_key_def
      CONN_SESSION_PREFIX_def CONN_NICK_PREFIX_def CONN_ROOM_BINDING_PREFIX_def
      CONN_INSTANCE_LOAD_KEY_def CONN_SIGNALING_NODES_KEY_def)

section \<open>Redis operations\<close>

record ConnRoomRoute =
  route_instance_id :: string

record SessionData =
  sd_nickname :: string

datatype RedisError = NicknameTaken | RoomNotFound | InvalidRoomRoute | Timeout | Redis string

definition conn_error_of :: "redis_error + RedisError \<Rightarrow> RedisError" where
  "conn_error_of e = (case e of Inl OpTimeout \<Rightarrow> RedisError.Timeout | Inl (RedisFailure m) \<Rightarrow> RedisError.Redis m | Inr r \<Rightarrow> r)"

definition conn_with_op_timeout :: "('w, redis_error + RedisError, 'a) prog \<Rightarrow> ('w, RedisError, 'a) prog" where
  "conn_with_op_timeout fut = map_errM conn_error_of fut"

definition ccall :: "('w, 'z) env_scheme \<Rightarrow> cmd \<Rightarrow> (reply \<Rightarrow> ('w, redis_error, 'a) prog)
    \<Rightarrow> ('w, redis_error + RedisError, 'a) prog" where
  "ccall E c conv = map_errM Inl (call E c conv)"

definition conn_fail :: "RedisError \<Rightarrow> ('w, redis_error + RedisError, 'a) prog" where
  "conn_fail e = failM (Inr e)"

definition conn_init_redis :: "('w, 'z) env_scheme \<Rightarrow> ('w, redis_error, unit) prog" where
  "conn_init_redis E = tryM (call E Ping as_string) (\<lambda>_. okM ())"

definition reserve_nickname :: "('w, 'z) env_scheme \<Rightarrow> string \<Rightarrow> string \<Rightarrow> ('w, RedisError, unit) prog" where
  "reserve_nickname E nick session =
     conn_with_op_timeout (tryM (ccall E (SetNx (conn_nick_key nick) session NoTtl) as_opt_string) (\<lambda>acquired.
       if acquired = Some ''OK'' then okM () else conn_fail RedisError.NicknameTaken))"

definition nick_owner_get :: "('w, 'z) env_scheme \<Rightarrow> string \<Rightarrow> ('w, RedisError, string option) prog" where
  "nick_owner_get E nick = conn_with_op_timeout (ccall E (Get (conn_nick_key nick)) as_opt_string)"

definition conn_release_nick_lease :: "('w, 'z) env_scheme \<Rightarrow> string \<Rightarrow> string \<Rightarrow> ('w, RedisError, unit) prog" where
  "conn_release_nick_lease E nick session =
     conn_with_op_timeout (tryM (ccall E (CompareAndDel (conn_nick_key nick) session) as_int) (\<lambda>_. okM ()))"

definition session_create :: "('w, 'z) env_scheme \<Rightarrow> string \<Rightarrow> string \<Rightarrow> nat \<Rightarrow> ('w, RedisError, unit) prog" where
  "session_create E session nick ttl =
     conn_with_op_timeout
       (tryM (ccall E (Hset (conn_session_key session) ''nickname'' nick) as_int) (\<lambda>_.
        tryM (ccall E (Hset (conn_session_key session) ''room_id'' []) as_int) (\<lambda>_.
        tryM (ccall E (Expire (conn_session_key session) (wrap_i64 (int (ttl div 1000)))) as_bool) (\<lambda>_. okM ()))))"

definition conn_session_delete :: "('w, 'z) env_scheme \<Rightarrow> string \<Rightarrow> ('w, RedisError, unit) prog" where
  "conn_session_delete E session =
     conn_with_op_timeout (tryM (ccall E (Del (conn_session_key session)) as_int) (\<lambda>_. okM ()))"

definition conn_session_get :: "('w, 'z) env_scheme \<Rightarrow> string \<Rightarrow> ('w, RedisError, SessionData option) prog" where
  "conn_session_get E session =
     conn_with_op_timeout (tryM (ccall E (Hget (conn_session_key session) ''nickname'') as_opt_string) (\<lambda>nick.
       okM (map_option (\<lambda>n. \<lparr>sd_nickname = n\<rparr>) (nonempty nick))))"

definition session_refresh_ttl :: "('w, 'z) env_scheme \<Rightarrow> string \<Rightarrow> nat \<Rightarrow> ('w, RedisError, bool) prog" where
  "session_refresh_ttl E session ttl =
     conn_with_op_timeout (ccall E (Expire (conn_session_key session) (wrap_i64 (int (ttl div 1000)))) as_bool)"

definition conn_get_room_route :: "('w, 'z) env_scheme \<Rightarrow> string \<Rightarrow> ('w, RedisError, ConnRoomRoute) prog" where
  "conn_get_room_route E room =
     conn_with_op_timeout (tryM (ccall E (Hgetall (conn_room_binding_key room)) as_hash) (\<lambda>pairs.
       if pairs = [] then conn_fail RedisError.RoomNotFound else
       let values = collect_map pairs in
       (case nonempty (values ''owner_host'') of
          None \<Rightarrow> conn_fail InvalidRoomRoute
        | Some host \<Rightarrow>
            (case nonempty (values ''owner_port'') of
               None \<Rightarrow> conn_fail InvalidRoomRoute
             | Some port \<Rightarrow> okM \<lparr>route_instance_id = host @ '':'' @ port\<rparr>))))"

definition load_signaling_loads :: "('w, 'z) env_scheme \<Rightarrow> ('w, RedisError, string \<rightharpoonup> real) prog" where
  "load_signaling_loads E =
     conn_with_op_timeout (tryM (ccall E (ZrangeWithscores CONN_INSTANCE_LOAD_KEY) as_scores)
       (\<lambda>entries. okM (collect_map entries)))"

definition conn_alive_signaling_nodes :: "('w, 'z) env_scheme \<Rightarrow> nat \<Rightarrow> ('w, RedisError, string list) prog" where
  "conn_alive_signaling_nodes E stale_threshold =
     conn_with_op_timeout (tryM (liftM (unix_time E)) (\<lambda>now.
       let cutoff = sub_i64 now (wrap_i64 (int (stale_threshold div 1000))) in
       ccall E (Zrangebyscore CONN_SIGNALING_NODES_KEY (of_int cutoff)) as_list))"

definition get_supervisor_status :: "('w, 'z) env_scheme \<Rightarrow> ('w, RedisError, SupervisorStatus option) prog" where
  "get_supervisor_status E = map_errM (\<lambda>_. RedisError.Redis ''supervisor status'') (read_supervisor_status E)"

section \<open>Tokens\<close>

definition issue_token :: "('w, 'z) conn_env_scheme \<Rightarrow> string \<Rightarrow> nat \<Rightarrow> string \<Rightarrow> string \<Rightarrow> string \<Rightarrow> string
    \<Rightarrow> string option \<Rightarrow> ('w, string option) act" where
  "issue_token E secret ttl session nick inst_id intent_text room =
     bindM (unix_time E) (\<lambda>now.
     let iat_now = word_of_int now in
     bindM (new_uuid E) (\<lambda>fresh.
     retM (jwt_encode E
       \<lparr>i_jti = fresh, i_session_id = session, i_nickname = nick, i_signaling_instance_id = inst_id,
        i_intent = intent_text, i_room_id = room, i_iat = iat_now, i_exp = iat_now + of_nat (ttl div 1000)\<rparr> secret)))"

section \<open>Handlers\<close>

datatype HandlerError =
    Unauthorized | NicknameTaken | RoomNotFound | Redis | SignalingUnavailable | UnknownSignalingRoute
  | InvalidPayload string | Token | SupervisorUnavailable

definition conn_map_redis_error :: "RedisError \<Rightarrow> HandlerError" where
  "conn_map_redis_error err =
     (case err of
        RedisError.NicknameTaken \<Rightarrow> HandlerError.NicknameTaken
      | RedisError.RoomNotFound \<Rightarrow> HandlerError.RoomNotFound
      | InvalidRoomRoute \<Rightarrow> HandlerError.Redis
      | RedisError.Timeout \<Rightarrow> HandlerError.Redis
      | RedisError.Redis _ \<Rightarrow> HandlerError.Redis)"

definition conn_map_error :: "HandlerError \<Rightarrow> ConnectorErrorCode \<times> string" where
  "conn_map_error err =
     (case err of
        HandlerError.Unauthorized \<Rightarrow> (ConnectorErrorCode.Unauthorized, ''Unauthorized session'')
      | HandlerError.NicknameTaken \<Rightarrow> (ConnectorErrorCode.NicknameTaken, ''Nickname already taken'')
      | HandlerError.RoomNotFound \<Rightarrow> (ConnectorErrorCode.RoomNotFound, ''Room not found'')
      | HandlerError.Redis \<Rightarrow> (StorageUnavailable, ''Storage operation failed'')
      | SignalingUnavailable \<Rightarrow> (NoHealthySignaling, ''No healthy signaling instance'')
      | HandlerError.UnknownSignalingRoute \<Rightarrow>
          (ConnectorErrorCode.UnknownSignalingRoute, ''Signaling route is not configured on this connector'')
      | Token \<Rightarrow> (TokenIssueFailed, ''Failed to issue token'')
      | HandlerError.InvalidPayload message \<Rightarrow> (ConnectorErrorCode.InvalidPayload, message)
      | SupervisorUnavailable \<Rightarrow> (StorageUnavailable, ''Supervisor not available; retry shortly''))"

definition status_for_error :: "HandlerError \<Rightarrow> nat" where
  "status_for_error err =
     (case err of
        HandlerError.Unauthorized \<Rightarrow> 401
      | HandlerError.NicknameTaken \<Rightarrow> 409
      | HandlerError.RoomNotFound \<Rightarrow> 404
      | HandlerError.Redis \<Rightarrow> 503
      | SignalingUnavailable \<Rightarrow> 503
      | HandlerError.UnknownSignalingRoute \<Rightarrow> 503
      | HandlerError.InvalidPayload _ \<Rightarrow> 400
      | Token \<Rightarrow> 500
      | SupervisorUnavailable \<Rightarrow> 503)"

definition into_response :: "HandlerError \<Rightarrow> nat \<times> ErrorResponse" where
  "into_response err =
     (status_for_error err, \<lparr>err_code = fst (conn_map_error err), err_message = snd (conn_map_error err)\<rparr>)"

type_synonym ('w, 'a) http = "('w, HandlerError, 'a) prog"

definition connM :: "('w, RedisError, 'a) prog \<Rightarrow> ('w, 'a) http" where
  "connM m = map_errM conn_map_redis_error m"

definition validated :: "string \<Rightarrow> ConnValidationError + unit \<Rightarrow> ('w, unit) http" where
  "validated text r = (case r of Inl _ \<Rightarrow> failM (HandlerError.InvalidPayload text) | Inr _ \<Rightarrow> okM ())"

definition auth :: "('w, 'z) conn_env_scheme \<Rightarrow> ConnectorConfig \<Rightarrow> string \<Rightarrow> ('w, AuthResponse) http" where
  "auth E cfg requested =
     tryM (validated ''Invalid auth request'' (validate_auth requested)) (\<lambda>_.
     let nick = trim requested in
     bindM (new_uuid E) (\<lambda>session.
     tryM (connM (reserve_nickname E nick session)) (\<lambda>_.
     bindM (session_create E session nick (conn_session_ttl cfg)) (\<lambda>created.
       case created of
         Inl err \<Rightarrow> bindM (conn_release_nick_lease E nick session) (\<lambda>_. failM (conn_map_redis_error err))
       | Inr _ \<Rightarrow> okM \<lparr>auth_nickname = nick, auth_session_id = session\<rparr>))))"

definition check_supervisor_freshness :: "('w, 'z) conn_env_scheme \<Rightarrow> ConnectorConfig \<Rightarrow> ('w, unit) http" where
  "check_supervisor_freshness E cfg =
     tryM (connM (get_supervisor_status E)) (\<lambda>status.
       case status of
         None \<Rightarrow> failM SupervisorUnavailable
       | Some st \<Rightarrow>
           tryM (liftM (unix_time E)) (\<lambda>now.
           if sub_i64 now (last_seen_unix st) > cast_i64 (supervisor_stale_sec cfg)
           then failM SupervisorUnavailable else okM ()))"

definition select_least_loaded_signaling :: "('w, 'z) conn_env_scheme \<Rightarrow> ConnectorConfig \<Rightarrow> ('w, SignalingInstance) http" where
  "select_least_loaded_signaling E cfg =
     tryM (connM (load_signaling_loads E)) (\<lambda>loads.
     tryM (connM (conn_alive_signaling_nodes E (signaling_stale_timeout cfg))) (\<lambda>alive_nodes.
       case min_by (\<lambda>inst. get_or 0 loads (sig_id inst))
              (filter (\<lambda>inst. sig_id inst \<in> set alive_nodes) (signaling_instances cfg)) of
         None \<Rightarrow> failM SignalingUnavailable
       | Some inst \<Rightarrow> okM inst))"

definition issue_signaling_token :: "('w, 'z) conn_env_scheme \<Rightarrow> ConnectorConfig \<Rightarrow> string \<Rightarrow> string \<Rightarrow> string \<Rightarrow> string
    \<Rightarrow> string option \<Rightarrow> ('w, string) http" where
  "issue_signaling_token E cfg session nick inst_id intent_text room =
     bindM (issue_token E (token_secret cfg) (token_ttl cfg) session nick inst_id intent_text room) (\<lambda>t.
       case t of None \<Rightarrow> failM Token | Some tok \<Rightarrow> okM tok)"

definition create :: "('w, 'z) conn_env_scheme \<Rightarrow> ConnectorConfig \<Rightarrow> string \<Rightarrow> ('w, SignalingReadyResponse) http" where
  "create E cfg session =
     tryM (validated ''Invalid create request'' (validate_create (conn_uuid_ok E) session)) (\<lambda>_.
     tryM (map_errM (\<lambda>_. SupervisorUnavailable) (check_supervisor_freshness E cfg)) (\<lambda>_.
     tryM (connM (conn_session_get E session)) (\<lambda>found.
       case found of
         None \<Rightarrow> failM HandlerError.Unauthorized
       | Some data \<Rightarrow>
           tryM (select_least_loaded_signaling E cfg) (\<lambda>signaling.
           tryM (issue_signaling_token E cfg session (sd_nickname data) (sig_id signaling) ''create'' None) (\<lambda>token.
           okM \<lparr>signaling_url = ws_url signaling, ready_session_id = session, ready_token = token\<rparr>)))))"

definition join :: "('w, 'z) conn_env_scheme \<Rightarrow> ConnectorConfig \<Rightarrow> string \<Rightarrow> string \<Rightarrow> ('w, SignalingReadyResponse) http" where
  "join E cfg session room =
     tryM (validated ''Invalid join request'' (validate_join (conn_uuid_ok E) session room)) (\<lambda>_.
     tryM (connM (conn_session_get E session)) (\<lambda>found.
       case found of
         None \<Rightarrow> failM HandlerError.Unauthorized
       | Some data \<Rightarrow>
           tryM (connM (conn_get_room_route E room)) (\<lambda>route.
             case signaling_by_id cfg (route_instance_id route) of
               None \<Rightarrow> failM HandlerError.UnknownSignalingRoute
             | Some signaling \<Rightarrow>
                 tryM (issue_signaling_token E cfg session (sd_nickname data) (sig_id signaling) ''join'' (Some room)) (\<lambda>token.
                 okM \<lparr>signaling_url = ws_url signaling, ready_session_id = session, ready_token = token\<rparr>))))"

definition logout :: "('w, 'z) conn_env_scheme \<Rightarrow> string \<Rightarrow> ('w, nat) http" where
  "logout E session =
     tryM (validated ''Invalid logout request'' (validate_logout (conn_uuid_ok E) session)) (\<lambda>_.
     tryM (connM (conn_session_get E session)) (\<lambda>found.
     bindM (case found of
              None \<Rightarrow> retM ()
            | Some data \<Rightarrow>
                bindM (conn_session_delete E session) (\<lambda>_.
                ignoreM (conn_release_nick_lease E (sd_nickname data) session))) (\<lambda>_.
     okM 204)))"

definition session_renew :: "('w, 'z) conn_env_scheme \<Rightarrow> ConnectorConfig \<Rightarrow> string \<Rightarrow> ('w, nat) http" where
  "session_renew E cfg session =
     tryM (validated ''Invalid session renew request'' (validate_renew (conn_uuid_ok E) session)) (\<lambda>_.
     tryM (connM (conn_session_get E session)) (\<lambda>found.
       case found of
         None \<Rightarrow> failM HandlerError.Unauthorized
       | Some data \<Rightarrow>
           tryM (connM (nick_owner_get E (sd_nickname data))) (\<lambda>owner.
           if owner \<noteq> Some session then failM HandlerError.Unauthorized else
           tryM (connM (session_refresh_ttl E session (conn_session_ttl cfg))) (\<lambda>ok.
           if \<not> ok then failM HandlerError.Unauthorized else okM 204))))"

definition conn_health :: "nat \<times> string" where
  "conn_health = (200, ''ok'')"

end
