(* ===== verification/Peer_Registry.thy ===== *)
theory Peer_Registry
  imports Signaling_Messages
begin

text \<open>
  \<^verbatim>\<open>peer_registry.rs\<close>: the peers connected to this node, by room and nickname. The
  write half of a peer's channel is a handle; \<open>try_send\<close> (tokio's bounded channel) is a parameter
  that answers whether the message was taken. Both hash maps are iterated, so they are
  association lists without repeated keys.
\<close>

type_synonym sender = nat

record PeerEntry =
  pe_sender :: sender
  pe_sfu_addr :: "string option"

type_synonym room_peers = "(string \<times> PeerEntry) list"
type_synonym PeerRegistry = "(string \<times> room_peers) list"

datatype DeliveryStatus = Delivered | Missing | Stale

definition peers_of :: "PeerRegistry \<Rightarrow> string \<Rightarrow> room_peers" where
  "peers_of reg room = (case map_of reg room of None \<Rightarrow> [] | Some ps \<Rightarrow> ps)"

definition peer_get :: "PeerRegistry \<Rightarrow> string \<Rightarrow> string \<Rightarrow> PeerEntry option" where
  "peer_get reg room nick = map_of (peers_of reg room) nick"

definition register :: "string \<Rightarrow> string \<Rightarrow> sender \<Rightarrow> string option \<Rightarrow> PeerRegistry \<Rightarrow> PeerRegistry" where
  "register room nick snd_half addr reg =
     AList.update room (AList.update nick \<lparr>pe_sender = snd_half, pe_sfu_addr = addr\<rparr> (peers_of reg room)) reg"

definition unregister :: "string \<Rightarrow> string \<Rightarrow> PeerRegistry \<Rightarrow> PeerRegistry" where
  "unregister room nick reg =
     (case map_of reg room of
        None \<Rightarrow> reg
      | Some ps \<Rightarrow>
          let ps' = AList.delete nick ps
          in if ps' = [] then AList.delete room reg else AList.update room ps' reg)"

definition send_to_peer :: "(sender \<Rightarrow> ServerMessage \<Rightarrow> ('w, bool) act) \<Rightarrow> PeerRegistry \<Rightarrow> string \<Rightarrow> string
    \<Rightarrow> ServerMessage \<Rightarrow> ('w, DeliveryStatus) act" where
  "send_to_peer try_send reg room nick payload =
     (case peer_get reg room nick of
        None \<Rightarrow> retM Missing
      | Some entry \<Rightarrow>
          bindM (try_send (pe_sender entry) payload) (\<lambda>taken. retM (if taken then Delivered else Stale)))"

fun send_each :: "(sender \<Rightarrow> ServerMessage \<Rightarrow> ('w, bool) act) \<Rightarrow> ServerMessage \<Rightarrow> room_peers
    \<Rightarrow> ('w, string list) act" where
  "send_each try_send payload [] = retM []"
| "send_each try_send payload ((nick, entry) # targets) =
     bindM (try_send (pe_sender entry) payload) (\<lambda>taken.
     bindM (send_each try_send payload targets) (\<lambda>stale.
     retM (if taken then stale else nick # stale)))"

definition broadcast_targets :: "PeerRegistry \<Rightarrow> string \<Rightarrow> string option \<Rightarrow> room_peers" where
  "broadcast_targets reg room except = filter (\<lambda>(nick, _). except \<noteq> Some nick) (peers_of reg room)"

definition broadcast_to_room :: "(sender \<Rightarrow> ServerMessage \<Rightarrow> ('w, bool) act) \<Rightarrow> PeerRegistry \<Rightarrow> string
    \<Rightarrow> string option \<Rightarrow> ServerMessage \<Rightarrow> ('w, string list) act" where
  "broadcast_to_room try_send reg room except payload =
     send_each try_send payload (broadcast_targets reg room except)"

definition snapshot_rooms :: "PeerRegistry \<Rightarrow> (string \<times> string list) list" where
  "snapshot_rooms reg = map (\<lambda>(room, ps). (room, map fst ps)) reg"

definition snapshot_rooms_with_sfu :: "PeerRegistry \<Rightarrow> (string \<times> (string \<times> string option) list) list" where
  "snapshot_rooms_with_sfu reg = map (\<lambda>(room, ps). (room, map (\<lambda>(nick, e). (nick, pe_sfu_addr e)) ps)) reg"

definition peers_clear :: "PeerRegistry \<Rightarrow> PeerRegistry" where
  "peers_clear reg = []"

definition peer_count :: "PeerRegistry \<Rightarrow> 32 word" where
  "peer_count reg = sum_list (map (\<lambda>(_, ps). of_nat (length ps)) reg)"

section \<open>Invariant and laws\<close>

text \<open>No repeated room, no repeated nickname within a room, no room without a peer.\<close>

definition peers_ok :: "PeerRegistry \<Rightarrow> bool" where
  "peers_ok reg \<longleftrightarrow> distinct_keys reg \<and> (\<forall>(room, ps) \<in> set reg. ps \<noteq> [] \<and> distinct_keys ps)"

definition registered :: "PeerRegistry \<Rightarrow> string \<Rightarrow> string set" where
  "registered reg room = fst ` set (peers_of reg room)"

lemma peers_ok_empty [simp]: "peers_ok []"
  by (simp add: peers_ok_def)

lemma peers_ok_room: "peers_ok reg \<Longrightarrow> distinct_keys (peers_of reg room)"
  by (auto simp: peers_ok_def peers_of_def dest: map_of_SomeD split: option.splits)

lemma update_nonempty [simp]: "AList.update k v xs \<noteq> []"
  by (cases xs) auto

lemma peers_ok_register [simp]: "peers_ok reg \<Longrightarrow> peers_ok (register room nick s a reg)"
  using peers_ok_room [of reg room] by (auto simp: register_def peers_ok_def set_update)

lemma peers_ok_unregister [simp]:
  assumes "peers_ok reg"
  shows "peers_ok (unregister room nick reg)"
proof (cases "map_of reg room")
  case None
  then show ?thesis using assms by (simp add: unregister_def)
next
  case (Some ps)
  have "distinct_keys (AList.delete nick ps)"
    using peers_ok_room [OF assms, of room] Some by (simp add: peers_of_def)
  then show ?thesis using assms Some
    by (auto simp: unregister_def peers_ok_def set_update set_delete Let_def)
qed

lemma peers_of_register [simp]:
  "peers_of (register room nick s a reg) room' =
     (if room' = room then AList.update nick \<lparr>pe_sender = s, pe_sfu_addr = a\<rparr> (peers_of reg room)
      else peers_of reg room')"
  by (auto simp: register_def peers_of_def)

lemma peers_of_unregister [simp]:
  "peers_of (unregister room nick reg) room' =
     (if room' = room then AList.delete nick (peers_of reg room) else peers_of reg room')"
  by (auto simp: unregister_def peers_of_def Let_def split: option.splits)

lemma peer_get_register:
  "peer_get (register room nick s a reg) room' nick' =
     (if room' = room \<and> nick' = nick then Some \<lparr>pe_sender = s, pe_sfu_addr = a\<rparr>
      else peer_get reg room' nick')"
  by (auto simp: peer_get_def)

lemma peer_get_unregister:
  "peer_get (unregister room nick reg) room' nick' =
     (if room' = room \<and> nick' = nick then None else peer_get reg room' nick')"
  by (auto simp: peer_get_def)

lemma registered_register [simp]:
  "registered (register room nick s a reg) room' =
     (if room' = room then insert nick (registered reg room) else registered reg room')"
  by (auto simp: registered_def dom_update)

lemma registered_unregister [simp]:
  "registered (unregister room nick reg) room' =
     (if room' = room then registered reg room - {nick} else registered reg room')"
  by (auto simp: registered_def delete_keys set_delete image_iff)

lemma finite_registered [simp]: "finite (registered reg room)"
  by (simp add: registered_def)

text \<open>A broadcast reaches every peer of the room but the excepted one, once each, and reports those
  whose channel refused the message.\<close>

lemma send_each_stale: "set (fst (send_each f m targets w)) \<subseteq> fst ` set targets"
  by (induction f m targets arbitrary: w rule: send_each.induct) (auto simp: prog_simps)

lemma broadcast_stale:
  "set (fst (broadcast_to_room f reg room except m w)) \<subseteq> registered reg room - set_option except"
  using send_each_stale [of f m "broadcast_targets reg room except" w]
  by (auto simp: broadcast_to_room_def broadcast_targets_def registered_def)

lemma keeps_send_each [keeps_intros]:
  "(\<And>s m. keeps I (f s m)) \<Longrightarrow> keeps I (send_each f m targets)"
  by (induction f m targets rule: send_each.induct) (auto intro!: keeps_intros)

lemma keeps_broadcast [keeps_intros]:
  "(\<And>s m. keeps I (f s m)) \<Longrightarrow> keeps I (broadcast_to_room f reg room except m)"
  by (simp add: broadcast_to_room_def keeps_intros)

lemma keeps_send_to_peer [keeps_intros]:
  "(\<And>s m. keeps I (f s m)) \<Longrightarrow> keeps I (send_to_peer f reg room nick m)"
  unfolding send_to_peer_def by (intro keeps_intros)

end
