(* ===== verification/Session_Registry.thy ===== *)
theory Session_Registry
  imports Peer_Registry
begin

text \<open>
  \<^verbatim>\<open>session_registry.rs\<close>: the sessions attached to this node and the index from rooms to
  sessions. The index is iterated when a room is cleared, so its entries are lists without
  repetition; the two maps are only looked up. The contract a client of the registry sees is the
  locale \<open>room_index\<close>: the index says exactly what the sessions say.
\<close>

record SessionStore =
  by_session_id :: "(string \<times> SessionState) list"
  by_room_id :: "string \<rightharpoonup> string list"

definition empty_store :: SessionStore where
  "empty_store = \<lparr>by_session_id = [], by_room_id = Map.empty\<rparr>"

definition session_lookup :: "SessionStore \<Rightarrow> string \<Rightarrow> SessionState option" where
  "session_lookup st s = map_of (by_session_id st) s"

definition remove_room_link :: "string \<Rightarrow> string \<Rightarrow> SessionStore \<Rightarrow> SessionStore" where
  "remove_room_link s room st =
     (case by_room_id st room of
        None \<Rightarrow> st
      | Some ids \<Rightarrow>
          let ids' = remove1 s ids
          in st\<lparr>by_room_id := (by_room_id st)(room := if ids' = [] then None else Some ids')\<rparr>)"

text \<open>\<^verbatim>\<open>entry(room).or_default().insert(s)\<close> on the index.\<close>

definition add_room_link :: "string \<Rightarrow> string \<Rightarrow> SessionStore \<Rightarrow> SessionStore" where
  "add_room_link s room st =
     (let ids = get_or [] (by_room_id st) room
      in st\<lparr>by_room_id := (by_room_id st)(room \<mapsto> (if s \<in> set ids then ids else s # ids))\<rparr>)"

definition upsert :: "string \<Rightarrow> SessionState \<Rightarrow> SessionStore \<Rightarrow> SessionStore" where
  "upsert s session st =
     (let previous = session_lookup st s;
          st1 = st\<lparr>by_session_id := AList.update s session (by_session_id st)\<rparr>;
          st2 = (case previous of
                   None \<Rightarrow> st1
                 | Some p \<Rightarrow> (case room_id p of None \<Rightarrow> st1 | Some old \<Rightarrow> remove_room_link s old st1))
      in (case room_id session of None \<Rightarrow> st2 | Some room \<Rightarrow> add_room_link s room st2))"

definition session_remove :: "string \<Rightarrow> SessionStore \<Rightarrow> SessionStore" where
  "session_remove s st =
     (case session_lookup st s of
        None \<Rightarrow> st
      | Some p \<Rightarrow>
          let st1 = st\<lparr>by_session_id := AList.delete s (by_session_id st)\<rparr>
          in (case room_id p of None \<Rightarrow> st1 | Some old \<Rightarrow> remove_room_link s old st1))"

definition set_room :: "string \<Rightarrow> string option \<Rightarrow> SessionStore \<Rightarrow> SessionStore" where
  "set_room s room st =
     (case session_lookup st s of
        None \<Rightarrow> st
      | Some session \<Rightarrow>
          let st1 = (case room_id session of None \<Rightarrow> st | Some old \<Rightarrow> remove_room_link s old st);
              st2 = (case room of None \<Rightarrow> st1 | Some new \<Rightarrow> add_room_link s new st1)
          in st2\<lparr>by_session_id := AList.update s (session\<lparr>room_id := room\<rparr>) (by_session_id st2)\<rparr>)"

fun clear_each :: "string list \<Rightarrow> SessionStore \<Rightarrow> string list \<times> SessionStore" where
  "clear_each [] st = ([], st)"
| "clear_each (s # ids) st =
     (case session_lookup st s of
        None \<Rightarrow> clear_each ids st
      | Some session \<Rightarrow>
          (case clear_each ids (st\<lparr>by_session_id :=
                  AList.update s (session\<lparr>room_id := None\<rparr>) (by_session_id st)\<rparr>) of
             (affected, st') \<Rightarrow> (s # affected, st')))"

definition clear_room :: "string \<Rightarrow> SessionStore \<Rightarrow> string list \<times> SessionStore" where
  "clear_room room st =
     (case by_room_id st room of
        None \<Rightarrow> ([], st)
      | Some ids \<Rightarrow> clear_each ids (st\<lparr>by_room_id := (by_room_id st)(room := None)\<rparr>))"

definition sessions_clear :: "SessionStore \<Rightarrow> SessionStore" where
  "sessions_clear st = st\<lparr>by_session_id := [], by_room_id := Map.empty\<rparr>"

definition session_count :: "SessionStore \<Rightarrow> 32 word" where
  "session_count st = of_nat (length (by_session_id st))"

section \<open>Invariant\<close>

text \<open>The room of a session, and the index: each room lists exactly the sessions that are in it,
  without repetition, and no room is listed empty.\<close>

definition session_room :: "SessionStore \<Rightarrow> string \<Rightarrow> string option" where
  "session_room st s = (case session_lookup st s of None \<Rightarrow> None | Some x \<Rightarrow> room_id x)"

definition index_of :: "SessionStore \<Rightarrow> string \<Rightarrow> string list" where
  "index_of st room = get_or [] (by_room_id st) room"

definition sessions_ok :: "SessionStore \<Rightarrow> bool" where
  "sessions_ok st \<longleftrightarrow> distinct_keys (by_session_id st)
     \<and> (\<forall>room. by_room_id st room \<noteq> Some [])
     \<and> (\<forall>room. distinct (index_of st room))
     \<and> (\<forall>room s. s \<in> set (index_of st room) \<longleftrightarrow> session_room st s = Some room)"

lemma sessions_okD:
  assumes "sessions_ok st"
  shows "distinct_keys (by_session_id st)" "by_room_id st room \<noteq> Some []" "distinct (index_of st room)"
    "s \<in> set (index_of st room) \<longleftrightarrow> session_room st s = Some room"
  using assms by (simp_all add: sessions_ok_def)

lemma sessions_ok_empty [simp]: "sessions_ok empty_store" "sessions_ok (sessions_clear st)"
  by (simp_all add: sessions_ok_def empty_store_def sessions_clear_def index_of_def get_or_def
      session_room_def session_lookup_def)

text \<open>The helpers that only touch the index.\<close>

lemma link_sessions [simp]:
  "by_session_id (remove_room_link s room st) = by_session_id st"
  "by_session_id (add_room_link s room st) = by_session_id st"
  by (auto simp: remove_room_link_def add_room_link_def Let_def split: option.splits)

lemma link_lookup [simp]:
  "session_lookup (remove_room_link s room st) = session_lookup st"
  "session_lookup (add_room_link s room st) = session_lookup st"
  "session_room (remove_room_link s room st) = session_room st"
  "session_room (add_room_link s room st) = session_room st"
  by (simp_all add: session_lookup_def session_room_def fun_eq_iff)

lemma index_remove [simp]:
  "index_of (remove_room_link s room st) room' =
     (if room' = room then remove1 s (index_of st room) else index_of st room')"
  by (auto simp: remove_room_link_def index_of_def get_or_def Let_def split: option.splits)

lemma index_add [simp]:
  "index_of (add_room_link s room st) room' =
     (if room' = room then (if s \<in> set (index_of st room) then index_of st room else s # index_of st room)
      else index_of st room')"
  by (auto simp: add_room_link_def index_of_def get_or_def Let_def)

lemma link_nonempty:
  "\<forall>r. by_room_id st r \<noteq> Some [] \<Longrightarrow> by_room_id (remove_room_link s room st) r \<noteq> Some []"
  "\<forall>r. by_room_id st r \<noteq> Some [] \<Longrightarrow> by_room_id (add_room_link s room st) r \<noteq> Some []"
  by (auto simp: remove_room_link_def add_room_link_def Let_def get_or_def split: option.splits)

lemma index_update [simp]:
  "index_of (st\<lparr>by_session_id := xs\<rparr>) = index_of st"
  "by_room_id (st\<lparr>by_session_id := xs\<rparr>) = by_room_id st"
  "by_session_id (st\<lparr>by_room_id := f\<rparr>) = by_session_id st"
  by (auto simp: index_of_def)

lemma lookup_update [simp]:
  "session_lookup (st\<lparr>by_session_id := AList.update s v xs\<rparr>) s' =
     (if s' = s then Some v else map_of xs s')"
  "session_lookup (st\<lparr>by_session_id := AList.delete s xs\<rparr>) s' =
     (if s' = s then None else map_of xs s')"
  "session_lookup (st\<lparr>by_room_id := f\<rparr>) = session_lookup st"
  by (auto simp: session_lookup_def fun_eq_iff)

lemma upsert_lookup: "session_lookup (upsert s x st) s' = (if s' = s then Some x else session_lookup st s')"
  by (auto simp: upsert_def Let_def session_lookup_def split: option.splits)

lemma remove_lookup: "session_lookup (session_remove s st) s' = (if s' = s then None else session_lookup st s')"
  by (auto simp: session_remove_def Let_def session_lookup_def split: option.splits)

lemma set_room_lookup:
  "session_lookup (set_room s room st) s' =
     (if s' = s then map_option (\<lambda>x. x\<lparr>room_id := room\<rparr>) (session_lookup st s) else session_lookup st s')"
  by (auto simp: set_room_def Let_def session_lookup_def split: option.splits)

text \<open>An index is rebuilt from the old room and the new room of one session.\<close>

lemma reindexed:
  assumes ok: "sessions_ok st" and keys: "distinct_keys (by_session_id st')"
    and index: "\<And>room. index_of st' room =
      (let base = (if session_room st s = Some room then remove1 s (index_of st room) else index_of st room)
       in if new = Some room \<and> s \<notin> set base then s # base else base)"
    and rooms: "\<And>t. session_room st' t = (if t = s then new else session_room st t)"
    and ne: "\<And>room. by_room_id st' room \<noteq> Some []"
  shows "sessions_ok st'"
proof -
  have d: "distinct (index_of st room)" for room using sessions_okD(3) [OF ok] .
  have m: "t \<in> set (index_of st room) \<longleftrightarrow> session_room st t = Some room" for t room
    using sessions_okD(4) [OF ok] .
  have "distinct (index_of st' room)" for room
    using d [of room] by (simp add: index Let_def)
  moreover have "t \<in> set (index_of st' room) \<longleftrightarrow> session_room st' t = Some room" for t room
    using d [of room] m by (auto simp: index rooms Let_def)
  ultimately show ?thesis using keys ne by (simp add: sessions_ok_def)
qed

lemma upsert_ok [simp]:
  assumes "sessions_ok st"
  shows "sessions_ok (upsert s x st)"
proof (rule reindexed [OF assms, where s = s and new = "room_id x"])
  note ne = sessions_okD(2) [OF assms]
  show "distinct_keys (by_session_id (upsert s x st))"
    using sessions_okD(1) [OF assms] by (auto simp: upsert_def Let_def split: option.splits)
  show "index_of (upsert s x st) room =
      (let base = (if session_room st s = Some room then remove1 s (index_of st room) else index_of st room)
       in if room_id x = Some room \<and> s \<notin> set base then s # base else base)" for room
    by (auto simp: upsert_def Let_def session_room_def split: option.splits)
  show "session_room (upsert s x st) t = (if t = s then room_id x else session_room st t)" for t
    by (simp add: session_room_def upsert_lookup)
  show "by_room_id (upsert s x st) room \<noteq> Some []" for room
    using ne by (auto simp: upsert_def Let_def link_nonempty split: option.splits)
qed

lemma remove_ok [simp]:
  assumes "sessions_ok st"
  shows "sessions_ok (session_remove s st)"
proof (rule reindexed [OF assms, where s = s and new = None])
  note ne = sessions_okD(2) [OF assms]
  show "distinct_keys (by_session_id (session_remove s st))"
    using sessions_okD(1) [OF assms] by (auto simp: session_remove_def Let_def split: option.splits)
  show "index_of (session_remove s st) room =
      (let base = (if session_room st s = Some room then remove1 s (index_of st room) else index_of st room)
       in if None = Some room \<and> s \<notin> set base then s # base else base)" for room
    by (auto simp: session_remove_def Let_def session_room_def split: option.splits)
  show "session_room (session_remove s st) t = (if t = s then None else session_room st t)" for t
    by (simp add: session_room_def remove_lookup)
  show "by_room_id (session_remove s st) room \<noteq> Some []" for room
    using ne by (auto simp: session_remove_def Let_def link_nonempty split: option.splits)
qed

lemma set_room_ok [simp]:
  assumes "sessions_ok st"
  shows "sessions_ok (set_room s room st)"
proof (cases "session_lookup st s")
  case None
  then show ?thesis using assms by (simp add: set_room_def)
next
  case (Some x)
  show ?thesis
  proof (rule reindexed [OF assms, where s = s and new = room])
    note ne = sessions_okD(2) [OF assms]
    show "distinct_keys (by_session_id (set_room s room st))"
      using sessions_okD(1) [OF assms] Some by (auto simp: set_room_def Let_def split: option.splits)
    show "index_of (set_room s room st) r =
        (let base = (if session_room st s = Some r then remove1 s (index_of st r) else index_of st r)
         in if room = Some r \<and> s \<notin> set base then s # base else base)" for r
      using Some by (auto simp: set_room_def Let_def session_room_def split: option.splits)
    show "session_room (set_room s room st) t = (if t = s then room else session_room st t)" for t
      using Some by (simp add: session_room_def set_room_lookup)
    show "by_room_id (set_room s room st) r \<noteq> Some []" for r
      using ne Some by (auto simp: set_room_def Let_def link_nonempty split: option.splits)
  qed
qed

lemma clear_each_index: "by_room_id (snd (clear_each ids st)) = by_room_id st"
  by (induction ids st rule: clear_each.induct) (auto split: option.splits prod.splits)

lemma clear_each_keys: "distinct_keys (by_session_id st) \<Longrightarrow> distinct_keys (by_session_id (snd (clear_each ids st)))"
  by (induction ids st rule: clear_each.induct) (auto split: option.splits prod.splits)

lemma clear_each_lookup:
  "session_lookup (snd (clear_each ids st)) t =
     (if t \<in> set ids then map_option (\<lambda>x. x\<lparr>room_id := None\<rparr>) (session_lookup st t) else session_lookup st t)"
  by (induction ids st rule: clear_each.induct)
     (auto simp: session_lookup_def split: option.splits prod.splits)

lemma clear_each_affected: "fst (clear_each ids st) = filter (\<lambda>s. session_lookup st s \<noteq> None) ids"
proof (induction ids st rule: clear_each.induct)
  case (2 s ids st)
  have "session_lookup (st\<lparr>by_session_id := AList.update s v (by_session_id st)\<rparr>) t \<noteq> None
      \<longleftrightarrow> t = s \<or> session_lookup st t \<noteq> None" for v t by (simp add: session_lookup_def)
  then show ?case using 2
    by (cases "session_lookup st s") (auto split: prod.splits intro!: filter_cong)
qed simp

lemma clear_room_ok [simp]:
  assumes "sessions_ok st"
  shows "sessions_ok (snd (clear_room room st))"
proof (cases "by_room_id st room")
  case None
  then show ?thesis using assms by (simp add: clear_room_def)
next
  case (Some ids)
  let ?st = "st\<lparr>by_room_id := (by_room_id st)(room := None)\<rparr>"
  have ids: "ids = index_of st room" using Some by (simp add: index_of_def)
  have run: "snd (clear_room room st) = snd (clear_each ids ?st)" using Some by (simp add: clear_room_def)
  have idx: "index_of (snd (clear_room room st)) r = (if r = room then [] else index_of st r)" for r
    by (simp add: run index_of_def clear_each_index get_or_def)
  have rm: "session_room (snd (clear_room room st)) t =
      (if session_room st t = Some room then None else session_room st t)" for t
    using sessions_okD(4) [OF assms, of t room]
    by (auto simp: run session_room_def clear_each_lookup ids split: option.splits)
  show ?thesis
    using assms clear_each_keys [of ?st ids]
    unfolding sessions_ok_def idx rm by (simp add: run clear_each_index)
qed

lemma clear_room_affected:
  assumes "sessions_ok st"
  shows "set (fst (clear_room room st)) = {s. session_room st s = Some room}"
proof -
  have "set (fst (clear_room room st)) = {s \<in> set (index_of st room). session_lookup st s \<noteq> None}"
    by (auto simp: clear_room_def clear_each_affected index_of_def get_or_def split: option.splits)
  then show ?thesis
    using sessions_okD(4) [OF assms] by (auto simp: session_room_def split: option.splits)
qed

lemma clear_room_rooms:
  assumes "sessions_ok st"
  shows "session_room (snd (clear_room room st)) t =
      (if session_room st t = Some room then None else session_room st t)"
proof (cases "by_room_id st room")
  case None
  then have "session_room st t \<noteq> Some room"
    using sessions_okD(4) [OF assms, of t room] by (simp add: index_of_def)
  then show ?thesis using None by (simp add: clear_room_def)
next
  case (Some ids)
  then have ids: "ids = index_of st room" by (simp add: index_of_def)
  show ?thesis
    using sessions_okD(4) [OF assms, of t room] Some
    by (auto simp: clear_room_def session_room_def clear_each_lookup ids split: option.splits)
qed

section \<open>Contract\<close>

text \<open>What a client of the registry relies on, whatever the two maps are.\<close>

locale room_index =
  fixes inv :: "'st \<Rightarrow> bool" and room_of :: "'st \<Rightarrow> 'k \<Rightarrow> 'r option" and index :: "'st \<Rightarrow> 'r \<Rightarrow> 'k list"
    and put :: "'k \<Rightarrow> 'r option \<Rightarrow> 'st \<Rightarrow> 'st" and erase :: "'k \<Rightarrow> 'st \<Rightarrow> 'st"
    and evict :: "'r \<Rightarrow> 'st \<Rightarrow> 'k list \<times> 'st"
  assumes index_iff: "inv st \<Longrightarrow> k \<in> set (index st r) \<longleftrightarrow> room_of st k = Some r"
    and put_inv: "inv st \<Longrightarrow> inv (put k ro st)"
    and erase_inv: "inv st \<Longrightarrow> inv (erase k st)"
    and evict_inv: "inv st \<Longrightarrow> inv (snd (evict r st))"
    and put_room: "inv st \<Longrightarrow> room_of (put k ro st) k' = Some r \<Longrightarrow> k' = k \<and> ro = Some r \<or> k' \<noteq> k \<and> room_of st k' = Some r"
    and erase_room: "inv st \<Longrightarrow> room_of (erase k st) k' = (if k' = k then None else room_of st k')"
    and evict_room: "inv st \<Longrightarrow> room_of (snd (evict r st)) k = (if room_of st k = Some r then None else room_of st k)"
    and evict_keys: "inv st \<Longrightarrow> set (fst (evict r st)) = {k. room_of st k = Some r}"
begin

lemma one_room: "inv st \<Longrightarrow> k \<in> set (index st r) \<Longrightarrow> k \<in> set (index st r') \<Longrightarrow> r = r'"
  by (simp add: index_iff)

lemma evicted: "inv st \<Longrightarrow> set (index (snd (evict r st)) r) = {}"
proof -
  assume i: "inv st"
  have "k \<notin> set (index (snd (evict r st)) r)" for k using i by (simp add: index_iff evict_inv evict_room)
  then show ?thesis by (metis all_not_in_conv)
qed

lemma evicted_other: "inv st \<Longrightarrow> r' \<noteq> r \<Longrightarrow> set (index (snd (evict r st)) r') = set (index st r')"
  by (auto simp: index_iff evict_inv evict_room split: if_splits)

lemma evicted_exactly: "inv st \<Longrightarrow> set (fst (evict r st)) = set (index st r)"
  by (auto simp: index_iff evict_keys)

lemma erased: "inv st \<Longrightarrow> k \<notin> set (index (erase k st) r)"
  by (simp add: index_iff erase_inv erase_room)

lemma moved: "inv st \<Longrightarrow> r \<noteq> r' \<Longrightarrow> k \<notin> set (index (put k (Some r) st) r')"
  using put_room [of st k "Some r" k r'] by (auto simp: index_iff put_inv)

end

interpretation sess: room_index sessions_ok session_room index_of set_room session_remove clear_room
proof
  fix st :: SessionStore and k k' :: string and ro :: "string option" and r :: string
  show "sessions_ok st \<Longrightarrow> session_room (set_room k ro st) k' = Some r \<Longrightarrow>
      k' = k \<and> ro = Some r \<or> k' \<noteq> k \<and> session_room st k' = Some r"
    by (auto simp: session_room_def set_room_lookup split: option.splits if_splits)
  show "sessions_ok st \<Longrightarrow> session_room (session_remove k st) k' = (if k' = k then None else session_room st k')"
    by (simp add: session_room_def remove_lookup)
qed (simp_all add: sessions_okD(4) clear_room_rooms clear_room_affected)

section \<open>Runs of the registry\<close>

text \<open>The registry is shared behind a lock, so its history is a sequence of operations.\<close>

datatype session_op = OpUpsert string SessionState | OpRemove string | OpSetRoom string "string option"
  | OpClearRoom string | OpClear

fun session_step :: "session_op \<Rightarrow> SessionStore \<Rightarrow> SessionStore" where
  "session_step (OpUpsert s x) st = upsert s x st"
| "session_step (OpRemove s) st = session_remove s st"
| "session_step (OpSetRoom s r) st = set_room s r st"
| "session_step (OpClearRoom r) st = snd (clear_room r st)"
| "session_step OpClear st = sessions_clear st"

lemma session_steps_ok: "sessions_ok st \<Longrightarrow> sessions_ok (fold session_step ops st)"
proof (induction ops arbitrary: st)
  case (Cons op ops)
  then have "sessions_ok (session_step op st)" by (cases op) simp_all
  then show ?case using Cons.IH by simp
qed simp

text \<open>
  Room index of the session registry. After any sequence of registry operations the index of a
  room lists exactly the sessions whose state names that room, so a session is in at most one
  room; clearing a room then returns exactly its sessions and leaves them in no room, and
  removing a session takes it out of the index.
\<close>

theorem session_index_consistent:
  fixes ops :: "session_op list"
  defines "st \<equiv> fold session_step ops empty_store"
  shows "(s \<in> set (index_of st room) \<longleftrightarrow> session_room st s = Some room)
    \<and> set (fst (clear_room room st)) = {t. session_room st t = Some room}
    \<and> set (index_of (snd (clear_room room st)) room) = {}
    \<and> (\<forall>other. other \<noteq> room \<longrightarrow> set (index_of (snd (clear_room room st)) other) = set (index_of st other))
    \<and> s \<notin> set (index_of (session_remove s st) room)"
proof -
  have ok: "sessions_ok st" unfolding st_def by (rule session_steps_ok) simp
  show ?thesis
    by (intro conjI allI impI sess.index_iff sess.evict_keys sess.evicted sess.evicted_other sess.erased ok)
qed

theorem session_index_consistent_witness:
  "set (fst (clear_room ''r'' (fold session_step
      [OpUpsert ''a'' \<lparr>nickname = ''n'', room_id = None\<rparr>, OpSetRoom ''a'' (Some ''r'')] empty_store)))
    = {t. session_room (fold session_step
      [OpUpsert ''a'' \<lparr>nickname = ''n'', room_id = None\<rparr>, OpSetRoom ''a'' (Some ''r'')] empty_store) t = Some ''r''}"
  using session_index_consistent [of "''a''" "[OpUpsert ''a'' \<lparr>nickname = ''n'', room_id = None\<rparr>, OpSetRoom ''a'' (Some ''r'')]" "''r''"]
  by blast

end
