(* ===== verification/Sfu_Client.thy ===== *)
theory Sfu_Client
  imports Session_Registry
begin

text \<open>
  The state of a signaling node (\<^verbatim>\<open>state.rs\<close>, \<open>node\<close>) and its SFU client
  (\<^verbatim>\<open>sfu.rs\<close>, the methods of \<^verbatim>\<open>Registry\<close>). gRPC (tonic) is a parameter of
  the environment: \<open>sfu_connect\<close> opens a channel, \<open>sfu_rpc\<close> makes one unary call over it, whose
  failure is a status or the time-out of the call. \<open>ws_send\<close> and \<open>ws_ping\<close> write a frame to the
  WebSocket of a connection within the write time-out and answer whether that succeeded,
  \<open>parse_client_message\<close> is serde_json at \<^verbatim>\<open>ClientMessage\<close>. A spawned task is recorded in \<open>spawned\<close>; its
  body is a definition of its own.
\<close>

section \<open>Environment of a signaling node\<close>

datatype SdpType = Unspecified | Offer | Answer

text \<open>The wire numbers of the protocol file.\<close>

definition sdp_type_number :: "SdpType \<Rightarrow> int" where
  "sdp_type_number t = (case t of Unspecified \<Rightarrow> 0 | Offer \<Rightarrow> 1 | Answer \<Rightarrow> 2)"

definition sdp_type_try_from :: "int \<Rightarrow> SdpType option" where
  "sdp_type_try_from n = (if n = 0 then Some Unspecified else if n = 1 then Some Offer
     else if n = 2 then Some Answer else None)"

datatype sfu_request =
    CreatePeer string string string
  | DeletePeer string string string
  | HandleSdp string string string int
  | AddIceCandidate string string string string

record sfu_response =
  success :: bool
  error_message :: "string option"
  resp_sdp :: string
  resp_type :: int

datatype grpc_code = Unavailable | Cancelled | DeadlineExceeded | OtherCode int

datatype rpc_error = RpcStatus grpc_code string | RpcTimeout

datatype SfuEventDetail =
    PeerConnected string
  | PeerDisconnected string
  | TrackAdded string
  | TrackRemoved string
  | IceCandidate string string
  | SfuError string bool string

record SfuEvent =
  ev_room_id :: string
  ev_participant_id :: string
  ev_detail :: "SfuEventDetail option"

type_synonym channel = nat

record 'w sig_env = "'w env" +
  uuid_ok :: "string \<Rightarrow> bool"
  jwt_decode :: "string \<Rightarrow> string \<Rightarrow> ('w, ConnectorClaims option) act"
  try_send :: "sender \<Rightarrow> ServerMessage \<Rightarrow> ('w, bool) act"
  parse_client_message :: "string \<Rightarrow> ClientMessage option"
  ws_send :: "ServerMessage \<Rightarrow> ('w, bool) act"
  ws_ping :: "('w, bool) act"
  sfu_connect :: "string \<Rightarrow> ('w, string, channel) prog"
  sfu_rpc :: "channel \<Rightarrow> sfu_request \<Rightarrow> ('w, rpc_error, sfu_response) prog"
  sfu_subscribe :: "channel \<Rightarrow> string \<Rightarrow> ('w, grpc_code \<times> string, unit) prog"
  sfu_next_event :: "channel \<Rightarrow> ('w, grpc_code \<times> string, SfuEvent option) prog"

section \<open>Node state\<close>

text \<open>\<open>sdp_peer_locks\<close> is the set of keys that have a mutex.\<close>

record Registry =
  signaling_id :: string
  reg_connect_timeout :: nat
  reg_rpc_timeout :: nat
  backoff_min :: nat
  backoff_max :: nat
  clients :: "string \<rightharpoonup> channel"
  listeners :: "string set"
  sdp_peer_locks :: "string set"
  last_offer_ice_ufrag :: "string \<rightharpoonup> string"

definition registry_new :: "string \<Rightarrow> nat \<Rightarrow> nat \<Rightarrow> nat \<Rightarrow> nat \<Rightarrow> Registry" where
  "registry_new sid conn rpc bmin bmax =
     \<lparr>signaling_id = sid, reg_connect_timeout = conn, reg_rpc_timeout = rpc, backoff_min = bmin,
      backoff_max = bmax, clients = Map.empty, listeners = {}, sdp_peer_locks = {},
      last_offer_ice_ufrag = Map.empty\<rparr>"

datatype DegradationReason = RedisDown

definition degradation_as_str :: "DegradationReason \<Rightarrow> string" where
  "degradation_as_str r = (case r of RedisDown \<Rightarrow> ''redis'')"

datatype task =
    EventListener string
  | LeaseRenewer nat string
  | PurgeTask DegradationReason
  | CloseRoomsTask string string

record 'w node =
  world :: 'w
  config :: Config
  sfu :: Registry
  peers :: PeerRegistry
  sessions :: SessionStore
  purging :: bool
  spawned :: "task list"

text \<open>\<^verbatim>\<open>State::new\<close> as \<^verbatim>\<open>main\<close> calls it.\<close>

definition state_new :: "'w \<Rightarrow> Config \<Rightarrow> 'w node" where
  "state_new w c =
     \<lparr>world = w, config = c,
      sfu = registry_new (public_node_id c) (rpc_connect_timeout c) (sfu_rpc_timeout c) (sfu_backoff_min c) (sfu_backoff_max c),
      peers = [], sessions = empty_store, purging = False, spawned = []\<rparr>"

definition on_world :: "('w, 'a) act \<Rightarrow> (('w, 'y) node_scheme, 'a) act" where
  "on_world m = (\<lambda>s. (fst (m (world s)), s\<lparr>world := snd (m (world s))\<rparr>))"

definition on_sfu :: "(Registry \<Rightarrow> Registry) \<Rightarrow> (('w, 'y) node_scheme, unit) act" where
  "on_sfu f = modM (\<lambda>s. s\<lparr>sfu := f (sfu s)\<rparr>)"

definition on_peers :: "(PeerRegistry \<Rightarrow> PeerRegistry) \<Rightarrow> (('w, 'y) node_scheme, unit) act" where
  "on_peers f = modM (\<lambda>s. s\<lparr>peers := f (peers s)\<rparr>)"

definition on_sessions :: "(SessionStore \<Rightarrow> SessionStore) \<Rightarrow> (('w, 'y) node_scheme, unit) act" where
  "on_sessions f = modM (\<lambda>s. s\<lparr>sessions := f (sessions s)\<rparr>)"

definition spawn :: "task \<Rightarrow> (('w, 'y) node_scheme, unit) act" where
  "spawn t = modM (\<lambda>s. s\<lparr>spawned := spawned s @ [t]\<rparr>)"

lemmas node_ops = on_world_def on_sfu_def on_peers_def on_sessions_def spawn_def

text \<open>Update under a lock with a result.\<close>

definition stateM :: "('s \<Rightarrow> 'a \<times> 's) \<Rightarrow> ('s, 'a) act" where
  "stateM f = f"

section \<open>Errors\<close>

datatype SfuClientError = Transport grpc_code string | Connect string | Timeout | Rejected string

definition ensure_success :: "bool \<Rightarrow> string option \<Rightarrow> string \<Rightarrow> SfuClientError + unit" where
  "ensure_success ok msg fallback =
     (if ok then Inr () else Inl (Rejected (case msg of None \<Rightarrow> fallback | Some m \<Rightarrow> m)))"

definition map_connect_error :: "SfuClientError \<Rightarrow> grpc_code \<times> string" where
  "map_connect_error err =
     (case err of
        Transport code msg \<Rightarrow> (code, msg)
      | Connect msg \<Rightarrow> (Unavailable, msg)
      | SfuClientError.Timeout \<Rightarrow> (DeadlineExceeded, ''sfu rpc timed out'')
      | Rejected msg \<Rightarrow> (OtherCode 9, msg))"

definition lift_result :: "'e + 'a \<Rightarrow> ('s, 'e, 'a) prog" where
  "lift_result r = (\<lambda>s. (r, s))"

section \<open>SDP helpers\<close>

definition parse_sdp_type :: "string \<Rightarrow> SdpType" where
  "parse_sdp_type value = (if value = ''offer'' then Offer else if value = ''answer'' then Answer else Unspecified)"

definition format_sdp_type :: "int \<Rightarrow> string" where
  "format_sdp_type value =
     (case (case sdp_type_try_from value of None \<Rightarrow> Unspecified | Some t \<Rightarrow> t) of
        Offer \<Rightarrow> ''offer'' | Answer \<Rightarrow> ''answer'' | Unspecified \<Rightarrow> ''answer'')"

definition trim_end_cr :: "string \<Rightarrow> string" where
  "trim_end_cr l = rev (dropWhile (\<lambda>c. c = CHR 0x0D) (rev l))"

definition first_word :: "string \<Rightarrow> string option" where
  "first_word s = (let w = takeWhile (\<lambda>c. \<not> is_whitespace c) (trim_start s) in if w = [] then None else Some w)"

fun first_ufrag_line :: "string list \<Rightarrow> string option" where
  "first_ufrag_line [] = None"
| "first_ufrag_line (l # ls) =
     (case strip_prefix ''a=ice-ufrag:'' (trim_end_cr l) of
        None \<Rightarrow> first_ufrag_line ls
      | Some rest \<Rightarrow>
          let ufrag = trim (case first_word rest of None \<Rightarrow> rest | Some w \<Rightarrow> w)
          in if ufrag \<noteq> [] then Some ufrag else first_ufrag_line ls)"

definition first_ice_ufrag :: "string \<Rightarrow> string option" where
  "first_ice_ufrag sdp = first_ufrag_line (str_lines sdp)"

section \<open>The client\<close>

definition sdp_peer_key :: "string \<Rightarrow> string \<Rightarrow> string" where
  "sdp_peer_key room nick = room @ [CHR 0x1F] @ nick"

definition sdp_peer_mutex :: "string \<Rightarrow> string \<Rightarrow> Registry \<Rightarrow> Registry" where
  "sdp_peer_mutex room nick reg = reg\<lparr>sdp_peer_locks := insert (sdp_peer_key room nick) (sdp_peer_locks reg)\<rparr>"

definition cleanup_peer_sdp_state :: "string \<Rightarrow> string \<Rightarrow> Registry \<Rightarrow> Registry" where
  "cleanup_peer_sdp_state room nick reg =
     reg\<lparr>sdp_peer_locks := sdp_peer_locks reg - {sdp_peer_key room nick},
         last_offer_ice_ufrag := (last_offer_ice_ufrag reg)(sdp_peer_key room nick := None)\<rparr>"

definition cleanup_local_peer_state :: "string \<Rightarrow> string \<Rightarrow> Registry \<Rightarrow> Registry" where
  "cleanup_local_peer_state room nick reg = cleanup_peer_sdp_state room nick reg"

definition invalidate_channel :: "string \<Rightarrow> Registry \<Rightarrow> Registry" where
  "invalidate_channel addr reg = reg\<lparr>clients := (clients reg)(addr := None)\<rparr>"

definition sfu_clear :: "Registry \<Rightarrow> Registry" where
  "sfu_clear reg = reg\<lparr>clients := Map.empty, listeners := {}, sdp_peer_locks := {},
     last_offer_ice_ufrag := Map.empty\<rparr>"

definition channel_for :: "('w, 'z) sig_env_scheme \<Rightarrow> string \<Rightarrow> (('w, 'y) node_scheme, SfuClientError, channel) prog" where
  "channel_for E addr =
     bindM (getM (\<lambda>s. clients (sfu s) addr)) (\<lambda>cached.
       case cached of
         Some ch \<Rightarrow> okM ch
       | None \<Rightarrow>
           tryM (map_errM Connect (on_world (sfu_connect E addr))) (\<lambda>ch.
           bindM (on_sfu (\<lambda>reg. reg\<lparr>clients := (clients reg)(addr \<mapsto> ch)\<rparr>)) (\<lambda>_. okM ch)))"

definition grpc_client :: "('w, 'z) sig_env_scheme \<Rightarrow> string \<Rightarrow> (('w, 'y) node_scheme, SfuClientError, channel) prog" where
  "grpc_client E addr = channel_for E addr"

definition run_rpc :: "('w, 'z) sig_env_scheme \<Rightarrow> string \<Rightarrow> sfu_request
    \<Rightarrow> (('w, 'y) node_scheme, SfuClientError, sfu_response) prog" where
  "run_rpc E addr req =
     tryM (grpc_client E addr) (\<lambda>ch.
     bindM (on_world (sfu_rpc E ch req)) (\<lambda>outcome.
       case outcome of
         Inr resp \<Rightarrow> okM resp
       | Inl (RpcStatus code msg) \<Rightarrow>
           bindM (if code \<in> {Unavailable, Cancelled, DeadlineExceeded}
                  then on_sfu (invalidate_channel addr) else retM ()) (\<lambda>_.
           failM (Transport code msg))
       | Inl RpcTimeout \<Rightarrow>
           bindM (on_sfu (invalidate_channel addr)) (\<lambda>_. failM SfuClientError.Timeout)))"

definition ensure_listener :: "string \<Rightarrow> (('w, 'y) node_scheme, SfuClientError, unit) prog" where
  "ensure_listener addr =
     bindM (getM (\<lambda>s. addr \<in> listeners (sfu s))) (\<lambda>known.
       if known then okM ()
       else bindM (on_sfu (\<lambda>reg. reg\<lparr>listeners := insert addr (listeners reg)\<rparr>)) (\<lambda>_.
            bindM (spawn (EventListener addr)) (\<lambda>_. okM ())))"

definition ensure_peer :: "('w, 'z) sig_env_scheme \<Rightarrow> string \<Rightarrow> string \<Rightarrow> string
    \<Rightarrow> (('w, 'y) node_scheme, SfuClientError, unit) prog" where
  "ensure_peer E addr room nick =
     tryM (ensure_listener addr) (\<lambda>_.
     bindM (getM (\<lambda>s. signaling_id (sfu s))) (\<lambda>sid.
     tryM (run_rpc E addr (CreatePeer room nick sid)) (\<lambda>resp.
     lift_result (ensure_success (success resp) (error_message resp) ''SFU failed to create peer''))))"

definition delete_peer :: "('w, 'z) sig_env_scheme \<Rightarrow> string \<Rightarrow> string \<Rightarrow> string \<Rightarrow> string
    \<Rightarrow> (('w, 'y) node_scheme, SfuClientError, unit) prog" where
  "delete_peer E addr room nick reason =
     bindM (tryM (run_rpc E addr (DeletePeer room nick reason)) (\<lambda>resp.
       lift_result (ensure_success (success resp) (error_message resp) ''SFU failed to delete peer''))) (\<lambda>result.
     bindM (on_sfu (cleanup_peer_sdp_state room nick)) (\<lambda>_. lift_result result))"

record RemoteSdp =
  remote_sdp :: string
  remote_sdp_type :: string

definition handle_sdp :: "('w, 'z) sig_env_scheme \<Rightarrow> string \<Rightarrow> string \<Rightarrow> string \<Rightarrow> string \<Rightarrow> string
    \<Rightarrow> (('w, 'y) node_scheme, SfuClientError, RemoteSdp) prog" where
  "handle_sdp E addr room nick sdp sdp_type =
     bindM (on_sfu (sdp_peer_mutex room nick)) (\<lambda>_.
     let new_ufrag = (if sdp_type = ''offer'' then first_ice_ufrag sdp else None) in
     tryM (run_rpc E addr (HandleSdp room nick sdp (sdp_type_number (parse_sdp_type sdp_type)))) (\<lambda>resp.
     tryM (lift_result (ensure_success (success resp) (error_message resp) ''SFU rejected SDP'')) (\<lambda>_.
     bindM (case new_ufrag of
              None \<Rightarrow> retM ()
            | Some u \<Rightarrow> on_sfu (\<lambda>reg. reg\<lparr>last_offer_ice_ufrag :=
                (last_offer_ice_ufrag reg)(sdp_peer_key room nick \<mapsto> u)\<rparr>)) (\<lambda>_.
     okM \<lparr>remote_sdp = resp_sdp resp, remote_sdp_type = format_sdp_type (resp_type resp)\<rparr>))))"

definition add_ice_candidate :: "('w, 'z) sig_env_scheme \<Rightarrow> string \<Rightarrow> string \<Rightarrow> string \<Rightarrow> string \<Rightarrow> string
    \<Rightarrow> (('w, 'y) node_scheme, SfuClientError, unit) prog" where
  "add_ice_candidate E addr room nick candidate sdp_mid =
     tryM (run_rpc E addr (AddIceCandidate room nick candidate sdp_mid)) (\<lambda>resp.
     lift_result (ensure_success (success resp) (error_message resp) ''SFU rejected ICE candidate''))"

section \<open>Facts\<close>

lemma sdp_peer_key_inj:
  "CHR 0x1F \<notin> set room \<Longrightarrow> CHR 0x1F \<notin> set room' \<Longrightarrow>
   sdp_peer_key room nick = sdp_peer_key room' nick' \<longleftrightarrow> room = room' \<and> nick = nick'"
  by (auto simp: sdp_peer_key_def append_eq_append_conv2 append_eq_Cons_conv Cons_eq_append_conv)

lemma sdp_type_roundtrip:
  "format_sdp_type (sdp_type_number (parse_sdp_type t)) = (if t = ''offer'' then ''offer'' else ''answer'')"
  by (simp add: format_sdp_type_def sdp_type_number_def parse_sdp_type_def sdp_type_try_from_def)

end
