(* ===== verification/Signaling_Memory.thy ===== *)
theory Signaling_Memory
  imports Sfu_Client
begin

text \<open>
  The world of a signaling node as its handlers rely on it (locale \<open>sig_world\<close>), and a
  concrete one: the in-memory server of \<^verbatim>\<open>Redis_Memory\<close>, an SFU that accepts every call until it is told
  to fail, outboxes for the channels and the socket, and a token codec. The witnesses of the signaling
  service run in it.
\<close>

section \<open>The contract\<close>

text \<open>Sockets, channels, tokens and SFU calls leave the keys of the store alone.\<close>

locale sig_world = store_world E view for E :: "('w, 'z) sig_env_scheme" and view +
  assumes try_send_view: "view (snd (try_send E tx m w)) = view w"
    and ws_send_view: "view (snd (ws_send E m w)) = view w"
    and jwt_view: "view (snd (jwt_decode E token secret w)) = view w"
    and connect_view: "view (snd (sfu_connect E addr w)) = view w"
    and rpc_view: "view (snd (sfu_rpc E ch req w)) = view w"

section \<open>A token codec\<close>

text \<open>A list of strings as one string: each character is marked, each string ends with a dot.\<close>

fun enc_strings :: "string list \<Rightarrow> string" where
  "enc_strings [] = []"
| "enc_strings ([] # xs) = CHR ''.'' # enc_strings xs"
| "enc_strings ((c # s) # xs) = CHR ''x'' # c # enc_strings (s # xs)"

fun dec_strings :: "string \<Rightarrow> string \<Rightarrow> string list option" where
  "dec_strings acc [] = (if acc = [] then Some [] else None)"
| "dec_strings acc [m] = (if m = CHR ''.'' then Some [rev acc] else None)"
| "dec_strings acc (m # c # s) =
     (if m = CHR ''.'' then map_option ((#) (rev acc)) (dec_strings [] (c # s))
      else if m = CHR ''x'' then dec_strings (c # acc) s
      else None)"

lemma dec_enc: "dec_strings acc (enc_strings (s # xs)) = Some ((rev acc @ s) # xs)"
proof (induction "s # xs" arbitrary: s xs acc rule: enc_strings.induct)
  case (2 xs)
  show ?case
  proof (cases xs)
    case (Cons y ys)
    then have "dec_strings [] (enc_strings (y # ys)) = Some (y # ys)" using 2 by simp
    then show ?thesis using Cons by (cases "enc_strings (y # ys)") (auto split: if_splits)
  qed simp
qed simp_all

lemma parse_u64_show: "parse_u64 (show_nat (unat p)) = Some p"
proof -
  have "unat p \<le> 2 ^ 64 - 1" using unsigned_less [of p, where ?'a = nat] by simp
  then show ?thesis by (simp add: parse_u64_def parse_unsigned_show_nat)
qed

definition mem_token :: "string \<Rightarrow> ConnectorClaims \<Rightarrow> string" where
  "mem_token secret c = enc_strings [secret, jti c, session_id c, claim_nickname c, signaling_instance_id c, intent c,
     (case claim_room_id c of None \<Rightarrow> [] | Some r \<Rightarrow> CHR ''='' # r), show_nat (unat (iat c)), show_nat (unat (exp_at c))]"

text \<open>Absent for another secret, a text that is no token, and a token that expired a minute ago.\<close>

definition mem_claims :: "string \<Rightarrow> string \<Rightarrow> ConnectorClaims option" where
  "mem_claims token secret =
     (case dec_strings [] token of
        Some [k, j, s, n, i, t, r, a, x] \<Rightarrow>
          (case (parse_u64 a, parse_u64 x) of
             (Some ia, Some ex) \<Rightarrow>
               if k = secret
               then Some \<lparr>jti = j, session_id = s, claim_nickname = n, signaling_instance_id = i, intent = t,
                 claim_room_id = (if r = [] then None else Some (tl r)), iat = ia, exp_at = ex\<rparr>
               else None
           | _ \<Rightarrow> None)
      | _ \<Rightarrow> None)"

lemma mem_claims_token: "mem_claims (mem_token secret c) secret' = (if secret' = secret then Some c else None)"
  by (cases c) (auto simp: mem_claims_def mem_token_def dec_enc parse_u64_show
      simp del: enc_strings.simps split: option.split)

definition mem_jwt_decode :: "string \<Rightarrow> string \<Rightarrow> ('x mem_scheme, ConnectorClaims option) act" where
  "mem_jwt_decode token secret = (\<lambda>w. (case mem_claims token secret of
      None \<Rightarrow> None | Some c \<Rightarrow> if int (unat (exp_at c)) + 60 < m_now w then None else Some c, w))"

section \<open>A concrete world\<close>

record sig_mem = mem +
  m_outbox :: "(sender \<times> ServerMessage) list"
  m_frames :: "ServerMessage list"
  m_sfu_down :: bool

definition mem_client_message :: "string \<Rightarrow> ClientMessage option" where
  "mem_client_message text =
     (case dec_strings [] text of
        Some [k, a] \<Rightarrow> if k = ''attach'' then Some (Attach a) else if k = ''create'' then Some (Create a) else None
      | Some [k, a, b] \<Rightarrow> if k = ''join'' then Some (Join a b) else None
      | _ \<Rightarrow> None)"

definition mem_rpc :: "channel \<Rightarrow> sfu_request \<Rightarrow> (sig_mem, rpc_error, sfu_response) prog" where
  "mem_rpc ch req = (\<lambda>w. (if m_sfu_down w then Inl RpcTimeout
     else Inr \<lparr>success = True, error_message = None, resp_sdp = ''sdp'', resp_type = 2\<rparr>, w))"

definition mem_sig_env :: "sig_mem sig_env" where
  "mem_sig_env = env.extend mem_env
     \<lparr>uuid_ok = (\<lambda>u. length u = 36), jwt_decode = mem_jwt_decode,
      try_send = (\<lambda>tx m w. (True, w\<lparr>m_outbox := m_outbox w @ [(tx, m)]\<rparr>)),
      parse_client_message = mem_client_message,
      ws_send = (\<lambda>m w. (True, w\<lparr>m_frames := m_frames w @ [m]\<rparr>)),
      ws_ping = (\<lambda>w. (True, w)),
      sfu_connect = (\<lambda>addr w. (Inr 0, w)),
      sfu_rpc = mem_rpc,
      sfu_subscribe = (\<lambda>ch sid w. (Inr (), w)),
      sfu_next_event = (\<lambda>ch w. (Inr None, w))\<rparr>"

lemma mem_sig_like: "mem_like mem_sig_env"
  by (simp add: mem_like_def mem_sig_env_def mem_env_def env.defs)

lemma mem_sig_sel [simp]:
  "redis mem_sig_env = mem_redis" "json mem_sig_env = mem_json" "unix_time mem_sig_env = mem_time"
  "new_uuid mem_sig_env = mem_new_uuid" "scan_budget mem_sig_env = 1" "jwt_decode mem_sig_env = mem_jwt_decode"
  "try_send mem_sig_env = (\<lambda>tx m w. (True, w\<lparr>m_outbox := m_outbox w @ [(tx, m)]\<rparr>))"
  "ws_send mem_sig_env = (\<lambda>m w. (True, w\<lparr>m_frames := m_frames w @ [m]\<rparr>))"
  "sfu_connect mem_sig_env = (\<lambda>addr w. (Inr 0, w))" "sfu_rpc mem_sig_env = mem_rpc"
  "sfu_subscribe mem_sig_env = (\<lambda>ch sid w. (Inr (), w))" "sfu_next_event mem_sig_env = (\<lambda>ch w. (Inr None, w))"
  "parse_client_message mem_sig_env = mem_client_message"
  by (simp_all add: mem_sig_env_def mem_env_def env.defs)

interpretation mem_sig: sig_world mem_sig_env mem_view
proof (intro sig_world.intro mem_like_store mem_sig_like)
  show "sig_world_axioms mem_sig_env mem_view"
    by unfold_locales (simp_all add: mem_view_def mem_jwt_decode_def mem_rpc_def)
qed

text \<open>A node with the keys of the small deployment, a session \<^verbatim>\<open>s1\<close> and its nickname.\<close>

definition sig_keys :: keyspace where
  "sig_keys = (session_key ''s1'', MHash [(''nickname'', ''ann''), (''room_id'', [])], Some 600000)
     # (nick_key ''ann'', MStr ''s1'', None) # demo_keys"

definition sig_demo_world :: sig_mem where
  "sig_demo_world = \<lparr>m_keys = sig_keys, m_now = 100, m_next_uuid = 0, m_outbox = [], m_frames = [], m_sfu_down = False\<rparr>"

definition demo_config :: Config where
  "demo_config = \<lparr>signaling_addr = ''0.0.0.0:8080'', signaling_public_host = ''h1'', signaling_public_port = 81,
     admin_grpc_addr = ''0.0.0.0:9090'', redis_url = ''redis://redis:6379/'', connector_token_secret = ''k'',
     redis_connect_timeout = 2000, rpc_connect_timeout = 2000, ws_read_timeout = 60000, ws_write_timeout = 5000,
     redis_op_timeout = 800, sfu_rpc_timeout = 3000, sfu_backoff_min = 200, sfu_backoff_max = 5000,
     peer_outbound_capacity = 64, session_lock_ttl = 10000, session_ttl = 600000, session_renew_interval = 60000\<rparr>"

definition demo_node :: "sig_mem node" where
  "demo_node = state_new sig_demo_world demo_config"

definition demo_claims :: ConnectorClaims where
  "demo_claims = \<lparr>jti = ''t'', session_id = ''s1'', claim_nickname = ''ann'', signaling_instance_id = ''h1:81'',
     intent = ''create'', claim_room_id = None, iat = 100, exp_at = 220\<rparr>"

end
