(* ===== verification/Connector_Operations.thy ===== *)
theory Connector_Operations
  imports Connector Signaling_Memory
begin

text \<open>
  The connector on a server that answers: an evaluation lemma per Redis operation and handler (locale
  \<open>conn_world\<close>), the decision a create request takes as a specification over the store, and the
  properties of the HTTP handlers. The witnesses run in the in-memory world with the token codec of
  \<open>Signaling_Memory\<close>.
\<close>

section \<open>Redis operations\<close>

text \<open>What a session and a lease look like in the store.\<close>

definition session_nick :: "store \<Rightarrow> string \<Rightarrow> string option" where
  "session_nick st sid = nonempty (hash_of st (session_key sid) ''nickname'')"

definition expired :: "string \<Rightarrow> nat \<Rightarrow> store \<Rightarrow> store" where
  "expired k ttl st = cmd_effect (Expire k (wrap_i64 (int (ttl div 1000)))) st"

lemma expired_other [simp]: "k' \<noteq> k \<Longrightarrow> expired k ttl st k' = st k'"
  by (simp add: expired_def split: option.split)

lemma expired_kept:
  assumes "1000 \<le> ttl" "ttl div 1000 < 2 ^ 63"
  shows "expired k ttl st k = map_option (\<lambda>(v, _). (v, Some (1000 * (ttl div 1000)))) (st k)"
proof -
  have "wrap_i64 (int (ttl div 1000)) = int (ttl div 1000)"
    by (rule wrap_i64_id) (use assms(2) of_nat_less_numeral_power_cancel_iff [of "ttl div 1000" "num.Bit0 num.One" 63, where 'a = int]
        in \<open>simp_all add: order_trans [of _ "0 :: int"]\<close>)
  moreover have "0 < ttl div 1000" using assms(1) by (simp add: div_greater_zero_iff)
  ultimately show ?thesis by (cases "st k") (auto simp: expired_def)
qed

context store_world
begin

lemmas conn_eval = conn_with_op_timeout_def ccall_def conn_fail_def conn_error_of_def prog_simps redis_eval

lemma reserve_nickname_eval:
  "fst (reserve_nickname E nick s w) = (if view w (nick_key nick) = None then Inr () else Inl RedisError.NicknameTaken)"
  "view (snd (reserve_nickname E nick s w)) =
     (if view w (nick_key nick) = None then (view w)(nick_key nick \<mapsto> (StrVal s, None)) else view w)"
  by (simp_all add: reserve_nickname_def conn_eval ttl_ms_def)

lemma nick_owner_get_eval:
  assumes "is_str (view w) (nick_key nick)"
  shows "fst (nick_owner_get E nick w) = Inr (str_of (view w) (nick_key nick))"
    "view (snd (nick_owner_get E nick w)) = view w"
  using assms by (simp_all add: nick_owner_get_def conn_eval)

lemma conn_release_eval:
  assumes "is_str (view w) (nick_key nick)"
  shows "fst (conn_release_nick_lease E nick s w) = Inr ()"
    "view (snd (conn_release_nick_lease E nick s w)) =
       (if str_of (view w) (nick_key nick) = Some s then (view w)(nick_key nick := None) else view w)"
  using assms by (simp_all add: conn_release_nick_lease_def conn_eval COMPARE_AND_DEL_LUA_def)

lemma session_create_eval:
  assumes "is_hash (view w) (session_key s)"
  shows "fst (session_create E s nick ttl w) = Inr ()"
    "view (snd (session_create E s nick ttl w)) = expired (session_key s) ttl
       (put_hash (session_key s) ((hash_of (view w) (session_key s))(''nickname'' \<mapsto> nick, ''room_id'' \<mapsto> [])) (view w))"
  using assms by (simp_all add: session_create_def conn_eval expired_def del: cmd_effect.simps)

lemma conn_session_delete_eval:
  "fst (conn_session_delete E s w) = Inr ()"
  "view (snd (conn_session_delete E s w)) = (view w)(session_key s := None)"
  by (simp_all add: conn_session_delete_def conn_eval)

lemma conn_session_get_eval:
  assumes "is_hash (view w) (session_key s)"
  shows "fst (conn_session_get E s w) = Inr (map_option (\<lambda>n. \<lparr>sd_nickname = n\<rparr>) (session_nick (view w) s))"
    "view (snd (conn_session_get E s w)) = view w"
  using assms by (simp_all add: conn_session_get_def conn_eval session_nick_def)

lemma session_refresh_eval:
  "fst (session_refresh_ttl E s ttl w) = Inr (view w (session_key s) \<noteq> None)"
  "view (snd (session_refresh_ttl E s ttl w)) = expired (session_key s) ttl (view w)"
  by (simp_all add: session_refresh_ttl_def conn_eval expired_def del: cmd_effect.simps)

lemma load_loads_eval:
  assumes "is_zset (view w) SIGNALING_INSTANCE_LOAD_KEY"
  shows "fst (load_signaling_loads E w) = Inr (zset_of (view w) SIGNALING_INSTANCE_LOAD_KEY)"
    "view (snd (load_signaling_loads E w)) = view w"
proof -
  obtain xs where "fst (call E (ZrangeWithscores SIGNALING_INSTANCE_LOAD_KEY) as_scores w) = Inr xs" "distinct_keys xs"
    "map_of xs = zset_of (view w) SIGNALING_INSTANCE_LOAD_KEY"
    "view (snd (call E (ZrangeWithscores SIGNALING_INSTANCE_LOAD_KEY) as_scores w)) = view w"
    using call_zrange_withscores [OF assms] .
  then show "fst (load_signaling_loads E w) = Inr (zset_of (view w) SIGNALING_INSTANCE_LOAD_KEY)"
    "view (snd (load_signaling_loads E w)) = view w"
    by (simp_all add: load_signaling_loads_def conn_eval collect_map_distinct)
qed

end

text \<open>The configured nodes whose heartbeat is no older than the threshold at the time \<open>now\<close>.\<close>

definition live_signaling :: "store \<Rightarrow> ConnectorConfig \<Rightarrow> int \<Rightarrow> SignalingInstance list" where
  "live_signaling st cfg now =
     filter (\<lambda>inst. case zset_of st SIGNALING_NODES_KEY (sig_id inst) of None \<Rightarrow> False
         | Some x \<Rightarrow> of_int (sub_i64 now (wrap_i64 (int (signaling_stale_timeout cfg div 1000)))) \<le> x)
       (signaling_instances cfg)"

definition signaling_load :: "store \<Rightarrow> SignalingInstance \<Rightarrow> real" where
  "signaling_load st inst = get_or 0 (zset_of st SIGNALING_INSTANCE_LOAD_KEY) (sig_id inst)"

definition supervisor_fresh :: "store \<Rightarrow> ConnectorConfig \<Rightarrow> int \<Rightarrow> bool" where
  "supervisor_fresh st cfg now \<longleftrightarrow> (let h = hash_of st SUPERVISOR_HEARTBEAT_KEY in
     h \<noteq> Map.empty \<and> sub_i64 now (last_seen_unix (supervisor_status_of h)) \<le> cast_i64 (supervisor_stale_sec cfg))"

text \<open>What a create request is answered: the first refusal that applies, or the nickname of the session and the
  chosen node.\<close>

definition create_decision :: "store \<Rightarrow> ConnectorConfig \<Rightarrow> bool \<Rightarrow> int \<Rightarrow> int \<Rightarrow> string
    \<Rightarrow> HandlerError + string \<times> SignalingInstance" where
  "create_decision st cfg well_formed t1 t2 sid =
     (if \<not> well_formed then Inl (HandlerError.InvalidPayload ''Invalid create request'')
      else if \<not> supervisor_fresh st cfg t1 then Inl SupervisorUnavailable
      else (case session_nick st sid of None \<Rightarrow> Inl HandlerError.Unauthorized
        | Some nick \<Rightarrow> (case min_by (signaling_load st) (live_signaling st cfg t2) of
             None \<Rightarrow> Inl SignalingUnavailable | Some inst \<Rightarrow> Inr (nick, inst))))"

locale conn_world = store_world E view for E :: "('w, 'z) conn_env_scheme" and view
begin

lemma conn_alive_eval:
  assumes "is_zset (view w) SIGNALING_NODES_KEY"
  obtains xs where "fst (conn_alive_signaling_nodes E stale w) = Inr xs"
    "set xs = {m. \<exists>x. zset_of (view w) SIGNALING_NODES_KEY m = Some x
      \<and> of_int (sub_i64 (fst (unix_time E w)) (wrap_i64 (int (stale div 1000)))) \<le> x}"
    "view (snd (conn_alive_signaling_nodes E stale w)) = view w"
proof -
  let ?lo = "of_int (sub_i64 (fst (unix_time E w)) (wrap_i64 (int (stale div 1000)))) :: real" and ?w = "snd (unix_time E w)"
  have z: "is_zset (view ?w) SIGNALING_NODES_KEY" using assms by (simp add: clock_view)
  obtain xs where xs: "fst (call E (Zrangebyscore SIGNALING_NODES_KEY ?lo) as_list ?w) = Inr xs"
    "set xs = {m. \<exists>x. zset_of (view ?w) SIGNALING_NODES_KEY m = Some x \<and> ?lo \<le> x}"
    "view (snd (call E (Zrangebyscore SIGNALING_NODES_KEY ?lo) as_list ?w)) = view ?w"
    by (rule call_zrangebyscore [OF z, of ?lo])
  note v = clock_view [of w]
  show ?thesis
  proof (rule that)
    show "fst (conn_alive_signaling_nodes E stale w) = Inr xs" "view (snd (conn_alive_signaling_nodes E stale w)) = view w"
      using xs(1,3) by (simp_all add: conn_alive_signaling_nodes_def conn_with_op_timeout_def ccall_def prog_simps Let_def v)
  qed (use xs(2) in \<open>simp only: v\<close>)
qed

lemma select_signaling_eval:
  assumes "is_zset (view w) SIGNALING_NODES_KEY" "is_zset (view w) SIGNALING_INSTANCE_LOAD_KEY"
    and "t = fst (unix_time E (snd (load_signaling_loads E w)))"
  shows "fst (select_least_loaded_signaling E cfg w) =
      (case min_by (signaling_load (view w)) (live_signaling (view w) cfg t) of
         None \<Rightarrow> Inl SignalingUnavailable | Some inst \<Rightarrow> Inr inst)"
    "view (snd (select_least_loaded_signaling E cfg w)) = view w"
proof -
  let ?w = "snd (load_signaling_loads E w)"
  have v: "view ?w = view w" by (rule load_loads_eval [OF assms(2)])
  have "is_zset (view ?w) SIGNALING_NODES_KEY" using assms(1) v by simp
  then obtain xs where xs: "fst (conn_alive_signaling_nodes E (signaling_stale_timeout cfg) ?w) = Inr xs"
    "set xs = {m. \<exists>x. zset_of (view ?w) SIGNALING_NODES_KEY m = Some x
      \<and> of_int (sub_i64 (fst (unix_time E ?w)) (wrap_i64 (int (signaling_stale_timeout cfg div 1000)))) \<le> x}"
    "view (snd (conn_alive_signaling_nodes E (signaling_stale_timeout cfg) ?w)) = view ?w"
    by (rule conn_alive_eval)
  have "filter (\<lambda>inst. sig_id inst \<in> set xs) (signaling_instances cfg) = live_signaling (view w) cfg t"
    unfolding live_signaling_def by (rule filter_cong) (auto simp: xs(2) v assms(3) split: option.split)
  then show "fst (select_least_loaded_signaling E cfg w) =
      (case min_by (signaling_load (view w)) (live_signaling (view w) cfg t) of
         None \<Rightarrow> Inl SignalingUnavailable | Some inst \<Rightarrow> Inr inst)"
    "view (snd (select_least_loaded_signaling E cfg w)) = view w"
    by (simp_all add: select_least_loaded_signaling_def connM_def prog_simps load_loads_eval [OF assms(2)] xs(1,3)
        signaling_load_def [abs_def] v split: option.split)
qed

lemma freshness_eval:
  assumes "is_hash (view w) SUPERVISOR_HEARTBEAT_KEY" "t = fst (unix_time E (snd (get_supervisor_status E w)))"
  shows "fst (check_supervisor_freshness E cfg w) =
      (if supervisor_fresh (view w) cfg t then Inr () else Inl SupervisorUnavailable)"
    "view (snd (check_supervisor_freshness E cfg w)) = view w"
  using read_status_eval [OF assms(1)] assms(2)
  by (auto simp: check_supervisor_freshness_def connM_def get_supervisor_status_def prog_simps clock_view
      supervisor_fresh_def Let_def)

text \<open>A token carries what the connector knows, under a fresh identifier.\<close>

lemma issue_eval:
  obtains claims where "i_session_id claims = sid" "i_nickname claims = nick" "i_signaling_instance_id claims = inst_id"
    "i_intent claims = intent_text" "i_room_id claims = room" "i_exp claims = i_iat claims + of_nat (token_ttl cfg div 1000)"
    "i_iat claims = word_of_int (fst (unix_time E w))" "i_jti claims = fst (new_uuid E (snd (unix_time E w)))"
    "fst (issue_signaling_token E cfg sid nick inst_id intent_text room w) =
       (case jwt_encode E claims (token_secret cfg) of None \<Rightarrow> Inl Token | Some tok \<Rightarrow> Inr tok)"
    "view (snd (issue_signaling_token E cfg sid nick inst_id intent_text room w)) = view w"
proof (rule that)
  let ?c = "\<lparr>i_jti = fst (new_uuid E (snd (unix_time E w))), i_session_id = sid, i_nickname = nick,
    i_signaling_instance_id = inst_id, i_intent = intent_text, i_room_id = room,
    i_iat = word_of_int (fst (unix_time E w)), i_exp = word_of_int (fst (unix_time E w)) + of_nat (token_ttl cfg div 1000)\<rparr>"
  show "fst (issue_signaling_token E cfg sid nick inst_id intent_text room w) =
      (case jwt_encode E ?c (token_secret cfg) of None \<Rightarrow> Inl Token | Some tok \<Rightarrow> Inr tok)"
    "view (snd (issue_signaling_token E cfg sid nick inst_id intent_text room w)) = view w"
    by (simp_all add: issue_signaling_token_def issue_token_def prog_simps clock_view uuid_view Let_def split: option.split)
qed simp_all

end

section \<open>Handlers\<close>

context conn_world
begin

lemma auth_eval:
  assumes "sid = fst (new_uuid E w)" "view w (session_key sid) = None" "nick = trim requested"
    and "1000 \<le> conn_session_ttl cfg" "conn_session_ttl cfg div 1000 < 2 ^ 63"
  shows "fst (auth E cfg requested w) =
      (case validate_auth requested of Inl _ \<Rightarrow> Inl (HandlerError.InvalidPayload ''Invalid auth request'')
       | Inr _ \<Rightarrow> if view w (nick_key nick) \<noteq> None then Inl HandlerError.NicknameTaken
           else Inr \<lparr>auth_nickname = nick, auth_session_id = sid\<rparr>)"
    "view (snd (auth E cfg requested w)) =
      (if validate_auth requested = Inr () \<and> view w (nick_key nick) = None
       then (view w)(nick_key nick \<mapsto> (StrVal sid, None),
         session_key sid \<mapsto> (HashVal [''nickname'' \<mapsto> nick, ''room_id'' \<mapsto> []], Some (1000 * (conn_session_ttl cfg div 1000))))
       else view w)"
proof -
  define w1 where "w1 = snd (new_uuid E w)"
  define w2 where "w2 = snd (reserve_nickname E nick sid w1)"
  have v1: "view w1 = view w" by (simp add: w1_def uuid_view)
  have v2: "view w2 = (if view w (nick_key nick) = None then (view w)(nick_key nick \<mapsto> (StrVal sid, None)) else view w)"
    by (simp add: w2_def reserve_nickname_eval v1)
  have n2: "view w2 (session_key sid) = None" using assms(2) by (simp add: v2)
  then have h2: "is_hash (view w2) (session_key sid)" "hash_of (view w2) (session_key sid) = Map.empty"
    by (simp_all add: is_hash_def hash_of_def)
  have v3: "view (snd (session_create E sid nick (conn_session_ttl cfg) w2)) = (view w2)(session_key sid \<mapsto>
      (HashVal [''nickname'' \<mapsto> nick, ''room_id'' \<mapsto> []], Some (1000 * (conn_session_ttl cfg div 1000))))"
  proof
    fix k
    show "view (snd (session_create E sid nick (conn_session_ttl cfg) w2)) k = ((view w2)(session_key sid \<mapsto>
        (HashVal [''nickname'' \<mapsto> nick, ''room_id'' \<mapsto> []], Some (1000 * (conn_session_ttl cfg div 1000))))) k"
      using n2 by (cases "k = session_key sid")
        (simp_all add: session_create_eval [OF h2(1)] h2(2) expired_kept [OF assms(4,5)], simp add: put_hash_def)
  qed
  show "fst (auth E cfg requested w) =
      (case validate_auth requested of Inl _ \<Rightarrow> Inl (HandlerError.InvalidPayload ''Invalid auth request'')
       | Inr _ \<Rightarrow> if view w (nick_key nick) \<noteq> None then Inl HandlerError.NicknameTaken
           else Inr \<lparr>auth_nickname = nick, auth_session_id = sid\<rparr>)"
    by (simp add: auth_def validated_def connM_def prog_simps assms(1) [symmetric] assms(3) [symmetric] w1_def [symmetric]
        w2_def [symmetric] reserve_nickname_eval v1 session_create_eval [OF h2(1)] conn_map_redis_error_def
        split: sum.split)
  show "view (snd (auth E cfg requested w)) =
      (if validate_auth requested = Inr () \<and> view w (nick_key nick) = None
       then (view w)(nick_key nick \<mapsto> (StrVal sid, None),
         session_key sid \<mapsto> (HashVal [''nickname'' \<mapsto> nick, ''room_id'' \<mapsto> []], Some (1000 * (conn_session_ttl cfg div 1000))))
       else view w)"
    by (simp add: auth_def validated_def connM_def prog_simps assms(1) [symmetric] assms(3) [symmetric] w1_def [symmetric]
        w2_def [symmetric] reserve_nickname_eval v1 v2 v3 session_create_eval(1) [OF h2(1)] split: sum.split)
qed

lemma logout_eval:
  assumes "is_hash (view w) (session_key sid)" "\<forall>n. is_str (view w) (nick_key n)" "conn_uuid_ok E sid"
  shows "fst (logout E sid w) = Inr 204"
    "view (snd (logout E sid w)) = (case session_nick (view w) sid of None \<Rightarrow> view w
       | Some nick \<Rightarrow> (if str_of (view w) (nick_key nick) = Some sid
           then (view w)(session_key sid := None, nick_key nick := None) else (view w)(session_key sid := None)))"
  using assms
  by (simp_all add: logout_def validated_def validate_logout_def conn_validate_session_id_def connM_def prog_simps
      conn_session_get_eval conn_session_delete_eval conn_release_eval split: option.split)

lemma renew_eval:
  assumes "is_hash (view w) (session_key sid)" "\<forall>n. is_str (view w) (nick_key n)" "conn_uuid_ok E sid"
  shows "(fst (session_renew E cfg sid w), view (snd (session_renew E cfg sid w))) =
      (case session_nick (view w) sid of None \<Rightarrow> (Inl HandlerError.Unauthorized, view w)
       | Some nick \<Rightarrow> (if str_of (view w) (nick_key nick) = Some sid
           then (Inr 204, expired (session_key sid) (conn_session_ttl cfg) (view w))
           else (Inl HandlerError.Unauthorized, view w)))"
proof -
  have "session_nick (view w) sid \<noteq> None \<Longrightarrow> view w (session_key sid) \<noteq> None"
    by (cases "view w (session_key sid)") (simp_all add: session_nick_def hash_of_def)
  then show ?thesis
    using assms
    by (auto simp: session_renew_def validated_def validate_renew_def conn_validate_session_id_def connM_def prog_simps
        conn_session_get_eval nick_owner_get_eval session_refresh_eval split: option.split)
qed

lemma create_eval:
  assumes "is_hash (view w) SUPERVISOR_HEARTBEAT_KEY" "is_hash (view w) (session_key sid)"
    and "is_zset (view w) SIGNALING_NODES_KEY" "is_zset (view w) SIGNALING_INSTANCE_LOAD_KEY"
    and "t1 = fst (unix_time E (snd (get_supervisor_status E w)))"
    and "w1 = snd (conn_session_get E sid (snd (check_supervisor_freshness E cfg w)))"
    and "t2 = fst (unix_time E (snd (load_signaling_loads E w1)))" "w2 = snd (select_least_loaded_signaling E cfg w1)"
  shows "fst (create E cfg sid w) = (case create_decision (view w) cfg (conn_uuid_ok E sid) t1 t2 sid of
      Inl e \<Rightarrow> Inl e
    | Inr (nick, inst) \<Rightarrow> map_sum id (\<lambda>tok. \<lparr>signaling_url = ws_url inst, ready_session_id = sid, ready_token = tok\<rparr>)
        (fst (issue_signaling_token E cfg sid nick (sig_id inst) ''create'' None w2)))"
    "view w2 = view w" "view (snd (create E cfg sid w)) = view w"
proof -
  define w0 where "w0 = snd (check_supervisor_freshness E cfg w)"
  note fresh = freshness_eval [OF assms(1,5)]
  have v0: "view w0 = view w" by (simp add: w0_def fresh)
  have h0: "is_hash (view w0) (session_key sid)" using assms(2) by (simp add: v0)
  note got = conn_session_get_eval [OF h0]
  have v1: "view w1 = view w" by (simp add: assms(6) w0_def [symmetric] got v0)
  have z1: "is_zset (view w1) SIGNALING_NODES_KEY" "is_zset (view w1) SIGNALING_INSTANCE_LOAD_KEY"
    using assms(3,4) by (simp_all add: v1)
  note sel = select_signaling_eval [OF z1 assms(7)]
  show v2: "view w2 = view w" by (simp add: assms(8) sel v1)
  have issued: "view (snd (issue_signaling_token E cfg s n i t r w')) = view w'" for s n i t r w'
    by (rule issue_eval)
  note run = create_def validated_def validate_create_def conn_validate_session_id_def connM_def prog_simps fresh(1)
    w0_def [symmetric] got(1) assms(6) [symmetric, folded w0_def] sel(1) assms(8) [symmetric] v1
  show "fst (create E cfg sid w) = (case create_decision (view w) cfg (conn_uuid_ok E sid) t1 t2 sid of
      Inl e \<Rightarrow> Inl e
    | Inr (nick, inst) \<Rightarrow> map_sum id (\<lambda>tok. \<lparr>signaling_url = ws_url inst, ready_session_id = sid, ready_token = tok\<rparr>)
        (fst (issue_signaling_token E cfg sid nick (sig_id inst) ''create'' None w2)))"
    by (auto simp: run create_decision_def v0 split: option.split sum.split)
  show "view (snd (create E cfg sid w)) = view w"
    by (auto simp: run issued v0 v2 split: option.split sum.split)
qed

end

text \<open>What a join request is answered: the first refusal that applies, or the nickname of the session and the node
  the room is bound to.\<close>

definition join_decision :: "store \<Rightarrow> ConnectorConfig \<Rightarrow> bool \<Rightarrow> string \<Rightarrow> string
    \<Rightarrow> HandlerError + string \<times> SignalingInstance" where
  "join_decision st cfg well_formed sid room =
     (let h = hash_of st (room_binding_key room) in
      if \<not> well_formed then Inl (HandlerError.InvalidPayload ''Invalid join request'')
      else (case session_nick st sid of None \<Rightarrow> Inl HandlerError.Unauthorized
        | Some nick \<Rightarrow>
            if h = Map.empty then Inl HandlerError.RoomNotFound
            else (case (nonempty (h ''owner_host''), nonempty (h ''owner_port'')) of
               (Some host, Some port) \<Rightarrow> (case signaling_by_id cfg (host @ '':'' @ port) of
                  None \<Rightarrow> Inl HandlerError.UnknownSignalingRoute | Some inst \<Rightarrow> Inr (nick, inst))
             | _ \<Rightarrow> Inl HandlerError.Redis)))"

context conn_world
begin

lemma conn_route_eval:
  assumes "is_hash (view w) (room_binding_key room)"
  shows "fst (conn_get_room_route E room w) = (let h = hash_of (view w) (room_binding_key room) in
      if h = Map.empty then Inl RedisError.RoomNotFound
      else (case (nonempty (h ''owner_host''), nonempty (h ''owner_port'')) of
          (Some host, Some port) \<Rightarrow> Inr \<lparr>route_instance_id = host @ '':'' @ port\<rparr> | _ \<Rightarrow> Inl InvalidRoomRoute))"
    "view (snd (conn_get_room_route E room w)) = view w"
proof -
  obtain xs where xs: "fst (call E (Hgetall (room_binding_key room)) as_hash w) = Inr xs" "distinct_keys xs"
    "map_of xs = hash_of (view w) (room_binding_key room)"
    "view (snd (call E (Hgetall (room_binding_key room)) as_hash w)) = view w"
    using call_hgetall [OF assms] .
  have e: "xs = [] \<longleftrightarrow> hash_of (view w) (room_binding_key room) = Map.empty" by (simp flip: xs(3))
  show "fst (conn_get_room_route E room w) = (let h = hash_of (view w) (room_binding_key room) in
      if h = Map.empty then Inl RedisError.RoomNotFound
      else (case (nonempty (h ''owner_host''), nonempty (h ''owner_port'')) of
          (Some host, Some port) \<Rightarrow> Inr \<lparr>route_instance_id = host @ '':'' @ port\<rparr> | _ \<Rightarrow> Inl InvalidRoomRoute))"
    "view (snd (conn_get_room_route E room w)) = view w"
    by (simp_all add: conn_get_room_route_def conn_with_op_timeout_def ccall_def conn_fail_def conn_error_of_def prog_simps
        xs(1,4) collect_map_distinct [OF xs(2)] xs(3) e Let_def split: option.split)
qed

lemma join_eval:
  assumes "is_hash (view w) (session_key sid)" "is_hash (view w) (room_binding_key room)"
    and "w1 = snd (conn_get_room_route E room (snd (conn_session_get E sid w)))"
  shows "fst (join E cfg sid room w) =
      (case join_decision (view w) cfg (conn_uuid_ok E sid \<and> conn_uuid_ok E room) sid room of
        Inl e \<Rightarrow> Inl e
      | Inr (nick, inst) \<Rightarrow> map_sum id (\<lambda>tok. \<lparr>signaling_url = ws_url inst, ready_session_id = sid, ready_token = tok\<rparr>)
          (fst (issue_signaling_token E cfg sid nick (sig_id inst) ''join'' (Some room) w1)))"
    "view w1 = view w" "view (snd (join E cfg sid room w)) = view w"
proof -
  define w0 where "w0 = snd (conn_session_get E sid w)"
  note got = conn_session_get_eval [OF assms(1)]
  have v0: "view w0 = view w" by (simp add: w0_def got)
  have h0: "is_hash (view w0) (room_binding_key room)" using assms(2) by (simp add: v0)
  note route = conn_route_eval [OF h0]
  show v1: "view w1 = view w" by (simp add: assms(3) w0_def [symmetric] route v0)
  have issued: "view (snd (issue_signaling_token E cfg s n i t r w')) = view w'" for s n i t r w'
    by (rule issue_eval)
  note run = join_def validated_def validate_join_def and_then_def conn_validate_session_id_def conn_validate_room_id_def connM_def
    prog_simps got(1) w0_def [symmetric] route(1) assms(3) [symmetric, folded w0_def]
  show "fst (join E cfg sid room w) =
      (case join_decision (view w) cfg (conn_uuid_ok E sid \<and> conn_uuid_ok E room) sid room of
        Inl e \<Rightarrow> Inl e
      | Inr (nick, inst) \<Rightarrow> map_sum id (\<lambda>tok. \<lparr>signaling_url = ws_url inst, ready_session_id = sid, ready_token = tok\<rparr>)
          (fst (issue_signaling_token E cfg sid nick (sig_id inst) ''join'' (Some room) w1)))"
    by (auto simp: run join_decision_def v0 Let_def conn_map_redis_error_def split: option.split sum.split)
  show "view (snd (join E cfg sid room w)) = view w"
    by (auto simp: run issued v0 v1 Let_def split: option.split sum.split)
qed

end

section \<open>Properties\<close>

text \<open>
  C20. Signing in. A request with an invalid nickname is refused and leaves the store alone, and so is one for a
  nickname that is leased, whoever holds it. Any other request leases the trimmed nickname to a fresh
  session that is in no room and lives for the configured time, and changes nothing else; signing out
  of that session again restores the store exactly.
\<close>

theorem auth_reserves:
  assumes "conn_world E view" "sid = fst (new_uuid E w)" "view w (session_key sid) = None" "nick = trim requested"
    and "1000 \<le> conn_session_ttl cfg" "conn_session_ttl cfg div 1000 < 2 ^ 63" "w' = snd (auth E cfg requested w)"
    and "\<forall>n. is_str (view w) (nick_key n)" "conn_uuid_ok E sid"
  shows "if validate_auth requested \<noteq> Inr ()
      then fst (auth E cfg requested w) = Inl (HandlerError.InvalidPayload ''Invalid auth request'') \<and> view w' = view w
    else if view w (nick_key nick) \<noteq> None
      then fst (auth E cfg requested w) = Inl HandlerError.NicknameTaken \<and> view w' = view w
    else fst (auth E cfg requested w) = Inr \<lparr>auth_nickname = nick, auth_session_id = sid\<rparr>
      \<and> view w' = (view w)(nick_key nick \<mapsto> (StrVal sid, None), session_key sid \<mapsto>
          (HashVal [''nickname'' \<mapsto> nick, ''room_id'' \<mapsto> []], Some (1000 * (conn_session_ttl cfg div 1000))))
      \<and> fst (logout E sid w') = Inr 204 \<and> view (snd (logout E sid w')) = view w"
proof -
  note run = conn_world.auth_eval [OF assms(1-6), folded assms(7)]
  have "fst (logout E sid w') = Inr 204 \<and> view (snd (logout E sid w')) = view w"
    if ok: "validate_auth requested = Inr ()" "view w (nick_key nick) = None"
  proof -
    have v: "view w' = (view w)(nick_key nick \<mapsto> (StrVal sid, None), session_key sid \<mapsto>
        (HashVal [''nickname'' \<mapsto> nick, ''room_id'' \<mapsto> []], Some (1000 * (conn_session_ttl cfg div 1000))))"
      using run(2) ok by simp
    have "nick \<noteq> []" using ok(1) assms(4) by (auto simp: validate_auth_def validate_nickname_def split: if_splits)
    then have n: "session_nick (view w') sid = Some nick" "str_of (view w') (nick_key nick) = Some sid"
      by (simp_all add: v session_nick_def hash_of_def str_of_def nonempty_Some)
    have t: "is_hash (view w') (session_key sid)" "\<forall>n. is_str (view w') (nick_key n)"
      using assms(8) by (auto simp: v is_hash_def is_str_def)
    have "(view w')(session_key sid := None, nick_key nick := None) = view w"
      using ok(2) assms(3) by (auto simp: v)
    then show ?thesis using conn_world.logout_eval [OF assms(1) t assms(9)] n by simp
  qed
  then show ?thesis using run by (auto split: sum.splits)
qed

text \<open>
  C21. Renewing a session. A well-formed renewal succeeds exactly when the session exists and its nickname is leased to this
  very session; then its time to live starts anew, and nothing else changes. Otherwise it is refused as
  unauthorized and the store is as before: the holder of a session whose nickname went to another session cannot keep it alive.
\<close>

theorem session_renew_guards:
  assumes "conn_world E view" "is_hash (view w) (session_key sid)" "\<forall>n. is_str (view w) (nick_key n)" "conn_uuid_ok E sid"
    and "1000 \<le> conn_session_ttl cfg" "conn_session_ttl cfg div 1000 < 2 ^ 63" "w' = snd (session_renew E cfg sid w)"
  shows "if \<exists>nick. session_nick (view w) sid = Some nick \<and> str_of (view w) (nick_key nick) = Some sid
    then fst (session_renew E cfg sid w) = Inr 204 \<and> ttl_of (view w') (session_key sid) = Some (1000 * (conn_session_ttl cfg div 1000))
      \<and> hash_of (view w') (session_key sid) = hash_of (view w) (session_key sid)
      \<and> (\<forall>k. k \<noteq> session_key sid \<longrightarrow> view w' k = view w k)
    else fst (session_renew E cfg sid w) = Inl HandlerError.Unauthorized \<and> view w' = view w"
proof (cases "session_nick (view w) sid")
  case None
  then show ?thesis using conn_world.renew_eval [OF assms(1-4), of cfg] by (simp add: assms(7))
next
  case (Some nick)
  then have "view w (session_key sid) \<noteq> None"
    by (cases "view w (session_key sid)") (simp_all add: session_nick_def hash_of_def)
  then show ?thesis
    using Some conn_world.renew_eval [OF assms(1-4), of cfg] expired_kept [OF assms(5,6), of "session_key sid" "view w"]
    by (auto simp: assms(7) ttl_of_def hash_of_def)
qed

text \<open>
  C19. Creating a room at the connector. The handler never changes the store and answers what \<open>create_decision\<close>
  says: a malformed request, a supervisor whose heartbeat is missing or stale, an unknown session and the lack of a live node
  are refused, in this order. Otherwise the node it names is one of the configured ones with a fresh heartbeat
  and no live node carries less load; the token says who the participant is and that this node is to
  create a room.
\<close>

theorem create_follows_decision:
  assumes "conn_world E view" "is_hash (view w) SUPERVISOR_HEARTBEAT_KEY" "is_hash (view w) (session_key sid)"
    and "is_zset (view w) SIGNALING_NODES_KEY" "is_zset (view w) SIGNALING_INSTANCE_LOAD_KEY"
    and "t1 = fst (unix_time E (snd (get_supervisor_status E w)))"
    and "w1 = snd (conn_session_get E sid (snd (check_supervisor_freshness E cfg w)))"
    and "t2 = fst (unix_time E (snd (load_signaling_loads E w1)))"
  shows "view (snd (create E cfg sid w)) = view w
    \<and> (case create_decision (view w) cfg (conn_uuid_ok E sid) t1 t2 sid of
         Inl e \<Rightarrow> fst (create E cfg sid w) = Inl e
       | Inr (nick, inst) \<Rightarrow> inst \<in> set (live_signaling (view w) cfg t2)
           \<and> (\<forall>other \<in> set (live_signaling (view w) cfg t2). signaling_load (view w) inst \<le> signaling_load (view w) other)
           \<and> (\<exists>claims. i_session_id claims = sid \<and> i_nickname claims = nick \<and> i_signaling_instance_id claims = sig_id inst
               \<and> i_intent claims = ''create'' \<and> i_room_id claims = None
               \<and> i_exp claims = i_iat claims + of_nat (token_ttl cfg div 1000)
               \<and> fst (create E cfg sid w) = (case jwt_encode E claims (token_secret cfg) of None \<Rightarrow> Inl Token
                   | Some tok \<Rightarrow> Inr \<lparr>signaling_url = ws_url inst, ready_session_id = sid, ready_token = tok\<rparr>)))"
proof -
  define w2 where "w2 = snd (select_least_loaded_signaling E cfg w1)"
  note run = conn_world.create_eval [OF assms w2_def]
  show ?thesis
  proof (cases "create_decision (view w) cfg (conn_uuid_ok E sid) t1 t2 sid")
    case (Inr p)
    obtain nick inst where p: "p = (nick, inst)" by (cases p)
    have m: "min_by (signaling_load (view w)) (live_signaling (view w) cfg t2) = Some inst"
      using Inr p by (auto simp: create_decision_def split: if_splits option.splits)
    obtain claims where c: "i_session_id claims = sid" "i_nickname claims = nick" "i_signaling_instance_id claims = sig_id inst"
      "i_intent claims = ''create''" "i_room_id claims = None" "i_exp claims = i_iat claims + of_nat (token_ttl cfg div 1000)"
      "fst (issue_signaling_token E cfg sid nick (sig_id inst) ''create'' None w2) =
         (case jwt_encode E claims (token_secret cfg) of None \<Rightarrow> Inl Token | Some tok \<Rightarrow> Inr tok)"
      by (rule conn_world.issue_eval [OF assms(1)])
    show ?thesis
      using run c Inr p min_by_in [OF m] min_by_least [OF m]
      by (intro conjI) (auto split: option.split intro!: exI [of _ claims])
  qed (use run in simp)
qed

section \<open>Witnesses\<close>

text \<open>The signer of the in-memory world writes the claims the node reads, field by field.\<close>

definition read_claims :: "IssuedClaims \<Rightarrow> ConnectorClaims" where
  "read_claims c = \<lparr>jti = i_jti c, session_id = i_session_id c, claim_nickname = i_nickname c,
     signaling_instance_id = i_signaling_instance_id c, intent = i_intent c, claim_room_id = i_room_id c,
     iat = i_iat c, exp_at = i_exp c\<rparr>"

definition mem_conn_env :: "sig_mem conn_env" where
  "mem_conn_env = env.extend mem_env
     \<lparr>conn_uuid_ok = (\<lambda>u. length u = 36 \<or> u = ''s1''), jwt_encode = (\<lambda>c secret. Some (mem_token secret (read_claims c)))\<rparr>"

lemma mem_conn_sel [simp]:
  "redis mem_conn_env = mem_redis" "json mem_conn_env = mem_json" "unix_time mem_conn_env = mem_time"
  "new_uuid mem_conn_env = mem_new_uuid" "scan_budget mem_conn_env = 1"
  "conn_uuid_ok mem_conn_env = (\<lambda>u. length u = 36 \<or> u = ''s1'')"
  "jwt_encode mem_conn_env = (\<lambda>c secret. Some (mem_token secret (read_claims c)))"
  by (simp_all add: mem_conn_env_def mem_env_def env.defs)

interpretation mem_conn: conn_world mem_conn_env mem_view
  by (intro conn_world.intro mem_like_store) (simp add: mem_like_def)

text \<open>The small deployment under supervision, with one configured node that is alive.\<close>

definition conn_demo_world :: sig_mem where
  "conn_demo_world = sig_demo_world\<lparr>m_keys := (SUPERVISOR_HEARTBEAT_KEY, MHash [(''last_seen_unix'', ''95'')], None)
     # (SIGNALING_NODES_KEY, MZset [(''h1:81'', 90), (''n0'', 10)], None) # sig_keys\<rparr>"

definition demo_conn_config :: ConnectorConfig where
  "demo_conn_config = \<lparr>connector_addr = ''0.0.0.0:8090'', conn_redis_url = ''redis://redis:6379/'',
     conn_redis_connect_timeout = 2000, conn_redis_op_timeout = 800, token_secret = ''k'', token_ttl = 120000,
     conn_session_ttl = 600000, signaling_stale_timeout = 30000, supervisor_stale_sec = 30,
     signaling_instances = [\<lparr>sig_id = ''n0'', ws_url = ''ws://n0''\<rparr>, \<lparr>sig_id = ''h1:81'', ws_url = ''ws://h1''\<rparr>],
     cors_allowed_origins = []\<rparr>"

lemma conn_demo_view:
  "mem_view conn_demo_world (session_key s) = (if s = ''s1'' then Some (HashVal [''nickname'' \<mapsto> ''ann'', ''room_id'' \<mapsto> []], Some 600000) else None)"
  "mem_view conn_demo_world (nick_key n) = (if n = ''ann'' then Some (StrVal ''s1'', None) else None)"
  "hash_of (mem_view conn_demo_world) SUPERVISOR_HEARTBEAT_KEY = [''last_seen_unix'' \<mapsto> ''95'']"
  "is_hash (mem_view conn_demo_world) SUPERVISOR_HEARTBEAT_KEY"
  "zset_of (mem_view conn_demo_world) SIGNALING_NODES_KEY = [''h1:81'' \<mapsto> 90, ''n0'' \<mapsto> 10]"
  "is_zset (mem_view conn_demo_world) SIGNALING_NODES_KEY"
  "is_zset (mem_view conn_demo_world) SIGNALING_INSTANCE_LOAD_KEY"
  by (auto simp: mem_view_def kview_def conn_demo_world_def sig_demo_world_def sig_keys_def demo_keys_def hash_of_def zset_of_def
      is_zset_def is_hash_def key_defs fun_eq_iff)

lemma conn_demo_typed:
  "is_hash (mem_view conn_demo_world) (session_key s)" "is_str (mem_view conn_demo_world) (nick_key n)"
  by (auto simp: is_hash_def is_str_def conn_demo_view fun_eq_iff)

theorem auth_reserves_witness:
  "fst (auth mem_conn_env demo_conn_config '' bob'' conn_demo_world) = Inr \<lparr>auth_nickname = ''bob'', auth_session_id = mem_uuid 0\<rparr>
   \<and> fst (auth mem_conn_env demo_conn_config ''ann'' conn_demo_world) = Inl HandlerError.NicknameTaken"
proof -
  have u: "fst (new_uuid mem_conn_env conn_demo_world) = mem_uuid 0" "length (mem_uuid 0) = 36" "mem_uuid 0 \<noteq> ''s1''"
    by (simp_all add: mem_new_uuid_def conn_demo_world_def sig_demo_world_def mem_uuid_def)
  have t: "trim '' bob'' = ''bob''" "trim ''ann'' = ''ann''"
    by (simp_all add: trim_def trim_start_def trim_end_def is_whitespace_def)
  have v: "validate_auth '' bob'' = Inr ()" "validate_auth ''ann'' = Inr ()"
    by (simp_all add: validate_auth_def validate_nickname_def t is_ascii_alphanumeric_def)
  have c: "1000 \<le> conn_session_ttl demo_conn_config" "conn_session_ttl demo_conn_config div 1000 < 2 ^ 63"
    by (simp_all add: demo_conn_config_def)
  have s: "mem_view conn_demo_world (session_key (mem_uuid 0)) = None" using u(3) by (simp add: conn_demo_view)
  note p = auth_reserves [OF mem_conn.conn_world_axioms u(1) [symmetric] s _ c refl]
  show ?thesis
    using p [OF t(1) [symmetric]] p [OF t(2) [symmetric]] v u(2) by (simp add: conn_demo_typed conn_demo_view)
qed

theorem session_renew_guards_witness:
  "fst (session_renew mem_conn_env demo_conn_config ''s1'' conn_demo_world) = Inr 204"
  using session_renew_guards [OF mem_conn.conn_world_axioms, where w = conn_demo_world and sid = "''s1''" and cfg = demo_conn_config,
      OF _ _ _ _ _ refl]
  by (simp add: conn_demo_typed) (simp add: conn_demo_view session_nick_def hash_of_def str_of_def demo_conn_config_def)

lemma mem_conn_clock [keeps_intros]: "keeps (\<lambda>w. m_now w = t) (redis mem_conn_env c)" "keeps (\<lambda>w. m_now w = t) (unix_time mem_conn_env)"
  by (rule keepsI, simp add: mem_redis_def mem_time_def split: prod.split)+

lemma mem_conn_time:
  "keeps (\<lambda>w. m_now w = t) (get_supervisor_status mem_conn_env)"
  "keeps (\<lambda>w. m_now w = t) (check_supervisor_freshness mem_conn_env cfg)"
  "keeps (\<lambda>w. m_now w = t) (conn_session_get mem_conn_env sid)"
  "keeps (\<lambda>w. m_now w = t) (load_signaling_loads mem_conn_env)"
  unfolding get_supervisor_status_def read_supervisor_status_def check_supervisor_freshness_def conn_session_get_def
    load_signaling_loads_def connM_def conn_with_op_timeout_def ccall_def store_ops
  by (intro keeps_intros mem_conn_clock)+

lemma mem_select_time: "keeps (\<lambda>w. m_now w = t) (select_least_loaded_signaling mem_conn_env cfg)"
  unfolding select_least_loaded_signaling_def load_signaling_loads_def conn_alive_signaling_nodes_def connM_def
    conn_with_op_timeout_def ccall_def store_ops Let_def
  by (intro keeps_intros mem_conn_clock)+

lemma conn_demo_now [simp]: "m_now conn_demo_world = 100"
  by (simp add: conn_demo_world_def sig_demo_world_def)

lemma demo_times:
  defines "w1 \<equiv> snd (conn_session_get mem_conn_env ''s1'' (snd (check_supervisor_freshness mem_conn_env demo_conn_config conn_demo_world)))"
  shows "100 = fst (unix_time mem_conn_env (snd (get_supervisor_status mem_conn_env conn_demo_world)))"
    "100 = fst (unix_time mem_conn_env (snd (load_signaling_loads mem_conn_env w1)))"
    "m_now (snd (select_least_loaded_signaling mem_conn_env demo_conn_config w1)) = 100"
proof -
  have n: "m_now w1 = 100"
    unfolding w1_def by (rule keepsD [OF mem_conn_time(3)], rule keepsD [OF mem_conn_time(2)]) simp
  show "100 = fst (unix_time mem_conn_env (snd (get_supervisor_status mem_conn_env conn_demo_world)))"
    "100 = fst (unix_time mem_conn_env (snd (load_signaling_loads mem_conn_env w1)))"
    "m_now (snd (select_least_loaded_signaling mem_conn_env demo_conn_config w1)) = 100"
    using keepsD [OF mem_conn_time(1), OF conn_demo_now] keepsD [OF mem_conn_time(4), OF n] keepsD [OF mem_select_time, OF n]
    by (simp_all add: mem_time_def)
qed

lemma demo_decision:
  "create_decision (mem_view conn_demo_world) demo_conn_config (conn_uuid_ok mem_conn_env ''s1'') 100 100 ''s1''
     = Inr (''ann'', \<lparr>sig_id = ''h1:81'', ws_url = ''ws://h1''\<rparr>)"
proof -
  have p: "parse_i64 ''95'' = Some 95"
    by (simp add: parse_i64_def parse_unsigned_def digits_value_def is_digit_def char_digit_def)
  have live: "live_signaling (mem_view conn_demo_world) demo_conn_config 100 = [\<lparr>sig_id = ''h1:81'', ws_url = ''ws://h1''\<rparr>]"
    by (simp add: live_signaling_def conn_demo_view demo_conn_config_def sub_i64_def wrap_i64_def)
  have "supervisor_fresh (mem_view conn_demo_world) demo_conn_config 100"
    by (simp add: supervisor_fresh_def conn_demo_view supervisor_status_of_def p demo_conn_config_def sub_i64_def wrap_i64_def
        cast_i64_def Let_def)
  then show ?thesis by (simp add: create_decision_def live session_nick_def conn_demo_view hash_of_def)
qed

lemma demo_created:
  obtains claims where "i_exp claims = 220"
    "fst (create mem_conn_env demo_conn_config ''s1'' conn_demo_world) = Inr \<lparr>signaling_url = ''ws://h1'',
       ready_session_id = ''s1'', ready_token = mem_token ''k'' (read_claims claims)\<rparr>"
proof -
  define w2 where "w2 = snd (select_least_loaded_signaling mem_conn_env demo_conn_config
      (snd (conn_session_get mem_conn_env ''s1'' (snd (check_supervisor_freshness mem_conn_env demo_conn_config conn_demo_world)))))"
  have now: "fst (unix_time mem_conn_env w2) = 100" using demo_times(3) by (simp add: w2_def mem_time_def)
  note eval = mem_conn.create_eval [OF conn_demo_view(4) conn_demo_typed(1) conn_demo_view(6,7) demo_times(1) refl demo_times(2) w2_def,
      unfolded demo_decision]
  show ?thesis
    by (rule mem_conn.issue_eval [where w = w2 and cfg = demo_conn_config and sid = "''s1''" and nick = "''ann''"
          and inst_id = "''h1:81''" and intent_text = "''create''" and room = None])
      (rule that, use eval(1) now in \<open>simp_all add: demo_conn_config_def\<close>)
qed

theorem create_follows_decision_witness:
  "\<exists>tok. fst (create mem_conn_env demo_conn_config ''s1'' conn_demo_world) =
     Inr \<lparr>signaling_url = ''ws://h1'', ready_session_id = ''s1'', ready_token = tok\<rparr>"
  using create_follows_decision [OF mem_conn.conn_world_axioms conn_demo_view(4) conn_demo_typed(1) conn_demo_view(6,7)
      demo_times(1) refl demo_times(2)] demo_decision
  by auto

end
