(* ===== verification/Signaling_State.thy ===== *)
theory Signaling_State
  imports Sfu_Client
begin

text \<open>
  The methods of \<^verbatim>\<open>State\<close> in \<^verbatim>\<open>state.rs\<close>: the availability probe, the purge of a
  node, the removal of a peer and the closing of the rooms of a failed SFU.
\<close>

definition is_redis_available :: "('w, 'z) sig_env_scheme \<Rightarrow> (('w, 'y) node_scheme, bool) act" where
  "is_redis_available E =
     bindM (on_world (call E Ping as_string)) (\<lambda>r. retM (case r of Inr _ \<Rightarrow> True | Inl _ \<Rightarrow> False))"

definition is_purging :: "('w, 'y) node_scheme \<Rightarrow> bool" where
  "is_purging s = purging s"

definition try_begin_purge :: "(('w, 'y) node_scheme, bool) act" where
  "try_begin_purge = (\<lambda>s. if purging s then (False, s) else (True, s\<lparr>purging := True\<rparr>))"

definition broadcast :: "('w, 'z) sig_env_scheme \<Rightarrow> string \<Rightarrow> string option \<Rightarrow> ServerMessage
    \<Rightarrow> (('w, 'y) node_scheme, string list) act" where
  "broadcast E room except payload =
     bindM (getM peers) (\<lambda>reg. on_world (broadcast_to_room (try_send E) reg room except payload))"

section \<open>Purge\<close>

definition purge_peer :: "('w, 'z) sig_env_scheme \<Rightarrow> string \<Rightarrow> string \<times> string option
    \<Rightarrow> (('w, 'y) node_scheme, unit) act" where
  "purge_peer E room p =
     (case snd p of
        None \<Rightarrow> retM ()
      | Some addr \<Rightarrow> ignoreM (delete_peer E addr room (fst p) ''signaling_purge''))"

definition run_purge :: "('w, 'z) sig_env_scheme \<Rightarrow> DegradationReason \<Rightarrow> (('w, 'y) node_scheme, unit) act" where
  "run_purge E reason =
     bindM try_begin_purge (\<lambda>began.
     if \<not> began then retM () else
     bindM (getM (\<lambda>s. snapshot_rooms_with_sfu (peers s))) (\<lambda>rooms.
     bindM (forM (\<lambda>(room, _). ignoreM (broadcast E room None
              (ServiceUnavailable (degradation_as_str reason) 5000))) rooms) (\<lambda>_.
     bindM (forM (\<lambda>(room, participants). forM (purge_peer E room) participants) rooms) (\<lambda>_.
     bindM (on_peers peers_clear) (\<lambda>_.
     bindM (on_sessions sessions_clear) (\<lambda>_.
     on_sfu sfu_clear))))))"

section \<open>Removing a peer\<close>

definition detach_peer :: "('w, 'z) sig_env_scheme \<Rightarrow> string \<Rightarrow> string \<Rightarrow> string
    \<Rightarrow> (('w, 'y) node_scheme, unit) act" where
  "detach_peer E room nick reason =
     bindM (is_redis_available E) (\<lambda>up.
     bindM (if up then bindM (on_world (get_room_route E room)) (\<lambda>r.
              retM (case r of Inr route \<Rightarrow> Some route | Inl _ \<Rightarrow> None))
            else retM None) (\<lambda>route.
     bindM (on_peers (unregister room nick)) (\<lambda>_.
     bindM (is_redis_available E) (\<lambda>up2.
     bindM (if up2 then bindM (on_world (leave_room_redis E room nick)) (\<lambda>r.
              retM (case r of Inr result \<Rightarrow> room_empty result | Inl _ \<Rightarrow> False))
            else retM False) (\<lambda>empty.
     bindM (case (case route of None \<Rightarrow> None | Some rt \<Rightarrow> sfu_grpc_addr rt) of
              None \<Rightarrow> retM ()
            | Some addr \<Rightarrow> ignoreM (delete_peer E addr room nick reason)) (\<lambda>_.
     if empty then ignoreM (on_world (close_room_binding E room)) else retM ()))))))"

section \<open>Closing the rooms of an SFU\<close>

definition drop_local_peer :: "string \<Rightarrow> string \<Rightarrow> (('w, 'y) node_scheme, unit) act" where
  "drop_local_peer room nick =
     bindM (on_peers (unregister room nick)) (\<lambda>_. on_sfu (cleanup_local_peer_state room nick))"

definition close_room_due_to_sfu :: "('w, 'z) sig_env_scheme \<Rightarrow> string \<Rightarrow> string \<Rightarrow> string \<times> string list
    \<Rightarrow> (('w, 'y) node_scheme, unit) act" where
  "close_room_due_to_sfu E addr reason rp =
     (case rp of (room, participants) \<Rightarrow>
     bindM (on_world (get_room_route E room)) (\<lambda>r.
       case r of
         Inl _ \<Rightarrow> retM ()
       | Inr route \<Rightarrow>
           if sfu_grpc_addr route \<noteq> Some addr then retM () else
           bindM (broadcast E room None (RoomClosed room reason)) (\<lambda>stale.
           bindM (forM (drop_local_peer room) participants) (\<lambda>_.
           bindM (forM (drop_local_peer room) stale) (\<lambda>_.
           bindM (\<lambda>s. case clear_room room (sessions s) of (ids, st) \<Rightarrow> (ids, s\<lparr>sessions := st\<rparr>)) (\<lambda>affected.
           bindM (is_redis_available E) (\<lambda>up.
           if \<not> up then retM () else
           bindM (on_world (close_room_binding E room)) (\<lambda>_.
           bindM (on_world (delete_room E room)) (\<lambda>_.
           forM (\<lambda>s. ignoreM (on_world (session_set_room E s None))) affected))))))))) "

definition close_rooms_due_to_sfu_addr :: "('w, 'z) sig_env_scheme \<Rightarrow> string \<Rightarrow> string
    \<Rightarrow> (('w, 'y) node_scheme, unit) act" where
  "close_rooms_due_to_sfu_addr E addr reason =
     bindM (getM (\<lambda>s. snapshot_rooms (peers s))) (\<lambda>rooms.
     forM (close_room_due_to_sfu E addr reason) rooms)"

section \<open>Admin service\<close>

text \<open>\<^verbatim>\<open>admin.rs\<close>: the purge and the closing of rooms run as spawned tasks; the answers are
  computed before.\<close>

record PingResponse =
  ping_ok :: bool
  active_peers :: "32 word"
  active_sessions :: "32 word"
  node_id :: string

definition admin_ping :: "(('w, 'y) node_scheme, PingResponse) act" where
  "admin_ping = getM (\<lambda>s. \<lparr>ping_ok = True, active_peers = peer_count (peers s),
     active_sessions = session_count (sessions s), node_id = public_node_id (config s)\<rparr>)"

definition admin_purge :: "string \<Rightarrow> (('w, 'y) node_scheme, bool \<times> 32 word) act" where
  "admin_purge reason =
     bindM (getM (\<lambda>s. of_nat (length (snapshot_rooms (peers s))))) (\<lambda>rooms_closed.
     bindM (spawn (PurgeTask RedisDown)) (\<lambda>_. retM (True, rooms_closed)))"

definition close_rooms_by_sfu :: "string \<Rightarrow> string \<Rightarrow> (('w, 'y) node_scheme, bool \<times> 32 word) act" where
  "close_rooms_by_sfu addr reason =
     bindM (getM (\<lambda>s. snapshot_rooms (peers s))) (\<lambda>rooms_before.
     bindM (spawn (CloseRoomsTask addr reason)) (\<lambda>_.
     retM (True, of_nat (length rooms_before))))"

text \<open>\<^verbatim>\<open>GET /health\<close>.\<close>

definition health :: "nat \<times> string" where
  "health = (200, ''ok'')"

end
