(* ===== verification/Sfu_Events.thy ===== *)
theory Sfu_Events
  imports Signaling_State Signaling_Memory
begin

text \<open>
  The event side of \<^verbatim>\<open>sfu.rs\<close>: what a node does with an event of an SFU, and the listener
  task, a loop that never ends, as a step relation between its waiting points with the
  back-off delay in its state.
\<close>

section \<open>Events\<close>

definition broadcast_detach :: "('w, 'z) sig_env_scheme \<Rightarrow> string \<Rightarrow> string option \<Rightarrow> ServerMessage
    \<Rightarrow> (('w, 'y) node_scheme, unit) act" where
  "broadcast_detach E room except payload =
     bindM (broadcast E room except payload) (\<lambda>stale.
     forM (\<lambda>nick. detach_peer E room nick ''stale_sender'') stale)"

definition route_to_peer :: "('w, 'z) sig_env_scheme \<Rightarrow> string \<Rightarrow> string \<Rightarrow> ServerMessage
    \<Rightarrow> (('w, 'y) node_scheme, unit) act" where
  "route_to_peer E room participant payload =
     (if participant = [] then retM () else
      bindM (getM peers) (\<lambda>reg.
      bindM (on_world (send_to_peer (try_send E) reg room participant payload)) (\<lambda>status.
        case status of
          Delivered \<Rightarrow> retM ()
        | Missing \<Rightarrow> retM ()
        | Stale \<Rightarrow>
            bindM (detach_peer E room participant ''stale_sender'') (\<lambda>_.
            bindM (broadcast E room (Some participant) (ParticipantLeft participant)) (\<lambda>stale.
            forM (\<lambda>nick. detach_peer E room nick ''stale_sender'') stale)))))"

definition handle_sfu_event :: "('w, 'z) sig_env_scheme \<Rightarrow> SfuEvent \<Rightarrow> (('w, 'y) node_scheme, unit) act" where
  "handle_sfu_event E event =
     (let room = ev_room_id event; participant = ev_participant_id event in
      case ev_detail event of
        Some (PeerConnected _) \<Rightarrow> retM ()
      | Some (PeerDisconnected _) \<Rightarrow>
          if participant \<noteq> []
          then broadcast_detach E room (Some participant) (ParticipantLeft participant)
          else retM ()
      | Some (TrackAdded _) \<Rightarrow> retM ()
      | Some (TrackRemoved _) \<Rightarrow> retM ()
      | Some (IceCandidate candidate sdp_mid) \<Rightarrow>
          route_to_peer E room participant (ServerMessage.Candidate ''sfu'' candidate sdp_mid)
      | Some (SfuError _ _ message) \<Rightarrow>
          route_to_peer E room participant (Error ServerErrorCode.SfuUnavailable message)
      | None \<Rightarrow> retM ())"

section \<open>The listener task\<close>

text \<open>\<open>Subscribing d\<close>: about to subscribe, with delay \<open>d\<close>; \<open>Streaming d ch\<close>: waiting for the next
  event; \<open>Lost d\<close>: the subscription is over and its rooms are to be closed; \<open>Backing d\<close>: about to
  sleep for \<open>d\<close> plus jitter.\<close>

datatype listener = Subscribing nat | Streaming nat channel | Lost nat | Backing nat

definition subscribe :: "('w, 'z) sig_env_scheme \<Rightarrow> string \<Rightarrow> (('w, 'y) node_scheme, grpc_code \<times> string, channel) prog" where
  "subscribe E addr =
     tryM (map_errM map_connect_error (grpc_client E addr)) (\<lambda>ch.
     bindM (getM (\<lambda>s. signaling_id (sfu s))) (\<lambda>sid.
     tryM (on_world (sfu_subscribe E ch sid)) (\<lambda>_. okM ch)))"

definition connection_lost :: "('w, 'z) sig_env_scheme \<Rightarrow> string \<Rightarrow> (('w, 'y) node_scheme, unit) act" where
  "connection_lost E addr =
     bindM (on_sfu (invalidate_channel addr)) (\<lambda>_.
     close_rooms_due_to_sfu_addr E addr ''sfu connection lost; room closed'')"

definition next_delay :: "Registry \<Rightarrow> nat \<Rightarrow> nat" where
  "next_delay reg delay = min (delay * 2) (backoff_max reg)"

text \<open>The jitter of one sleep: the generator picks a number from 0 to half the delay.\<close>

definition sleep_time :: "nat \<Rightarrow> nat \<Rightarrow> nat" where
  "sleep_time delay jitter = delay + jitter"

inductive listener_step :: "('w, 'z) sig_env_scheme \<Rightarrow> string \<Rightarrow> listener \<times> ('w, 'y) node_scheme
    \<Rightarrow> listener \<times> ('w, 'y) node_scheme \<Rightarrow> bool" for E addr where
  subscribed: "subscribe E addr s = (Inr ch, s') \<Longrightarrow>
    listener_step E addr (Subscribing d, s) (Streaming d ch, s')"
| refused: "subscribe E addr s = (Inl e, s') \<Longrightarrow>
    listener_step E addr (Subscribing d, s) (Lost d, s')"
| event: "on_world (sfu_next_event E ch) s = (Inr (Some ev), s') \<Longrightarrow>
    listener_step E addr (Streaming d ch, s) (Streaming d ch, snd (handle_sfu_event E ev s'))"
| ended: "on_world (sfu_next_event E ch) s = (Inr None, s') \<Longrightarrow>
    listener_step E addr (Streaming d ch, s) (Lost (backoff_min (sfu s')), s')"
| broken: "on_world (sfu_next_event E ch) s = (Inl e, s') \<Longrightarrow>
    listener_step E addr (Streaming d ch, s) (Lost d, s')"
| closed: "listener_step E addr (Lost d, s) (Backing d, snd (connection_lost E addr s))"
| slept: "j \<le> d div 2 \<Longrightarrow> t = sleep_time d j \<Longrightarrow>
    listener_step E addr (Backing d, s) (Subscribing (next_delay (sfu s) d), s)"

inductive_cases listener_stepE: "listener_step E addr c c'"

definition run_event_listener :: "('w, 'y) node_scheme \<Rightarrow> listener" where
  "run_event_listener s = Subscribing (backoff_min (sfu s))"

fun delay_of :: "listener \<Rightarrow> nat" where
  "delay_of (Subscribing d) = d"
| "delay_of (Streaming d _) = d"
| "delay_of (Lost d) = d"
| "delay_of (Backing d) = d"

section \<open>The registry's constants\<close>

text \<open>No operation changes the bounds of the back-off, the node's identity or its configuration.\<close>

definition fixed_part :: "('w, 'y) node_scheme \<Rightarrow> nat \<times> nat \<times> string \<times> Config" where
  "fixed_part s = (backoff_min (sfu s), backoff_max (sfu s), signaling_id (sfu s), config s)"

lemma keeps_fixed_basic [keeps_intros]:
  "keeps (\<lambda>s. fixed_part s = c) (on_world m)"
  "keeps (\<lambda>s. fixed_part s = c) (on_peers f)"
  "keeps (\<lambda>s. fixed_part s = c) (on_sessions g)"
  "keeps (\<lambda>s. fixed_part s = c) (spawn t)"
  by (simp_all add: keeps_def node_ops prog_simps fixed_part_def)

lemma keeps_fixed_sfu [keeps_intros]:
  "(\<And>reg. backoff_min (f reg) = backoff_min reg \<and> backoff_max (f reg) = backoff_max reg
      \<and> signaling_id (f reg) = signaling_id reg) \<Longrightarrow> keeps (\<lambda>s. fixed_part s = c) (on_sfu f)"
  by (simp add: keeps_def node_ops prog_simps fixed_part_def)

lemma sfu_update_fixed [simp]:
  "backoff_min (cleanup_peer_sdp_state r n reg) = backoff_min reg"
  "backoff_max (cleanup_peer_sdp_state r n reg) = backoff_max reg"
  "signaling_id (cleanup_peer_sdp_state r n reg) = signaling_id reg"
  "backoff_min (cleanup_local_peer_state r n reg) = backoff_min reg"
  "backoff_max (cleanup_local_peer_state r n reg) = backoff_max reg"
  "signaling_id (cleanup_local_peer_state r n reg) = signaling_id reg"
  "backoff_min (invalidate_channel a reg) = backoff_min reg"
  "backoff_max (invalidate_channel a reg) = backoff_max reg"
  "signaling_id (invalidate_channel a reg) = signaling_id reg"
  "backoff_min (sdp_peer_mutex r n reg) = backoff_min reg"
  "backoff_max (sdp_peer_mutex r n reg) = backoff_max reg"
  "signaling_id (sdp_peer_mutex r n reg) = signaling_id reg"
  "backoff_min (sfu_clear reg) = backoff_min reg"
  "backoff_max (sfu_clear reg) = backoff_max reg"
  "signaling_id (sfu_clear reg) = signaling_id reg"
  by (simp_all add: cleanup_peer_sdp_state_def cleanup_local_peer_state_def invalidate_channel_def
      sdp_peer_mutex_def sfu_clear_def)

lemma keeps_lift_result [keeps_intros]: "keeps I (lift_result r)"
  by (simp add: keeps_def lift_result_def)

lemma keeps_rpc_error [keeps_intros]:
  "(\<And>c m. keeps I (f c m)) \<Longrightarrow> keeps I g \<Longrightarrow> keeps I (case e of RpcStatus c m \<Rightarrow> f c m | RpcTimeout \<Rightarrow> g)"
  by (cases e) auto

lemma keeps_detail [keeps_intros]:
  "(\<And>a. keeps I (f1 a)) \<Longrightarrow> (\<And>a. keeps I (f2 a)) \<Longrightarrow> (\<And>a. keeps I (f3 a)) \<Longrightarrow> (\<And>a. keeps I (f4 a)) \<Longrightarrow>
   (\<And>a b. keeps I (f5 a b)) \<Longrightarrow> (\<And>a b c. keeps I (f6 a b c)) \<Longrightarrow>
   keeps I (case e of PeerConnected a \<Rightarrow> f1 a | PeerDisconnected a \<Rightarrow> f2 a | TrackAdded a \<Rightarrow> f3 a
     | TrackRemoved a \<Rightarrow> f4 a | IceCandidate a b \<Rightarrow> f5 a b | SfuError a b c \<Rightarrow> f6 a b c)"
  by (cases e) auto

lemma keeps_status [keeps_intros]:
  "keeps I a \<Longrightarrow> keeps I b \<Longrightarrow> keeps I c \<Longrightarrow> keeps I (case d of Delivered \<Rightarrow> a | Missing \<Rightarrow> b | Stale \<Rightarrow> c)"
  by (cases d) auto

lemma keeps_prod [keeps_intros]: "(\<And>a b. keeps I (f a b)) \<Longrightarrow> keeps I (case p of (a, b) \<Rightarrow> f a b)"
  by (cases p) auto

lemma keeps_clear_room [keeps_intros]:
  "(\<And>s st. I s \<Longrightarrow> I (s\<lparr>sessions := st\<rparr>)) \<Longrightarrow>
   keeps I (\<lambda>s. case clear_room room (sessions s) of (ids, st) \<Rightarrow> (ids, s\<lparr>sessions := st\<rparr>))"
  by (simp add: keeps_def split: prod.splits)

lemma fixed_sessions [simp]: "fixed_part (s\<lparr>sessions := st\<rparr>) = fixed_part s"
  by (simp add: fixed_part_def)

lemma keeps_fixed_client [keeps_intros]:
  "keeps (\<lambda>s. fixed_part s = c) (grpc_client E addr)"
  "keeps (\<lambda>s. fixed_part s = c) (delete_peer E addr room nick reason)"
  unfolding delete_peer_def run_rpc_def grpc_client_def channel_for_def
  by (rule keeps_intros | simp)+

lemma keeps_fixed_state [keeps_intros]:
  "keeps (\<lambda>s. fixed_part s = c) (is_redis_available E)"
  "keeps (\<lambda>s. fixed_part s = c) (broadcast E room except payload)"
  "keeps (\<lambda>s. fixed_part s = c) (detach_peer E room nick reason)"
  unfolding is_redis_available_def broadcast_def detach_peer_def
  by (rule keeps_intros)+

lemma keeps_fixed_events [keeps_intros]:
  "keeps (\<lambda>s. fixed_part s = c) (handle_sfu_event E ev)"
  "keeps (\<lambda>s. fixed_part s = c) (subscribe E addr)"
  "keeps (\<lambda>s. fixed_part s = c) (connection_lost E addr)"
  unfolding handle_sfu_event_def broadcast_detach_def route_to_peer_def subscribe_def connection_lost_def
    close_rooms_due_to_sfu_addr_def close_room_due_to_sfu_def drop_local_peer_def Let_def
  by (rule keeps_intros | simp)+

section \<open>Back-off\<close>

text \<open>While the listener runs, its delay stays between the configured bounds.\<close>

definition listener_ok :: "nat \<times> nat \<times> string \<times> Config \<Rightarrow> listener \<times> ('w, 'y) node_scheme \<Rightarrow> bool" where
  "listener_ok c ls \<longleftrightarrow> fixed_part (snd ls) = c \<and> fst c \<le> delay_of (fst ls) \<and> delay_of (fst ls) \<le> fst (snd c)"

lemma listener_step_ok:
  assumes "listener_step E addr ls ls'" "listener_ok c ls" "fst c \<le> fst (snd c)"
  shows "listener_ok c ls'"
proof -
  note k = keepsD [where I = "\<lambda>s. fixed_part s = c"]
  have w: "on_world m s = (r, s') \<Longrightarrow> fixed_part s = c \<Longrightarrow> fixed_part s' = c" for m :: "('a, 'q) act" and r and s s' :: "('a, 'c) node_scheme"
    using k [OF keeps_fixed_basic(1), of s m] by simp
  have b: "fixed_part s = c \<Longrightarrow> backoff_min (sfu s) = fst c \<and> backoff_max (sfu s) = fst (snd c)" for s :: "('a, 'c) node_scheme"
    by (auto simp: fixed_part_def)
  from assms show ?thesis
  proof (cases rule: listener_step.cases)
    case (subscribed s ch s' d)
    then show ?thesis using assms(2) k [OF keeps_fixed_events(2), of s E addr] by (simp add: listener_ok_def)
  next
    case (refused s e s' d)
    then show ?thesis using assms(2) k [OF keeps_fixed_events(2), of s E addr] by (simp add: listener_ok_def)
  next
    case (event ch s ev s' d)
    then show ?thesis using assms(2) w [OF event(3)] k [OF keeps_fixed_events(1), of s' E ev]
      by (simp add: listener_ok_def)
  next
    case (ended ch s s' d)
    then show ?thesis using assms(2,3) w [OF ended(3)] b [of s'] by (simp add: listener_ok_def)
  next
    case (broken ch s e s' d)
    then show ?thesis using assms(2) w [OF broken(3)] by (simp add: listener_ok_def)
  next
    case (closed d s)
    then show ?thesis using assms(2) k [OF keeps_fixed_events(3), of s E addr] by (simp add: listener_ok_def)
  next
    case (slept j d t s)
    then show ?thesis using assms(2,3) b [of s] by (simp add: listener_ok_def next_delay_def)
  qed
qed

text \<open>
  Back-off of the event listener. From its start, however often the stream fails, is refused or
  ends, the delay the listener waits stays between the configured minimum and maximum, and one
  sleep lasts at most one and a half times the delay.
\<close>

theorem listener_backoff_bounded:
  assumes "(listener_step E addr)\<^sup>*\<^sup>* (run_event_listener s, s) (l, s')"
    and "backoff_min (sfu s) \<le> backoff_max (sfu s)"
  shows "backoff_min (sfu s) \<le> delay_of l \<and> delay_of l \<le> backoff_max (sfu s)
    \<and> (\<forall>j \<le> delay_of l div 2. sleep_time (delay_of l) j \<le> delay_of l + backoff_max (sfu s) div 2)"
proof -
  let ?c = "fixed_part s"
  have "listener_ok ?c (l, s')"
    using assms(1)
  proof (induction rule: rtranclp_induct)
    case base
    show ?case using assms(2) by (simp add: listener_ok_def run_event_listener_def fixed_part_def)
  next
    case (step y z)
    show ?case by (rule listener_step_ok [OF step(2,3)]) (simp add: fixed_part_def assms(2))
  qed
  then have d: "backoff_min (sfu s) \<le> delay_of l" "delay_of l \<le> backoff_max (sfu s)"
    by (simp_all add: listener_ok_def fixed_part_def)
  have "sleep_time (delay_of l) j \<le> delay_of l + backoff_max (sfu s) div 2" if "j \<le> delay_of l div 2" for j
    using that div_le_mono [OF d(2), of 2] by (simp add: sleep_time_def)
  with d show ?thesis by blast
qed

theorem listener_backoff_bounded_witness:
  "\<exists>s. (listener_step mem_sig_env ''http://a'')\<^sup>*\<^sup>* (run_event_listener demo_node, demo_node) (Subscribing 400, s)
    \<and> backoff_min (sfu demo_node) \<le> 400 \<and> 400 \<le> backoff_max (sfu demo_node)"
proof -
  let ?step = "listener_step mem_sig_env ''http://a''"
  have b: "backoff_min (sfu demo_node) = 200" "backoff_max (sfu demo_node) = 5000"
    by (simp_all add: demo_node_def state_new_def registry_new_def demo_config_def)
  obtain s1 where s1: "subscribe mem_sig_env ''http://a'' demo_node = (Inr 0, s1)"
    by (simp add: subscribe_def grpc_client_def channel_for_def on_world_def on_sfu_def prog_simps demo_node_def
        state_new_def registry_new_def)
  have f1: "fixed_part s1 = fixed_part demo_node"
    using keepsD [OF keeps_fixed_events(2) refl, of mem_sig_env "''http://a''" demo_node] s1 by simp
  have next1: "on_world (sfu_next_event mem_sig_env 0) s1 = (Inr None, s1)" by (simp add: on_world_def)
  let ?s2 = "snd (connection_lost mem_sig_env ''http://a'' s1)"
  have "fixed_part ?s2 = fixed_part s1" by (rule keepsD [OF keeps_fixed_events(3) refl])
  then have b2: "backoff_min (sfu s1) = 200" "next_delay (sfu ?s2) 200 = 400"
    using f1 b by (simp_all add: fixed_part_def next_delay_def)
  have steps: "?step (Subscribing 200, demo_node) (Streaming 200 0, s1)" "?step (Streaming 200 0, s1) (Lost 200, s1)"
    "?step (Lost 200, s1) (Backing 200, ?s2)" "?step (Backing 200, ?s2) (Subscribing 400, ?s2)"
    using listener_step.subscribed [OF s1, of 200] listener_step.ended [OF next1, of _ 200]
      listener_step.closed [of mem_sig_env "''http://a''" 200 s1] listener_step.slept [of 0 200 200 mem_sig_env "''http://a''" ?s2]
    by (simp_all add: b2 sleep_time_def)
  have run: "?step\<^sup>*\<^sup>* (run_event_listener demo_node, demo_node) (Subscribing 400, ?s2)"
    using steps by (auto simp: run_event_listener_def b intro: converse_rtranclp_into_rtranclp)
  from listener_backoff_bounded [OF run] b have "200 \<le> delay_of (Subscribing 400) \<and> delay_of (Subscribing 400) \<le> 5000" by simp
  then show ?thesis using run b by auto
qed

end
