(* ===== verification/Websocket.thy ===== *)
theory Websocket
  imports Sfu_Events
begin

text \<open>
  \<^verbatim>\<open>websocket.rs\<close>: the handlers of a client connection. The connection context extends the
  state of the node, so that the operations of the node apply to it as they are; \<open>tx\<close> is the
  write half of the connection's own outbound channel. One handler runs from the message to its
  answer without another handler of the same node in between; commands of other nodes are
  interleaved through the environment.
\<close>

section \<open>Connection context\<close>

text \<open>The handle of a lease renewer is the number of the spawned task; stopping it cancels the task.\<close>

record 'w conn = "'w node" +
  ctx_session_id :: "string option"
  cached_session :: "SessionState option"
  allowed_intent :: "string option"
  allowed_room_id :: "string option"
  instance_load_registered :: bool
  lease_renewer :: "nat option"
  cancelled :: "nat list"

definition fresh_context :: "'w node \<Rightarrow> 'w conn" where
  "fresh_context s = node.extend s \<lparr>ctx_session_id = None, cached_session = None, allowed_intent = None,
     allowed_room_id = None, instance_load_registered = False, lease_renewer = None, cancelled = []\<rparr>"

datatype WsHandlerError =
    AlreadyAuthorized | Unauthorized | SessionConflict | NotInRoom | LeaveRoomMismatch | AlreadyInRoom
  | RoomNotFound | NicknameTaken | ParticipantNotInRoom | RedisError | InvalidRoomAssignment
  | SfuCapacityExhausted | SfuUnavailable | SfuRejected | WriteFailed

type_synonym ('w, 'a) handler = "('w conn, WsHandlerError, 'a) prog"

section \<open>Errors\<close>

definition map_error :: "WsHandlerError \<Rightarrow> ServerErrorCode \<times> string" where
  "map_error err =
     (case err of
        WriteFailed \<Rightarrow> (ServerErrorCode.WriteFailed, ''Failed to send message'')
      | AlreadyAuthorized \<Rightarrow> (ServerErrorCode.AlreadyAuthorized, ''Connection is already authorized'')
      | Unauthorized \<Rightarrow> (ServerErrorCode.Unauthorized, ''Unauthorized'')
      | SessionConflict \<Rightarrow> (ServerErrorCode.SessionConflict, ''Invalid or conflicting session'')
      | LeaveRoomMismatch \<Rightarrow> (ServerErrorCode.LeaveRoomMismatch, ''Leave room does not match active room'')
      | AlreadyInRoom \<Rightarrow> (ServerErrorCode.AlreadyInRoom, ''Connection already belongs to a room'')
      | RoomNotFound \<Rightarrow> (ServerErrorCode.RoomNotFound, ''Room not found'')
      | NicknameTaken \<Rightarrow> (ServerErrorCode.NicknameTaken, ''Nickname already taken'')
      | ParticipantNotInRoom \<Rightarrow> (ServerErrorCode.NotInRoom, ''Participant is not in room'')
      | InvalidRoomAssignment \<Rightarrow> (ServerErrorCode.InvalidRoomAssignment, ''Invalid room assignment'')
      | SfuCapacityExhausted \<Rightarrow> (ServerErrorCode.SfuCapacityExhausted, ''No ready SFU capacity is available'')
      | RedisError \<Rightarrow> (ServerErrorCode.StorageUnavailable, ''Storage operation failed'')
      | NotInRoom \<Rightarrow> (ServerErrorCode.NotInRoom, ''Connection is not joined to this room'')
      | SfuUnavailable \<Rightarrow> (ServerErrorCode.SfuUnavailable, ''SFU is unavailable'')
      | SfuRejected \<Rightarrow> (ServerErrorCode.SfuRejected, ''SFU rejected signaling request''))"

definition map_redis_error :: "RedisRoomError \<Rightarrow> WsHandlerError" where
  "map_redis_error err =
     (case err of
        RedisRoomError.RoomNotFound \<Rightarrow> RoomNotFound
      | RedisRoomError.NicknameTaken \<Rightarrow> NicknameTaken
      | RedisRoomError.ParticipantNotInRoom \<Rightarrow> ParticipantNotInRoom
      | NoSfuCapacity \<Rightarrow> SfuCapacityExhausted
      | RoomAlreadyExists \<Rightarrow> InvalidRoomAssignment
      | InvalidRoomTarget \<Rightarrow> InvalidRoomAssignment
      | RedisRoomError.Timeout \<Rightarrow> RedisError
      | Redis _ \<Rightarrow> RedisError)"

definition map_sfu_error :: "SfuClientError \<Rightarrow> WsHandlerError" where
  "map_sfu_error err =
     (case err of
        Transport _ _ \<Rightarrow> SfuUnavailable | Connect _ \<Rightarrow> SfuUnavailable | SfuClientError.Timeout \<Rightarrow> SfuUnavailable
      | Rejected _ \<Rightarrow> SfuRejected)"

text \<open>A Redis operation of a handler, and one of the SFU client.\<close>

definition redisM :: "('w, RedisRoomError, 'a) prog \<Rightarrow> ('w, 'a) handler" where
  "redisM m = map_errM map_redis_error (on_world m)"

definition require_redis :: "('w, 'z) sig_env_scheme \<Rightarrow> ('w, unit) handler" where
  "require_redis E = bindM (is_redis_available E) (\<lambda>up. if up then okM () else failM RedisError)"

section \<open>Socket output\<close>

definition send_message :: "('w, 'z) sig_env_scheme \<Rightarrow> ServerMessage \<Rightarrow> ('w conn, unit, unit) prog" where
  "send_message E payload =
     bindM (on_world (ws_send E payload)) (\<lambda>sent. if sent then okM () else failM ())"

definition send_error :: "('w, 'z) sig_env_scheme \<Rightarrow> ServerErrorCode \<Rightarrow> string \<Rightarrow> ('w conn, unit, unit) prog" where
  "send_error E code message = send_message E (Error code message)"

definition log_write_failure :: "unit \<Rightarrow> WsHandlerError" where
  "log_write_failure err = WriteFailed"

definition reply_with :: "('w, 'z) sig_env_scheme \<Rightarrow> ServerMessage \<Rightarrow> ('w, unit) handler" where
  "reply_with E payload = map_errM log_write_failure (send_message E payload)"

section \<open>Sessions and rooms of a connection\<close>

definition check_session :: "('w, 'z) sig_env_scheme \<Rightarrow> string \<Rightarrow> ('w, SessionState) handler" where
  "check_session E s =
     bindM (getM ctx_session_id) (\<lambda>bound.
       if (case bound of Some b \<Rightarrow> b \<noteq> s | None \<Rightarrow> False) then failM SessionConflict else
       tryM (require_redis E) (\<lambda>_.
       tryM (redisM (session_get E s)) (\<lambda>found.
         case (case found of None \<Rightarrow> None | Some x \<Rightarrow> if nickname x \<noteq> [] then Some x else None) of
           None \<Rightarrow> failM SessionConflict
         | Some session \<Rightarrow>
             bindM (modM (\<lambda>c. c\<lparr>ctx_session_id := Some s, cached_session := Some session\<rparr>)) (\<lambda>_.
             bindM (on_sessions (upsert s session)) (\<lambda>_. okM session)))))"

definition is_local_target :: "Config \<Rightarrow> RoomRoute \<Rightarrow> bool" where
  "is_local_target c route \<longleftrightarrow> owner_host route = signaling_public_host c \<and> owner_port route = signaling_public_port c"

text \<open>One turn of the loop that empties the stack of stale peers, and the loop. The stack is popped
  at its end.\<close>

definition detach_stale_peer :: "('w, 'z) sig_env_scheme \<Rightarrow> string \<Rightarrow> string \<Rightarrow> string
    \<Rightarrow> (('w, 'y) node_scheme, string list) act" where
  "detach_stale_peer E room nick reason =
     bindM (broadcast E room (Some nick) (ParticipantLeft nick)) (\<lambda>more_stale.
     bindM (detach_peer E room nick reason) (\<lambda>_. retM more_stale))"

lemma peers_on_world [simp]: "peers (snd (on_world m s)) = peers s"
  by (simp add: on_world_def)

lemma peers_on_sfu [simp]: "peers (snd (on_sfu f s)) = peers s"
  by (simp add: on_sfu_def prog_simps)

lemma peers_available [simp]: "peers (snd (is_redis_available E s)) = peers s"
  by (simp add: is_redis_available_def prog_simps)

lemma peers_broadcast [simp]: "peers (snd (broadcast E room except m s)) = peers s"
  by (simp add: broadcast_def prog_simps)

lemma peers_delete_peer [simp]: "peers (snd (delete_peer E addr room nick reason s)) = peers s"
proof -
  have "keeps (\<lambda>s. peers s = c) (delete_peer E addr room nick reason)" for c
    unfolding delete_peer_def run_rpc_def grpc_client_def channel_for_def on_world_def on_sfu_def
    by (rule keeps_intros | simp add: keeps_def)+
  from keepsD [OF this refl] show ?thesis .
qed

lemma peers_detach [simp]:
  "peers (snd (detach_peer E room nick reason s)) = unregister room nick (peers s)"
  by (auto simp: detach_peer_def prog_simps on_peers_def split: option.splits sum.splits)

lemma detach_stale_peer_peers [simp]:
  "peers (snd (detach_stale_peer E room nick reason s)) = unregister room nick (peers s)"
  by (simp add: detach_stale_peer_def prog_simps)

lemma detach_stale_peer_more:
  "set (fst (detach_stale_peer E room nick reason s)) \<subseteq> registered (peers s) room - {nick}"
  using broadcast_stale [of "try_send E" "peers s" room "Some nick"]
  by (simp add: detach_stale_peer_def prog_simps broadcast_def on_world_def)

function detach_stale_peers :: "('w, 'z) sig_env_scheme \<Rightarrow> string \<Rightarrow> string list \<Rightarrow> string
    \<Rightarrow> (('w, 'y) node_scheme, unit) act" where
  "detach_stale_peers E room stale reason s =
     (if stale = [] then ((), s)
      else let r = detach_stale_peer E room (last stale) reason s
           in detach_stale_peers E room (butlast stale @ fst r) reason (snd r))"
  by pat_completeness auto

text \<open>The loop ends: a popped peer that is registered is unregistered for good; one that is not is
  replaced by registered ones, or the stack gets shorter.\<close>

termination
proof (relation "measures
    [\<lambda>(E, room, stale, reason, s). card (registered (peers s) room),
     \<lambda>(E, room, stale, reason, s). if stale \<noteq> [] \<and> last stale \<notin> registered (peers s) room then 1 else 0,
     \<lambda>(E, room, stale, reason, s). length stale]", goal_cases)
  case (2 E room stale reason s x)
  let ?n = "last stale"
  have more: "set (fst x) \<subseteq> registered (peers s) room - {?n}"
    unfolding 2(2) by (rule detach_stale_peer_more)
  have reg: "registered (peers (snd x)) room = registered (peers s) room - {?n}"
    unfolding 2(2) by simp
  show ?case
  proof (cases "?n \<in> registered (peers s) room")
    case True
    then have "card (registered (peers s) room - {?n}) < card (registered (peers s) room)"
      by (intro psubset_card_mono) auto
    then show ?thesis using reg by simp
  next
    case False
    then have same: "registered (peers (snd x)) room = registered (peers s) room" using reg by simp
    show ?thesis
    proof (cases "fst x = []")
      case True
      then show ?thesis using 2(1) False same by simp
    next
      case ne: False
      have "last (fst x) \<in> registered (peers s) room" using more last_in_set [OF ne] by blast
      then have "last (butlast stale @ fst x) \<in> registered (peers s) room" using ne by simp
      then show ?thesis using 2(1) False same ne by simp
    qed
  qed
qed simp

declare detach_stale_peers.simps [simp del]

definition leave_room_and_notify :: "('w, 'z) sig_env_scheme \<Rightarrow> string \<Rightarrow> string \<Rightarrow> string
    \<Rightarrow> (('w, 'y) node_scheme, unit) act" where
  "leave_room_and_notify E room nick reason =
     bindM (detach_peer E room nick reason) (\<lambda>_.
     bindM (broadcast E room (Some nick) (ParticipantLeft nick)) (\<lambda>stale.
     detach_stale_peers E room stale ''stale_sender''))"

definition leave_room :: "('w, 'z) sig_env_scheme \<Rightarrow> string \<Rightarrow> string \<Rightarrow> string \<Rightarrow> string list option \<Rightarrow> string
    \<Rightarrow> ('w, unit) handler" where
  "leave_room E s room nick participants reason =
     tryM (require_redis E) (\<lambda>_.
     bindM (detach_peer E room nick reason) (\<lambda>_.
     bindM (broadcast E room (Some nick) (ParticipantLeft nick)) (\<lambda>stale.
     bindM (detach_stale_peers E room stale ''stale_sender'') (\<lambda>_.
     tryM (redisM (session_set_room E s None)) (\<lambda>_.
     bindM (on_sessions (set_room s None)) (\<lambda>_.
     bindM (modM (\<lambda>c. c\<lparr>cached_session := map_option (\<lambda>x. x\<lparr>room_id := None\<rparr>) (cached_session c)\<rparr>)) (\<lambda>_.
     okM ())))))))"

text \<open>The context of a connection that entered a room.\<close>

definition enter_room :: "string \<Rightarrow> string \<Rightarrow> ('w conn, unit) act" where
  "enter_room s room =
     bindM (on_sessions (set_room s (Some room))) (\<lambda>_.
     modM (\<lambda>c. c\<lparr>cached_session := map_option (\<lambda>x. x\<lparr>room_id := Some room\<rparr>) (cached_session c)\<rparr>))"

section \<open>Create and join\<close>

definition handle_join_locked :: "('w, 'z) sig_env_scheme \<Rightarrow> sender \<Rightarrow> string \<Rightarrow> string \<Rightarrow> ('w, unit) handler" where
  "handle_join_locked E tx s room =
     tryM (check_session E s) (\<lambda>session.
     if room_id session \<noteq> None then failM AlreadyInRoom else
     bindM (getM (\<lambda>c. allowed_intent c = Some ''join'' \<and> allowed_room_id c = Some room)) (\<lambda>allowed.
     if \<not> allowed then failM Unauthorized else
     tryM (redisM (get_room_route E room)) (\<lambda>route.
     bindM (getM (\<lambda>c. is_local_target (config c) route)) (\<lambda>local.
     if \<not> local then failM InvalidRoomAssignment else
     if room_state route \<noteq> ''active'' then failM InvalidRoomAssignment else
     (case sfu_grpc_addr route of
        None \<Rightarrow> failM SfuUnavailable
      | Some addr \<Rightarrow>
          tryM (redisM (join_room E room (nickname session))) (\<lambda>participants.
          bindM (ensure_peer E addr room (nickname session)) (\<lambda>made.
            case made of
              Inl err \<Rightarrow>
                bindM (on_world (srem_member E room (nickname session))) (\<lambda>_. failM (map_sfu_error err))
            | Inr _ \<Rightarrow>
                tryM (redisM (session_set_room E s (Some room))) (\<lambda>_.
                bindM (enter_room s room) (\<lambda>_.
                tryM (reply_with E (Joined room (nickname session) participants)) (\<lambda>_.
                bindM (on_peers (register room (nickname session) tx (Some addr))) (\<lambda>_.
                bindM (broadcast E room (Some (nickname session)) (ParticipantJoined (nickname session))) (\<lambda>stale.
                bindM (detach_stale_peers E room stale ''stale_sender'') (\<lambda>_. okM ())))))))))))))"

definition handle_create_locked :: "('w, 'z) sig_env_scheme \<Rightarrow> sender \<Rightarrow> string \<Rightarrow> ('w, unit) handler" where
  "handle_create_locked E tx s =
     tryM (check_session E s) (\<lambda>session.
     if room_id session \<noteq> None then failM AlreadyInRoom else
     bindM (getM (\<lambda>c. allowed_intent c = Some ''create'')) (\<lambda>allowed.
     if \<not> allowed then failM Unauthorized else
     bindM (on_world (new_uuid E)) (\<lambda>room.
     bindM (getM config) (\<lambda>cfg.
     tryM (redisM (assign_room_to_least_loaded_sfu E room (public_node_id cfg)
             (signaling_public_host cfg) (signaling_public_port cfg))) (\<lambda>assignment.
     let addr = assigned_grpc_addr assignment in
     bindM (on_world (join_room E room (nickname session))) (\<lambda>joined.
       case joined of
         Inl err \<Rightarrow> bindM (on_world (close_room_binding E room)) (\<lambda>_. failM (map_redis_error err))
       | Inr _ \<Rightarrow>
           bindM (ensure_peer E addr room (nickname session)) (\<lambda>made.
             case made of
               Inl err \<Rightarrow>
                 bindM (on_world (srem_member E room (nickname session))) (\<lambda>_.
                 bindM (on_world (close_room_binding E room)) (\<lambda>_. failM (map_sfu_error err)))
             | Inr _ \<Rightarrow>
                 tryM (redisM (session_set_room E s (Some room))) (\<lambda>_.
                 bindM (enter_room s room) (\<lambda>_.
                 tryM (reply_with E (Created room (nickname session))) (\<lambda>_.
                 bindM (on_peers (register room (nickname session) tx (Some addr))) (\<lambda>_. okM ()))))))))))) "

text \<open>Both run under the lock of the session, which is released whatever their result.\<close>

definition with_session_lock :: "('w, 'z) sig_env_scheme \<Rightarrow> string \<Rightarrow> ('w, unit) handler \<Rightarrow> ('w, unit) handler" where
  "with_session_lock E s body =
     tryM (require_redis E) (\<lambda>_.
     bindM (on_world (new_uuid E)) (\<lambda>lock_owner.
     bindM (getM (\<lambda>c. session_lock_ttl (config c))) (\<lambda>ttl.
     tryM (redisM (acquire_session_lock E s lock_owner ttl)) (\<lambda>acquired.
     if \<not> acquired then failM SessionConflict else
     bindM body (\<lambda>result.
     bindM (on_world (release_session_lock E s lock_owner)) (\<lambda>_. lift_result result))))))"

definition handle_create :: "('w, 'z) sig_env_scheme \<Rightarrow> sender \<Rightarrow> string \<Rightarrow> ('w, unit) handler" where
  "handle_create E tx s = with_session_lock E s (handle_create_locked E tx s)"

definition handle_join :: "('w, 'z) sig_env_scheme \<Rightarrow> sender \<Rightarrow> string \<Rightarrow> string \<Rightarrow> ('w, unit) handler" where
  "handle_join E tx s room = with_session_lock E s (handle_join_locked E tx s room)"

section \<open>Attach and logout\<close>

text \<open>One tick of the renewer task, and its start and stop.\<close>

definition renewer_tick :: "('w, 'z) sig_env_scheme \<Rightarrow> string \<Rightarrow> (('w, 'y) node_scheme, unit) act" where
  "renewer_tick E s =
     bindM (is_redis_available E) (\<lambda>up.
       if \<not> up then retM () else
       bindM (getM (\<lambda>n. session_ttl (config n))) (\<lambda>ttl.
       ignoreM (on_world (renew_session_ttl E s ttl))))"

definition spawn_lease_renewer :: "string \<Rightarrow> string \<Rightarrow> ('w conn, nat) act" where
  "spawn_lease_renewer s nick =
     bindM (getM (\<lambda>c. length (spawned c))) (\<lambda>handle.
     bindM (spawn (LeaseRenewer handle s)) (\<lambda>_. retM handle))"

definition stop_renewer :: "('w conn, unit) act" where
  "stop_renewer = modM (\<lambda>c. case lease_renewer c of None \<Rightarrow> c
     | Some h \<Rightarrow> c\<lparr>lease_renewer := None, cancelled := cancelled c @ [h]\<rparr>)"

definition jti_ttl :: "ConnectorClaims \<Rightarrow> nat" where
  "jti_ttl claims = 1000 * ((max (unat (exp_at claims) - unat (iat claims)) 60 + 30) mod 2 ^ 64)"

definition handle_attach :: "('w, 'z) sig_env_scheme \<Rightarrow> string \<Rightarrow> ('w, unit) handler" where
  "handle_attach E token =
     bindM (getM ctx_session_id) (\<lambda>bound.
     if bound \<noteq> None then failM AlreadyAuthorized else
     tryM (require_redis E) (\<lambda>_.
     bindM (getM config) (\<lambda>cfg.
     tryM (map_errM (\<lambda>_. Unauthorized) (on_world (validate_connector_token (jwt_decode E) token
             (connector_token_secret cfg) (public_node_id cfg)))) (\<lambda>claims.
     tryM (if jti claims = [] then okM True else redisM (consume_jti E (jti claims) (jti_ttl claims))) (\<lambda>consumed.
     if \<not> consumed then failM Unauthorized else
     tryM (redisM (session_get E (session_id claims))) (\<lambda>found.
       case (case found of None \<Rightarrow> None | Some x \<Rightarrow> if nickname x = claim_nickname claims then Some x else None) of
         None \<Rightarrow> failM Unauthorized
       | Some session \<Rightarrow>
           tryM (redisM (session_set_owner E (session_id claims) (public_node_id cfg))) (\<lambda>_.
           bindM (modM (\<lambda>c. c\<lparr>ctx_session_id := Some (session_id claims), cached_session := Some session,
                     allowed_intent := Some (intent claims), allowed_room_id := claim_room_id claims\<rparr>)) (\<lambda>_.
           tryM (redisM (increment_instance_load E (public_node_id cfg))) (\<lambda>_.
           bindM (modM (\<lambda>c. c\<lparr>instance_load_registered := True\<rparr>)) (\<lambda>_.
           bindM (spawn_lease_renewer (session_id claims) (nickname session)) (\<lambda>h.
           bindM (modM (\<lambda>c. c\<lparr>lease_renewer := Some h\<rparr>)) (\<lambda>_.
           bindM (on_sessions (upsert (session_id claims) session)) (\<lambda>_.
           reply_with E (Attached (nickname session) (session_id claims)))))))))))))))"

definition handle_logout :: "('w, 'z) sig_env_scheme \<Rightarrow> string \<Rightarrow> string list option \<Rightarrow> ('w, unit) handler" where
  "handle_logout E s participants =
     tryM (check_session E s) (\<lambda>session.
     tryM (case room_id session of
             None \<Rightarrow> okM ()
           | Some room \<Rightarrow> leave_room E s room (nickname session) participants ''user_logout'') (\<lambda>_.
     bindM (is_redis_available E) (\<lambda>up.
     bindM (getM config) (\<lambda>cfg.
     tryM (if \<not> up then okM () else
           bindM (getM instance_load_registered) (\<lambda>registered_load.
           tryM (if registered_load
                 then tryM (redisM (decrement_instance_load E (public_node_id cfg))) (\<lambda>_.
                      bindM (modM (\<lambda>c. c\<lparr>instance_load_registered := False\<rparr>)) (\<lambda>_. okM ()))
                 else okM ()) (\<lambda>_.
           tryM (redisM (release_nick_lease E (nickname session) s)) (\<lambda>_.
           redisM (session_delete E s))))) (\<lambda>_.
     bindM (on_sessions (session_remove s)) (\<lambda>_.
     bindM stop_renewer (\<lambda>_.
     bindM (modM (\<lambda>c. c\<lparr>ctx_session_id := None, cached_session := None\<rparr>)) (\<lambda>_.
     reply_with E (LoggedOut (nickname session))))))))))"

section \<open>Leave and media\<close>

definition handle_leave :: "('w, 'z) sig_env_scheme \<Rightarrow> string \<Rightarrow> string \<Rightarrow> string list option \<Rightarrow> ('w, unit) handler" where
  "handle_leave E s room participants =
     tryM (check_session E s) (\<lambda>session.
       case room_id session of
         None \<Rightarrow> failM NotInRoom
       | Some current \<Rightarrow>
           if current \<noteq> room then failM LeaveRoomMismatch else
           tryM (leave_room E s room (nickname session) participants ''user_left'') (\<lambda>_.
           reply_with E (Left room)))"

text \<open>The SFU of the room a session is in.\<close>

definition session_sfu :: "('w, 'z) sig_env_scheme \<Rightarrow> SessionState \<Rightarrow> ('w, string \<times> string) handler" where
  "session_sfu E session =
     (case room_id session of
        None \<Rightarrow> failM NotInRoom
      | Some room \<Rightarrow>
          tryM (redisM (get_room_route E room)) (\<lambda>route.
            case sfu_grpc_addr route of None \<Rightarrow> failM SfuUnavailable | Some addr \<Rightarrow> okM (room, addr)))"

definition handle_sdp_message :: "('w, 'z) sig_env_scheme \<Rightarrow> string \<Rightarrow> string \<Rightarrow> string \<Rightarrow> ('w, unit) handler" where
  "handle_sdp_message E s sdp sdp_type =
     tryM (check_session E s) (\<lambda>session.
     tryM (session_sfu E session) (\<lambda>(room, addr).
     tryM (map_errM map_sfu_error (handle_sdp E addr room (nickname session) sdp sdp_type)) (\<lambda>resp.
     reply_with E (ServerMessage.Sdp ''sfu'' (remote_sdp resp) (remote_sdp_type resp)))))"

definition handle_candidate :: "('w, 'z) sig_env_scheme \<Rightarrow> string \<Rightarrow> string \<Rightarrow> string \<Rightarrow> ('w, unit) handler" where
  "handle_candidate E s candidate sdp_mid =
     tryM (check_session E s) (\<lambda>session.
     tryM (session_sfu E session) (\<lambda>(room, addr).
     map_errM map_sfu_error (add_ice_candidate E addr room (nickname session) candidate sdp_mid)))"

fun handle_client_message :: "('w, 'z) sig_env_scheme \<Rightarrow> sender \<Rightarrow> ClientMessage \<Rightarrow> ('w, unit) handler" where
  "handle_client_message E tx (Attach token) = handle_attach E token"
| "handle_client_message E tx (Logout s participants) = handle_logout E s participants"
| "handle_client_message E tx (Create s) = handle_create E tx s"
| "handle_client_message E tx (Join s room) = handle_join E tx s room"
| "handle_client_message E tx (Leave s room participants) = handle_leave E s room participants"
| "handle_client_message E tx (ClientMessage.Sdp s sdp sdp_type) = handle_sdp_message E s sdp sdp_type"
| "handle_client_message E tx (ClientMessage.Candidate s candidate sdp_mid) = handle_candidate E s candidate sdp_mid"

section \<open>The connection\<close>

definition cleanup_connection :: "('w, 'z) sig_env_scheme \<Rightarrow> ('w conn, unit) act" where
  "cleanup_connection E =
     bindM stop_renewer (\<lambda>_.
     bindM (getM ctx_session_id) (\<lambda>bound.
       case bound of
         None \<Rightarrow> retM ()
       | Some s \<Rightarrow>
           bindM (is_redis_available E) (\<lambda>up.
           if \<not> up then on_sessions (session_remove s) else
           bindM (getM (\<lambda>c. session_lookup (sessions c) s)) (\<lambda>local.
           bindM (case local of
                    Some session \<Rightarrow> retM (Some session)
                  | None \<Rightarrow> bindM (on_world (session_get E s)) (\<lambda>r.
                      retM (case r of Inr found \<Rightarrow> found | Inl _ \<Rightarrow> None))) (\<lambda>found.
             case found of
               None \<Rightarrow> on_sessions (session_remove s)
             | Some session \<Rightarrow>
                 bindM (case room_id session of
                          None \<Rightarrow> retM ()
                        | Some room \<Rightarrow>
                            bindM (leave_room_and_notify E room (nickname session) ''signaling_disconnected'') (\<lambda>_.
                            bindM (on_world (session_set_room E s None)) (\<lambda>_.
                            on_sessions (set_room s None)))) (\<lambda>_.
                 bindM (getM instance_load_registered) (\<lambda>registered_load.
                 bindM (if registered_load
                        then bindM (getM config) (\<lambda>cfg.
                             ignoreM (on_world (decrement_instance_load E (public_node_id cfg))))
                        else retM ()) (\<lambda>_.
                 on_sessions (session_remove s))))))))) "

datatype ws_event =
    HeartbeatTick | ReadTimeout | TextFrame string | CloseFrame | StreamEnd | PongFrame | OtherFrame | ReadError
  | Outbound ServerMessage | OutboundClosed

datatype flow = Continue | Break

definition flow_of :: "'e + 'a \<Rightarrow> flow" where
  "flow_of r = (case r of Inr _ \<Rightarrow> Continue | Inl _ \<Rightarrow> Break)"

definition on_text :: "('w, 'z) sig_env_scheme \<Rightarrow> sender \<Rightarrow> string \<Rightarrow> ('w conn, flow) act" where
  "on_text E tx text =
     (case parse_client_message E text of
        None \<Rightarrow> bindM (send_error E InvalidJson ''Malformed JSON'') (\<lambda>r. retM (flow_of r))
      | Some msg \<Rightarrow>
          (case validate (uuid_ok E) msg of
             Inl err \<Rightarrow> bindM (send_error E InvalidPayload (validation_text err)) (\<lambda>r. retM (flow_of r))
           | Inr _ \<Rightarrow>
               bindM (handle_client_message E tx msg) (\<lambda>result.
                 case result of
                   Inr _ \<Rightarrow> retM Continue
                 | Inl err \<Rightarrow>
                     if err = WriteFailed then retM Break
                     else bindM (send_error E (fst (map_error err)) (snd (map_error err))) (\<lambda>r. retM (flow_of r)))))"

fun ws_step :: "('w, 'z) sig_env_scheme \<Rightarrow> sender \<Rightarrow> ws_event \<Rightarrow> ('w conn, flow) act" where
  "ws_step E tx HeartbeatTick = bindM (on_world (ws_ping E)) (\<lambda>sent. retM (if sent then Continue else Break))"
| "ws_step E tx ReadTimeout = retM Break"
| "ws_step E tx (TextFrame text) = on_text E tx text"
| "ws_step E tx CloseFrame = retM Break"
| "ws_step E tx StreamEnd = retM Break"
| "ws_step E tx PongFrame = retM Continue"
| "ws_step E tx OtherFrame = retM Continue"
| "ws_step E tx ReadError = retM Break"
| "ws_step E tx (Outbound payload) = bindM (send_message E payload) (\<lambda>r. retM (flow_of r))"
| "ws_step E tx OutboundClosed = retM Break"

text \<open>The loop over the events the select statement takes, in the order it takes them; the result
  tells whether the connection ended (and was cleaned up).\<close>

fun handle_ws :: "('w, 'z) sig_env_scheme \<Rightarrow> sender \<Rightarrow> ws_event list \<Rightarrow> ('w conn, bool) act" where
  "handle_ws E tx [] = retM False"
| "handle_ws E tx (ev # evs) =
     bindM (ws_step E tx ev) (\<lambda>f.
       case f of
         Continue \<Rightarrow> handle_ws E tx evs
       | Break \<Rightarrow> bindM (cleanup_connection E) (\<lambda>_. retM True))"

text \<open>A new connection is refused with status 503 once the node purges.\<close>

definition ws_upgrade :: "'w node \<Rightarrow> (nat \<times> string) + 'w conn" where
  "ws_upgrade s = (if is_purging s then Inl (503, ''service degraded'') else Inr (fresh_context s))"

end
