(* ===== verification/Node_Invariants.thy ===== *)
theory Node_Invariants
  imports Websocket
begin

text \<open>
  A whole signaling node: its state, its open connections and its spawned tasks, as a
  step relation. What holds in every reachable state whatever Redis, the SFUs and the clients
  do: the two registries are well formed, a purge is final, no lease renewer outlives the connection
  that started it. Each handler and each task turn is one step; the registries are behind locks in
  the code, and their invariants are kept by every single registry operation, hence also when
  handlers interleave.
\<close>

section \<open>Runs from one condition to another\<close>

definition leads :: "('s \<Rightarrow> bool) \<Rightarrow> ('s \<Rightarrow> bool) \<Rightarrow> ('s, 'a) act \<Rightarrow> bool" where
  "leads P Q m \<longleftrightarrow> (\<forall>s. P s \<longrightarrow> Q (snd (m s)))"

named_theorems leads_intros "rules for runs from one condition to another"

lemma leads_bindM [leads_intros]: "keeps P m \<Longrightarrow> (\<And>x. leads P Q (f x)) \<Longrightarrow> leads P Q (bindM m f)"
  by (simp add: leads_def keeps_def prog_simps)

lemma leads_tryM [leads_intros]:
  "keeps P m \<Longrightarrow> (\<And>x. leads P Q (f x)) \<Longrightarrow> (\<And>s. P s \<Longrightarrow> Q s) \<Longrightarrow> leads P Q (tryM m f)"
  by (auto simp: leads_def keeps_def prog_simps split: sum.splits)

lemma leads_then: "leads P Q m \<Longrightarrow> (\<And>x. keeps Q (f x)) \<Longrightarrow> leads P Q (bindM m f)"
  by (simp add: leads_def keeps_def prog_simps)

lemma leads_if [leads_intros]: "leads P Q a \<Longrightarrow> leads P Q b \<Longrightarrow> leads P Q (if c then a else b)"
  by simp

lemma leads_option [leads_intros]:
  "leads P Q a \<Longrightarrow> (\<And>x. leads P Q (b x)) \<Longrightarrow> leads P Q (case z of None \<Rightarrow> a | Some x \<Rightarrow> b x)"
  by (cases z) auto

lemma leads_fail [leads_intros]: "(\<And>s. P s \<Longrightarrow> Q s) \<Longrightarrow> leads P Q (failM e)"
  by (simp add: leads_def prog_simps)

section \<open>Invariants of a node\<close>

text \<open>The loop over stale peers keeps what one turn keeps.\<close>

lemma keeps_detach_stale [keeps_intros]:
  assumes "\<And>nick. keeps I (detach_stale_peer E room nick reason)"
  shows "keeps I (detach_stale_peers E room stale reason)"
proof (rule keepsI)
  fix s assume "I s"
  then show "I (snd (detach_stale_peers E room stale reason s))"
    using assms
  proof (induction E room stale reason s rule: detach_stale_peers.induct)
    case (1 E room stale reason s)
    show ?case
    proof (cases "stale = []")
      case True
      then show ?thesis using 1(2) by (subst detach_stale_peers.simps) simp
    next
      case False
      from 1(1) [OF False refl keepsD [OF 1(3) 1(2)] 1(3)] False show ?thesis
        by (subst detach_stale_peers.simps) (simp add: Let_def)
    qed
  qed
qed

definition is_renewer :: "task \<Rightarrow> bool" where
  "is_renewer t \<longleftrightarrow> (case t of LeaseRenewer _ _ \<Rightarrow> True | _ \<Rightarrow> False)"

text \<open>
  The contract of an invariant of the node: every elementary update of the node's state keeps it. Then
  every operation of the node, of its SFU client and of its admin service does.
\<close>

locale node_kept =
  fixes I :: "('w, 'y) node_scheme \<Rightarrow> bool"
  assumes world_kept: "I s \<Longrightarrow> I (s\<lparr>world := w\<rparr>)"
    and sfu_kept: "I s \<Longrightarrow> I (s\<lparr>sfu := reg\<rparr>)"
    and register_kept: "I s \<Longrightarrow> I (s\<lparr>peers := register room nick tx addr (peers s)\<rparr>)"
    and unregister_kept: "I s \<Longrightarrow> I (s\<lparr>peers := unregister room nick (peers s)\<rparr>)"
    and no_peers_kept: "I s \<Longrightarrow> I (s\<lparr>peers := peers_clear (peers s)\<rparr>)"
    and sessions_kept: "I s \<Longrightarrow> I (s\<lparr>sessions := session_step op (sessions s)\<rparr>)"
    and purging_kept: "I s \<Longrightarrow> I (s\<lparr>purging := True\<rparr>)"
    and spawned_kept: "I s \<Longrightarrow> \<not> is_renewer t \<Longrightarrow> I (s\<lparr>spawned := spawned s @ [t]\<rparr>)"
begin

lemma kept_on_world: "keeps I (on_world m)"
  using world_kept by (simp add: keeps_def on_world_def)

lemma kept_on_sfu: "keeps I (on_sfu f)"
  using sfu_kept by (simp add: keeps_def on_sfu_def prog_simps)

lemma kept_on_peers:
  "keeps I (on_peers (register room nick tx addr))"
  "keeps I (on_peers (unregister room nick))"
  "keeps I (on_peers peers_clear)"
  using register_kept unregister_kept no_peers_kept by (simp_all add: keeps_def on_peers_def prog_simps)

lemma kept_on_sessions:
  "keeps I (on_sessions (upsert sid x))"
  "keeps I (on_sessions (session_remove sid))"
  "keeps I (on_sessions (set_room sid r))"
  "keeps I (on_sessions sessions_clear)"
  using sessions_kept [of _ "OpUpsert sid x"] sessions_kept [of _ "OpRemove sid"] sessions_kept [of _ "OpSetRoom sid r"]
    sessions_kept [of _ OpClear] by (simp_all add: keeps_def on_sessions_def prog_simps)

lemma kept_clear_room:
  "keeps I (\<lambda>s. case clear_room room (sessions s) of (ids, st) \<Rightarrow> (ids, s\<lparr>sessions := st\<rparr>))"
  using sessions_kept [of _ "OpClearRoom room"] by (auto simp: keeps_def split: prod.splits) (metis snd_conv)

lemma kept_spawn: "\<not> is_renewer t \<Longrightarrow> keeps I (spawn t)"
  using spawned_kept by (simp add: keeps_def spawn_def prog_simps)

lemma kept_begin_purge: "keeps I try_begin_purge"
  using purging_kept by (simp add: keeps_def try_begin_purge_def)

lemmas kept_basic = kept_on_world kept_on_sfu kept_on_peers kept_on_sessions kept_clear_room kept_begin_purge

lemma kept_listener: "keeps I (ensure_listener addr)"
  unfolding ensure_listener_def by (rule keeps_intros kept_basic kept_spawn | simp add: is_renewer_def)+

lemma kept_client:
  "keeps I (grpc_client E addr)"
  "keeps I (run_rpc E addr req)"
  "keeps I (delete_peer E addr room nick reason)"
  "keeps I (ensure_peer E addr room nick)"
  "keeps I (handle_sdp E addr room nick sdp sdp_type)"
  "keeps I (add_ice_candidate E addr room nick candidate sdp_mid)"
  unfolding delete_peer_def run_rpc_def grpc_client_def channel_for_def ensure_peer_def
    handle_sdp_def add_ice_candidate_def Let_def
  by (rule keeps_intros kept_basic kept_listener)+

lemma kept_state:
  "keeps I (is_redis_available E)"
  "keeps I (broadcast E room except payload)"
  "keeps I (detach_peer E room nick reason)"
  "keeps I (run_purge E r)"
  "keeps I (close_rooms_due_to_sfu_addr E addr why)"
  unfolding is_redis_available_def broadcast_def detach_peer_def run_purge_def purge_peer_def
    close_rooms_due_to_sfu_addr_def close_room_due_to_sfu_def drop_local_peer_def
  by (rule keeps_intros kept_basic kept_client)+

lemma kept_admin: "keeps I (admin_purge why)" "keeps I (close_rooms_by_sfu addr why)"
  unfolding admin_purge_def close_rooms_by_sfu_def by (rule keeps_intros kept_spawn | simp add: is_renewer_def)+

lemma kept_events:
  "keeps I (handle_sfu_event E ev)" "keeps I (subscribe E addr)" "keeps I (connection_lost E addr)"
  "keeps I (renewer_tick E sid)"
  unfolding handle_sfu_event_def broadcast_detach_def route_to_peer_def subscribe_def connection_lost_def
    renewer_tick_def Let_def
  by (rule keeps_intros kept_basic kept_client kept_state)+

lemma kept_listener_step:
  assumes "listener_step E addr (l, s) (l', s')" "I s"
  shows "I s'"
  using assms(1)
proof (cases rule: listener_step.cases)
  case (event ch s1 ev d)
  then show ?thesis using assms(2) keepsD [OF kept_on_world] keepsD [OF kept_events(1)] by (metis snd_conv)
qed (use assms(2) keepsD [OF kept_on_world, of s] keepsD [OF kept_events(2), of s] keepsD [OF kept_events(3), of s]
  in \<open>metis snd_conv\<close>)+

lemma kept_stale: "keeps I (detach_stale_peers E room stale reason)"
  unfolding detach_stale_peer_def by (rule keeps_intros) (unfold detach_stale_peer_def, (rule keeps_intros kept_state)+)

lemma kept_leave: "keeps I (leave_room_and_notify E room nick reason)"
  unfolding leave_room_and_notify_def by (rule keeps_intros kept_state kept_stale)+

lemmas kept_all = kept_basic kept_client kept_state kept_events kept_stale kept_leave

end

text \<open>The same for the state of a connection: the operations that change its own part are to keep the
  invariant, too.\<close>

locale conn_kept = node_kept I for I :: "'w conn \<Rightarrow> bool" +
  fixes E :: "('w, 'z) sig_env_scheme"
  assumes cached_kept: "I c \<Longrightarrow> I (c\<lparr>cached_session := x\<rparr>)"
    and check_kept: "keeps I (check_session E sid)"
    and attach_kept: "keeps I (handle_attach E token)"
    and logout_kept: "keeps I (handle_logout E sid ps)"
    and stop_kept: "keeps I stop_renewer"
begin

lemma kept_conn:
  "keeps I (require_redis E)" "keeps I (redisM op)" "keeps I (send_message E payload)"
  "keeps I (reply_with E payload)" "keeps I (session_sfu E session)"
  unfolding require_redis_def redisM_def send_message_def reply_with_def session_sfu_def
  by (rule keeps_intros kept_all)+

lemma kept_rooms: "keeps I (leave_room E sid room nick ps reason)" "keeps I (enter_room sid room)"
  unfolding leave_room_def enter_room_def
  by (rule keeps_intros kept_all kept_conn cached_kept | assumption)+

lemma kept_locked: "keeps I (handle_create_locked E tx sid)" "keeps I (handle_join_locked E tx sid room)"
  unfolding handle_create_locked_def handle_join_locked_def Let_def
  by (rule keeps_intros kept_all kept_conn kept_rooms check_kept)+

lemma kept_with_lock: "keeps I body \<Longrightarrow> keeps I (with_session_lock E sid body)"
  unfolding with_session_lock_def by (rule keeps_intros kept_all kept_conn | assumption)+

lemma kept_message: "keeps I (handle_client_message E tx msg)"
  by (cases msg) (simp_all add: handle_create_def handle_join_def handle_leave_def handle_sdp_message_def
      handle_candidate_def attach_kept logout_kept kept_with_lock kept_locked,
      (rule keeps_intros kept_all kept_conn kept_rooms check_kept)+)

lemma kept_connection: "keeps I (cleanup_connection E)" "keeps I (on_text E tx text)"
  unfolding cleanup_connection_def on_text_def send_error_def
  by (rule keeps_intros kept_all kept_conn stop_kept kept_message)+

lemma kept_step: "keeps I (ws_step E tx ev)"
  by (cases ev) (auto intro!: keeps_intros kept_conn kept_connection kept_on_world)

end

section \<open>Well-formed registries\<close>

definition node_ok :: "('w, 'y) node_scheme \<Rightarrow> bool" where
  "node_ok s \<longleftrightarrow> peers_ok (peers s) \<and> sessions_ok (sessions s)"

lemma session_step_ok [simp]: "sessions_ok st \<Longrightarrow> sessions_ok (session_step op st)"
  using session_steps_ok [of st "[op]"] by simp

interpretation ok_node: node_kept node_ok
  by unfold_locales (simp_all add: node_ok_def peers_clear_def)

lemmas conn_part_defs = check_session_def handle_attach_def handle_logout_def stop_renewer_def
  spawn_lease_renewer_def leave_room_def redisM_def require_redis_def reply_with_def send_message_def

lemma ok_spawn: "keeps node_ok (spawn t)"
  by (simp add: keeps_def spawn_def prog_simps node_ok_def)

interpretation ok_conn: conn_kept node_ok E for E :: "('w, 'z) sig_env_scheme"
  by unfold_locales (unfold conn_part_defs,
    (rule keeps_intros ok_node.kept_all ok_spawn | simp add: node_ok_def split: option.split)+)

section \<open>The node as a step relation\<close>

text \<open>
  \<open>sys_conns\<close> holds the context of each open connection, by the handle of its channel; its node part
  is replaced by the current state of the node before it runs. \<open>sys_cancelled\<close> collects the renewers
  stopped so far.
\<close>

record 'w system =
  sys_node :: "'w node"
  sys_conns :: "sender \<rightharpoonup> 'w conn"
  sys_cancelled :: "nat set"

definition load_conn :: "'w node \<Rightarrow> 'w conn \<Rightarrow> 'w conn" where
  "load_conn n c = node.extend n (node.more c)"

inductive task_step :: "('w, 'z) sig_env_scheme \<Rightarrow> task \<Rightarrow> 'w node \<Rightarrow> 'w node \<Rightarrow> bool" for E where
  listening: "listener_step E addr (l, n) (l', n') \<Longrightarrow> task_step E (EventListener addr) n n'"
| renewing: "task_step E (LeaseRenewer h sid) n (snd (renewer_tick E sid n))"
| purging_node: "task_step E (PurgeTask r) n (snd (run_purge E r n))"
| closing: "task_step E (CloseRoomsTask addr why) n (snd (close_rooms_due_to_sfu_addr E addr why n))"

inductive sys_step :: "('w, 'z) sig_env_scheme \<Rightarrow> 'w system \<Rightarrow> 'w system \<Rightarrow> bool" for E where
  accepted: "ws_upgrade (sys_node S) = Inr c \<Longrightarrow> sys_conns S tx = None \<Longrightarrow>
    sys_step E S (S\<lparr>sys_conns := (sys_conns S)(tx \<mapsto> c)\<rparr>)"
| served: "sys_conns S tx = Some c \<Longrightarrow> ws_step E tx ev (load_conn (sys_node S) c) = (Continue, c') \<Longrightarrow>
    sys_step E S (S\<lparr>sys_node := node.truncate c', sys_conns := (sys_conns S)(tx \<mapsto> c'),
      sys_cancelled := sys_cancelled S \<union> set (cancelled c')\<rparr>)"
| ended: "sys_conns S tx = Some c \<Longrightarrow> ws_step E tx ev (load_conn (sys_node S) c) = (Break, c') \<Longrightarrow>
    c'' = snd (cleanup_connection E c') \<Longrightarrow>
    sys_step E S (S\<lparr>sys_node := node.truncate c'', sys_conns := (sys_conns S)(tx := None),
      sys_cancelled := sys_cancelled S \<union> set (cancelled c'')\<rparr>)"
| task: "t \<in> set (spawned (sys_node S)) \<Longrightarrow> task_step E t (sys_node S) n \<Longrightarrow> sys_step E S (S\<lparr>sys_node := n\<rparr>)"
| purge_requested: "sys_step E S (S\<lparr>sys_node := snd (admin_purge why (sys_node S))\<rparr>)"
| close_requested: "sys_step E S (S\<lparr>sys_node := snd (close_rooms_by_sfu addr why (sys_node S))\<rparr>)"
| outside: "sys_step E S (S\<lparr>sys_node := (sys_node S)\<lparr>world := w\<rparr>\<rparr>)"

inductive_cases task_stepE: "task_step E t n n'"

definition sys_start :: "'w \<Rightarrow> Config \<Rightarrow> 'w system" where
  "sys_start w c = \<lparr>sys_node = state_new w c, sys_conns = Map.empty, sys_cancelled = {}\<rparr>"

text \<open>A property of nodes kept by every operation of the node is kept by every step.\<close>

locale node_invariant = nd: node_kept I + cn: conn_kept C E
    for I :: "'w node \<Rightarrow> bool" and C :: "'w conn \<Rightarrow> bool" and E :: "('w, 'z) sig_env_scheme" +
  assumes conn_iff: "C c \<longleftrightarrow> I (node.truncate c)"
begin

lemma truncate_load [simp]: "node.truncate (load_conn n c) = n"
  by (cases n) (simp add: load_conn_def node.defs)

lemma run_keeps: "keeps C m \<Longrightarrow> I (node.truncate c) \<Longrightarrow> m c = (x, c') \<Longrightarrow> I (node.truncate c')"
  using keepsD [of C m c] by (simp add: conn_iff)

lemma task_keeps: "task_step E t n n' \<Longrightarrow> I n \<Longrightarrow> I n'"
  by (auto elim!: task_stepE intro: nd.kept_listener_step keepsD [OF nd.kept_events(4)] keepsD [OF nd.kept_state(4)]
      keepsD [OF nd.kept_state(5)])

lemma step_kept:
  assumes "sys_step E S S'" "I (sys_node S)"
  shows "I (sys_node S')"
  using assms
proof (cases rule: sys_step.cases)
  case (served tx c ev c')
  show ?thesis using run_keeps [OF cn.kept_step _ served(3)] assms(2) by (simp add: served(1))
next
  case (ended tx c ev c' c'')
  have "I (node.truncate c')" using run_keeps [OF cn.kept_step _ ended(3)] assms(2) by simp
  then have "I (node.truncate c'')" using run_keeps [OF cn.kept_connection(1)] ended(4) by (metis prod.collapse)
  then show ?thesis by (simp add: ended(1))
qed (use assms(2) task_keeps nd.kept_admin nd.world_kept in \<open>simp_all add: keeps_def\<close>)

lemma always:
  assumes "(sys_step E)\<^sup>*\<^sup>* S S'" "I (sys_node S)"
  shows "I (sys_node S')"
  using assms by (induction rule: rtranclp_induct) (auto intro: step_kept)

end

interpretation registries: node_invariant node_ok node_ok E for E :: "('w, 'z) sig_env_scheme"
proof unfold_locales
  show "node_ok c \<longleftrightarrow> node_ok (node.truncate c)" for c :: "'w conn"
    by (cases c) (simp add: node_ok_def node.defs)
qed

section \<open>A purge is final\<close>

interpretation purge_node: node_kept purging
  by unfold_locales simp_all

interpretation purge_conn: conn_kept purging E for E :: "('w, 'z) sig_env_scheme"
  by unfold_locales (unfold conn_part_defs,
    (rule keeps_intros purge_node.kept_all | simp add: keeps_def spawn_def prog_simps split: option.split)+)

interpretation purged: node_invariant purging purging E for E :: "('w, 'z) sig_env_scheme"
proof unfold_locales
  show "purging c \<longleftrightarrow> purging (node.truncate c)" for c :: "'w conn"
    by (cases c) (simp add: node.defs)
qed

lemma purge_sets: "purging (snd (run_purge E r s))"
proof -
  have b: "leads (\<lambda>s. True) purging try_begin_purge" by (simp add: leads_def try_begin_purge_def)
  have "leads (\<lambda>s. True) purging (run_purge E r :: (('a, 'b) node_scheme, unit) act)"
    unfolding run_purge_def purge_peer_def by (rule leads_then [OF b], (rule keeps_intros purge_node.kept_all)+)
  then show ?thesis by (simp add: leads_def)
qed

section \<open>Lease renewers\<close>

text \<open>
  \<open>renewers_ok H c\<close>: every renewer task is in \<open>H\<close>, was stopped by this connection or is its current
  one; the current one renews the session the connection is bound to.
\<close>

definition own_renewer :: "'w conn \<Rightarrow> bool" where
  "own_renewer c \<longleftrightarrow> (\<forall>h. lease_renewer c = Some h \<longrightarrow> h < length (spawned c)
     \<and> (\<exists>sid. ctx_session_id c = Some sid \<and> spawned c ! h = LeaseRenewer h sid))"

definition accounted :: "nat set \<Rightarrow> 'w conn \<Rightarrow> bool" where
  "accounted H c \<longleftrightarrow> (\<forall>h < length (spawned c). is_renewer (spawned c ! h)
     \<longrightarrow> h \<in> H \<union> set (cancelled c) \<union> set_option (lease_renewer c))"

definition renewers_ok :: "nat set \<Rightarrow> 'w conn \<Rightarrow> bool" where
  "renewers_ok H c \<longleftrightarrow> own_renewer c \<and> accounted H c"

text \<open>The same, with the session fixed that the connection is bound to, and the renewer.\<close>

definition bound_ok :: "nat set \<Rightarrow> string option \<Rightarrow> nat option \<Rightarrow> 'w conn \<Rightarrow> bool" where
  "bound_ok H x l c \<longleftrightarrow> renewers_ok H c \<and> ctx_session_id c = x \<and> lease_renewer c = l"

lemma renewers_spawn:
  assumes "renewers_ok H c" "\<not> is_renewer t"
  shows "renewers_ok H (c\<lparr>spawned := spawned c @ [t]\<rparr>)"
  using assms by (auto simp: renewers_ok_def own_renewer_def accounted_def nth_append less_Suc_eq)

lemma renewers_unchanged [simp]:
  "renewers_ok H (c\<lparr>world := w\<rparr>) = renewers_ok H c" "renewers_ok H (c\<lparr>sfu := r\<rparr>) = renewers_ok H c"
  "renewers_ok H (c\<lparr>peers := p\<rparr>) = renewers_ok H c" "renewers_ok H (c\<lparr>sessions := st\<rparr>) = renewers_ok H c"
  "renewers_ok H (c\<lparr>purging := b\<rparr>) = renewers_ok H c" "renewers_ok H (c\<lparr>cached_session := y\<rparr>) = renewers_ok H c"
  "renewers_ok H (c\<lparr>instance_load_registered := b\<rparr>) = renewers_ok H c"
  by (simp_all add: renewers_ok_def own_renewer_def accounted_def)

interpretation bound_node: node_kept "bound_ok H x l" for H x l
  by unfold_locales (simp_all add: bound_ok_def renewers_spawn)

interpretation renew_node: node_kept "renewers_ok H" for H
  by unfold_locales (simp_all add: renewers_spawn)

lemma stopped_ok: "renewers_ok H c \<Longrightarrow> renewers_ok H (snd (stop_renewer c)) \<and> lease_renewer (snd (stop_renewer c)) = None"
  by (auto simp: stop_renewer_def prog_simps renewers_ok_def own_renewer_def accounted_def split: option.split)

lemma rebound_ok:
  "renewers_ok H c \<Longrightarrow> lease_renewer c = None \<or> ctx_session_id c = x \<Longrightarrow> renewers_ok H (c\<lparr>ctx_session_id := x\<rparr>)"
  by (auto simp: renewers_ok_def own_renewer_def accounted_def)

lemma unbound_idle: "renewers_ok H c \<Longrightarrow> ctx_session_id c = None \<Longrightarrow> lease_renewer c = None"
  by (cases "lease_renewer c") (auto simp: renewers_ok_def own_renewer_def)

lemma check_session_renewers:
  assumes "renewers_ok H c"
  shows "renewers_ok H (snd (check_session E sid c))
    \<and> (\<forall>x. fst (check_session E sid c) = Inr x \<longrightarrow> ctx_session_id (snd (check_session E sid c)) = Some sid)"
proof (cases "(case ctx_session_id c of Some b \<Rightarrow> b \<noteq> sid | None \<Rightarrow> False)")
  case True
  then show ?thesis using assms by (simp add: check_session_def prog_simps)
next
  case False
  then have "lease_renewer c = None \<or> ctx_session_id c = Some sid"
    using unbound_idle [OF assms] by (auto split: option.splits)
  then show ?thesis using assms False
    by (auto simp: check_session_def prog_simps require_redis_def is_redis_available_def redisM_def on_world_def
        on_sessions_def intro!: rebound_ok split: sum.splits option.splits if_splits)
qed

lemma renewers_started:
  assumes "renewers_ok H c" "lease_renewer c = None" "ctx_session_id c = Some sid"
  shows "renewers_ok H (c\<lparr>spawned := spawned c @ [LeaseRenewer (length (spawned c)) sid],
    lease_renewer := Some (length (spawned c))\<rparr>)"
  using assms by (auto simp: renewers_ok_def own_renewer_def accounted_def nth_append less_Suc_eq)

lemma renewers_intent [simp]:
  "renewers_ok H (c\<lparr>allowed_intent := i\<rparr>) = renewers_ok H c"
  "renewers_ok H (c\<lparr>allowed_room_id := r\<rparr>) = renewers_ok H c"
  by (simp_all add: renewers_ok_def own_renewer_def accounted_def)

lemma start_ok:
  assumes "\<And>h. keeps (renewers_ok H) (f h)"
  shows "leads (bound_ok H (Some sid) None) (renewers_ok H) (bindM (spawn_lease_renewer sid nick) (\<lambda>h.
     bindM (modM (\<lambda>c. c\<lparr>lease_renewer := Some h\<rparr>)) (\<lambda>_. f h)))"
  by (auto simp: leads_def bound_ok_def spawn_lease_renewer_def spawn_def prog_simps
      intro!: keepsD [OF assms] renewers_started)

lemma bind_ok:
  assumes "leads (bound_ok H (Some sid) None) Q (f ())"
  shows "leads (bound_ok H None None) Q (bindM (modM (\<lambda>c. c\<lparr>ctx_session_id := Some sid, cached_session := x,
     allowed_intent := i, allowed_room_id := r\<rparr>)) f)"
  using assms by (simp add: leads_def bound_ok_def prog_simps rebound_ok)

lemma bound_okD: "bound_ok H x l c \<Longrightarrow> renewers_ok H c"
  by (simp add: bound_ok_def)

lemma attach_renewers: "keeps (renewers_ok H) (handle_attach E token)"
proof (rule keepsI)
  fix c :: "'a conn"
  assume r: "renewers_ok H c"
  have "leads (bound_ok H None None) (renewers_ok H) (handle_attach E token)"
    unfolding handle_attach_def require_redis_def redisM_def reply_with_def send_message_def
    by (rule start_ok bind_ok leads_intros keeps_intros bound_node.kept_all renew_node.kept_all
        | erule bound_okD | simp add: bound_ok_def)+
  then show "renewers_ok H (snd (handle_attach E token c))"
    using r unbound_idle [OF r] by (cases "ctx_session_id c") (auto simp: leads_def bound_ok_def handle_attach_def prog_simps)
qed

lemma stop_ok:
  assumes "keeps (renewers_ok H) (f ())"
  shows "keeps (renewers_ok H) (bindM stop_renewer (\<lambda>_. bindM (modM (\<lambda>c. c\<lparr>ctx_session_id := None, cached_session := None\<rparr>)) f))"
  by (auto simp: prog_simps stopped_ok intro!: keepsI keepsD [OF assms] rebound_ok)

lemma check_renewers: "keeps (renewers_ok H) (check_session E sid)"
  using check_session_renewers by (blast intro: keepsI)

lemma logout_renewers: "keeps (renewers_ok H) (handle_logout E sid ps)"
  unfolding handle_logout_def leave_room_def require_redis_def redisM_def reply_with_def send_message_def
  by (rule stop_ok check_renewers keeps_intros renew_node.kept_all | simp)+

interpretation renew_conn: conn_kept "renewers_ok H" E for H and E :: "('w, 'z) sig_env_scheme"
  by unfold_locales (auto intro: check_renewers attach_renewers logout_renewers keepsI simp: stopped_ok)

text \<open>Tasks are only added; the node itself adds no renewer.\<close>

definition grown :: "task list \<Rightarrow> ('w, 'y) node_scheme \<Rightarrow> bool" where
  "grown sp s \<longleftrightarrow> (\<exists>ys. spawned s = sp @ ys)"

definition grown_plain :: "task list \<Rightarrow> ('w, 'y) node_scheme \<Rightarrow> bool" where
  "grown_plain sp s \<longleftrightarrow> (\<exists>ys. spawned s = sp @ ys \<and> (\<forall>t \<in> set ys. \<not> is_renewer t))"

interpretation grown_node: node_kept "grown sp" for sp
  by unfold_locales (auto simp: grown_def)

interpretation plain_node: node_kept "grown_plain sp" for sp
  by unfold_locales (force simp: grown_plain_def)+

lemma grown_spawn: "keeps (grown sp) (spawn t)"
  by (auto simp: keeps_def spawn_def prog_simps grown_def)

interpretation grown_conn: conn_kept "grown sp" E for sp and E :: "('w, 'z) sig_env_scheme"
  by unfold_locales (unfold conn_part_defs,
    (rule keeps_intros grown_node.kept_all grown_spawn | simp add: grown_def split: option.split)+)

lemma load_conn_sel [simp]:
  "spawned (load_conn n c) = spawned n" "ctx_session_id (load_conn n c) = ctx_session_id c"
  "lease_renewer (load_conn n c) = lease_renewer c" "cancelled (load_conn n c) = cancelled c"
  "spawned (node.truncate c) = spawned c"
  by (cases n; cases c; simp add: load_conn_def node.defs)+

text \<open>What every reachable state of the system satisfies.\<close>

definition sys_own :: "'w system \<Rightarrow> bool" where
  "sys_own S \<longleftrightarrow> (\<forall>tx c. sys_conns S tx = Some c \<longrightarrow>
     own_renewer (load_conn (sys_node S) c) \<and> set (cancelled c) \<subseteq> sys_cancelled S)"

definition sys_accounted :: "'w system \<Rightarrow> bool" where
  "sys_accounted S \<longleftrightarrow> (\<forall>h < length (spawned (sys_node S)). is_renewer (spawned (sys_node S) ! h) \<longrightarrow>
     h \<in> sys_cancelled S \<or> (\<exists>tx c. sys_conns S tx = Some c \<and> lease_renewer c = Some h))"

definition held_by_others :: "'w system \<Rightarrow> sender \<Rightarrow> nat set" where
  "held_by_others S tx = {h. \<exists>tx' c. tx' \<noteq> tx \<and> sys_conns S tx' = Some c \<and> lease_renewer c = Some h}"

lemma own_grown:
  assumes "own_renewer (load_conn n c)" "grown (spawned n) n'"
  shows "own_renewer (load_conn n' c)"
  using assms by (auto simp: own_renewer_def grown_def nth_append)

lemma own_of_conn: "own_renewer c \<Longrightarrow> own_renewer (load_conn (node.truncate c) c)"
  by (simp add: own_renewer_def)

lemma loaded_ok:
  assumes "sys_own S" "sys_accounted S" "sys_conns S tx = Some c"
  shows "renewers_ok (sys_cancelled S \<union> held_by_others S tx) (load_conn (sys_node S) c)"
proof -
  have "h \<in> sys_cancelled S \<union> held_by_others S tx \<union> set_option (lease_renewer c)"
    if h: "h < length (spawned (sys_node S))" "is_renewer (spawned (sys_node S) ! h)" for h
  proof (cases "h \<in> sys_cancelled S")
    case False
    then obtain tx' c1 where "sys_conns S tx' = Some c1" "lease_renewer c1 = Some h"
      using assms(2) h by (auto simp: sys_accounted_def)
    then show ?thesis using assms(3) by (cases "tx' = tx") (auto simp: held_by_others_def)
  qed simp
  then show ?thesis using assms(1,3) by (auto simp: renewers_ok_def accounted_def sys_own_def)
qed

text \<open>One step of one connection, which then stays open or not.\<close>

lemma conn_ran:
  assumes "sys_own S" "sys_accounted S" "sys_conns S tx = Some c"
    and "renewers_ok (sys_cancelled S \<union> held_by_others S tx) c'" "grown (spawned (sys_node S)) c'"
    and "keep \<in> {None, Some c'}" "keep = None \<longrightarrow> lease_renewer c' = None"
    and "S' = S\<lparr>sys_node := node.truncate c', sys_conns := (sys_conns S)(tx := keep),
           sys_cancelled := sys_cancelled S \<union> set (cancelled c')\<rparr>"
  shows "sys_own S' \<and> sys_accounted S'"
proof
  have g: "grown (spawned (sys_node S)) (node.truncate c')" using assms(5) by (simp add: grown_def)
  show "sys_own S'"
    using assms(1,4,6) own_grown [OF _ g] own_of_conn [of c']
    by (auto simp: sys_own_def assms(8) renewers_ok_def split: if_splits)
  show "sys_accounted S'"
    unfolding sys_accounted_def
  proof (intro allI impI)
    fix h assume h: "h < length (spawned (sys_node S'))" "is_renewer (spawned (sys_node S') ! h)"
    then have "h \<in> sys_cancelled S \<union> held_by_others S tx \<union> set (cancelled c') \<union> set_option (lease_renewer c')"
      using assms(4) by (simp add: renewers_ok_def accounted_def assms(8))
    then show "h \<in> sys_cancelled S' \<or> (\<exists>tx c. sys_conns S' tx = Some c \<and> lease_renewer c = Some h)"
      using assms(6,7) by (auto simp: assms(8) held_by_others_def)
  qed
qed

lemma node_ran:
  assumes "sys_own S" "sys_accounted S" "grown_plain (spawned (sys_node S)) n"
  shows "sys_own (S\<lparr>sys_node := n\<rparr>) \<and> sys_accounted (S\<lparr>sys_node := n\<rparr>)"
proof
  obtain ys where ys: "spawned n = spawned (sys_node S) @ ys" "\<forall>t \<in> set ys. \<not> is_renewer t"
    using assms(3) by (auto simp: grown_plain_def)
  have g: "grown (spawned (sys_node S)) n" using ys(1) by (simp add: grown_def)
  show "sys_own (S\<lparr>sys_node := n\<rparr>)" using assms(1) own_grown [OF _ g] by (simp add: sys_own_def)
  show "sys_accounted (S\<lparr>sys_node := n\<rparr>)"
    using assms(2) ys by (auto simp: sys_accounted_def nth_append split: if_splits)
qed

lemma plain_refl: "grown_plain (spawned s) s"
  by (simp add: grown_plain_def)

lemma task_plain: "task_step E t n n' \<Longrightarrow> grown_plain (spawned n) n'"
  using plain_refl [of n]
  by (auto elim!: task_stepE intro: plain_node.kept_listener_step keepsD [OF plain_node.kept_events(4)]
      keepsD [OF plain_node.kept_state(4)] keepsD [OF plain_node.kept_state(5)])

interpretation idle_node: node_kept "\<lambda>c. lease_renewer c = None \<and> cancelled c = hs"
  by unfold_locales simp_all

lemma stop_leads:
  "leads (\<lambda>c. c = c0) (\<lambda>c. lease_renewer c = None
     \<and> cancelled c = cancelled c0 @ (case lease_renewer c0 of None \<Rightarrow> [] | Some h \<Rightarrow> [h])) stop_renewer"
  by (simp add: leads_def stop_renewer_def prog_simps split: option.split)

lemma cleanup_idle:
  "lease_renewer (snd (cleanup_connection E c)) = None
   \<and> cancelled (snd (cleanup_connection E c)) = cancelled c @ (case lease_renewer c of None \<Rightarrow> [] | Some h \<Rightarrow> [h])"
proof -
  have "leads (\<lambda>c'. c' = c) (\<lambda>c'. lease_renewer c' = None
      \<and> cancelled c' = cancelled c @ (case lease_renewer c of None \<Rightarrow> [] | Some h \<Rightarrow> [h])) (cleanup_connection E)"
    unfolding cleanup_connection_def
    by (rule leads_then [OF stop_leads], (rule keeps_intros idle_node.kept_all)+)
  then show ?thesis by (simp add: leads_def)
qed

lemma renewers_step:
  assumes "sys_step E S S'" "sys_own S" "sys_accounted S"
  shows "sys_own S' \<and> sys_accounted S'"
  using assms(1)
proof (cases rule: sys_step.cases)
  case (accepted c tx)
  then have c: "lease_renewer c = None" "cancelled c = []"
    by (auto simp: ws_upgrade_def fresh_context_def node.defs split: if_splits)
  have "sys_own S'" using assms(2) c by (auto simp: sys_own_def accepted(1) own_renewer_def)
  moreover have "sys_accounted S'"
    unfolding sys_accounted_def
  proof (intro allI impI)
    fix h assume "h < length (spawned (sys_node S'))" "is_renewer (spawned (sys_node S') ! h)"
    then consider "h \<in> sys_cancelled S" | tx' c1 where "sys_conns S tx' = Some c1" "lease_renewer c1 = Some h"
      using assms(3) by (auto simp: sys_accounted_def accepted(1))
    then show "h \<in> sys_cancelled S' \<or> (\<exists>tx c. sys_conns S' tx = Some c \<and> lease_renewer c = Some h)"
    proof cases
      case (2 tx' c1)
      then have "tx' \<noteq> tx" using accepted(3) by auto
      then show ?thesis using 2 by (auto simp: accepted(1))
    qed (simp add: accepted(1))
  qed
  ultimately show ?thesis ..
next
  case (served tx c ev c')
  let ?H = "sys_cancelled S \<union> held_by_others S tx"
  have c': "c' = snd (ws_step E tx ev (load_conn (sys_node S) c))" using served(3) by simp
  have "renewers_ok ?H c'" unfolding c'
    by (rule keepsD [OF renew_conn.kept_step loaded_ok [OF assms(2,3) served(2)]])
  moreover have "grown (spawned (sys_node S)) c'" unfolding c'
    by (rule keepsD [OF grown_conn.kept_step]) (simp add: grown_def)
  ultimately show ?thesis by (rule conn_ran [OF assms(2,3) served(2)]) (simp_all add: served(1))
next
  case (ended tx c ev c' c'')
  let ?H = "sys_cancelled S \<union> held_by_others S tx"
  have c': "c' = snd (ws_step E tx ev (load_conn (sys_node S) c))" using ended(3) by simp
  have "renewers_ok ?H c'" unfolding c'
    by (rule keepsD [OF renew_conn.kept_step loaded_ok [OF assms(2,3) ended(2)]])
  then have "renewers_ok ?H c''" unfolding ended(4) by (rule keepsD [OF renew_conn.kept_connection(1)])
  moreover have "grown (spawned (sys_node S)) c'" unfolding c'
    by (rule keepsD [OF grown_conn.kept_step]) (simp add: grown_def)
  then have "grown (spawned (sys_node S)) c''" unfolding ended(4) by (rule keepsD [OF grown_conn.kept_connection(1)])
  ultimately show ?thesis
    by (rule conn_ran [OF assms(2,3) ended(2)]) (simp_all add: ended(1,4) cleanup_idle)
next
  case (task t n)
  then show ?thesis using node_ran [OF assms(2,3) task_plain] by simp
next
  case (purge_requested why)
  then show ?thesis using node_ran [OF assms(2,3) keepsD [OF plain_node.kept_admin(1) plain_refl]] by simp
next
  case (close_requested addr why)
  then show ?thesis using node_ran [OF assms(2,3) keepsD [OF plain_node.kept_admin(2) plain_refl]] by simp
next
  case (outside w)
  then show ?thesis using node_ran [OF assms(2,3), of "(sys_node S)\<lparr>world := w\<rparr>"] by (simp add: grown_plain_def)
qed

section \<open>Stale peers\<close>

lemma stale_peers_gone:
  "registered (peers (snd (detach_stale_peers E room stale reason s))) room \<subseteq> registered (peers s) room - set stale
   \<and> (\<forall>other. other \<noteq> room \<longrightarrow> peers_of (peers (snd (detach_stale_peers E room stale reason s))) other = peers_of (peers s) other)"
proof (induction E room stale reason s rule: detach_stale_peers.induct)
  case (1 E room stale reason s)
  show ?case
  proof (cases "stale = []")
    case True
    then show ?thesis by (subst (1 2) detach_stale_peers.simps) simp
  next
    case False
    let ?r = "detach_stale_peer E room (last stale) reason s"
    have st: "set stale = insert (last stale) (set (butlast stale))"
      using False by (metis append_butlast_last_id list.simps(15) rotate1.simps(2) set_rotate1)
    show ?thesis
      using 1 [OF False refl] False st
      by (subst (1 2) detach_stale_peers.simps) (auto simp: Let_def)
  qed
qed

section \<open>Ending a connection\<close>

lemma session_remove_gone [simp]: "session_lookup (session_remove sid st) sid = None"
  by (simp add: remove_lookup)

lemma stop_renewer_sel [simp]:
  "ctx_session_id (snd (stop_renewer c)) = ctx_session_id c" "sessions (snd (stop_renewer c)) = sessions c"
  "peers (snd (stop_renewer c)) = peers c" "world (snd (stop_renewer c)) = world c"
  by (simp_all add: stop_renewer_def prog_simps split: option.split)

lemma available_world: "world c = world c' \<Longrightarrow> fst (is_redis_available E c) = fst (is_redis_available E c')"
  by (simp add: is_redis_available_def prog_simps on_world_def)

lemma sessions_available [simp]: "sessions (snd (is_redis_available E c)) = sessions c"
  by (simp add: is_redis_available_def prog_simps on_world_def)

lemma leave_and_notify_peers:
  "registered (peers (snd (leave_room_and_notify E room nick reason c))) room \<subseteq> registered (peers c) room - {nick}
   \<and> (\<forall>other. other \<noteq> room
        \<longrightarrow> peers_of (peers (snd (leave_room_and_notify E room nick reason c))) other = peers_of (peers c) other)"
proof -
  let ?s = "snd (detach_peer E room nick reason c)"
  let ?b = "broadcast E room (Some nick) (ParticipantLeft nick) ?s"
  have "snd (leave_room_and_notify E room nick reason c)
      = snd (detach_stale_peers E room (fst ?b) ''stale_sender'' (snd ?b))"
    by (simp add: leave_room_and_notify_def prog_simps)
  then show ?thesis using stale_peers_gone [of E room "fst ?b" "''stale_sender''" "snd ?b"] by auto
qed

section \<open>Properties\<close>

text \<open>
  C22. Registries of a node. In every state a node can reach from its start, whatever its clients,
  the SFUs, the supervisor and Redis do, both registries are well formed: no room of the peer
  registry is empty or listed twice, no nickname is registered twice in a room, and the room index of the
  session registry says exactly what the sessions say.
\<close>

theorem node_registries_ok:
  assumes "(sys_step E)\<^sup>*\<^sup>* (sys_start w cfg) S"
  shows "peers_ok (peers (sys_node S)) \<and> sessions_ok (sessions (sys_node S))"
  using registries.always [OF assms] by (simp add: sys_start_def state_new_def node_ok_def)

text \<open>
  C9. Lease renewers do not leak. In every reachable state of a node, each renewer task that was
  ever started was either stopped or belongs to an open connection that is bound to the very session
  the task renews.
\<close>

theorem no_renewer_leak:
  assumes "(sys_step E)\<^sup>*\<^sup>* (sys_start w cfg) S"
    and "h < length (spawned (sys_node S))" "spawned (sys_node S) ! h = LeaseRenewer i sid"
  shows "h \<in> sys_cancelled S
    \<or> (\<exists>tx c. sys_conns S tx = Some c \<and> lease_renewer c = Some h \<and> ctx_session_id c = Some sid)"
proof -
  have inv: "sys_own S \<and> sys_accounted S"
    using assms(1)
  proof (induction rule: rtranclp_induct)
    case base
    show ?case by (simp add: sys_start_def state_new_def sys_own_def sys_accounted_def)
  next
    case (step y z)
    show ?case using renewers_step [OF step(2)] step(3) by simp
  qed
  have "is_renewer (spawned (sys_node S) ! h)" using assms(3) by (simp add: is_renewer_def)
  with inv assms(2) consider "h \<in> sys_cancelled S" | tx c where "sys_conns S tx = Some c" "lease_renewer c = Some h"
    by (auto simp: sys_accounted_def)
  then show ?thesis
  proof cases
    case (2 tx c)
    then have "own_renewer (load_conn (sys_node S) c)" using inv by (simp add: sys_own_def)
    then show ?thesis using 2 assms(3) by (auto simp: own_renewer_def)
  qed simp
qed

text \<open>
  C23. A purge is final. A purge that had not begun before drops all peers, sessions, channels and
  listeners; from then on, in every later state of the node, a further purge does nothing and every new
  connection is refused with status 503.
\<close>

theorem purge_is_final:
  assumes "n = snd (run_purge E r (sys_node S))" "(sys_step E)\<^sup>*\<^sup>* (S\<lparr>sys_node := n\<rparr>) S'"
  shows "(\<not> purging (sys_node S) \<longrightarrow> peers n = [] \<and> by_session_id (sessions n) = []
      \<and> clients (sfu n) = Map.empty \<and> listeners (sfu n) = {})
    \<and> ws_upgrade (sys_node S') = Inl (503, ''service degraded'')
    \<and> run_purge E r' (sys_node S') = ((), sys_node S')"
proof -
  have "purging n"
    unfolding assms(1) by (rule purge_sets)
  then have p: "purging (sys_node S')" using purged.always [OF assms(2)] by simp
  have "\<not> purging (sys_node S) \<longrightarrow> peers n = [] \<and> by_session_id (sessions n) = []
      \<and> clients (sfu n) = Map.empty \<and> listeners (sfu n) = {}"
    by (simp add: assms(1) run_purge_def prog_simps try_begin_purge_def on_peers_def on_sessions_def on_sfu_def
        peers_clear_def sessions_clear_def sfu_clear_def)
  then show ?thesis using p
    by (simp add: ws_upgrade_def is_purging_def run_purge_def try_begin_purge_def prog_simps)
qed

text \<open>
  C38. Stale peers. The loop that removes peers whose channel refused a message ends (it is a total function), and when
  it does none of the reported peers is registered in the room any more, nobody was added, and
  the other rooms are as before.
\<close>

theorem stale_peers_detached:
  "let s' = snd (detach_stale_peers E room stale reason s) in
     registered (peers s') room \<inter> set stale = {} \<and> registered (peers s') room \<subseteq> registered (peers s) room
     \<and> (\<forall>other. other = room \<or> peers_of (peers s') other = peers_of (peers s) other)"
  using stale_peers_gone [of E room stale reason s] unfolding Let_def by blast

text \<open>
  C37. Ending a connection that is bound to a session. Whatever Redis answers, the clean-up removes the session from
  the node's own registry and takes the connection's lease renewer away, its handle being the one and only handle
  stopped. The registered peers depend on Redis: if it does not answer, the peer registry stays exactly as it was, the
  connection's own peer included. If it answers, and the node knows the session, then a session outside every room
  leaves the peer registry as it was, while for a session in a room its nickname is no longer registered
  there, nobody was added to that room and every other room is as before. (For a session the
  node itself does not know, the room is the one Redis reports, and nothing is claimed of the peers.)
\<close>

theorem cleanup_forgets:
  assumes "ctx_session_id c = Some sid" "c' = snd (cleanup_connection E c)"
  shows "session_lookup (sessions c') sid = None \<and> lease_renewer c' = None
    \<and> cancelled c' = cancelled c @ (case lease_renewer c of None \<Rightarrow> [] | Some h \<Rightarrow> [h])
    \<and> (if \<not> fst (is_redis_available E c) then peers c' = peers c
       else case session_lookup (sessions c) sid of
         None \<Rightarrow> True
       | Some x \<Rightarrow> (case room_id x of
           None \<Rightarrow> peers c' = peers c
         | Some room \<Rightarrow> nickname x \<notin> registered (peers c') room
             \<and> registered (peers c') room \<subseteq> registered (peers c) room
             \<and> (\<forall>other. other = room \<or> peers_of (peers c') other = peers_of (peers c) other)))"
proof -
  have a: "fst (is_redis_available E (snd (stop_renewer c))) = fst (is_redis_available E c)"
    by (rule available_world) simp
  have gone: "session_lookup (sessions c') sid = None"
    unfolding assms(2) cleanup_connection_def
    by (auto simp: prog_simps assms(1) on_sessions_def split: option.splits sum.splits)
  have down: "peers c' = peers c" if "\<not> fst (is_redis_available E c)"
    unfolding assms(2) cleanup_connection_def using that by (simp add: prog_simps assms(1) a on_sessions_def)
  have roomless: "peers c' = peers c"
    if "fst (is_redis_available E c)" "session_lookup (sessions c) sid = Some x" "room_id x = None" for x
    unfolding assms(2) cleanup_connection_def using that by (simp add: prog_simps assms(1) a on_sessions_def)
  have left: "nickname x \<notin> registered (peers c') room
      \<and> registered (peers c') room \<subseteq> registered (peers c) room
      \<and> (\<forall>other. other = room \<or> peers_of (peers c') other = peers_of (peers c) other)"
    if "fst (is_redis_available E c)" "session_lookup (sessions c) sid = Some x" "room_id x = Some room" for x room
    unfolding assms(2) cleanup_connection_def
    using that leave_and_notify_peers [of E room "nickname x" "''signaling_disconnected''"
        "snd (is_redis_available E (snd (stop_renewer c)))"]
    by (auto simp: prog_simps assms(1) a on_sessions_def)
  show ?thesis using gone down roomless left cleanup_idle [of E c] by (auto simp: assms(2) split: option.split)
qed

section \<open>Witnesses\<close>

definition demo_system :: "sig_mem system" where
  "demo_system = (sys_start sig_demo_world demo_config)\<lparr>sys_conns := [7 \<mapsto> fresh_context demo_node]\<rparr>"

lemma demo_system_step: "sys_step mem_sig_env (sys_start sig_demo_world demo_config) demo_system"
  using sys_step.accepted [of "sys_start sig_demo_world demo_config" "fresh_context demo_node" 7 mem_sig_env]
  by (simp add: sys_start_def demo_system_def ws_upgrade_def is_purging_def demo_node_def state_new_def)

theorem node_registries_ok_witness:
  "sys_conns demo_system 7 \<noteq> None \<and> peers_ok (peers (sys_node demo_system)) \<and> sessions_ok (sessions (sys_node demo_system))"
  using node_registries_ok [OF r_into_rtranclp [of "sys_step mem_sig_env", OF demo_system_step]]
  by (simp add: demo_system_def)

theorem purge_is_final_witness:
  "ws_upgrade (snd (run_purge mem_sig_env RedisDown demo_node)) = Inl (503, ''service degraded'')"
  using purge_is_final [of _ mem_sig_env RedisDown demo_system, OF refl rtranclp.rtrancl_refl, of RedisDown]
  by (simp add: demo_system_def sys_start_def demo_node_def)

definition demo_member :: "sig_mem conn" where
  "demo_member = (fresh_context demo_node)\<lparr>ctx_session_id := Some ''s1'', lease_renewer := Some 3,
     sessions := upsert ''s1'' \<lparr>nickname = ''ann'', room_id = Some ''r1''\<rparr> (sessions demo_node),
     peers := register ''r1'' ''bob'' 8 None (register ''r1'' ''ann'' 7 None (peers demo_node))\<rparr>"

theorem cleanup_forgets_witness:
  "registered (peers demo_member) ''r1'' = {''ann'', ''bob''}
   \<and> ''ann'' \<notin> registered (peers (snd (cleanup_connection mem_sig_env demo_member))) ''r1''
   \<and> lease_renewer (snd (cleanup_connection mem_sig_env demo_member)) = None
   \<and> cancelled (snd (cleanup_connection mem_sig_env demo_member)) = [3]"
proof -
  have s: "ctx_session_id demo_member = Some ''s1''" "lease_renewer demo_member = Some 3" "cancelled demo_member = []"
      "session_lookup (sessions demo_member) ''s1'' = Some \<lparr>nickname = ''ann'', room_id = Some ''r1''\<rparr>"
    by (simp_all add: demo_member_def fresh_context_def node.defs upsert_lookup)
  have up: "fst (is_redis_available mem_sig_env demo_member)"
    by (simp add: is_redis_available_def prog_simps on_world_def mem_sig.call_ping)
  have "registered (peers demo_member) ''r1'' = {''ann'', ''bob''}"
    by (auto simp: demo_member_def demo_node_def state_new_def) (simp_all add: registered_def peers_of_def)
  then show ?thesis using cleanup_forgets [OF s(1) refl, of mem_sig_env] up s by simp
qed

end
