(* ===== verification/Room_Operations.thy ===== *)
theory Room_Operations
  imports Signaling_Redis
begin

text \<open>
  What the Redis operations of the signaling service do on a server that answers: one evaluation
  lemma per operation, over the keys, proved in the locale \<open>store_world\<close>; the script that assigns a
  room, and the accounting of SFU loads.
\<close>

section \<open>The assigning script\<close>

text \<open>The script's loop computes the first least loaded of the eligible instances.\<close>

lemma lua_scan_min:
  fixes loads :: "string \<rightharpoonup> real"
  assumes "\<forall>p \<in> set ps. cjson_decode J p = Some (f p)"
  defines "load \<equiv> (\<lambda>x. get_or 0 loads (lua_instance_id x))"
  shows "lua_scan J loads now stale ps best =
    Some (case min_by load (filter (\<lambda>x. lua_eligible now stale (load x) x) (map f ps)) of
        None \<Rightarrow> best
      | Some m \<Rightarrow> (case best of None \<Rightarrow> Some (m, load m)
                   | Some b \<Rightarrow> if load m < snd b then Some (m, load m) else Some b))"
  using assms(1)
proof (induction ps arbitrary: best)
  case (Cons p ps)
  note IH = Cons.IH [unfolded load_def]
  have p: "cjson_decode J p = Some (f p)" and ps: "\<forall>p \<in> set ps. cjson_decode J p = Some (f p)"
    using Cons.prems by auto
  show ?case
    unfolding load_def
    by (cases "min_by (\<lambda>x. get_or 0 loads (lua_instance_id x))
        (filter (\<lambda>x. lua_eligible now stale (get_or 0 loads (lua_instance_id x)) x) (map f ps))"; cases best)
      (auto simp: p IH [OF ps] Let_def split: if_splits)
qed (simp add: load_def split: option.split)

text \<open>The keys after a successful assignment.\<close>

definition assigned_store :: "json_api \<Rightarrow> store \<Rightarrow> assign_args \<Rightarrow> SfuInstance \<Rightarrow> store" where
  "assigned_store J st a inst =
     (let st1 = put_hash (k_binding a)
            [''owner_host'' \<mapsto> a_owner_host a, ''owner_port'' \<mapsto> a_owner_port a,
             ''signaling_owner_id'' \<mapsto> a_owner_id a, ''room_state'' \<mapsto> ''active'',
             ''sfu_instance_id'' \<mapsto> instance_id inst, ''sfu_grpc_addr'' \<mapsto> grpc_addr inst] st;
          st2 = put_zset SFU_ROOM_LOAD_KEY
            ((zset_of st SFU_ROOM_LOAD_KEY)(instance_id inst \<mapsto> room_load st (instance_id inst) + 1)) st1
      in put_hash SFU_INSTANCES_KEY ((hash_of st SFU_INSTANCES_KEY)
           (instance_id inst \<mapsto> cjson_encode J (lua_of_inst (inst\<lparr>idle_since_unix := 0\<rparr>)))) st2)"

definition assignable :: "json_api \<Rightarrow> store \<Rightarrow> int \<Rightarrow> string \<Rightarrow> SfuInstance \<Rightarrow> bool" where
  "assignable J st now i inst \<longleftrightarrow>
     sfu_table J st i = Some inst \<and> lua_eligible now 30 (room_load st i) (lua_of_inst inst)"

lemma lua_of_inst_sel [simp]:
  "lua_instance_id (lua_of_inst i) = instance_id i" "lua_grpc_addr (lua_of_inst i) = grpc_addr i"
  "(lua_of_inst i)\<lparr>lua_idle_since_unix := t\<rparr> = lua_of_inst (i\<lparr>idle_since_unix := t\<rparr>)"
  by (simp_all add: lua_of_inst_def)

lemma lua_eligible_inst:
  "lua_eligible now stale l (lua_of_inst i) \<longleftrightarrow>
     alive i \<and> state i = ''ready'' \<and> now - last_ping_unix i \<le> stale \<and> l < of_int (uint (max_rooms i))"
  by (simp add: lua_eligible_def lua_of_inst_def)

lemma assign_args_sel [simp]:
  "k_instances (assign_args_for r oid host port now) = SFU_INSTANCES_KEY"
  "k_room_load (assign_args_for r oid host port now) = SFU_ROOM_LOAD_KEY"
  "k_binding (assign_args_for r oid host port now) = room_binding_key r"
  "a_now (assign_args_for r oid host port now) = now"
  "a_stale_after (assign_args_for r oid host port now) = 30"
  "a_owner_host (assign_args_for r oid host port now) = host"
  "a_owner_port (assign_args_for r oid host port now) = show_nat (unat port)"
  "a_owner_id (assign_args_for r oid host port now) = oid"
  by (simp_all add: assign_args_for_def)

context json_layer
begin

lemma assign_script:
  assumes ok: "sfu_ok J st"
    and listing: "distinct_keys listing" "map_of listing = hash_of st SFU_INSTANCES_KEY"
    and a: "a = assign_args_for r oid host port now"
  shows "(\<forall>i inst. \<not> assignable J st now i inst) \<Longrightarrow> ASSIGN_ROOM_TO_SFU_LUA J a listing st = Some ([], st)"
    "\<exists>i inst. assignable J st now i inst \<Longrightarrow>
      \<exists>i inst. assignable J st now i inst
        \<and> (\<forall>j other. assignable J st now j other \<longrightarrow> room_load st i \<le> room_load st j)
        \<and> ASSIGN_ROOM_TO_SFU_LUA J a listing st =
            Some (if st (room_binding_key r) \<noteq> None then ([''__ROOM_EXISTS__'', []], st)
                  else ([i, grpc_addr inst], assigned_store J st a inst))"
proof -
  define f where "f p = lua_of_inst (the (from_json J p))" for p
  let ?load = "\<lambda>x. get_or 0 (zset_of st SFU_ROOM_LOAD_KEY) (lua_instance_id x)"
  let ?es = "filter (\<lambda>x. lua_eligible now 30 (?load x) x) (map f (map snd listing))"
  have vals: "set (map snd listing) = ran (hash_of st SFU_INSTANCES_KEY)"
    using ran_distinct [OF listing(1)] listing(2) by simp
  have dec: "\<forall>p \<in> set (map snd listing). cjson_decode J p = Some (f p)"
    unfolding vals using sfu_ok_decodes [OF ok] cjson_reads by (fastforce simp: ran_def f_def)
  have es: "set ?es = {lua_of_inst inst | i inst. assignable J st now i inst}"
  proof -
    have "set (map f (map snd listing)) = lua_of_inst ` ran (sfu_table J st)"
      using sfu_table_ran [OF ok] vals by (simp only: set_map [of f]) (simp add: f_def image_image)
    also have "\<dots> = {lua_of_inst inst | i inst. sfu_table J st i = Some inst}" by (auto simp: ran_def)
    finally have "set ?es = {x \<in> {lua_of_inst inst | i inst. sfu_table J st i = Some inst}. lua_eligible now 30 (?load x) x}"
      by (simp only: set_filter)
    also have "\<dots> = {lua_of_inst inst | i inst. assignable J st now i inst}"
      using sfu_table_id [OF ok] by (fastforce simp: assignable_def room_load_def)
    finally show ?thesis .
  qed
  note scan = lua_scan_min [OF dec, where now = now and stale = 30 and best = None and loads = "zset_of st SFU_ROOM_LOAD_KEY"]
  show "ASSIGN_ROOM_TO_SFU_LUA J a listing st = Some ([], st)" if none: "\<forall>i inst. \<not> assignable J st now i inst"
  proof -
    have "?es = []" using es none by (simp only: set_empty [symmetric]) blast
    then show ?thesis by (simp only: ASSIGN_ROOM_TO_SFU_LUA_def a assign_args_sel scan min_by.simps option.simps)
  qed
  show "\<exists>i inst. assignable J st now i inst
        \<and> (\<forall>j other. assignable J st now j other \<longrightarrow> room_load st i \<le> room_load st j)
        \<and> ASSIGN_ROOM_TO_SFU_LUA J a listing st =
            Some (if st (room_binding_key r) \<noteq> None then ([''__ROOM_EXISTS__'', []], st)
                  else ([i, grpc_addr inst], assigned_store J st a inst))"
    if some: "\<exists>i inst. assignable J st now i inst"
  proof -
    have ne: "min_by ?load ?es \<noteq> None" using es some by (simp only: min_by_None set_empty [symmetric]) blast
    then obtain m where m: "min_by ?load ?es = Some m" by blast
    from min_by_in [OF m] es obtain i inst where i: "assignable J st now i inst" "m = lua_of_inst inst" by blast
    have id: "instance_id inst = i" using i(1) sfu_table_id [OF ok] by (simp add: assignable_def)
    have least: "room_load st i \<le> room_load st j" if "assignable J st now j other" for j other
    proof -
      have "lua_of_inst other \<in> set ?es" using es that by blast
      from min_by_least [OF m this] show ?thesis
        using sfu_table_id [OF ok, of j other] that by (simp add: assignable_def room_load_def i(2) id)
    qed
    have "ASSIGN_ROOM_TO_SFU_LUA J a listing st =
        Some (if st (room_binding_key r) \<noteq> None then ([''__ROOM_EXISTS__'', []], st)
              else ([i, grpc_addr inst], assigned_store J st a inst))"
      using scan m
      by (simp add: ASSIGN_ROOM_TO_SFU_LUA_def a i(2) id assigned_store_def Let_def room_load_def del: map_map)
    with i(1) least show ?thesis by blast
  qed
qed

lemma assigned_facts:
  assumes "sfu_ok J st" "assignable J st now i inst" "k_binding a \<notin> {SFU_INSTANCES_KEY, SFU_ROOM_LOAD_KEY}"
  shows "sfu_ok J (assigned_store J st a inst)"
    "sfu_table J (assigned_store J st a inst) = (sfu_table J st)(i \<mapsto> inst\<lparr>idle_since_unix := 0\<rparr>)"
    "room_load (assigned_store J st a inst) = (room_load st)(i := room_load st i + 1)"
    "hash_of (assigned_store J st a inst) (k_binding a) =
       [''owner_host'' \<mapsto> a_owner_host a, ''owner_port'' \<mapsto> a_owner_port a,
        ''signaling_owner_id'' \<mapsto> a_owner_id a, ''room_state'' \<mapsto> ''active'',
        ''sfu_instance_id'' \<mapsto> i, ''sfu_grpc_addr'' \<mapsto> grpc_addr inst]"
    "is_hash (assigned_store J st a inst) (k_binding a)"
    "k \<notin> {SFU_INSTANCES_KEY, SFU_ROOM_LOAD_KEY, k_binding a} \<Longrightarrow> assigned_store J st a inst k = st k"
proof -
  have id: "instance_id inst = i" using assms(1,2) sfu_table_id by (auto simp: assignable_def)
  show "sfu_ok J (assigned_store J st a inst)"
    using assms id by (auto simp: assigned_store_def Let_def sfu_ok_def cjson_writes)
  show "sfu_table J (assigned_store J st a inst) = (sfu_table J st)(i \<mapsto> inst\<lparr>idle_since_unix := 0\<rparr>)"
    using assms(3) id by (auto simp: assigned_store_def Let_def sfu_table_def cjson_writes)
  show "room_load (assigned_store J st a inst) = (room_load st)(i := room_load st i + 1)"
    using assms(3) id by (auto simp: assigned_store_def Let_def room_load_def get_or_def)
  show "hash_of (assigned_store J st a inst) (k_binding a) =
       [''owner_host'' \<mapsto> a_owner_host a, ''owner_port'' \<mapsto> a_owner_port a,
        ''signaling_owner_id'' \<mapsto> a_owner_id a, ''room_state'' \<mapsto> ''active'',
        ''sfu_instance_id'' \<mapsto> i, ''sfu_grpc_addr'' \<mapsto> grpc_addr inst]"
    "is_hash (assigned_store J st a inst) (k_binding a)"
    using assms(3) by (simp_all add: assigned_store_def Let_def id)
  show "k \<notin> {SFU_INSTANCES_KEY, SFU_ROOM_LOAD_KEY, k_binding a} \<Longrightarrow> assigned_store J st a inst k = st k"
    by (simp add: assigned_store_def Let_def)
qed

end

lemma put_set_same: "is_set st k \<Longrightarrow> put_set k (set_of st k) st = st"
  by (auto simp: put_set_def set_of_def is_set_def ttl_of_def fun_eq_iff split: option.splits rval.splits)

section \<open>Evaluation of the operations\<close>

context store_world
begin

lemmas op_eval = with_op_timeout_def scall_def room_fail_def prog_simps redis_eval sig_unix_now_def room_error_of_def

lemma consume_jti_eval:
  "fst (consume_jti E j ttl w) = Inr (view w (jti_key j) = None)"
  "view (snd (consume_jti E j ttl w)) = (if view w (jti_key j) = None
     then (view w)(jti_key j \<mapsto> (StrVal ''1'', Some (1000 * max (as_secs ttl) 1))) else view w)"
  by (simp_all add: consume_jti_def op_eval ttl_ms_def)

lemma acquire_session_lock_eval:
  "fst (acquire_session_lock E s owner ttl w) = Inr (view w (session_lock_key s) = None)"
  "view (snd (acquire_session_lock E s owner ttl w)) = (if view w (session_lock_key s) = None
     then (view w)(session_lock_key s \<mapsto> (StrVal owner, Some (ttl mod 2 ^ 64))) else view w)"
  by (simp_all add: acquire_session_lock_def op_eval ttl_ms_def)

lemma release_session_lock_eval:
  assumes "is_str (view w) (session_lock_key s)"
  shows "fst (release_session_lock E s owner w) = Inr ()"
    "view (snd (release_session_lock E s owner w)) =
       (if str_of (view w) (session_lock_key s) = Some owner then (view w)(session_lock_key s := None) else view w)"
  using assms by (simp_all add: release_session_lock_def op_eval COMPARE_AND_DEL_LUA_def)

lemma release_nick_lease_eval:
  assumes "is_str (view w) (nick_key n)"
  shows "fst (release_nick_lease E n s w) = Inr ()"
    "view (snd (release_nick_lease E n s w)) =
       (if str_of (view w) (nick_key n) = Some s then (view w)(nick_key n := None) else view w)"
  using assms by (simp_all add: release_nick_lease_def op_eval COMPARE_AND_DEL_LUA_def)

lemma session_get_eval:
  assumes "is_hash (view w) (session_key s)"
  shows "fst (session_get E s w) = Inr (if view w (session_key s) = None then None
      else Some (session_state_of (hash_of (view w) (session_key s))))"
    "view (snd (session_get E s w)) = view w"
proof -
  from call_hgetall [OF assms] obtain xs where
    "fst (call E (Hgetall (session_key s)) as_hash w) = Inr xs" "distinct_keys xs"
    "map_of xs = hash_of (view w) (session_key s)" "view (snd (call E (Hgetall (session_key s)) as_hash w)) = view w" .
  then show "fst (session_get E s w) = Inr (if view w (session_key s) = None then None
      else Some (session_state_of (hash_of (view w) (session_key s))))"
    "view (snd (session_get E s w)) = view w"
    by (auto simp: session_get_def op_eval collect_map_distinct typed_exists(1) [OF assms])
qed

lemma session_set_room_eval:
  assumes "is_hash (view w) (session_key s)"
  shows "fst (session_set_room E s room w) = Inr ()"
    "view (snd (session_set_room E s room w)) = put_hash (session_key s)
       ((hash_of (view w) (session_key s))(''room_id'' \<mapsto> (case room of None \<Rightarrow> [] | Some r \<Rightarrow> r))) (view w)"
  using assms by (simp_all add: session_set_room_def op_eval)

lemma session_set_owner_eval:
  assumes "is_hash (view w) (session_key s)"
  shows "fst (session_set_owner E s owner w) = Inr ()"
    "view (snd (session_set_owner E s owner w)) = put_hash (session_key s)
       ((hash_of (view w) (session_key s))(''signaling_owner_id'' \<mapsto> owner)) (view w)"
  using assms by (simp_all add: session_set_owner_def op_eval)

lemma session_delete_eval:
  "fst (session_delete E s w) = Inr ()" "view (snd (session_delete E s w)) = (view w)(session_key s := None)"
  by (simp_all add: session_delete_def op_eval)

lemma increment_instance_load_eval:
  assumes "is_zset (view w) SIGNALING_INSTANCE_LOAD_KEY"
  shows "fst (increment_instance_load E i w) = Inr ()"
    "view (snd (increment_instance_load E i w)) = put_zset SIGNALING_INSTANCE_LOAD_KEY
       ((zset_of (view w) SIGNALING_INSTANCE_LOAD_KEY)
          (i \<mapsto> get_or 0 (zset_of (view w) SIGNALING_INSTANCE_LOAD_KEY) i + 1)) (view w)"
  using assms by (simp_all add: increment_instance_load_def op_eval)

lemma decrement_instance_load_eval:
  assumes "is_zset (view w) SIGNALING_INSTANCE_LOAD_KEY"
  shows "fst (decrement_instance_load E i w) = Inr ()"
    "view (snd (decrement_instance_load E i w)) = put_zset SIGNALING_INSTANCE_LOAD_KEY
       ((zset_of (view w) SIGNALING_INSTANCE_LOAD_KEY)
          (i \<mapsto> lowered (zset_of (view w) SIGNALING_INSTANCE_LOAD_KEY i))) (view w)"
  using assms by (simp_all add: decrement_instance_load_def op_eval)

lemma get_room_route_eval:
  assumes "is_hash (view w) (room_binding_key r)"
  shows "fst (get_room_route E r w) = (if view w (room_binding_key r) = None then Inl RoomNotFound
      else room_route_of (hash_of (view w) (room_binding_key r)))"
    "view (snd (get_room_route E r w)) = view w"
proof -
  from call_hgetall [OF assms] obtain xs where
    "fst (call E (Hgetall (room_binding_key r)) as_hash w) = Inr xs" "distinct_keys xs"
    "map_of xs = hash_of (view w) (room_binding_key r)"
    "view (snd (call E (Hgetall (room_binding_key r)) as_hash w)) = view w" .
  then show "fst (get_room_route E r w) = (if view w (room_binding_key r) = None then Inl RoomNotFound
      else room_route_of (hash_of (view w) (room_binding_key r)))"
    "view (snd (get_room_route E r w)) = view w"
    by (auto simp: get_room_route_def op_eval collect_map_distinct typed_exists(1) [OF assms] split: sum.split)
qed

lemma join_room_eval:
  assumes "is_set (view w) (room_members_key r)"
  obtains ps where "fst (join_room E r n w) =
      (if view w (room_binding_key r) = None then Inl RoomNotFound
       else if n \<in> set_of (view w) (room_members_key r) then Inl NicknameTaken else Inr ps)"
    "set ps = set_of (view w) (room_members_key r) - {n}"
    "view (snd (join_room E r n w)) =
      (if view w (room_binding_key r) = None \<or> n \<in> set_of (view w) (room_members_key r) then view w
       else put_set (room_members_key r) (insert n (set_of (view w) (room_members_key r))) (view w))"
proof -
  define w1 where "w1 = snd (call E (Exists (room_binding_key r)) as_bool w)"
  define w2 where "w2 = snd (call E (Sismember (room_members_key r) n) as_bool w1)"
  define w3 where "w3 = snd (call E (Sadd (room_members_key r) n) as_int w2)"
  have v: "view w1 = view w" by (simp add: w1_def redis_eval)
  have v2: "view w2 = view w" using assms by (simp add: w2_def redis_eval v)
  have v3: "view w3 = put_set (room_members_key r) (insert n (set_of (view w) (room_members_key r))) (view w)"
    using assms by (simp add: w3_def redis_eval v2)
  have "is_set (view w3) (room_members_key r)" using is_set_finite [OF assms] by (simp add: v3)
  from call_smembers [OF this] obtain xs where xs: "fst (call E (Smembers (room_members_key r)) as_list w3) = Inr xs"
    "distinct xs" "set xs = set_of (view w3) (room_members_key r)"
    "view (snd (call E (Smembers (room_members_key r)) as_list w3)) = view w3" .
  have members: "set xs = insert n (set_of (view w) (room_members_key r))" using xs(3) by (simp add: v3)
  have others: "set (filter (\<lambda>name. name \<noteq> n) xs) = set_of (view w) (room_members_key r) - {n}"
    unfolding set_filter members by auto
  show ?thesis
  proof (cases "n \<in> set_of (view w) (room_members_key r)")
    case True
    obtain ys where "set ys = set_of (view w) (room_members_key r) - {n}"
      using is_set_finite [OF assms] finite_list by blast
    then show ?thesis
      using assms True v v2 by (intro that) (simp_all add: join_room_def op_eval w1_def [symmetric] w2_def [symmetric])
  next
    case False
    show ?thesis
      using assms xs(1,4) False v v2 v3
      by (intro that [OF _ others])
        (simp_all add: join_room_def op_eval w1_def [symmetric] w2_def [symmetric] w3_def [symmetric])
  qed
qed

lemma srem_member_eval:
  assumes "is_set (view w) (room_members_key r)"
  shows "fst (srem_member E r n w) = Inr ()"
    "view (snd (srem_member E r n w)) = put_set (room_members_key r) (set_of (view w) (room_members_key r) - {n}) (view w)"
  using assms by (simp_all add: srem_member_def op_eval)

lemma leave_room_eval:
  fixes n :: string
  assumes m: "is_set (view w) (room_members_key r)"
  defines "rest \<equiv> set_of (view w) (room_members_key r) - {n}"
  shows "fst (leave_room_redis E r n w) =
      (if view w (room_binding_key r) = None then Inl RoomNotFound
       else if n \<notin> set_of (view w) (room_members_key r) then Inl ParticipantNotInRoom
       else Inr \<lparr>room_empty = (rest = {})\<rparr>)"
    "view (snd (leave_room_redis E r n w)) =
      (if view w (room_binding_key r) = None \<or> n \<notin> set_of (view w) (room_members_key r) then view w
       else put_set (room_members_key r) rest (view w))"
proof -
  define w1 where "w1 = snd (call E (Exists (room_binding_key r)) as_bool w)"
  define w2 where "w2 = snd (call E (Srem (room_members_key r) n) as_int w1)"
  have v1: "view w1 = view w" by (simp add: w1_def redis_eval)
  have v2: "view w2 = put_set (room_members_key r) rest (view w)" using m by (simp add: w2_def redis_eval v1 rest_def)
  have fin: "finite rest" using is_set_finite [OF m] by (simp add: rest_def)
  have same: "n \<notin> set_of (view w) (room_members_key r) \<Longrightarrow> view w2 = view w"
    using put_set_same [OF m] by (simp add: v2 rest_def)
  have gone: "(put_set (room_members_key r) {} (view w))(room_members_key r := None) = put_set (room_members_key r) {} (view w)"
    by (auto simp: put_set_def)
  show "fst (leave_room_redis E r n w) =
      (if view w (room_binding_key r) = None then Inl RoomNotFound
       else if n \<notin> set_of (view w) (room_members_key r) then Inl ParticipantNotInRoom
       else Inr \<lparr>room_empty = (rest = {})\<rparr>)"
    using m fin v1 v2 by (simp add: leave_room_redis_def op_eval w1_def [symmetric] w2_def [symmetric] card_eq_0_iff)
  show "view (snd (leave_room_redis E r n w)) =
      (if view w (room_binding_key r) = None \<or> n \<notin> set_of (view w) (room_members_key r) then view w
       else put_set (room_members_key r) rest (view w))"
    using m fin v1 v2 same gone
    by (simp add: leave_room_redis_def op_eval w1_def [symmetric] w2_def [symmetric] card_eq_0_iff)
qed

lemma delete_room_eval:
  "fst (delete_room E r w) = Inr ()" "view (snd (delete_room E r w)) = (view w)(room_members_key r := None)"
  by (simp_all add: delete_room_def op_eval)

end

section \<open>Loads and bindings\<close>

lemma lowered_load: "lowered (zset_of st SFU_ROOM_LOAD_KEY i) = max 0 (room_load st i - 1)"
  by (auto simp: lowered_def room_load_def get_or_def Let_def split: option.splits)

context store_world
begin

lemma update_sfu_idle_eval:
  assumes ok: "sfu_ok (json E) (view w)"
  obtains q where "fst (update_sfu_idle_since E i t w) = Inr ()"
    "view (snd (update_sfu_idle_since E i t w)) =
      (case sfu_table (json E) (view w) i of None \<Rightarrow> view w
       | Some inst \<Rightarrow> put_hash SFU_INSTANCES_KEY ((hash_of (view w) SFU_INSTANCES_KEY)(i \<mapsto> q)) (view w))"
    "\<forall>inst. sfu_table (json E) (view w) i = Some inst \<longrightarrow> from_json (json E) q = Some (inst\<lparr>idle_since_unix := t\<rparr>)"
proof (cases "hash_of (view w) SFU_INSTANCES_KEY i")
  case None
  then show ?thesis using sfu_ok_typed(1) [OF ok]
    by (intro that) (simp_all add: update_sfu_idle_since_def op_eval sfu_table_def)
next
  case (Some p)
  obtain x where x: "from_json (json E) p = Some x" using sfu_ok_decodes [OF ok Some] by blast
  obtain q where q: "json_set_idle (json E) t p = Some q" "from_json (json E) q = Some (x\<lparr>idle_since_unix := t\<rparr>)"
    using set_idle [OF x] by blast
  show ?thesis using sfu_ok_typed(1) [OF ok] x q Some
    by (intro that [of q]) (simp_all add: update_sfu_idle_since_def op_eval sfu_table_def)
qed

text \<open>Lowering a load as the signaling service does it; an unknown instance is no error here.\<close>

lemma sig_decrement_eval:
  fixes i :: string
  assumes ok: "sfu_ok (json E) (view w)"
  defines "w' \<equiv> snd (sig_decrement_sfu_room_load E i w)"
    and "n \<equiv> lowered (zset_of (view w) SFU_ROOM_LOAD_KEY i)"
  shows "fst (sig_decrement_sfu_room_load E i w) = Inr ()"
    "room_load (view w') = (room_load (view w))(i := n)"
    "sfu_ok (json E) (view w')"
    "map_option max_rooms (sfu_table (json E) (view w') j) = map_option max_rooms (sfu_table (json E) (view w) j)"
    "k \<notin> {SFU_INSTANCES_KEY, SFU_ROOM_LOAD_KEY} \<Longrightarrow> view w' k = view w k"
    "given_back (json E) (view w) i (view w')"
proof -
  define st where "st = put_zset SFU_ROOM_LOAD_KEY ((zset_of (view w) SFU_ROOM_LOAD_KEY)(i \<mapsto> n)) (view w)"
  define w1 where "w1 = snd (call E (Zadd SFU_ROOM_LOAD_KEY i n) as_int
    (snd (call E (Zscore SFU_ROOM_LOAD_KEY i) as_opt_score w)))"
  define w2 where "w2 = snd (unix_time E w1)"
  define t where "t = fst (unix_time E w1)"
  note z = sfu_ok_typed(2) [OF ok]
  have v: "view w1 = st" "view w2 = st"
    using z by (simp_all add: redis_eval w1_def w2_def st_def)
  have ok1: "sfu_ok (json E) st" unfolding st_def using ok by (rule sfu_ok_frame)
  have ok2: "sfu_ok (json E) (view w2)" using ok1 v by simp
  have tb: "sfu_table (json E) st = sfu_table (json E) (view w)" unfolding st_def by (simp add: sfu_table_frame)
  have ld: "room_load st = (room_load (view w))(i := n)" unfolding st_def by (rule room_load_upd)
  have fr: "k \<notin> {SFU_INSTANCES_KEY, SFU_ROOM_LOAD_KEY} \<Longrightarrow> st k = view w k" for k by (simp add: st_def)
  have run: "sig_decrement_sfu_room_load E i w = (if n = 0 then update_sfu_idle_since E i t w2 else (Inr (), w1))"
    using z by (simp add: sig_decrement_sfu_room_load_def op_eval n_def w1_def w2_def t_def)
  from update_sfu_idle_eval [OF ok2, of i t, unfolded v tb] obtain q where q: "fst (update_sfu_idle_since E i t w2) = Inr ()"
    "view (snd (update_sfu_idle_since E i t w2)) =
      (case sfu_table (json E) (view w) i of None \<Rightarrow> st
       | Some inst \<Rightarrow> put_hash SFU_INSTANCES_KEY ((hash_of st SFU_INSTANCES_KEY)(i \<mapsto> q)) st)"
    "\<forall>inst. sfu_table (json E) (view w) i = Some inst \<longrightarrow> from_json (json E) q = Some (inst\<lparr>idle_since_unix := t\<rparr>)" .
  have tab: "sfu_table (json E) (put_hash SFU_INSTANCES_KEY ((hash_of st SFU_INSTANCES_KEY)(i \<mapsto> q)) st) =
      (sfu_table (json E) (view w))(i := from_json (json E) q)"
    using tb by (auto simp: sfu_table_def fun_eq_iff)
  have ok3: "sfu_ok (json E) (put_hash SFU_INSTANCES_KEY ((hash_of st SFU_INSTANCES_KEY)(i \<mapsto> q)) st)"
    if "sfu_table (json E) (view w) i = Some inst" for inst
    using ok1 q(3) [rule_format, OF that] sfu_table_id [OF ok that] by (auto simp: sfu_ok_def)
  show "fst (sig_decrement_sfu_room_load E i w) = Inr ()" by (simp add: run q(1))
  show load: "room_load (view w') = (room_load (view w))(i := n)"
    unfolding w'_def run using ld by (auto simp: q(2) v room_load_frame split: option.split)
  have same: "(sfu_table (json E) (view w))(i := None) = sfu_table (json E) (view w)"
    if "sfu_table (json E) (view w) i = None" using that by auto
  have idle: "if n = 0 then idle_only (json E) (view w) i (view w') else sfu_table (json E) (view w') = sfu_table (json E) (view w)"
    unfolding w'_def run idle_only_def using q(3)
    by (cases "sfu_table (json E) (view w) i") (auto simp: q(2) v tab tb same intro!: exI [of _ t])
  show ok': "sfu_ok (json E) (view w')"
    unfolding w'_def run using ok1 ok3 by (auto simp: q(2) v split: option.split)
  show "map_option max_rooms (sfu_table (json E) (view w') j) = map_option max_rooms (sfu_table (json E) (view w) j)"
    unfolding w'_def run using q(3) by (auto simp: q(2) v tab tb split: option.split)
  show "k \<notin> {SFU_INSTANCES_KEY, SFU_ROOM_LOAD_KEY} \<Longrightarrow> view w' k = view w k"
    unfolding w'_def run using fr by (auto simp: q(2) v split: option.split)
  show "given_back (json E) (view w) i (view w')"
    using ok' load idle by (simp add: given_back_def n_def lowered_load)
qed

lemma close_room_binding_eval:
  fixes r :: string
  assumes ok: "sfu_ok (json E) (view w)" and b: "is_hash (view w) (room_binding_key r)"
  defines "w' \<equiv> snd (close_room_binding E r w)"
    and "sfu \<equiv> hash_of (view w) (room_binding_key r) ''sfu_instance_id''"
  shows "fst (close_room_binding E r w) = Inr (sfu \<noteq> None)"
    "view w' (room_binding_key r) = None"
    "room_load (view w') = (case sfu of None \<Rightarrow> room_load (view w)
       | Some i \<Rightarrow> (room_load (view w))(i := lowered (zset_of (view w) SFU_ROOM_LOAD_KEY i)))"
    "sfu_ok (json E) (view w')"
    "map_option max_rooms (sfu_table (json E) (view w') j) = map_option max_rooms (sfu_table (json E) (view w) j)"
    "k \<notin> {SFU_INSTANCES_KEY, SFU_ROOM_LOAD_KEY, room_binding_key r} \<Longrightarrow> view w' k = view w k"
    "case sfu of None \<Rightarrow> view w' = (view w)(room_binding_key r := None) | Some i \<Rightarrow> given_back (json E) (view w) i (view w')"
proof -
  define w1 where "w1 = snd (call E (Del (room_binding_key r)) as_int
    (snd (call E (Hget (room_binding_key r) ''sfu_instance_id'') as_opt_string w)))"
  have v: "view w1 = (view w)(room_binding_key r := None)" using b by (simp add: w1_def redis_eval)
  have ok1: "sfu_ok (json E) (view w1)" using ok by (simp add: v sfu_ok_frame)
  have ld: "room_load (view w1) = room_load (view w)" by (simp add: v room_load_frame)
  have tb: "sfu_table (json E) (view w1) = sfu_table (json E) (view w)" by (simp add: v sfu_table_frame)
  have gb: "given_back (json E) ((view w)(room_binding_key r := None)) i st' = given_back (json E) (view w) i st'" for i st'
    by (simp add: given_back_def idle_only_def room_load_frame sfu_table_frame)
  have gone: "sfu \<noteq> None \<Longrightarrow> view w (room_binding_key r) \<noteq> None"
    using typed_exists(1) [OF b] by (auto simp: sfu_def)
  have zs: "zset_of (view w1) SFU_ROOM_LOAD_KEY = zset_of (view w) SFU_ROOM_LOAD_KEY" by (simp add: v)
  have run: "close_room_binding E r w = (case sfu of None \<Rightarrow> (Inr False, w1)
      | Some i \<Rightarrow> (Inr True, snd (sig_decrement_sfu_room_load E i w1)))"
    using b gone sig_decrement_eval(1) [OF ok1]
    by (auto simp: close_room_binding_def op_eval sfu_def w1_def split: option.split)
  show "fst (close_room_binding E r w) = Inr (sfu \<noteq> None)" by (simp add: run split: option.split)
  show "view w' (room_binding_key r) = None"
    unfolding w'_def run using sig_decrement_eval(5) [OF ok1, of "room_binding_key r"] by (simp add: v split: option.split)
  show "room_load (view w') = (case sfu of None \<Rightarrow> room_load (view w)
       | Some i \<Rightarrow> (room_load (view w))(i := lowered (zset_of (view w) SFU_ROOM_LOAD_KEY i)))"
    unfolding w'_def run using sig_decrement_eval(2) [OF ok1] by (simp add: ld zs split: option.split)
  show "sfu_ok (json E) (view w')"
    unfolding w'_def run using sig_decrement_eval(3) [OF ok1] ok1 by (simp split: option.split)
  show "map_option max_rooms (sfu_table (json E) (view w') j) = map_option max_rooms (sfu_table (json E) (view w) j)"
    unfolding w'_def run using sig_decrement_eval(4) [OF ok1] by (simp add: tb split: option.split)
  show "k \<notin> {SFU_INSTANCES_KEY, SFU_ROOM_LOAD_KEY, room_binding_key r} \<Longrightarrow> view w' k = view w k"
    unfolding w'_def run using sig_decrement_eval(5) [OF ok1, of k] by (simp add: v split: option.split)
  show "case sfu of None \<Rightarrow> view w' = (view w)(room_binding_key r := None) | Some i \<Rightarrow> given_back (json E) (view w) i (view w')"
    unfolding w'_def run using sig_decrement_eval(6) [OF ok1] by (simp add: v gb split: option.split)
qed

lemma assign_least_eval:
  fixes r oid host :: string and port :: "16 word"
  assumes ok: "sfu_ok (json E) (view w)"
  defines "now \<equiv> fst (unix_time E w)"
    and "w' \<equiv> snd (assign_room_to_least_loaded_sfu E r oid host port w)"
  shows "\<forall>i inst. \<not> assignable (json E) (view w) now i inst \<Longrightarrow>
      fst (assign_room_to_least_loaded_sfu E r oid host port w) = Inl NoSfuCapacity \<and> view w' = view w"
    "\<exists>i inst. assignable (json E) (view w) now i inst \<Longrightarrow> view w (room_binding_key r) \<noteq> None \<Longrightarrow>
      fst (assign_room_to_least_loaded_sfu E r oid host port w) = Inl RoomAlreadyExists \<and> view w' = view w"
    "\<exists>i inst. assignable (json E) (view w) now i inst \<Longrightarrow> view w (room_binding_key r) = None \<Longrightarrow>
      \<exists>i inst. assignable (json E) (view w) now i inst
        \<and> (\<forall>j other. assignable (json E) (view w) now j other \<longrightarrow> room_load (view w) i \<le> room_load (view w) j)
        \<and> view w' = assigned_store (json E) (view w) (assign_args_for r oid host port now) inst
        \<and> (i \<noteq> ''__ROOM_EXISTS__'' \<longrightarrow> fst (assign_room_to_least_loaded_sfu E r oid host port w) =
             (if grpc_addr inst = [] then Inl InvalidRoomTarget else Inr \<lparr>assigned_grpc_addr = grpc_addr inst\<rparr>))"
proof -
  define w0 where "w0 = snd (unix_time E w)"
  define a where "a = assign_args_for r oid host port now"
  have v0: "view w0 = view w" by (simp add: w0_def clock_view)
  have "cmd_typed (json E) (AssignRoom a) (view w0)"
    using sfu_ok_typed [OF ok] sfu_ok_decodes [OF ok] cjson_reads
    by (fastforce simp: a_def v0 ran_def)
  from call_assign_room [OF this] obtain listing res where l0:
    "fst (call E (AssignRoom a) as_list w0) = Inr res" "distinct_keys listing"
    "map_of listing = hash_of (view w0) (k_instances a)"
    "ASSIGN_ROOM_TO_SFU_LUA (json E) a listing (view w0) = Some (res, view (snd (call E (AssignRoom a) as_list w0)))" .
  have "k_instances a = SFU_INSTANCES_KEY" by (simp add: a_def)
  note l = l0 [unfolded v0 this]
  note script = assign_script [OF ok l(2,3) a_def]
  have run: "assign_room_to_least_loaded_sfu E r oid host port w =
     (if res = [] then Inl NoSfuCapacity
      else if hd res = ''__ROOM_EXISTS__'' then Inl RoomAlreadyExists
      else (case nonempty (if length res > 1 then Some (res ! 1) else None) of
              None \<Rightarrow> Inl InvalidRoomTarget | Some addr \<Rightarrow> Inr \<lparr>assigned_grpc_addr = addr\<rparr>),
      snd (call E (AssignRoom a) as_list w0))"
    using l(1) by (auto simp: assign_room_to_least_loaded_sfu_def op_eval a_def now_def w0_def split: option.split)
  show "fst (assign_room_to_least_loaded_sfu E r oid host port w) = Inl NoSfuCapacity \<and> view w' = view w"
    if "\<forall>i inst. \<not> assignable (json E) (view w) now i inst"
    using script(1) [OF that] l(4) by (simp add: run w'_def)
  show "fst (assign_room_to_least_loaded_sfu E r oid host port w) = Inl RoomAlreadyExists \<and> view w' = view w"
    if "\<exists>i inst. assignable (json E) (view w) now i inst" "view w (room_binding_key r) \<noteq> None"
    using script(2) [OF that(1)] that(2) l(4) by (auto simp add: run w'_def)
  show "\<exists>i inst. assignable (json E) (view w) now i inst
        \<and> (\<forall>j other. assignable (json E) (view w) now j other \<longrightarrow> room_load (view w) i \<le> room_load (view w) j)
        \<and> view w' = assigned_store (json E) (view w) (assign_args_for r oid host port now) inst
        \<and> (i \<noteq> ''__ROOM_EXISTS__'' \<longrightarrow> fst (assign_room_to_least_loaded_sfu E r oid host port w) =
             (if grpc_addr inst = [] then Inl InvalidRoomTarget else Inr \<lparr>assigned_grpc_addr = grpc_addr inst\<rparr>))"
    if some: "\<exists>i inst. assignable (json E) (view w) now i inst" and free: "view w (room_binding_key r) = None"
  proof -
    from script(2) [OF some] obtain i inst where i: "assignable (json E) (view w) now i inst"
      "\<forall>j other. assignable (json E) (view w) now j other \<longrightarrow> room_load (view w) i \<le> room_load (view w) j"
      "ASSIGN_ROOM_TO_SFU_LUA (json E) a listing (view w) =
         Some ([i, grpc_addr inst], assigned_store (json E) (view w) a inst)"
      using free by auto
    have res: "res = [i, grpc_addr inst]" "view w' = assigned_store (json E) (view w) a inst"
      using i(3) l(4) by (simp_all add: run w'_def)
    show ?thesis using i(1,2) res by (intro exI [of _ i] exI [of _ inst]) (simp add: run a_def nonempty_def)
  qed
qed

end

section \<open>Capacity\<close>

text \<open>An SFU never carries more rooms than it admits, and loads count rooms.\<close>

definition loads_ok :: "json_api \<Rightarrow> store \<Rightarrow> bool" where
  "loads_ok J st \<longleftrightarrow> sfu_ok J st \<and> loads_natural st \<and> within_capacity J st"

lemma nat_below: "(x :: real) \<in> \<nat> \<Longrightarrow> x < of_nat n \<Longrightarrow> x + 1 \<in> \<nat> \<and> x + 1 \<le> of_nat n"
proof -
  assume "x \<in> \<nat>" "x < of_nat n"
  then obtain m where "x = of_nat m" "m < n" by (auto elim: Nats_cases)
  then have "x + 1 = of_nat (Suc m)" "Suc m \<le> n" by simp_all
  then show ?thesis by (metis of_nat_in_Nats of_nat_mono)
qed

context json_layer
begin

lemma assigned_loads_ok:
  assumes "loads_ok J st" "assignable J st now i inst" "k_binding a \<notin> {SFU_INSTANCES_KEY, SFU_ROOM_LOAD_KEY}"
  shows "loads_ok J (assigned_store J st a inst)"
proof -
  have ok: "sfu_ok J st" and nat: "\<forall>i. room_load st i \<in> \<nat>" and cap: "within_capacity J st"
    using assms(1) by (simp_all add: loads_ok_def loads_natural_iff)
  note f = assigned_facts [OF ok assms(2,3)]
  have "room_load st i < of_nat (unat (max_rooms inst))" and tb: "sfu_table J st i = Some inst"
    using assms(2) by (simp_all add: assignable_def lua_eligible_inst)
  then have "room_load st i + 1 \<in> \<nat> \<and> room_load st i + 1 \<le> of_nat (unat (max_rooms inst))"
    using nat by (intro nat_below) simp_all
  then show ?thesis
    using f(1-3) nat cap tb by (auto simp: loads_ok_def loads_natural_iff within_capacity_def)
qed

end

context store_world
begin

lemma assign_loads_ok:
  assumes "loads_ok (json E) (view w)"
  shows "loads_ok (json E) (view (snd (assign_room_to_least_loaded_sfu E r oid host port w)))"
proof -
  have ok: "sfu_ok (json E) (view w)" using assms by (simp add: loads_ok_def)
  note e = assign_least_eval [OF ok, of r oid host port]
  consider "\<forall>i inst. \<not> assignable (json E) (view w) (fst (unix_time E w)) i inst"
    | "\<exists>i inst. assignable (json E) (view w) (fst (unix_time E w)) i inst" "view w (room_binding_key r) \<noteq> None"
    | "\<exists>i inst. assignable (json E) (view w) (fst (unix_time E w)) i inst" "view w (room_binding_key r) = None"
    by blast
  then show ?thesis
  proof cases
    case 1
    then show ?thesis using e(1) assms by simp
  next
    case 2
    then show ?thesis using e(2) assms by simp
  next
    case 3
    from e(3) [OF 3] obtain i inst where "assignable (json E) (view w) (fst (unix_time E w)) i inst"
      "view (snd (assign_room_to_least_loaded_sfu E r oid host port w)) =
         assigned_store (json E) (view w) (assign_args_for r oid host port (fst (unix_time E w))) inst"
      by blast
    then show ?thesis using assigned_loads_ok [OF assms] by simp
  qed
qed

lemma close_loads_ok:
  assumes "loads_ok (json E) (view w)" "is_hash (view w) (room_binding_key r)"
  shows "loads_ok (json E) (view (snd (close_room_binding E r w)))"
proof -
  have ok: "sfu_ok (json E) (view w)" and nat: "\<forall>i. room_load (view w) i \<in> \<nat>"
    and cap: "within_capacity (json E) (view w)"
    using assms(1) by (simp_all add: loads_ok_def loads_natural_iff)
  note c = close_room_binding_eval [OF ok assms(2)]
  let ?w = "snd (close_room_binding E r w)"
  have ld: "room_load (view ?w) j \<in> \<nat> \<and> room_load (view ?w) j \<le> room_load (view w) j" for j
  proof -
    have "0 \<le> room_load (view w) j" using nat by (metis Nats_cases of_nat_0_le_iff)
    then show ?thesis using nat nat_pred [of "room_load (view w) j"]
      unfolding c(3) lowered_load by (auto split: option.split)
  qed
  have "room_load (view ?w) j \<le> of_nat (unat (max_rooms inst))"
    if tb: "sfu_table (json E) (view ?w) j = Some inst" for j inst
  proof -
    obtain old where "sfu_table (json E) (view w) j = Some old" "max_rooms old = max_rooms inst"
      using c(5) [of j] tb by (cases "sfu_table (json E) (view w) j") auto
    then show ?thesis using cap ld [of j] by (fastforce simp: within_capacity_def)
  qed
  then show ?thesis using c(4) ld by (simp add: loads_ok_def loads_natural_iff within_capacity_def)
qed

end

text \<open>The outcomes of an assignment of a room that is not bound yet.\<close>

context store_world
begin

lemma assign_outcome:
  fixes r oid host :: string and port :: "16 word"
  assumes ok: "sfu_ok (json E) (view w)"
    and named: "\<forall>i inst. sfu_table (json E) (view w) i = Some inst \<longrightarrow> i \<noteq> ''__ROOM_EXISTS__'' \<and> grpc_addr inst \<noteq> []"
    and free: "view w (room_binding_key r) = None"
  defines "run \<equiv> assign_room_to_least_loaded_sfu E r oid host port w"
    and "can \<equiv> assignable (json E) (view w) (fst (unix_time E w))"
  obtains (full) "\<forall>i inst. \<not> can i inst" "fst run = Inl NoSfuCapacity" "view (snd run) = view w"
  | (placed) i inst where "can i inst" "\<forall>j other. can j other \<longrightarrow> room_load (view w) i \<le> room_load (view w) j"
      "fst run = Inr \<lparr>assigned_grpc_addr = grpc_addr inst\<rparr>" "sfu_ok (json E) (view (snd run))"
      "hash_of (view (snd run)) (room_binding_key r) =
         [''owner_host'' \<mapsto> host, ''owner_port'' \<mapsto> show_nat (unat port), ''signaling_owner_id'' \<mapsto> oid,
          ''room_state'' \<mapsto> ''active'', ''sfu_instance_id'' \<mapsto> i, ''sfu_grpc_addr'' \<mapsto> grpc_addr inst]"
      "is_hash (view (snd run)) (room_binding_key r)"
      "room_load (view (snd run)) = (room_load (view w))(i := room_load (view w) i + 1)"
      "sfu_table (json E) (view (snd run)) = (sfu_table (json E) (view w))(i \<mapsto> inst\<lparr>idle_since_unix := 0\<rparr>)"
      "\<And>k. k \<notin> {SFU_INSTANCES_KEY, SFU_ROOM_LOAD_KEY, room_binding_key r} \<Longrightarrow> view (snd run) k = view w k"
proof (cases "\<exists>i inst. can i inst")
  case False
  then show ?thesis using assign_least_eval(1) [OF ok, of r oid host port] by (intro full) (simp_all add: can_def run_def)
next
  case True
  from assign_least_eval(3) [OF ok True [unfolded can_def] free, of oid host port, folded can_def run_def] obtain i inst where i: "can i inst"
    "\<forall>j other. can j other \<longrightarrow> room_load (view w) i \<le> room_load (view w) j"
    "view (snd run) = assigned_store (json E) (view w) (assign_args_for r oid host port (fst (unix_time E w))) inst"
    "i \<noteq> ''__ROOM_EXISTS__'' \<longrightarrow> fst run = (if grpc_addr inst = [] then Inl InvalidRoomTarget
       else Inr \<lparr>assigned_grpc_addr = grpc_addr inst\<rparr>)"
    by (elim exE conjE)
  have tb: "i \<noteq> ''__ROOM_EXISTS__'' \<and> grpc_addr inst \<noteq> []"
    using i(1) named unfolding can_def assignable_def by blast
  note f = assigned_facts [OF ok i(1) [unfolded can_def], of "assign_args_for r oid host port (fst (unix_time E w))"]
  show ?thesis using i(4) tb f by (intro placed [OF i(1,2)]) (simp_all add: i(3))
qed

end

section \<open>Properties\<close>

text \<open>
  C4. Assignment of a room. One call of the assigning operation does exactly one of three things.
  With no eligible SFU it fails with NoSfuCapacity, with a room that is already bound it
  fails with RoomAlreadyExists, and in both cases nothing changes. Otherwise it binds the room to
  an eligible SFU that no eligible SFU undercuts: the binding names this node and that SFU, the
  load of that SFU alone grows by one, it is no longer idle, every other key is untouched, and the
  address of that SFU is returned.
\<close>

theorem assign_room_atomic:
  assumes "store_world E view" "sfu_ok (json E) (view w)"
    and "\<forall>i inst. sfu_table (json E) (view w) i = Some inst \<longrightarrow> i \<noteq> ''__ROOM_EXISTS__'' \<and> grpc_addr inst \<noteq> []"
    and "run = assign_room_to_least_loaded_sfu E r oid host port w"
    and "can = assignable (json E) (view w) (fst (unix_time E w))"
  shows "(if \<forall>i inst. \<not> can i inst then fst run = Inl NoSfuCapacity \<and> view (snd run) = view w
     else if view w (room_binding_key r) \<noteq> None then fst run = Inl RoomAlreadyExists \<and> view (snd run) = view w
     else \<exists>i inst. can i inst \<and> (\<forall>j other. can j other \<longrightarrow> room_load (view w) i \<le> room_load (view w) j)
       \<and> fst run = Inr \<lparr>assigned_grpc_addr = grpc_addr inst\<rparr>
       \<and> hash_of (view (snd run)) (room_binding_key r) =
           [''owner_host'' \<mapsto> host, ''owner_port'' \<mapsto> show_nat (unat port), ''signaling_owner_id'' \<mapsto> oid,
            ''room_state'' \<mapsto> ''active'', ''sfu_instance_id'' \<mapsto> i, ''sfu_grpc_addr'' \<mapsto> grpc_addr inst]
       \<and> room_load (view (snd run)) = (room_load (view w))(i := room_load (view w) i + 1)
       \<and> sfu_table (json E) (view (snd run)) = (sfu_table (json E) (view w))(i \<mapsto> inst\<lparr>idle_since_unix := 0\<rparr>)
       \<and> (\<forall>k. k \<notin> {SFU_INSTANCES_KEY, SFU_ROOM_LOAD_KEY, room_binding_key r} \<longrightarrow> view (snd run) k = view w k))"
proof (cases "view w (room_binding_key r) = None")
  case False
  then show ?thesis
    using store_world.assign_least_eval(1,2) [OF assms(1,2), of r oid host port, folded assms(4,5)] by auto
next
  case True
  show ?thesis
  proof (rule store_world.assign_outcome [OF assms(1,2,3) True, of oid host port, folded assms(4,5)])
    fix i inst
    assume "can i inst" "\<forall>j other. can j other \<longrightarrow> room_load (view w) i \<le> room_load (view w) j"
      "fst run = Inr \<lparr>assigned_grpc_addr = grpc_addr inst\<rparr>"
      "hash_of (view (snd run)) (room_binding_key r) =
         [''owner_host'' \<mapsto> host, ''owner_port'' \<mapsto> show_nat (unat port), ''signaling_owner_id'' \<mapsto> oid,
          ''room_state'' \<mapsto> ''active'', ''sfu_instance_id'' \<mapsto> i, ''sfu_grpc_addr'' \<mapsto> grpc_addr inst]"
      "room_load (view (snd run)) = (room_load (view w))(i := room_load (view w) i + 1)"
      "sfu_table (json E) (view (snd run)) = (sfu_table (json E) (view w))(i \<mapsto> inst\<lparr>idle_since_unix := 0\<rparr>)"
      "\<And>k. k \<notin> {SFU_INSTANCES_KEY, SFU_ROOM_LOAD_KEY, room_binding_key r} \<Longrightarrow> view (snd run) k = view w k"
    then show ?thesis using True by auto
  qed simp
qed

text \<open>
  C27. Capacity is respected. If every SFU is within its capacity and all loads count rooms, this
  still holds after a room was assigned, whatever the outcome, and after a room binding was
  closed.
\<close>

theorem capacity_respected:
  assumes "store_world E view" "loads_ok (json E) (view w)" "is_hash (view w) (room_binding_key r)"
  shows "loads_ok (json E) (view (snd (assign_room_to_least_loaded_sfu E r oid host port w)))
    \<and> loads_ok (json E) (view (snd (close_room_binding E r w)))"
  using store_world.assign_loads_ok [OF assms(1,2)] store_world.close_loads_ok [OF assms] by blast

text \<open>
  C30. The script selects like the Rust code. On the same listing of instances, with times that do
  not overflow, the loop of the Lua script ends with the very instance that
  the filter and \<^verbatim>\<open>min_by\<close> of \<open>select_least_loaded_instance\<close> pick, and its load.
\<close>

theorem script_selects_like_rust:
  assumes "json_layer J" "\<forall>p \<in> set ps. from_json J p = Some (f p)"
    and "\<forall>p \<in> set ps. - (2 ^ 63) \<le> now - last_ping_unix (f p) \<and> now - last_ping_unix (f p) < 2 ^ 63"
  shows "lua_scan J loads now 30 ps None =
    Some (map_option (\<lambda>i. (lua_of_inst i, get_or 0 loads (instance_id i)))
      (min_by (\<lambda>i. get_or 0 loads (instance_id i)) (filter (sfu_eligible now loads) (map f ps))))"
proof -
  have dec: "\<forall>p \<in> set ps. cjson_decode J p = Some ((lua_of_inst \<circ> f) p)"
    using assms(2) json_layer.cjson_reads [OF assms(1)] by simp
  have el: "lua_eligible now 30 (get_or 0 loads (instance_id (f p))) (lua_of_inst (f p)) = sfu_eligible now loads (f p)"
    if "p \<in> set ps" for p
    using assms(3) that by (auto simp: lua_eligible_inst sfu_eligible_def sub_i64_id)
  have flt: "filter (\<lambda>x. lua_eligible now 30 (get_or 0 loads (lua_instance_id x)) x) (map (lua_of_inst \<circ> f) ps)
      = map lua_of_inst (filter (sfu_eligible now loads) (map f ps))"
    using el by (induction ps) auto
  have mb: "min_by (\<lambda>x. get_or 0 loads (lua_instance_id x)) (map lua_of_inst xs)
      = map_option lua_of_inst (min_by (\<lambda>i. get_or 0 loads (instance_id i)) xs)" for xs
    by (induction xs) (auto split: option.splits)
  show ?thesis
    by (subst lua_scan_min [OF dec]) (simp add: flt mb split: option.split)
qed

text \<open>
  A connector token is used once. Consuming an identifier succeeds exactly when it was not
  consumed before; after that every further attempt is refused and changes nothing, for as
  long as its marker is kept, which is the given time and at least a second.
\<close>

theorem jti_consumed_once:
  assumes "store_world E view" "view w (jti_key j) = None" "w' = snd (consume_jti E j ttl w)"
  shows "fst (consume_jti E j ttl w) = Inr True
    \<and> fst (consume_jti E j ttl' w') = Inr False \<and> view (snd (consume_jti E j ttl' w')) = view w'
    \<and> ttl_of (view w') (jti_key j) = Some (1000 * max (as_secs ttl) 1)
    \<and> (\<forall>k. k \<noteq> jti_key j \<longrightarrow> view w' k = view w k)"
  using assms(2) store_world.consume_jti_eval [OF assms(1)]
  by (simp add: assms(3) ttl_of_def)

text \<open>
  The session lock is exclusive. It is granted exactly when free; while it is held, another
  acquisition is refused without effect, and a release by anyone but the holder leaves it in
  place; the holder's release frees it and changes nothing else.
\<close>

theorem session_lock_exclusive:
  assumes "store_world E view" "view w (session_lock_key s) = None"
    and "w1 = snd (acquire_session_lock E s owner ttl w)"
  shows "fst (acquire_session_lock E s owner ttl w) = Inr True
    \<and> fst (acquire_session_lock E s other ttl' w1) = Inr False
    \<and> view (snd (acquire_session_lock E s other ttl' w1)) = view w1
    \<and> (other \<noteq> owner \<longrightarrow> view (snd (release_session_lock E s other w1)) = view w1)
    \<and> view (snd (release_session_lock E s owner w1)) = view w"
proof -
  note a = store_world.acquire_session_lock_eval [OF assms(1)]
  have v: "view w1 = (view w)(session_lock_key s \<mapsto> (StrVal owner, Some (ttl mod 2 ^ 64)))"
    using assms(2) by (simp add: assms(3) a)
  have t: "is_str (view w1) (session_lock_key s)" by (simp add: v)
  note r = store_world.release_session_lock_eval [OF assms(1) t]
  have held: "str_of (view w1) (session_lock_key s) = Some owner" by (simp add: v str_of_def)
  have there: "view w1 (session_lock_key s) \<noteq> None" by (simp add: v)
  have restored: "(view w1)(session_lock_key s := None) = view w" using assms(2) by (auto simp: v)
  show ?thesis using assms(2) there by (auto simp: a r held restored)
qed

text \<open>
  Joining and leaving. Joining a bound room under a free nickname adds exactly that nickname and
  answers the others; a second join under the same nickname is refused. Leaving it again restores
  the room's members and tells whether the room became empty.
\<close>

theorem join_leave_roundtrip:
  assumes "store_world E view" "is_set (view w) (room_members_key r)"
    and "view w (room_binding_key r) \<noteq> None" "n \<notin> set_of (view w) (room_members_key r)"
    and "w1 = snd (join_room E r n w)" and "w2 = snd (leave_room_redis E r n w1)"
  shows "(\<exists>ps. fst (join_room E r n w) = Inr ps \<and> set ps = set_of (view w) (room_members_key r))
    \<and> set_of (view w1) (room_members_key r) = insert n (set_of (view w) (room_members_key r))
    \<and> fst (join_room E r n w1) = Inl NicknameTaken
    \<and> fst (leave_room_redis E r n w1) = Inr \<lparr>room_empty = (set_of (view w) (room_members_key r) = {})\<rparr>
    \<and> set_of (view w2) (room_members_key r) = set_of (view w) (room_members_key r)
    \<and> (\<forall>k. k \<noteq> room_members_key r \<longrightarrow> view w2 k = view w k)"
proof -
  let ?m = "set_of (view w) (room_members_key r)"
  from store_world.join_room_eval [OF assms(1,2)] obtain ps where j:
    "fst (join_room E r n w) = (if view w (room_binding_key r) = None then Inl RoomNotFound
       else if n \<in> ?m then Inl NicknameTaken else Inr ps)" "set ps = ?m - {n}"
    "view (snd (join_room E r n w)) = (if view w (room_binding_key r) = None \<or> n \<in> ?m then view w
       else put_set (room_members_key r) (insert n ?m) (view w))" .
  have v1: "view w1 = put_set (room_members_key r) (insert n ?m) (view w)" using j(3) assms(3,4) by (simp add: assms(5))
  have t1: "is_set (view w1) (room_members_key r)" using is_set_finite [OF assms(2)] by (simp add: v1)
  from store_world.join_room_eval [OF assms(1) t1, of n] have again: "fst (join_room E r n w1) = Inl NicknameTaken"
    using assms(3) by (auto simp: v1)
  note l = store_world.leave_room_eval [OF assms(1) t1, of n]
  have v2: "view w2 = put_set (room_members_key r) ?m (view w1)"
    using l(2) assms(3,4) by (simp add: v1 assms(6))
  show ?thesis using j(1,2) assms(3,4) again l(1) by (simp add: v1 v2)
qed

section \<open>Witnesses\<close>

lemma demo_assignable:
  "assignable mem_json (mem_view demo_world) 100 i inst \<longleftrightarrow>
     i = ''a'' \<and> inst = sfu_a \<or> i = ''b'' \<and> inst = sfu_b"
  by (auto simp: assignable_def demo_sfu_table lua_eligible_inst room_load_def demo_view sfu_a_def sfu_b_def
      split: if_splits)

lemma demo_clock [simp]: "fst (mem_time demo_world) = 100"
  by (simp add: mem_time_def demo_world_def)

theorem assign_room_atomic_witness:
  "fst (assign_room_to_least_loaded_sfu mem_env ''r2'' ''n1'' ''h1'' 81 demo_world)
     = Inr \<lparr>assigned_grpc_addr = ''http://b''\<rparr>"
proof -
  have named: "\<forall>i inst. sfu_table (json mem_env) (mem_view demo_world) i = Some inst
      \<longrightarrow> i \<noteq> ''__ROOM_EXISTS__'' \<and> grpc_addr inst \<noteq> []"
    by (auto simp: demo_sfu_table sfu_a_def sfu_b_def split: if_splits)
  have free: "\<not> mem_view demo_world (room_binding_key ''r2'') \<noteq> None" by (simp add: demo_view)
  have some: "\<not> (\<forall>i inst. \<not> assignable mem_json (mem_view demo_world) 100 i inst)" by (auto simp: demo_assignable)
  from assign_room_atomic [OF mem_store.store_world_axioms _ named refl refl,
      where r = "''r2''" and oid = "''n1''" and host = "''h1''" and port = 81,
      unfolded mem_env_sel demo_clock, unfolded if_not_P [OF free] if_not_P [OF some], OF demo_sfu_ok]
  obtain i inst where i: "assignable mem_json (mem_view demo_world) 100 i inst"
    "\<forall>j other. assignable mem_json (mem_view demo_world) 100 j other
       \<longrightarrow> room_load (mem_view demo_world) i \<le> room_load (mem_view demo_world) j"
    "fst (assign_room_to_least_loaded_sfu mem_env ''r2'' ''n1'' ''h1'' 81 demo_world) = Inr \<lparr>assigned_grpc_addr = grpc_addr inst\<rparr>"
    by (elim exE conjE)
  have "inst = sfu_b" using i(1,2) by (auto simp: demo_assignable room_load_def demo_view)
  then show ?thesis using i(3) by (simp add: sfu_b_def)
qed

theorem capacity_respected_witness:
  "loads_ok mem_json (mem_view demo_world)
   \<and> loads_ok mem_json (mem_view (snd (assign_room_to_least_loaded_sfu mem_env ''r1'' ''n1'' ''h1'' 81 demo_world)))
   \<and> loads_ok mem_json (mem_view (snd (close_room_binding mem_env ''r1'' demo_world)))"
proof -
  have ok: "loads_ok mem_json (mem_view demo_world)"
    by (auto simp: loads_ok_def loads_natural_def within_capacity_def demo_view demo_sfu_table room_load_def
        sfu_a_def sfu_b_def split: if_splits)
  have h: "is_hash (mem_view demo_world) (room_binding_key ''r1'')"
    by (auto simp: is_hash_def demo_view demo_room_def fun_eq_iff)
  show ?thesis
    using capacity_respected [OF mem_store.store_world_axioms, where w = demo_world and r = "''r1''"] ok h by simp
qed

theorem script_selects_like_rust_witness:
  "lua_scan mem_json [''a'' \<mapsto> 1] 100 30 [mem_to_json sfu_a, mem_to_json sfu_b] None = Some (Some (lua_of_inst sfu_b, 0))"
proof -
  let ?f = "\<lambda>p. the (mem_from_json p)" and ?ps = "[mem_to_json sfu_a, mem_to_json sfu_b]"
  let ?el = "sfu_eligible 100 [''a'' \<mapsto> 1]" and ?ld = "\<lambda>i. get_or 0 [''a'' \<mapsto> (1 :: real)] (instance_id i)"
  have rt: "from_json mem_json (mem_to_json i) = Some i" for i by (simp add: mem_json_def mem_from_to_json)
  have el: "?el sfu_a" "?el sfu_b" by (simp_all add: sfu_eligible_def sub_i64_def wrap_i64_def sfu_a_def sfu_b_def get_or_def)
  have ld: "?ld sfu_a = 1" "?ld sfu_b = 0" by (simp_all add: sfu_a_def sfu_b_def get_or_def)
  have reads: "\<forall>p \<in> set ?ps. from_json mem_json p = Some (?f p)" by (simp add: rt mem_from_to_json)
  have times: "\<forall>p \<in> set ?ps. - (2 ^ 63) \<le> 100 - last_ping_unix (?f p) \<and> 100 - last_ping_unix (?f p) < 2 ^ 63"
    by (simp add: mem_from_to_json sfu_a_def sfu_b_def)
  have "min_by ?ld (filter ?el (map ?f ?ps)) = Some sfu_b" by (simp add: mem_from_to_json el ld)
  with script_selects_like_rust [OF mem_text.json_layer_axioms reads times, of "[''a'' \<mapsto> 1]"] ld show ?thesis by simp
qed

theorem jti_consumed_once_witness:
  "fst (consume_jti mem_env ''t'' 5000 demo_world) = Inr True
   \<and> fst (consume_jti mem_env ''t'' 5000 (snd (consume_jti mem_env ''t'' 5000 demo_world))) = Inr False"
proof -
  have "mem_view demo_world (jti_key ''t'') = None"
    by (simp add: mem_view_def kview_def demo_world_def demo_keys_def key_defs)
  from jti_consumed_once [OF mem_store.store_world_axioms this refl] show ?thesis by simp
qed

theorem session_lock_exclusive_witness:
  "fst (acquire_session_lock mem_env ''s'' ''u'' 5000 demo_world) = Inr True
   \<and> fst (acquire_session_lock mem_env ''s'' ''v'' 5000 (snd (acquire_session_lock mem_env ''s'' ''u'' 5000 demo_world))) = Inr False"
proof -
  have "mem_view demo_world (session_lock_key ''s'') = None"
    by (simp add: mem_view_def kview_def demo_world_def demo_keys_def key_defs)
  from session_lock_exclusive [OF mem_store.store_world_axioms this refl] show ?thesis by simp
qed

theorem join_leave_roundtrip_witness:
  "set_of (mem_view (snd (join_room mem_env ''r1'' ''ann'' demo_world))) (room_members_key ''r1'') = {''ann''}
   \<and> fst (leave_room_redis mem_env ''r1'' ''ann'' (snd (join_room mem_env ''r1'' ''ann'' demo_world))) = Inr \<lparr>room_empty = True\<rparr>"
proof -
  have "mem_view demo_world (room_members_key ''r1'') = None"
    by (simp add: mem_view_def kview_def demo_world_def demo_keys_def key_defs)
  then have m: "is_set (mem_view demo_world) (room_members_key ''r1'')" "set_of (mem_view demo_world) (room_members_key ''r1'') = {}"
    by (simp_all add: is_set_def set_of_def)
  have "mem_view demo_world (room_binding_key ''r1'') \<noteq> None" by (simp add: demo_view)
  from join_leave_roundtrip [OF mem_store.store_world_axioms m(1) this _ refl refl, where n = "''ann''"] m(2)
  show ?thesis by simp
qed

end
