(* ===== verification/Key_Frames.thy ===== *)
theory Key_Frames
  imports Signaling_Redis
begin

text \<open>
  Which keys a command may change, and that the storage operations change no other key, even when
  the server fails in the middle of them. \<open>touched c\<close> lists the keys a command can write;
  \<open>framed view X m\<close> says that a program keeps every key outside \<open>X\<close>.
\<close>

fun touched :: "cmd \<Rightarrow> string set" where
  "touched (SetNx k v t) = {k}"
| "touched (Del k) = {k}"
| "touched (Expire k s) = {k}"
| "touched (Hset k f v) = {k}"
| "touched (Hdel k f) = {k}"
| "touched (Sadd k m) = {k}"
| "touched (Srem k m) = {k}"
| "touched (Zadd k m x) = {k}"
| "touched (Zincr k m x) = {k}"
| "touched (Zrem k m) = {k}"
| "touched (Zremrangebyscore k hi) = {k}"
| "touched (CompareAndDel k a) = {k}"
| "touched (AssignRoom a) = {k_instances a, k_room_load a, k_binding a}"
| "touched (Multi cs) = (\<Union>c \<in> set cs. touched c)"
| "touched _ = {}"

lemma effect_frame: "k \<notin> touched c \<Longrightarrow> \<not> is_assign c \<Longrightarrow> cmd_effect c st k = st k"
proof (induction c arbitrary: st)
  case (Multi cs)
  have "fold cmd_effect cs st k = st k"
    using Multi.IH Multi.prems(1)
  proof (induction cs arbitrary: st)
    case (Cons c cs)
    have "cmd_effect c st k = st k"
    proof (cases "is_assign c")
      case True
      then show ?thesis by (cases c) (simp_all add: is_assign_def)
    next
      case False
      then show ?thesis using Cons.prems by simp
    qed
    then show ?case using Cons by simp
  qed simp
  then show ?case by simp
qed (auto simp: is_assign_def COMPARE_AND_DEL_LUA_def split: option.splits)

lemma assign_frame:
  "ASSIGN_ROOM_TO_SFU_LUA J a listing st = Some (res, st') \<Longrightarrow>
   k \<notin> {k_instances a, k_room_load a, k_binding a} \<Longrightarrow> st' k = st k"
  by (auto simp: ASSIGN_ROOM_TO_SFU_LUA_def Let_def split: option.splits if_splits prod.splits)

lemma doc_frame: "cmd_doc J c st r st' \<Longrightarrow> k \<notin> touched c \<Longrightarrow> st' k = st k"
proof (cases "is_assign c")
  case True
  then show "cmd_doc J c st r st' \<Longrightarrow> k \<notin> touched c \<Longrightarrow> st' k = st k"
    by (cases c) (auto simp: is_assign_def cmd_doc_def intro: assign_frame)
next
  case False
  then have "\<forall>a. c \<noteq> AssignRoom a" by (auto simp: is_assign_def)
  then show "cmd_doc J c st r st' \<Longrightarrow> k \<notin> touched c \<Longrightarrow> st' k = st k"
    using effect_frame [OF _ False] by (simp add: cmd_doc_plain)
qed

section \<open>Programs\<close>

definition framed :: "('w \<Rightarrow> store) \<Rightarrow> string set \<Rightarrow> ('w, 'a) act \<Rightarrow> bool" where
  "framed view X m \<longleftrightarrow> (\<forall>w k. k \<notin> X \<longrightarrow> view (snd (m w)) k = view w k)"

named_theorems framed_intros "rules that bound the keys a program changes"

lemma framedD: "framed view X m \<Longrightarrow> k \<notin> X \<Longrightarrow> view (snd (m w)) k = view w k"
  by (simp add: framed_def)

lemma framed_mono: "framed view X m \<Longrightarrow> X \<subseteq> Y \<Longrightarrow> framed view Y m"
  by (auto simp: framed_def)

lemma framed_basic [framed_intros]:
  "framed view X (retM x)" "framed view X (okM y)" "framed view X (failM e)" "framed view X (getM f)"
  by (simp_all add: framed_def prog_simps)

lemma framed_bindM [framed_intros]:
  "framed view X m \<Longrightarrow> (\<And>x. framed view X (f x)) \<Longrightarrow> framed view X (bindM m f)"
  by (simp add: framed_def prog_simps)

lemma framed_tryM [framed_intros]:
  "framed view X m \<Longrightarrow> (\<And>x. framed view X (f x)) \<Longrightarrow> framed view X (tryM m f)"
  by (auto simp: framed_def prog_simps split: sum.splits)

lemma framed_wrap [framed_intros]:
  "framed view X m \<Longrightarrow> framed view X (map_errM g m)"
  "framed view X n \<Longrightarrow> framed view X (ignoreM n)"
  "framed view X l \<Longrightarrow> framed view X (liftM l)"
  by (simp_all add: framed_def prog_simps)

lemma framed_if [framed_intros]: "framed view X a \<Longrightarrow> framed view X b \<Longrightarrow> framed view X (if c then a else b)"
  by simp

lemma framed_option [framed_intros]:
  "framed view X a \<Longrightarrow> (\<And>x. framed view X (b x)) \<Longrightarrow> framed view X (case z of None \<Rightarrow> a | Some x \<Rightarrow> b x)"
  by (cases z) auto

lemma framed_sum [framed_intros]:
  "(\<And>x. framed view X (a x)) \<Longrightarrow> (\<And>x. framed view X (b x)) \<Longrightarrow> framed view X (case z of Inl x \<Rightarrow> a x | Inr y \<Rightarrow> b y)"
  by (cases z) auto

lemma framed_forM [framed_intros]: "(\<And>x. framed view X (f x)) \<Longrightarrow> framed view X (forM f xs)"
  by (induction xs) (auto intro: framed_intros)

lemma framed_forE [framed_intros]: "(\<And>x. framed view X (f x)) \<Longrightarrow> framed view X (forE f xs)"
  by (induction xs) (auto intro: framed_intros)

lemma framed_conv [framed_intros]:
  "framed view X (as_int r)" "framed view X (as_bool r)" "framed view X (as_opt_string r)" "framed view X (as_string r)"
  "framed view X (as_list r)" "framed view X (as_hash r)" "framed view X (as_opt_score r)" "framed view X (as_scores r)"
  "framed view X (as_scan r)" "framed view X (as_unit r)"
  by (simp_all add: framed_def)

context redis_server
begin

lemma framed_redis: "touched c \<subseteq> X \<Longrightarrow> framed view X (redis E c)"
proof -
  assume X: "touched c \<subseteq> X"
  have "view (snd (redis E c w)) k = view w k" if "k \<notin> X" for w k
  proof -
    have k: "k \<notin> touched c" using that X by blast
    show ?thesis
    proof (cases "fst (redis E c w)")
      case (Inl e)
      then show ?thesis using unanswered [OF Inl] doc_frame [OF _ k] by metis
    next
      case (Inr r)
      then show ?thesis using doc_frame [OF answered [OF Inr] k] by simp
    qed
  qed
  then show ?thesis by (simp add: framed_def)
qed

lemma framed_call [framed_intros]:
  "touched c \<subseteq> X \<Longrightarrow> (\<And>r. framed view X (conv r)) \<Longrightarrow> framed view X (call E c conv)"
  unfolding call_def by (intro framed_tryM framed_redis)

lemma framed_scall [framed_intros]:
  "touched c \<subseteq> X \<Longrightarrow> (\<And>r. framed view X (conv r)) \<Longrightarrow> framed view X (scall E c conv)"
  unfolding scall_def by (intro framed_intros)

lemma framed_outside [framed_intros]:
  "framed view X (sig_unix_now E)" "framed view X (new_uuid E)" "framed view X (unix_time E)"
  by (simp_all add: framed_def sig_unix_now_def clock_view uuid_view)

section \<open>The operations of the signaling service\<close>

lemmas sig_op_defs = with_op_timeout_def room_fail_def

lemma framed_session:
  "framed view {jti_key j} (consume_jti E j ttl)"
  "framed view {session_key s} (session_set_owner E s owner)"
  "framed view {session_lock_key s} (acquire_session_lock E s owner ttl)"
  "framed view {session_lock_key s} (release_session_lock E s owner)"
  "framed view {nick_key n} (release_nick_lease E n s)"
  "framed view {session_key s} (renew_session_ttl E s ttl)"
  "framed view {} (session_get E s)"
  "framed view {session_key s} (session_set_room E s room)"
  "framed view {session_key s} (session_delete E s)"
  unfolding consume_jti_def session_set_owner_def acquire_session_lock_def release_session_lock_def
    release_nick_lease_def renew_session_ttl_def session_get_def session_set_room_def session_delete_def sig_op_defs
  by (rule framed_intros | simp)+

lemma framed_instance:
  "framed view {SIGNALING_INSTANCE_LOAD_KEY} (increment_instance_load E i)"
  "framed view {SIGNALING_INSTANCE_LOAD_KEY} (decrement_instance_load E i)"
  unfolding increment_instance_load_def decrement_instance_load_def sig_op_defs
  by (rule framed_intros | simp)+

lemma framed_idle: "framed view {SFU_INSTANCES_KEY} (update_sfu_idle_since E i t)"
  unfolding update_sfu_idle_since_def sig_op_defs by (rule framed_intros | simp)+

lemma framed_room:
  "framed view {} (get_room_route E r)"
  "framed view {room_members_key r} (join_room E r n)"
  "framed view {room_members_key r} (srem_member E r n)"
  "framed view {room_members_key r} (leave_room_redis E r n)"
  "framed view {room_members_key r} (delete_room E r)"
  unfolding get_room_route_def join_room_def srem_member_def leave_room_redis_def delete_room_def sig_op_defs
  by (rule framed_intros | simp)+

lemma framed_binding:
  "framed view {SFU_INSTANCES_KEY, SFU_ROOM_LOAD_KEY} (sig_decrement_sfu_room_load E i)"
  "framed view {SFU_INSTANCES_KEY, SFU_ROOM_LOAD_KEY, room_binding_key r} (assign_room_to_least_loaded_sfu E r oid host port)"
proof -
  show d: "framed view {SFU_INSTANCES_KEY, SFU_ROOM_LOAD_KEY} (sig_decrement_sfu_room_load E i)" for i
    unfolding sig_decrement_sfu_room_load_def sig_op_defs
    by (rule framed_intros framed_mono [OF framed_idle] | simp)+
  show "framed view {SFU_INSTANCES_KEY, SFU_ROOM_LOAD_KEY, room_binding_key r} (assign_room_to_least_loaded_sfu E r oid host port)"
    unfolding assign_room_to_least_loaded_sfu_def sig_op_defs by (rule framed_intros | simp add: assign_args_for_def)+
qed

lemma framed_close: "framed view {SFU_INSTANCES_KEY, SFU_ROOM_LOAD_KEY, room_binding_key r} (close_room_binding E r)"
  unfolding close_room_binding_def sig_op_defs
  by (rule framed_intros framed_mono [OF framed_binding(1)] | simp)+

end

end
