(* ===== verification/Signaling_Handlers.thy ===== *)
theory Signaling_Handlers
  imports Node_Invariants Room_Operations Key_Frames
begin

text \<open>
  The handlers of \<^verbatim>\<open>websocket.rs\<close> over an available Redis: who is bound to a session, who
  may create and join rooms, what a created or joined room looks like in the store, and that a failing SFU leaves
  no trace. The lemmas are proved in the locale \<open>sig_world\<close>; the properties at the end are stated for any such
  world and applied to the concrete one.
\<close>

section \<open>Keys a handler may change\<close>

abbreviation node_view :: "('w \<Rightarrow> store) \<Rightarrow> ('w, 'y) node_scheme \<Rightarrow> store" where
  "node_view view s \<equiv> view (world s)"

lemma framed_on_world [framed_intros]: "framed view X m \<Longrightarrow> framed (node_view view) X (on_world m)"
  by (simp add: framed_def on_world_def)

lemma framed_node [framed_intros]:
  "framed (node_view view) X (on_sfu f)" "framed (node_view view) X (on_peers g)"
  "framed (node_view view) X (on_sessions h)" "framed (node_view view) X (spawn t)" "framed (node_view view) X (lift_result r)"
  by (simp_all add: framed_def node_ops prog_simps lift_result_def)

lemma framed_modM [framed_intros]: "(\<And>s. world (u s) = world s) \<Longrightarrow> framed (node_view view) X (modM u)"
  by (simp add: framed_def prog_simps)

lemma framed_redisM [framed_intros]: "framed view X m \<Longrightarrow> framed (node_view view) X (redisM m)"
  unfolding redisM_def by (intro framed_intros)

lemma framed_stale:
  assumes "\<And>nick. framed V X (detach_stale_peer E room nick reason)"
  shows "framed V X (detach_stale_peers E room stale reason)"
proof -
  have "keeps (\<lambda>s. V s k = v) (detach_stale_peers E room stale reason)" if "k \<notin> X" for k v
    using framedD [OF assms that] by (intro keeps_detach_stale) (simp add: keeps_def)
  then show ?thesis by (auto simp: framed_def keeps_def)
qed

text \<open>The probe of Redis only moves the world.\<close>

definition probed :: "('w, 'z) env_scheme \<Rightarrow> 'w \<Rightarrow> 'w" where
  "probed E w = snd (call E Ping as_string w)"

context sig_world
begin

lemma framed_available [framed_intros]: "framed (node_view view) X (is_redis_available E)"
  unfolding is_redis_available_def by (rule framed_intros | simp)+

lemma framed_sfu [framed_intros]:
  "framed view X (sfu_connect E addr)" "framed view X (sfu_rpc E ch req)" "framed view X (ws_send E m)"
  "framed view X (jwt_decode E token secret)"
  by (simp_all add: framed_def connect_view rpc_view ws_send_view jwt_view)

lemma framed_rpc_error [framed_intros]:
  "(\<And>c m. framed V X (f c m)) \<Longrightarrow> framed V X g \<Longrightarrow> framed V X (case e of RpcStatus c m \<Rightarrow> f c m | RpcTimeout \<Rightarrow> g)"
  by (cases e) auto

lemma framed_client [framed_intros]:
  "framed (node_view view) X (run_rpc E addr req)"
  "framed (node_view view) X (ensure_peer E addr room nick)"
  "framed (node_view view) X (delete_peer E addr room nick reason)"
  unfolding run_rpc_def grpc_client_def channel_for_def ensure_peer_def ensure_listener_def delete_peer_def
  by (rule framed_intros)+

lemma framed_send [framed_intros]:
  "framed (node_view view) X (send_message E payload)" "framed (node_view view) X (reply_with E payload)"
  unfolding send_message_def reply_with_def by (rule framed_intros)+

lemma framed_broadcast [framed_intros]: "framed (node_view view) X (broadcast E room except payload)"
proof -
  have "keeps (\<lambda>w. view w = v) (broadcast_to_room (try_send E) reg room except payload)" for reg v
    by (rule keeps_broadcast) (simp add: keeps_def try_send_view)
  then have "framed view X (broadcast_to_room (try_send E) reg room except payload)" for reg
    unfolding framed_def using keepsD by (metis (mono_tags))
  then show ?thesis unfolding broadcast_def by (intro framed_intros)
qed

text \<open>The keys of the rooms and of the SFUs, and what the removal of a peer changes.\<close>

lemma framed_detach:
  assumes "{SFU_INSTANCES_KEY, SFU_ROOM_LOAD_KEY, room_binding_key room, room_members_key room} \<subseteq> X"
  shows "framed (node_view view) X (detach_peer E room nick reason)"
    "framed (node_view view) X (detach_stale_peers E room stale reason)"
proof -
  have X: "{room_members_key room} \<subseteq> X" "{SFU_INSTANCES_KEY, SFU_ROOM_LOAD_KEY, room_binding_key room} \<subseteq> X" "{} \<subseteq> X"
    using assms by auto
  show d: "framed (node_view view) X (detach_peer E room nick reason)" for nick reason
    unfolding detach_peer_def
    by (rule framed_intros framed_mono [OF framed_room(4) X(1)] framed_mono [OF framed_close X(2)]
        framed_mono [OF framed_room(1) X(3)])+
  show "framed (node_view view) X (detach_stale_peers E room stale reason)"
    unfolding detach_stale_peer_def [abs_def]
    by (rule framed_stale) (unfold detach_stale_peer_def, (rule framed_intros d)+)
qed

lemma available [simp]: "fst (is_redis_available E s) = True"
  "view (world (snd (is_redis_available E s))) = view (world s)"
  by (simp_all add: is_redis_available_def prog_simps on_world_def call_ping)

lemma probed_view [simp]: "view (probed E w) = view w"
  by (simp add: probed_def call_ping)

lemma require_redis_eval: "require_redis E c = (Inr (), c\<lparr>world := probed E (world c)\<rparr>)"
  by (simp add: require_redis_def is_redis_available_def prog_simps on_world_def call_ping probed_def)

lemma redisM_eval: "redisM m c = (map_sum map_redis_error id (fst (m (world c))), c\<lparr>world := snd (m (world c))\<rparr>)"
  by (simp add: redisM_def on_world_def prog_simps)

end

section \<open>Attach\<close>

text \<open>When a token binds a connection: it was issued for this node, it was not used before, and the
  session it names exists under the nickname it names.\<close>

definition attach_ok :: "store \<Rightarrow> string \<Rightarrow> ConnectorClaims \<Rightarrow> bool" where
  "attach_ok st node claims \<longleftrightarrow> signaling_instance_id claims = node
     \<and> (jti claims = [] \<or> st (jti_key (jti claims)) = None)
     \<and> st (session_key (session_id claims)) \<noteq> None
     \<and> nickname (session_state_of (hash_of st (session_key (session_id claims)))) = claim_nickname claims"

text \<open>The store after the identifier of a token for this node was used up, the store after the token bound a
  connection, and that connection.\<close>

definition token_spent :: "store \<Rightarrow> string \<Rightarrow> ConnectorClaims \<Rightarrow> store" where
  "token_spent st node claims =
     (if signaling_instance_id claims = node \<and> jti claims \<noteq> [] \<and> st (jti_key (jti claims)) = None
      then st(jti_key (jti claims) \<mapsto> (StrVal ''1'', Some (1000 * max (as_secs (jti_ttl claims)) 1))) else st)"

definition attached_store :: "store \<Rightarrow> string \<Rightarrow> ConnectorClaims \<Rightarrow> store" where
  "attached_store st node claims =
     (let st1 = token_spent st node claims in
      put_zset SIGNALING_INSTANCE_LOAD_KEY ((zset_of st1 SIGNALING_INSTANCE_LOAD_KEY)
         (node \<mapsto> get_or 0 (zset_of st1 SIGNALING_INSTANCE_LOAD_KEY) node + 1))
       (put_hash (session_key (session_id claims))
         ((hash_of st1 (session_key (session_id claims)))(''signaling_owner_id'' \<mapsto> node)) st1))"

definition attached_conn :: "'w conn \<Rightarrow> ConnectorClaims \<Rightarrow> SessionState \<Rightarrow> 'w conn" where
  "attached_conn c claims session = c\<lparr>ctx_session_id := Some (session_id claims), cached_session := Some session,
     allowed_intent := Some (intent claims), allowed_room_id := claim_room_id claims, instance_load_registered := True,
     spawned := spawned c @ [LeaseRenewer (length (spawned c)) (session_id claims)],
     lease_renewer := Some (length (spawned c)), sessions := upsert (session_id claims) session (sessions c)\<rparr>"

lemma attached_conn_world: "(attached_conn c claims session)\<lparr>world := w\<rparr> =
    c\<lparr>ctx_session_id := Some (session_id claims), cached_session := Some session,
       allowed_intent := Some (intent claims), allowed_room_id := claim_room_id claims, world := w, instance_load_registered := True,
       spawned := spawned c @ [LeaseRenewer (length (spawned c)) (session_id claims)],
       lease_renewer := Some (length (spawned c)), sessions := upsert (session_id claims) session (sessions c)\<rparr>"
  by (rule conn.equality) (simp_all add: attached_conn_def)

context sig_world
begin

lemma token_eval:
  "fst (validate_connector_token (jwt_decode E) token secret node w) =
     (case fst (jwt_decode E token secret w) of None \<Rightarrow> Inl Invalid
      | Some claims \<Rightarrow> if signaling_instance_id claims \<noteq> node then Inl WrongInstance else Inr claims)"
  "view (snd (validate_connector_token (jwt_decode E) token secret node w)) = view w"
  by (simp_all add: validate_connector_token_def prog_simps jwt_view split: option.split)

text \<open>Every way in which an attach is refused.\<close>

lemma attach_twice: "ctx_session_id c \<noteq> None \<Longrightarrow> handle_attach E token c = (Inl AlreadyAuthorized, c)"
  by (simp add: handle_attach_def prog_simps)

lemma attach_refused:
  fixes c :: "'w conn" and token :: string
  assumes idle: "ctx_session_id c = None"
  defines "tok \<equiv> fst (jwt_decode E token (connector_token_secret (config c)) (probed E (world c)))"
  shows "tok = None \<Longrightarrow> \<exists>w. handle_attach E token c = (Inl Unauthorized, c\<lparr>world := w\<rparr>) \<and> view w = view (world c)"
    "tok = Some claims \<Longrightarrow> jti claims \<noteq> [] \<Longrightarrow> view (world c) (jti_key (jti claims)) \<noteq> None \<Longrightarrow>
      \<exists>w. handle_attach E token c = (Inl Unauthorized, c\<lparr>world := w\<rparr>) \<and> view w = view (world c)"
    "tok = Some claims \<Longrightarrow> \<not> attach_ok (view (world c)) (public_node_id (config c)) claims \<Longrightarrow>
      is_hash (view (world c)) (session_key (session_id claims)) \<Longrightarrow>
      \<exists>w. handle_attach E token c = (Inl Unauthorized, c\<lparr>world := w\<rparr>)
        \<and> view w = token_spent (view (world c)) (public_node_id (config c)) claims"
proof -
  define w2 where "w2 = snd (validate_connector_token (jwt_decode E) token (connector_token_secret (config c))
      (public_node_id (config c)) (probed E (world c)))"
  have v2: "view w2 = view (world c)" by (simp add: w2_def token_eval)
  note run = handle_attach_def prog_simps require_redis_eval redisM_eval on_world_def idle w2_def [symmetric]
  have t: "fst (validate_connector_token (jwt_decode E) token (connector_token_secret (config c)) (public_node_id (config c))
      (probed E (world c))) = (case tok of None \<Rightarrow> Inl Invalid
        | Some claims \<Rightarrow> if signaling_instance_id claims \<noteq> public_node_id (config c) then Inl WrongInstance else Inr claims)"
    by (simp add: token_eval tok_def)
  have bad: "\<exists>w. handle_attach E token c = (Inl Unauthorized, c\<lparr>world := w\<rparr>) \<and> view w = view (world c)"
    if "tok = None \<or> (\<exists>claims. tok = Some claims \<and> signaling_instance_id claims \<noteq> public_node_id (config c))"
    using that t v2 by (intro exI [of _ w2]) (auto simp: run)
  then show "tok = None \<Longrightarrow> \<exists>w. handle_attach E token c = (Inl Unauthorized, c\<lparr>world := w\<rparr>) \<and> view w = view (world c)"
    by blast
  show "\<exists>w. handle_attach E token c = (Inl Unauthorized, c\<lparr>world := w\<rparr>) \<and> view w = view (world c)"
    if "tok = Some claims" "jti claims \<noteq> []" "view (world c) (jti_key (jti claims)) \<noteq> None"
  proof (cases "signaling_instance_id claims = public_node_id (config c)")
    case True
    then show ?thesis using that t consume_jti_eval [of "jti claims" "jti_ttl claims" w2]
      by (intro exI [of _ "snd (consume_jti E (jti claims) (jti_ttl claims) w2)"]) (auto simp: run v2)
  next
    case False
    then show ?thesis using bad that(1) by blast
  qed
  show "\<exists>w. handle_attach E token c = (Inl Unauthorized, c\<lparr>world := w\<rparr>)
        \<and> view w = token_spent (view (world c)) (public_node_id (config c)) claims"
    if tok: "tok = Some claims" "\<not> attach_ok (view (world c)) (public_node_id (config c)) claims"
      "is_hash (view (world c)) (session_key (session_id claims))"
  proof -
    define w3 where "w3 = (if jti claims = [] then w2 else snd (consume_jti E (jti claims) (jti_ttl claims) w2))"
    define w4 where "w4 = snd (session_get E (session_id claims) w3)"
    consider "signaling_instance_id claims \<noteq> public_node_id (config c)"
      | "signaling_instance_id claims = public_node_id (config c)" "jti claims \<noteq> []" "view (world c) (jti_key (jti claims)) \<noteq> None"
      | "signaling_instance_id claims = public_node_id (config c)" "jti claims = [] \<or> view (world c) (jti_key (jti claims)) = None"
      by blast
    then show ?thesis
    proof cases
      case 1
      then show ?thesis using bad tok(1) by (simp add: token_spent_def)
    next
      case 2
      then show ?thesis
        using tok(1) t consume_jti_eval [of "jti claims" "jti_ttl claims" w2]
        by (intro exI [of _ "snd (consume_jti E (jti claims) (jti_ttl claims) w2)"]) (auto simp: run v2 token_spent_def)
    next
      case 3
      have v3: "view w3 = token_spent (view (world c)) (public_node_id (config c)) claims"
        using 3 by (auto simp: w3_def v2 consume_jti_eval token_spent_def)
      have key: "view w3 (session_key s) = view (world c) (session_key s)" for s
        by (simp add: v3 token_spent_def)
      then have h3: "is_hash (view w3) (session_key (session_id claims))" using tok(3) by (simp add: is_hash_def)
      have same: "hash_of (view w3) (session_key s) = hash_of (view (world c)) (session_key s)" for s
        by (simp add: hash_of_def key)
      have v4: "view w4 = view w3" by (simp add: w4_def session_get_eval [OF h3])
      have get: "fst (session_get E (session_id claims) w3) = Inr (if view (world c) (session_key (session_id claims)) = None then None
          else Some (session_state_of (hash_of (view (world c)) (session_key (session_id claims)))))"
        by (simp add: session_get_eval [OF h3] key same)
      have "handle_attach E token c = (Inl Unauthorized, c\<lparr>world := w4\<rparr>)"
        using 3 t get tok(1,2) consume_jti_eval(1) [of "jti claims" "jti_ttl claims" w2] v2
        by (cases "jti claims = []") (auto simp: run w3_def w4_def attach_ok_def)
      then show ?thesis using v3 v4 by auto
    qed
  qed
qed

lemma attach_rejected:
  assumes "ctx_session_id c = None" "is_hash (view (world c)) (session_key (session_id claims))"
    and "fst (jwt_decode E token (connector_token_secret (config c)) (probed E (world c))) = Some claims"
    and "\<not> attach_ok (view (world c)) (public_node_id (config c)) claims"
  shows "fst (handle_attach E token c) = Inl Unauthorized"
    "ctx_session_id (snd (handle_attach E token c)) = None"
    "sessions (snd (handle_attach E token c)) = sessions c"
  using attach_refused(3) [OF assms(1,3,4,2)] assms(1) by auto

lemma reply_eval:
  "fst (reply_with E m c) = (if fst (ws_send E m (world c)) then Inr () else Inl WriteFailed)"
  "snd (reply_with E m c) = c\<lparr>world := snd (ws_send E m (world c))\<rparr>"
  by (simp_all add: reply_with_def send_message_def prog_simps on_world_def log_write_failure_def)

text \<open>A token that is in order: the answer is the last thing that can fail.\<close>

lemma attach_runs:
  fixes c :: "'w conn" and claims
  assumes idle: "ctx_session_id c = None" and hash: "is_hash (view (world c)) (session_key (session_id claims))"
    and loads: "is_zset (view (world c)) SIGNALING_INSTANCE_LOAD_KEY"
    and token: "fst (jwt_decode E token (connector_token_secret (config c)) (probed E (world c))) = Some claims"
    and ok: "attach_ok (view (world c)) (public_node_id (config c)) claims"
  defines "node \<equiv> public_node_id (config c)"
    and "session \<equiv> session_state_of (hash_of (view (world c)) (session_key (session_id claims)))"
  obtains w where "view w = attached_store (view (world c)) node claims"
    "handle_attach E token c = reply_with E (Attached (claim_nickname claims) (session_id claims))
       ((attached_conn c claims session)\<lparr>world := w\<rparr>)"
proof -
  let ?s = "session_id claims"
  let ?st = "token_spent (view (world c)) node claims"
  define w2 where "w2 = snd (validate_connector_token (jwt_decode E) token (connector_token_secret (config c)) node (probed E (world c)))"
  define w3 where "w3 = (if jti claims = [] then w2 else snd (consume_jti E (jti claims) (jti_ttl claims) w2))"
  define w4 where "w4 = snd (session_get E ?s w3)"
  define w5 where "w5 = snd (session_set_owner E ?s node w4)"
  define w6 where "w6 = snd (increment_instance_load E node w5)"
  have fresh: "jti claims = [] \<or> view (world c) (jti_key (jti claims)) = None" "signaling_instance_id claims = node"
    using ok by (simp_all add: attach_ok_def node_def)
  have v2: "view w2 = view (world c)" by (simp add: w2_def token_eval)
  have v3: "view w3 = ?st" using fresh by (auto simp: w3_def v2 consume_jti_eval token_spent_def)
  have h3: "is_hash ?st (session_key ?s)" "hash_of ?st (session_key ?s) = hash_of (view (world c)) (session_key ?s)"
    "?st (session_key ?s) = view (world c) (session_key ?s)" using hash by (simp_all add: token_spent_def)
  have v4: "view w4 = ?st" using h3(1) by (simp add: w4_def session_get_eval v3)
  have v5: "view w5 = put_hash (session_key ?s) ((hash_of ?st (session_key ?s))(''signaling_owner_id'' \<mapsto> node)) ?st"
    using h3(1) by (simp add: w5_def session_set_owner_eval v4)
  have z5: "is_zset (view w5) SIGNALING_INSTANCE_LOAD_KEY" using loads by (simp add: v5 token_spent_def)
  have v6: "view w6 = attached_store (view (world c)) node claims"
    by (simp add: w6_def increment_instance_load_eval [OF z5] v5 attached_store_def Let_def)
  have t: "fst (validate_connector_token (jwt_decode E) token (connector_token_secret (config c)) node (probed E (world c))) = Inr claims"
    using token fresh by (simp add: token_eval node_def)
  have j: "jti claims \<noteq> [] \<Longrightarrow> fst (consume_jti E (jti claims) (jti_ttl claims) w2) = Inr True"
    "jti claims = [] \<Longrightarrow> w2 = w3" "jti claims \<noteq> [] \<Longrightarrow> snd (consume_jti E (jti claims) (jti_ttl claims) w2) = w3"
    using fresh by (auto simp: consume_jti_eval v2 w3_def)
  have g: "fst (session_get E ?s w3) = Inr (Some session)" "nickname session = claim_nickname claims"
    using h3 ok by (simp_all add: session_get_eval v3 attach_ok_def session_def)
  have o: "fst (session_set_owner E ?s node w4) = Inr ()" "fst (increment_instance_load E node w5) = Inr ()"
    using h3(1) z5 by (simp_all add: session_set_owner_eval v4 increment_instance_load_eval)
  have "handle_attach E token c = reply_with E (Attached (claim_nickname claims) ?s) ((attached_conn c claims session)\<lparr>world := w6\<rparr>)"
    using idle t j g o
    by (cases "jti claims = []") (simp_all add: handle_attach_def prog_simps require_redis_eval redisM_eval on_world_def
        node_def [symmetric] w2_def [symmetric] w4_def [symmetric] w5_def [symmetric] w6_def [symmetric]
        spawn_lease_renewer_def spawn_def on_sessions_def attached_conn_world)
  then show ?thesis by (rule that [OF v6])
qed

text \<open>The connection and the store after it was bound.\<close>

lemma attach_bound:
  fixes c :: "'w conn" and claims
  assumes idle: "ctx_session_id c = None" and hash: "is_hash (view (world c)) (session_key (session_id claims))"
    and loads: "is_zset (view (world c)) SIGNALING_INSTANCE_LOAD_KEY"
    and token: "fst (jwt_decode E token (connector_token_secret (config c)) (probed E (world c))) = Some claims"
    and ok: "attach_ok (view (world c)) (public_node_id (config c)) claims"
  defines "node \<equiv> public_node_id (config c)"
    and "session \<equiv> session_state_of (hash_of (view (world c)) (session_key (session_id claims)))"
    and "st \<equiv> (if jti claims = [] then view (world c)
      else (view (world c))(jti_key (jti claims) \<mapsto> (StrVal ''1'', Some (1000 * max (as_secs (jti_ttl claims)) 1))))"
  obtains w where
    "snd (handle_attach E token c) = c\<lparr>ctx_session_id := Some (session_id claims), cached_session := Some session,
       allowed_intent := Some (intent claims), allowed_room_id := claim_room_id claims, world := w, instance_load_registered := True,
       spawned := spawned c @ [LeaseRenewer (length (spawned c)) (session_id claims)],
       lease_renewer := Some (length (spawned c)), sessions := upsert (session_id claims) session (sessions c)\<rparr>"
    "view w = put_zset SIGNALING_INSTANCE_LOAD_KEY ((zset_of st SIGNALING_INSTANCE_LOAD_KEY)
         (node \<mapsto> get_or 0 (zset_of st SIGNALING_INSTANCE_LOAD_KEY) node + 1))
       (put_hash (session_key (session_id claims))
         ((hash_of st (session_key (session_id claims)))(''signaling_owner_id'' \<mapsto> node)) st)"
    "\<forall>m w. fst (ws_send E m w) \<Longrightarrow> fst (handle_attach E token c) = Inr ()"
proof -
  obtain w where w: "view w = attached_store (view (world c)) node claims"
    "handle_attach E token c = reply_with E (Attached (claim_nickname claims) (session_id claims))
       ((attached_conn c claims session)\<lparr>world := w\<rparr>)"
    by (rule attach_runs [OF assms(1-5), folded node_def session_def])
  have st: "token_spent (view (world c)) node claims = st"
    using ok by (auto simp: token_spent_def st_def attach_ok_def node_def)
  show ?thesis
    by (rule that [of "snd (ws_send E (Attached (claim_nickname claims) (session_id claims)) w)"])
      (simp_all add: w reply_eval ws_send_view attached_conn_world attached_store_def Let_def st)
qed

end

section \<open>The session lock\<close>

context sig_world
begin

lemma framed_check: "framed (node_view view) X (check_session E sid)"
  unfolding check_session_def require_redis_def
  by (rule framed_intros framed_mono [OF framed_session(7) empty_subsetI] | simp)+

lemma framed_locked:
  assumes "\<And>room. {SFU_INSTANCES_KEY, SFU_ROOM_LOAD_KEY, room_binding_key room, room_members_key room, session_key sid} \<subseteq> X"
  shows "framed (node_view view) X (handle_create_locked E tx sid)" "framed (node_view view) X (handle_join_locked E tx sid room)"
proof -
  have X: "{room_members_key r} \<subseteq> X" "{SFU_INSTANCES_KEY, SFU_ROOM_LOAD_KEY, room_binding_key r} \<subseteq> X"
    "{} \<subseteq> X" "{session_key sid} \<subseteq> X"
    "{SFU_INSTANCES_KEY, SFU_ROOM_LOAD_KEY, room_binding_key r, room_members_key r} \<subseteq> X" for r using assms by auto
  note ops = framed_mono [OF framed_room(1) X(3)] framed_mono [OF framed_room(2) X(1)] framed_mono [OF framed_room(3) X(1)]
    framed_mono [OF framed_close X(2)] framed_mono [OF framed_binding(2) X(2)] framed_mono [OF framed_session(8) X(4)]
    framed_detach(2) [OF X(5)] framed_check
  show "framed (node_view view) X (handle_create_locked E tx sid)"
    unfolding handle_create_locked_def enter_room_def Let_def by (rule framed_intros ops | simp)+
  show "framed (node_view view) X (handle_join_locked E tx sid room)"
    unfolding handle_join_locked_def enter_room_def by (rule framed_intros ops | simp)+
qed

lemma lock_held:
  assumes "view (world c) (session_lock_key sid) \<noteq> None"
  shows "\<exists>w. with_session_lock E sid body c = (Inl SessionConflict, c\<lparr>world := w\<rparr>) \<and> view w = view (world c)"
proof -
  let ?w1 = "snd (new_uuid E (probed E (world c)))"
  let ?w = "snd (acquire_session_lock E sid (fst (new_uuid E (probed E (world c)))) (session_lock_ttl (config c)) ?w1)"
  have v: "view ?w1 = view (world c)" by (simp add: uuid_view)
  have "with_session_lock E sid body c = (Inl SessionConflict, c\<lparr>world := ?w\<rparr>)"
    using assms by (simp add: with_session_lock_def prog_simps require_redis_eval redisM_eval on_world_def
        acquire_session_lock_eval v)
  moreover have "view ?w = view (world c)" using assms by (auto simp: acquire_session_lock_eval v)
  ultimately show ?thesis by blast
qed

lemma lock_taken:
  assumes "view (world c) (session_lock_key sid) = None"
    and "framed (node_view view) (- {session_lock_key sid}) body"
  obtains w where
    "view w = (view (world c))(session_lock_key sid \<mapsto> (StrVal (fst (new_uuid E (probed E (world c)))),
       Some (session_lock_ttl (config c) mod 2 ^ 64)))"
    "fst (with_session_lock E sid body c) = fst (body (c\<lparr>world := w\<rparr>))"
    "\<exists>w'. snd (with_session_lock E sid body c) = (snd (body (c\<lparr>world := w\<rparr>)))\<lparr>world := w'\<rparr>
       \<and> view w' = (view (world (snd (body (c\<lparr>world := w\<rparr>)))))(session_lock_key sid := None)"
proof -
  define owner where "owner = fst (new_uuid E (probed E (world c)))"
  define w1 where "w1 = snd (new_uuid E (probed E (world c)))"
  define w where "w = snd (acquire_session_lock E sid owner (session_lock_ttl (config c)) w1)"
  have v1: "view w1 = view (world c)" by (simp add: w1_def uuid_view)
  have v: "view w = (view (world c))(session_lock_key sid \<mapsto> (StrVal owner, Some (session_lock_ttl (config c) mod 2 ^ 64)))"
    using assms(1) by (simp add: w_def acquire_session_lock_eval v1)
  let ?b = "body (c\<lparr>world := w\<rparr>)"
  have "view (world (snd ?b)) (session_lock_key sid) = view (world (c\<lparr>world := w\<rparr>)) (session_lock_key sid)"
    by (rule framedD [OF assms(2)]) simp
  then have mine: "str_of (view (world (snd ?b))) (session_lock_key sid) = Some owner"
    "is_str (view (world (snd ?b))) (session_lock_key sid)"
    by (simp_all add: v str_of_def is_str_def)
  have run: "with_session_lock E sid body c = (fst ?b, (snd ?b)\<lparr>world := snd (release_session_lock E sid owner (world (snd ?b)))\<rparr>)"
    using assms(1) by (simp add: with_session_lock_def prog_simps require_redis_eval redisM_eval on_world_def
        acquire_session_lock_eval v1 w1_def [symmetric] w_def [symmetric] owner_def [symmetric] lift_result_def)
  let ?w' = "snd (release_session_lock E sid owner (world (snd ?b)))"
  have v': "view ?w' = (view (world (snd ?b)))(session_lock_key sid := None)"
    using mine by (simp add: release_session_lock_eval)
  show ?thesis
  proof (rule that [OF v [unfolded owner_def]])
    show "fst (with_session_lock E sid body c) = fst ?b" by (simp add: run)
    show "\<exists>w'. snd (with_session_lock E sid body c) = (snd ?b)\<lparr>world := w'\<rparr>
       \<and> view w' = (view (world (snd ?b)))(session_lock_key sid := None)"
      by (intro exI [of _ ?w'] conjI v') (simp add: run)
  qed
qed

end

section \<open>The marker of a used token\<close>

text \<open>Messages handled for connections, of this node or another one, and ends of connections, one after the
  other on the world they share. Each entry is a connection as it is before the step, with its channel.\<close>

fun later :: "('w, 'z) sig_env_scheme \<Rightarrow> ('w conn \<times> sender \<times> ClientMessage option) list \<Rightarrow> 'w \<Rightarrow> 'w" where
  "later E [] w = w"
| "later E ((d, tx, Some msg) # steps) w = later E steps (world (snd (handle_client_message E tx msg (d\<lparr>world := w\<rparr>))))"
| "later E ((d, tx, None) # steps) w = later E steps (world (snd (cleanup_connection E (d\<lparr>world := w\<rparr>))))"

lemma keeps_framed: "framed V (- {k}) m \<Longrightarrow> keeps (\<lambda>s. V s k \<noteq> None) m"
  by (simp add: framed_def keeps_def)

context sig_world
begin

lemma framed_leaving:
  fixes X :: "string set"
  assumes "\<And>room s n. {SFU_INSTANCES_KEY, SFU_ROOM_LOAD_KEY, SIGNALING_INSTANCE_LOAD_KEY, room_binding_key room, room_members_key room,
    session_key s, session_lock_key s, nick_key n} \<subseteq> X"
  shows "framed (node_view view) X (leave_room E sid room nick ps reason)" "framed (node_view view) X (handle_leave E sid room ps)"
    "framed (node_view view) X (handle_logout E sid ps)" "framed (node_view view) X (handle_sdp_message E sid sdp t)"
    "framed (node_view view) X (handle_candidate E sid cand mid)" "framed (node_view view) X (cleanup_connection E)"
    "framed (node_view view) X (handle_create E tx sid)" "framed (node_view view) X (handle_join E tx sid room)"
proof -
  have X: "{session_key s} \<subseteq> X" "{session_lock_key s} \<subseteq> X" "{SIGNALING_INSTANCE_LOAD_KEY} \<subseteq> X" "{nick_key n} \<subseteq> X" "{} \<subseteq> X"
    "{SFU_INSTANCES_KEY, SFU_ROOM_LOAD_KEY, room_binding_key r, room_members_key r} \<subseteq> X"
    "{SFU_INSTANCES_KEY, SFU_ROOM_LOAD_KEY, room_binding_key r, room_members_key r, session_key s} \<subseteq> X" for s n r
    using assms by auto
  note ops = framed_check framed_detach [OF X(6)] framed_mono [OF framed_session(8) X(1)] framed_mono [OF framed_session(9) X(1)]
    framed_mono [OF framed_session(7) X(5)] framed_mono [OF framed_session(5) X(4)] framed_mono [OF framed_instance(2) X(3)]
    framed_mono [OF framed_room(1) X(5)] framed_mono [OF framed_session(3) X(2)] framed_mono [OF framed_session(4) X(2)]
    framed_locked [OF X(7)]
  have stop: "framed (node_view view) X stop_renewer"
    by (simp add: framed_def stop_renewer_def prog_simps split: option.split)
  show leave: "framed (node_view view) X (leave_room E s r nick ps reason)" for s r nick ps reason
    unfolding leave_room_def require_redis_def by (rule framed_intros ops | simp)+
  show "framed (node_view view) X (handle_leave E sid room ps)"
    unfolding handle_leave_def by (rule framed_intros ops leave)+
  show "framed (node_view view) X (handle_logout E sid ps)"
    unfolding handle_logout_def by (rule framed_intros ops leave stop | simp)+
  show "framed (node_view view) X (handle_sdp_message E sid sdp t)"
    unfolding handle_sdp_message_def session_sfu_def handle_sdp_def Let_def case_prod_beta
    by (rule framed_intros ops)+
  show "framed (node_view view) X (handle_candidate E sid cand mid)"
    unfolding handle_candidate_def session_sfu_def add_ice_candidate_def case_prod_beta by (rule framed_intros ops)+
  show "framed (node_view view) X (cleanup_connection E)"
    unfolding cleanup_connection_def leave_room_and_notify_def by (rule framed_intros ops stop)+
  show "framed (node_view view) X (handle_create E tx sid)" "framed (node_view view) X (handle_join E tx sid room)"
    unfolding handle_create_def handle_join_def with_session_lock_def require_redis_def by (rule framed_intros ops)+
qed

lemma marker_kept:
  fixes tx :: sender and msg :: ClientMessage and j :: string
  shows "keeps (\<lambda>s. view (world s) (jti_key j) \<noteq> None) (handle_client_message E tx msg)"
    "keeps (\<lambda>s. view (world s) (jti_key j) \<noteq> None) (cleanup_connection E)"
proof -
  have X: "{SFU_INSTANCES_KEY, SFU_ROOM_LOAD_KEY, SIGNALING_INSTANCE_LOAD_KEY, room_binding_key room, room_members_key room,
    session_key s, session_lock_key s, nick_key n} \<subseteq> - {jti_key j}" for room s n by (simp add: key_defs)
  note fr = framed_leaving [OF X, THEN keeps_framed]
  show "keeps (\<lambda>s. view (world s) (jti_key j) \<noteq> None) (cleanup_connection E)" by (rule fr)
  have attach: "keeps (\<lambda>s. view (world s) (jti_key j) \<noteq> None) (handle_attach E token)" for token
  proof -
    let ?I = "\<lambda>s. view (world s) (jti_key j) \<noteq> None"
    have S: "{session_key s} \<subseteq> - {jti_key j}" "{SIGNALING_INSTANCE_LOAD_KEY} \<subseteq> - {jti_key j}" "{} \<subseteq> - {jti_key j}" for s
      by (simp_all add: key_defs)
    have jti: "keeps ?I (redisM (consume_jti E i t))" for i t
      by (auto simp: keeps_def redisM_eval consume_jti_eval)
    note ops = framed_mono [OF framed_session(2) S(1)] framed_mono [OF framed_session(7) S(3)] framed_mono [OF framed_instance(1) S(2)]
    have plain: "keeps ?I (redisM (session_get E s))" "keeps ?I (redisM (session_set_owner E s owner))"
      "keeps ?I (redisM (increment_instance_load E i))" for s owner i
      by (rule keeps_framed, rule framed_redisM, rule ops)+
    have node: "keeps ?I (on_world (validate_connector_token (jwt_decode E) token secret node))" "keeps ?I (require_redis E)"
      "keeps ?I (spawn t)" "keeps ?I (on_sessions g)" "keeps ?I (reply_with E m)" for secret node t g m
      by (simp_all add: keeps_def on_world_def token_eval require_redis_eval node_ops prog_simps reply_eval ws_send_view)
    have may: "keeps ?I (if jti claims = [] then okM True else redisM (consume_jti E (jti claims) t))" for claims t
      using jti by (simp add: keeps_intros)
    show ?thesis unfolding handle_attach_def spawn_lease_renewer_def
      by (rule keeps_intros may plain node | simp)+
  qed
  show "keeps (\<lambda>s. view (world s) (jti_key j) \<noteq> None) (handle_client_message E tx msg)"
    by (cases msg) (simp_all only: handle_client_message.simps fr attach)
qed

lemma later_keeps: "view w (jti_key j) \<noteq> None \<Longrightarrow> view (later E steps w) (jti_key j) \<noteq> None"
proof (induction steps arbitrary: w)
  case (Cons step steps)
  obtain d tx m where step: "step = (d, tx, m)" by (cases step)
  have "view (world (d\<lparr>world := w\<rparr>)) (jti_key j) \<noteq> None" using Cons.prems by simp
  note kept = keepsD [OF marker_kept(1) this] keepsD [OF marker_kept(2) this]
  show ?case using Cons.IH kept by (cases m) (simp_all add: step)
qed simp

end

end
