(* ===== verification/Room_Entry.thy ===== *)
theory Room_Entry
  imports Signaling_Handlers
begin

text \<open>
  Creating and joining a room (\<^verbatim>\<open>handle_create_locked\<close> and \<^verbatim>\<open>handle_join_locked\<close> in
  \<^verbatim>\<open>websocket.rs\<close>) over an available Redis: both either put the participant into the room, in the
  store and in the node, or leave the rooms and loads as they were.
\<close>

section \<open>What the SFU client leaves alone\<close>

definition local_part :: "('w, 'y) node_scheme \<Rightarrow> PeerRegistry \<times> SessionStore \<times> Config" where
  "local_part s = (peers s, sessions s, config s)"

lemma keeps_local [keeps_intros]:
  "keeps (\<lambda>s. local_part s = x) (on_world m)" "keeps (\<lambda>s. local_part s = x) (on_sfu f)"
  "keeps (\<lambda>s. local_part s = x) (spawn t)"
  by (simp_all add: keeps_def node_ops prog_simps local_part_def)

lemma keeps_local_client [keeps_intros]: "keeps (\<lambda>s. local_part s = x) (ensure_peer E addr room nick)"
  unfolding ensure_peer_def ensure_listener_def run_rpc_def grpc_client_def channel_for_def
  by (rule keeps_intros)+

lemma ensure_peer_local [simp]:
  "peers (snd (ensure_peer E addr room nick s)) = peers s"
  "sessions (snd (ensure_peer E addr room nick s)) = sessions s"
  "config (snd (ensure_peer E addr room nick s)) = config s"
  using keepsD [OF keeps_local_client refl, of E addr room nick s] by (simp_all add: local_part_def)

lemma map_sfu_error_cases: "map_sfu_error err \<in> {SfuUnavailable, SfuRejected}"
  by (cases err) (simp_all add: map_sfu_error_def)

section \<open>A session ready to enter a room\<close>

text \<open>The session exists under a nickname and is in no room; the connection is bound to it or to none.\<close>

definition session_idle :: "store \<Rightarrow> string \<Rightarrow> string \<Rightarrow> bool" where
  "session_idle st sid nick \<longleftrightarrow> is_hash st (session_key sid) \<and> st (session_key sid) \<noteq> None \<and> nick \<noteq> []
     \<and> session_state_of (hash_of st (session_key sid)) = \<lparr>nickname = nick, room_id = None\<rparr>"

context sig_world
begin

lemma ensure_peer_view [simp]: "view (world (snd (ensure_peer E addr room nick s))) = view (world s)"
proof -
  have "framed (node_view view) {} (ensure_peer E addr room nick)" by (rule framed_client)
  then show ?thesis by (auto simp: framed_def)
qed

lemma check_idle:
  assumes "session_idle (view (world c)) sid nick" "ctx_session_id c \<in> {None, Some sid}"
  obtains w where "view w = view (world c)"
    "check_session E sid c = (Inr \<lparr>nickname = nick, room_id = None\<rparr>, c\<lparr>world := w, ctx_session_id := Some sid,
       cached_session := Some \<lparr>nickname = nick, room_id = None\<rparr>,
       sessions := upsert sid \<lparr>nickname = nick, room_id = None\<rparr> (sessions c)\<rparr>)"
proof
  let ?w = "snd (session_get E sid (probed E (world c)))"
  show "view ?w = view (world c)" using assms(1) by (simp add: session_get_eval session_idle_def)
  show "check_session E sid c = (Inr \<lparr>nickname = nick, room_id = None\<rparr>, c\<lparr>world := ?w, ctx_session_id := Some sid,
       cached_session := Some \<lparr>nickname = nick, room_id = None\<rparr>,
       sessions := upsert sid \<lparr>nickname = nick, room_id = None\<rparr> (sessions c)\<rparr>)"
    using assms by (auto simp: check_session_def prog_simps require_redis_eval redisM_eval session_get_eval
        session_idle_def on_sessions_def)
qed

text \<open>Creating a room, seen from the connection after its session was checked: \<open>c\<close> already carries the
  session. The cases are the outcomes of the assignment and of the SFU's answer.\<close>

lemma create_full:
  assumes "check_session E sid c = (Inr \<lparr>nickname = nick, room_id = None\<rparr>, c1)" "allowed_intent c1 = Some ''create''"
    and "r = fst (new_uuid E (world c1))" "w2 = snd (new_uuid E (world c1))" "cfg = config c1"
    and "assign_room_to_least_loaded_sfu E r (public_node_id cfg) (signaling_public_host cfg)
           (signaling_public_port cfg) w2 = (Inl NoSfuCapacity, w3)"
  shows "handle_create_locked E tx sid c = (Inl SfuCapacityExhausted, c1\<lparr>world := w3\<rparr>)"
  using assms(2) by (simp add: handle_create_locked_def prog_simps assms(1) on_world_def redisM_eval assms(3)[symmetric]
      assms(4)[symmetric] assms(5)[symmetric] assms(6) map_redis_error_def)

lemma create_placed:
  assumes "check_session E sid c = (Inr \<lparr>nickname = nick, room_id = None\<rparr>, c1)" "allowed_intent c1 = Some ''create''"
    and "r = fst (new_uuid E (world c1))" "w2 = snd (new_uuid E (world c1))" "cfg = config c1"
    and "assign_room_to_least_loaded_sfu E r (public_node_id cfg) (signaling_public_host cfg)
           (signaling_public_port cfg) w2 = (Inr \<lparr>assigned_grpc_addr = addr\<rparr>, w3)"
    and "join_room E r nick w3 = (Inr ps, w4)" "ensure_peer E addr r nick (c1\<lparr>world := w4\<rparr>) = (made, c5)"
  shows "made = Inl err \<Longrightarrow> handle_create_locked E tx sid c =
      (Inl (map_sfu_error err), c5\<lparr>world := snd (close_room_binding E r (snd (srem_member E r nick (world c5))))\<rparr>)"
    "made = Inr u \<Longrightarrow> session_set_room E sid (Some r) (world c5) = (Inr (), w6) \<Longrightarrow>
      c7 = snd (reply_with E (Created r nick) (snd (enter_room sid r (c5\<lparr>world := w6\<rparr>)))) \<Longrightarrow>
      sent = fst (reply_with E (Created r nick) (snd (enter_room sid r (c5\<lparr>world := w6\<rparr>)))) \<Longrightarrow>
      handle_create_locked E tx sid c =
        (sent, if sent = Inr () then c7\<lparr>peers := register r nick tx (Some addr) (peers c7)\<rparr> else c7)"
  using assms(2)
  by (simp_all add: handle_create_locked_def prog_simps assms(1) on_world_def redisM_eval assms(3)[symmetric]
      assms(4)[symmetric] assms(5)[symmetric] assms(6-8) on_peers_def prod_eq_iff split: sum.split)

lemma enter_room_eval:
  "world (snd (enter_room sid room c)) = world c" "peers (snd (enter_room sid room c)) = peers c"
  "session_room (sessions (snd (enter_room sid room c))) sid = (if session_lookup (sessions c) sid = None then None else Some room)"
  by (auto simp: enter_room_def on_sessions_def prog_simps session_room_def set_room_lookup split: option.split)

text \<open>All keys of a store but those of the SFUs and the room.\<close>

lemma emptied: "put_set k {} (put_set k s st) = put_set k {} st"
  by (simp add: put_set_def)

lemma undone_load: "0 \<le> room_load st i \<Longrightarrow> (room_load st)(i := max 0 (room_load st i + 1 - 1)) = room_load st"
  by auto

lemma undo_placed:
  assumes "sfu_ok (json E) (view w3)"
    and "hash_of (view w3) (room_binding_key r) = [''owner_host'' \<mapsto> host, ''owner_port'' \<mapsto> port,
           ''signaling_owner_id'' \<mapsto> oid, ''room_state'' \<mapsto> ''active'', ''sfu_instance_id'' \<mapsto> i, ''sfu_grpc_addr'' \<mapsto> addr]"
    and "is_hash (view w3) (room_binding_key r)" "room_load (view w3) = (room_load st)(i := room_load st i + 1)"
    and "view w3 (room_members_key r) = None" "view w5 = put_set (room_members_key r) {nick} (view w3)"
    and "sfu_table (json E) (view w3) = (sfu_table (json E) st)(i \<mapsto> inst\<lparr>idle_since_unix := 0\<rparr>)" "0 \<le> room_load st i"
  defines "w7 \<equiv> snd (close_room_binding E r (snd (srem_member E r nick w5)))"
  shows "view w7 (room_binding_key r) = None" "view w7 (room_members_key r) = None" "sfu_ok (json E) (view w7)"
    "room_load (view w7) = room_load st"
    "\<exists>t. sfu_table (json E) (view w7) = (sfu_table (json E) st)(i \<mapsto> inst\<lparr>idle_since_unix := t\<rparr>) \<and> (room_load st i = 0 \<or> t = 0)"
    "k \<notin> {SFU_INSTANCES_KEY, SFU_ROOM_LOAD_KEY, room_binding_key r, room_members_key r} \<Longrightarrow> view w7 k = view w3 k"
proof -
  define w6 where "w6 = snd (srem_member E r nick w5)"
  have s5: "is_set (view w5) (room_members_key r)" by (simp add: assms(6))
  have v6: "view w6 = put_set (room_members_key r) {} (view w3)"
    using srem_member_eval(2) [OF s5, of nick] by (simp add: w6_def assms(6) emptied)
  have ok6: "sfu_ok (json E) (view w6)" "is_hash (view w6) (room_binding_key r)"
    using assms(1,3) by (simp_all add: v6 sfu_ok_frame)
  note cl = close_room_binding_eval [OF ok6]
  have h6: "hash_of (view w6) (room_binding_key r) ''sfu_instance_id'' = Some i" by (simp add: v6 assms(2))
  have l6: "room_load (view w6) = (room_load st)(i := room_load st i + 1)" by (simp add: v6 room_load_frame assms(4))
  have t6: "sfu_table (json E) (view w6) = (sfu_table (json E) st)(i \<mapsto> inst\<lparr>idle_since_unix := 0\<rparr>)"
    by (simp add: v6 sfu_table_frame assms(7))
  have w7: "w7 = snd (close_room_binding E r w6)" by (simp add: w7_def w6_def)
  show "view w7 (room_binding_key r) = None" by (simp add: w7 cl(2))
  show "view w7 (room_members_key r) = None"
    using cl(6) [of "room_members_key r"] by (simp add: w7 v6 put_set_def)
  show load: "room_load (view w7) = room_load st"
    using undone_load [OF assms(8)] by (simp add: w7 cl(3) h6 lowered_load l6)
  have gb: "given_back (json E) (view w6) i (view w7)" using cl(7) by (simp add: w7 h6)
  then show "sfu_ok (json E) (view w7)" by (simp add: given_back_def)
  show "\<exists>t. sfu_table (json E) (view w7) = (sfu_table (json E) st)(i \<mapsto> inst\<lparr>idle_since_unix := t\<rparr>) \<and> (room_load st i = 0 \<or> t = 0)"
    using gb by (auto simp: given_back_def idle_only_def load t6 split: if_splits)
  show "k \<notin> {SFU_INSTANCES_KEY, SFU_ROOM_LOAD_KEY, room_binding_key r, room_members_key r} \<Longrightarrow> view w7 k = view w3 k"
    using cl(6) [of k] by (simp add: w7 v6)
qed

lemma create_all_cases:
  fixes c :: "'w conn" and sid nick :: string and tx :: sender
  assumes idle: "session_idle (view (world c)) sid nick" "ctx_session_id c \<in> {None, Some sid}"
    and intent: "allowed_intent c = Some ''create''"
    and ok: "sfu_ok (json E) (view (world c))" "\<forall>i. 0 \<le> room_load (view (world c)) i"
    and named: "\<forall>i inst. sfu_table (json E) (view (world c)) i = Some inst \<longrightarrow> i \<noteq> ''__ROOM_EXISTS__'' \<and> grpc_addr inst \<noteq> []"
    and r: "r = fst (new_uuid E (world (snd (check_session E sid c))))"
    and fresh: "view (world c) (room_binding_key r) = None" "view (world c) (room_members_key r) = None"
  defines "st \<equiv> view (world c)" and "run \<equiv> handle_create_locked E tx sid c" and "st' \<equiv> view (world (snd (handle_create_locked E tx sid c)))"
  obtains (full) "fst run = Inl SfuCapacityExhausted" "st' = st" "peers (snd run) = peers c"
      "session_room (sessions (snd run)) sid = None"
  | (undone) i inst t where "sfu_table (json E) st i = Some inst" "fst run \<in> {Inl SfuUnavailable, Inl SfuRejected}"
      "sfu_ok (json E) st'" "sfu_table (json E) st' = (sfu_table (json E) st)(i \<mapsto> inst\<lparr>idle_since_unix := t\<rparr>)"
      "room_load st i = 0 \<or> t = 0" "room_load st' = room_load st"
      "\<And>k. k \<notin> {SFU_INSTANCES_KEY, SFU_ROOM_LOAD_KEY} \<Longrightarrow> st' k = st k"
      "peers (snd run) = peers c" "session_room (sessions (snd run)) sid = None"
  | (created) i inst where "sfu_table (json E) st i = Some inst" "fst run \<in> {Inr (), Inl WriteFailed}"
      "\<exists>now. assignable (json E) st now i inst
        \<and> (\<forall>j other. assignable (json E) st now j other \<longrightarrow> room_load st i \<le> room_load st j)"
      "sfu_ok (json E) st'" "sfu_table (json E) st' = (sfu_table (json E) st)(i \<mapsto> inst\<lparr>idle_since_unix := 0\<rparr>)"
      "\<And>k. k \<notin> {SFU_INSTANCES_KEY, SFU_ROOM_LOAD_KEY, room_binding_key r, room_members_key r, session_key sid} \<Longrightarrow> st' k = st k"
      "hash_of st' (room_binding_key r) =
         [''owner_host'' \<mapsto> signaling_public_host (config c), ''owner_port'' \<mapsto> show_nat (unat (signaling_public_port (config c))),
          ''signaling_owner_id'' \<mapsto> public_node_id (config c), ''room_state'' \<mapsto> ''active'',
          ''sfu_instance_id'' \<mapsto> i, ''sfu_grpc_addr'' \<mapsto> grpc_addr inst]"
      "set_of st' (room_members_key r) = {nick}" "room_load st' = (room_load st)(i := room_load st i + 1)"
      "hash_of st' (session_key sid) = (hash_of st (session_key sid))(''room_id'' \<mapsto> r)"
      "session_room (sessions (snd run)) sid = Some r"
      "peers (snd run) = (if fst run = Inr () then register r nick tx (Some (grpc_addr inst)) (peers c) else peers c)"
proof -
  obtain w1 where w1: "view w1 = view (world c)" and chk: "check_session E sid c = (Inr \<lparr>nickname = nick, room_id = None\<rparr>,
      c\<lparr>world := w1, ctx_session_id := Some sid, cached_session := Some \<lparr>nickname = nick, room_id = None\<rparr>,
       sessions := upsert sid \<lparr>nickname = nick, room_id = None\<rparr> (sessions c)\<rparr>)"
    by (rule check_idle [OF idle])
  define c1 where "c1 = snd (check_session E sid c)"
  have c1: "check_session E sid c = (Inr \<lparr>nickname = nick, room_id = None\<rparr>, c1)" "world c1 = w1" "config c1 = config c"
    "allowed_intent c1 = Some ''create''" "peers c1 = peers c" "session_room (sessions c1) sid = None"
    "session_lookup (sessions c1) sid \<noteq> None"
    using intent by (simp_all add: c1_def chk session_room_def upsert_lookup)
  define w2 where "w2 = snd (new_uuid E (world c1))"
  have rr: "r = fst (new_uuid E (world c1))" by (simp add: r c1_def)
  have v2: "view w2 = st" by (simp add: w2_def uuid_view c1(2) w1 st_def)
  define a where "a = assign_room_to_least_loaded_sfu E r (public_node_id (config c)) (signaling_public_host (config c))
    (signaling_public_port (config c)) w2"
  have a': "assign_room_to_least_loaded_sfu E r (public_node_id (config c1)) (signaling_public_host (config c1))
    (signaling_public_port (config c1)) w2 = (fst a, snd a)" by (simp add: a_def c1(3))
  note args = c1(1,4) rr w2_def refl
  show ?thesis
  proof (rule assign_outcome [where w = w2 and r = r and oid = "public_node_id (config c)"
        and host = "signaling_public_host (config c)" and port = "signaling_public_port (config c)", folded a_def, unfolded v2])
    show "sfu_ok (json E) st" "st (room_binding_key r) = None"
      "\<forall>i inst. sfu_table (json E) st i = Some inst \<longrightarrow> i \<noteq> ''__ROOM_EXISTS__'' \<and> grpc_addr inst \<noteq> []"
      using ok named fresh by (simp_all add: st_def)
  next
    assume n: "fst a = Inl NoSfuCapacity" "view (snd a) = st"
    have "run = (Inl SfuCapacityExhausted, c1\<lparr>world := snd a\<rparr>)"
      unfolding run_def by (rule create_full [OF args a' [unfolded n(1)]])
    then show ?thesis using n(2) c1 by (intro full) (simp_all add: st'_def run_def [symmetric])
  next
    fix i inst
    assume can: "assignable (json E) st (fst (unix_time E w2)) i inst"
      and least: "\<forall>j other. assignable (json E) st (fst (unix_time E w2)) j other \<longrightarrow> room_load st i \<le> room_load st j"
      and placed: "fst a = Inr \<lparr>assigned_grpc_addr = grpc_addr inst\<rparr>" "sfu_ok (json E) (view (snd a))"
      "hash_of (view (snd a)) (room_binding_key r) =
         [''owner_host'' \<mapsto> signaling_public_host (config c), ''owner_port'' \<mapsto> show_nat (unat (signaling_public_port (config c))),
          ''signaling_owner_id'' \<mapsto> public_node_id (config c), ''room_state'' \<mapsto> ''active'',
          ''sfu_instance_id'' \<mapsto> i, ''sfu_grpc_addr'' \<mapsto> grpc_addr inst]"
      "is_hash (view (snd a)) (room_binding_key r)"
      "room_load (view (snd a)) = (room_load st)(i := room_load st i + 1)"
      "sfu_table (json E) (view (snd a)) = (sfu_table (json E) st)(i \<mapsto> inst\<lparr>idle_since_unix := 0\<rparr>)"
      "\<And>k. k \<notin> {SFU_INSTANCES_KEY, SFU_ROOM_LOAD_KEY, room_binding_key r} \<Longrightarrow> view (snd a) k = st k"
    then have tab: "sfu_table (json E) st i = Some inst" by (simp add: assignable_def)
    have nomem: "view (snd a) (room_members_key r) = None" using placed(7) fresh by (simp add: st_def)
    then have m: "is_set (view (snd a)) (room_members_key r)" "set_of (view (snd a)) (room_members_key r) = {}"
      by (simp_all add: is_set_def set_of_def)
    have bound: "view (snd a) (room_binding_key r) \<noteq> None"
    proof
      assume "view (snd a) (room_binding_key r) = None"
      then have "hash_of (view (snd a)) (room_binding_key r) ''sfu_instance_id'' = None" by (simp add: hash_of_def)
      then show False by (simp add: placed(3))
    qed
    obtain ps where ps: "join_room E r nick (snd a) = (Inr ps, snd (join_room E r nick (snd a)))"
      "view (snd (join_room E r nick (snd a))) = put_set (room_members_key r) {nick} (view (snd a))"
      using join_room_eval [OF m(1), of nick] bound m(2) by (metis empty_iff prod.collapse)
    define w4 where "w4 = snd (join_room E r nick (snd a))"
    have v4: "view w4 = put_set (room_members_key r) {nick} (view (snd a))" using ps(2) by (simp add: w4_def)
    define e where "e = ensure_peer E (grpc_addr inst) r nick (c1\<lparr>world := w4\<rparr>)"
    have v5: "view (world (snd e)) = view w4" by (simp add: e_def)
    have l5: "peers (snd e) = peers c" "sessions (snd e) = sessions c1" by (simp_all add: e_def c1)
    note run = create_placed [OF args a' [unfolded placed(1)] ps(1) [folded w4_def], of "fst e" "snd e"]
    show ?thesis
    proof (cases "fst e")
      case (Inl err)
      have runs: "run = (Inl (map_sfu_error err),
          (snd e)\<lparr>world := snd (close_room_binding E r (snd (srem_member E r nick (world (snd e)))))\<rparr>)"
        unfolding run_def by (rule run(1)) (simp_all add: e_def [symmetric] Inl prod_eq_iff)
      have pos: "0 \<le> room_load st i" using ok(2) by (simp add: st_def)
      note undo = undo_placed [OF placed(2-5) nomem v5 [unfolded v4] placed(6) pos]
      obtain t where t: "sfu_table (json E) st' = (sfu_table (json E) st)(i \<mapsto> inst\<lparr>idle_since_unix := t\<rparr>)"
        "room_load st i = 0 \<or> t = 0"
        using undo(5) by (auto simp: st'_def run_def [symmetric] runs)
      show ?thesis
      proof (rule undone [OF tab _ _ t])
        show "fst run \<in> {Inl SfuUnavailable, Inl SfuRejected}" using map_sfu_error_cases [of err] by (auto simp: runs)
        show "st' k = st k" if k: "k \<notin> {SFU_INSTANCES_KEY, SFU_ROOM_LOAD_KEY}" for k
        proof (cases "k \<in> {room_binding_key r, room_members_key r}")
          case True
          then show ?thesis using fresh undo(1,2) by (auto simp: st'_def run_def [symmetric] runs st_def)
        next
          case False
          then show ?thesis using k undo(6) [of k] placed(7) [of k] by (simp add: st'_def run_def [symmetric] runs)
        qed
      qed (simp_all add: st'_def run_def [symmetric] runs undo l5 c1)
    next
      case (Inr u)
      define w6 where "w6 = snd (session_set_room E sid (Some r) (world (snd e)))"
      have same: "view (world (snd e)) (session_key sid) = st (session_key sid)" using placed(7) by (simp add: v5 v4)
      then have h5: "is_hash (view (world (snd e))) (session_key sid)"
        "hash_of (view (world (snd e))) (session_key sid) = hash_of st (session_key sid)"
        using idle(1) by (simp_all add: is_hash_def hash_of_def session_idle_def st_def)
      have v6: "view w6 = put_hash (session_key sid) ((hash_of st (session_key sid))(''room_id'' \<mapsto> r)) (view w4)"
        using session_set_room_eval(2) [OF h5(1)] h5(2) by (simp add: w6_def v5)
      define s6 where "s6 = snd (enter_room sid r ((snd e)\<lparr>world := w6\<rparr>))"
      define sent where "sent = fst (reply_with E (Created r nick) s6)"
      define c7 where "c7 = snd (reply_with E (Created r nick) s6)"
      have c7: "view (world c7) = view w6" "peers c7 = peers c" "session_room (sessions c7) sid = Some r"
        using c1(7) by (simp_all add: c7_def reply_eval ws_send_view s6_def enter_room_eval l5)
      have runs: "run = (sent, if sent = Inr () then c7\<lparr>peers := register r nick tx (Some (grpc_addr inst)) (peers c7)\<rparr> else c7)"
        unfolding run_def
        by (rule run(2) [of u w6]) (simp_all add: e_def [symmetric] Inr w6_def session_set_room_eval [OF h5(1)]
            s6_def [symmetric] c7_def sent_def prod_eq_iff, simp_all add: s6_def w6_def)
      have st7: "st' = view w6" by (simp add: st'_def run_def [symmetric] runs c7)
      show ?thesis
      proof (rule created [OF tab])
        show "fst run \<in> {Inr (), Inl WriteFailed}" by (simp add: runs sent_def reply_eval)
        show "room_load st' = (room_load st)(i := room_load st i + 1)" by (simp add: st7 v6 v4 room_load_frame placed(5))
        show "\<exists>now. assignable (json E) st now i inst
            \<and> (\<forall>j other. assignable (json E) st now j other \<longrightarrow> room_load st i \<le> room_load st j)"
          using can least by blast
        show "sfu_ok (json E) st'" using placed(2) by (simp add: st7 v6 v4 sfu_ok_frame)
        show "sfu_table (json E) st' = (sfu_table (json E) st)(i \<mapsto> inst\<lparr>idle_since_unix := 0\<rparr>)"
          by (simp add: st7 v6 v4 sfu_table_frame placed(6))
        show "st' k = st k"
          if "k \<notin> {SFU_INSTANCES_KEY, SFU_ROOM_LOAD_KEY, room_binding_key r, room_members_key r, session_key sid}" for k
          using that placed(7) [of k] by (simp add: st7 v6 v4)
      qed (simp_all add: runs c7 st7 v6 v4 placed(3))
    qed
  qed
qed

end

section \<open>Leaving a room\<close>

text \<open>The store after a participant is gone: nothing changes for one who was not there; the last one closes the
  room and gives its place on the SFU back, if the binding names one.\<close>

definition departed :: "json_api \<Rightarrow> store \<Rightarrow> string \<Rightarrow> string \<Rightarrow> store \<Rightarrow> bool" where
  "departed J st room nick st' \<longleftrightarrow>
     (let members = set_of st (room_members_key room) in
      if st (room_binding_key room) = None \<or> nick \<notin> members then st' = st
      else if members \<noteq> {nick} then st' = put_set (room_members_key room) (members - {nick}) st
      else (case hash_of st (room_binding_key room) ''sfu_instance_id'' of
              None \<Rightarrow> st' = st(room_binding_key room := None, room_members_key room := None)
            | Some i \<Rightarrow> st' (room_binding_key room) = None \<and> st' (room_members_key room) = None
                \<and> given_back J st i st'
                \<and> (\<forall>k. k \<in> {SFU_INSTANCES_KEY, SFU_ROOM_LOAD_KEY, room_binding_key room, room_members_key room} \<or> st' k = st k)))"

text \<open>The store after these participants are gone, one after the other.\<close>

fun departures :: "json_api \<Rightarrow> string \<Rightarrow> string list \<Rightarrow> store \<Rightarrow> store \<Rightarrow> bool" where
  "departures J room [] st st' \<longleftrightarrow> st' = st"
| "departures J room (nick # nicks) st st' \<longleftrightarrow> (\<exists>st1. departed J st room nick st1 \<and> departures J room nicks st1 st')"

lemma departed_other:
  "departed J st room nick st' \<Longrightarrow> k \<notin> {SFU_INSTANCES_KEY, SFU_ROOM_LOAD_KEY, room_binding_key room, room_members_key room} \<Longrightarrow>
   st' k = st k"
  by (auto simp: departed_def Let_def split: if_splits option.splits)

lemma departed_typed:
  assumes "departed J st room nick st'" "sfu_ok J st" "is_hash st (room_binding_key room)" "is_set st (room_members_key room)"
  shows "sfu_ok J st'" "is_hash st' (room_binding_key room)" "is_set st' (room_members_key room)"
proof -
  have fin: "finite (set_of st (room_members_key room))" using assms(4) by (rule is_set_finite)
  have gone: "is_hash s k" "is_set s k" if "s k = None" for s k using that by (simp_all add: is_hash_def is_set_def)
  show "sfu_ok J st'" "is_hash st' (room_binding_key room)" "is_set st' (room_members_key room)"
    using assms fin by (auto simp: departed_def Let_def given_back_def sfu_ok_frame gone split: if_splits option.splits)
qed

context sig_world
begin

lemma delete_peer_view [simp]: "view (world (snd (delete_peer E addr room nick reason s))) = view (world s)"
proof -
  have "framed (node_view view) {} (delete_peer E addr room nick reason)" by (rule framed_client)
  then show ?thesis by (auto simp: framed_def)
qed

lemma detach_departed:
  fixes s :: "('w, 'y) node_scheme"
  assumes ok: "sfu_ok (json E) (view (world s))" and b: "is_hash (view (world s)) (room_binding_key room)"
    and m: "is_set (view (world s)) (room_members_key room)"
  shows "departed (json E) (view (world s)) room nick (view (world (snd (detach_peer E room nick reason s))))"
proof -
  let ?st = "view (world s)"
  define route where "route = (case fst (get_room_route E room (world (snd (is_redis_available E s)))) of Inr r \<Rightarrow> Some r | Inl _ \<Rightarrow> None)"
  define s1 where "s1 = (snd (is_redis_available E s))\<lparr>world := snd (get_room_route E room (world (snd (is_redis_available E s))))\<rparr>"
  define s2 where "s2 = snd (is_redis_available E (s1\<lparr>peers := unregister room nick (peers s1)\<rparr>))"
  define w3 where "w3 = snd (leave_room_redis E room nick (world s2))"
  define del :: "(('w, 'y) node_scheme, unit) act" where "del = (case (case route of None \<Rightarrow> None | Some rt \<Rightarrow> sfu_grpc_addr rt) of
     None \<Rightarrow> retM () | Some addr \<Rightarrow> ignoreM (delete_peer E addr room nick reason))"
  define s4 where "s4 = snd (del (s2\<lparr>world := w3\<rparr>))"
  define left where "left = fst (leave_room_redis E room nick (world s2))"
  have b1: "is_hash (view (world (snd (is_redis_available E s)))) (room_binding_key room)" using b by simp
  have v2: "view (world s2) = ?st" using get_room_route_eval(2) [OF b1] by (simp add: s2_def s1_def)
  have m2: "is_set (view (world s2)) (room_members_key room)" using m by (simp add: v2)
  note l = leave_room_eval [OF m2, of nick, folded w3_def left_def, unfolded v2]
  have v4: "view (world s4) = view w3" by (simp add: s4_def del_def prog_simps split: option.split)
  have run: "view (world (snd (detach_peer E room nick reason s))) =
      (if (case left of Inr r \<Rightarrow> room_empty r | Inl _ \<Rightarrow> False) then view (snd (close_room_binding E room (world s4)))
       else view w3)"
    using v4 by (simp add: detach_peer_def prog_simps on_world_def route_def [symmetric] s1_def [symmetric] on_peers_def
        s2_def [symmetric] w3_def [symmetric] left_def [symmetric] del_def [symmetric] s4_def [symmetric])
  show ?thesis
  proof (cases "?st (room_binding_key room) = None \<or> nick \<notin> set_of ?st (room_members_key room)")
    case True
    then show ?thesis using l by (auto simp: departed_def Let_def run)
  next
    case False
    then have w3: "view w3 = put_set (room_members_key room) (set_of ?st (room_members_key room) - {nick}) ?st" using l(2) by auto
    show ?thesis
    proof (cases "set_of ?st (room_members_key room) = {nick}")
      case False': False
      then have "set_of ?st (room_members_key room) - {nick} \<noteq> {}" using False by blast
      then have "left = Inr \<lparr>room_empty = False\<rparr>" using l(1) False by auto
      then show ?thesis using False False' w3 by (auto simp: departed_def Let_def run)
    next
      case True
      have ok4: "sfu_ok (json E) (view (world s4))" "is_hash (view (world s4)) (room_binding_key room)"
        using ok b by (simp_all add: v4 w3 sfu_ok_frame)
      let ?w = "snd (close_room_binding E room (world s4))"
      note cl = close_room_binding_eval [OF ok4]
      have "left = Inr \<lparr>room_empty = True\<rparr>" using l(1) False True by auto
      then have fin: "view (world (snd (detach_peer E room nick reason s))) = view ?w"
        by (simp add: run)
      have w3': "view w3 = ?st(room_members_key room := None)" using True by (simp add: w3 put_set_def)
      have "view ?w (room_members_key room) = None" using cl(6) [of "room_members_key room"] by (simp add: v4 w3')
      moreover have "view ?w k = ?st k"
        if "k \<notin> {SFU_INSTANCES_KEY, SFU_ROOM_LOAD_KEY, room_binding_key room, room_members_key room}" for k
        using that cl(6) [of k] by (simp add: v4 w3')
      moreover have "hash_of (view (world s4)) (room_binding_key room) = hash_of ?st (room_binding_key room)"
        by (simp add: v4 w3')
      moreover have "given_back (json E) (view (world s4)) i (view ?w) = given_back (json E) ?st i (view ?w)" for i
        by (simp add: given_back_def idle_only_def v4 w3' room_load_frame sfu_table_frame)
      moreover have one: "\<not> set_of ?st (room_members_key room) \<noteq> {nick}" using True by simp
      ultimately show ?thesis
        unfolding departed_def Let_def if_not_P [OF False] if_not_P [OF one] fin using cl(2,7)
        by (auto simp: v4 w3' fun_upd_twist split: option.splits)
    qed
  qed
qed

end

section \<open>Joining a room\<close>

text \<open>What a join depends on, as a function of the store and the connection: the reason to refuse it,
  in the order the handler looks.\<close>

definition join_refusal :: "store \<Rightarrow> 'w conn \<Rightarrow> string \<Rightarrow> string \<Rightarrow> WsHandlerError option" where
  "join_refusal st c sid room =
     (let session = session_state_of (hash_of st (session_key sid)) in
      if \<not> (ctx_session_id c \<in> {None, Some sid}) then Some SessionConflict
      else if st (session_key sid) = None \<or> nickname session = [] then Some SessionConflict
      else if room_id session \<noteq> None then Some AlreadyInRoom
      else if \<not> (allowed_intent c = Some ''join'' \<and> allowed_room_id c = Some room) then Some Unauthorized
      else if st (room_binding_key room) = None then Some RoomNotFound
      else (case room_route_of (hash_of st (room_binding_key room)) of
              Inl e \<Rightarrow> Some (map_redis_error e)
            | Inr route \<Rightarrow>
                if \<not> is_local_target (config c) route \<or> room_state route \<noteq> ''active'' then Some InvalidRoomAssignment
                else if sfu_grpc_addr route = None then Some SfuUnavailable
                else if nickname session \<in> set_of st (room_members_key room) then Some NicknameTaken
                else None))"

text \<open>The connection after the session was checked: one that passes is bound to the session and knows it, as does the node,
  whatever becomes of the join.\<close>

definition session_refused :: "store \<Rightarrow> 'w conn \<Rightarrow> string \<Rightarrow> bool" where
  "session_refused st c sid \<longleftrightarrow> \<not> (ctx_session_id c \<in> {None, Some sid}) \<or> st (session_key sid) = None
     \<or> nickname (session_state_of (hash_of st (session_key sid))) = []"

definition checked :: "store \<Rightarrow> 'w conn \<Rightarrow> string \<Rightarrow> 'w conn" where
  "checked st c sid =
     (if session_refused st c sid then c
      else let session = session_state_of (hash_of st (session_key sid))
        in c\<lparr>ctx_session_id := Some sid, cached_session := Some session, sessions := upsert sid session (sessions c)\<rparr>)"

text \<open>The store after a participant was added to a room, and a registered peer whose channel does not take
  every message.\<close>

definition joined_store :: "store \<Rightarrow> string \<Rightarrow> string \<Rightarrow> string \<Rightarrow> store" where
  "joined_store st room sid nick = put_hash (session_key sid) ((hash_of st (session_key sid))(''room_id'' \<mapsto> room))
     (put_set (room_members_key room) (insert nick (set_of st (room_members_key room))) st)"

definition refuses :: "('w, 'z) sig_env_scheme \<Rightarrow> PeerRegistry \<Rightarrow> string \<Rightarrow> string \<Rightarrow> bool" where
  "refuses E reg room nick \<longleftrightarrow> (\<exists>entry m w. (nick, entry) \<in> set (peers_of reg room) \<and> \<not> fst (try_send E (pe_sender entry) m w))"

lemma send_each_refused:
  "nick \<in> set (fst (send_each f m targets w)) \<Longrightarrow> \<exists>entry w'. (nick, entry) \<in> set targets \<and> \<not> fst (f (pe_sender entry) m w')"
proof (induction f m targets arbitrary: w rule: send_each.induct)
  case (2 f m other entry targets)
  let ?w = "snd (f (pe_sender entry) m w)"
  consider "nick = other" "\<not> fst (f (pe_sender entry) m w)" | "nick \<in> set (fst (send_each f m targets ?w))"
    using "2.prems" by (auto simp: prog_simps split: if_splits)
  then show ?case
  proof cases
    case later: 2
    from "2.IH" [OF later] show ?thesis by (meson list.set_intros(2))
  qed auto
qed (simp add: prog_simps)

lemma broadcast_refused: "nick \<in> set (fst (broadcast E room except m s)) \<Longrightarrow> refuses E (peers s) room nick"
  using send_each_refused [of nick "try_send E" m "broadcast_targets (peers s) room except" "world s"]
  by (auto simp: refuses_def broadcast_def prog_simps on_world_def broadcast_to_room_def broadcast_targets_def)

lemma refuses_mono: "refuses E reg room nick \<Longrightarrow> set (peers_of reg room) \<subseteq> set (peers_of reg' room) \<Longrightarrow> refuses E reg' room nick"
  by (auto simp: refuses_def)

lemma keeps_session [keeps_intros]:
  fixes x :: "SessionStore \<times> string option"
  shows "keeps (\<lambda>s. (sessions s, ctx_session_id s) = x) (on_world m)" "keeps (\<lambda>s. (sessions s, ctx_session_id s) = x) (on_sfu f)"
    "keeps (\<lambda>s. (sessions s, ctx_session_id s) = x) (spawn t)" "keeps (\<lambda>s. (sessions s, ctx_session_id s) = x) (on_peers g)"
  by (simp_all add: keeps_def node_ops prog_simps)

lemma keeps_session_detach [keeps_intros]:
  fixes x :: "SessionStore \<times> string option"
  shows "keeps (\<lambda>s. (sessions s, ctx_session_id s) = x) (detach_stale_peer E room nick reason)"
    "keeps (\<lambda>s. (sessions s, ctx_session_id s) = x) (ensure_peer E addr room nick)"
    "keeps (\<lambda>s. (sessions s, ctx_session_id s) = x) (broadcast E room except m)"
  unfolding detach_stale_peer_def detach_peer_def broadcast_def is_redis_available_def delete_peer_def ensure_peer_def
    ensure_listener_def run_rpc_def grpc_client_def channel_for_def
  by (rule keeps_intros)+

context sig_world
begin

lemma check_refused:
  assumes "is_hash (view (world c)) (session_key sid)" "session_refused (view (world c)) c sid"
  shows "fst (check_session E sid c) = Inl SessionConflict" "view (world (snd (check_session E sid c))) = view (world c)"
    "snd (check_session E sid c) = (checked (view (world c)) c sid)\<lparr>world := world (snd (check_session E sid c))\<rparr>"
  using assms by (auto simp: check_session_def prog_simps require_redis_eval redisM_eval session_get_eval checked_def
      session_refused_def split: option.split)

lemma check_passed:
  assumes "is_hash (view (world c)) (session_key sid)" "ctx_session_id c \<in> {None, Some sid}"
    and "view (world c) (session_key sid) \<noteq> None" "session = session_state_of (hash_of (view (world c)) (session_key sid))"
    and "nickname session \<noteq> []"
  obtains w where "view w = view (world c)"
    "check_session E sid c = (Inr session, c\<lparr>world := w, ctx_session_id := Some sid,
       cached_session := Some session, sessions := upsert sid session (sessions c)\<rparr>)"
proof
  let ?w = "snd (session_get E sid (probed E (world c)))"
  show "view ?w = view (world c)" using assms(1) by (simp add: session_get_eval)
  show "check_session E sid c = (Inr session, c\<lparr>world := ?w, ctx_session_id := Some sid,
       cached_session := Some session, sessions := upsert sid session (sessions c)\<rparr>)"
    using assms by (auto simp: check_session_def prog_simps require_redis_eval redisM_eval session_get_eval
        on_sessions_def)
qed

lemma join_refused:
  assumes typed: "is_hash (view (world c)) (session_key sid)" "is_hash (view (world c)) (room_binding_key room)"
      "is_set (view (world c)) (room_members_key room)"
    and why: "join_refusal (view (world c)) c sid room = Some e"
  shows "fst (handle_join_locked E tx sid room c) = Inl e
    \<and> view (world (snd (handle_join_locked E tx sid room c))) = view (world c)
    \<and> snd (handle_join_locked E tx sid room c)
      = (checked (view (world c)) c sid)\<lparr>world := world (snd (handle_join_locked E tx sid room c))\<rparr>"
proof (cases "session_refused (view (world c)) c sid")
  case True
  then have "e = SessionConflict" using why by (auto simp: join_refusal_def session_refused_def Let_def split: if_splits)
  then show ?thesis using check_refused [OF typed(1) True] by (simp add: handle_join_locked_def prog_simps)
next
  case False
  let ?session = "session_state_of (hash_of (view (world c)) (session_key sid))"
  obtain w where w: "view w = view (world c)" "check_session E sid c = (Inr ?session, c\<lparr>world := w,
      ctx_session_id := Some sid, cached_session := Some ?session, sessions := upsert sid ?session (sessions c)\<rparr>)"
    using False unfolding session_refused_def by (auto intro: check_passed [OF typed(1) _ _ refl])
  define w2 where "w2 = snd (get_room_route E room w)"
  have b: "is_hash (view w) (room_binding_key room)" using typed(2) by (simp add: w(1))
  note g = get_room_route_eval [OF b, folded w2_def, unfolded w(1)]
  have m: "is_set (view w2) (room_members_key room)" using typed(3) by (simp add: g(2))
  obtain ps where j: "fst (join_room E room (nickname ?session) w2) =
      (if view (world c) (room_binding_key room) = None then Inl RedisRoomError.RoomNotFound
       else if nickname ?session \<in> set_of (view (world c)) (room_members_key room) then Inl RedisRoomError.NicknameTaken else Inr ps)"
    "view (snd (join_room E room (nickname ?session) w2)) =
      (if view (world c) (room_binding_key room) = None \<or> nickname ?session \<in> set_of (view (world c)) (room_members_key room)
       then view (world c) else put_set (room_members_key room)
         (insert (nickname ?session) (set_of (view (world c)) (room_members_key room))) (view (world c)))"
    by (rule join_room_eval [OF m, of "nickname ?session", unfolded g(2)])
  define c1 where "c1 = (checked (view (world c)) c sid)\<lparr>world := w\<rparr>"
  have c1: "check_session E sid c = (Inr ?session, c1)" "world c1 = w" "config c1 = config c"
    "allowed_intent c1 = allowed_intent c" "allowed_room_id c1 = allowed_room_id c"
    using False by (simp_all add: w(2) c1_def checked_def Let_def)
  note run = handle_join_locked_def prog_simps c1 redisM_eval w2_def [symmetric] map_redis_error_def
  note why' = False [unfolded session_refused_def] why [unfolded join_refusal_def Let_def]
  have "\<exists>w'. handle_join_locked E tx sid room c = (Inl e, c1\<lparr>world := w'\<rparr>) \<and> view w' = view (world c)"
  proof (cases "room_id ?session = None \<and> allowed_intent c = Some ''join'' \<and> allowed_room_id c = Some room")
    case False
    then have "handle_join_locked E tx sid room c = (Inl e, c1)" using why' by (auto simp: run split: if_splits)
    then show ?thesis using c1(2) w(1) by (intro exI [of _ w]) simp
  next
    case may: True
    show ?thesis
    proof (cases "fst (get_room_route E room w)")
      case (Inl err)
      then have "handle_join_locked E tx sid room c = (Inl e, c1\<lparr>world := w2\<rparr>)" using why' may g(1)
        by (auto simp: run split: if_splits)
      then show ?thesis using g(2) by blast
    next
      case (Inr route)
      then have bound: "view (world c) (room_binding_key room) \<noteq> None"
        "room_route_of (hash_of (view (world c)) (room_binding_key room)) = Inr route"
        using g(1) by (auto split: if_splits)
      show ?thesis
      proof (cases "is_local_target (config c) route \<and> room_state route = ''active'' \<and> sfu_grpc_addr route \<noteq> None")
        case False
        then have "handle_join_locked E tx sid room c = (Inl e, c1\<lparr>world := w2\<rparr>)" using why' may bound Inr
          by (auto simp: run split: if_splits)
        then show ?thesis using g(2) by blast
      next
        case True
        then have taken: "e = NicknameTaken" "nickname ?session \<in> set_of (view (world c)) (room_members_key room)"
          using why' may bound by (auto split: if_splits)
        then have "handle_join_locked E tx sid room c = (Inl e, c1\<lparr>world := snd (join_room E room (nickname ?session) w2)\<rparr>)"
          using True may bound Inr j by (auto simp: run)
        then show ?thesis using taken j(2) by auto
      qed
    qed
  qed
  then show ?thesis by (auto simp: c1_def)
qed

lemma broadcast_sel [simp]:
  "peers (snd (broadcast E room except payload s)) = peers s"
  "sessions (snd (broadcast E room except payload s)) = sessions s"
  "view (world (snd (broadcast E room except payload s))) = view (world s)"
proof -
  show "sessions (snd (broadcast E room except payload s)) = sessions s"
    by (simp add: broadcast_def prog_simps on_world_def)
  have "framed (node_view view) {} (broadcast E room except payload)" by (rule framed_broadcast)
  then show "view (world (snd (broadcast E room except payload s))) = view (world s)" by (auto simp: framed_def)
qed simp

text \<open>One stale peer: its departure, and more peers whose channel refused a message.\<close>

lemma stale_departs:
  fixes s :: "'w conn" and nick reason :: string
  assumes "sfu_ok (json E) (view (world s))" "is_hash (view (world s)) (room_binding_key room)"
    and "is_set (view (world s)) (room_members_key room)"
  defines "r \<equiv> detach_stale_peer E room nick reason s"
  shows "departed (json E) (view (world s)) room nick (view (world (snd r)))"
    "sessions (snd r) = sessions s \<and> ctx_session_id (snd r) = ctx_session_id s"
    "\<forall>other \<in> set (fst r). refuses E (peers s) room other"
proof -
  let ?b = "broadcast E room (Some nick) (ParticipantLeft nick) s"
  have "view (world (snd ?b)) = view (world s)" by simp
  with detach_departed [of "snd ?b" room nick reason] assms(1-3)
  show "departed (json E) (view (world s)) room nick (view (world (snd r)))"
    by (simp add: r_def detach_stale_peer_def prog_simps)
  show "sessions (snd r) = sessions s \<and> ctx_session_id (snd r) = ctx_session_id s"
    using keepsD [OF keeps_session_detach(1) refl, of E room nick reason s] by (simp add: r_def)
  show "\<forall>other \<in> set (fst r). refuses E (peers s) room other"
    using broadcast_refused by (fastforce simp: r_def detach_stale_peer_def prog_simps)
qed

end

text \<open>The loop that detaches stale peers: one departure after the other, of peers whose channel refused a
  message.\<close>

lemma stale_departures:
  fixes s :: "'w conn"
  assumes "sig_world E view" "sfu_ok (json E) (view (world s))" "is_hash (view (world s)) (room_binding_key room)"
    and "is_set (view (world s)) (room_members_key room)" "\<forall>nick \<in> set stale. refuses E reg room nick"
    and "set (peers_of (peers s) room) \<subseteq> set (peers_of reg room)"
  shows "\<exists>ds. departures (json E) room ds (view (world s)) (view (world (snd (detach_stale_peers E room stale reason s))))
    \<and> peers (snd (detach_stale_peers E room stale reason s)) = fold (unregister room) ds (peers s)
    \<and> sessions (snd (detach_stale_peers E room stale reason s)) = sessions s
    \<and> ctx_session_id (snd (detach_stale_peers E room stale reason s)) = ctx_session_id s
    \<and> (\<forall>nick \<in> set ds. refuses E reg room nick)"
  using assms
proof (induction E room stale reason s rule: detach_stale_peers.induct)
  case (1 E room stale reason s)
  show ?case
  proof (cases "stale = []")
    case True
    then show ?thesis by (intro exI [of _ "[]"]) (simp add: detach_stale_peers.simps)
  next
    case False
    let ?d = "last stale"
    define r where "r = detach_stale_peer E room ?d reason s"
    note one = sig_world.stale_departs [OF "1.prems"(1-4), of ?d reason, folded r_def]
    note typed = departed_typed [OF one(1) "1.prems"(2-4)]
    have reg: "peers (snd r) = unregister room ?d (peers s)" by (simp add: r_def)
    have fewer: "set (peers_of (peers (snd r)) room) \<subseteq> set (peers_of reg room)" using "1.prems"(6) by (auto simp: reg set_delete)
    have d: "refuses E reg room ?d" using "1.prems"(5) False by simp
    have stale: "\<forall>nick \<in> set (butlast stale @ fst r). refuses E reg room nick"
      using one(3) "1.prems"(5) in_set_butlastD refuses_mono [OF _ "1.prems"(6)] by fastforce
    have run: "detach_stale_peers E room stale reason s = detach_stale_peers E room (butlast stale @ fst r) reason (snd r)"
      using False by (subst detach_stale_peers.simps) (simp add: r_def Let_def)
    from "1.IH" [OF False r_def "1.prems"(1) typed stale fewer] obtain ds where
      "departures (json E) room ds (view (world (snd r))) (view (world (snd (detach_stale_peers E room stale reason s))))"
      "peers (snd (detach_stale_peers E room stale reason s)) = fold (unregister room) ds (peers (snd r))"
      "sessions (snd (detach_stale_peers E room stale reason s)) = sessions (snd r)"
      "ctx_session_id (snd (detach_stale_peers E room stale reason s)) = ctx_session_id (snd r)"
      "\<forall>nick \<in> set ds. refuses E reg room nick"
      unfolding run by blast
    then show ?thesis using one(1,2) d reg by (intro exI [of _ "?d # ds"]) auto
  qed
qed

context sig_world
begin

lemma join_all_cases:
  fixes c :: "'w conn" and sid room :: string and tx :: sender
  assumes typed: "is_hash (view (world c)) (session_key sid)" "is_hash (view (world c)) (room_binding_key room)"
      "is_set (view (world c)) (room_members_key room)" "sfu_ok (json E) (view (world c))"
    and may: "join_refusal (view (world c)) c sid room = None"
  defines "st \<equiv> view (world c)" and "run \<equiv> handle_join_locked E tx sid room c"
    and "st' \<equiv> view (world (snd (handle_join_locked E tx sid room c)))"
    and "nick \<equiv> nickname (session_state_of (hash_of (view (world c)) (session_key sid)))"
  obtains (undone) "fst run \<in> {Inl SfuUnavailable, Inl SfuRejected}" "st' = st" "peers (snd run) = peers c"
      "sessions (snd run) = sessions (checked st c sid)" "ctx_session_id (snd run) = Some sid"
  | (unsent) "fst run = Inl WriteFailed" "st' = joined_store st room sid nick" "peers (snd run) = peers c"
      "sessions (snd run) = set_room sid (Some room) (sessions (checked st c sid))" "ctx_session_id (snd run) = Some sid"
  | (joined) addr ds where "fst run = Inr ()" "hash_of st (room_binding_key room) ''sfu_grpc_addr'' = Some addr"
      "departures (json E) room ds (joined_store st room sid nick) st'"
      "peers (snd run) = fold (unregister room) ds (register room nick tx (Some addr) (peers c))"
      "\<forall>other \<in> set ds. refuses E (register room nick tx (Some addr) (peers c)) room other"
      "sessions (snd run) = set_room sid (Some room) (sessions (checked st c sid))" "ctx_session_id (snd run) = Some sid"
proof -
  let ?session = "session_state_of (hash_of st (session_key sid))"
  have guards: "ctx_session_id c \<in> {None, Some sid}" "st (session_key sid) \<noteq> None" "nickname ?session \<noteq> []"
    "room_id ?session = None" "allowed_intent c = Some ''join''" "allowed_room_id c = Some room"
    "st (room_binding_key room) \<noteq> None" "nick \<notin> set_of st (room_members_key room)"
    using may by (auto simp: join_refusal_def Let_def st_def nick_def split: if_splits sum.splits)
  obtain route addr where route: "room_route_of (hash_of st (room_binding_key room)) = Inr route"
    "is_local_target (config c) route" "room_state route = ''active''" "sfu_grpc_addr route = Some addr"
    using may by (auto simp: join_refusal_def Let_def st_def split: if_splits sum.splits)
  have addr: "hash_of st (room_binding_key room) ''sfu_grpc_addr'' = Some addr"
    using route(1,4) by (auto simp: room_route_of_def nonempty_Some split: option.splits)
  obtain w where w: "view w = st" "check_session E sid c = (Inr ?session, c\<lparr>world := w,
      ctx_session_id := Some sid, cached_session := Some ?session, sessions := upsert sid ?session (sessions c)\<rparr>)"
    using guards by (auto simp: st_def intro: check_passed [OF typed(1) _ _ refl])
  define c1 where "c1 = snd (check_session E sid c)"
  have c1: "check_session E sid c = (Inr ?session, c1)" "world c1 = w" "config c1 = config c" "peers c1 = peers c"
    "session_lookup (sessions c1) sid \<noteq> None" "allowed_intent c1 = Some ''join''" "allowed_room_id c1 = Some room"
    "sessions c1 = sessions (checked st c sid)" "ctx_session_id c1 = Some sid"
    using guards by (auto simp: c1_def w(2) upsert_lookup checked_def session_refused_def Let_def)
  define w2 where "w2 = snd (get_room_route E room w)"
  have b: "is_hash (view w) (room_binding_key room)" using typed(2) by (simp add: w(1) st_def)
  have g: "fst (get_room_route E room w) = Inr route" "view w2 = st"
    using get_room_route_eval [OF b] guards(7) route(1) by (simp_all add: w2_def w(1))
  define w3 where "w3 = snd (join_room E room nick w2)"
  have m: "is_set (view w2) (room_members_key room)" using typed(3) by (simp add: g(2) st_def)
  obtain ps where ps: "fst (join_room E room nick w2) = Inr ps"
    "view w3 = put_set (room_members_key room) (insert nick (set_of st (room_members_key room))) st"
    by (rule join_room_eval [OF m, of nick]) (use guards g(2) in \<open>auto simp: w3_def\<close>)
  define e where "e = ensure_peer E addr room nick (c1\<lparr>world := w3\<rparr>)"
  have e: "view (world (snd e)) = view w3" "peers (snd e) = peers c" "sessions (snd e) = sessions c1"
    by (simp_all add: e_def c1)
  have bound: "ctx_session_id (snd e) = Some sid"
    using keepsD [OF keeps_session_detach(2) refl, of E addr room nick "c1\<lparr>world := w3\<rparr>"] by (simp add: e_def c1(9))
  note steps = handle_join_locked_def prog_simps c1(1-3,6,7) redisM_eval w2_def [symmetric] g(1) route(2-4)
    nick_def [symmetric, folded st_def] ps(1) w3_def [symmetric] e_def [symmetric] on_world_def guards(4)
  have fin: "finite (set_of st (room_members_key room))" using typed(3) is_set_finite by (simp add: st_def)
  show ?thesis
  proof (cases "fst e")
    case (Inl err)
    have s3: "is_set (view (world (snd e))) (room_members_key room)" using fin by (simp add: e ps)
    have run: "run = (Inl (map_sfu_error err), (snd e)\<lparr>world := snd (srem_member E room nick (world (snd e)))\<rparr>)"
      using Inl by (simp add: run_def steps)
    have st': "st' = put_set (room_members_key room) (set_of st (room_members_key room)) (view w3)"
      using srem_member_eval(2) [OF s3, of nick] guards(8) by (simp add: st'_def run_def [symmetric] run e(1) ps(2))
    have again: "st' = put_set (room_members_key room) (set_of st (room_members_key room)) st"
      by (auto simp: st' ps(2) put_set_def ttl_of_def)
    have "st' = st" unfolding again by (rule put_set_same) (use typed(3) in \<open>simp add: st_def\<close>)
    then show ?thesis
      by (intro undone) (use map_sfu_error_cases [of err] in \<open>auto simp: run e c1(8) bound\<close>)
  next
    case (Inr u)
    have h: "is_hash (view (world (snd e))) (session_key sid)"
      "hash_of (view (world (snd e))) (session_key sid) = hash_of st (session_key sid)"
      using typed(1) by (simp_all add: e ps st_def)
    define w6 where "w6 = snd (session_set_room E sid (Some room) (world (snd e)))"
    have v6: "view w6 = put_hash (session_key sid) ((hash_of st (session_key sid))(''room_id'' \<mapsto> room)) (view w3)"
      using session_set_room_eval(2) [OF h(1)] h(2) by (simp add: w6_def e)
    define s6 where "s6 = snd (enter_room sid room ((snd e)\<lparr>world := w6\<rparr>))"
    define sent where "sent = fst (reply_with E (Joined room nick ps) s6)"
    define c7 where "c7 = snd (reply_with E (Joined room nick ps) s6)"
    have c7: "view (world c7) = view w6" "peers c7 = peers c"
      "sessions c7 = set_room sid (Some room) (sessions (checked st c sid))" "ctx_session_id c7 = Some sid"
      by (simp_all add: c7_def reply_eval ws_send_view s6_def enter_room_def on_sessions_def prog_simps e c1(8) bound)
    let ?reg = "register room nick tx (Some addr) (peers c)"
    define b where "b = broadcast E room (Some nick) (ParticipantJoined nick) (c7\<lparr>peers := ?reg\<rparr>)"
    have b: "view (world (snd b)) = view w6" "peers (snd b) = ?reg"
      "sessions (snd b) = set_room sid (Some room) (sessions (checked st c sid))" "ctx_session_id (snd b) = Some sid"
      using keepsD [OF keeps_session_detach(3) refl, of E room "Some nick" "ParticipantJoined nick" "c7\<lparr>peers := ?reg\<rparr>"]
      by (simp_all add: b_def c7)
    have stale: "\<forall>other \<in> set (fst b). refuses E ?reg room other"
      using broadcast_refused [of _ E room "Some nick" "ParticipantJoined nick" "c7\<lparr>peers := ?reg\<rparr>"] by (simp add: b_def)
    define c8 where "c8 = snd (detach_stale_peers E room (fst b) ''stale_sender'' (snd b))"
    have run: "run = (sent, if sent = Inr () then c8 else c7)"
      using Inr session_set_room_eval(1) [OF h(1)]
      by (simp add: run_def steps w6_def [symmetric] s6_def [symmetric] sent_def [symmetric] c7_def [symmetric]
          on_peers_def c7(2) b_def [symmetric] c8_def [symmetric] prod_eq_iff split: sum.split)
    have st6: "view w6 = joined_store st room sid nick" by (simp add: v6 ps(2) joined_store_def)
    show ?thesis
    proof (cases "sent = Inr ()")
      case False
      then have "fst run = Inl WriteFailed" "snd run = c7" by (simp_all add: run sent_def reply_eval split: if_splits)
      then show ?thesis by (intro unsent) (simp_all add: st'_def run_def [symmetric] c7 st6)
    next
      case True
      have t: "sfu_ok (json E) (view w6)" "is_hash (view w6) (room_binding_key room)" "is_set (view w6) (room_members_key room)"
        using typed fin by (simp_all add: v6 ps(2) st_def sfu_ok_frame)
      obtain ds where "departures (json E) room ds (view w6) (view (world c8))" "peers c8 = fold (unregister room) ds ?reg"
        "sessions c8 = sessions (snd b)" "ctx_session_id c8 = ctx_session_id (snd b)" "\<forall>other \<in> set ds. refuses E ?reg room other"
        using stale_departures [OF sig_world_axioms, of "snd b" room "fst b" ?reg "''stale_sender''"] t stale
        unfolding c8_def b(1,2) by blast
      then show ?thesis using True addr
        by (intro joined) (simp_all add: run st'_def run_def [symmetric] b st6)
    qed
  qed
qed

end

section \<open>Properties\<close>

text \<open>
  C3. Who is bound to a session. While Redis answers, an attach binds the connection exactly when the connection is not bound yet, the token decodes, was
  issued for this node, was not used before, and names an existing session with its nickname. Then the connection has the
  session, the intent and the room of the token and a lease renewer; the token's identifier is used up, the node is recorded as the
  session's owner and its load grew by one, and nothing else changed; the attach succeeds if the answer could be
  written. Otherwise it is refused, and the connection and the node are as before; so is the store, but that the identifier of a
  token for this node is used up even if its session is not there.
\<close>

theorem attach_authorizes:
  assumes "sig_world E view" "is_zset (view (world c)) SIGNALING_INSTANCE_LOAD_KEY"
    and "tok = fst (jwt_decode E token (connector_token_secret (config c)) (probed E (world c)))"
    and "\<forall>claims. tok = Some claims \<longrightarrow> is_hash (view (world c)) (session_key (session_id claims))"
    and "run = handle_attach E token c" "c' = snd run" "node = public_node_id (config c)" "st = view (world c)" "st' = view (world c')"
  shows "if ctx_session_id c \<noteq> None then run = (Inl AlreadyAuthorized, c)
    else (case tok of
        None \<Rightarrow> fst run = Inl Unauthorized \<and> c' = c\<lparr>world := world c'\<rparr> \<and> st' = st
      | Some claims \<Rightarrow>
          if \<not> attach_ok st node claims
          then fst run = Inl Unauthorized \<and> c' = c\<lparr>world := world c'\<rparr> \<and> st' = token_spent st node claims
          else st' = attached_store st node claims
            \<and> c' = (attached_conn c claims (session_state_of (hash_of st (session_key (session_id claims)))))\<lparr>world := world c'\<rparr>
            \<and> (\<exists>w. view w = st' \<and> world c' = snd (ws_send E (Attached (claim_nickname claims) (session_id claims)) w) \<and> fst run =
                 (if fst (ws_send E (Attached (claim_nickname claims) (session_id claims)) w) then Inr () else Inl WriteFailed)))"
proof (cases "ctx_session_id c")
  case (Some s)
  then show ?thesis using sig_world.attach_twice [OF assms(1)] by (simp add: assms(5))
next
  case None
  note tok = assms(3) [symmetric]
  show ?thesis
  proof (cases tok)
    case None': None
    then show ?thesis
      using sig_world.attach_refused(1) [OF assms(1) None tok [THEN trans]] None by (auto simp: assms(5,6,8,9))
  next
    case (Some claims)
    note tok' = trans [OF tok Some]
    have h: "is_hash (view (world c)) (session_key (session_id claims))" using assms(4) Some by blast
    show ?thesis
    proof (cases "attach_ok st node claims")
      case False
      then show ?thesis
        using sig_world.attach_refused(3) [OF assms(1) None tok' _ h] None Some by (auto simp: assms(5-9))
    next
      case True
      obtain w where w: "view w = attached_store st node claims"
        "handle_attach E token c = reply_with E (Attached (claim_nickname claims) (session_id claims))
           ((attached_conn c claims (session_state_of (hash_of st (session_key (session_id claims)))))\<lparr>world := w\<rparr>)"
        by (rule sig_world.attach_runs [OF assms(1) None h assms(2) tok' True [unfolded assms(7,8)], folded assms(7,8)])
      have c': "c' = (attached_conn c claims (session_state_of (hash_of st (session_key (session_id claims)))))\<lparr>world := world c'\<rparr>"
        "st' = attached_store st node claims"
        using w(1) by (simp_all add: assms(5,6,9) w(2) sig_world.reply_eval [OF assms(1)] sig_world.ws_send_view [OF assms(1)])
      moreover have "world c' = snd (ws_send E (Attached (claim_nickname claims) (session_id claims)) w)" "fst run =
          (if fst (ws_send E (Attached (claim_nickname claims) (session_id claims)) w) then Inr () else Inl WriteFailed)"
        by (simp_all add: assms(5,6) w(2) sig_world.reply_eval [OF assms(1)])
      ultimately show ?thesis using True None Some w(1) by (intro if_not_P [THEN iffD2]) auto
    qed
  qed
qed

text \<open>
  C24. A token attaches once. Once a token that carries an identifier has bound a connection, its marker is in the store, and no
  message handled for any connection, and no end of a connection, takes it away: it stays until it expires. While it is there, no
  connection of any node is bound with a token of that identifier, whatever else that token says: the attach is refused, the
  connection and its node are as before, and so is the store.
\<close>

theorem attach_replay_refused:
  fixes c :: "'w conn"
  assumes "sig_world E view" "ctx_session_id c = None" "is_hash (view (world c)) (session_key (session_id claims))"
    and "is_zset (view (world c)) SIGNALING_INSTANCE_LOAD_KEY"
    and "fst (jwt_decode E token (connector_token_secret (config c)) (probed E (world c))) = Some claims"
    and "attach_ok (view (world c)) (public_node_id (config c)) claims" "jti claims \<noteq> []"
    and "w = world (snd (handle_attach E token c))"
  shows "view w (jti_key (jti claims)) \<noteq> None
    \<and> (\<forall>steps v. view v (jti_key (jti claims)) \<noteq> None \<longrightarrow> view (later E steps v) (jti_key (jti claims)) \<noteq> None)
    \<and> (\<forall>(d :: 'w conn) token' again. view (world d) (jti_key (jti claims)) \<noteq> None \<longrightarrow> jti again = jti claims \<longrightarrow>
        fst (jwt_decode E token' (connector_token_secret (config d)) (probed E (world d))) = Some again \<longrightarrow>
        fst (handle_attach E token' d) = (if ctx_session_id d = None then Inl Unauthorized else Inl AlreadyAuthorized)
        \<and> snd (handle_attach E token' d) = d\<lparr>world := world (snd (handle_attach E token' d))\<rparr>
        \<and> view (world (snd (handle_attach E token' d))) = view (world d))"
proof (intro conjI allI impI)
  show "view w (jti_key (jti claims)) \<noteq> None"
    by (rule sig_world.attach_bound [OF assms(1-6)]) (use assms(7) in \<open>simp add: assms(8)\<close>)
  show "view (later E steps v) (jti_key (jti claims)) \<noteq> None" if "view v (jti_key (jti claims)) \<noteq> None" for steps v
    using that by (rule sig_world.later_keeps [OF assms(1)])
next
  fix d :: "'w conn" and token' again
  assume kept: "view (world d) (jti_key (jti claims)) \<noteq> None" and same: "jti again = jti claims"
    and tok: "fst (jwt_decode E token' (connector_token_secret (config d)) (probed E (world d))) = Some again"
  have "(if ctx_session_id d = None then fst (handle_attach E token' d) = Inl Unauthorized
        else fst (handle_attach E token' d) = Inl AlreadyAuthorized)
      \<and> snd (handle_attach E token' d) = d\<lparr>world := world (snd (handle_attach E token' d))\<rparr>
      \<and> view (world (snd (handle_attach E token' d))) = view (world d)"
  proof (cases "ctx_session_id d = None")
    case True
    from sig_world.attach_refused(2) [OF assms(1) True tok] kept assms(7) same True show ?thesis by auto
  next
    case False
    then show ?thesis using sig_world.attach_twice [OF assms(1) False, of token'] by simp
  qed
  then show "fst (handle_attach E token' d) = (if ctx_session_id d = None then Inl Unauthorized else Inl AlreadyAuthorized)"
    "snd (handle_attach E token' d) = d\<lparr>world := world (snd (handle_attach E token' d))\<rparr>"
    "view (world (snd (handle_attach E token' d))) = view (world d)" by (auto split: if_splits)
qed

text \<open>
  C25. The lock around creating and joining. While the lock of a session is held, a create or join for it is refused as a
  conflict and changes neither the store nor the node. If the lock is free, it is free again
  afterwards, whatever became of the room.
\<close>

theorem session_lock_scoped:
  assumes "sig_world E view" "run \<in> {handle_create E tx sid c, handle_join E tx sid room c}"
  shows "if view (world c) (session_lock_key sid) \<noteq> None
    then fst run = Inl SessionConflict \<and> view (world (snd run)) = view (world c)
      \<and> (\<exists>w. snd run = c\<lparr>world := w\<rparr>)
    else view (world (snd run)) (session_lock_key sid) = None"
proof -
  obtain body where body: "body \<in> {handle_create_locked E tx sid, handle_join_locked E tx sid room}"
    "run = with_session_lock E sid body c"
    using assms(2) by (auto simp: handle_create_def handle_join_def)
  have "session_lock_key sid \<noteq> session_key sid" by (simp add: session_lock_key_def session_key_def)
  moreover have "session_lock_key sid \<notin> {SFU_INSTANCES_KEY, SFU_ROOM_LOAD_KEY}" by (simp add: key_defs)
  ultimately have X: "{SFU_INSTANCES_KEY, SFU_ROOM_LOAD_KEY, room_binding_key r, room_members_key r, session_key sid}
      \<subseteq> - {session_lock_key sid}" for r by auto
  have framed: "framed (node_view view) (- {session_lock_key sid}) body"
    using body(1) sig_world.framed_locked [OF assms(1) X] by auto
  show ?thesis
  proof (cases "view (world c) (session_lock_key sid) = None")
    case True
    show ?thesis
      by (rule sig_world.lock_taken [OF assms(1) True framed]) (use True in \<open>auto simp: body(2)\<close>)
  next
    case False
    then show ?thesis using sig_world.lock_held [OF assms(1) False, of body] by (auto simp: body(2))
  qed
qed

text \<open>
  The replay guard covers the token. The marker of a used identifier is kept at least 30 seconds longer than the
  token lives from its issue to its expiry, and at least 90 seconds; with both times in range nothing wraps around.
\<close>

theorem jti_marker_outlives:
  assumes "unat (iat claims) \<le> unat (exp_at claims)" "unat (exp_at claims) < 2 ^ 63"
  shows "1000 * (unat (exp_at claims) - unat (iat claims) + 30) \<le> jti_ttl claims \<and> 90000 \<le> jti_ttl claims
    \<and> jti_ttl claims = 1000 * (max (unat (exp_at claims) - unat (iat claims)) 60 + 30)"
proof -
  have "max (unat (exp_at claims) - unat (iat claims)) 60 + 30 < (2 :: nat) ^ 64" using assms(2) by simp
  then have "jti_ttl claims = 1000 * (max (unat (exp_at claims) - unat (iat claims)) 60 + 30)"
    unfolding jti_ttl_def by (metis mod_less)
  then show ?thesis by simp
qed


text \<open>
  C1. Joining a room, while Redis answers. The handler refuses a join for exactly the reasons of the specification \<open>join_refusal\<close>, the first that
  applies, with the store and the node as before, but that a connection whose session passed the check is now bound to that
  session, which the node then knows (\<open>checked\<close>). If there is no reason, then either the SFU does not take the peer, and the
  store and the peers are as before; or exactly this nickname is added to the members and the session names
  the room, in the store and in the node. If the answer could not be written, that is all. Otherwise the peer is registered
  with the SFU of the room, and the peers whose channel refuses a message are removed, each as by its departure:
  none, if every channel takes its messages.
\<close>

theorem join_refines_spec:
  assumes "sig_world E view" "is_hash (view (world c)) (session_key sid)" "is_hash (view (world c)) (room_binding_key room)"
    and "is_set (view (world c)) (room_members_key room)" "sfu_ok (json E) (view (world c))"
    and "run = handle_join_locked E tx sid room c" "c' = snd run" "st = view (world c)" "st' = view (world c')"
    and "nick = nickname (session_state_of (hash_of (view (world c)) (session_key sid)))"
  shows "case join_refusal st c sid room of
      Some e \<Rightarrow> fst run = Inl e \<and> st' = st \<and> c' = (checked st c sid)\<lparr>world := world c'\<rparr>
    | None \<Rightarrow> ctx_session_id c' = Some sid \<and>
       (fst run \<in> {Inl SfuUnavailable, Inl SfuRejected} \<and> st' = st \<and> peers c' = peers c \<and> sessions c' = sessions (checked st c sid)
        \<or> fst run \<in> {Inr (), Inl WriteFailed} \<and> nick \<notin> set_of st (room_members_key room)
          \<and> sessions c' = set_room sid (Some room) (sessions (checked st c sid)) \<and> session_room (sessions c') sid = Some room
          \<and> (\<exists>addr. hash_of st (room_binding_key room) ''sfu_grpc_addr'' = Some addr
            \<and> (let reg = register room nick tx (Some addr) (peers c) in
               if fst run = Inl WriteFailed then st' = joined_store st room sid nick \<and> peers c' = peers c
               else \<exists>ds. departures (json E) room ds (joined_store st room sid nick) st'
                 \<and> peers c' = fold (unregister room) ds reg \<and> (\<forall>other \<in> set ds. refuses E reg room other))))"
proof (cases "join_refusal st c sid room")
  case (Some e)
  then show ?thesis using sig_world.join_refused [OF assms(1-4), of e tx] by (simp add: assms(6-9))
next
  case None
  then have fresh: "nick \<notin> set_of st (room_members_key room)" "\<not> session_refused st c sid"
    by (auto simp: join_refusal_def session_refused_def Let_def assms(8,10) split: if_splits sum.splits)
  obtain addr where addr: "hash_of st (room_binding_key room) ''sfu_grpc_addr'' = Some addr"
    using None by (auto simp: join_refusal_def Let_def room_route_of_def nonempty_Some split: if_splits sum.splits option.splits)
  have named: "session_room (set_room sid (Some room) (sessions (checked st c sid))) sid = Some room"
    using fresh(2) by (simp add: checked_def Let_def session_room_def set_room_lookup upsert_lookup)
  show ?thesis
    by (rule sig_world.join_all_cases [OF assms(1-5) None [unfolded assms(8)], of tx,
          folded assms(6), folded assms(7), folded assms(8,9,10)])
      (use None fresh addr named in \<open>auto simp: Let_def\<close>)
qed

text \<open>
  C26. Leaving a room. The removal of a peer changes nothing for one who is not a member; it takes a member out of the
  room; and when that was the last one, it removes the binding and gives one place back on the SFU of the room, never
  below zero. Of the inventory of SFUs only the idle time of that one may change, and only if it carries no room any
  more; every other record, load and key is as it was. The nickname is no longer registered in the node in any case, and the other
  rooms of the node are untouched.
\<close>

theorem detach_gives_back:
  assumes "sig_world E view" "sfu_ok (json E) (view (world s))" "is_hash (view (world s)) (room_binding_key room)"
    and "is_set (view (world s)) (room_members_key room)" "s' = snd (detach_peer E room nick reason s)"
  shows "departed (json E) (view (world s)) room nick (view (world s')) \<and> nick \<notin> registered (peers s') room
    \<and> (\<forall>other. other = room \<or> registered (peers s') other = registered (peers s) other)"
  using sig_world.detach_departed [OF assms(1-4)] by (auto simp: assms(5))

section \<open>Witnesses\<close>

lemma sig_demo_view:
  "mem_view sig_demo_world (session_key s) = (if s = ''s1'' then Some (HashVal [''nickname'' \<mapsto> ''ann'', ''room_id'' \<mapsto> []], Some 600000) else None)"
  "mem_view sig_demo_world (jti_key j) = None"
  "mem_view sig_demo_world (session_lock_key s) = None"
  "mem_view sig_demo_world (room_members_key r) = None"
  "mem_view sig_demo_world (room_binding_key r) = (if r = ''r1'' then Some (HashVal (map_of demo_room), None) else None)"
  "zset_of (mem_view sig_demo_world) SIGNALING_INSTANCE_LOAD_KEY = [''n0'' \<mapsto> 0, ''n1'' \<mapsto> 1]"
  "is_zset (mem_view sig_demo_world) SIGNALING_INSTANCE_LOAD_KEY"
  "zset_of (mem_view sig_demo_world) SFU_ROOM_LOAD_KEY = [''a'' \<mapsto> 1, ''b'' \<mapsto> 0]"
  by (auto simp: mem_view_def kview_def sig_demo_world_def sig_keys_def demo_keys_def hash_of_def zset_of_def is_zset_def key_defs fun_eq_iff)

lemma sig_demo_sfu [simp]: "sfu_ok mem_json (mem_view sig_demo_world)"
  unfolding mem_view_def
  by (rule sfu_ok_mem) (simp_all add: sig_demo_world_def sig_keys_def demo_keys_def m_hash_def m_zset_def mem_from_to_json key_defs,
      simp_all add: sfu_a_def sfu_b_def mem_from_to_json)

lemma demo_node_id: "public_node_id demo_config = ''h1:81''"
  by (simp add: public_node_id_def demo_config_def show_nat.simps digit_char_def char_of_eq_iff take_bit_eq_mod)

definition demo_conn :: "sig_mem conn" where
  "demo_conn = fresh_context demo_node"

lemma demo_conn_sel [simp]:
  "world demo_conn = sig_demo_world" "config demo_conn = demo_config" "ctx_session_id demo_conn = None"
  "peers demo_conn = []" "sessions demo_conn = empty_store" "spawned demo_conn = []"
  by (simp_all add: demo_conn_def fresh_context_def demo_node_def state_new_def node.defs)

lemma demo_attach_ok: "attach_ok (mem_view sig_demo_world) (public_node_id demo_config) demo_claims"
  by (simp add: attach_ok_def demo_node_id demo_claims_def sig_demo_view session_state_of_def hash_of_def get_or_def)

lemma mem_now_probed: "m_now (probed mem_sig_env w) = m_now w"
proof -
  have "keeps (\<lambda>w. m_now w = t) (call mem_sig_env Ping as_string)" for t
    unfolding call_def by (rule keeps_intros | simp add: keeps_def mem_redis_def split: prod.split)+
  from keepsD [OF this refl, of w] show ?thesis by (simp add: probed_def)
qed

lemma demo_decodes:
  "m_now w = 100 \<Longrightarrow> fst (jwt_decode mem_sig_env (mem_token ''k'' demo_claims) (connector_token_secret demo_config) w) = Some demo_claims"
  by (simp add: mem_jwt_decode_def mem_claims_token demo_config_def) (simp add: demo_claims_def)

lemma demo_typed:
  "is_hash (mem_view sig_demo_world) (session_key s)" "is_set (mem_view sig_demo_world) (room_members_key r)"
  "is_hash (mem_view sig_demo_world) (room_binding_key r)"
  by (auto simp: is_hash_def is_set_def sig_demo_view fun_eq_iff demo_room_def)

lemma demo_token:
  "fst (jwt_decode mem_sig_env (mem_token ''k'' demo_claims) (connector_token_secret (config demo_conn))
      (probed mem_sig_env (world demo_conn))) = Some demo_claims"
  unfolding demo_conn_sel by (rule demo_decodes) (simp only: mem_now_probed, simp add: sig_demo_world_def)

theorem attach_authorizes_witness:
  "ctx_session_id (snd (handle_attach mem_sig_env (mem_token ''k'' demo_claims) demo_conn)) = Some ''s1''
   \<and> fst (handle_attach mem_sig_env (mem_token ''k'' demo_claims) demo_conn) = Inr ()"
proof -
  let ?run = "handle_attach mem_sig_env (mem_token ''k'' demo_claims) demo_conn"
  have h: "\<forall>claims. Some demo_claims = Some claims \<longrightarrow> is_hash (mem_view (world demo_conn)) (session_key (session_id claims))"
    by (simp add: demo_typed)
  have z: "is_zset (mem_view (world demo_conn)) SIGNALING_INSTANCE_LOAD_KEY" by (simp add: sig_demo_view)
  from attach_authorizes [OF mem_sig.sig_world_axioms z demo_token [symmetric] h refl refl refl refl refl] demo_attach_ok
  have bound: "fst ?run = Inr ()" "snd ?run = (attached_conn demo_conn demo_claims (session_state_of (hash_of (mem_view sig_demo_world)
      (session_key (session_id demo_claims)))))\<lparr>world := world (snd ?run)\<rparr>"
    by auto
  have "ctx_session_id (snd ?run) = Some (session_id demo_claims)" by (subst bound(2)) (simp add: attached_conn_def)
  then show ?thesis using bound(1) by (simp add: demo_claims_def)
qed

text \<open>A second connection that sees the store the first one left.\<close>

definition demo_second :: "sig_mem conn" where
  "demo_second = demo_conn\<lparr>world := sig_demo_world\<lparr>m_keys :=
     m_keys (world (snd (handle_attach mem_sig_env (mem_token ''k'' demo_claims) demo_conn)))\<rparr>\<rparr>"

theorem attach_replay_refused_witness:
  "fst (handle_attach mem_sig_env (mem_token ''k'' demo_claims) demo_second) = Inl Unauthorized
   \<and> mem_view (later mem_sig_env [(demo_second, 7, Some (Logout ''s1'' None))] (world demo_second)) (jti_key (jti demo_claims)) \<noteq> None"
proof -
  let ?first = "handle_attach mem_sig_env (mem_token ''k'' demo_claims) demo_conn"
  have v: "mem_view (world demo_second) = mem_view (world (snd ?first))" by (simp add: demo_second_def mem_view_def)
  have sel: "config demo_second = demo_config" "m_now (world demo_second) = 100" "ctx_session_id demo_second = None"
    by (simp_all add: demo_second_def sig_demo_world_def)
  have t: "fst (jwt_decode mem_sig_env (mem_token ''k'' demo_claims) (connector_token_secret (config demo_second))
      (probed mem_sig_env (world demo_second))) = Some demo_claims"
    unfolding sel(1) by (rule demo_decodes) (simp only: mem_now_probed sel(2))
  have "jti demo_claims \<noteq> []" by (simp add: demo_claims_def)
  note replay = attach_replay_refused [OF mem_sig.sig_world_axioms _ _ _ demo_token _ this refl]
  have kept: "mem_view (world demo_second) (jti_key (jti demo_claims)) \<noteq> None"
    using replay demo_attach_ok by (simp add: demo_typed sig_demo_view v)
  show ?thesis using replay demo_attach_ok t kept sel(3) by (auto simp: demo_typed sig_demo_view simp del: later.simps)
qed

theorem session_lock_scoped_witness:
  "mem_view (world (snd (handle_create mem_sig_env 7 ''s1'' demo_conn))) (session_lock_key ''s1'') = None"
  using session_lock_scoped [OF mem_sig.sig_world_axioms, where c = demo_conn and sid = "''s1''" and tx = 7
      and run = "handle_create mem_sig_env 7 ''s1'' demo_conn" and room = "''r1''"]
  by (simp add: sig_demo_view)

theorem jti_marker_outlives_witness: "jti_ttl demo_claims = 150000"
  using jti_marker_outlives [of demo_claims] by (simp add: demo_claims_def)

text \<open>A connection bound to the session, with the intent to create, and one to join the room of the small
  deployment.\<close>

definition demo_creator :: "sig_mem conn" where
  "demo_creator = demo_conn\<lparr>ctx_session_id := Some ''s1'', allowed_intent := Some ''create''\<rparr>"

definition demo_joiner :: "sig_mem conn" where
  "demo_joiner = demo_conn\<lparr>ctx_session_id := Some ''s1'', allowed_intent := Some ''join'', allowed_room_id := Some ''r1''\<rparr>"

lemma demo_idle: "session_idle (mem_view sig_demo_world) ''s1'' ''ann''"
  by (simp add: session_idle_def demo_typed sig_demo_view session_state_of_def hash_of_def get_or_def)

lemma sig_demo_table: "sfu_table mem_json (mem_view sig_demo_world) = [''a'' \<mapsto> sfu_a, ''b'' \<mapsto> sfu_b]"
proof -
  have "hash_of (mem_view sig_demo_world) SFU_INSTANCES_KEY = [''a'' \<mapsto> mem_to_json sfu_a, ''b'' \<mapsto> mem_to_json sfu_b]"
    by (auto simp: mem_view_def kview_def sig_demo_world_def sig_keys_def demo_keys_def hash_of_def key_defs)
  then show ?thesis by (auto simp: sfu_table_def mem_json_def mem_from_to_json)
qed


theorem join_refines_spec_witness:
  "join_refusal (mem_view (world demo_joiner)) demo_joiner ''s1'' ''r1'' = None
   \<and> fst (handle_join_locked mem_sig_env 7 ''s1'' ''r1'' demo_joiner) \<in> {Inl SfuUnavailable, Inl SfuRejected, Inr (), Inl WriteFailed}"
proof -
  have p: "parse_u16 ''81'' = Some 81"
    by (simp add: parse_u16_def parse_unsigned_def digits_value_def is_digit_def char_digit_def)
  have route: "room_route_of (map_of demo_room) = Inr \<lparr>owner_host = ''h1'', owner_port = 81, room_state = ''active'',
      sfu_grpc_addr = Some ''http://a''\<rparr>"
    by (simp add: room_route_of_def demo_room_def p get_or_def)
  have c: "join_refusal (mem_view (world demo_joiner)) demo_joiner ''s1'' ''r1'' = None"
    by (simp add: join_refusal_def demo_joiner_def sig_demo_view hash_of_def set_of_def session_state_of_def get_or_def
        route is_local_target_def demo_config_def Let_def)
  from join_refines_spec [OF mem_sig.sig_world_axioms _ _ _ _ refl refl refl refl refl,
      where c = demo_joiner and sid = "''s1''" and room = "''r1''" and tx = 7] c
  show ?thesis by (auto simp: demo_typed demo_joiner_def)
qed

theorem detach_gives_back_witness:
  "''bob'' \<notin> registered (peers (snd (detach_peer mem_sig_env ''r1'' ''bob'' ''left'' demo_node))) ''r1''"
  using detach_gives_back [OF mem_sig.sig_world_axioms _ _ _ refl, where s = demo_node and room = "''r1''"
      and nick = "''bob''" and reason = "''left''"]
  by (simp add: demo_node_def state_new_def demo_typed)

text \<open>A node whose only connection was attached: its renewer belongs to that connection.\<close>

definition demo_served :: "sig_mem system" where
  "demo_served = (let c = snd (handle_attach mem_sig_env (mem_token ''k'' demo_claims) demo_conn) in
     demo_system\<lparr>sys_node := node.truncate c, sys_conns := [7 \<mapsto> c], sys_cancelled := set (cancelled c)\<rparr>)"

lemma trim_nonempty: "\<not> is_whitespace c \<Longrightarrow> trim (c # s) \<noteq> []"
  by (auto simp: trim_def trim_start_def trim_end_def)

definition demo_attach_text :: string where
  "demo_attach_text = enc_strings [''attach'', mem_token ''k'' demo_claims]"

lemma demo_text: "mem_client_message demo_attach_text = Some (Attach (mem_token ''k'' demo_claims))"
  using dec_enc [of "[]" "''attach''" "[mem_token ''k'' demo_claims]"]
  by (simp add: mem_client_message_def demo_attach_text_def del: enc_strings.simps)

lemma demo_served_step: "sys_step mem_sig_env demo_system demo_served"
proof -
  let ?tok = "mem_token ''k'' demo_claims" and ?text = demo_attach_text
  have "trim ?tok \<noteq> []" unfolding mem_token_def by (simp add: trim_nonempty is_whitespace_def)
  moreover have "fst (handle_attach mem_sig_env ?tok demo_conn) = Inr ()"
    by (rule mem_sig.attach_bound [OF _ _ _ demo_token]) (use demo_attach_ok in \<open>simp_all add: demo_typed sig_demo_view\<close>)
  ultimately have "on_text mem_sig_env 7 ?text demo_conn = (Continue, snd (handle_attach mem_sig_env ?tok demo_conn))"
    by (simp add: on_text_def demo_text validate_token_def prog_simps)
  moreover have "load_conn (sys_node demo_system) demo_conn = demo_conn"
    by (simp add: demo_system_def sys_start_def load_conn_def demo_conn_def fresh_context_def demo_node_def node.defs)
  ultimately have run: "ws_step mem_sig_env 7 (TextFrame ?text) (load_conn (sys_node demo_system) demo_conn)
      = (Continue, snd (handle_attach mem_sig_env ?tok demo_conn))" by simp
  have open7: "sys_conns demo_system 7 = Some demo_conn" by (simp add: demo_system_def demo_conn_def)
  show ?thesis using sys_step.served [OF open7 run]
    by (simp add: demo_served_def Let_def demo_system_def sys_start_def)
qed

theorem no_renewer_leak_witness:
  "\<exists>c. sys_conns demo_served 7 = Some c \<and> spawned (sys_node demo_served) = [LeaseRenewer 0 ''s1'']
     \<and> lease_renewer c = Some 0 \<and> ctx_session_id c = Some ''s1''"
proof -
  have reach: "(sys_step mem_sig_env)\<^sup>*\<^sup>* (sys_start sig_demo_world demo_config) demo_served"
    using demo_system_step demo_served_step by (meson r_into_rtranclp rtranclp_trans)
  have sp: "spawned (sys_node demo_served) = [LeaseRenewer 0 ''s1''] \<and> sys_cancelled demo_served = {}"
    by (rule mem_sig.attach_bound [OF _ _ _ demo_token])
      (use demo_attach_ok in \<open>simp_all add: demo_typed sig_demo_view demo_served_def Let_def, simp add: demo_claims_def
        demo_conn_def fresh_context_def node.defs\<close>)
  from no_renewer_leak [OF reach, of 0 0 "''s1''"] sp obtain tx c where
    "sys_conns demo_served tx = Some c" "lease_renewer c = Some 0" "ctx_session_id c = Some ''s1''" by auto
  moreover from this(1) have "tx = 7" by (auto simp: demo_served_def Let_def split: if_splits)
  ultimately show ?thesis using sp by blast
qed

end
