(* ===== verification/Token_Handoff.thy ===== *)
theory Token_Handoff
  imports Connector_Operations Room_Entry
begin

text \<open>
  The hand-over from the connector to a signaling node: the token a create or join request is answered
  with binds a connection of the very node the answer names, for the session, the intent and the room
  of the request. The token library appears as one law, that the node decodes what the
  connector encoded under the same secret.
\<close>

section \<open>Issued tokens bind\<close>

text \<open>What the node may rely on when it is shown the text \<open>tok\<close>: it decodes to the claims it was made of, and
  its identifier was not used before.\<close>

definition presented :: "('w, 'z) conn_env_scheme \<Rightarrow> ('w, 'y) sig_env_scheme \<Rightarrow> string \<Rightarrow> store \<Rightarrow> string \<Rightarrow> 'w conn \<Rightarrow> bool" where
  "presented E S secret st tok c \<longleftrightarrow> (\<forall>claims. jwt_encode E claims secret = Some tok \<longrightarrow>
     fst (jwt_decode S tok (connector_token_secret (config c)) (probed S (world c))) = Some (read_claims claims)
     \<and> st (jti_key (i_jti claims)) = None)"

context sig_world
begin

lemma issued_binds:
  fixes c :: "'w conn"
  assumes "ctx_session_id c = None" "is_hash (view (world c)) (session_key (i_session_id claims))"
    and "is_zset (view (world c)) SIGNALING_INSTANCE_LOAD_KEY"
    and "fst (jwt_decode E tok (connector_token_secret (config c)) (probed E (world c))) = Some (read_claims claims)"
    and "view (world c) (jti_key (i_jti claims)) = None"
    and "session_nick (view (world c)) (i_session_id claims) = Some (i_nickname claims)"
    and "c' = snd (handle_attach E tok c)"
  shows "if i_signaling_instance_id claims = public_node_id (config c)
    then ctx_session_id c' = Some (i_session_id claims) \<and> allowed_intent c' = Some (i_intent claims)
      \<and> allowed_room_id c' = i_room_id claims
    else fst (handle_attach E tok c) = Inl Unauthorized \<and> ctx_session_id c' = None"
proof -
  have known: "view (world c) (session_key (i_session_id claims)) \<noteq> None"
    "nickname (session_state_of (hash_of (view (world c)) (session_key (i_session_id claims)))) = i_nickname claims"
    using assms(6) by (auto simp: session_nick_def nonempty_Some session_state_of_def hash_of_def get_or_def split: option.splits)
  have sel: "session_id (read_claims claims) = i_session_id claims" "intent (read_claims claims) = i_intent claims"
    "claim_room_id (read_claims claims) = i_room_id claims" "signaling_instance_id (read_claims claims) = i_signaling_instance_id claims"
    by (simp_all add: read_claims_def)
  have ok: "attach_ok (view (world c)) (public_node_id (config c)) (read_claims claims)
      \<longleftrightarrow> i_signaling_instance_id claims = public_node_id (config c)"
    using known assms(5) by (simp add: attach_ok_def read_claims_def)
  show ?thesis
  proof (cases "i_signaling_instance_id claims = public_node_id (config c)")
    case True
    have "attach_ok (view (world c)) (public_node_id (config c)) (read_claims claims)" using ok True by simp
    show ?thesis
      by (rule attach_bound [OF assms(1) assms(2) [folded sel(1)] assms(3,4) \<open>attach_ok _ _ _\<close>])
        (simp add: True sel assms(7))
  next
    case False
    with ok have "\<not> attach_ok (view (world c)) (public_node_id (config c)) (read_claims claims)" by simp
    from attach_rejected [OF assms(1) _ assms(4) this] assms(2) show ?thesis by (simp add: False sel assms(7))
  qed
qed

end

section \<open>Properties\<close>

text \<open>
  C5. From create to attach. When a create request was answered, the answer names a configured node and its
  token binds a connection of that node to the session, with the intent to create a room. Any other node
  refuses the same token.
\<close>

theorem create_handoff:
  fixes E :: "('w, 'z) conn_env_scheme" and S :: "('w, 'y) sig_env_scheme" and c :: "'w conn"
  assumes "conn_world E view" "sig_world S view" "fst (create E cfg sid w) = Inr ready"
    and "is_hash (view w) SUPERVISOR_HEARTBEAT_KEY" "is_hash (view w) (session_key sid)"
    and "is_zset (view w) SIGNALING_NODES_KEY" "is_zset (view w) SIGNALING_INSTANCE_LOAD_KEY"
    and "ctx_session_id c = None" "view (world c) = view w" "presented E S (token_secret cfg) (view w) (ready_token ready) c"
    and "run = handle_attach S (ready_token ready) c"
  shows "ready_session_id ready = sid \<and> (\<exists>inst \<in> set (signaling_instances cfg). signaling_url ready = ws_url inst
    \<and> (if sig_id inst = public_node_id (config c)
       then ctx_session_id (snd run) = Some sid \<and> allowed_intent (snd run) = Some ''create'' \<and> allowed_room_id (snd run) = None
       else fst run = Inl Unauthorized \<and> ctx_session_id (snd run) = None))"
proof -
  define t1 where "t1 = fst (unix_time E (snd (get_supervisor_status E w)))"
  define w1 where "w1 = snd (conn_session_get E sid (snd (check_supervisor_freshness E cfg w)))"
  define t2 where "t2 = fst (unix_time E (snd (load_signaling_loads E w1)))"
  define w2 where "w2 = snd (select_least_loaded_signaling E cfg w1)"
  note eval = conn_world.create_eval [OF assms(1,4-7) t1_def w1_def t2_def w2_def]
  from assms(3) eval(1) obtain nick inst where d: "create_decision (view w) cfg (conn_uuid_ok E sid) t1 t2 sid = Inr (nick, inst)"
    by (auto split: sum.splits)
  have m: "min_by (signaling_load (view w)) (live_signaling (view w) cfg t2) = Some inst" and n: "session_nick (view w) sid = Some nick"
    using d by (auto simp: create_decision_def split: if_splits option.splits)
  have i: "inst \<in> set (signaling_instances cfg)" using min_by_in [OF m] by (simp add: live_signaling_def)
  obtain claims where c: "i_session_id claims = sid" "i_nickname claims = nick" "i_signaling_instance_id claims = sig_id inst"
    "i_intent claims = ''create''" "i_room_id claims = None"
    "fst (issue_signaling_token E cfg sid nick (sig_id inst) ''create'' None w2) =
       (case jwt_encode E claims (token_secret cfg) of None \<Rightarrow> Inl Token | Some tok \<Rightarrow> Inr tok)"
    by (rule conn_world.issue_eval [OF assms(1)])
  then have r: "jwt_encode E claims (token_secret cfg) = Some (ready_token ready)" "signaling_url ready = ws_url inst"
    "ready_session_id ready = sid"
    using assms(3) eval(1) d by (auto split: option.splits)
  have p: "fst (jwt_decode S (ready_token ready) (connector_token_secret (config c)) (probed S (world c))) = Some (read_claims claims)"
    "view (world c) (jti_key (i_jti claims)) = None"
    using assms(10) r(1) by (auto simp: presented_def assms(9))
  from sig_world.issued_binds [OF assms(2,8) _ _ p _ refl] c n i r assms(5,7,9,11) show ?thesis by auto
qed

text \<open>
  C6. From join to the owner of the room. When a signaling node has bound a room and the connector answers a join
  request for it, the answer names exactly that node, as configured on the connector, and its token binds a
  connection of that node to the session, with the intent to join this very room.
\<close>

theorem join_reaches_owner:
  fixes E :: "('w, 'z) conn_env_scheme" and S :: "('w, 'y) sig_env_scheme" and c :: "'w conn"
  assumes "conn_world E view" "sig_world S view" "sfu_ok (json S) (view w0)" "view w0 (room_binding_key room) = None"
    and "\<forall>i inst. sfu_table (json S) (view w0) i = Some inst \<longrightarrow> i \<noteq> ''__ROOM_EXISTS__'' \<and> grpc_addr inst \<noteq> []"
    and "w = snd (assign_room_to_least_loaded_sfu S room oid (signaling_public_host (config c)) (signaling_public_port (config c)) w0)"
    and "signaling_public_host (config c) \<noteq> []" "is_hash (view w) (session_key sid)" "is_zset (view w) SIGNALING_INSTANCE_LOAD_KEY"
    and "fst (join E cfg sid room w) = Inr ready"
    and "ctx_session_id c = None" "view (world c) = view w" "presented E S (token_secret cfg) (view w) (ready_token ready) c"
    and "c' = snd (handle_attach S (ready_token ready) c)"
  shows "(\<exists>inst. signaling_by_id cfg (public_node_id (config c)) = Some inst \<and> signaling_url ready = ws_url inst)
    \<and> ready_session_id ready = sid
    \<and> ctx_session_id c' = Some sid \<and> allowed_intent c' = Some ''join'' \<and> allowed_room_id c' = Some room"
proof -
  let ?host = "signaling_public_host (config c)" and ?port = "signaling_public_port (config c)"
  have st: "store_world S view" using assms(2) by (rule sig_world.axioms)
  obtain i a where h: "is_hash (view w) (room_binding_key room)" "hash_of (view w) (room_binding_key room) = Map.empty
      \<or> hash_of (view w) (room_binding_key room) = [''owner_host'' \<mapsto> ?host, ''owner_port'' \<mapsto> show_nat (unat ?port),
          ''signaling_owner_id'' \<mapsto> oid, ''room_state'' \<mapsto> ''active'', ''sfu_instance_id'' \<mapsto> i, ''sfu_grpc_addr'' \<mapsto> a]"
    by (rule store_world.assign_outcome [OF st assms(3,5,4), of oid ?host ?port, folded assms(6)])
      (use assms(4) in \<open>auto simp: is_hash_def hash_of_def\<close>)
  define w1 where "w1 = snd (conn_get_room_route E room (snd (conn_session_get E sid w)))"
  note eval = conn_world.join_eval [OF assms(1,8) h(1) w1_def]
  from assms(10) eval(1) obtain nick inst where d: "join_decision (view w) cfg (conn_uuid_ok E sid \<and> conn_uuid_ok E room) sid room = Inr (nick, inst)"
    by (auto split: sum.splits)
  have "show_nat (unat ?port) \<noteq> []" using show_nat_digits by blast
  then have n: "session_nick (view w) sid = Some nick" and s: "signaling_by_id cfg (public_node_id (config c)) = Some inst"
    using d h(2) assms(7)
    by (auto simp: join_decision_def public_node_id_def nonempty_def Let_def split: if_splits option.splits)
  then have same: "sig_id inst = public_node_id (config c)" by (auto simp: signaling_by_id_def find_Some_iff)
  obtain claims where c: "i_session_id claims = sid" "i_nickname claims = nick" "i_signaling_instance_id claims = sig_id inst"
    "i_intent claims = ''join''" "i_room_id claims = Some room"
    "fst (issue_signaling_token E cfg sid nick (sig_id inst) ''join'' (Some room) w1) =
       (case jwt_encode E claims (token_secret cfg) of None \<Rightarrow> Inl Token | Some tok \<Rightarrow> Inr tok)"
    by (rule conn_world.issue_eval [OF assms(1)])
  then have r: "jwt_encode E claims (token_secret cfg) = Some (ready_token ready)" "signaling_url ready = ws_url inst"
    "ready_session_id ready = sid"
    using assms(10) eval(1) d by (auto split: option.splits)
  have p: "fst (jwt_decode S (ready_token ready) (connector_token_secret (config c)) (probed S (world c))) = Some (read_claims claims)"
    "view (world c) (jti_key (i_jti claims)) = None"
    using assms(13) r(1) by (auto simp: presented_def assms(12))
  from sig_world.issued_binds [OF assms(2,11) _ _ p _ refl] c n r s same assms(8,9,12,14) show ?thesis by auto
qed

section \<open>Witnesses\<close>

lemma mem_presented:
  assumes "int (unat (i_exp claims)) + 60 \<ge> m_now (world c)" "connector_token_secret (config c) = secret"
    and "\<forall>j. st (jti_key j) = None"
  shows "presented mem_conn_env mem_sig_env secret st (mem_token secret (read_claims claims)) c"
  unfolding presented_def
proof (intro allI impI conjI)
  fix claims'
  let ?tok = "mem_token secret (read_claims claims)"
  assume "jwt_encode mem_conn_env claims' secret = Some ?tok"
  then have "mem_token secret (read_claims claims') = ?tok" by (simp only: mem_conn_sel option.inject)
  then have same: "read_claims claims' = read_claims claims" by (metis mem_claims_token option.inject)
  have d: "mem_claims ?tok secret = Some (read_claims claims)" using mem_claims_token [of secret "read_claims claims" secret] by simp
  have "exp_at (read_claims claims) = i_exp claims" by (simp add: read_claims_def)
  then show "fst (jwt_decode mem_sig_env ?tok (connector_token_secret (config c)) (probed mem_sig_env (world c))) = Some (read_claims claims')"
    using assms(1) unfolding same assms(2) by (simp only: mem_sig_sel mem_jwt_decode_def d mem_now_probed option.case fst_conv, simp)
qed (use assms(3) in blast)

definition demo_visitor :: "sig_mem \<Rightarrow> sig_mem conn" where
  "demo_visitor w = fresh_context (state_new w demo_config)"

lemma demo_visitor_sel [simp]:
  "world (demo_visitor w) = w" "config (demo_visitor w) = demo_config" "ctx_session_id (demo_visitor w) = None"
  by (simp_all add: demo_visitor_def fresh_context_def state_new_def node.defs)

lemma conn_demo_jti: "\<forall>j. mem_view conn_demo_world (jti_key j) = None"
  by (simp add: mem_view_def kview_def conn_demo_world_def sig_demo_world_def sig_keys_def demo_keys_def key_defs)

theorem create_handoff_witness:
  "\<exists>tok. allowed_intent (snd (handle_attach mem_sig_env tok (demo_visitor conn_demo_world))) = Some ''create''
     \<and> ctx_session_id (snd (handle_attach mem_sig_env tok (demo_visitor conn_demo_world))) = Some ''s1''"
proof -
  obtain claims where c: "i_exp claims = 220"
    "fst (create mem_conn_env demo_conn_config ''s1'' conn_demo_world) = Inr \<lparr>signaling_url = ''ws://h1'',
       ready_session_id = ''s1'', ready_token = mem_token ''k'' (read_claims claims)\<rparr>"
    by (rule demo_created)
  have p: "presented mem_conn_env mem_sig_env (token_secret demo_conn_config) (mem_view conn_demo_world)
      (ready_token \<lparr>signaling_url = ''ws://h1'', ready_session_id = ''s1'', ready_token = mem_token ''k'' (read_claims claims)\<rparr>)
      (demo_visitor conn_demo_world)"
    using mem_presented [of "demo_visitor conn_demo_world" claims "''k''"] conn_demo_jti c(1)
    by (simp add: demo_conn_config_def demo_config_def)
  from create_handoff [OF mem_conn.conn_world_axioms mem_sig.sig_world_axioms c(2) conn_demo_view(4) conn_demo_typed(1)
      conn_demo_view(6,7) _ _ p refl] show ?thesis
    by (auto simp: demo_node_id demo_conn_config_def)
qed

lemma conn_demo_sfu:
  "sfu_ok mem_json (mem_view conn_demo_world)"
  "sfu_table mem_json (mem_view conn_demo_world) = [''a'' \<mapsto> sfu_a, ''b'' \<mapsto> sfu_b]"
  "room_load (mem_view conn_demo_world) ''b'' = 0"
proof -
  have same: "mem_view conn_demo_world k = mem_view sig_demo_world k" if "k \<in> {SFU_INSTANCES_KEY, SFU_ROOM_LOAD_KEY}" for k
    using that by (auto simp: mem_view_def kview_def conn_demo_world_def sig_demo_world_def key_defs)
  show "sfu_ok mem_json (mem_view conn_demo_world)"
    using sig_demo_sfu by (simp add: sfu_ok_def is_hash_def is_zset_def hash_of_def same)
  show "sfu_table mem_json (mem_view conn_demo_world) = [''a'' \<mapsto> sfu_a, ''b'' \<mapsto> sfu_b]"
    using sig_demo_table by (simp add: sfu_table_def hash_of_def same)
  show "room_load (mem_view conn_demo_world) ''b'' = 0"
    by (simp add: room_load_def zset_of_def same) (simp add: sig_demo_view(8) [unfolded zset_of_def] get_or_def)
qed

lemma mem_assign_time: "keeps (\<lambda>w. m_now w = t) (assign_room_to_least_loaded_sfu mem_sig_env r oid host port)"
proof -
  have "keeps (\<lambda>w. m_now w = t) (redis mem_sig_env c)" "keeps (\<lambda>w. m_now w = t) (unix_time mem_sig_env)" for c
    by (rule keepsI, simp add: mem_redis_def mem_time_def split: prod.split)+
  then show ?thesis
    unfolding assign_room_to_least_loaded_sfu_def with_op_timeout_def scall_def room_fail_def store_ops sig_unix_now_def Let_def
    by (intro keeps_intros | assumption)+
qed

text \<open>A room the node binds, seen by the connector.\<close>

definition demo_room_id :: string where
  "demo_room_id = mem_uuid 5"

definition demo_bound_world :: sig_mem where
  "demo_bound_world = snd (assign_room_to_least_loaded_sfu mem_sig_env demo_room_id ''h1:81'' ''h1'' 81 conn_demo_world)"

lemma demo_room_free: "mem_view conn_demo_world (room_binding_key demo_room_id) = None"
  by (simp add: mem_view_def kview_def conn_demo_world_def sig_demo_world_def sig_keys_def demo_keys_def key_defs
      demo_room_id_def mem_uuid_def)

lemma demo_named:
  "\<forall>i inst. sfu_table (json mem_sig_env) (mem_view conn_demo_world) i = Some inst \<longrightarrow> i \<noteq> ''__ROOM_EXISTS__'' \<and> grpc_addr inst \<noteq> []"
  by (auto simp: conn_demo_sfu(2) sfu_a_def sfu_b_def split: if_splits)

lemma demo_bound:
  obtains i a where "is_hash (mem_view demo_bound_world) (room_binding_key demo_room_id)"
    "hash_of (mem_view demo_bound_world) (room_binding_key demo_room_id) =
       [''owner_host'' \<mapsto> ''h1'', ''owner_port'' \<mapsto> show_nat (unat (81 :: 16 word)), ''signaling_owner_id'' \<mapsto> ''h1:81'',
        ''room_state'' \<mapsto> ''active'', ''sfu_instance_id'' \<mapsto> i, ''sfu_grpc_addr'' \<mapsto> a]"
    "\<And>k. k \<notin> {SFU_INSTANCES_KEY, SFU_ROOM_LOAD_KEY, room_binding_key demo_room_id}
       \<Longrightarrow> mem_view demo_bound_world k = mem_view conn_demo_world k"
proof -
  have can: "assignable mem_json (mem_view conn_demo_world) (fst (unix_time mem_sig_env conn_demo_world)) ''b'' sfu_b"
    by (simp add: assignable_def conn_demo_sfu lua_eligible_inst mem_time_def) (simp add: sfu_b_def)
  show ?thesis
  proof (rule store_world.assign_outcome [OF sig_world.axioms(1) [OF mem_sig.sig_world_axioms] _ demo_named demo_room_free, of "''h1:81''" "''h1''" 81, folded demo_bound_world_def])
    show "sfu_ok (json mem_sig_env) (mem_view conn_demo_world)" by (simp add: conn_demo_sfu)
  qed (use can that in auto)
qed

lemma demo_bound_now: "m_now demo_bound_world = 100"
  unfolding demo_bound_world_def by (rule keepsD [OF mem_assign_time]) simp

lemma demo_node_keys:
  assumes "k \<in> {session_key s, SIGNALING_INSTANCE_LOAD_KEY, jti_key j}"
  shows "mem_view demo_bound_world k = mem_view conn_demo_world k"
proof -
  have "k \<notin> {SFU_INSTANCES_KEY, SFU_ROOM_LOAD_KEY, room_binding_key demo_room_id}" using assms by (auto simp: key_defs)
  then show ?thesis using demo_bound by metis
qed

lemma mem_join_time:
  "keeps (\<lambda>w. m_now w = t) (conn_get_room_route mem_conn_env room)"
  unfolding conn_get_room_route_def conn_with_op_timeout_def ccall_def conn_fail_def store_ops Let_def
  by (intro keeps_intros mem_conn_clock)

lemma demo_bound_typed:
  "is_hash (mem_view demo_bound_world) (session_key s)" "is_zset (mem_view demo_bound_world) SIGNALING_INSTANCE_LOAD_KEY"
  "mem_view demo_bound_world (jti_key j) = None" "session_nick (mem_view demo_bound_world) ''s1'' = Some ''ann''"
proof -
  note same = demo_node_keys [of _ s j] demo_node_keys [of _ "''s1''" j]
  show "is_hash (mem_view demo_bound_world) (session_key s)" "is_zset (mem_view demo_bound_world) SIGNALING_INSTANCE_LOAD_KEY"
    "mem_view demo_bound_world (jti_key j) = None" "session_nick (mem_view demo_bound_world) ''s1'' = Some ''ann''"
    using conn_demo_typed(1) [of s] conn_demo_view(7) conn_demo_jti conn_demo_view(1)
    by (simp_all add: is_hash_def is_zset_def session_nick_def hash_of_def same)
qed

lemma demo_joined:
  obtains claims where "i_exp claims = 220"
    "fst (join mem_conn_env demo_conn_config ''s1'' demo_room_id demo_bound_world) = Inr \<lparr>signaling_url = ''ws://h1'',
       ready_session_id = ''s1'', ready_token = mem_token ''k'' (read_claims claims)\<rparr>"
proof -
  define w1 where "w1 = snd (conn_get_room_route mem_conn_env demo_room_id (snd (conn_session_get mem_conn_env ''s1'' demo_bound_world)))"
  have now: "fst (unix_time mem_conn_env w1) = 100"
    using keepsD [OF mem_join_time, OF keepsD [OF mem_conn_time(3), OF demo_bound_now]] by (simp add: w1_def mem_time_def)
  obtain i a where h: "is_hash (mem_view demo_bound_world) (room_binding_key demo_room_id)"
    "hash_of (mem_view demo_bound_world) (room_binding_key demo_room_id) =
       [''owner_host'' \<mapsto> ''h1'', ''owner_port'' \<mapsto> show_nat (unat (81 :: 16 word)), ''signaling_owner_id'' \<mapsto> ''h1:81'',
        ''room_state'' \<mapsto> ''active'', ''sfu_instance_id'' \<mapsto> i, ''sfu_grpc_addr'' \<mapsto> a]"
    by (rule demo_bound)
  have port: "show_nat (unat (81 :: 16 word)) = ''81''"
    by (simp add: show_nat.simps digit_char_def char_of_eq_iff take_bit_eq_mod)
  have ok: "conn_uuid_ok mem_conn_env ''s1'' \<and> conn_uuid_ok mem_conn_env demo_room_id"
    by (simp add: demo_room_id_def mem_uuid_def)
  have d: "join_decision (mem_view demo_bound_world) demo_conn_config (conn_uuid_ok mem_conn_env ''s1'' \<and> conn_uuid_ok mem_conn_env demo_room_id)
      ''s1'' demo_room_id = Inr (''ann'', \<lparr>sig_id = ''h1:81'', ws_url = ''ws://h1''\<rparr>)"
    unfolding join_decision_def h(2) demo_bound_typed(4) port
    using ok by (simp add: Let_def signaling_by_id_def) (simp add: demo_conn_config_def fun_eq_iff, blast?)
  note eval = mem_conn.join_eval(1) [OF demo_bound_typed(1) h(1) w1_def, of demo_conn_config, unfolded d]
  show ?thesis
    by (rule mem_conn.issue_eval [where w = w1 and cfg = demo_conn_config and sid = "''s1''" and nick = "''ann''"
          and inst_id = "''h1:81''" and intent_text = "''join''" and room = "Some demo_room_id"])
      (rule that, use eval now in \<open>simp_all add: demo_conn_config_def\<close>)
qed

theorem join_reaches_owner_witness:
  "\<exists>tok. allowed_intent (snd (handle_attach mem_sig_env tok (demo_visitor demo_bound_world))) = Some ''join''
     \<and> allowed_room_id (snd (handle_attach mem_sig_env tok (demo_visitor demo_bound_world))) = Some demo_room_id"
proof -
  obtain claims where c: "i_exp claims = 220"
    "fst (join mem_conn_env demo_conn_config ''s1'' demo_room_id demo_bound_world) = Inr \<lparr>signaling_url = ''ws://h1'',
       ready_session_id = ''s1'', ready_token = mem_token ''k'' (read_claims claims)\<rparr>"
    by (rule demo_joined)
  have p: "presented mem_conn_env mem_sig_env (token_secret demo_conn_config) (mem_view demo_bound_world)
      (ready_token \<lparr>signaling_url = ''ws://h1'', ready_session_id = ''s1'', ready_token = mem_token ''k'' (read_claims claims)\<rparr>)
      (demo_visitor demo_bound_world)"
    using mem_presented [of "demo_visitor demo_bound_world" claims "''k''"] demo_bound_typed(3) demo_bound_now c(1)
    by (simp add: demo_conn_config_def demo_config_def)
  have w: "demo_bound_world = snd (assign_room_to_least_loaded_sfu mem_sig_env demo_room_id ''h1:81''
      (signaling_public_host (config (demo_visitor demo_bound_world))) (signaling_public_port (config (demo_visitor demo_bound_world)))
      conn_demo_world)"
    unfolding demo_visitor_sel by (simp add: demo_config_def) (simp only: demo_bound_world_def)
  from join_reaches_owner [OF mem_conn.conn_world_axioms mem_sig.sig_world_axioms _ demo_room_free demo_named w _
      demo_bound_typed(1,2) c(2) _ _ p refl] conn_demo_sfu(1) show ?thesis
    by (auto simp: demo_config_def)
qed

end
