(* ===== verification/Supervisor.thy ===== *)
theory Supervisor
  imports Signaling_Messages
begin

text \<open>
  \<^verbatim>\<open>services/supervisor\<close>: the probes of signaling nodes and SFUs, the janitor that reclaims
  what dead nodes left behind, and the watch over Redis. The endless loops of the service are
  given by their bodies, one definition per turn. Parameters beside Redis: connecting a gRPC
  channel and the unary calls over it; a time-out around a call is a failure of the call.
\<close>

section \<open>Configuration\<close>

record SignalingAdminInstance =
  adm_node_id :: string
  adm_grpc_addr :: string

record SfuInventoryInstance =
  inv_instance_id :: string
  inv_grpc_addr :: string
  inv_max_rooms :: "32 word"

record SupervisorConfig =
  sup_redis_url :: string
  sup_redis_connect_timeout :: nat
  sup_redis_op_timeout :: nat
  sup_rpc_connect_timeout :: nat
  signaling_admin_instances :: "SignalingAdminInstance list"
  sfu_instances :: "SfuInventoryInstance list"
  probe_interval :: nat
  probe_timeout :: nat
  sup_signaling_stale_timeout :: nat
  janitor_interval :: nat
  sup_sfu_connect_timeout :: nat
  supervisor_instance_id :: string

definition parse_signaling_admin_instances :: "string \<Rightarrow> string + SignalingAdminInstance list" where
  "parse_signaling_admin_instances value =
     (if trim value = [] then Inr []
      else (case decode_all (\<lambda>entry. case split_once (CHR ''|'') entry of
                    None \<Rightarrow> None
                  | Some (n, g) \<Rightarrow> Some \<lparr>adm_node_id = trim n, adm_grpc_addr = trim g\<rparr>)
                (filter (\<lambda>e. trim e \<noteq> []) (split_on (CHR '','') value)) of
              None \<Rightarrow> Inl ''SIGNALING_ADMIN_INSTANCES must be node_id|grpc_addr pairs''
            | Some xs \<Rightarrow> Inr xs))"

definition part :: "nat \<Rightarrow> string list \<Rightarrow> string option" where
  "part n parts = (if n < length parts then Some (parts ! n) else None)"

definition parse_sfu_entry :: "string \<Rightarrow> string + SfuInventoryInstance" where
  "parse_sfu_entry entry =
     (let parts = split_on (CHR ''|'') entry in
      case nonempty (part 0 parts) of
        None \<Rightarrow> Inl ''SUPERVISOR_SFU_INSTANCES entry requires instance_id''
      | Some i \<Rightarrow>
          (case nonempty (part 1 parts) of
             None \<Rightarrow> Inl ''SUPERVISOR_SFU_INSTANCES entry requires grpc_addr''
           | Some g \<Rightarrow>
               (case part 2 parts of
                  None \<Rightarrow> Inl ''SUPERVISOR_SFU_INSTANCES entry requires max_rooms''
                | Some m \<Rightarrow>
                    (case parse_u32 m of
                       None \<Rightarrow> Inl ''SUPERVISOR_SFU_INSTANCES max_rooms must be integer''
                     | Some n \<Rightarrow> Inr \<lparr>inv_instance_id = trim i, inv_grpc_addr = trim g, inv_max_rooms = n\<rparr>))))"

fun collect_results :: "('a \<Rightarrow> 'e + 'b) \<Rightarrow> 'a list \<Rightarrow> 'e + 'b list" where
  "collect_results f [] = Inr []"
| "collect_results f (x # xs) =
     result_bind (f x) (\<lambda>y. result_bind (collect_results f xs) (\<lambda>ys. Inr (y # ys)))"

definition parse_sfu_instances :: "string \<Rightarrow> string + SfuInventoryInstance list" where
  "parse_sfu_instances value =
     (if trim value = [] then Inr []
      else collect_results parse_sfu_entry (filter (\<lambda>e. trim e \<noteq> []) (split_on (CHR '';'') value)))"

definition env_or :: "(string \<Rightarrow> string option) \<Rightarrow> string \<Rightarrow> string \<Rightarrow> string" where
  "env_or env_var key dflt = (case env_var key of None \<Rightarrow> dflt | Some v \<Rightarrow> v)"

definition u64_env_or :: "(string \<Rightarrow> string option) \<Rightarrow> string \<Rightarrow> 64 word \<Rightarrow> string + 64 word" where
  "u64_env_or env_var key dflt =
     (case env_var key of
        None \<Rightarrow> Inr dflt
      | Some v \<Rightarrow> (case parse_u64 v of None \<Rightarrow> Inl key | Some n \<Rightarrow> Inr n))"

definition ms_env_or :: "(string \<Rightarrow> string option) \<Rightarrow> string \<Rightarrow> 64 word \<Rightarrow> string + nat" where
  "ms_env_or env_var key default_ms = result_bind (u64_env_or env_var key default_ms) (\<lambda>ms. Inr (unat ms))"

definition secs_env_or :: "(string \<Rightarrow> string option) \<Rightarrow> string \<Rightarrow> 64 word \<Rightarrow> string + nat" where
  "secs_env_or env_var key default_secs = result_bind (u64_env_or env_var key default_secs) (\<lambda>s. Inr (1000 * unat s))"

definition supervisor_from_env :: "(string \<Rightarrow> string option) \<Rightarrow> string \<Rightarrow> string + SupervisorConfig" where
  "supervisor_from_env env_var fresh_uuid =
     result_bind (ms_env_or env_var ''REDIS_CONNECT_TIMEOUT_MS'' 2000) (\<lambda>rct.
     result_bind (ms_env_or env_var ''REDIS_OP_TIMEOUT_MS'' 800) (\<lambda>rot.
     result_bind (ms_env_or env_var ''RPC_CONNECT_TIMEOUT_MS'' 2000) (\<lambda>rpc.
     result_bind (parse_signaling_admin_instances (env_or env_var ''SIGNALING_ADMIN_INSTANCES'' [])) (\<lambda>adm.
     result_bind (parse_sfu_instances (env_or env_var ''SUPERVISOR_SFU_INSTANCES'' [])) (\<lambda>sfus.
     result_bind (ms_env_or env_var ''SUPERVISOR_PROBE_INTERVAL_MS'' 2000) (\<lambda>pi.
     result_bind (ms_env_or env_var ''SUPERVISOR_PROBE_TIMEOUT_MS'' 1000) (\<lambda>pt.
     result_bind (secs_env_or env_var ''SIGNALING_STALE_SEC'' 30) (\<lambda>stale.
     result_bind (secs_env_or env_var ''JANITOR_INTERVAL_SEC'' 5) (\<lambda>jan.
     result_bind (ms_env_or env_var ''SFU_CONNECT_TIMEOUT_MS'' 2000) (\<lambda>sct.
     Inr \<lparr>sup_redis_url = env_or env_var ''REDIS_URL'' ''redis://redis:6379/'',
          sup_redis_connect_timeout = rct, sup_redis_op_timeout = rot, sup_rpc_connect_timeout = rpc,
          signaling_admin_instances = adm, sfu_instances = sfus, probe_interval = pi, probe_timeout = pt,
          sup_signaling_stale_timeout = stale, janitor_interval = jan, sup_sfu_connect_timeout = sct,
          supervisor_instance_id = env_or env_var ''SUPERVISOR_INSTANCE_ID'' fresh_uuid\<rparr>))))))))))"

section \<open>Environment\<close>

datatype admin_request = AdminPing | AdminPurge string | AdminCloseRoomsBySfu string string

record 'w sup_env = "'w env" +
  grpc_connect :: "string \<Rightarrow> nat \<Rightarrow> ('w, string, nat) prog"
  admin_rpc :: "nat \<Rightarrow> admin_request \<Rightarrow> ('w, string, unit) prog"
  sfu_ping_rpc :: "nat \<Rightarrow> ('w, string, unit) prog"
  deadline_passed :: "('w, bool) act"

definition grpc_channel :: "('w, 'z) sup_env_scheme \<Rightarrow> string \<Rightarrow> nat \<Rightarrow> ('w, string, nat) prog" where
  "grpc_channel E addr connect_timeout = grpc_connect E addr connect_timeout"

definition ping_signaling_admin :: "('w, 'z) sup_env_scheme \<Rightarrow> string \<Rightarrow> nat \<Rightarrow> ('w, string, unit) prog" where
  "ping_signaling_admin E addr connect_timeout =
     tryM (grpc_channel E addr connect_timeout) (\<lambda>ch. admin_rpc E ch AdminPing)"

definition close_rooms_by_sfu_on_signaling ::
    "('w, 'z) sup_env_scheme \<Rightarrow> string \<Rightarrow> nat \<Rightarrow> string \<Rightarrow> string \<Rightarrow> ('w, string, unit) prog" where
  "close_rooms_by_sfu_on_signaling E addr connect_timeout sfu_addr reason =
     tryM (grpc_channel E addr connect_timeout) (\<lambda>ch. admin_rpc E ch (AdminCloseRoomsBySfu sfu_addr reason))"

definition purge_signaling :: "('w, 'z) sup_env_scheme \<Rightarrow> string \<Rightarrow> nat \<Rightarrow> string \<Rightarrow> ('w, string, unit) prog" where
  "purge_signaling E addr connect_timeout reason =
     tryM (grpc_channel E addr connect_timeout) (\<lambda>ch. admin_rpc E ch (AdminPurge reason))"

definition ping_sfu :: "('w, 'z) sup_env_scheme \<Rightarrow> string \<Rightarrow> nat \<Rightarrow> ('w, bool) act" where
  "ping_sfu E addr connect_timeout =
     bindM (tryM (grpc_connect E addr connect_timeout) (\<lambda>ch. sfu_ping_rpc E ch)) (\<lambda>r.
     retM (case r of Inr _ \<Rightarrow> True | Inl _ \<Rightarrow> False))"

section \<open>Probes\<close>

definition stale_secs :: "SupervisorConfig \<Rightarrow> 64 word" where
  "stale_secs cfg = of_nat (sup_signaling_stale_timeout cfg div 1000)"

definition heartbeat_tick :: "('w, 'z) sup_env_scheme \<Rightarrow> string \<Rightarrow> ('w, unit) act" where
  "heartbeat_tick E inst_id =
     bindM (unix_now E) (\<lambda>now. ignoreM (write_supervisor_heartbeat E (Some inst_id) now))"

definition check_and_purge_dead_signaling ::
    "('w, 'z) sup_env_scheme \<Rightarrow> SupervisorConfig \<Rightarrow> SignalingAdminInstance \<Rightarrow> ('w, unit) act" where
  "check_and_purge_dead_signaling E cfg inst =
     bindM (alive_signaling_nodes E (stale_secs cfg)) (\<lambda>r.
       case r of
         Inl _ \<Rightarrow> retM ()
       | Inr alive_nodes \<Rightarrow>
           if adm_node_id inst \<in> set alive_nodes then retM ()
           else ignoreM (remove_signaling_node E (adm_node_id inst)))"

definition probe_signaling_instance ::
    "('w, 'z) sup_env_scheme \<Rightarrow> SupervisorConfig \<Rightarrow> SignalingAdminInstance \<Rightarrow> ('w, unit) act" where
  "probe_signaling_instance E cfg inst =
     bindM (ping_signaling_admin E (adm_grpc_addr inst) (sup_rpc_connect_timeout cfg)) (\<lambda>r.
       case r of
         Inr _ \<Rightarrow> bindM (unix_now E) (\<lambda>now. ignoreM (write_signaling_node_seen E (adm_node_id inst) now))
       | Inl _ \<Rightarrow> check_and_purge_dead_signaling E cfg inst)"

definition signaling_probe_tick :: "('w, 'z) sup_env_scheme \<Rightarrow> SupervisorConfig \<Rightarrow> ('w, unit) act" where
  "signaling_probe_tick E cfg = forM (probe_signaling_instance E cfg) (signaling_admin_instances cfg)"

text \<open>Reclaiming one room: lower the load of its SFU, delete the binding and the members.\<close>

definition reclaim_room :: "('w, 'z) env_scheme \<Rightarrow> string \<Rightarrow> RoomBinding \<Rightarrow> ('w, unit) act" where
  "reclaim_room E room binding =
     bindM (case rb_sfu_instance_id binding of
              None \<Rightarrow> retM ()
            | Some i \<Rightarrow> ignoreM (decrement_sfu_room_load E i)) (\<lambda>_.
     bindM (delete_room_assignment E room) (\<lambda>_.
     ignoreM (delete_signaling_room_members E room)))"

definition handle_dead_sfu_room :: "('w, 'z) sup_env_scheme \<Rightarrow> SupervisorConfig \<Rightarrow> string \<Rightarrow> string \<Rightarrow> ('w, unit) act" where
  "handle_dead_sfu_room E cfg sfu_addr room =
     bindM (get_room_assignment E room) (\<lambda>r.
       case r of
         Inl _ \<Rightarrow> retM ()
       | Inr None \<Rightarrow> retM ()
       | Inr (Some binding) \<Rightarrow>
           if rb_sfu_grpc_addr binding \<noteq> Some sfu_addr then retM () else
           bindM (if rb_owner_id binding = [] then retM ()
                  else (case find (\<lambda>i. adm_node_id i = rb_owner_id binding) (signaling_admin_instances cfg) of
                          None \<Rightarrow> retM ()
                        | Some inst \<Rightarrow> ignoreM (close_rooms_by_sfu_on_signaling E (adm_grpc_addr inst)
                            (sup_rpc_connect_timeout cfg) sfu_addr ''sfu_down''))) (\<lambda>_.
           reclaim_room E room binding))"

definition handle_dead_sfu :: "('w, 'z) sup_env_scheme \<Rightarrow> SupervisorConfig \<Rightarrow> string \<Rightarrow> ('w, unit) act" where
  "handle_dead_sfu E cfg sfu_addr =
     bindM (scan_room_binding_ids E) (\<lambda>r.
       case r of
         Inl _ \<Rightarrow> retM ()
       | Inr ids \<Rightarrow> forM (handle_dead_sfu_room E cfg sfu_addr) ids)"

definition probe_sfu :: "('w, 'z) sup_env_scheme \<Rightarrow> SupervisorConfig \<Rightarrow> int \<Rightarrow> SfuInstance \<Rightarrow> ('w, unit) act" where
  "probe_sfu E cfg now inst =
     bindM (ping_sfu E (grpc_addr inst) (sup_sfu_connect_timeout cfg)) (\<lambda>is_alive.
     bindM (update_sfu_health E (instance_id inst) is_alive now) (\<lambda>r.
       case r of
         Inl _ \<Rightarrow> retM ()
       | Inr _ \<Rightarrow> if \<not> is_alive then handle_dead_sfu E cfg (grpc_addr inst) else retM ()))"

definition sfu_probe_tick :: "('w, 'z) sup_env_scheme \<Rightarrow> SupervisorConfig \<Rightarrow> ('w, unit) act" where
  "sfu_probe_tick E cfg =
     bindM (list_sfu_instances E) (\<lambda>r.
       case r of
         Inl _ \<Rightarrow> retM ()
       | Inr instances \<Rightarrow> bindM (unix_now E) (\<lambda>now. forM (probe_sfu E cfg now) instances))"

section \<open>Janitor\<close>

definition janitor_room :: "('w, 'z) env_scheme \<Rightarrow> string list \<Rightarrow> string \<Rightarrow> ('w, store_error, unit) prog" where
  "janitor_room E alive_nodes room =
     tryM (get_room_assignment E room) (\<lambda>found.
       case found of
         None \<Rightarrow> okM ()
       | Some binding \<Rightarrow>
           if rb_owner_id binding = [] \<or> rb_owner_id binding \<in> set alive_nodes then okM ()
           else liftM (reclaim_room E room binding))"

definition janitor_orphan :: "('w, 'z) env_scheme \<Rightarrow> string list \<Rightarrow> string \<Rightarrow> ('w, unit) act" where
  "janitor_orphan E binding_ids room =
     (if room \<notin> set binding_ids then ignoreM (delete_signaling_room_members E room) else retM ())"

definition janitor_load :: "('w, 'z) env_scheme \<Rightarrow> string list \<Rightarrow> string \<Rightarrow> ('w, unit) act" where
  "janitor_load E alive_nodes node =
     (if node \<notin> set alive_nodes then ignoreM (remove_signaling_load E node) else retM ())"

definition janitor_session :: "('w, 'z) env_scheme \<Rightarrow> string list \<Rightarrow> string \<Rightarrow> ('w, store_error, unit) prog" where
  "janitor_session E alive_nodes session =
     tryM (get_session_owner E session) (\<lambda>found.
       case found of
         None \<Rightarrow> okM ()
       | Some owner \<Rightarrow>
           if owner \<in> set alive_nodes then okM ()
           else liftM (ignoreM (delete_signaling_session E session)))"

definition run_janitor_iteration :: "('w, 'z) env_scheme \<Rightarrow> SupervisorConfig \<Rightarrow> ('w, store_error, unit) prog" where
  "run_janitor_iteration E cfg =
     tryM (alive_signaling_nodes E (stale_secs cfg)) (\<lambda>alive_nodes.
     tryM (liftM (unix_now E)) (\<lambda>now.
     let cutoff = sub_i64 now (cast_i64 (stale_secs cfg)) in
     tryM (scan_room_binding_ids E) (\<lambda>binding_ids.
     tryM (forE (janitor_room E alive_nodes) binding_ids) (\<lambda>_.
     tryM (scan_signaling_room_ids E) (\<lambda>room_ids.
     tryM (liftM (forM (janitor_orphan E binding_ids) room_ids)) (\<lambda>_.
     tryM (signaling_load_members E) (\<lambda>load_members.
     tryM (liftM (forM (janitor_load E alive_nodes) load_members)) (\<lambda>_.
     tryM (scan_signaling_session_ids E) (\<lambda>session_ids.
     tryM (forE (janitor_session E alive_nodes) session_ids) (\<lambda>_.
     tryM (liftM (ignoreM (remove_signaling_node_heartbeats_below E cutoff))) (\<lambda>_.
     okM ())))))))))))"

section \<open>Start-up and the watch over Redis\<close>

definition purge_all_signaling_for_redis_down :: "('w, 'z) sup_env_scheme \<Rightarrow> SupervisorConfig \<Rightarrow> ('w, unit) act" where
  "purge_all_signaling_for_redis_down E cfg =
     forM (\<lambda>inst. ignoreM (purge_signaling E (adm_grpc_addr inst) (sup_rpc_connect_timeout cfg) ''redis''))
       (signaling_admin_instances cfg)"

text \<open>One turn of the watch; its state is whether Redis was down the turn before.\<close>

definition redis_check_tick :: "('w, 'z) sup_env_scheme \<Rightarrow> SupervisorConfig \<Rightarrow> bool \<Rightarrow> ('w, bool) act" where
  "redis_check_tick E cfg was_down =
     bindM (health_ping E) (\<lambda>r.
       case r of
         Inr _ \<Rightarrow> retM False
       | Inl _ \<Rightarrow>
           bindM (if \<not> was_down then purge_all_signaling_for_redis_down E cfg else retM ()) (\<lambda>_. retM True))"

text \<open>Waiting for Redis at start-up: \<open>n\<close> bounds the number of attempts looked at; the result is
  absent while neither Redis answered nor the deadline passed.\<close>

fun wait_for_redis :: "('w, 'z) sup_env_scheme \<Rightarrow> nat \<Rightarrow> ('w, (string + unit) option) act" where
  "wait_for_redis E 0 = retM None"
| "wait_for_redis E (Suc n) =
     bindM (health_ping E) (\<lambda>r.
       case r of
         Inr _ \<Rightarrow> retM (Some (Inr ()))
       | Inl _ \<Rightarrow>
           bindM (deadline_passed E) (\<lambda>late.
           if late then retM (Some (Inl ''Redis not reachable within timeout'')) else wait_for_redis E n))"

definition candidate_of :: "SfuInventoryInstance \<Rightarrow> SfuCandidate" where
  "candidate_of inst = \<lparr>cand_instance_id = inv_instance_id inst, cand_grpc_addr = inv_grpc_addr inst,
     cand_max_rooms = inv_max_rooms inst\<rparr>"

definition supervisor_start :: "('w, 'z) sup_env_scheme \<Rightarrow> SupervisorConfig \<Rightarrow> ('w, store_error, unit) prog" where
  "supervisor_start E cfg =
     tryM (liftM (heartbeat_tick E (supervisor_instance_id cfg))) (\<lambda>_.
     seed_sfu_inventory E (map candidate_of (sfu_instances cfg)))"

end
