(* ===== verification/Supervisor_Operations.thy ===== *)
theory Supervisor_Operations
  imports Supervisor Connector_Operations
begin

text \<open>
  The supervisor on a server that answers: an evaluation lemma per operation, one turn of the janitor
  against a description of the store it leaves, the wait for Redis at start-up, the inventory
  text, and what its heartbeats and probes mean to the connector.
\<close>

section \<open>Operations\<close>

context store_world
begin

lemma alive_nodes_eval:
  assumes "is_zset (view w) SIGNALING_NODES_KEY"
  obtains xs where "fst (alive_signaling_nodes E stale w) = Inr xs"
    "set xs = {n. \<exists>x. zset_of (view w) SIGNALING_NODES_KEY n = Some x
      \<and> of_int (sub_i64 (fst (unix_time E w)) (cast_i64 stale)) \<le> x}"
    "view (snd (alive_signaling_nodes E stale w)) = view w"
proof -
  let ?lo = "of_int (sub_i64 (fst (unix_time E w)) (cast_i64 stale)) :: real" and ?w = "snd (unix_time E w)"
  note v = clock_view [of w]
  have z: "is_zset (view ?w) SIGNALING_NODES_KEY" using assms by (simp add: v)
  obtain xs where xs: "fst (call E (Zrangebyscore SIGNALING_NODES_KEY ?lo) as_list ?w) = Inr xs"
    "set xs = {m. \<exists>x. zset_of (view ?w) SIGNALING_NODES_KEY m = Some x \<and> ?lo \<le> x}"
    "view (snd (call E (Zrangebyscore SIGNALING_NODES_KEY ?lo) as_list ?w)) = view ?w"
    by (rule call_zrangebyscore [OF z, of ?lo])
  show ?thesis
  proof (rule that)
    show "fst (alive_signaling_nodes E stale w) = Inr xs" "view (snd (alive_signaling_nodes E stale w)) = view w"
      using xs(1,3) by (simp_all add: alive_signaling_nodes_def with_timeout_def rcall_def unix_now_def prog_simps Let_def v)
  qed (use xs(2) in \<open>simp only: v\<close>)
qed

lemma node_seen_eval:
  assumes "is_zset (view w) SIGNALING_NODES_KEY"
  shows "fst (write_signaling_node_seen E n t w) = Inr ()"
    "view (snd (write_signaling_node_seen E n t w)) =
       put_zset SIGNALING_NODES_KEY ((zset_of (view w) SIGNALING_NODES_KEY)(n \<mapsto> of_int t)) (view w)"
  using assms by (simp_all add: write_signaling_node_seen_def store_eval)

lemma remove_load_eval:
  assumes "is_zset (view w) SIGNALING_INSTANCE_LOAD_KEY"
  shows "view (snd (remove_signaling_load E n w)) =
    put_zset SIGNALING_INSTANCE_LOAD_KEY ((zset_of (view w) SIGNALING_INSTANCE_LOAD_KEY)(n := None)) (view w)"
  using assms by (simp add: remove_signaling_load_def store_eval)

lemma load_members_eval:
  assumes "is_zset (view w) SIGNALING_INSTANCE_LOAD_KEY"
  obtains xs where "fst (signaling_load_members E w) = Inr xs" "set xs = dom (zset_of (view w) SIGNALING_INSTANCE_LOAD_KEY)"
    "view (snd (signaling_load_members E w)) = view w"
proof -
  obtain xs where "fst (call E (Zrange SIGNALING_INSTANCE_LOAD_KEY) as_list w) = Inr xs"
    "set xs = dom (zset_of (view w) SIGNALING_INSTANCE_LOAD_KEY)"
    "view (snd (call E (Zrange SIGNALING_INSTANCE_LOAD_KEY) as_list w)) = view w"
    using call_zrange [OF assms] .
  then show ?thesis
    by (intro that [of xs]) (simp_all add: signaling_load_members_def with_timeout_def rcall_def prog_simps)
qed

lemma session_owner_eval:
  assumes "is_hash (view w) (session_key s)"
  shows "fst (get_session_owner E s w) = Inr (nonempty (hash_of (view w) (session_key s) ''signaling_owner_id''))"
    "view (snd (get_session_owner E s w)) = view w"
  using assms by (simp_all add: get_session_owner_def store_eval)

lemma delete_eval:
  "view (snd (delete_signaling_session E s w)) = (view w)(session_key s := None)"
  "view (snd (delete_signaling_room_members E r w)) = (view w)(room_members_key r := None)"
  "view (snd (delete_room_assignment E r w)) = (view w)(room_binding_key r := None)"
  by (simp_all add: delete_signaling_session_def delete_signaling_room_members_def delete_room_assignment_def store_eval is_assign_def)

lemma health_ping_eval: "fst (health_ping E w) = Inr ()"
  by (simp add: health_ping_def store_eval)

lemma remove_heartbeats_eval:
  assumes "is_zset (view w) SIGNALING_NODES_KEY"
  shows "view (snd (remove_signaling_node_heartbeats_below E c w)) =
    put_zset SIGNALING_NODES_KEY (\<lambda>n. case zset_of (view w) SIGNALING_NODES_KEY n of None \<Rightarrow> None
      | Some x \<Rightarrow> if x \<le> of_int c then None else Some x) (view w)"
proof -
  obtain n where "fst (call E (Zremrangebyscore SIGNALING_NODES_KEY (of_int c)) as_int w) = Inr n"
    "view (snd (call E (Zremrangebyscore SIGNALING_NODES_KEY (of_int c)) as_int w)) =
       cmd_effect (Zremrangebyscore SIGNALING_NODES_KEY (of_int c)) (view w)"
    using call_zremrangebyscore [OF assms] .
  then show ?thesis
    by (simp add: remove_signaling_node_heartbeats_below_def with_timeout_def rcall_def prog_simps)
qed

end

section \<open>Reclaiming rooms\<close>

text \<open>A room is dead if its owner is named and not among the live nodes.\<close>

definition dead_room :: "store \<Rightarrow> string set \<Rightarrow> string \<Rightarrow> bool" where
  "dead_room st live r \<longleftrightarrow> (let owner = get_or [] (hash_of st (room_binding_key r)) ''signaling_owner_id''
     in owner \<noteq> [] \<and> owner \<notin> live)"

definition room_sfu :: "store \<Rightarrow> string \<Rightarrow> string option" where
  "room_sfu st r = nonempty (hash_of st (room_binding_key r) ''sfu_instance_id'')"

text \<open>The keys that say something of rooms and SFUs.\<close>

definition room_keys :: "string set" where
  "room_keys = {SFU_INSTANCES_KEY, SFU_ROOM_LOAD_KEY} \<union> range room_binding_key \<union> range room_members_key"

lemma room_keys_other [simp]:
  "SIGNALING_INSTANCE_LOAD_KEY \<notin> room_keys" "SIGNALING_NODES_KEY \<notin> room_keys" "session_key s \<notin> room_keys" "nick_key n \<notin> room_keys"
  by (auto simp: room_keys_def) (simp_all add: key_defs)

lemma room_keys_in: "k \<notin> room_keys \<Longrightarrow> k \<notin> {SFU_INSTANCES_KEY, SFU_ROOM_LOAD_KEY, room_binding_key r, room_members_key q}"
  by (auto simp: room_keys_def)

text \<open>The store \<open>st\<close> is \<open>st0\<close> after the dead ones among the rooms \<open>D\<close> were reclaimed: their bindings and
  members are gone, and each gave one place back on its SFU. The record of an SFU differs at most in its idle time, and only if it
  lost a room and carries none any more.\<close>

definition retimed :: "json_api \<Rightarrow> store \<Rightarrow> store \<Rightarrow> string \<Rightarrow> bool" where
  "retimed J st st' i \<longleftrightarrow> (\<exists>t. sfu_table J st' i = map_option (\<lambda>x. x\<lparr>idle_since_unix := t\<rparr>) (sfu_table J st i))"

definition reclaimed :: "json_api \<Rightarrow> store \<Rightarrow> string set \<Rightarrow> string set \<Rightarrow> store \<Rightarrow> bool" where
  "reclaimed J st0 live D st \<longleftrightarrow>
     (\<forall>r. st (room_binding_key r) = (if r \<in> D \<and> dead_room st0 live r then None else st0 (room_binding_key r)))
     \<and> (\<forall>r. st (room_members_key r) = (if r \<in> D \<and> dead_room st0 live r then None else st0 (room_members_key r)))
     \<and> (\<forall>i. room_load st i = max 0 (room_load st0 i - real (card {r \<in> D. dead_room st0 live r \<and> room_sfu st0 r = Some i})))
     \<and> (\<forall>i. if room_load st i = 0 \<and> (\<exists>r \<in> D. dead_room st0 live r \<and> room_sfu st0 r = Some i)
         then retimed J st0 st i else sfu_table J st i = sfu_table J st0 i)
     \<and> sfu_ok J st \<and> loads_natural st
     \<and> (\<forall>k. k \<notin> room_keys \<longrightarrow> st k = st0 k)"

lemma load_nonneg: "loads_natural st \<Longrightarrow> 0 \<le> room_load st i"
  unfolding loads_natural_iff by (metis Nats_cases of_nat_0_le_iff)

lemma reclaimed_start: "sfu_ok J st \<Longrightarrow> loads_natural st \<Longrightarrow> reclaimed J st live {} st"
  using load_nonneg by (simp add: reclaimed_def)

lemma reclaimed_skip:
  assumes "reclaimed J st0 live D st" "r \<in> D \<or> \<not> dead_room st0 live r"
  shows "reclaimed J st0 live (insert r D) st"
proof -
  have same: "q \<in> insert r D \<and> dead_room st0 live q \<and> Q \<longleftrightarrow> q \<in> D \<and> dead_room st0 live q \<and> Q"
    "q \<in> insert r D \<and> dead_room st0 live q \<longleftrightarrow> q \<in> D \<and> dead_room st0 live q" for q Q using assms(2) by auto
  show ?thesis using assms(1) unfolding reclaimed_def Bex_def same .
qed

context store_world
begin

lemma reclaim_eval:
  fixes r b
  assumes "sfu_ok (json E) (view w)" "loads_natural (view w)"
  defines "st \<equiv> view (snd (reclaim_room E r b w))"
  shows "st (room_binding_key r) = None" "st (room_members_key r) = None" "sfu_ok (json E) st" "loads_natural st"
    "room_load st = (case rb_sfu_instance_id b of None \<Rightarrow> room_load (view w)
       | Some i \<Rightarrow> (room_load (view w))(i := max 0 (room_load (view w) i - 1)))"
    "k \<notin> {SFU_INSTANCES_KEY, SFU_ROOM_LOAD_KEY, room_binding_key r, room_members_key r} \<Longrightarrow> st k = view w k"
    "case rb_sfu_instance_id b of None \<Rightarrow> sfu_table (json E) st = sfu_table (json E) (view w)
       | Some i \<Rightarrow> given_back (json E) (view w) i st"
proof -
  define w1 where "w1 = (case rb_sfu_instance_id b of None \<Rightarrow> w | Some i \<Rightarrow> snd (decrement_sfu_room_load E i w))"
  have st: "st = (view w1)(room_binding_key r := None, room_members_key r := None)"
    by (simp add: st_def reclaim_room_def prog_simps delete_eval w1_def split: option.split)
  note d = decrement_spec [OF assms(1,2)]
  have w1: "sfu_ok (json E) (view w1)" "loads_natural (view w1)"
    "room_load (view w1) = (case rb_sfu_instance_id b of None \<Rightarrow> room_load (view w)
       | Some i \<Rightarrow> (room_load (view w))(i := max 0 (room_load (view w) i - 1)))"
    "k \<notin> {SFU_INSTANCES_KEY, SFU_ROOM_LOAD_KEY} \<Longrightarrow> view w1 k = view w k" for k
    using assms(1,2) d by (auto simp: w1_def split: option.split)
  show "st (room_binding_key r) = None" "st (room_members_key r) = None" by (simp_all add: st)
  show "sfu_ok (json E) st" using w1(1) by (simp add: st sfu_ok_frame)
  show l: "room_load st = (case rb_sfu_instance_id b of None \<Rightarrow> room_load (view w)
       | Some i \<Rightarrow> (room_load (view w))(i := max 0 (room_load (view w) i - 1)))"
    using w1(3) by (simp add: st room_load_frame)
  show "loads_natural st" using w1(2) unfolding loads_natural_iff by (simp add: st room_load_frame)
  show "k \<notin> {SFU_INSTANCES_KEY, SFU_ROOM_LOAD_KEY, room_binding_key r, room_members_key r} \<Longrightarrow> st k = view w k"
    using w1(4) by (simp add: st)
  have gb: "given_back (json E) s i (u(room_binding_key r := None, room_members_key r := None)) = given_back (json E) s i u" for s i u
    by (simp add: given_back_def idle_only_def sfu_ok_frame room_load_frame sfu_table_frame)
  have "case rb_sfu_instance_id b of None \<Rightarrow> view w1 = view w | Some i \<Rightarrow> given_back (json E) (view w) i (view w1)"
    using d(6) by (simp add: w1_def split: option.split)
  then show "case rb_sfu_instance_id b of None \<Rightarrow> sfu_table (json E) st = sfu_table (json E) (view w)
       | Some i \<Rightarrow> given_back (json E) (view w) i st"
    by (simp add: gb st room_load_frame sfu_table_frame split: option.splits)
qed

text \<open>Giving one more place back retimes at most one record, one that carries no room any more.\<close>

lemma retimed_step:
  assumes "if room_load st i = 0 \<and> P i then retimed J st0 st i else sfu_table J st i = sfu_table J st0 i"
    and "0 \<le> room_load st i" "case lost of None \<Rightarrow> sfu_table J st' = sfu_table J st \<and> room_load st' = room_load st
      | Some j \<Rightarrow> given_back J st j st'"
  shows "if room_load st' i = 0 \<and> (lost = Some i \<or> P i) then retimed J st0 st' i else sfu_table J st' i = sfu_table J st0 i"
proof (cases "lost = Some i")
  case True
  then have gb: "given_back J st i st'" using assms(3) by simp
  then have load: "room_load st' i = max 0 (room_load st i - 1)" by (simp add: given_back_def)
  show ?thesis
  proof (cases "room_load st' i = 0")
    case zero: True
    obtain t where "sfu_table J st' i = map_option (\<lambda>x. x\<lparr>idle_since_unix := t\<rparr>) (sfu_table J st i)"
      using gb zero by (auto simp: given_back_def idle_only_def)
    moreover obtain u where "sfu_table J st i = sfu_table J st0 i
        \<or> sfu_table J st i = map_option (\<lambda>x. x\<lparr>idle_since_unix := u\<rparr>) (sfu_table J st0 i)"
      using assms(1) by (auto simp: retimed_def split: if_splits)
    ultimately have "sfu_table J st' i = map_option (\<lambda>x. x\<lparr>idle_since_unix := t\<rparr>) (sfu_table J st0 i)"
      by (auto simp: option.map_comp comp_def)
    then show ?thesis using zero True by (auto simp: retimed_def)
  next
    case False
    then have "sfu_table J st' = sfu_table J st" "room_load st i \<noteq> 0" using gb load by (auto simp: given_back_def)
    then show ?thesis using False assms(1) by (simp split: if_splits)
  qed
next
  case False
  then have "sfu_table J st' i = sfu_table J st i" "room_load st' i = room_load st i"
    using assms(3) by (auto simp: given_back_def idle_only_def split: option.splits if_splits)
  then show ?thesis using False assms(1) by (auto simp: retimed_def split: if_splits)
qed

lemma janitor_room_eval:
  assumes inv: "reclaimed (json E) st0 (set live) D (view w)" and hash: "is_hash st0 (room_binding_key r)" and fin: "finite D"
  shows "fst (janitor_room E live r w) = Inr ()"
    "reclaimed (json E) st0 (set live) (insert r D) (view (snd (janitor_room E live r w)))"
proof -
  have at_r: "view w (room_binding_key r) = (if r \<in> D \<and> dead_room st0 (set live) r then None else st0 (room_binding_key r))"
    using inv by (simp add: reclaimed_def)
  then have h: "is_hash (view w) (room_binding_key r)" using hash by (simp add: is_hash_def)
  define w1 where "w1 = snd (get_room_assignment E r w)"
  define b where "b = room_binding_of r (hash_of st0 (room_binding_key r))"
  note got = get_room_assignment_eval [OF h, folded w1_def]
  have dead: "dead_room st0 (set live) r \<longleftrightarrow> rb_owner_id b \<noteq> [] \<and> rb_owner_id b \<notin> set live"
    and sfu: "rb_sfu_instance_id b = room_sfu st0 r"
    by (simp_all add: b_def room_binding_of_def dead_room_def room_sfu_def Let_def)
  have run: "janitor_room E live r w =
      (if r \<notin> D \<and> dead_room st0 (set live) r then (Inr (), snd (reclaim_room E r b w1)) else (Inr (), w1))"
  proof (cases "r \<in> D \<and> dead_room st0 (set live) r")
    case True
    then show ?thesis using at_r by (simp add: janitor_room_def prog_simps got w1_def [symmetric])
  next
    case False
    have none: "st0 (room_binding_key r) = None \<Longrightarrow> \<not> dead_room st0 (set live) r"
      by (simp add: dead_room_def hash_of_def get_or_def)
    show ?thesis
      using False at_r dead none
      by (auto simp: janitor_room_def prog_simps got w1_def [symmetric] b_def hash_of_def)
  qed
  show "fst (janitor_room E live r w) = Inr ()" by (simp add: run)
  show "reclaimed (json E) st0 (set live) (insert r D) (view (snd (janitor_room E live r w)))"
  proof (cases "r \<notin> D \<and> dead_room st0 (set live) r")
    case False
    then show ?thesis using reclaimed_skip [OF inv, of r] by (auto simp: run got)
  next
    case True
    have ok: "sfu_ok (json E) (view w1)" "loads_natural (view w1)" using inv by (simp_all add: got reclaimed_def)
    note rec = reclaim_eval [OF ok, where r = r and b = b]
    have card: "card {q \<in> insert r D. dead_room st0 (set live) q \<and> room_sfu st0 q = Some i} =
        card {q \<in> D. dead_room st0 (set live) q \<and> room_sfu st0 q = Some i} + (if room_sfu st0 r = Some i then 1 else 0)" for i
    proof -
      have "{q \<in> insert r D. dead_room st0 (set live) q \<and> room_sfu st0 q = Some i} =
          {q \<in> D. dead_room st0 (set live) q \<and> room_sfu st0 q = Some i} \<union> (if room_sfu st0 r = Some i then {r} else {})"
        using True by auto
      then show ?thesis using True fin by (auto simp: card_insert_disjoint)
    qed
    have load: "room_load (view (snd (reclaim_room E r b w1))) i = max 0 (room_load st0 i
        - real (card {q \<in> insert r D. dead_room st0 (set live) q \<and> room_sfu st0 q = Some i}))" for i
      using inv unfolding card by (auto simp: rec(5) sfu got reclaimed_def split: option.split)
    have table: "if room_load (view (snd (reclaim_room E r b w1))) i = 0
          \<and> (\<exists>q \<in> insert r D. dead_room st0 (set live) q \<and> room_sfu st0 q = Some i)
        then retimed (json E) st0 (view (snd (reclaim_room E r b w1))) i
        else sfu_table (json E) (view (snd (reclaim_room E r b w1))) i = sfu_table (json E) st0 i" for i
    proof -
      have "if room_load (view w1) i = 0 \<and> (\<exists>q \<in> D. dead_room st0 (set live) q \<and> room_sfu st0 q = Some i)
          then retimed (json E) st0 (view w1) i else sfu_table (json E) (view w1) i = sfu_table (json E) st0 i"
        using inv unfolding reclaimed_def got by blast
      moreover have "case room_sfu st0 r of None \<Rightarrow> sfu_table (json E) (view (snd (reclaim_room E r b w1))) = sfu_table (json E) (view w1)
            \<and> room_load (view (snd (reclaim_room E r b w1))) = room_load (view w1)
          | Some j \<Rightarrow> given_back (json E) (view w1) j (view (snd (reclaim_room E r b w1)))"
        using rec(5,7) by (simp add: sfu split: option.splits)
      ultimately have "if room_load (view (snd (reclaim_room E r b w1))) i = 0
          \<and> (room_sfu st0 r = Some i \<or> (\<exists>q \<in> D. dead_room st0 (set live) q \<and> room_sfu st0 q = Some i))
        then retimed (json E) st0 (view (snd (reclaim_room E r b w1))) i
        else sfu_table (json E) (view (snd (reclaim_room E r b w1))) i = sfu_table (json E) st0 i"
        by (rule retimed_step [OF _ load_nonneg [OF ok(2)]])
      moreover have "(\<exists>q \<in> insert r D. dead_room st0 (set live) q \<and> room_sfu st0 q = Some i) \<longleftrightarrow>
          room_sfu st0 r = Some i \<or> (\<exists>q \<in> D. dead_room st0 (set live) q \<and> room_sfu st0 q = Some i)" using True by auto
      ultimately show ?thesis by (simp only:)
    qed
    have keys: "view (snd (reclaim_room E r b w1)) (room_binding_key q)
          = (if q \<in> insert r D \<and> dead_room st0 (set live) q then None else st0 (room_binding_key q))"
      "view (snd (reclaim_room E r b w1)) (room_members_key q)
          = (if q \<in> insert r D \<and> dead_room st0 (set live) q then None else st0 (room_members_key q))" for q
      using inv True rec(1,2) rec(6) [of "room_binding_key q"] rec(6) [of "room_members_key q"]
      by (cases "q = r"; simp add: got reclaimed_def)+
    have other: "view (snd (reclaim_room E r b w1)) k = st0 k"
      if "k \<notin> room_keys" for k
      using inv that rec(6) [OF room_keys_in [OF that]] by (simp add: got reclaimed_def)
    have res: "snd (janitor_room E live r w) = snd (reclaim_room E r b w1)" using True by (simp add: run)
    show ?thesis
      unfolding reclaimed_def res by (intro conjI allI impI keys load table rec(3,4) other)
  qed
qed

lemma janitor_rooms_eval:
  assumes "\<forall>r. is_hash st0 (room_binding_key r)" "reclaimed (json E) st0 (set live) D (view w)" "finite D"
  shows "fst (forE (janitor_room E live) rs w) = Inr ()
    \<and> reclaimed (json E) st0 (set live) (set rs \<union> D) (view (snd (forE (janitor_room E live) rs w)))"
  using assms(2,3)
proof (induction rs arbitrary: w D)
  case (Cons r rs)
  note step = janitor_room_eval [OF Cons.prems(1) spec [OF assms(1), of r] Cons.prems(2)]
  from Cons.IH [OF step(2)] Cons.prems(2) step(1) show ?case by (simp add: prog_simps)
qed (simp add: prog_simps)

end

section \<open>The rest of a turn\<close>

definition session_owner :: "store \<Rightarrow> string \<Rightarrow> string option" where
  "session_owner st s = nonempty (hash_of st (session_key s) ''signaling_owner_id'')"

definition dead_session :: "store \<Rightarrow> string set \<Rightarrow> string \<Rightarrow> bool" where
  "dead_session st live s \<longleftrightarrow> (case session_owner st s of None \<Rightarrow> False | Some owner \<Rightarrow> owner \<notin> live)"

context store_world
begin

lemma janitor_orphans_eval:
  "view (snd (forM (janitor_orphan E bids) rs w)) =
     (\<lambda>k. if \<exists>r \<in> set rs. r \<notin> set bids \<and> k = room_members_key r then None else view w k)"
proof (induction rs arbitrary: w)
  case (Cons r rs)
  have "view (snd (janitor_orphan E bids r w)) = (if r \<notin> set bids then (view w)(room_members_key r := None) else view w)"
    by (simp add: janitor_orphan_def prog_simps delete_eval)
  then show ?case by (auto simp: prog_simps Cons.IH fun_eq_iff)
qed (simp add: prog_simps)

lemma janitor_loads_eval:
  fixes live ns
  assumes "is_zset (view w) SIGNALING_INSTANCE_LOAD_KEY"
  defines "st \<equiv> view (snd (forM (janitor_load E live) ns w))"
  shows "zset_of st SIGNALING_INSTANCE_LOAD_KEY =
      (\<lambda>n. if n \<in> set ns \<and> n \<notin> set live then None else zset_of (view w) SIGNALING_INSTANCE_LOAD_KEY n)
    \<and> is_zset st SIGNALING_INSTANCE_LOAD_KEY \<and> (\<forall>k. k \<noteq> SIGNALING_INSTANCE_LOAD_KEY \<longrightarrow> st k = view w k)"
  using assms(1) unfolding st_def
proof (induction ns arbitrary: w)
  case (Cons n ns)
  let ?w = "snd (janitor_load E live n w)"
  have v: "view ?w = (if n \<notin> set live then put_zset SIGNALING_INSTANCE_LOAD_KEY
      ((zset_of (view w) SIGNALING_INSTANCE_LOAD_KEY)(n := None)) (view w) else view w)"
    using Cons.prems by (simp add: janitor_load_def prog_simps remove_load_eval)
  then have "is_zset (view ?w) SIGNALING_INSTANCE_LOAD_KEY" using Cons.prems by simp
  from Cons.IH [OF this] show ?case by (auto simp: prog_simps v fun_eq_iff)
qed (simp add: prog_simps)

lemma janitor_sessions_eval:
  assumes "\<forall>s. is_hash (view w) (session_key s)"
  shows "fst (forE (janitor_session E live) ss w) = Inr ()
    \<and> view (snd (forE (janitor_session E live) ss w)) =
      (\<lambda>k. if \<exists>s \<in> set ss. k = session_key s \<and> dead_session (view w) (set live) s then None else view w k)"
  using assms
proof (induction ss arbitrary: w)
  case (Cons s ss)
  let ?w = "snd (janitor_session E live s w)"
  note own = session_owner_eval [OF spec [OF Cons.prems, of s], folded session_owner_def]
  have run: "fst (janitor_session E live s w) = Inr ()"
    "view ?w = (if dead_session (view w) (set live) s then (view w)(session_key s := None) else view w)"
    by (auto simp: janitor_session_def prog_simps own delete_eval dead_session_def split: option.split)
  have typed: "\<forall>s. is_hash (view ?w) (session_key s)" using Cons.prems by (simp add: run)
  have same: "dead_session ((view w)(session_key s := None)) (set live) t \<longleftrightarrow> t \<noteq> s \<and> dead_session (view w) (set live) t" for t
    by (auto simp: dead_session_def session_owner_def)
  from Cons.IH [OF typed] show ?case by (auto simp: prog_simps run same fun_eq_iff)
qed (simp add: prog_simps)

end

section \<open>One turn of the janitor\<close>

text \<open>The store as the services keep it: every key of a family holds the family's type.\<close>

definition tables_typed :: "json_api \<Rightarrow> store \<Rightarrow> bool" where
  "tables_typed J st \<longleftrightarrow> sfu_ok J st \<and> loads_natural st \<and> is_zset st SIGNALING_NODES_KEY
     \<and> is_zset st SIGNALING_INSTANCE_LOAD_KEY \<and> (\<forall>r. is_hash st (room_binding_key r)) \<and> (\<forall>s. is_hash st (session_key s))"

text \<open>What a turn leaves of the store \<open>st\<close>, when \<open>live\<close> are the nodes counted alive at its start: of the heartbeats those
  above \<open>cutoff\<close>, whoever is counted alive; of the inventory every record, retimed at most where an SFU lost its last room; and every key of
  another kind, a session's lock included.\<close>

definition swept :: "json_api \<Rightarrow> store \<Rightarrow> string set \<Rightarrow> int \<Rightarrow> store \<Rightarrow> bool" where
  "swept J st live cutoff st' \<longleftrightarrow>
     (\<forall>r. st' (room_binding_key r) = (if dead_room st live r then None else st (room_binding_key r)))
     \<and> (\<forall>r. st' (room_members_key r) =
         (if dead_room st live r \<or> st (room_binding_key r) = None then None else st (room_members_key r)))
     \<and> (\<forall>i. room_load st' i = max 0 (room_load st i - real (card {r. dead_room st live r \<and> room_sfu st r = Some i})))
     \<and> (\<forall>i. if room_load st' i = 0 \<and> (\<exists>r. dead_room st live r \<and> room_sfu st r = Some i)
         then retimed J st st' i else sfu_table J st' i = sfu_table J st i)
     \<and> (\<forall>n. zset_of st' SIGNALING_INSTANCE_LOAD_KEY n =
         (if n \<in> live then zset_of st SIGNALING_INSTANCE_LOAD_KEY n else None))
     \<and> (\<forall>s. st' (session_key s) =
         (if dead_session st live s \<and> \<not> ends_with '':lock'' (session_key s) then None else st (session_key s)))
     \<and> (\<forall>n. zset_of st' SIGNALING_NODES_KEY n = (case zset_of st SIGNALING_NODES_KEY n of None \<Rightarrow> None
         | Some x \<Rightarrow> if x \<le> of_int cutoff then None else Some x))
     \<and> (\<forall>k. k \<notin> room_keys \<union> {SIGNALING_INSTANCE_LOAD_KEY, SIGNALING_NODES_KEY} \<union> range session_key \<longrightarrow> st' k = st k)"

text \<open>The passes of a turn, put together: the rooms, the orphaned members, the loads, the sessions, the heartbeats.\<close>

lemma passes_sweep:
  assumes typed: "tables_typed J st" and bs: "B = {r. st (room_binding_key r) \<noteq> None}" and r4: "reclaimed J st live B st4"
    and ms: "M = {r. st4 (room_members_key r) \<noteq> None}"
    and v6: "st6 = (\<lambda>k. if \<exists>r \<in> M. r \<notin> B \<and> k = room_members_key r then None else st4 k)"
    and v8: "zset_of st8 SIGNALING_INSTANCE_LOAD_KEY = (\<lambda>n. if n \<in> live then zset_of st SIGNALING_INSTANCE_LOAD_KEY n else None)"
      "is_zset st8 SIGNALING_INSTANCE_LOAD_KEY" "\<And>k. k \<noteq> SIGNALING_INSTANCE_LOAD_KEY \<Longrightarrow> st8 k = st6 k"
    and ss: "S = {i. st8 (session_key i) \<noteq> None \<and> \<not> ends_with '':lock'' (session_key i)}"
    and v10: "st10 = (\<lambda>k. if \<exists>s \<in> S. k = session_key s \<and> dead_session st live s then None else st8 k)"
    and v': "st' = put_zset SIGNALING_NODES_KEY (\<lambda>n. case zset_of st SIGNALING_NODES_KEY n of None \<Rightarrow> None
      | Some x \<Rightarrow> if x \<le> of_int cutoff then None else Some x) st10"
  shows "swept J st live cutoff st' \<and> tables_typed J st'"
proof -
  note t = typed [unfolded tables_typed_def]
  have other: "st6 k = st k" if "k \<notin> room_keys" for k
    using r4 that by (auto simp: v6 reclaimed_def room_keys_def)
  have s8: "st8 (session_key s) = st (session_key s)" for s using v8(3) other by auto
  have f6: "st' k = st6 k" if "k \<in> room_keys \<or> k \<in> range nick_key" for k
  proof -
    have "k \<noteq> SIGNALING_NODES_KEY" "k \<noteq> SIGNALING_INSTANCE_LOAD_KEY" "k \<notin> range session_key"
      using that room_keys_other by (auto simp: key_defs)
    then show ?thesis by (auto simp: v' v10 v8(3))
  qed
  have bound: "dead_room st live r \<Longrightarrow> st (room_binding_key r) \<noteq> None" for r
    by (cases "st (room_binding_key r)") (simp_all add: dead_room_def hash_of_def get_or_def)
  have f4: "st' k = st4 k" if "k \<in> {SFU_INSTANCES_KEY, SFU_ROOM_LOAD_KEY} \<union> range room_binding_key" for k
  proof -
    have "k \<in> room_keys" "k \<notin> range room_members_key" using that by (auto simp: room_keys_def)
    then show ?thesis by (auto simp: f6 v6)
  qed
  have binding: "st' (room_binding_key r) = (if dead_room st live r then None else st (room_binding_key r))" for r
    using r4 bound [of r] bs by (auto simp: f4 reclaimed_def)
  have members: "st' (room_members_key r)
      = (if dead_room st live r \<or> st (room_binding_key r) = None then None else st (room_members_key r))" for r
    using r4 bound [of r] bs ms
    by (cases "st (room_members_key r)") (auto simp: f6 room_keys_def v6 reclaimed_def)
  have loads: "room_load st' = room_load st4" "sfu_ok J st' = sfu_ok J st4" "sfu_table J st' = sfu_table J st4"
    by (auto simp: room_load_def sfu_ok_def sfu_table_def zset_of_def hash_of_def is_hash_def is_zset_def f4)
  have "{r \<in> B. dead_room st live r \<and> room_sfu st r = Some i} = {r. dead_room st live r \<and> room_sfu st r = Some i}" for i
    using bound bs by auto
  then have load: "room_load st' i = max 0 (room_load st i - real (card {r. dead_room st live r \<and> room_sfu st r = Some i}))" for i
    using r4 by (simp add: loads reclaimed_def)
  have some: "(\<exists>r \<in> B. dead_room st live r \<and> room_sfu st r = Some i) = (\<exists>r. dead_room st live r \<and> room_sfu st r = Some i)" for i
    using bound bs by blast
  have table: "if room_load st' i = 0 \<and> (\<exists>r. dead_room st live r \<and> room_sfu st r = Some i)
      then retimed J st st' i else sfu_table J st' i = sfu_table J st i" for i
    using r4 unfolding reclaimed_def some retimed_def loads by blast
  have alive: "zset_of st' SIGNALING_INSTANCE_LOAD_KEY n = (if n \<in> live then zset_of st SIGNALING_INSTANCE_LOAD_KEY n else None)" for n
  proof -
    have "st10 SIGNALING_INSTANCE_LOAD_KEY = st8 SIGNALING_INSTANCE_LOAD_KEY" by (auto simp: v10)
    then show ?thesis using v8(1) by (simp add: v' zset_of_def)
  qed
  have session: "st' (session_key s) = (if s \<in> S \<and> dead_session st live s then None else st (session_key s))" for s
    by (auto simp: v' v10 s8)
  have kept: "s \<in> S \<longleftrightarrow> \<not> ends_with '':lock'' (session_key s)" if "dead_session st live s" for s
    using that by (auto simp: ss s8 dead_session_def session_owner_def hash_of_def split: option.splits)
  have sess: "st' (session_key s) = (if dead_session st live s \<and> \<not> ends_with '':lock'' (session_key s) then None else st (session_key s))" for s
    using session kept by auto
  have rest: "st' k = st k" if "k \<notin> room_keys \<union> {SIGNALING_INSTANCE_LOAD_KEY, SIGNALING_NODES_KEY} \<union> range session_key" for k
    using that other v8(3) by (auto simp: v' v10)
  have beats: "zset_of st' SIGNALING_NODES_KEY n = (case zset_of st SIGNALING_NODES_KEY n of None \<Rightarrow> None
      | Some x \<Rightarrow> if x \<le> of_int cutoff then None else Some x)" for n by (simp add: v')
  have "swept J st live cutoff st'"
    unfolding swept_def by (intro conjI allI impI binding members load table alive sess beats rest)
  moreover have "tables_typed J st'"
  proof -
    have h: "is_hash st' (room_binding_key r)" "is_hash st' (session_key s)" for r s
      using t by (auto simp: is_hash_def binding session)
    have "st10 SIGNALING_INSTANCE_LOAD_KEY = st8 SIGNALING_INSTANCE_LOAD_KEY" by (auto simp: v10)
    then have "is_zset st' SIGNALING_INSTANCE_LOAD_KEY" using v8(2) by (simp add: v' is_zset_def)
    moreover have "sfu_ok J st4" "\<forall>i. room_load st4 i \<in> \<nat>"
      using r4 unfolding reclaimed_def loads_natural_iff by blast+
    moreover have "is_zset st' SIGNALING_NODES_KEY" by (simp add: v')
    ultimately show ?thesis unfolding tables_typed_def loads_natural_iff loads using h by blast
  qed
  ultimately show ?thesis by blast
qed

context store_world
begin

lemma janitor_eval:
  assumes typed: "tables_typed (json E) (view w)"
    and live: "live = {n. \<exists>x. zset_of (view w) SIGNALING_NODES_KEY n = Some x
      \<and> of_int (sub_i64 (fst (unix_time E w)) (cast_i64 (stale_secs cfg))) \<le> x}"
    and cutoff: "cutoff = sub_i64 (fst (unix_time E (snd (alive_signaling_nodes E (stale_secs cfg) w)))) (cast_i64 (stale_secs cfg))"
    and w': "w' = snd (run_janitor_iteration E cfg w)"
  shows "fst (run_janitor_iteration E cfg w) = Inr () \<and> swept (json E) (view w) live cutoff (view w') \<and> tables_typed (json E) (view w')"
proof -
  let ?st = "view w"
  note t = typed [unfolded tables_typed_def]
  obtain al where al: "fst (alive_signaling_nodes E (stale_secs cfg) w) = Inr al" "set al = live"
    "view (snd (alive_signaling_nodes E (stale_secs cfg) w)) = ?st"
    by (rule alive_nodes_eval [of w "stale_secs cfg"]) (use t live in auto)
  define w2 where "w2 = snd (unix_time E (snd (alive_signaling_nodes E (stale_secs cfg) w)))"
  have v2: "view w2 = ?st" by (simp add: w2_def clock_view al)
  obtain bs where bs: "fst (scan_room_binding_ids E w2) = Inr bs" "set bs = {r. ?st (room_binding_key r) \<noteq> None}"
    "view (snd (scan_room_binding_ids E w2)) = ?st"
    by (rule scan_room_binding_ids_eval [of w2]) (simp add: v2)
  define w4 where "w4 = snd (forE (janitor_room E al) bs (snd (scan_room_binding_ids E w2)))"
  have "reclaimed (json E) ?st (set al) {} (view (snd (scan_room_binding_ids E w2)))"
    using t by (simp add: bs reclaimed_start)
  from janitor_rooms_eval [OF _ this, of bs] t
  have r4: "fst (forE (janitor_room E al) bs (snd (scan_room_binding_ids E w2))) = Inr ()"
    "reclaimed (json E) ?st live (set bs) (view w4)" by (auto simp: w4_def al)
  obtain ms where ms: "fst (scan_signaling_room_ids E w4) = Inr ms" "set ms = {r. view w4 (room_members_key r) \<noteq> None}"
    "view (snd (scan_signaling_room_ids E w4)) = view w4"
    by (rule scan_signaling_room_ids_eval [of w4])
  define w6 where "w6 = snd (forM (janitor_orphan E bs) ms (snd (scan_signaling_room_ids E w4)))"
  have v6: "view w6 = (\<lambda>k. if \<exists>r \<in> set ms. r \<notin> set bs \<and> k = room_members_key r then None else view w4 k)"
    by (simp only: w6_def janitor_orphans_eval ms(3))
  have other: "view w6 k = ?st k" if "k \<notin> room_keys" for k
    using r4(2) that by (auto simp: v6 reclaimed_def room_keys_def)
  have z6: "is_zset (view w6) SIGNALING_INSTANCE_LOAD_KEY" "zset_of (view w6) SIGNALING_INSTANCE_LOAD_KEY = zset_of ?st SIGNALING_INSTANCE_LOAD_KEY"
    using t other [of SIGNALING_INSTANCE_LOAD_KEY] by (auto simp: is_zset_def zset_of_def)
  obtain ls where ls: "fst (signaling_load_members E w6) = Inr ls" "set ls = dom (zset_of (view w6) SIGNALING_INSTANCE_LOAD_KEY)"
    "view (snd (signaling_load_members E w6)) = view w6"
    by (rule load_members_eval [OF z6(1)])
  define w8 where "w8 = snd (forM (janitor_load E al) ls (snd (signaling_load_members E w6)))"
  have v8: "zset_of (view w8) SIGNALING_INSTANCE_LOAD_KEY = (\<lambda>n. if n \<in> live then zset_of ?st SIGNALING_INSTANCE_LOAD_KEY n else None)"
    "is_zset (view w8) SIGNALING_INSTANCE_LOAD_KEY" "k \<noteq> SIGNALING_INSTANCE_LOAD_KEY \<Longrightarrow> view w8 k = view w6 k" for k
  proof -
    have "is_zset (view (snd (signaling_load_members E w6))) SIGNALING_INSTANCE_LOAD_KEY" by (simp only: ls(3) z6(1))
    from janitor_loads_eval [OF this, of al ls, folded w8_def, unfolded ls(2,3) z6(2) al(2)]
    show "zset_of (view w8) SIGNALING_INSTANCE_LOAD_KEY = (\<lambda>n. if n \<in> live then zset_of ?st SIGNALING_INSTANCE_LOAD_KEY n else None)"
      "is_zset (view w8) SIGNALING_INSTANCE_LOAD_KEY" "k \<noteq> SIGNALING_INSTANCE_LOAD_KEY \<Longrightarrow> view w8 k = view w6 k" for k
      by (auto simp: dom_def)
  qed
  obtain ss where ss: "fst (scan_signaling_session_ids E w8) = Inr ss"
    "set ss = {i. view w8 (session_key i) \<noteq> None \<and> \<not> ends_with '':lock'' (session_key i)}"
    "view (snd (scan_signaling_session_ids E w8)) = view w8"
    by (rule scan_signaling_session_ids_eval [of w8])
  define w10 where "w10 = snd (forE (janitor_session E al) ss (snd (scan_signaling_session_ids E w8)))"
  have s8: "view w8 (session_key s) = ?st (session_key s)" for s using v8(3) other by auto
  then have d8: "dead_session (view w8) live s = dead_session ?st live s" "is_hash (view w8) (session_key s)" for s
    using t by (auto simp: dead_session_def session_owner_def hash_of_def is_hash_def)
  have v10: "fst (forE (janitor_session E al) ss (snd (scan_signaling_session_ids E w8))) = Inr ()"
    "view w10 = (\<lambda>k. if \<exists>s \<in> set ss. k = session_key s \<and> dead_session ?st live s then None else view w8 k)"
    using janitor_sessions_eval [of "snd (scan_signaling_session_ids E w8)" al ss, folded w10_def, unfolded ss(3) al(2) d8(1)] d8(2)
    by blast+
  have n10: "view w10 SIGNALING_NODES_KEY = ?st SIGNALING_NODES_KEY" using v8(3) other by (auto simp: v10)
  then have z10: "is_zset (view w10) SIGNALING_NODES_KEY" using t by (simp add: is_zset_def)
  have "run_janitor_iteration E cfg w = (Inr (), snd (remove_signaling_node_heartbeats_below E cutoff w10))"
    by (simp add: run_janitor_iteration_def prog_simps unix_now_def Let_def al(1) bs(1) r4(1) ms(1) ls(1) ss(1) v10(1)
        w2_def [symmetric] w4_def [symmetric] w6_def [symmetric] w8_def [symmetric] w10_def [symmetric] cutoff)
  then have res: "fst (run_janitor_iteration E cfg w) = Inr ()"
    and v': "view w' = put_zset SIGNALING_NODES_KEY (\<lambda>n. case zset_of ?st SIGNALING_NODES_KEY n of None \<Rightarrow> None
      | Some x \<Rightarrow> if x \<le> of_int cutoff then None else Some x) (view w10)"
    using remove_heartbeats_eval [OF z10, of cutoff] n10 by (simp_all add: w' zset_of_def)
  have "swept (json E) ?st live cutoff (view w') \<and> tables_typed (json E) (view w')"
    by (rule passes_sweep [OF typed bs(2) r4(2) ms(2) v6 v8 ss(2) v10(2) v'])
  then show ?thesis using res by blast
qed

end

section \<open>Waiting for Redis\<close>

text \<open>The world at the start of each attempt.\<close>

fun attempt :: "('w, 'z) sup_env_scheme \<Rightarrow> nat \<Rightarrow> 'w \<Rightarrow> 'w" where
  "attempt E 0 w = w"
| "attempt E (Suc n) w = attempt E n (snd (deadline_passed E (snd (health_ping E w))))"

definition answered_at :: "('w, 'z) sup_env_scheme \<Rightarrow> 'w \<Rightarrow> nat \<Rightarrow> bool" where
  "answered_at E w n \<longleftrightarrow> (case fst (health_ping E (attempt E n w)) of Inl _ \<Rightarrow> False | Inr _ \<Rightarrow> True)"

definition late_at :: "('w, 'z) sup_env_scheme \<Rightarrow> 'w \<Rightarrow> nat \<Rightarrow> bool" where
  "late_at E w n \<longleftrightarrow> fst (deadline_passed E (snd (health_ping E (attempt E n w))))"

lemma attempt_Suc [simp]:
  "answered_at E (snd (deadline_passed E (snd (health_ping E w)))) n = answered_at E w (Suc n)"
  "late_at E (snd (deadline_passed E (snd (health_ping E w)))) n = late_at E w (Suc n)"
  by (simp_all add: answered_at_def late_at_def)

lemma wait_runs:
  assumes "answered_at E w k \<or> late_at E w k" "\<forall>j < k. \<not> answered_at E w j \<and> \<not> late_at E w j"
  shows "fst (wait_for_redis E n w) = (if n \<le> k then None
    else Some (if answered_at E w k then Inr () else Inl ''Redis not reachable within timeout''))"
  using assms
proof (induction n arbitrary: w k)
  case (Suc n)
  show ?case
  proof (cases k)
    case 0
    then show ?thesis using Suc.prems(1)
      by (auto simp: prog_simps answered_at_def late_at_def split: sum.splits)
  next
    case (Suc j)
    let ?w = "snd (deadline_passed E (snd (health_ping E w)))"
    have first: "\<not> answered_at E w 0 \<and> \<not> late_at E w 0" using Suc.prems(2) Suc by blast
    have "\<forall>i < j. \<not> answered_at E ?w i \<and> \<not> late_at E ?w i" using Suc.prems(2) Suc by simp
    with Suc.IH [of ?w j] Suc.prems(1) Suc first show ?thesis
      by (auto simp: prog_simps answered_at_def [of E w 0] late_at_def [of E w 0] split: sum.splits)
  qed
qed (simp add: prog_simps)

section \<open>Inventory text\<close>

definition entry_text :: "SfuInventoryInstance \<Rightarrow> string" where
  "entry_text e = inv_instance_id e @ ''|'' @ inv_grpc_addr e @ ''|'' @ show_nat (unat (inv_max_rooms e))"

fun inventory_text :: "SfuInventoryInstance list \<Rightarrow> string" where
  "inventory_text [] = []"
| "inventory_text [e] = entry_text e"
| "inventory_text (e # es) = entry_text e @ '';'' @ inventory_text es"

text \<open>A name the format can carry: not blank, without separators, without space around it.\<close>

definition plain_name :: "string \<Rightarrow> bool" where
  "plain_name s \<longleftrightarrow> s \<noteq> [] \<and> trim s = s \<and> CHR ''|'' \<notin> set s \<and> CHR '';'' \<notin> set s"

lemma parse_entry_text:
  assumes "plain_name (inv_instance_id e)" "plain_name (inv_grpc_addr e)"
  shows "parse_sfu_entry (entry_text e) = Inr e"
proof -
  have bar: "CHR ''|'' \<notin> set (show_nat n)" for n by (rule show_nat_no_char) (simp add: is_digit_def)
  have "split_on (CHR ''|'') (entry_text e) = [inv_instance_id e, inv_grpc_addr e, show_nat (unat (inv_max_rooms e))]"
    using assms bar by (simp add: entry_text_def plain_name_def split_on_append split_on_single)
  then show ?thesis
    using assms by (cases e) (simp add: parse_sfu_entry_def part_def plain_name_def nonempty_def parse_u32_show)
qed

lemma trim_not_blank:
  assumes "c \<in> set s" "\<not> is_whitespace c"
  shows "trim s \<noteq> []"
proof -
  have "c \<in> set (takeWhile is_whitespace s) \<or> c \<in> set (dropWhile is_whitespace s)"
    using assms(1) by (metis Un_iff set_append takeWhile_dropWhile_id)
  then have "c \<in> set (dropWhile is_whitespace s)" using assms(2) set_takeWhileD by metis
  then show ?thesis using assms(2) by (auto simp: trim_def trim_start_def trim_end_def)
qed

lemma entry_text_facts:
  assumes "plain_name (inv_instance_id e)" "plain_name (inv_grpc_addr e)"
  shows "CHR '';'' \<notin> set (entry_text e)" "trim (entry_text e) \<noteq> []" "trim (entry_text e @ s) \<noteq> []"
proof -
  have semi: "CHR '';'' \<notin> set (show_nat n)" for n by (rule show_nat_no_char) (simp add: is_digit_def)
  then show "CHR '';'' \<notin> set (entry_text e)" using assms by (simp add: entry_text_def plain_name_def)
  have "CHR ''|'' \<in> set (entry_text e)" by (simp add: entry_text_def)
  moreover have "\<not> is_whitespace (CHR ''|'')" by (simp add: is_whitespace_def)
  ultimately show "trim (entry_text e) \<noteq> []" "trim (entry_text e @ s) \<noteq> []"
    using trim_not_blank [of "CHR ''|''" "entry_text e"] trim_not_blank [of "CHR ''|''" "entry_text e @ s"] by simp_all
qed

lemma split_inventory:
  assumes "\<forall>e \<in> set es. plain_name (inv_instance_id e) \<and> plain_name (inv_grpc_addr e)" "es \<noteq> []"
  shows "split_on (CHR '';'') (inventory_text es) = map entry_text es \<and> trim (inventory_text es) \<noteq> []"
  using assms
  by (induction es rule: inventory_text.induct) (simp_all add: entry_text_facts split_on_append split_on_single)

lemma collect_entries:
  assumes "\<forall>e \<in> set es. plain_name (inv_instance_id e) \<and> plain_name (inv_grpc_addr e)"
  shows "collect_results parse_sfu_entry (map entry_text es) = Inr es"
  using assms by (induction es) (simp_all add: parse_entry_text result_bind_def)

section \<open>Probes\<close>

text \<open>Connecting to a service and asking whether it is there leave the keys of the store alone.\<close>

locale sup_world = store_world E view for E :: "('w, 'z) sup_env_scheme" and view +
  assumes connect_view: "view (snd (grpc_connect E addr t w)) = view w"
    and ping_view: "view (snd (admin_rpc E ch AdminPing w)) = view w"
begin

lemma ping_admin_view: "view (snd (ping_signaling_admin E addr t w)) = view w"
  by (auto simp: ping_signaling_admin_def grpc_channel_def prog_simps connect_view ping_view split: sum.split)

lemma probe_eval:
  assumes "is_zset (view w) SIGNALING_NODES_KEY"
    and "run = ping_signaling_admin E (adm_grpc_addr inst) (sup_rpc_connect_timeout cfg) w" "now = fst (unix_time E (snd run))"
  shows "view (snd (probe_signaling_instance E cfg inst w)) =
    (case fst run of
       Inr _ \<Rightarrow> put_zset SIGNALING_NODES_KEY ((zset_of (view w) SIGNALING_NODES_KEY)(adm_node_id inst \<mapsto> of_int now)) (view w)
     | Inl _ \<Rightarrow> if \<exists>x. zset_of (view w) SIGNALING_NODES_KEY (adm_node_id inst) = Some x
           \<and> of_int (sub_i64 now (cast_i64 (stale_secs cfg))) \<le> x
         then view w
         else put_zset SIGNALING_NODES_KEY ((zset_of (view w) SIGNALING_NODES_KEY)(adm_node_id inst := None)) (view w))"
proof -
  have v: "view (snd run) = view w" by (simp add: assms(2) ping_admin_view)
  have z: "is_zset (view (snd run)) SIGNALING_NODES_KEY" using assms(1) by (simp add: v)
  obtain al where al: "fst (alive_signaling_nodes E (stale_secs cfg) (snd run)) = Inr al"
    "set al = {n. \<exists>x. zset_of (view (snd run)) SIGNALING_NODES_KEY n = Some x \<and> of_int (sub_i64 now (cast_i64 (stale_secs cfg))) \<le> x}"
    "view (snd (alive_signaling_nodes E (stale_secs cfg) (snd run))) = view (snd run)"
    by (rule alive_nodes_eval [OF z, of "stale_secs cfg", folded assms(3)])
  have seen: "view (snd (write_signaling_node_seen E n t (snd (unix_time E (snd run))))) =
      put_zset SIGNALING_NODES_KEY ((zset_of (view w) SIGNALING_NODES_KEY)(n \<mapsto> of_int t)) (view w)" for n t
    using z by (subst node_seen_eval) (simp_all add: clock_view v)
  have gone: "view (snd (remove_signaling_node E n (snd (alive_signaling_nodes E (stale_secs cfg) (snd run))))) =
      put_zset SIGNALING_NODES_KEY ((zset_of (view w) SIGNALING_NODES_KEY)(n := None)) (view w)" for n
    using z by (simp add: remove_signaling_node_def store_eval al(3) v)
  have "snd (probe_signaling_instance E cfg inst w) =
     (case fst run of Inr _ \<Rightarrow> snd (write_signaling_node_seen E (adm_node_id inst) now (snd (unix_time E (snd run))))
      | Inl _ \<Rightarrow> if adm_node_id inst \<in> set al then snd (alive_signaling_nodes E (stale_secs cfg) (snd run))
          else snd (remove_signaling_node E (adm_node_id inst) (snd (alive_signaling_nodes E (stale_secs cfg) (snd run)))))"
    by (simp add: probe_signaling_instance_def check_and_purge_dead_signaling_def prog_simps unix_now_def assms(2) [symmetric]
        assms(3) al(1) split: sum.split)
  then show ?thesis by (auto simp: seen gone al(2,3) v split: sum.split)
qed

end

section \<open>Properties\<close>


text \<open>
  C31. Probes decide who is offered. A node that answers a probe is recorded with the time of the probe; one that does not answer keeps its record
  while it is fresh and loses it once it is stale; no other key changes. So the connector offers a node that answered exactly until the
  threshold has passed, and never one that failed a probe with a stale record.
\<close>

theorem probe_tracks_liveness:
  assumes "sup_world E view" "is_zset (view w) SIGNALING_NODES_KEY"
    and "run = ping_signaling_admin E (adm_grpc_addr inst) (sup_rpc_connect_timeout cfg) w" "now = fst (unix_time E (snd run))"
    and "st' = view (snd (probe_signaling_instance E cfg inst w))"
    and "sig \<in> set (signaling_instances ccfg)" "sig_id sig = adm_node_id inst"
    and "fresh = (\<exists>x. zset_of (view w) SIGNALING_NODES_KEY (adm_node_id inst) = Some x
      \<and> of_int (sub_i64 now (cast_i64 (stale_secs cfg))) \<le> x)"
  shows "(case fst run of
      Inr _ \<Rightarrow> sig \<in> set (live_signaling st' ccfg t)
        \<longleftrightarrow> sub_i64 t (wrap_i64 (int (signaling_stale_timeout ccfg div 1000))) \<le> now
    | Inl _ \<Rightarrow> if fresh then st' = view w else sig \<notin> set (live_signaling st' ccfg t))
    \<and> (\<forall>k. k \<noteq> SIGNALING_NODES_KEY \<longrightarrow> st' k = view w k)
    \<and> (\<forall>n. n \<noteq> adm_node_id inst \<longrightarrow> zset_of st' SIGNALING_NODES_KEY n = zset_of (view w) SIGNALING_NODES_KEY n)"
  using sup_world.probe_eval [OF assms(1-4)] assms(5-8)
  by (auto simp: live_signaling_def split: sum.split)

text \<open>
  C32. The heartbeat opens the gate. After a heartbeat the connector's check passes exactly while no more time has gone by than
  the configured number of seconds; then it refuses until the next heartbeat.
\<close>

theorem heartbeat_opens_gate:
  fixes E :: "('w, 'z) sup_env_scheme" and C :: "('w, 'y) conn_env_scheme"
  assumes "store_world E view" "conn_world C view" "is_hash (view w) SUPERVISOR_HEARTBEAT_KEY"
    and "now = fst (unix_time E w)" "- (2 ^ 63) \<le> now" "now < 2 ^ 63" "w' = snd (heartbeat_tick E inst_id w)"
    and "t = fst (unix_time C (snd (get_supervisor_status C w')))" "now \<le> t" "t - now < 2 ^ 63"
  shows "fst (check_supervisor_freshness C cfg w') =
      (if t - now \<le> sint (supervisor_stale_sec cfg) then Inr () else Inl SupervisorUnavailable)
    \<and> view (snd (check_supervisor_freshness C cfg w')) = view w'"
proof -
  have h: "is_hash (view (snd (unix_time E w))) SUPERVISOR_HEARTBEAT_KEY"
    using assms(3) by (simp add: redis_server.clock_view [OF redis_up.axioms(1) [OF redis_scan.axioms(1) [OF store_world.axioms(1) [OF assms(1)]]]])
  have v: "hash_of (view w') SUPERVISOR_HEARTBEAT_KEY ''last_seen_unix'' = Some (show_int now)"
    "is_hash (view w') SUPERVISOR_HEARTBEAT_KEY"
    using store_world.heartbeat_eval(2) [OF assms(1) h, of "Some inst_id" now]
    by (simp_all add: assms(7) heartbeat_tick_def prog_simps unix_now_def assms(4))
  then have "supervisor_fresh (view w') cfg t \<longleftrightarrow> sub_i64 t now \<le> cast_i64 (supervisor_stale_sec cfg)"
    using assms(5,6) by (auto simp: supervisor_fresh_def Let_def supervisor_status_of_def parse_i64_show_int)
  then show ?thesis
    using conn_world.freshness_eval [OF assms(2) v(2) assms(8), of cfg] assms(9,10) by (simp add: sub_i64_id cast_i64_def)
qed

text \<open>
  C40. Waiting for Redis ends. If at some attempt Redis answers or the deadline has passed, the wait returns after the first such
  attempt, whatever larger bound on the attempts is taken, and not before: with success exactly when Redis answered at it.
\<close>

theorem wait_for_redis_returns:
  assumes "answered_at E w n \<or> late_at E w n"
  shows "\<exists>k \<le> n. (\<forall>j < k. \<not> answered_at E w j \<and> \<not> late_at E w j) \<and> (\<forall>m. fst (wait_for_redis E m w) =
      (if m \<le> k then None else Some (if answered_at E w k then Inr () else Inl ''Redis not reachable within timeout'')))"
proof -
  define k where "k = (LEAST k. answered_at E w k \<or> late_at E w k)"
  have k: "answered_at E w k \<or> late_at E w k" "k \<le> n" using assms unfolding k_def by (rule LeastI, rule Least_le)
  have "\<forall>j < k. \<not> answered_at E w j \<and> \<not> late_at E w j" unfolding k_def using not_less_Least by blast
  with wait_runs [OF k(1) this] k(2) show ?thesis by blast
qed

text \<open>
  The inventory text. Instances whose names are plain are read back exactly from their text, in order, whatever
  their number and capacities.
\<close>

theorem inventory_roundtrip:
  assumes "\<forall>e \<in> set es. plain_name (inv_instance_id e) \<and> plain_name (inv_grpc_addr e)"
  shows "parse_sfu_instances (inventory_text es) = Inr es"
proof (cases "es = []")
  case False
  have "filter (\<lambda>e. trim e \<noteq> []) (map entry_text es) = map entry_text es" using assms by (simp add: filter_id_conv entry_text_facts)
  with split_inventory [OF assms False] collect_entries [OF assms] show ?thesis by (simp add: parse_sfu_instances_def)
qed (simp add: parse_sfu_instances_def trim_def trim_start_def trim_end_def)

section \<open>Witnesses\<close>

text \<open>In the in-memory world every service answers except at the address \<^verbatim>\<open>down\<close>, and the deadline passes after a
  second.\<close>

definition mem_sup_env :: "sig_mem sup_env" where
  "mem_sup_env = env.extend mem_env
     \<lparr>grpc_connect = (\<lambda>addr t w. (if addr = ''down'' then Inl ''refused'' else Inr 0, w)),
      admin_rpc = (\<lambda>ch req w. (Inr (), w)), sfu_ping_rpc = (\<lambda>ch w. (Inr (), w)),
      deadline_passed = (\<lambda>w. (100 < m_now w, w\<lparr>m_now := m_now w + 1\<rparr>))\<rparr>"

lemma mem_sup_sel [simp]:
  "redis mem_sup_env = mem_redis" "json mem_sup_env = mem_json" "unix_time mem_sup_env = mem_time"
  "new_uuid mem_sup_env = mem_new_uuid" "scan_budget mem_sup_env = 1"
  "grpc_connect mem_sup_env = (\<lambda>addr t w. (if addr = ''down'' then Inl ''refused'' else Inr 0, w))"
  "admin_rpc mem_sup_env = (\<lambda>ch req w. (Inr (), w))" "sfu_ping_rpc mem_sup_env = (\<lambda>ch w. (Inr (), w))"
  "deadline_passed mem_sup_env = (\<lambda>w. (100 < m_now w, w\<lparr>m_now := m_now w + 1\<rparr>))"
  by (simp_all add: mem_sup_env_def mem_env_def env.defs)

interpretation mem_sup: sup_world mem_sup_env mem_view
proof (intro sup_world.intro mem_like_store)
  show "sup_world_axioms mem_sup_env mem_view" by unfold_locales simp_all
qed (simp add: mem_like_def)

definition demo_sup_config :: SupervisorConfig where
  "demo_sup_config = \<lparr>sup_redis_url = ''redis://redis:6379/'', sup_redis_connect_timeout = 2000, sup_redis_op_timeout = 800,
     sup_rpc_connect_timeout = 2000, signaling_admin_instances = [\<lparr>adm_node_id = ''h1:81'', adm_grpc_addr = ''up''\<rparr>],
     sfu_instances = [], probe_interval = 2000, probe_timeout = 1000, sup_signaling_stale_timeout = 30000,
     janitor_interval = 5000, sup_sfu_connect_timeout = 2000, supervisor_instance_id = ''sup''\<rparr>"

lemma conn_demo_rooms:
  "mem_view conn_demo_world (room_binding_key r) = (if r = ''r1'' then Some (HashVal (map_of demo_room), None) else None)"
  "hash_of (mem_view conn_demo_world) (session_key s) = (if s = ''s1'' then [''nickname'' \<mapsto> ''ann'', ''room_id'' \<mapsto> []] else Map.empty)"
  by (auto simp: mem_view_def kview_def conn_demo_world_def sig_demo_world_def sig_keys_def demo_keys_def key_defs hash_of_def fun_eq_iff)

lemma conn_demo_loads: "zset_of (mem_view conn_demo_world) SFU_ROOM_LOAD_KEY = [''a'' \<mapsto> 1, ''b'' \<mapsto> 0]"
  by (auto simp: mem_view_def kview_def conn_demo_world_def sig_demo_world_def sig_keys_def demo_keys_def zset_of_def key_defs)

lemma conn_demo_ok: "sfu_ok mem_json (mem_view conn_demo_world)"
  unfolding mem_view_def
  by (rule sfu_ok_mem) (simp_all add: conn_demo_world_def sig_demo_world_def sig_keys_def demo_keys_def m_hash_def m_zset_def key_defs,
      simp_all add: sfu_a_def sfu_b_def mem_from_to_json)

lemma demo_tables: "tables_typed mem_json (mem_view conn_demo_world)"
proof -
  have "is_hash (mem_view conn_demo_world) (room_binding_key r)" for r
    by (auto simp: is_hash_def conn_demo_rooms demo_room_def fun_eq_iff)
  then show ?thesis
    by (simp add: tables_typed_def conn_demo_ok conn_demo_typed conn_demo_view(6,7) loads_natural_def conn_demo_loads)
qed


theorem probe_tracks_liveness_witness:
  "\<lparr>sig_id = ''h1:81'', ws_url = ''ws://h1''\<rparr> \<in> set (live_signaling (mem_view (snd (probe_signaling_instance mem_sup_env demo_sup_config
      \<lparr>adm_node_id = ''h1:81'', adm_grpc_addr = ''up''\<rparr> conn_demo_world))) demo_conn_config 130)"
  using probe_tracks_liveness [OF mem_sup.sup_world_axioms conn_demo_view(6) refl refl refl, where
      inst = "\<lparr>adm_node_id = ''h1:81'', adm_grpc_addr = ''up''\<rparr>" and cfg = demo_sup_config and ccfg = demo_conn_config and t = 130
      and sig = "\<lparr>sig_id = ''h1:81'', ws_url = ''ws://h1''\<rparr>"]
  by (simp add: ping_signaling_admin_def grpc_channel_def prog_simps mem_time_def)
    (simp add: demo_conn_config_def sub_i64_def wrap_i64_def)

theorem wait_for_redis_returns_witness:
  "fst (wait_for_redis mem_sup_env 1 conn_demo_world) = Some (Inr ())"
proof -
  have "answered_at mem_sup_env conn_demo_world 0"
    using store_world.health_ping_eval [OF mem_sup.store_world_axioms] by (simp add: answered_at_def)
  with wait_for_redis_returns [of mem_sup_env conn_demo_world 0] show ?thesis by (auto simp del: wait_for_redis.simps)
qed

lemma digits: "char_of (50 :: nat) = CHR ''2''" "char_of (55 :: nat) = CHR ''7''"
  by (simp_all add: char_of_eq_iff take_bit_eq_mod)

theorem inventory_roundtrip_witness:
  "parse_sfu_instances ''a|http://a:1|2;b|http://b:1|7'' =
     Inr [\<lparr>inv_instance_id = ''a'', inv_grpc_addr = ''http://a:1'', inv_max_rooms = 2\<rparr>,
          \<lparr>inv_instance_id = ''b'', inv_grpc_addr = ''http://b:1'', inv_max_rooms = 7\<rparr>]"
  using inventory_roundtrip [of "[\<lparr>inv_instance_id = ''a'', inv_grpc_addr = ''http://a:1'', inv_max_rooms = 2\<rparr>,
          \<lparr>inv_instance_id = ''b'', inv_grpc_addr = ''http://b:1'', inv_max_rooms = 7\<rparr>]"]
  by (simp add: plain_name_def trim_def trim_start_def trim_end_def is_whitespace_def entry_text_def show_nat.simps
      digit_char_def digits)

text \<open>A heartbeat at time 100, looked at in the same second.\<close>

theorem heartbeat_opens_gate_witness:
  "fst (check_supervisor_freshness mem_conn_env demo_conn_config (snd (heartbeat_tick mem_sup_env ''sup'' conn_demo_world))) = Inr ()"
proof -
  have clock: "keeps (\<lambda>w. m_now w = t) (redis mem_sup_env c)" "keeps (\<lambda>w. m_now w = t) (unix_time mem_sup_env)" for t c
    by (rule keepsI, simp add: mem_redis_def mem_time_def split: prod.split)+
  have "keeps (\<lambda>w. m_now w = 100) (heartbeat_tick mem_sup_env ''sup'')"
    unfolding heartbeat_tick_def write_supervisor_heartbeat_def unix_now_def store_ops
    by (intro keeps_intros clock)
  then have n: "m_now (snd (heartbeat_tick mem_sup_env ''sup'' conn_demo_world)) = 100" by (rule keepsD) simp
  have now: "100 = fst (unix_time mem_sup_env conn_demo_world)" by (simp add: mem_time_def)
  have t: "100 = fst (unix_time mem_conn_env (snd (get_supervisor_status mem_conn_env (snd (heartbeat_tick mem_sup_env ''sup'' conn_demo_world)))))"
    using keepsD [OF mem_conn_time(1), OF n] by (simp add: mem_time_def)
  from heartbeat_opens_gate [OF mem_sup.store_world_axioms mem_conn.conn_world_axioms conn_demo_view(4) now _ _ refl t, of demo_conn_config]
  show ?thesis by (simp add: demo_conn_config_def)
qed

end
