(* ===== verification/Client_Signaling.thy ===== *)
theory Client_Signaling
  imports Calls_Prelude
begin

text \<open>
  The browser's side of the protocols: \<^verbatim>\<open>client/src/nickname.rs\<close>, \<^verbatim>\<open>connector_api.rs\<close> and
  \<^verbatim>\<open>signaling.rs\<close>. Parameters: the HTTP client, the browser's WebSocket, the JSON texts of
  serde_json, and the callback that takes the events; the callbacks the client registers on the socket are the
  definitions \<open>ws_on_open\<close> to \<open>ws_on_close\<close>.
\<close>

section \<open>Nicknames\<close>

definition MIN_NICKNAME_LEN :: nat where
  "MIN_NICKNAME_LEN = 3"
definition MAX_NICKNAME_LEN :: nat where
  "MAX_NICKNAME_LEN = 24"

definition ERR_CHARS :: string where
  "ERR_CHARS = ''Use only English letters, numbers, and underscores''"
definition ERR_WHITESPACE :: string where
  "ERR_WHITESPACE = ''Spaces and line breaks are not allowed''"

text \<open>\<^verbatim>\<open>str::len\<close> counts the bytes of the UTF-8 text: one below 128, two for the other scalar values modelled.\<close>

definition utf8_len :: "string \<Rightarrow> nat" where
  "utf8_len s = sum_list (map (\<lambda>c. if (of_char c :: nat) < 128 then 1 else 2) s)"

definition ascii_nickname_chars_only :: "string \<Rightarrow> bool" where
  "ascii_nickname_chars_only value = list_all (\<lambda>c. is_ascii_alphanumeric c \<or> c = CHR ''_'') value"

definition validate_no_whitespace :: "string \<Rightarrow> string + unit" where
  "validate_no_whitespace value = (if list_ex is_whitespace value then Inl ERR_WHITESPACE else Inr ())"

definition result_then :: "'e + unit \<Rightarrow> 'e + unit \<Rightarrow> 'e + unit" where
  "result_then a b = (case a of Inl e \<Rightarrow> Inl e | Inr _ \<Rightarrow> b)"

definition validate_charset :: "string \<Rightarrow> string + unit" where
  "validate_charset value = result_then (validate_no_whitespace value)
     (if ascii_nickname_chars_only value then Inr () else Inl ERR_CHARS)"

definition validate_shape_when_nonempty :: "string \<Rightarrow> string + unit" where
  "validate_shape_when_nonempty value =
     (if value = [] then Inl ''Nickname is required''
      else if utf8_len value < MIN_NICKNAME_LEN then Inl ''Use at least 3 characters''
      else if utf8_len value > MAX_NICKNAME_LEN then Inl ''Use up to 24 characters''
      else if list_all (\<lambda>c. c = CHR ''_'') value then Inl ''Nickname cannot contain only underscores''
      else Inr ())"

definition client_validate_nickname :: "string \<Rightarrow> string + unit" where
  "client_validate_nickname value = result_then (validate_charset value) (validate_shape_when_nonempty value)"

definition validate_nickname_live :: "string \<Rightarrow> bool \<Rightarrow> string + unit" where
  "validate_nickname_live value submit_attempted = result_then (validate_charset value)
     (if submit_attempted then validate_shape_when_nonempty value else Inr ())"

section \<open>The connector over HTTP\<close>

record ClientAuthResponse =
  resp_nickname :: string
  resp_session_id :: string

record ClientReadyResponse =
  resp_signaling_url :: string
  resp_ready_session :: string
  resp_token :: string

datatype api_request =
    ApiAuth string
  | ApiCreate string
  | ApiJoin string string
  | ApiLogout string
  | ApiRenew string

text \<open>A response: its status, and its body as the three decoders of the client read it.\<close>

record http_response =
  status :: nat
  as_auth :: "ClientAuthResponse option"
  as_ready :: "ClientReadyResponse option"
  as_error :: "string option"

text \<open>\<open>http_post\<close> sends a body to a URL; \<open>api_json\<close> writes a request as JSON.\<close>

record 'w http_env =
  connector_base_url :: "string option"
  api_json :: "api_request \<Rightarrow> string + string"
  http_post :: "string \<Rightarrow> string \<Rightarrow> ('w, string, http_response) prog"

definition trim_end_slashes :: "string \<Rightarrow> string" where
  "trim_end_slashes s = rev (dropWhile (\<lambda>c. c = CHR ''/'') (rev s))"

definition endpoint :: "('w, 'z) http_env_scheme \<Rightarrow> string \<Rightarrow> string" where
  "endpoint H path = (case connector_base_url H of
     Some base \<Rightarrow> if base \<noteq> [] then trim_end_slashes base @ path else path
   | None \<Rightarrow> path)"

definition status_error_message :: "nat \<Rightarrow> string" where
  "status_error_message st =
     (if st = 500 then ''Internal error. Please try again.''
      else if st = 502 \<or> st = 503 \<or> st = 504 then ''Service unavailable. Please try again.''
      else ''Service error. Please try again.'')"

definition post_json :: "('w, 'z) http_env_scheme \<Rightarrow> string \<Rightarrow> string \<Rightarrow> ('w, string, http_response) prog" where
  "post_json H path body = http_post H (endpoint H path) body"

definition refusal_text :: "http_response \<Rightarrow> string" where
  "refusal_text r = (case as_error r of Some message \<Rightarrow> message | None \<Rightarrow> status_error_message (status r))"

definition parse_empty_response :: "http_response \<Rightarrow> string + unit" where
  "parse_empty_response r = (if 200 \<le> status r \<and> status r < 300 then Inr () else Inl (refusal_text r))"

definition parse_json_response :: "(http_response \<Rightarrow> 'a option) \<Rightarrow> http_response \<Rightarrow> string + 'a" where
  "parse_json_response decode r =
     (if 200 \<le> status r \<and> status r < 300
      then (case decode r of Some x \<Rightarrow> Inr x | None \<Rightarrow> Inl ''Internal error: invalid service response format.'')
      else Inl (refusal_text r))"

definition api_call :: "('w, 'z) http_env_scheme \<Rightarrow> string \<Rightarrow> api_request \<Rightarrow> (http_response \<Rightarrow> string + 'a) \<Rightarrow> ('w, string, 'a) prog" where
  "api_call H path req parse = (case api_json H req of Inl err \<Rightarrow> failM err
     | Inr body \<Rightarrow> tryM (post_json H path body) (\<lambda>r. case parse r of Inl e \<Rightarrow> failM e | Inr x \<Rightarrow> okM x))"

definition renew_session :: "('w, 'z) http_env_scheme \<Rightarrow> string \<Rightarrow> ('w, string, unit) prog" where
  "renew_session H session = api_call H ''/session/renew'' (ApiRenew session) parse_empty_response"

definition api_auth :: "('w, 'z) http_env_scheme \<Rightarrow> string \<Rightarrow> ('w, string, ClientAuthResponse) prog" where
  "api_auth H nick = api_call H ''/auth'' (ApiAuth nick) (parse_json_response as_auth)"

definition api_create :: "('w, 'z) http_env_scheme \<Rightarrow> string \<Rightarrow> ('w, string, ClientReadyResponse) prog" where
  "api_create H session = api_call H ''/create'' (ApiCreate session) (parse_json_response as_ready)"

definition api_join :: "('w, 'z) http_env_scheme \<Rightarrow> string \<Rightarrow> string \<Rightarrow> ('w, string, ClientReadyResponse) prog" where
  "api_join H session room = api_call H ''/join'' (ApiJoin session room) (parse_json_response as_ready)"

definition logout_best_effort :: "('w, 'z) http_env_scheme \<Rightarrow> string \<Rightarrow> ('w, unit) act" where
  "logout_best_effort H session = (case api_json H (ApiLogout session) of Inl _ \<Rightarrow> retM ()
     | Inr body \<Rightarrow> ignoreM (http_post H (endpoint H ''/logout'') body))"

definition submit_nickname :: "('w, 'z) http_env_scheme \<Rightarrow> string \<Rightarrow> ('w, string, ClientAuthResponse) prog" where
  "submit_nickname H nick = api_auth H nick"

section \<open>The signaling connection\<close>

datatype SignalingIntent = IntentCreate | IntentJoin string

record SignalingStart =
  start_url :: string
  start_session_id :: string
  start_token :: string
  start_intent :: SignalingIntent

definition signaling_start_new :: "ClientReadyResponse \<Rightarrow> SignalingIntent \<Rightarrow> SignalingStart" where
  "signaling_start_new response wanted = \<lparr>start_url = resp_signaling_url response, start_session_id = resp_ready_session response,
     start_token = resp_token response, start_intent = wanted\<rparr>"

record RoomSnapshot =
  snap_room_id :: string
  snap_your_nickname :: string
  snap_participants :: "string list"

datatype ClientErrorCode =
    InvalidJson | InvalidPayload | Unauthorized | SessionConflict | AlreadyAuthorized | LeaveRoomMismatch
  | RoomNotFound | NicknameTaken | AlreadyInRoom | NotInRoom | SfuCapacityExhausted | SfuUnavailable | SfuRejected
  | InvalidRoomAssignment | StorageUnavailable | WriteFailed

record SignalingError =
  sig_err_code :: "ClientErrorCode option"
  sig_err_message :: string

datatype SignalingEvent =
    Connected
  | Disconnected "string option"
  | RoomReady RoomSnapshot
  | EvParticipantJoined string
  | EvParticipantLeft string
  | EvLeft string
  | EvRoomClosed string string
  | EvError SignalingError
  | EvServiceUnavailable string "32 word"
  | RemoteSdpEvent string string
  | RemoteIceCandidate string string

text \<open>The Debug text of a code is its name; \<open>code_text\<close> is the one the error message starts with.\<close>

definition code_text :: "ClientErrorCode \<Rightarrow> string" where
  "code_text c = (case c of
     InvalidJson \<Rightarrow> ''InvalidJson'' | InvalidPayload \<Rightarrow> ''InvalidPayload'' | Unauthorized \<Rightarrow> ''Unauthorized''
   | SessionConflict \<Rightarrow> ''SessionConflict'' | AlreadyAuthorized \<Rightarrow> ''AlreadyAuthorized''
   | LeaveRoomMismatch \<Rightarrow> ''LeaveRoomMismatch'' | RoomNotFound \<Rightarrow> ''RoomNotFound'' | NicknameTaken \<Rightarrow> ''NicknameTaken''
   | AlreadyInRoom \<Rightarrow> ''AlreadyInRoom'' | NotInRoom \<Rightarrow> ''NotInRoom'' | SfuCapacityExhausted \<Rightarrow> ''SfuCapacityExhausted''
   | SfuUnavailable \<Rightarrow> ''SfuUnavailable'' | SfuRejected \<Rightarrow> ''SfuRejected'' | InvalidRoomAssignment \<Rightarrow> ''InvalidRoomAssignment''
   | StorageUnavailable \<Rightarrow> ''StorageUnavailable'' | WriteFailed \<Rightarrow> ''WriteFailed'')"

definition error_local :: "string \<Rightarrow> SignalingError" where
  "error_local message = \<lparr>sig_err_code = None, sig_err_message = message\<rparr>"

definition error_server :: "ClientErrorCode \<Rightarrow> string \<Rightarrow> SignalingError" where
  "error_server code message = \<lparr>sig_err_code = Some code, sig_err_message = code_text code @ '': '' @ message\<rparr>"

datatype OutMessage =
    OutAttach string
  | OutCreate string
  | OutJoin string string
  | OutLeave string string "string list option"
  | OutSdp string string string
  | OutCandidate string string string

datatype InMessage =
    InAttached string string
  | InLoggedOut string
  | InSdp string string string
  | InCandidate string string string
  | InCreated string string
  | InJoined string string "string list"
  | InRoomClosed string string
  | InLeft string
  | InParticipantJoined string
  | InParticipantLeft string
  | InError ClientErrorCode string
  | InServiceUnavailable string "32 word"

text \<open>
  WebSockets as JavaScript values, with those of their errors; \<open>socket_handlers\<close> registers the four callbacks
  below for a start, or removes them. A data frame arrives as text or as something else.
\<close>

record ('w, 'v) socket_env =
  js_as_string :: "'v \<Rightarrow> string option"
  js_stringify :: "'v \<Rightarrow> string option"
  out_json :: "OutMessage \<Rightarrow> string + string"
  in_json :: "string \<Rightarrow> string + InMessage"
  socket_open :: "string \<Rightarrow> ('w, 'v, 'v) prog"
  socket_send :: "'v \<Rightarrow> string \<Rightarrow> ('w, 'v, unit) prog"
  socket_handlers :: "'v \<Rightarrow> SignalingStart option \<Rightarrow> ('w, unit) act"
  socket_close :: "'v \<Rightarrow> ('w, unit) act"

text \<open>The fields of \<^verbatim>\<open>SignalingClient\<close> and of the transport it hands out.\<close>

record 'v SignalingTransport =
  socket :: 'v
  transport_session :: string

type_synonym 'w event_sink = "SignalingEvent \<Rightarrow> ('w, unit) act"

definition js_error_message :: "('w, 'v, 'z) socket_env_scheme \<Rightarrow> 'v \<Rightarrow> string option" where
  "js_error_message S value = (case js_as_string S value of Some s \<Rightarrow> Some s | None \<Rightarrow> js_stringify S value)"

definition socket_error_text :: "('w, 'v, 'z) socket_env_scheme \<Rightarrow> 'v \<Rightarrow> string" where
  "socket_error_text S value = (case js_error_message S value of Some s \<Rightarrow> s | None \<Rightarrow> ''JavaScript operation failed.'')"

definition send_client_message :: "('w, 'v, 'z) socket_env_scheme \<Rightarrow> 'v \<Rightarrow> OutMessage \<Rightarrow> ('w, string, unit) prog" where
  "send_client_message S sock message =
     (case out_json S message of Inl err \<Rightarrow> failM err
      | Inr text \<Rightarrow> map_errM (\<lambda>err. case js_error_message S err of Some s \<Rightarrow> s | None \<Rightarrow> ''Failed to send signaling message.'')
          (socket_send S sock text))"

definition send_sdp :: "('w, 'v, 'z) socket_env_scheme \<Rightarrow> 'v SignalingTransport \<Rightarrow> string \<Rightarrow> string \<Rightarrow> ('w, string, unit) prog" where
  "send_sdp S tr sdp sdp_type = send_client_message S (socket tr) (OutSdp (transport_session tr) sdp sdp_type)"

definition send_ice_candidate :: "('w, 'v, 'z) socket_env_scheme \<Rightarrow> 'v SignalingTransport \<Rightarrow> string \<Rightarrow> string \<Rightarrow> ('w, string, unit) prog" where
  "send_ice_candidate S tr candidate sdp_mid = send_client_message S (socket tr) (OutCandidate (transport_session tr) candidate sdp_mid)"

definition client_leave :: "('w, 'v, 'z) socket_env_scheme \<Rightarrow> 'v SignalingTransport \<Rightarrow> string \<Rightarrow> string \<Rightarrow> string list \<Rightarrow> ('w, string, unit) prog" where
  "client_leave S client session room participants = send_client_message S (socket client) (OutLeave session room (Some participants))"

text \<open>Send, and report a failure as an event.\<close>

definition send_or_report :: "('w, 'v, 'z) socket_env_scheme \<Rightarrow> 'v \<Rightarrow> 'w event_sink \<Rightarrow> OutMessage \<Rightarrow> ('w, unit) act" where
  "send_or_report S sock events message = bindM (send_client_message S sock message) (\<lambda>r. case r of
     Inl err \<Rightarrow> events (EvError (error_local err)) | Inr _ \<Rightarrow> retM ())"

fun handle_server_message :: "('w, 'v, 'z) socket_env_scheme \<Rightarrow> 'v \<Rightarrow> SignalingStart \<Rightarrow> 'w event_sink \<Rightarrow> InMessage \<Rightarrow> ('w, unit) act" where
  "handle_server_message S sock start events (InAttached _ session) =
     (if session \<noteq> start_session_id start
      then events (EvError (error_local ''Signaling attached an unexpected session.''))
      else send_or_report S sock events (case start_intent start of
          IntentCreate \<Rightarrow> OutCreate (start_session_id start)
        | IntentJoin room \<Rightarrow> OutJoin (start_session_id start) room))"
| "handle_server_message S sock start events (InCreated room you) =
     events (RoomReady \<lparr>snap_room_id = room, snap_your_nickname = you, snap_participants = [you]\<rparr>)"
| "handle_server_message S sock start events (InJoined room you participants) =
     events (RoomReady \<lparr>snap_room_id = room, snap_your_nickname = you,
       snap_participants = (if list_ex (\<lambda>nick. nick = you) participants then participants else participants @ [you])\<rparr>)"
| "handle_server_message S sock start events (InParticipantJoined nick) = events (EvParticipantJoined nick)"
| "handle_server_message S sock start events (InParticipantLeft nick) = events (EvParticipantLeft nick)"
| "handle_server_message S sock start events (InLeft room) = events (EvLeft room)"
| "handle_server_message S sock start events (InRoomClosed room reason) = events (EvRoomClosed room reason)"
| "handle_server_message S sock start events (InError code message) = events (EvError (error_server code message))"
| "handle_server_message S sock start events (InServiceUnavailable dep ms) = events (EvServiceUnavailable dep ms)"
| "handle_server_message S sock start events (InLoggedOut nick) = events (EvError (error_local (nick @ '' logged out.'')))"
| "handle_server_message S sock start events (InSdp _ sdp sdp_type) = events (RemoteSdpEvent sdp sdp_type)"
| "handle_server_message S sock start events (InCandidate _ candidate sdp_mid) = events (RemoteIceCandidate candidate sdp_mid)"

definition ws_on_open :: "('w, 'v, 'z) socket_env_scheme \<Rightarrow> 'v \<Rightarrow> SignalingStart \<Rightarrow> 'w event_sink \<Rightarrow> ('w, unit) act" where
  "ws_on_open S sock start events = bindM (events Connected) (\<lambda>_. send_or_report S sock events (OutAttach (start_token start)))"

definition ws_on_message :: "('w, 'v, 'z) socket_env_scheme \<Rightarrow> 'v \<Rightarrow> SignalingStart \<Rightarrow> 'w event_sink \<Rightarrow> 'v \<Rightarrow> ('w, unit) act" where
  "ws_on_message S sock start events data =
     (case js_as_string S data of
        None \<Rightarrow> events (EvError (error_local ''Unsupported binary signaling message.''))
      | Some text \<Rightarrow> (case in_json S text of
          Inl err \<Rightarrow> events (EvError (error_local (''Invalid signaling message: '' @ err)))
        | Inr message \<Rightarrow> handle_server_message S sock start events message))"

definition ws_on_error :: "'w event_sink \<Rightarrow> ('w, unit) act" where
  "ws_on_error events = events (EvError (error_local ''Signaling WebSocket error.''))"

definition ws_on_close :: "'w event_sink \<Rightarrow> string \<Rightarrow> ('w, unit) act" where
  "ws_on_close events reason = events (Disconnected (if reason = [] then None else Some reason))"

definition client_connect :: "('w, 'v, 'z) socket_env_scheme \<Rightarrow> SignalingStart \<Rightarrow> ('w, string, 'v SignalingTransport) prog" where
  "client_connect S start = tryM (map_errM (socket_error_text S) (socket_open S (start_url start))) (\<lambda>sock.
     bindM (socket_handlers S sock (Some start)) (\<lambda>_. okM \<lparr>socket = sock, transport_session = start_session_id start\<rparr>))"

definition client_drop :: "('w, 'v, 'z) socket_env_scheme \<Rightarrow> 'v SignalingTransport \<Rightarrow> ('w, unit) act" where
  "client_drop S client = bindM (socket_handlers S (socket client) None) (\<lambda>_. socket_close S (socket client))"

end
