(* ===== verification/Client_Sdp.thy ===== *)
theory Client_Sdp
  imports Client_Signaling
begin

text \<open>
  The texts of the media plane in \<^verbatim>\<open>client/src/webrtc_room.rs\<close>: the offer that is rewritten for the
  fixed slots of the SFU, the ids of relayed tracks, the microphone level, and the counter of captures.
\<close>

section \<open>Text\<close>

abbreviation NL :: char where "NL \<equiv> CHR 0x0A"
abbreviation CR :: char where "CR \<equiv> CHR 0x0D"

text \<open>\<^verbatim>\<open>replace\<close> from CRLF to LF and back.\<close>

fun crlf_to_lf :: "string \<Rightarrow> string" where
  "crlf_to_lf [] = []"
| "crlf_to_lf [c] = [c]"
| "crlf_to_lf (c # d # s) = (if c = CR \<and> d = NL then NL # crlf_to_lf s else c # crlf_to_lf (d # s))"

definition lf_to_crlf :: "string \<Rightarrow> string" where
  "lf_to_crlf s = concat (map (\<lambda>c. if c = NL then [CR, NL] else [c]) s)"

text \<open>\<^verbatim>\<open>str::split\<close> on a nonempty text, \<^verbatim>\<open>join\<close>, \<^verbatim>\<open>starts_with\<close> and \<^verbatim>\<open>trim_start_matches\<close>.\<close>

definition push_char :: "char \<Rightarrow> string list \<Rightarrow> string list" where
  "push_char c ws = (case ws of [] \<Rightarrow> [[c]] | v # vs \<Rightarrow> (c # v) # vs)"

lemma strip_prefix_length: "strip_prefix p s = Some r \<Longrightarrow> length r \<le> length s"
  by (simp add: strip_prefix_iff)

function split_str :: "string \<Rightarrow> string \<Rightarrow> string list" where
  "split_str p [] = [[]]"
| "split_str p (c # s) =
     (if p \<noteq> [] \<and> c = hd p
      then (case strip_prefix (tl p) s of Some r \<Rightarrow> [] # split_str p r | None \<Rightarrow> push_char c (split_str p s))
      else push_char c (split_str p s))"
  by pat_completeness auto
termination
  by (relation "measure (\<lambda>(p, s). length s)") (auto dest: strip_prefix_length)

fun join_with :: "string \<Rightarrow> string list \<Rightarrow> string" where
  "join_with d [] = []"
| "join_with d [s] = s"
| "join_with d (s # t # ts) = s @ d @ join_with d (t # ts)"

definition starts_with :: "string \<Rightarrow> string \<Rightarrow> bool" where
  "starts_with p s \<longleftrightarrow> strip_prefix p s \<noteq> None"

function trim_start_matches :: "string \<Rightarrow> string \<Rightarrow> string" where
  "trim_start_matches p s = (if p = [] then s else (case strip_prefix p s of None \<Rightarrow> s | Some r \<Rightarrow> trim_start_matches p r))"
  by pat_completeness auto
termination
  by (relation "measure (\<lambda>(p, s). length s)") (auto simp: strip_prefix_iff)

declare trim_start_matches.simps [simp del]

definition ascii_lower :: "char \<Rightarrow> char" where
  "ascii_lower c = (let n = of_char c :: nat in if 65 \<le> n \<and> n \<le> 90 then char_of (n + 32) else c)"

definition eq_ignore_ascii_case :: "string \<Rightarrow> string \<Rightarrow> bool" where
  "eq_ignore_ascii_case a b \<longleftrightarrow> map ascii_lower a = map ascii_lower b"

section \<open>The offer for the SFU\<close>

type_synonym mid_map = "(string \<times> string) list"

definition rewrite_mid_line :: "string \<Rightarrow> string \<Rightarrow> string" where
  "rewrite_mid_line next_mid line = (if starts_with ''a=mid:'' line then ''a=mid:'' @ next_mid else line)"

definition old_mids :: "string \<Rightarrow> string list \<Rightarrow> mid_map" where
  "old_mids next_mid ls = map (\<lambda>line. (trim_start_matches ''a=mid:'' line, next_mid)) (filter (starts_with ''a=mid:'') ls)"

definition rewrite_section_mid :: "string \<Rightarrow> string \<Rightarrow> mid_map \<Rightarrow> string \<times> mid_map" where
  "rewrite_section_mid section_text next_mid mids =
     (join_with [NL] (map (rewrite_mid_line next_mid) (str_lines section_text)), mids @ old_mids next_mid (str_lines section_text))"

definition rewrite_bundle_line :: "mid_map \<Rightarrow> string \<Rightarrow> string" where
  "rewrite_bundle_line mids line =
     (if \<not> starts_with ''a=group:BUNDLE'' line then line
      else if mids = [] then line
      else ''a=group:BUNDLE '' @ join_with '' '' (map snd mids))"

definition rewrite_bundle_group :: "string \<Rightarrow> mid_map \<Rightarrow> string" where
  "rewrite_bundle_group session_text mids = join_with [NL] (map (rewrite_bundle_line mids) (str_lines session_text))"

text \<open>The closure over the sections, with its counter of video sections and the map of mids.\<close>

fun rewrite_sections :: "string list \<Rightarrow> nat \<Rightarrow> mid_map \<Rightarrow> string list \<times> mid_map" where
  "rewrite_sections [] video_seen mids = ([], mids)"
| "rewrite_sections (sec # secs) video_seen mids =
     (let full = ''m='' @ sec in
      if starts_with ''m=audio'' full
      then (let (t, mids1) = rewrite_section_mid full ''audio_main'' mids;
                (ts, mids2) = rewrite_sections secs video_seen mids1 in (t # ts, mids2))
      else if starts_with ''m=video'' full
      then (let (t, mids1) = rewrite_section_mid full
                  (if video_seen + 1 = 1 then ''video_camera'' else ''video_screen'') mids;
                (ts, mids2) = rewrite_sections secs (video_seen + 1) mids1 in (t # ts, mids2))
      else (let (ts, mids2) = rewrite_sections secs video_seen mids in (full # ts, mids2)))"

fun append_sections :: "string \<Rightarrow> string list \<Rightarrow> string" where
  "append_sections out [] = out"
| "append_sections out (sec # secs) =
     append_sections ((if ends_with [NL] out then out else out @ [NL]) @ sec) secs"

definition rewrite_offer_mids_for_sfu :: "string \<Rightarrow> string" where
  "rewrite_offer_mids_for_sfu sdp =
     (case split_str (NL # ''m='') (crlf_to_lf sdp) of
        [] \<Rightarrow> sdp
      | session_text # sections \<Rightarrow>
          (let (texts, mids) = rewrite_sections sections 0 []
           in lf_to_crlf (append_sections (rewrite_bundle_group session_text mids) texts)))"

section \<open>Tracks, levels, captures\<close>

datatype RemoteSource = SourceCamera | SourceScreen

definition remote_source_from_relay_track_id :: "string \<Rightarrow> (string \<times> RemoteSource) option" where
  "remote_source_from_relay_track_id track_id =
     (case split_once (CHR ''|'') track_id of None \<Rightarrow> None
      | Some (publisher, source_track_id) \<Rightarrow>
          (case split_once (CHR '':'') source_track_id of None \<Rightarrow> None
           | Some (source_type, _) \<Rightarrow>
               if publisher = [] \<or> source_type = [] then None
               else Some (publisher, if source_type = ''screen'' then SourceScreen else SourceCamera)))"

text \<open>\<^verbatim>\<open>f64\<close> as a real: the quotient is not rounded.\<close>

definition level_to_gain :: "32 word \<Rightarrow> real" where
  "level_to_gain input_level = max 0 (min 1 (real (unat (min input_level 100)) / 100))"

text \<open>\<^verbatim>\<open>u64::saturating_add(1)\<close>.\<close>

definition next_count :: "64 word \<Rightarrow> 64 word" where
  "next_count g = (if g = - 1 then g else g + 1)"

end
