(* ===== verification/Client_Media.thy ===== *)
theory Client_Media
  imports Client_Sdp
begin

text \<open>
  The WebRTC session of a call, \<^verbatim>\<open>client/src/webrtc_room.rs\<close>: capture and its replacement, the screen
  share, remote tracks and descriptions, the end of the session. Parameters: the browser (properties and calls of
  JavaScript values, promises, media streams, the peer connection) and the executor of spawned tasks. The \<^verbatim>\<open>Rc\<close>
  cells of a session live in a store under the identity of the session, since a task that outlives its session keeps its
  own cells. A promise that is awaited may change the whole state: other tasks run there.
\<close>

section \<open>The browser\<close>

record ('w, 'v) browser = "('w, 'v) socket_env" +
  js_string :: "string \<Rightarrow> 'v"
  js_number :: "real \<Rightarrow> 'v"
  js_bool :: "bool \<Rightarrow> 'v"
  js_null :: 'v
  js_undefined :: 'v
  js_object :: "('w, 'v) act"
  js_array :: "'v list \<Rightarrow> ('w, 'v) act"
  js_get :: "'v \<Rightarrow> string \<Rightarrow> ('w, 'v, 'v) prog"
  js_set :: "'v \<Rightarrow> string \<Rightarrow> 'v \<Rightarrow> ('w, 'v, bool) prog"
  js_apply :: "'v \<Rightarrow> 'v \<Rightarrow> 'v list \<Rightarrow> ('w, 'v, 'v) prog"
  js_await :: "'v \<Rightarrow> ('w, 'v, 'v) prog"
  js_debug :: "'v \<Rightarrow> string"
  is_function :: "'v \<Rightarrow> bool"
  is_promise :: "'v \<Rightarrow> bool"
  is_stream :: "'v \<Rightarrow> bool"
  is_track :: "'v \<Rightarrow> bool"
  js_window :: "'v option"
  media_devices :: "'v \<Rightarrow> ('w, 'v, 'v) prog"
  user_media_promise :: "'v \<Rightarrow> 'v \<Rightarrow> 'v \<Rightarrow> ('w, 'v, 'v) prog"
  new_stream :: "('w, 'v, 'v) prog"
  stream_tracks :: "'v \<Rightarrow> ('w, 'v list) act"
  audio_tracks :: "'v \<Rightarrow> ('w, 'v list) act"
  video_tracks :: "'v \<Rightarrow> ('w, 'v list) act"
  add_track :: "'v \<Rightarrow> 'v \<Rightarrow> ('w, unit) act"
  track_kind :: "'v \<Rightarrow> string"
  track_id :: "'v \<Rightarrow> string"
  track_stop :: "'v \<Rightarrow> ('w, unit) act"
  new_connection :: "'v \<Rightarrow> ('w, 'v, 'v) prog"
  create_offer :: "'v \<Rightarrow> ('w, 'v) act"
  set_local_description :: "'v \<Rightarrow> string \<Rightarrow> string \<Rightarrow> ('w, 'v) act"
  set_remote_description :: "'v \<Rightarrow> string \<Rightarrow> string \<Rightarrow> ('w, 'v) act"
  close_connection :: "'v \<Rightarrow> ('w, unit) act"
  console_error :: "string \<Rightarrow> ('w, unit) act"
  spawn_local :: "('w, unit) act \<Rightarrow> ('w, unit) act"

text \<open>\<open>.ok()\<close>, and \<open>dyn_into\<close> after a property is read.\<close>

definition okayM :: "('w, 'e, 'a) prog \<Rightarrow> ('w, 'a option) act" where
  "okayM m = bindM m (\<lambda>r. retM (case r of Inl _ \<Rightarrow> None | Inr x \<Rightarrow> Some x))"

definition optM :: "('w, 'a option) act \<Rightarrow> ('a \<Rightarrow> ('w, unit, 'b) prog) \<Rightarrow> ('w, unit, 'b) prog" where
  "optM m f = bindM m (\<lambda>r. case r of None \<Rightarrow> failM () | Some x \<Rightarrow> f x)"

definition fn_of :: "('w, 'v, 'z) browser_scheme \<Rightarrow> 'v \<Rightarrow> string \<Rightarrow> ('w, 'v option) act" where
  "fn_of B obj name = bindM (okayM (js_get B obj name))
     (\<lambda>r. retM (case r of Some f \<Rightarrow> if is_function B f then Some f else None | None \<Rightarrow> None))"

definition prop_text :: "('w, 'v, 'z) browser_scheme \<Rightarrow> 'v \<Rightarrow> string \<Rightarrow> ('w, string option) act" where
  "prop_text B obj name = bindM (okayM (js_get B obj name))
     (\<lambda>r. retM (case r of Some v \<Rightarrow> js_as_string B v | None \<Rightarrow> None))"

text \<open>\<open>js_error_to_string\<close> of this module; the text is \<open>fallback\<close> where nothing of the value can be read.\<close>

definition media_error_text :: "('w, 'v, 'z) browser_scheme \<Rightarrow> 'v \<Rightarrow> ('w, string) act" where
  "media_error_text B value =
     bindM (prop_text B value ''name'') (\<lambda>name.
     bindM (prop_text B value ''message'') (\<lambda>m.
       let message = (case m of Some t \<Rightarrow> Some t | None \<Rightarrow> js_as_string B value) in
       retM (case (name, message) of
           (Some n, Some t) \<Rightarrow> if t \<noteq> [] then n @ '': '' @ t else n
         | (Some n, None) \<Rightarrow> n
         | (None, Some t) \<Rightarrow> t
         | (None, None) \<Rightarrow> (case js_stringify B value of Some t \<Rightarrow> t | None \<Rightarrow> ''JavaScript operation failed''))))"

definition text_errM :: "('w, 'v, 'z) browser_scheme \<Rightarrow> ('w, 'v, 'a) prog \<Rightarrow> ('w, string, 'a) prog" where
  "text_errM B m = bindM m (\<lambda>r. case r of Inr x \<Rightarrow> okM x | Inl err \<Rightarrow> bindM (media_error_text B err) failM)"

section \<open>State\<close>

record 'v RemoteParticipantMedia =
  camera :: "'v option"
  screen_media :: "'v option"

definition remote_empty :: "'v RemoteParticipantMedia" where
  "remote_empty = \<lparr>camera = None, screen_media = None\<rparr>"

datatype WebRtcMediaSeverity = Warning | Recoverable | Fatal

record WebRtcMediaError =
  severity :: WebRtcMediaSeverity
  stage :: string
  err_message :: string
  technical :: string

record 'v session_cells =
  local_stream :: "'v option"
  screen_stream :: "'v option"
  audio_sender :: "'v option"
  video_sender :: "'v option"
  screen_sender :: "'v option"
  mic_audio_ctx :: "'v option"
  mic_gain_param :: "'v option"
  media_generation :: "64 word"
  closed :: bool
  streams_map :: "string \<rightharpoonup> 'v RemoteParticipantMedia"

text \<open>The store of cells; the rest of the page extends it.\<close>

record 'v page =
  cells :: "nat \<Rightarrow> 'v session_cells"
  next_sid :: nat

text \<open>The fields of \<^verbatim>\<open>WebRtcRoomSession\<close> that never change.\<close>

record 'v WebRtcRoomSession =
  sid :: nat
  pc :: 'v
  signaling :: "'v SignalingTransport"

datatype slot = AudioSlot | VideoSlot | ScreenSlot

fun sender_of :: "slot \<Rightarrow> 'v session_cells \<Rightarrow> 'v option" where
  "sender_of AudioSlot c = audio_sender c"
| "sender_of VideoSlot c = video_sender c"
| "sender_of ScreenSlot c = screen_sender c"

fun set_sender :: "slot \<Rightarrow> 'v option \<Rightarrow> 'v session_cells \<Rightarrow> 'v session_cells" where
  "set_sender AudioSlot v c = c\<lparr>audio_sender := v\<rparr>"
| "set_sender VideoSlot v c = c\<lparr>video_sender := v\<rparr>"
| "set_sender ScreenSlot v c = c\<lparr>screen_sender := v\<rparr>"

definition cellM :: "'v WebRtcRoomSession \<Rightarrow> ('v session_cells \<Rightarrow> 'a) \<Rightarrow> (('v, 'x) page_scheme, 'a) act" where
  "cellM h f = getM (\<lambda>s. f (cells s (sid h)))"

definition setM :: "'v WebRtcRoomSession \<Rightarrow> ('v session_cells \<Rightarrow> 'v session_cells) \<Rightarrow> (('v, 'x) page_scheme, unit) act" where
  "setM h u = modM (\<lambda>s. s\<lparr>cells := (cells s)(sid h := u (cells s (sid h)))\<rparr>)"

section \<open>Generations\<close>

definition next_generation :: "'v WebRtcRoomSession \<Rightarrow> (('v, 'x) page_scheme, 64 word) act" where
  "next_generation h = bindM (setM h (\<lambda>c. c\<lparr>media_generation := next_count (media_generation c)\<rparr>))
     (\<lambda>_. cellM h media_generation)"

definition stale :: "64 word \<Rightarrow> 'v session_cells \<Rightarrow> bool" where
  "stale g c \<longleftrightarrow> closed c \<or> media_generation c \<noteq> g"

definition is_stale :: "'v WebRtcRoomSession \<Rightarrow> 64 word \<Rightarrow> (('v, 'x) page_scheme, bool) act" where
  "is_stale h generation = cellM h (stale generation)"

section \<open>Helpers\<close>

definition severity_text :: "WebRtcMediaSeverity \<Rightarrow> string" where
  "severity_text sev = (case sev of Warning \<Rightarrow> ''Warning'' | Recoverable \<Rightarrow> ''Recoverable'' | Fatal \<Rightarrow> ''Fatal'')"

definition log_media_error :: "('w, 'v, 'z) browser_scheme \<Rightarrow> WebRtcMediaError \<Rightarrow> ('w, unit) act" where
  "log_media_error B e = console_error B (''WebRTC media error ['' @ severity_text (severity e) @ ''] '' @ stage e @ '': ''
     @ err_message e @ '' ('' @ technical e @ '')'')"

definition emit_error :: "('w, 'v, 'z) browser_scheme \<Rightarrow> (WebRtcMediaError \<Rightarrow> ('w, unit) act)
    \<Rightarrow> WebRtcMediaSeverity \<Rightarrow> string \<Rightarrow> string \<Rightarrow> string \<Rightarrow> ('w, unit) act" where
  "emit_error B callback sev stg msg tech =
     (let e = \<lparr>severity = sev, stage = stg, err_message = msg, technical = tech\<rparr>
      in bindM (log_media_error B e) (\<lambda>_. callback e))"

definition first_track_kind :: "('w, 'v, 'z) browser_scheme \<Rightarrow> 'v \<Rightarrow> string \<Rightarrow> ('w, 'v option) act" where
  "first_track_kind B stream kind = bindM (stream_tracks B stream)
     (\<lambda>ts. retM (List.find (\<lambda>t. is_track B t \<and> eq_ignore_ascii_case (track_kind B t) kind) ts))"

definition stop_all_tracks :: "('w, 'v, 'z) browser_scheme \<Rightarrow> 'v \<Rightarrow> ('w, unit) act" where
  "stop_all_tracks B stream = bindM (stream_tracks B stream)
     (forM (\<lambda>t. if is_track B t then track_stop B t else retM ()))"

definition create_peer_connection :: "('w, 'v, 'z) browser_scheme \<Rightarrow> ('w, string, 'v) prog" where
  "create_peer_connection B =
     bindM (js_object B) (\<lambda>config. bindM (js_object B) (\<lambda>server.
     bindM (js_set B server ''urls'' (js_string B ''stun:stun.l.google.com:19302'')) (\<lambda>_.
     bindM (js_array B [server]) (\<lambda>ice_servers.
     bindM (js_set B config ''iceServers'' ice_servers) (\<lambda>_.
       map_errM (\<lambda>e. ''RTCPeerConnection: '' @ js_debug B e) (new_connection B config))))))"

definition add_transceiver_sender :: "('w, 'v, 'z) browser_scheme \<Rightarrow> 'v \<Rightarrow> string \<Rightarrow> ('w, 'v option) act" where
  "add_transceiver_sender B conn kind =
     bindM (okayM (js_get B conn ''addTransceiver'')) (\<lambda>f. case f of None \<Rightarrow> retM None | Some add_fn \<Rightarrow>
     bindM (js_object B) (\<lambda>init. bindM (js_set B init ''direction'' (js_string B ''sendrecv'')) (\<lambda>_.
     bindM (okayM (js_apply B add_fn conn [js_string B kind, init])) (\<lambda>t. case t of None \<Rightarrow> retM None
       | Some transceiver \<Rightarrow> okayM (js_get B transceiver ''sender'')))))"

definition rtc_add_track_return :: "('w, 'v, 'z) browser_scheme \<Rightarrow> 'v \<Rightarrow> 'v \<Rightarrow> 'v \<Rightarrow> ('w, 'v option) act" where
  "rtc_add_track_return B conn track stream =
     bindM (okayM (js_get B conn ''addTrack'')) (\<lambda>f. case f of None \<Rightarrow> retM None
       | Some add_fn \<Rightarrow> okayM (js_apply B add_fn conn [track, stream]))"

definition sender_replace_track :: "('w, 'v, 'z) browser_scheme \<Rightarrow> 'v \<Rightarrow> 'v option \<Rightarrow> ('w, string, unit) prog" where
  "sender_replace_track B sender track =
     bindM (okayM (js_get B sender ''replaceTrack'')) (\<lambda>f. case f of
         None \<Rightarrow> failM ''RTCRtpSender.replaceTrack is not available''
       | Some rep_fn \<Rightarrow> tryM (text_errM B (js_apply B rep_fn sender [case track of Some t \<Rightarrow> t | None \<Rightarrow> js_null B]))
           (\<lambda>out. if is_promise B out then tryM (text_errM B (js_await B out)) (\<lambda>_. okM ()) else okM ()))"

definition send_local_offer :: "('w, 'v, 'z) browser_scheme \<Rightarrow> 'v WebRtcRoomSession \<Rightarrow> ('w, string, unit) prog" where
  "send_local_offer B h =
     bindM (create_offer B (pc h)) (\<lambda>promise.
     tryM (text_errM B (js_await B promise)) (\<lambda>offer.
     bindM (prop_text B offer ''sdp'') (\<lambda>t. case t of None \<Rightarrow> failM ''createOffer returned an SDP without text''
       | Some text \<Rightarrow> (let sdp = rewrite_offer_mids_for_sfu text in
           bindM (set_local_description B (pc h) ''offer'' sdp) (\<lambda>done_promise.
           tryM (text_errM B (js_await B done_promise)) (\<lambda>_.
             send_sdp B (signaling h) sdp ''offer''))))))"

definition media_track_constraint :: "('w, 'v, 'z) browser_scheme \<Rightarrow> bool \<Rightarrow> string \<Rightarrow> ('w, 'v) act" where
  "media_track_constraint B enabled device_id =
     (let did = trim device_id in
      if \<not> enabled then retM (js_bool B False)
      else if did = [] \<or> eq_ignore_ascii_case did ''default'' then retM (js_bool B True)
      else bindM (js_object B) (\<lambda>obj. bindM (js_set B obj ''deviceId'' (js_string B did)) (\<lambda>_. retM obj)))"

definition get_user_media :: "('w, 'v, 'z) browser_scheme \<Rightarrow> bool \<Rightarrow> bool \<Rightarrow> string \<Rightarrow> string \<Rightarrow> ('w, 'v, 'v) prog" where
  "get_user_media B mic_enabled camera_enabled mic_device_id camera_device_id =
     (if \<not> mic_enabled \<and> \<not> camera_enabled then failM (js_string B ''no media requested'')
      else (case js_window B of None \<Rightarrow> failM (js_string B ''no window'')
        | Some win \<Rightarrow> tryM (media_devices B win) (\<lambda>devices.
            bindM (media_track_constraint B mic_enabled mic_device_id) (\<lambda>audio.
            bindM (media_track_constraint B camera_enabled camera_device_id) (\<lambda>video.
            tryM (user_media_promise B devices audio video) (\<lambda>promise.
            tryM (js_await B promise) (\<lambda>stream.
              if is_stream B stream then okM stream else failM stream)))))))"

section \<open>The gain node\<close>

definition teardown_mic_graph :: "(('v, 'x) page_scheme, 'v, 'z) browser_scheme \<Rightarrow> 'v WebRtcRoomSession \<Rightarrow> (('v, 'x) page_scheme, unit) act" where
  "teardown_mic_graph B h =
     bindM (setM h (\<lambda>c. c\<lparr>mic_gain_param := None\<rparr>)) (\<lambda>_. bindM (cellM h mic_audio_ctx) (\<lambda>ctx.
     bindM (setM h (\<lambda>c. c\<lparr>mic_audio_ctx := None\<rparr>)) (\<lambda>_. case ctx of None \<Rightarrow> retM ()
       | Some ctx \<Rightarrow> bindM (fn_of B ctx ''close'') (\<lambda>f. case f of None \<Rightarrow> retM ()
           | Some close_fn \<Rightarrow> ignoreM (js_apply B close_fn ctx [])))))"

definition add_tracks :: "('w, 'v, 'z) browser_scheme \<Rightarrow> 'v \<Rightarrow> 'v list \<Rightarrow> ('w, unit) act" where
  "add_tracks B out ts = forM (\<lambda>t. if is_track B t then add_track B out t else retM ()) ts"

definition copy_stream_tracks_to_new :: "('w, 'v, 'z) browser_scheme \<Rightarrow> 'v \<Rightarrow> ('w, 'v, 'v) prog" where
  "copy_stream_tracks_to_new B raw = tryM (new_stream B) (\<lambda>out.
     bindM (stream_tracks B raw) (\<lambda>ts. bindM (add_tracks B out ts) (\<lambda>_. okM out)))"

definition resume_context :: "('w, 'v, 'z) browser_scheme \<Rightarrow> 'v \<Rightarrow> ('w, unit) act" where
  "resume_context B ctx = bindM (fn_of B ctx ''resume'') (\<lambda>f. case f of None \<Rightarrow> retM ()
     | Some rf \<Rightarrow> bindM (okayM (js_apply B rf ctx [])) (\<lambda>p. case p of None \<Rightarrow> retM ()
         | Some p \<Rightarrow> if is_promise B p then ignoreM (js_await B p) else retM ()))"

text \<open>The graph from the microphone to the destination node; \<open>Inl\<close> wherever the code falls back to a copy.\<close>

definition mic_graph :: "('w, 'v, 'z) browser_scheme \<Rightarrow> 'v \<Rightarrow> 32 word \<Rightarrow> ('w, unit, 'v \<times> 'v \<times> 'v) prog" where
  "mic_graph B raw input_level =
     (case js_window B of None \<Rightarrow> failM () | Some win \<Rightarrow>
     optM (bindM (okayM (js_get B win ''AudioContext'')) (\<lambda>c. case c of Some x \<Rightarrow> retM (Some x)
         | None \<Rightarrow> okayM (js_get B win ''webkitAudioContext''))) (\<lambda>ctor.
     if \<not> is_function B ctor then failM () else
     optM (okayM (js_apply B ctor (js_undefined B) [])) (\<lambda>ctx.
     bindM (resume_context B ctx) (\<lambda>_.
     optM (fn_of B ctx ''createMediaStreamSource'') (\<lambda>create_mss.
     optM (okayM (js_apply B create_mss ctx [raw])) (\<lambda>source.
     optM (fn_of B ctx ''createGain'') (\<lambda>create_gain.
     optM (okayM (js_apply B create_gain ctx [])) (\<lambda>gain_node.
     optM (okayM (js_get B gain_node ''gain'')) (\<lambda>gain_param.
     bindM (js_set B gain_param ''value'' (js_number B (level_to_gain input_level))) (\<lambda>_.
     optM (fn_of B ctx ''createMediaStreamDestination'') (\<lambda>create_dest.
     optM (okayM (js_apply B create_dest ctx [])) (\<lambda>dest.
     optM (fn_of B source ''connect'') (\<lambda>conn1. bindM (js_apply B conn1 source [gain_node]) (\<lambda>_.
     optM (fn_of B gain_node ''connect'') (\<lambda>conn2. bindM (js_apply B conn2 gain_node [dest]) (\<lambda>_.
     optM (okayM (js_get B dest ''stream'')) (\<lambda>dest_stream.
     if \<not> is_stream B dest_stream then failM () else
     optM (okayM (new_stream B)) (\<lambda>out.
     bindM (audio_tracks B dest_stream) (\<lambda>as. bindM (add_tracks B out as) (\<lambda>_.
     bindM (video_tracks B raw) (\<lambda>vs. bindM (add_tracks B out vs) (\<lambda>_.
       okM (out, ctx, gain_param)))))))))))))))))))))))"

definition process_local_media_for_send :: "(('v, 'x) page_scheme, 'v, 'z) browser_scheme \<Rightarrow> 'v WebRtcRoomSession \<Rightarrow> 'v \<Rightarrow> 32 word \<Rightarrow> (('v, 'x) page_scheme, 'v) act" where
  "process_local_media_for_send B h raw input_level =
     (let fallback = bindM (copy_stream_tracks_to_new B raw) (\<lambda>r. retM (case r of Inr out \<Rightarrow> out | Inl _ \<Rightarrow> raw)) in
      bindM (teardown_mic_graph B h) (\<lambda>_. bindM (first_track_kind B raw ''audio'') (\<lambda>audio.
        if audio = None then fallback
        else bindM (mic_graph B raw input_level) (\<lambda>r. case r of Inl _ \<Rightarrow> fallback
          | Inr (out, ctx, gain_param) \<Rightarrow>
              bindM (setM h (\<lambda>c. c\<lparr>mic_audio_ctx := Some ctx, mic_gain_param := Some gain_param\<rparr>)) (\<lambda>_. retM out)))))"

definition set_input_level :: "(('v, 'x) page_scheme, 'v, 'z) browser_scheme \<Rightarrow> 'v WebRtcRoomSession \<Rightarrow> 32 word \<Rightarrow> (('v, 'x) page_scheme, unit) act" where
  "set_input_level B h input_level = bindM (cellM h mic_gain_param) (\<lambda>p. case p of None \<Rightarrow> retM ()
     | Some param \<Rightarrow> ignoreM (js_set B param ''value'' (js_number B (level_to_gain input_level))))"

section \<open>Start of a session\<close>

text \<open>The callback of \<^verbatim>\<open>onicecandidate\<close>; \<open>sdp_mid\<close> may be absent.\<close>

definition on_ice_candidate :: "('w, 'v, 'z) browser_scheme \<Rightarrow> 'v SignalingTransport \<Rightarrow> (string \<times> string option) option \<Rightarrow> ('w, unit) act" where
  "on_ice_candidate B transport event = (case event of None \<Rightarrow> retM () | Some (c, m) \<Rightarrow>
     (let mid = (case m of None \<Rightarrow> [] | Some t \<Rightarrow> t) in
      if c \<noteq> [] \<and> mid \<noteq> [] then ignoreM (send_ice_candidate B transport c mid) else retM ()))"

fun slot_media :: "RemoteSource \<Rightarrow> 'v RemoteParticipantMedia \<Rightarrow> 'v option" where
  "slot_media SourceScreen m = screen_media m"
| "slot_media SourceCamera m = camera m"

fun set_slot_media :: "RemoteSource \<Rightarrow> 'v \<Rightarrow> 'v RemoteParticipantMedia \<Rightarrow> 'v RemoteParticipantMedia" where
  "set_slot_media SourceScreen v m = m\<lparr>screen_media := Some v\<rparr>"
| "set_slot_media SourceCamera v m = m\<lparr>camera := Some v\<rparr>"

text \<open>\<open>entry(..).or_insert_with(..)\<close>.\<close>

definition remote_entry :: "(string \<rightharpoonup> 'v RemoteParticipantMedia) \<Rightarrow> string \<Rightarrow> 'v RemoteParticipantMedia" where
  "remote_entry m publisher = (case m publisher of Some e \<Rightarrow> e | None \<Rightarrow> remote_empty)"

definition slot_stream :: "(('v, 'x) page_scheme, 'v, 'z) browser_scheme \<Rightarrow> 'v WebRtcRoomSession \<Rightarrow> string \<Rightarrow> RemoteSource \<Rightarrow> (('v, 'x) page_scheme, 'v option) act" where
  "slot_stream B h publisher source =
     bindM (setM h (\<lambda>c. c\<lparr>streams_map := (streams_map c)(publisher \<mapsto> remote_entry (streams_map c) publisher)\<rparr>)) (\<lambda>_.
     bindM (cellM h (\<lambda>c. slot_media source (remote_entry (streams_map c) publisher))) (\<lambda>js. case js of
         Some stream \<Rightarrow> retM (Some stream)
       | None \<Rightarrow> bindM (okayM (new_stream B)) (\<lambda>r. case r of None \<Rightarrow> retM None
           | Some stream \<Rightarrow> bindM (setM h (\<lambda>c. c\<lparr>streams_map := (streams_map c)
                 (publisher \<mapsto> set_slot_media source stream (remote_entry (streams_map c) publisher))\<rparr>))
               (\<lambda>_. retM (Some stream)))))"

definition on_track :: "(('v, 'x) page_scheme, 'v, 'z) browser_scheme \<Rightarrow> 'v WebRtcRoomSession \<Rightarrow> ((string \<rightharpoonup> 'v RemoteParticipantMedia) \<Rightarrow> (('v, 'x) page_scheme, unit) act)
    \<Rightarrow> (WebRtcMediaError \<Rightarrow> (('v, 'x) page_scheme, unit) act) \<Rightarrow> 'v \<Rightarrow> (('v, 'x) page_scheme, unit) act" where
  "on_track B h on_streams on_error track =
     (if \<not> is_track B track then retM ()
      else (case remote_source_from_relay_track_id (track_id B track) of
          None \<Rightarrow> emit_error B on_error Warning ''remote_track''
            ''Received a remote media track that could not be assigned to a participant.''
            (''unparseable relay track id: '' @ track_id B track)
        | Some (publisher, source) \<Rightarrow> bindM (slot_stream B h publisher source) (\<lambda>js. case js of None \<Rightarrow> retM ()
            | Some stream \<Rightarrow> if \<not> is_stream B stream then retM ()
                else bindM (add_track B stream track) (\<lambda>_. bindM (cellM h streams_map) on_streams))))"

text \<open>A captured track goes to its slot: into the sender when there is one, else to a new sender.\<close>

definition attach_first :: "(('v, 'x) page_scheme, 'v, 'z) browser_scheme \<Rightarrow> 'v WebRtcRoomSession \<Rightarrow> slot \<Rightarrow> 'v \<Rightarrow> 'v \<Rightarrow> (('v, 'x) page_scheme, unit) act" where
  "attach_first B h slot track stream = bindM (cellM h (sender_of slot)) (\<lambda>sender. case sender of
       Some sender \<Rightarrow> ignoreM (sender_replace_track B sender (Some track))
     | None \<Rightarrow> bindM (rtc_add_track_return B (pc h) track stream) (\<lambda>r. case r of None \<Rightarrow> retM ()
         | Some sender_js \<Rightarrow> setM h (set_sender slot (Some sender_js))))"

definition attach_captured :: "(('v, 'x) page_scheme, 'v, 'z) browser_scheme \<Rightarrow> 'v WebRtcRoomSession \<Rightarrow> 'v \<Rightarrow> 'v \<Rightarrow> (('v, 'x) page_scheme, unit) act" where
  "attach_captured B h stream track =
     (if \<not> is_track B track then retM ()
      else if track_kind B track = ''audio'' then attach_first B h AudioSlot track stream
      else if track_kind B track = ''video'' then attach_first B h VideoSlot track stream
      else retM ())"

definition offer_or_report :: "(('v, 'x) page_scheme, 'v, 'z) browser_scheme \<Rightarrow> 'v WebRtcRoomSession \<Rightarrow> (WebRtcMediaError \<Rightarrow> (('v, 'x) page_scheme, unit) act)
    \<Rightarrow> WebRtcMediaSeverity \<Rightarrow> string \<Rightarrow> string \<Rightarrow> (('v, 'x) page_scheme, bool) act" where
  "offer_or_report B h on_error sev stg msg = bindM (send_local_offer B h) (\<lambda>r. case r of Inr _ \<Rightarrow> retM True
     | Inl err \<Rightarrow> bindM (emit_error B on_error sev stg msg err) (\<lambda>_. retM False))"

definition start_offer :: "(('v, 'x) page_scheme, 'v, 'z) browser_scheme \<Rightarrow> 'v WebRtcRoomSession \<Rightarrow> (WebRtcMediaError \<Rightarrow> (('v, 'x) page_scheme, unit) act) \<Rightarrow> (('v, 'x) page_scheme, unit) act" where
  "start_offer B h on_error = ignoreM (offer_or_report B h on_error Fatal ''create_offer'' ''Could not start WebRTC media negotiation.'')"

definition start_task :: "(('v, 'x) page_scheme, 'v, 'z) browser_scheme \<Rightarrow> 'v WebRtcRoomSession \<Rightarrow> (WebRtcMediaError \<Rightarrow> (('v, 'x) page_scheme, unit) act) \<Rightarrow> 64 word
    \<Rightarrow> bool \<Rightarrow> bool \<Rightarrow> string \<Rightarrow> string \<Rightarrow> 32 word \<Rightarrow> (('v, 'x) page_scheme, unit) act" where
  "start_task B h on_error generation mic cam mic_id cam_id input_level =
     bindM (is_stale h generation) (\<lambda>st. if st then retM () else
     bindM (get_user_media B mic cam mic_id cam_id) (\<lambda>r. case r of
         Inl err \<Rightarrow> bindM (media_error_text B err) (\<lambda>text.
           bindM (emit_error B on_error Warning ''get_user_media''
             ''Microphone or camera could not be started. The call will continue without local media.'' text) (\<lambda>_.
           start_offer B h on_error))
       | Inr stream \<Rightarrow> bindM (is_stale h generation) (\<lambda>st. if st then stop_all_tracks B stream else
           bindM (process_local_media_for_send B h stream input_level) (\<lambda>stream_for_pc.
           bindM (stream_tracks B stream_for_pc) (\<lambda>ts.
           bindM (forM (attach_captured B h stream_for_pc) ts) (\<lambda>_.
           bindM (setM h (\<lambda>c. c\<lparr>local_stream := Some stream_for_pc\<rparr>)) (\<lambda>_.
           start_offer B h on_error)))))))"

definition fresh_cells :: "'v option \<Rightarrow> 'v option \<Rightarrow> 'v option \<Rightarrow> 'v session_cells" where
  "fresh_cells audio video screen = \<lparr>local_stream = None, screen_stream = None, audio_sender = audio, video_sender = video,
     screen_sender = screen, mic_audio_ctx = None, mic_gain_param = None, media_generation = 0, closed = False,
     streams_map = Map.empty\<rparr>"

definition new_cells :: "'v session_cells \<Rightarrow> (('v, 'x) page_scheme, nat) act" where
  "new_cells c = (\<lambda>s. (next_sid s, s\<lparr>cells := (cells s)(next_sid s := c), next_sid := Suc (next_sid s)\<rparr>))"

definition session_start :: "(('v, 'x) page_scheme, 'v, 'z) browser_scheme \<Rightarrow> 'v SignalingTransport \<Rightarrow> bool \<Rightarrow> bool \<Rightarrow> string \<Rightarrow> string \<Rightarrow> 32 word
    \<Rightarrow> (WebRtcMediaError \<Rightarrow> (('v, 'x) page_scheme, unit) act) \<Rightarrow> (('v, 'x) page_scheme, string, 'v WebRtcRoomSession) prog" where
  "session_start B transport mic cam mic_id cam_id input_level on_error =
     tryM (create_peer_connection B) (\<lambda>conn.
     bindM (add_transceiver_sender B conn ''audio'') (\<lambda>audio.
     bindM (add_transceiver_sender B conn ''video'') (\<lambda>video.
     bindM (add_transceiver_sender B conn ''video'') (\<lambda>screen.
     bindM (new_cells (fresh_cells audio video screen)) (\<lambda>i.
     let h = \<lparr>sid = i, pc = conn, signaling = transport\<rparr> in
     bindM (next_generation h) (\<lambda>generation.
     bindM (spawn_local B (start_task B h on_error generation mic cam mic_id cam_id input_level)) (\<lambda>_. okM h)))))))"

section \<open>Changes during the call\<close>

text \<open>A slot without media: the sender, if any, sends nothing.\<close>

definition silence_slot :: "(('v, 'x) page_scheme, 'v, 'z) browser_scheme \<Rightarrow> 'v WebRtcRoomSession \<Rightarrow> (WebRtcMediaError \<Rightarrow> (('v, 'x) page_scheme, unit) act) \<Rightarrow> slot
    \<Rightarrow> string \<Rightarrow> string \<Rightarrow> (('v, 'x) page_scheme, unit) act" where
  "silence_slot B h on_error slot stg msg = bindM (cellM h (sender_of slot)) (\<lambda>sender. case sender of
       None \<Rightarrow> retM ()
     | Some sj \<Rightarrow> bindM (sender_replace_track B sj None) (\<lambda>r. case r of Inr _ \<Rightarrow> retM ()
         | Inl err \<Rightarrow> emit_error B on_error Recoverable stg msg err))"

text \<open>\<open>if let Some(old) = cell.take() { stop_all_tracks(&old) }\<close>.\<close>

definition drop_local_stream :: "(('v, 'x) page_scheme, 'v, 'z) browser_scheme \<Rightarrow> 'v WebRtcRoomSession \<Rightarrow> (('v, 'x) page_scheme, unit) act" where
  "drop_local_stream B h = bindM (cellM h local_stream) (\<lambda>old. bindM (setM h (\<lambda>c. c\<lparr>local_stream := None\<rparr>)) (\<lambda>_.
     case old of None \<Rightarrow> retM () | Some stream \<Rightarrow> stop_all_tracks B stream))"

definition drop_screen_stream :: "(('v, 'x) page_scheme, 'v, 'z) browser_scheme \<Rightarrow> 'v WebRtcRoomSession \<Rightarrow> (('v, 'x) page_scheme, unit) act" where
  "drop_screen_stream B h = bindM (cellM h screen_stream) (\<lambda>old. bindM (setM h (\<lambda>c. c\<lparr>screen_stream := None\<rparr>)) (\<lambda>_.
     case old of None \<Rightarrow> retM () | Some stream \<Rightarrow> stop_all_tracks B stream))"

text \<open>An enabled kind: \<open>None\<close> is the early return, \<open>Some b\<close> whether a new sender was made.\<close>

definition switch_slot :: "(('v, 'x) page_scheme, 'v, 'z) browser_scheme \<Rightarrow> 'v WebRtcRoomSession \<Rightarrow> (WebRtcMediaError \<Rightarrow> (('v, 'x) page_scheme, unit) act) \<Rightarrow> (('v, 'x) page_scheme, unit) act \<Rightarrow> slot
    \<Rightarrow> 'v option \<Rightarrow> 'v \<Rightarrow> string \<Rightarrow> string \<Rightarrow> (('v, 'x) page_scheme, bool option) act" where
  "switch_slot B h on_error on_updated slot track stream stg msg = (case track of None \<Rightarrow> retM (Some False)
     | Some t \<Rightarrow> bindM (cellM h (sender_of slot)) (\<lambda>sender. case sender of
         Some sj \<Rightarrow> bindM (sender_replace_track B sj (Some t)) (\<lambda>r. case r of Inr _ \<Rightarrow> retM (Some False)
           | Inl err \<Rightarrow> bindM (emit_error B on_error Recoverable stg msg err) (\<lambda>_.
               bindM (stop_all_tracks B stream) (\<lambda>_. bindM on_updated (\<lambda>_. retM None))))
       | None \<Rightarrow> bindM (rtc_add_track_return B (pc h) t stream) (\<lambda>r. case r of None \<Rightarrow> retM (Some False)
           | Some sender_js \<Rightarrow> bindM (setM h (set_sender slot (Some sender_js))) (\<lambda>_. retM (Some True)))))"

definition apply_slot :: "(('v, 'x) page_scheme, 'v, 'z) browser_scheme \<Rightarrow> 'v WebRtcRoomSession \<Rightarrow> (WebRtcMediaError \<Rightarrow> (('v, 'x) page_scheme, unit) act) \<Rightarrow> (('v, 'x) page_scheme, unit) act \<Rightarrow> slot
    \<Rightarrow> bool \<Rightarrow> 'v option \<Rightarrow> 'v \<Rightarrow> string \<Rightarrow> string \<Rightarrow> string \<Rightarrow> (('v, 'x) page_scheme, bool option) act" where
  "apply_slot B h on_error on_updated slot enabled track stream stg switch_msg off_msg =
     (if enabled then switch_slot B h on_error on_updated slot track stream stg switch_msg
      else bindM (silence_slot B h on_error slot stg off_msg) (\<lambda>_. retM (Some False)))"

definition capture_off :: "(('v, 'x) page_scheme, 'v, 'z) browser_scheme \<Rightarrow> 'v WebRtcRoomSession \<Rightarrow> (WebRtcMediaError \<Rightarrow> (('v, 'x) page_scheme, unit) act) \<Rightarrow> (('v, 'x) page_scheme, unit) act \<Rightarrow> (('v, 'x) page_scheme, unit) act" where
  "capture_off B h on_error on_updated =
     bindM (teardown_mic_graph B h) (\<lambda>_.
     bindM (silence_slot B h on_error AudioSlot ''replace_audio_track'' ''Could not mute microphone on the active WebRTC sender.'') (\<lambda>_.
     bindM (silence_slot B h on_error VideoSlot ''replace_video_track'' ''Could not turn off camera on the active WebRTC sender.'') (\<lambda>_.
     bindM (drop_local_stream B h) (\<lambda>_. on_updated))))"

definition capture_renegotiate :: "(('v, 'x) page_scheme, 'v, 'z) browser_scheme \<Rightarrow> 'v WebRtcRoomSession \<Rightarrow> (WebRtcMediaError \<Rightarrow> (('v, 'x) page_scheme, unit) act) \<Rightarrow> (('v, 'x) page_scheme, unit) act
    \<Rightarrow> 'v \<Rightarrow> bool \<Rightarrow> (('v, 'x) page_scheme, unit) act" where
  "capture_renegotiate B h on_error on_updated stream needs =
     bindM (if needs then offer_or_report B h on_error Fatal ''create_offer'' ''Could not renegotiate WebRTC media after changing devices.''
            else retM True) (\<lambda>ok.
     if \<not> ok then bindM (stop_all_tracks B stream) (\<lambda>_. on_updated)
     else bindM (drop_local_stream B h) (\<lambda>_. bindM (setM h (\<lambda>c. c\<lparr>local_stream := Some stream\<rparr>)) (\<lambda>_. on_updated)))"

definition capture_switch :: "(('v, 'x) page_scheme, 'v, 'z) browser_scheme \<Rightarrow> 'v WebRtcRoomSession \<Rightarrow> (WebRtcMediaError \<Rightarrow> (('v, 'x) page_scheme, unit) act) \<Rightarrow> (('v, 'x) page_scheme, unit) act
    \<Rightarrow> bool \<Rightarrow> bool \<Rightarrow> 'v \<Rightarrow> 32 word \<Rightarrow> (('v, 'x) page_scheme, unit) act" where
  "capture_switch B h on_error on_updated mic cam stream input_level =
     bindM (process_local_media_for_send B h stream input_level) (\<lambda>stream_for_pc.
     bindM (first_track_kind B stream_for_pc ''audio'') (\<lambda>audio_track.
     bindM (first_track_kind B stream_for_pc ''video'') (\<lambda>video_track.
     bindM (apply_slot B h on_error on_updated AudioSlot mic audio_track stream_for_pc ''replace_audio_track''
         ''Could not switch microphone on the active WebRTC sender.''
         ''Could not mute microphone on the active WebRTC sender.'') (\<lambda>a. case a of None \<Rightarrow> retM ()
     | Some needs_a \<Rightarrow> bindM (apply_slot B h on_error on_updated VideoSlot cam video_track stream_for_pc ''replace_video_track''
         ''Could not switch camera on the active WebRTC sender.''
         ''Could not turn off camera on the active WebRTC sender.'') (\<lambda>v. case v of None \<Rightarrow> retM ()
     | Some needs_v \<Rightarrow> capture_renegotiate B h on_error on_updated stream_for_pc (needs_a \<or> needs_v))))))"

definition apply_task :: "(('v, 'x) page_scheme, 'v, 'z) browser_scheme \<Rightarrow> 'v WebRtcRoomSession \<Rightarrow> (WebRtcMediaError \<Rightarrow> (('v, 'x) page_scheme, unit) act) \<Rightarrow> (('v, 'x) page_scheme, unit) act \<Rightarrow> 64 word
    \<Rightarrow> bool \<Rightarrow> bool \<Rightarrow> string \<Rightarrow> string \<Rightarrow> 32 word \<Rightarrow> (('v, 'x) page_scheme, unit) act" where
  "apply_task B h on_error on_updated generation mic cam mic_id cam_id input_level =
     bindM (is_stale h generation) (\<lambda>st. if st then retM () else
     if \<not> mic \<and> \<not> cam then capture_off B h on_error on_updated else
     bindM (get_user_media B mic cam mic_id cam_id) (\<lambda>r. case r of
         Inl err \<Rightarrow> bindM (media_error_text B err) (\<lambda>text.
           bindM (emit_error B on_error Recoverable ''get_user_media''
             ''Could not apply the selected microphone or camera settings.'' text) (\<lambda>_. on_updated))
       | Inr stream \<Rightarrow> bindM (is_stale h generation) (\<lambda>st. if st then stop_all_tracks B stream
           else capture_switch B h on_error on_updated mic cam stream input_level)))"

definition apply_local_media :: "(('v, 'x) page_scheme, 'v, 'z) browser_scheme \<Rightarrow> 'v WebRtcRoomSession \<Rightarrow> (WebRtcMediaError \<Rightarrow> (('v, 'x) page_scheme, unit) act) \<Rightarrow> bool \<Rightarrow> bool
    \<Rightarrow> string \<Rightarrow> string \<Rightarrow> 32 word \<Rightarrow> (('v, 'x) page_scheme, unit) act \<Rightarrow> (('v, 'x) page_scheme, unit) act" where
  "apply_local_media B h on_error mic cam mic_id cam_id input_level on_updated =
     bindM (next_generation h) (\<lambda>generation.
       spawn_local B (apply_task B h on_error on_updated generation mic cam mic_id cam_id input_level))"

section \<open>Screen share\<close>

definition share_failed :: "(('v, 'x) page_scheme, 'v, 'z) browser_scheme \<Rightarrow> (WebRtcMediaError \<Rightarrow> (('v, 'x) page_scheme, unit) act) \<Rightarrow> 'v \<Rightarrow> string \<Rightarrow> string \<Rightarrow> string \<Rightarrow> (('v, 'x) page_scheme, bool option) act" where
  "share_failed B on_error stream stg msg tech =
     bindM (emit_error B on_error Recoverable stg msg tech) (\<lambda>_. bindM (stop_all_tracks B stream) (\<lambda>_. retM None))"

definition share_attach :: "(('v, 'x) page_scheme, 'v, 'z) browser_scheme \<Rightarrow> 'v WebRtcRoomSession \<Rightarrow> (WebRtcMediaError \<Rightarrow> (('v, 'x) page_scheme, unit) act) \<Rightarrow> 'v \<Rightarrow> 'v \<Rightarrow> (('v, 'x) page_scheme, bool option) act" where
  "share_attach B h on_error stream track = bindM (cellM h (sender_of ScreenSlot)) (\<lambda>sender. case sender of
       Some sj \<Rightarrow> bindM (sender_replace_track B sj (Some track)) (\<lambda>r. case r of Inr _ \<Rightarrow> retM (Some False)
         | Inl err \<Rightarrow> share_failed B on_error stream ''screen_share_replace_track''
             ''Could not publish screen sharing to the active call.'' err)
     | None \<Rightarrow> bindM (rtc_add_track_return B (pc h) track stream) (\<lambda>r. case r of
           Some sender_js \<Rightarrow> bindM (setM h (set_sender ScreenSlot (Some sender_js))) (\<lambda>_. retM (Some True))
         | None \<Rightarrow> share_failed B on_error stream ''screen_share_add_track''
             ''Could not add screen sharing to the active call.'' ''RTCPeerConnection.addTrack returned no sender''))"

definition publish_task :: "(('v, 'x) page_scheme, 'v, 'z) browser_scheme \<Rightarrow> 'v WebRtcRoomSession \<Rightarrow> (WebRtcMediaError \<Rightarrow> (('v, 'x) page_scheme, unit) act) \<Rightarrow> (('v, 'x) page_scheme, unit) act \<Rightarrow> 64 word
    \<Rightarrow> 'v \<Rightarrow> 'v \<Rightarrow> (('v, 'x) page_scheme, unit) act" where
  "publish_task B h on_error on_updated generation stream track =
     bindM (is_stale h generation) (\<lambda>st. if st then stop_all_tracks B stream else
     bindM (share_attach B h on_error stream track) (\<lambda>r. case r of None \<Rightarrow> retM ()
       | Some needs \<Rightarrow> bindM (if needs then offer_or_report B h on_error Fatal ''screen_share_offer''
             ''Could not negotiate screen sharing with the SFU.'' else retM True) (\<lambda>ok.
           if \<not> ok then stop_all_tracks B stream
           else bindM (drop_screen_stream B h) (\<lambda>_.
             bindM (setM h (\<lambda>c. c\<lparr>screen_stream := Some stream\<rparr>)) (\<lambda>_. on_updated)))))"

definition publish_screen_share :: "(('v, 'x) page_scheme, 'v, 'z) browser_scheme \<Rightarrow> 'v WebRtcRoomSession \<Rightarrow> (WebRtcMediaError \<Rightarrow> (('v, 'x) page_scheme, unit) act) \<Rightarrow> 'v
    \<Rightarrow> (('v, 'x) page_scheme, unit) act \<Rightarrow> (('v, 'x) page_scheme, unit) act" where
  "publish_screen_share B h on_error stream on_updated =
     (if \<not> is_stream B stream
      then emit_error B on_error Recoverable ''screen_share'' ''Screen sharing stream could not be attached to the call.''
             ''provided value is not a MediaStream''
      else bindM (first_track_kind B stream ''video'') (\<lambda>t. case t of
          None \<Rightarrow> emit_error B on_error Recoverable ''screen_share'' ''Screen sharing did not provide a video track.''
             ''display MediaStream has no video track''
        | Some track \<Rightarrow> bindM (next_generation h) (\<lambda>generation.
            spawn_local B (publish_task B h on_error on_updated generation stream track))))"

definition stop_share_task :: "(('v, 'x) page_scheme, 'v, 'z) browser_scheme \<Rightarrow> 'v WebRtcRoomSession \<Rightarrow> (WebRtcMediaError \<Rightarrow> (('v, 'x) page_scheme, unit) act) \<Rightarrow> (('v, 'x) page_scheme, unit) act \<Rightarrow> 64 word
    \<Rightarrow> (('v, 'x) page_scheme, unit) act" where
  "stop_share_task B h on_error on_updated generation =
     bindM (is_stale h generation) (\<lambda>st. if st then retM () else
     bindM (silence_slot B h on_error ScreenSlot ''screen_share_stop'' ''Could not stop screen sharing on the active call.'') (\<lambda>_.
     bindM (drop_screen_stream B h) (\<lambda>_.
     bindM (offer_or_report B h on_error Recoverable ''screen_share_stop_offer''
       ''Screen sharing stopped locally, but SFU renegotiation failed.'') (\<lambda>_. on_updated))))"

definition stop_screen_share :: "(('v, 'x) page_scheme, 'v, 'z) browser_scheme \<Rightarrow> 'v WebRtcRoomSession \<Rightarrow> (WebRtcMediaError \<Rightarrow> (('v, 'x) page_scheme, unit) act) \<Rightarrow> (('v, 'x) page_scheme, unit) act \<Rightarrow> (('v, 'x) page_scheme, unit) act" where
  "stop_screen_share B h on_error on_updated =
     bindM (next_generation h) (\<lambda>generation. spawn_local B (stop_share_task B h on_error on_updated generation))"

section \<open>Messages of the SFU, and the end\<close>

definition handle_remote_sdp :: "(('v, 'x) page_scheme, 'v, 'z) browser_scheme \<Rightarrow> 'v WebRtcRoomSession \<Rightarrow> (WebRtcMediaError \<Rightarrow> (('v, 'x) page_scheme, unit) act) \<Rightarrow> string \<Rightarrow> string \<Rightarrow> (('v, 'x) page_scheme, unit) act" where
  "handle_remote_sdp B h on_error sdp sdp_type = spawn_local B
     (bindM (set_remote_description B (pc h) (if sdp_type = ''offer'' then ''offer'' else ''answer'') sdp) (\<lambda>promise.
      bindM (js_await B promise) (\<lambda>r. case r of Inr _ \<Rightarrow> retM ()
        | Inl err \<Rightarrow> bindM (media_error_text B err) (emit_error B on_error Fatal ''set_remote_description''
            ''Could not apply the SFU WebRTC answer.''))))"

definition candidate_failed :: "(('v, 'x) page_scheme, 'v, 'z) browser_scheme \<Rightarrow> (WebRtcMediaError \<Rightarrow> (('v, 'x) page_scheme, unit) act) \<Rightarrow> 'v \<Rightarrow> (('v, 'x) page_scheme, unit) act" where
  "candidate_failed B on_error err = bindM (media_error_text B err)
     (emit_error B on_error Recoverable ''add_ice_candidate'' ''Could not apply an SFU ICE candidate.'')"

definition handle_remote_ice_candidate :: "(('v, 'x) page_scheme, 'v, 'z) browser_scheme \<Rightarrow> 'v WebRtcRoomSession \<Rightarrow> (WebRtcMediaError \<Rightarrow> (('v, 'x) page_scheme, unit) act)
    \<Rightarrow> string \<Rightarrow> string \<Rightarrow> (('v, 'x) page_scheme, unit) act" where
  "handle_remote_ice_candidate B h on_error candidate sdp_mid = spawn_local B
     (bindM (js_object B) (\<lambda>init. bindM (js_set B init ''candidate'' (js_string B candidate)) (\<lambda>_.
      bindM (js_set B init ''sdpMid'' (js_string B sdp_mid)) (\<lambda>_.
      bindM (js_get B (pc h) ''addIceCandidate'') (\<lambda>f. case f of Inl err \<Rightarrow> candidate_failed B on_error err
        | Inr add_fn \<Rightarrow> bindM (js_apply B add_fn (pc h) [init]) (\<lambda>r. case r of Inl err \<Rightarrow> candidate_failed B on_error err
            | Inr p \<Rightarrow> if is_promise B p
                then bindM (js_await B p) (\<lambda>d. case d of Inr _ \<Rightarrow> retM () | Inl err \<Rightarrow> candidate_failed B on_error err)
                else retM ()))))))"

definition session_close :: "(('v, 'x) page_scheme, 'v, 'z) browser_scheme \<Rightarrow> 'v WebRtcRoomSession \<Rightarrow> (('v, 'x) page_scheme, unit) act" where
  "session_close B h =
     bindM (setM h (\<lambda>c. c\<lparr>closed := True\<rparr>)) (\<lambda>_.
     bindM (setM h (\<lambda>c. c\<lparr>media_generation := next_count (media_generation c)\<rparr>)) (\<lambda>_.
     bindM (teardown_mic_graph B h) (\<lambda>_.
     bindM (cellM h local_stream) (\<lambda>l. bindM (case l of None \<Rightarrow> retM () | Some stream \<Rightarrow> stop_all_tracks B stream) (\<lambda>_.
     bindM (cellM h screen_stream) (\<lambda>d. bindM (case d of None \<Rightarrow> retM () | Some stream \<Rightarrow> stop_all_tracks B stream) (\<lambda>_.
       close_connection B (pc h))))))))"

end
