(* ===== verification/Client_App.thy ===== *)
theory Client_App
  imports Client_Media
begin

text \<open>
  The state of the page and its handlers: \<^verbatim>\<open>client/src/app.rs\<close>, \<^verbatim>\<open>theme.rs\<close>, the submit handlers of
  \<^verbatim>\<open>components/nickname_entry.rs\<close>, \<^verbatim>\<open>main_menu.rs\<close> and \<^verbatim>\<open>join_room_entry.rs\<close>. A hook handle captured by a callback reads the state \<open>seen\<close>,
  which is the current one or that of the render the callback was made in; cells of \<^verbatim>\<open>use_mut_ref\<close> are always current.
  Each effect is a definition, with its clean-up beside it; when they run is up to the framework.
\<close>

section \<open>Data\<close>

datatype Theme = Light | Dark

definition html_class :: "Theme \<Rightarrow> string" where
  "html_class t = (case t of Light \<Rightarrow> ''light'' | Dark \<Rightarrow> ''dark'')"

definition toggle_theme :: "Theme \<Rightarrow> Theme" where
  "toggle_theme t = (case t of Light \<Rightarrow> Dark | Dark \<Rightarrow> Light)"

definition next_label :: "Theme \<Rightarrow> string" where
  "next_label t = (case t of Light \<Rightarrow> ''Dark'' | Dark \<Rightarrow> ''Light'')"

record SettingsState =
  theme :: Theme
  mic_enabled :: bool
  camera_enabled :: bool
  input_level :: "32 word"
  output_level :: "32 word"
  mic_device_id :: string
  speaker_device_id :: string
  camera_device_id :: string

definition default_settings :: SettingsState where
  "default_settings = \<lparr>theme = Light, mic_enabled = True, camera_enabled = False, input_level = 100, output_level = 100,
     mic_device_id = ''default'', speaker_device_id = ''default'', camera_device_id = ''default''\<rparr>"

datatype AppScreen = NicknameScreen | MainMenuScreen | JoinRoomScreen | RoomScreen

record ActiveRoom =
  room_name :: string
  your_nickname :: string
  participants :: "string list"

record NicknameForm =
  nick_value :: string
  nick_error :: "string option"
  attempted_submit :: bool
  is_submitting :: bool

record MenuForm =
  action_error :: "string option"
  menu_busy :: bool

record JoinForm =
  room_target :: string
  join_error :: "string option"
  join_busy :: bool

record 'v app = "'v page" +
  settings :: SettingsState
  screen :: AppScreen
  session_id :: "string option"
  handoff_complete :: bool
  signaling_ws_connected :: bool
  signaling_start :: "SignalingStart option"
  signaling_client :: "'v SignalingTransport option"
  active_room :: "ActiveRoom option"
  app_error :: "string option"
  media_error :: "string option"
  webrtc_session :: "'v WebRtcRoomSession option"
  skip_media_apply :: bool
  local_media_rev :: "64 word"
  remote_streams :: "string \<rightharpoonup> 'v RemoteParticipantMedia"
  nickname_form :: NicknameForm
  menu_form :: MenuForm
  join_form :: JoinForm

text \<open>What the page uses of the framework and the document beside the browser of the media session.\<close>

record ('w, 'v) page_env = "('w, 'v) browser" +
  http :: "'w http_env"
  prefers_dark :: bool
  set_html_class :: "string \<Rightarrow> ('w, unit) act"
  set_interval :: "nat \<Rightarrow> ('w, unit) act \<Rightarrow> ('w, 'v) act"
  clear_interval :: "'v \<Rightarrow> ('w, unit) act"
  listen_pagehide :: "('w, unit) act \<Rightarrow> ('w, 'v) act"
  unlisten_pagehide :: "'v \<Rightarrow> ('w, unit) act"

section \<open>The roster\<close>

definition unique_participants :: "string list \<Rightarrow> string list" where
  "unique_participants ps = foldl (\<lambda>unique name. if list_ex (\<lambda>existing. existing = name) unique then unique else unique @ [name]) [] ps"

definition active_room_from :: "RoomSnapshot \<Rightarrow> ActiveRoom" where
  "active_room_from snapshot = \<lparr>room_name = snap_room_id snapshot, your_nickname = snap_your_nickname snapshot,
     participants = unique_participants (snap_participants snapshot)\<rparr>"

definition active_room_with_participant :: "ActiveRoom option \<Rightarrow> string \<Rightarrow> ActiveRoom option" where
  "active_room_with_participant room nick = map_option (\<lambda>r.
     if \<not> list_ex (\<lambda>existing. existing = nick) (participants r) then r\<lparr>participants := participants r @ [nick]\<rparr> else r) room"

definition active_room_without_participant :: "ActiveRoom option \<Rightarrow> string \<Rightarrow> ActiveRoom option" where
  "active_room_without_participant room nick =
     map_option (\<lambda>r. r\<lparr>participants := filter (\<lambda>existing. existing \<noteq> nick) (participants r)\<rparr>) room"

section \<open>Callbacks of the page\<close>

definition initial_theme_from_system :: "('w, 'v, 'z) page_env_scheme \<Rightarrow> Theme" where
  "initial_theme_from_system B = (case js_window B of None \<Rightarrow> Light | Some _ \<Rightarrow> if prefers_dark B then Dark else Light)"

definition theme_effect :: "('w, 'v, 'z) page_env_scheme \<Rightarrow> Theme \<Rightarrow> ('w, unit) act" where
  "theme_effect B t = set_html_class B (html_class t)"

definition change_settings :: "('v, 'x) app_scheme \<Rightarrow> (SettingsState \<Rightarrow> SettingsState) \<Rightarrow> (('v, 'x) app_scheme, unit) act" where
  "change_settings seen change = modM (\<lambda>s. s\<lparr>settings := change (settings seen)\<rparr>)"

definition on_theme :: "('v, 'x) app_scheme \<Rightarrow> Theme \<Rightarrow> (('v, 'x) app_scheme, unit) act" where
  "on_theme seen next_theme = change_settings seen (\<lambda>c. c\<lparr>theme := next_theme\<rparr>)"
definition on_toggle_mic :: "('v, 'x) app_scheme \<Rightarrow> (('v, 'x) app_scheme, unit) act" where
  "on_toggle_mic seen = change_settings seen (\<lambda>c. c\<lparr>mic_enabled := \<not> mic_enabled c\<rparr>)"
definition on_toggle_camera :: "('v, 'x) app_scheme \<Rightarrow> (('v, 'x) app_scheme, unit) act" where
  "on_toggle_camera seen = change_settings seen (\<lambda>c. c\<lparr>camera_enabled := \<not> camera_enabled c\<rparr>)"
definition on_input_level_change :: "('v, 'x) app_scheme \<Rightarrow> 32 word \<Rightarrow> (('v, 'x) app_scheme, unit) act" where
  "on_input_level_change seen level = change_settings seen (\<lambda>c. c\<lparr>input_level := level\<rparr>)"
definition on_output_level_change :: "('v, 'x) app_scheme \<Rightarrow> 32 word \<Rightarrow> (('v, 'x) app_scheme, unit) act" where
  "on_output_level_change seen level = change_settings seen (\<lambda>c. c\<lparr>output_level := level\<rparr>)"
definition on_mic_device_change :: "('v, 'x) app_scheme \<Rightarrow> string \<Rightarrow> (('v, 'x) app_scheme, unit) act" where
  "on_mic_device_change seen device_id = change_settings seen (\<lambda>c. c\<lparr>mic_device_id := device_id\<rparr>)"
definition on_speaker_device_change :: "('v, 'x) app_scheme \<Rightarrow> string \<Rightarrow> (('v, 'x) app_scheme, unit) act" where
  "on_speaker_device_change seen device_id = change_settings seen (\<lambda>c. c\<lparr>speaker_device_id := device_id\<rparr>)"
definition on_camera_device_change :: "('v, 'x) app_scheme \<Rightarrow> string \<Rightarrow> (('v, 'x) app_scheme, unit) act" where
  "on_camera_device_change seen device_id = change_settings seen (\<lambda>c. c\<lparr>camera_device_id := device_id\<rparr>)"

definition on_nickname_success :: "string \<Rightarrow> (('v, 'x) app_scheme, unit) act" where
  "on_nickname_success new_session_id = modM (\<lambda>s. s\<lparr>session_id := Some new_session_id, handoff_complete := False,
     signaling_ws_connected := False, signaling_start := None, active_room := None, app_error := None, media_error := None,
     screen := MainMenuScreen\<rparr>)"

definition on_back_to_nickname :: "(('v, 'x) app_scheme, 'v, 'z) page_env_scheme \<Rightarrow> ('v, 'x) app_scheme \<Rightarrow> (('v, 'x) app_scheme, unit) act" where
  "on_back_to_nickname B seen =
     bindM (case session_id seen of None \<Rightarrow> retM () | Some session \<Rightarrow> spawn_local B (logout_best_effort (http B) session)) (\<lambda>_.
     modM (\<lambda>s. s\<lparr>session_id := None, signaling_ws_connected := False, signaling_start := None, active_room := None,
       handoff_complete := False, app_error := None, media_error := None, screen := NicknameScreen\<rparr>))"

definition on_open_join_room :: "(('v, 'x) app_scheme, unit) act" where
  "on_open_join_room = modM (\<lambda>s. s\<lparr>screen := JoinRoomScreen\<rparr>)"

definition on_back_to_main_menu :: "(('v, 'x) app_scheme, 'v, 'z) page_env_scheme \<Rightarrow> ('v, 'x) app_scheme \<Rightarrow> (('v, 'x) app_scheme, unit) act" where
  "on_back_to_main_menu B seen =
     bindM (getM signaling_client) (\<lambda>c.
     bindM (case (c, session_id seen, active_room seen) of
         (Some client, Some session, Some room) \<Rightarrow> ignoreM (client_leave B client session (room_name room) (participants room))
       | _ \<Rightarrow> retM ()) (\<lambda>_.
     modM (\<lambda>s. s\<lparr>signaling_start := None, active_room := None, signaling_ws_connected := False, app_error := None,
       media_error := None, screen := MainMenuScreen\<rparr>)))"

definition on_signaling_ready :: "ClientReadyResponse \<Rightarrow> SignalingIntent \<Rightarrow> (('v, 'x) app_scheme, unit) act" where
  "on_signaling_ready response wanted =
     modM (\<lambda>s. s\<lparr>app_error := None, signaling_start := Some (signaling_start_new response wanted)\<rparr>)"

section \<open>Events of the signaling connection\<close>

definition to_main_menu :: "('v, 'x) app_scheme \<Rightarrow> ('v, 'x) app_scheme" where
  "to_main_menu s = s\<lparr>active_room := None, signaling_start := None, signaling_ws_connected := False, screen := MainMenuScreen\<rparr>"

definition on_media_error :: "WebRtcMediaError \<Rightarrow> (('v, 'x) app_scheme, unit) act" where
  "on_media_error e = modM (\<lambda>s. s\<lparr>media_error := Some (err_message e)\<rparr>)"

definition on_streams :: "(string \<rightharpoonup> 'v RemoteParticipantMedia) \<Rightarrow> (('v, 'x) app_scheme, unit) act" where
  "on_streams m = modM (\<lambda>s. s\<lparr>remote_streams := m\<rparr>)"

text \<open>The two error codes that end the attempt.\<close>

definition ends_attempt :: "ClientErrorCode option \<Rightarrow> bool" where
  "ends_attempt code \<longleftrightarrow> code = Some InvalidRoomAssignment \<or> code = Some SfuCapacityExhausted"

definition with_session :: "('v WebRtcRoomSession \<Rightarrow> (('v, 'x) app_scheme, unit) act) \<Rightarrow> (('v, 'x) app_scheme, unit) act" where
  "with_session f = bindM (getM webrtc_session) (\<lambda>h. case h of None \<Rightarrow> retM () | Some h \<Rightarrow> f h)"

fun signaling_event :: "(('v, 'x) app_scheme, 'v, 'z) page_env_scheme \<Rightarrow> ('v, 'x) app_scheme \<Rightarrow> SignalingEvent \<Rightarrow> (('v, 'x) app_scheme, unit) act" where
  "signaling_event B seen Connected = modM (\<lambda>s. s\<lparr>signaling_ws_connected := True, handoff_complete := True\<rparr>)"
| "signaling_event B seen (Disconnected reason) = modM (\<lambda>s.
     (let s1 = s\<lparr>signaling_ws_connected := False\<rparr> in
      if active_room seen = None
      then (case reason of None \<Rightarrow> s1 | Some r \<Rightarrow> s1\<lparr>app_error := Some (''Signaling disconnected before joining room: '' @ r)\<rparr>)
        \<lparr>signaling_start := None, screen := MainMenuScreen\<rparr>
      else s1))"
| "signaling_event B seen (RoomReady snapshot) = modM (\<lambda>s. s\<lparr>active_room := Some (active_room_from snapshot),
     app_error := None, media_error := None, screen := RoomScreen\<rparr>)"
| "signaling_event B seen (EvParticipantJoined nick) =
     modM (\<lambda>s. s\<lparr>active_room := active_room_with_participant (active_room seen) nick\<rparr>)"
| "signaling_event B seen (EvParticipantLeft nick) =
     modM (\<lambda>s. s\<lparr>active_room := active_room_without_participant (active_room seen) nick\<rparr>)"
| "signaling_event B seen (EvLeft room) =
     modM (\<lambda>s. (to_main_menu s)\<lparr>app_error := Some (''Left room '' @ room @ ''.'')\<rparr>)"
| "signaling_event B seen (EvRoomClosed room reason) =
     modM (\<lambda>s. (to_main_menu s)\<lparr>app_error := Some (''Room '' @ room @ '' closed: '' @ reason)\<rparr>)"
| "signaling_event B seen (EvError e) =
     modM (\<lambda>s. (if ends_attempt (sig_err_code e) then (to_main_menu s)\<lparr>handoff_complete := False\<rparr> else s)
       \<lparr>app_error := Some (sig_err_message e)\<rparr>)"
| "signaling_event B seen (EvServiceUnavailable dependency ms) =
     modM (\<lambda>s. (to_main_menu s)\<lparr>app_error := Some (dependency @ '' unavailable. Retry after '' @ show_nat (unat ms) @ '' ms.'')\<rparr>)"
| "signaling_event B seen (RemoteSdpEvent sdp sdp_type) = with_session (\<lambda>h. handle_remote_sdp B h on_media_error sdp sdp_type)"
| "signaling_event B seen (RemoteIceCandidate candidate sdp_mid) =
     with_session (\<lambda>h. handle_remote_ice_candidate B h on_media_error candidate sdp_mid)"

definition drop_signaling_client :: "(('v, 'x) app_scheme, 'v, 'z) page_env_scheme \<Rightarrow> (('v, 'x) app_scheme, unit) act" where
  "drop_signaling_client B = bindM (getM signaling_client) (\<lambda>c. bindM (modM (\<lambda>s. s\<lparr>signaling_client := None\<rparr>)) (\<lambda>_.
     case c of None \<Rightarrow> retM () | Some client \<Rightarrow> client_drop B client))"

section \<open>Effects\<close>

text \<open>Keyed by the start of a connection; the clean-up is \<open>drop_signaling_client\<close>.\<close>

definition signaling_effect :: "(('v, 'x) app_scheme, 'v, 'z) page_env_scheme \<Rightarrow> SignalingStart option \<Rightarrow> (('v, 'x) app_scheme, unit) act" where
  "signaling_effect B start = bindM (drop_signaling_client B) (\<lambda>_. case start of None \<Rightarrow> retM ()
     | Some start \<Rightarrow> bindM (client_connect B start) (\<lambda>r. case r of
           Inr client \<Rightarrow> modM (\<lambda>s. s\<lparr>signaling_client := Some client\<rparr>)
         | Inl err \<Rightarrow> modM (\<lambda>s. s\<lparr>app_error := Some err, screen := MainMenuScreen\<rparr>)))"

definition CONNECTOR_SESSION_RENEW_INTERVAL_MS :: nat where
  "CONNECTOR_SESSION_RENEW_INTERVAL_MS = 60000"

text \<open>Keyed by the session and the connection: the renewals over HTTP. The result is what the clean-up drops.\<close>

definition renew_effect :: "(('v, 'x) app_scheme, 'v, 'z) page_env_scheme \<Rightarrow> string option \<Rightarrow> bool \<Rightarrow> (('v, 'x) app_scheme, 'v option) act" where
  "renew_effect B session ws_connected = (case session of None \<Rightarrow> retM None
     | Some session \<Rightarrow> if ws_connected then retM None
         else bindM (spawn_local B (ignoreM (renew_session (http B) session))) (\<lambda>_.
           bindM (set_interval B CONNECTOR_SESSION_RENEW_INTERVAL_MS (spawn_local B (ignoreM (renew_session (http B) session))))
             (\<lambda>i. retM (Some i))))"

definition renew_cleanup :: "(('v, 'x) app_scheme, 'v, 'z) page_env_scheme \<Rightarrow> 'v option \<Rightarrow> (('v, 'x) app_scheme, unit) act" where
  "renew_cleanup B handle = (case handle of None \<Rightarrow> retM () | Some i \<Rightarrow> clear_interval B i)"

definition pagehide_effect :: "(('v, 'x) app_scheme, 'v, 'z) page_env_scheme \<Rightarrow> string option \<Rightarrow> (('v, 'x) app_scheme, 'v option) act" where
  "pagehide_effect B session = (case session of None \<Rightarrow> retM None
     | Some session \<Rightarrow> bindM (listen_pagehide B (spawn_local B (logout_best_effort (http B) session))) (\<lambda>l. retM (Some l)))"

definition pagehide_cleanup :: "(('v, 'x) app_scheme, 'v, 'z) page_env_scheme \<Rightarrow> 'v option \<Rightarrow> (('v, 'x) app_scheme, unit) act" where
  "pagehide_cleanup B listener = (case listener of None \<Rightarrow> retM () | Some l \<Rightarrow> unlisten_pagehide B l)"

text \<open>Keyed by the room: the media session.\<close>

definition room_effect :: "(('v, 'x) app_scheme, 'v, 'z) page_env_scheme \<Rightarrow> SettingsState \<Rightarrow> string option \<Rightarrow> (('v, 'x) app_scheme, unit) act" where
  "room_effect B snapshot room = (case room of None \<Rightarrow> retM ()
     | Some _ \<Rightarrow> bindM (getM signaling_client) (\<lambda>c. case c of None \<Rightarrow> retM ()
         | Some transport \<Rightarrow> bindM (session_start B transport (mic_enabled snapshot) (camera_enabled snapshot)
               (mic_device_id snapshot) (camera_device_id snapshot) (input_level snapshot) on_media_error) (\<lambda>r. case r of
             Inl _ \<Rightarrow> retM ()
           | Inr h \<Rightarrow> modM (\<lambda>s. s\<lparr>webrtc_session := Some h, skip_media_apply := True\<rparr>))))"

definition room_cleanup :: "(('v, 'x) app_scheme, 'v, 'z) page_env_scheme \<Rightarrow> (('v, 'x) app_scheme, unit) act" where
  "room_cleanup B = bindM (getM webrtc_session) (\<lambda>h. bindM (modM (\<lambda>s. s\<lparr>webrtc_session := None\<rparr>)) (\<lambda>_.
     bindM (case h of None \<Rightarrow> retM () | Some h \<Rightarrow> session_close B h) (\<lambda>_. modM (\<lambda>s. s\<lparr>remote_streams := Map.empty\<rparr>))))"

definition bump_rev :: "('v, 'x) app_scheme \<Rightarrow> (('v, 'x) app_scheme, unit) act" where
  "bump_rev seen = modM (\<lambda>s. s\<lparr>local_media_rev := local_media_rev seen + 1\<rparr>)"

text \<open>Keyed by the room and the capture settings: capture again, except right after the start.\<close>

definition capture_effect :: "(('v, 'x) app_scheme, 'v, 'z) page_env_scheme \<Rightarrow> ('v, 'x) app_scheme \<Rightarrow> string option \<Rightarrow> bool \<Rightarrow> bool \<Rightarrow> string \<Rightarrow> string \<Rightarrow> (('v, 'x) app_scheme, unit) act" where
  "capture_effect B seen room_key mic cam mic_d cam_d = (case room_key of None \<Rightarrow> retM ()
     | Some _ \<Rightarrow> bindM (getM skip_media_apply) (\<lambda>skip.
         if skip then modM (\<lambda>s. s\<lparr>skip_media_apply := False\<rparr>)
         else with_session (\<lambda>h. apply_local_media B h on_media_error mic cam mic_d cam_d (input_level (settings seen)) (bump_rev seen))))"

definition gain_effect :: "(('v, 'x) app_scheme, 'v, 'z) page_env_scheme \<Rightarrow> string option \<Rightarrow> 32 word \<Rightarrow> (('v, 'x) app_scheme, unit) act" where
  "gain_effect B room_key level = (case room_key of None \<Rightarrow> retM () | Some _ \<Rightarrow> with_session (\<lambda>h. set_input_level B h level))"

section \<open>The room screen\<close>

definition on_screen_share_started :: "(('v, 'x) app_scheme, 'v, 'z) page_env_scheme \<Rightarrow> ('v, 'x) app_scheme \<Rightarrow> 'v \<Rightarrow> (('v, 'x) app_scheme, unit) act" where
  "on_screen_share_started B seen stream = with_session (\<lambda>h. publish_screen_share B h on_media_error stream (bump_rev seen))"

definition on_screen_share_stopped :: "(('v, 'x) app_scheme, 'v, 'z) page_env_scheme \<Rightarrow> ('v, 'x) app_scheme \<Rightarrow> (('v, 'x) app_scheme, unit) act" where
  "on_screen_share_stopped B seen = with_session (\<lambda>h. stop_screen_share B h on_media_error (bump_rev seen))"

definition local_media :: "('v, 'x) app_scheme \<Rightarrow> 'v option" where
  "local_media s = (case webrtc_session s of None \<Rightarrow> None | Some h \<Rightarrow> local_stream (cells s (sid h)))"

definition participant_media :: "('v, 'x) app_scheme \<Rightarrow> ActiveRoom \<Rightarrow> 'v option list" where
  "participant_media s room = map (\<lambda>nick. if nick = your_nickname room then local_media s
     else (case remote_streams s nick of None \<Rightarrow> None | Some media \<Rightarrow> camera media)) (participants room)"

fun first_presentation :: "(string \<rightharpoonup> 'v RemoteParticipantMedia) \<Rightarrow> string list \<Rightarrow> (string \<times> 'v) option" where
  "first_presentation m [] = None"
| "first_presentation m (nick # nicks) =
     (case (case m nick of None \<Rightarrow> None | Some media \<Rightarrow> screen_media media) of
        Some stream \<Rightarrow> Some (nick, stream) | None \<Rightarrow> first_presentation m nicks)"

definition remote_presentation :: "('v, 'x) app_scheme \<Rightarrow> ActiveRoom \<Rightarrow> (string \<times> 'v) option" where
  "remote_presentation s room = first_presentation (remote_streams s) (filter (\<lambda>nick. nick \<noteq> your_nickname room) (participants room))"

section \<open>Forms\<close>

definition nick_form :: "(NicknameForm \<Rightarrow> NicknameForm) \<Rightarrow> (('v, 'x) app_scheme, unit) act" where
  "nick_form u = modM (\<lambda>s. s\<lparr>nickname_form := u (nickname_form s)\<rparr>)"

definition err_of :: "string + unit \<Rightarrow> string option" where
  "err_of r = (case r of Inl e \<Rightarrow> Some e | Inr _ \<Rightarrow> None)"

definition nickname_on_input :: "('v, 'x) app_scheme \<Rightarrow> string \<Rightarrow> (('v, 'x) app_scheme, unit) act" where
  "nickname_on_input seen value = nick_form (\<lambda>f. f\<lparr>nick_value := value,
     nick_error := err_of (validate_nickname_live value (attempted_submit (nickname_form seen)))\<rparr>)"

definition nickname_submit_task :: "(('v, 'x) app_scheme, 'v, 'z) page_env_scheme \<Rightarrow> string \<Rightarrow> (('v, 'x) app_scheme, unit) act" where
  "nickname_submit_task B value = bindM (submit_nickname (http B) value) (\<lambda>r.
     bindM (case r of Inr response \<Rightarrow> on_nickname_success (resp_session_id response)
       | Inl message \<Rightarrow> nick_form (\<lambda>f. f\<lparr>nick_error := Some message\<rparr>)) (\<lambda>_.
     nick_form (\<lambda>f. f\<lparr>is_submitting := False\<rparr>)))"

definition nickname_on_submit :: "(('v, 'x) app_scheme, 'v, 'z) page_env_scheme \<Rightarrow> ('v, 'x) app_scheme \<Rightarrow> (('v, 'x) app_scheme, unit) act" where
  "nickname_on_submit B seen = (let value = nick_value (nickname_form seen) in
     if is_submitting (nickname_form seen) then retM ()
     else bindM (nick_form (\<lambda>f. f\<lparr>attempted_submit := True\<rparr>)) (\<lambda>_. case client_validate_nickname value of
         Inr _ \<Rightarrow> bindM (nick_form (\<lambda>f. f\<lparr>nick_error := None, is_submitting := True\<rparr>)) (\<lambda>_.
           spawn_local B (nickname_submit_task B value))
       | Inl message \<Rightarrow> nick_form (\<lambda>f. f\<lparr>nick_error := Some message\<rparr>)))"

definition set_menu :: "(MenuForm \<Rightarrow> MenuForm) \<Rightarrow> (('v, 'x) app_scheme, unit) act" where
  "set_menu u = modM (\<lambda>s. s\<lparr>menu_form := u (menu_form s)\<rparr>)"

text \<open>The prop \<open>session_id\<close> is the empty text when there is no session.\<close>

definition session_prop :: "('v, 'x) app_scheme \<Rightarrow> string" where
  "session_prop seen = (case session_id seen of None \<Rightarrow> [] | Some session \<Rightarrow> session)"

definition create_task :: "(('v, 'x) app_scheme, 'v, 'z) page_env_scheme \<Rightarrow> string \<Rightarrow> (('v, 'x) app_scheme, unit) act" where
  "create_task B session = bindM (api_create (http B) session) (\<lambda>r.
     bindM (case r of Inr response \<Rightarrow> on_signaling_ready response IntentCreate
       | Inl err \<Rightarrow> set_menu (\<lambda>f. f\<lparr>action_error := Some err\<rparr>)) (\<lambda>_.
     set_menu (\<lambda>f. f\<lparr>menu_busy := False\<rparr>)))"

definition menu_on_create :: "(('v, 'x) app_scheme, 'v, 'z) page_env_scheme \<Rightarrow> ('v, 'x) app_scheme \<Rightarrow> (('v, 'x) app_scheme, unit) act" where
  "menu_on_create B seen = (if menu_busy (menu_form seen) then retM ()
     else bindM (set_menu (\<lambda>f. f\<lparr>menu_busy := True, action_error := None\<rparr>)) (\<lambda>_.
       spawn_local B (create_task B (session_prop seen))))"

definition set_join :: "(JoinForm \<Rightarrow> JoinForm) \<Rightarrow> (('v, 'x) app_scheme, unit) act" where
  "set_join u = modM (\<lambda>s. s\<lparr>join_form := u (join_form s)\<rparr>)"

definition is_hexdigit :: "char \<Rightarrow> bool" where
  "is_hexdigit c \<longleftrightarrow> (let n = of_char c :: nat in (48 \<le> n \<and> n \<le> 57) \<or> (65 \<le> n \<and> n \<le> 70) \<or> (97 \<le> n \<and> n \<le> 102))"

text \<open>The bytes of the text: a character beyond ASCII has bytes that are neither hyphens nor digits.\<close>

definition is_uuid_like :: "string \<Rightarrow> bool" where
  "is_uuid_like value \<longleftrightarrow> length value = 36 \<and> list_all (\<lambda>i. value ! i = CHR ''-'') [8, 13, 18, 23]
     \<and> list_all (\<lambda>(i, c). i \<in> {8, 13, 18, 23} \<or> is_hexdigit c) (zip [0..<length value] value)"

definition join_on_input :: "string \<Rightarrow> (('v, 'x) app_scheme, unit) act" where
  "join_on_input value = set_join (\<lambda>f. f\<lparr>room_target := value,
     join_error := if trim value = [] then Some ''Enter a room ID.'' else None\<rparr>)"

definition join_task :: "(('v, 'x) app_scheme, 'v, 'z) page_env_scheme \<Rightarrow> string \<Rightarrow> string \<Rightarrow> (('v, 'x) app_scheme, unit) act" where
  "join_task B session value = bindM (api_join (http B) session value) (\<lambda>r.
     bindM (case r of Inr response \<Rightarrow> on_signaling_ready response (IntentJoin value)
       | Inl err \<Rightarrow> set_join (\<lambda>f. f\<lparr>join_error := Some err\<rparr>)) (\<lambda>_.
     set_join (\<lambda>f. f\<lparr>join_busy := False\<rparr>)))"

definition join_run_submit :: "(('v, 'x) app_scheme, 'v, 'z) page_env_scheme \<Rightarrow> ('v, 'x) app_scheme \<Rightarrow> (('v, 'x) app_scheme, unit) act" where
  "join_run_submit B seen = (let value = trim (room_target (join_form seen)) in
     if join_busy (join_form seen) then retM ()
     else if value = [] then set_join (\<lambda>f. f\<lparr>join_error := Some ''Enter a room ID.''\<rparr>)
     else if \<not> is_uuid_like value then set_join (\<lambda>f. f\<lparr>join_error := Some ''Room ID must be a UUID.''\<rparr>)
     else bindM (set_join (\<lambda>f. f\<lparr>join_error := None, join_busy := True\<rparr>)) (\<lambda>_.
       spawn_local B (join_task B (session_prop seen) value)))"

end
