(* ===== verification/Client_Devices.thy ===== *)
theory Client_Devices
  imports Client_App
begin

text \<open>
  Devices: \<^verbatim>\<open>client/src/components/settings_panel.rs\<close>, \<^verbatim>\<open>settings_panel/data.rs\<close>, \<^verbatim>\<open>screen_share_pick.rs\<close> and
  the output settings of \<^verbatim>\<open>components/room.rs\<close>. What they use of the browser beyond a media session extends
  its record.
\<close>

record ('w, 'v) device_env = "('w, 'v) page_env" +
  navigator_of :: "'v \<Rightarrow> 'v"
  is_nullish :: "'v \<Rightarrow> bool"
  array_values :: "'v \<Rightarrow> 'v list"
  videos_in :: "'v \<Rightarrow> ('w, 'v, 'v list) prog"
  is_video :: "'v \<Rightarrow> bool"

section \<open>Devices\<close>

datatype DeviceKind = InputKind | OutputKind | CameraKind

definition device_title :: "DeviceKind \<Rightarrow> string" where
  "device_title k = (case k of InputKind \<Rightarrow> ''Microphone'' | OutputKind \<Rightarrow> ''Speakers'' | CameraKind \<Rightarrow> ''Camera'')"

definition nav_label :: "DeviceKind \<Rightarrow> string" where
  "nav_label k = (case k of InputKind \<Rightarrow> ''INPUT'' | OutputKind \<Rightarrow> ''OUTPUT'' | CameraKind \<Rightarrow> ''CAMERA'')"

record DeviceEntry =
  device_id :: string
  device_label :: string

record DeviceCatalog =
  inputs :: "DeviceEntry list"
  outputs :: "DeviceEntry list"
  cameras :: "DeviceEntry list"

definition empty_catalog :: DeviceCatalog where
  "empty_catalog = \<lparr>inputs = [], outputs = [], cameras = []\<rparr>"

definition catalog_len_for_kind :: "DeviceCatalog \<Rightarrow> string \<Rightarrow> nat" where
  "catalog_len_for_kind catalog kind =
     (if kind = ''audioinput'' then length (inputs catalog)
      else if kind = ''audiooutput'' then length (outputs catalog)
      else if kind = ''videoinput'' then length (cameras catalog) else 0)"

definition default_label :: "string \<Rightarrow> nat \<Rightarrow> string" where
  "default_label kind index =
     (if kind = ''audioinput'' then ''Microphone '' else if kind = ''audiooutput'' then ''Speaker ''
      else if kind = ''videoinput'' then ''Camera '' else ''Device '') @ show_nat index"

definition push_device :: "DeviceCatalog \<Rightarrow> string \<Rightarrow> DeviceEntry \<Rightarrow> DeviceCatalog" where
  "push_device catalog kind entry =
     (if kind = ''audioinput'' then catalog\<lparr>inputs := inputs catalog @ [entry]\<rparr>
      else if kind = ''audiooutput'' then catalog\<lparr>outputs := outputs catalog @ [entry]\<rparr>
      else if kind = ''videoinput'' then catalog\<lparr>cameras := cameras catalog @ [entry]\<rparr> else catalog)"

text \<open>One value of the enumeration, as its properties \<open>kind\<close>, \<open>deviceId\<close> and \<open>label\<close>.\<close>

definition catalog_device :: "DeviceCatalog \<Rightarrow> string \<times> string \<times> string \<Rightarrow> DeviceCatalog" where
  "catalog_device catalog dev = (case dev of (kind, did, label) \<Rightarrow>
     if did = [] then catalog
     else push_device catalog kind \<lparr>device_id = did,
       device_label = (if label = [] then default_label kind (catalog_len_for_kind catalog kind + 1) else label)\<rparr>)"

definition get_string_property :: "('w, 'v, 'z) device_env_scheme \<Rightarrow> 'v \<Rightarrow> string \<Rightarrow> ('w, string) act" where
  "get_string_property B value property = bindM (prop_text B value property) (\<lambda>t. retM (case t of None \<Rightarrow> [] | Some x \<Rightarrow> x))"

section \<open>Enumeration\<close>

text \<open>\<open>js_error_to_string\<close> of the two modules, each with its own last resort.\<close>

definition plain_error_text :: "('w, 'v, 'z) device_env_scheme \<Rightarrow> string \<Rightarrow> 'v \<Rightarrow> string" where
  "plain_error_text B fallback value = (case js_as_string B value of Some t \<Rightarrow> t
     | None \<Rightarrow> (case js_stringify B value of Some t \<Rightarrow> t | None \<Rightarrow> fallback))"

definition DEVICE_ERROR :: string where
  "DEVICE_ERROR = ''Browser device operation failed.''"
definition MEDIA_ERROR :: string where
  "MEDIA_ERROR = ''Browser media operation failed.''"

definition try_prime_media :: "('w, 'v, 'z) device_env_scheme \<Rightarrow> 'v \<Rightarrow> bool \<times> bool \<Rightarrow> ('w, 'v, unit) prog" where
  "try_prime_media B devices kinds =
     tryM (user_media_promise B devices (js_bool B (fst kinds)) (js_bool B (snd kinds))) (\<lambda>promise.
     tryM (js_await B promise) (\<lambda>stream. if \<not> is_stream B stream then failM stream
       else bindM (stop_all_tracks B stream) (\<lambda>_. okM ())))"

fun prime_first :: "('w, 'v, 'z) device_env_scheme \<Rightarrow> 'v \<Rightarrow> (bool \<times> bool) list \<Rightarrow> ('w, unit) act" where
  "prime_first B devices [] = retM ()"
| "prime_first B devices (k # ks) =
     (if \<not> fst k \<and> \<not> snd k then prime_first B devices ks
      else bindM (try_prime_media B devices k) (\<lambda>r. case r of Inr _ \<Rightarrow> retM () | Inl _ \<Rightarrow> prime_first B devices ks))"

definition prime_enumeration_permissions :: "('w, 'v, 'z) device_env_scheme \<Rightarrow> ('w, unit) act" where
  "prime_enumeration_permissions B = (case js_window B of None \<Rightarrow> retM ()
     | Some win \<Rightarrow> bindM (media_devices B win) (\<lambda>r. case r of Inl _ \<Rightarrow> retM ()
         | Inr devices \<Rightarrow> prime_first B devices [(True, True), (True, False), (False, True)]))"

definition or_text :: "('w, 'v, 'z) device_env_scheme \<Rightarrow> string \<Rightarrow> ('w, 'v, 'a) prog \<Rightarrow> ('w, string, 'a) prog" where
  "or_text B fallback m = map_errM (plain_error_text B fallback) m"

text \<open>The device object of the navigator, and a function of it.\<close>

definition devices_object :: "('w, 'v, 'z) device_env_scheme \<Rightarrow> string \<Rightarrow> string \<Rightarrow> ('w, string, 'v) prog" where
  "devices_object B fallback unsupported = (case js_window B of None \<Rightarrow> failM ''Window is not available.''
     | Some win \<Rightarrow> tryM (or_text B fallback (js_get B (navigator_of B win) ''mediaDevices'')) (\<lambda>devices.
         if is_nullish B devices then failM unsupported else okM devices))"

definition device_function :: "('w, 'v, 'z) device_env_scheme \<Rightarrow> string \<Rightarrow> 'v \<Rightarrow> string \<Rightarrow> ('w, string, 'v) prog" where
  "device_function B fallback devices name = tryM (or_text B fallback (js_get B devices name)) (\<lambda>f.
     if is_function B f then okM f else failM (name @ '' is not available.''))"

definition device_promise :: "('w, 'v, 'z) device_env_scheme \<Rightarrow> string \<Rightarrow> 'v \<Rightarrow> 'v \<Rightarrow> string \<Rightarrow> 'v list \<Rightarrow> ('w, string, 'v) prog" where
  "device_promise B fallback f devices name args = tryM (or_text B fallback (js_apply B f devices args)) (\<lambda>p.
     if is_promise B p then or_text B fallback (js_await B p) else failM (name @ '' did not return a Promise.''))"

fun read_devices :: "('w, 'v, 'z) device_env_scheme \<Rightarrow> DeviceCatalog \<Rightarrow> 'v list \<Rightarrow> ('w, DeviceCatalog) act" where
  "read_devices B catalog [] = retM catalog"
| "read_devices B catalog (v # vs) =
     bindM (get_string_property B v ''kind'') (\<lambda>kind. bindM (get_string_property B v ''deviceId'') (\<lambda>did.
     if did = [] then read_devices B catalog vs
     else bindM (get_string_property B v ''label'') (\<lambda>label. read_devices B (catalog_device catalog (kind, did, label)) vs)))"

definition load_device_catalog :: "('w, 'v, 'z) device_env_scheme \<Rightarrow> ('w, string, DeviceCatalog) prog" where
  "load_device_catalog B =
     tryM (devices_object B DEVICE_ERROR ''Media devices are not supported by this browser.'') (\<lambda>devices.
     bindM (prime_enumeration_permissions B) (\<lambda>_.
     tryM (device_function B DEVICE_ERROR devices ''enumerateDevices'') (\<lambda>f.
     tryM (device_promise B DEVICE_ERROR f devices ''enumerateDevices'' []) (\<lambda>list.
     bindM (read_devices B empty_catalog (array_values B list)) okM))))"

section \<open>Display capture\<close>

definition start_display_capture :: "('w, 'v, 'z) device_env_scheme \<Rightarrow> ('w, string, 'v) prog" where
  "start_display_capture B =
     tryM (devices_object B MEDIA_ERROR ''Screen sharing is not supported by this browser.'') (\<lambda>devices.
     tryM (device_function B MEDIA_ERROR devices ''getDisplayMedia'') (\<lambda>f.
     bindM (js_object B) (\<lambda>constraints.
     tryM (or_text B MEDIA_ERROR (js_set B constraints ''video'' (js_bool B True))) (\<lambda>_.
     tryM (or_text B MEDIA_ERROR (js_set B constraints ''audio'' (js_bool B False))) (\<lambda>_.
       device_promise B MEDIA_ERROR f devices ''getDisplayMedia'' [constraints])))))"

definition stop_media_stream_tracks :: "('w, 'v, 'z) device_env_scheme \<Rightarrow> 'v \<Rightarrow> ('w, unit) act" where
  "stop_media_stream_tracks B stream = (if is_stream B stream then stop_all_tracks B stream else retM ())"

section \<open>The settings panel\<close>

definition MIN_LEVEL :: "32 word" where "MIN_LEVEL = 0"
definition MAX_LEVEL :: "32 word" where "MAX_LEVEL = 200"
definition DEFAULT_LEVEL :: "32 word" where "DEFAULT_LEVEL = 100"

definition on_level_input :: "(32 word \<Rightarrow> ('w, unit) act) \<Rightarrow> string \<Rightarrow> ('w, unit) act" where
  "on_level_input on_change value =
     on_change (max MIN_LEVEL (min MAX_LEVEL (case parse_u32 value of Some n \<Rightarrow> n | None \<Rightarrow> DEFAULT_LEVEL)))"

text \<open>The first camera becomes the selected one, once; the result is the new value of the flag.\<close>

definition camera_default_effect :: "bool \<Rightarrow> DeviceCatalog \<Rightarrow> string \<Rightarrow> (string \<Rightarrow> ('w, unit) act) \<Rightarrow> ('w, bool) act" where
  "camera_default_effect default_done catalog selected on_cam =
     (if default_done then retM True
      else (case cameras catalog of [] \<Rightarrow> retM False
        | first # _ \<Rightarrow> (let sel = trim selected in
            bindM (if sel = [] \<or> eq_ignore_ascii_case sel ''default'' then on_cam (device_id first) else retM ())
              (\<lambda>_. retM True))))"

definition catalog_effect :: "('w, 'v, 'z) device_env_scheme \<Rightarrow> (DeviceCatalog \<Rightarrow> ('w, unit) act) \<Rightarrow> (string option \<Rightarrow> ('w, unit) act)
    \<Rightarrow> ('w, unit) act" where
  "catalog_effect B set_catalog set_error = spawn_local B (bindM (load_device_catalog B) (\<lambda>r. case r of
       Inr found \<Rightarrow> bindM (set_catalog found) (\<lambda>_. set_error None)
     | Inl err \<Rightarrow> set_error (Some err)))"

section \<open>Output\<close>

definition playback_volume :: "32 word \<Rightarrow> real" where
  "playback_volume level = max 0 (min 1 (real (unat (min level 100)) / 100))"

text \<open>\<open>js_error_to_string\<close> of the room.\<close>

definition room_error_text :: "('w, 'v, 'z) device_env_scheme \<Rightarrow> 'v \<Rightarrow> ('w, string) act" where
  "room_error_text B value =
     bindM (prop_text B value ''name'') (\<lambda>name. bindM (prop_text B value ''message'') (\<lambda>m.
       let message = (case m of Some t \<Rightarrow> Some t | None \<Rightarrow> js_as_string B value) in
       retM (case (name, message) of
           (Some n, Some t) \<Rightarrow> if t \<noteq> [] then n @ '': '' @ t else n
         | (Some n, None) \<Rightarrow> n
         | (None, Some t) \<Rightarrow> t
         | (None, None) \<Rightarrow> MEDIA_ERROR)))"

definition room_errM :: "('w, 'v, 'z) device_env_scheme \<Rightarrow> ('w, 'v, 'a) prog \<Rightarrow> ('w, string, 'a) prog" where
  "room_errM B m = bindM m (\<lambda>r. case r of Inr x \<Rightarrow> okM x | Inl err \<Rightarrow> bindM (room_error_text B err) failM)"

definition set_media_sink_id :: "('w, 'v, 'z) device_env_scheme \<Rightarrow> 'v \<Rightarrow> string \<Rightarrow> ('w, string, unit) prog" where
  "set_media_sink_id B video sink_id = tryM (room_errM B (js_get B video ''setSinkId'')) (\<lambda>f.
     if \<not> is_function B f then failM ''Audio output device selection is not supported by this browser.''
     else tryM (room_errM B (js_apply B f video [js_string B sink_id])) (\<lambda>out.
       if is_promise B out then tryM (room_errM B (js_await B out)) (\<lambda>_. okM ()) else okM ()))"

fun apply_output :: "('w, 'v, 'z) device_env_scheme \<Rightarrow> real \<Rightarrow> string \<Rightarrow> string option \<Rightarrow> 'v list \<Rightarrow> ('w, string option) act" where
  "apply_output B vol sink_id sink_error [] = retM sink_error"
| "apply_output B vol sink_id sink_error (v # vs) =
     (if \<not> is_video B v then apply_output B vol sink_id sink_error vs
      else bindM (js_set B v ''volume'' (js_number B vol)) (\<lambda>_.
        if sink_id \<noteq> [] \<and> \<not> eq_ignore_ascii_case sink_id ''default''
        then bindM (set_media_sink_id B v sink_id) (\<lambda>r. apply_output B vol sink_id
            (case (r, sink_error) of (Inl err, None) \<Rightarrow> Some err | _ \<Rightarrow> sink_error) vs)
        else apply_output B vol sink_id sink_error vs))"

definition apply_global_output_audio_settings :: "('w, 'v, 'z) device_env_scheme \<Rightarrow> 'v \<Rightarrow> 32 word \<Rightarrow> string \<Rightarrow> ('w, string option) act" where
  "apply_global_output_audio_settings B container level speaker =
     bindM (videos_in B container) (\<lambda>r. case r of Inl _ \<Rightarrow> retM None
       | Inr vs \<Rightarrow> apply_output B (playback_volume level) (trim speaker) None vs)"

end
