(* ===== verification/Client_Room.thy ===== *)
theory Client_Room
  imports Client_Devices
begin

text \<open>
  The room screen: \<^verbatim>\<open>client/src/components/room/layout.rs\<close>, \<^verbatim>\<open>room/tiles.rs\<close>, and the state of
  \<^verbatim>\<open>components/room.rs\<close>: the pages of participants, the screen share button, the copied id. \<^verbatim>\<open>f64\<close> is
  modelled by the reals, without rounding; the sizes of the document, the clipboard and the timers are parameters.
\<close>

section \<open>Geometry\<close>

definition TILE_GAP_PX :: real where "TILE_GAP_PX = 14"
definition TILE_SIZE_BOOST :: real where "TILE_SIZE_BOOST = 1.05"
definition TILE_MIN_W_PX :: real where "TILE_MIN_W_PX = 160"
definition TILE_MAX_W_PX :: real where "TILE_MAX_W_PX = 960"
definition TILE_MAX_H_PX :: real where "TILE_MAX_H_PX = 720"
definition TILE_WRAP_PAD_X :: real where "TILE_WRAP_PAD_X = 16"
definition TILE_WRAP_PAD_Y :: real where "TILE_WRAP_PAD_Y = 24"
definition TILE_ASPECT_W_OVER_H :: real where "TILE_ASPECT_W_OVER_H = 16 / 9"
definition GRID_COLS :: nat where "GRID_COLS = 3"
definition GRID_ROWS :: nat where "GRID_ROWS = 2"
definition TILES_PER_PAGE :: nat where "TILES_PER_PAGE = GRID_COLS * GRID_ROWS"
definition ARROW_SLOT_PX :: real where "ARROW_SLOT_PX = 48"
definition ROW_COUNT_SCORE_PENALTY :: real where "ROW_COUNT_SCORE_PENALTY = 1.35"

record ParticipantLayout =
  cols :: nat
  rows :: nat
  tile_width :: real
  tile_height :: real
  per_page :: nat
  page_count :: nat

text \<open>The three corrections of the size, in the order of the code.\<close>

definition cap_height :: "real \<Rightarrow> real \<times> real \<Rightarrow> real \<times> real" where
  "cap_height h t = (if snd t > h then (h * TILE_ASPECT_W_OVER_H, h) else t)"

definition cap_width :: "real \<Rightarrow> real \<times> real \<Rightarrow> real \<times> real" where
  "cap_width w t = (if fst t > w then (w, w / TILE_ASPECT_W_OVER_H) else t)"

definition tile_size_16_9_in_cell :: "real \<Rightarrow> real \<Rightarrow> real \<times> real" where
  "tile_size_16_9_in_cell cell_w cell_h =
     (let cw = max cell_w 1; ch = max cell_h 1; max_tw = min cw TILE_MAX_W_PX; max_th = min ch TILE_MAX_H_PX;
          tw = min max_tw (max_th * TILE_ASPECT_W_OVER_H);
          t = cap_width max_tw (cap_height max_th (tw, tw / TILE_ASPECT_W_OVER_H))
      in if fst t < TILE_MIN_W_PX
         then (let mw = min TILE_MIN_W_PX cw in cap_height ch (mw, mw / TILE_ASPECT_W_OVER_H))
         else t)"

definition tile_size_for_grid :: "real \<Rightarrow> real \<Rightarrow> nat \<Rightarrow> nat \<Rightarrow> real \<times> real" where
  "tile_size_for_grid avail_w avail_h nc nr =
     (let w_raw = max 0 ((avail_w - real (nc - 1) * TILE_GAP_PX) / real nc);
          h_raw = max 0 ((avail_h - real (nr - 1) * TILE_GAP_PX) / real nr);
          base_w = fst (tile_size_16_9_in_cell w_raw h_raw);
          tile_w = min (base_w * TILE_SIZE_BOOST) w_raw
      in cap_height h_raw (tile_w, tile_w / TILE_ASPECT_W_OVER_H))"

definition single_page_layout_score :: "nat \<Rightarrow> nat \<Rightarrow> nat \<Rightarrow> real \<Rightarrow> real \<Rightarrow> real" where
  "single_page_layout_score nc nr count tile_w tile_h =
     tile_w * tile_h * (real count / real (nc * nr)) / (real nr powr ROW_COUNT_SCORE_PENALTY)"

definition tiles_wrap_content_wh :: "int \<Rightarrow> int \<Rightarrow> real \<times> real" where
  "tiles_wrap_content_wh client_w client_h =
     (max 0 (of_int client_w - TILE_WRAP_PAD_X), if client_h > 0 then max 0 (of_int client_h - TILE_WRAP_PAD_Y) else 0)"

type_synonym candidate = "nat \<times> nat \<times> real \<times> real \<times> real"

text \<open>The body of the two loops over rows and columns.\<close>

definition consider_grid :: "real \<Rightarrow> real \<Rightarrow> nat \<Rightarrow> candidate option \<Rightarrow> nat \<times> nat \<Rightarrow> candidate option" where
  "consider_grid aw ah count best grid = (case grid of (nr, nc) \<Rightarrow>
     if nc * nr < count then best
     else (let (tile_w, tile_h) = tile_size_for_grid aw ah nc nr;
               score = single_page_layout_score nc nr count tile_w tile_h;
               this = Some (nc, nr, tile_w, tile_h, score)
           in case best of None \<Rightarrow> this
              | Some (bc, br, _, _, bs) \<Rightarrow>
                  if score > bs \<or> \<bar>score - bs\<bar> < 1 / 100 \<and> nc * nr < bc * br then this else best))"

definition grids :: "(nat \<times> nat) list" where
  "grids = concat (map (\<lambda>nr. map (\<lambda>nc. (nr, nc)) [1..<Suc GRID_COLS]) [1..<Suc GRID_ROWS])"

definition best_single_page_layout :: "real \<Rightarrow> real \<Rightarrow> nat \<Rightarrow> ParticipantLayout" where
  "best_single_page_layout avail_w avail_h n =
     (case foldl (consider_grid (max avail_w 0) (max avail_h 0) (max n 1)) None grids of
        Some (nc, nr, tile_w, tile_h, _) \<Rightarrow> \<lparr>cols = nc, rows = nr, tile_width = tile_w, tile_height = tile_h,
          per_page = TILES_PER_PAGE, page_count = 1\<rparr>
      | None \<Rightarrow> \<lparr>cols = 1, rows = 1, tile_width = TILE_MIN_W_PX, tile_height = TILE_MIN_W_PX / TILE_ASPECT_W_OVER_H,
          per_page = TILES_PER_PAGE, page_count = 1\<rparr>)"

definition paged_grid_layout :: "real \<Rightarrow> real \<Rightarrow> nat \<Rightarrow> ParticipantLayout" where
  "paged_grid_layout avail_w avail_h n =
     (if n \<le> TILES_PER_PAGE then best_single_page_layout avail_w avail_h n
      else (let (tile_w, tile_h) = tile_size_for_grid (max avail_w 0) (max avail_h 0) GRID_COLS GRID_ROWS in
        \<lparr>cols = GRID_COLS, rows = GRID_ROWS, tile_width = tile_w, tile_height = tile_h, per_page = TILES_PER_PAGE,
          page_count = (n + TILES_PER_PAGE - 1) div TILES_PER_PAGE\<rparr>))"

definition resolve_participant_layout :: "real \<Rightarrow> real \<Rightarrow> nat \<Rightarrow> ParticipantLayout \<times> bool" where
  "resolve_participant_layout viewport_w viewport_h n =
     (let vw = max viewport_w 0; vh = max viewport_h 0; fw = max vw 0; fh = max vh 0 in
      if n = 0 then (paged_grid_layout fw fh 1, False)
      else (let probe = paged_grid_layout fw fh n;
                layout = (if page_count probe \<le> 1 then paged_grid_layout fw fh n
                          else paged_grid_layout (max 0 (vw - 2 * ARROW_SLOT_PX)) fh n)
            in (layout, page_count layout > 1)))"

section \<open>Names\<close>

definition MAX_NAME_CHARS :: nat where "MAX_NAME_CHARS = 32"
definition MAX_ROOM_ID_DISPLAY_CHARS :: nat where "MAX_ROOM_ID_DISPLAY_CHARS = 11"

text \<open>The characters of the text, and the ellipsis it ends in when it is cut.\<close>

definition truncate_str :: "string \<Rightarrow> nat \<Rightarrow> string \<times> bool" where
  "truncate_str s len = (if length s \<le> len then (s, False) else (take (len - 1) s, True))"

section \<open>Pages\<close>

definition RAIL_TILES_PER_PAGE :: nat where "RAIL_TILES_PER_PAGE = 4"

definition rail_page_count :: "nat \<Rightarrow> nat" where
  "rail_page_count n = max 1 ((n - 1) div RAIL_TILES_PER_PAGE + 1)"

definition room_page_count :: "bool \<Rightarrow> ParticipantLayout \<Rightarrow> nat \<Rightarrow> nat" where
  "room_page_count presentation layout n = (if presentation then rail_page_count n else page_count layout)"

definition current_page :: "nat \<Rightarrow> nat \<Rightarrow> nat" where
  "current_page index pages = min index (pages - 1)"

text \<open>Start and end of the slice shown, and whether the arrows are.\<close>

definition visible_range :: "bool \<Rightarrow> ParticipantLayout \<times> bool \<Rightarrow> nat \<Rightarrow> nat \<Rightarrow> nat \<times> nat \<times> bool" where
  "visible_range presentation layout n page =
     (if presentation
      then (let s = page * RAIL_TILES_PER_PAGE in (s, min (s + RAIL_TILES_PER_PAGE) n, rail_page_count n > 1))
      else (let s = page * per_page (fst layout) in (s, min (s + per_page (fst layout)) n, snd layout)))"

definition clamp_page_effect :: "nat \<Rightarrow> nat \<Rightarrow> nat" where
  "clamp_page_effect index pages = (let clamped = min index (pages - 1) in if clamped \<noteq> index then clamped else index)"

definition on_page_prev :: "nat \<Rightarrow> nat" where
  "on_page_prev index = index - 1"
definition on_page_next :: "nat \<Rightarrow> nat \<Rightarrow> nat" where
  "on_page_next pages index = min (index + 1) (pages - 1)"

section \<open>The state of the screen\<close>

record 'v room_page = "'v app" +
  screen_sharing :: bool
  screen_share_stream :: "'v option"
  copy_flash :: bool
  tile_area_wh :: "real \<times> real"
  page_index :: nat
  is_settings_open :: bool

record ('w, 'v) room_env = "('w, 'v) device_env" +
  write_clipboard :: "string \<Rightarrow> ('w, 'v) act"
  sleep_ms :: "nat \<Rightarrow> ('w, unit) act"

definition shows_presentation :: "bool \<Rightarrow> ('v, 'x) room_page_scheme \<Rightarrow> bool \<Rightarrow> bool" where
  "shows_presentation remote_active s remote_media \<longleftrightarrow> screen_sharing s \<or> remote_active \<or> remote_media"

definition size_observed :: "int \<Rightarrow> int \<Rightarrow> (('v, 'x) room_page_scheme, unit) act" where
  "size_observed client_w client_h = (let wh = tiles_wrap_content_wh client_w client_h in
     if fst wh > 0 then modM (\<lambda>s. s\<lparr>tile_area_wh := wh\<rparr>) else retM ())"

definition share_started_task :: "(('v, 'x) room_page_scheme, 'v, 'z) room_env_scheme \<Rightarrow> ('v \<Rightarrow> (('v, 'x) room_page_scheme, unit) act)
    \<Rightarrow> (string \<Rightarrow> (('v, 'x) room_page_scheme, unit) act) \<Rightarrow> (('v, 'x) room_page_scheme, unit) act" where
  "share_started_task B started failed = bindM (start_display_capture B) (\<lambda>r. case r of
       Inr stream \<Rightarrow> bindM (started stream) (\<lambda>_. modM (\<lambda>s. s\<lparr>screen_share_stream := Some stream, screen_sharing := True\<rparr>))
     | Inl err \<Rightarrow> failed err)"

definition on_toggle_screen :: "(('v, 'x) room_page_scheme, 'v, 'z) room_env_scheme \<Rightarrow> ('v, 'x) room_page_scheme
    \<Rightarrow> ('v \<Rightarrow> (('v, 'x) room_page_scheme, unit) act) \<Rightarrow> (('v, 'x) room_page_scheme, unit) act
    \<Rightarrow> (string \<Rightarrow> (('v, 'x) room_page_scheme, unit) act) \<Rightarrow> (('v, 'x) room_page_scheme, unit) act" where
  "on_toggle_screen B seen started stopped_cb failed =
     (if screen_sharing seen
      then bindM (case screen_share_stream seen of None \<Rightarrow> retM () | Some stream \<Rightarrow> stop_media_stream_tracks B stream) (\<lambda>_.
        bindM stopped_cb (\<lambda>_. modM (\<lambda>s. s\<lparr>screen_share_stream := None, screen_sharing := False\<rparr>)))
      else spawn_local B (share_started_task B started failed))"

definition on_share_error :: "string \<Rightarrow> (('v, 'x) app_scheme, unit) act" where
  "on_share_error message = modM (\<lambda>s. s\<lparr>media_error := Some message\<rparr>)"

definition copy_to_clipboard :: "('w, 'v, 'z) room_env_scheme \<Rightarrow> string \<Rightarrow> ('w, bool) act" where
  "copy_to_clipboard B text = (case js_window B of None \<Rightarrow> retM False
     | Some _ \<Rightarrow> bindM (write_clipboard B text) (\<lambda>p. bindM (js_await B p) (\<lambda>r. retM (case r of Inr _ \<Rightarrow> True | Inl _ \<Rightarrow> False))))"

definition on_copy_room_id :: "(('v, 'x) room_page_scheme, 'v, 'z) room_env_scheme \<Rightarrow> string \<Rightarrow> (('v, 'x) room_page_scheme, unit) act" where
  "on_copy_room_id B room = spawn_local B (bindM (copy_to_clipboard B room) (\<lambda>copied. if \<not> copied then retM ()
     else bindM (modM (\<lambda>s. s\<lparr>copy_flash := True\<rparr>)) (\<lambda>_. bindM (sleep_ms B 1600) (\<lambda>_. modM (\<lambda>s. s\<lparr>copy_flash := False\<rparr>)))))"

definition output_effect :: "(('v, 'x) room_page_scheme, 'v, 'z) room_env_scheme \<Rightarrow> 'v option \<Rightarrow> 32 word \<Rightarrow> string
    \<Rightarrow> (('v, 'x) room_page_scheme, unit) act" where
  "output_effect B element level speaker = spawn_local B (bindM (sleep_ms B 0) (\<lambda>_. case element of None \<Rightarrow> retM ()
     | Some el \<Rightarrow> bindM (apply_global_output_audio_settings B el level speaker) (\<lambda>r. case r of None \<Rightarrow> retM ()
         | Some err \<Rightarrow> on_share_error err)))"

definition stage_caption :: "('v, 'x) room_page_scheme \<Rightarrow> string option \<Rightarrow> string" where
  "stage_caption s owner = (if screen_sharing s then ''Your screen''
     else (case owner of Some name \<Rightarrow> name | None \<Rightarrow> ''Shared screen''))"

definition stage_media :: "('v, 'x) room_page_scheme \<Rightarrow> 'v option \<Rightarrow> 'v option" where
  "stage_media s remote = (if screen_sharing s then screen_share_stream s else remote)"

definition band :: "nat \<Rightarrow> real \<Rightarrow> real" where
  "band k extent = real k * extent + real (k - 1) * TILE_GAP_PX"

definition RAIL_TILE_W_PX :: real where "RAIL_TILE_W_PX = 156"

definition rail_band_h :: "nat \<Rightarrow> nat \<Rightarrow> real" where
  "rail_band_h start end' = band (end' - start) (RAIL_TILE_W_PX / TILE_ASPECT_W_OVER_H)"

text \<open>The tiles of a page: name, media by its place in the whole list, muted when it is one's own.\<close>

definition view_participants :: "string list \<Rightarrow> nat \<Rightarrow> nat \<Rightarrow> 'v option list \<Rightarrow> string \<Rightarrow> (string \<times> 'v option \<times> bool) list" where
  "view_participants names start end' media your_name =
     map (\<lambda>(i, name). (name, if start + i < length media then media ! (start + i) else None, name = your_name))
       (zip [0..<end' - start] (take (end' - start) (drop start names)))"

definition media_stream_has_video :: "('w, 'v, 'z) browser_scheme \<Rightarrow> 'v option \<Rightarrow> ('w, bool) act" where
  "media_stream_has_video B media = (case media of None \<Rightarrow> retM False
     | Some js \<Rightarrow> if \<not> is_stream B js then retM False
         else bindM (video_tracks B js) (\<lambda>ts. retM (length ts > 0)))"

end
