(* ===== verification/Page_View.thy ===== *)
theory Page_View
  imports Client_Room
begin

text \<open>
  The markup of the page as data: elements with attributes, handlers among them, texts, and components with
  their properties, as the \<^verbatim>\<open>html!\<close> macro of the client builds them. A handler is an action on the state of the page.
  Here are the tree, the properties of the components, number formats and the small components; the screens are in
  \<open>Page_Screens\<close>. The default action of a submitted form, which every handler prevents, is left out.
\<close>

section \<open>Documents\<close>

text \<open>\<open>Sym\<close> is one character outside the range of \<open>char\<close>, by its code point.\<close>

datatype 's attr = Val string | Flag bool | On "('s, unit) act" | OnText "string \<Rightarrow> ('s, unit) act"

datatype ('s, 'c) html = Elem string "(string \<times> 's attr) list" "('s, 'c) html list" | Txt string | Sym nat | Comp 'c

definition tag_attr :: "string \<Rightarrow> string \<Rightarrow> string \<times> 's attr" where
  "tag_attr name v = (name, Val v)"
definition css :: "string \<Rightarrow> string \<times> 's attr" where
  "css v = (''class'', Val v)"
definition label :: "string \<Rightarrow> string \<times> 's attr" where
  "label v = (''aria-label'', Val v)"
definition click :: "('s, unit) act \<Rightarrow> string \<times> 's attr" where
  "click f = (''onclick'', On f)"

text \<open>\<^verbatim>\<open>if c { node }\<close> among children, and \<^verbatim>\<open>classes!\<close>.\<close>

definition shown_if :: "bool \<Rightarrow> 'a \<Rightarrow> 'a list" where
  "shown_if c x = (if c then [x] else [])"

fun classes :: "string list \<Rightarrow> string" where
  "classes [] = []"
| "classes [c] = c"
| "classes (c # cs) = c @ '' '' @ classes cs"

text \<open>The components and elements of a tree, in document order.\<close>

fun comps :: "('s, 'c) html \<Rightarrow> 'c list" where
  "comps (Elem tag attrs kids) = concat (map comps kids)"
| "comps (Txt t) = []"
| "comps (Sym n) = []"
| "comps (Comp c) = [c]"

fun elems :: "('s, 'c) html \<Rightarrow> (string \<times> (string \<times> 's attr) list) list" where
  "elems (Elem tag attrs kids) = (tag, attrs) # concat (map elems kids)"
| "elems (Txt t) = []"
| "elems (Sym n) = []"
| "elems (Comp c) = []"

text \<open>A click on the first element with this label; a disabled one does nothing.\<close>

definition labelled :: "string \<Rightarrow> string \<times> (string \<times> 's attr) list \<Rightarrow> bool" where
  "labelled name e = (case map_of (snd e) ''aria-label'' of Some (Val v) \<Rightarrow> v = name | _ \<Rightarrow> False)"

definition press :: "string \<Rightarrow> ('s, 'c) html \<Rightarrow> ('s, unit) act" where
  "press name doc = (case find (labelled name) (elems doc) of None \<Rightarrow> retM ()
     | Some e \<Rightarrow> (case (map_of (snd e) ''disabled'', map_of (snd e) ''onclick'') of
           (Some (Flag True), _) \<Rightarrow> retM ()
         | (_, Some (On f)) \<Rightarrow> f
         | _ \<Rightarrow> retM ()))"

text \<open>
  A tree with its components drawn, \<open>fuel\<close> levels deep. Four are enough for the page: the deepest chain is a screen, the
  settings panel and its theme button.
\<close>

fun expand :: "nat \<Rightarrow> ('c \<Rightarrow> ('s, ('s, 'c) html) act) \<Rightarrow> ('s, 'c) html \<Rightarrow> ('s, ('s, 'c) html) act"
  and expands :: "nat \<Rightarrow> ('c \<Rightarrow> ('s, ('s, 'c) html) act) \<Rightarrow> ('s, 'c) html list \<Rightarrow> ('s, ('s, 'c) html list) act" where
  "expand fuel d (Elem tag attrs kids) = bindM (expands fuel d kids) (\<lambda>ks. retM (Elem tag attrs ks))"
| "expand fuel d (Txt t) = retM (Txt t)"
| "expand fuel d (Sym n) = retM (Sym n)"
| "expand 0 d (Comp c) = retM (Comp c)"
| "expand (Suc fuel) d (Comp c) = bindM (d c) (expand fuel d)"
| "expands fuel d [] = retM []"
| "expands fuel d (k # ks) = bindM (expand fuel d k) (\<lambda>k'. bindM (expands fuel d ks) (\<lambda>ks'. retM (k' # ks')))"

section \<open>Number formats\<close>

text \<open>\<^verbatim>\<open>{:.d}\<close>: \<open>d\<close> decimals, ties to even.\<close>

definition round_even :: "real \<Rightarrow> int" where
  "round_even x = (let f = \<lfloor>x\<rfloor>; r = x - of_int f in
     if r < 1 / 2 then f else if r > 1 / 2 then f + 1 else if even f then f else f + 1)"

definition fixed :: "nat \<Rightarrow> real \<Rightarrow> string" where
  "fixed d x = (let k = nat (round_even (\<bar>x\<bar> * 10 ^ d)) in
     (if x < 0 then ''-'' else []) @ show_nat (k div 10 ^ d) @ ''.'' @ tl (show_nat (10 ^ d + k mod 10 ^ d)))"

section \<open>The state of the screens\<close>

text \<open>
  The hooks of the components beside those of the room: the dialog of each screen and the settings panel, which are
  new when the component is mounted.
\<close>

record 'v shown = "'v room_page" +
  menu_settings_open :: bool
  join_settings_open :: bool
  panel_tab :: DeviceKind
  panel_catalog :: DeviceCatalog
  panel_catalog_error :: "string option"
  panel_camera_done :: bool

text \<open>What the components use of the document: references to elements, sizes and media of elements, observers.\<close>

record ('w, 'v) view_env = "('w, 'v) room_env" +
  node_of :: "string \<Rightarrow> ('w, 'v option) act"
  client_size :: "'v \<Rightarrow> ('w, int \<times> int) act"
  listen_resize :: "('w, unit) act \<Rightarrow> ('w, 'v) act"
  unlisten_resize :: "'v \<Rightarrow> ('w, unit) act"
  observe_size :: "'v \<Rightarrow> ('w, unit) act \<Rightarrow> ('w, 'v) act"
  disconnect_observer :: "'v \<Rightarrow> ('w, unit) act"
  set_muted :: "'v \<Rightarrow> bool \<Rightarrow> ('w, unit) act"
  set_src_object :: "'v \<Rightarrow> 'v option \<Rightarrow> ('w, unit) act"
  request_submit :: "'v \<Rightarrow> ('w, unit) act"
  logo_url :: string

section \<open>Properties of the components\<close>

text \<open>The settings and the nine callbacks that three screens and the panel pass on.\<close>

record 's setting_calls =
  cb_theme :: "Theme \<Rightarrow> ('s, unit) act"
  cb_mic :: "('s, unit) act"
  cb_camera :: "('s, unit) act"
  cb_input_level :: "32 word \<Rightarrow> ('s, unit) act"
  cb_output_level :: "32 word \<Rightarrow> ('s, unit) act"
  cb_mic_device :: "string \<Rightarrow> ('s, unit) act"
  cb_speaker_device :: "string \<Rightarrow> ('s, unit) act"
  cb_camera_device :: "string \<Rightarrow> ('s, unit) act"

record ('s, 'v) RoomProps =
  rp_room_id :: string
  rp_your_nickname :: string
  rp_participants :: "string list"
  rp_settings :: SettingsState
  rp_calls :: "'s setting_calls"
  rp_share_started :: "'v \<Rightarrow> ('s, unit) act"
  rp_share_stopped :: "('s, unit) act"
  rp_share_error :: "string \<Rightarrow> ('s, unit) act"
  rp_on_media_error :: "string \<Rightarrow> ('s, unit) act"
  rp_end_call :: "('s, unit) act"
  rp_remote_active :: bool
  rp_media :: "'v option list"
  rp_remote_media :: "'v option"
  rp_remote_owner :: "string option"
  rp_media_error :: "string option"

record 's SettingsPanelProps =
  sp_close :: "('s, unit) act"
  sp_settings :: SettingsState
  sp_calls :: "'s setting_calls"

record 's MainMenuProps =
  mp_settings :: SettingsState
  mp_calls :: "'s setting_calls"
  mp_back :: "('s, unit) act"
  mp_join_room :: "('s, unit) act"
  mp_session :: string

record 's JoinRoomEntryProps =
  jp_back :: "('s, unit) act"
  jp_settings :: SettingsState
  jp_calls :: "'s setting_calls"
  jp_session :: string

record 'v ParticipantTileProps =
  tp_name :: string
  tp_media :: "'v option"
  tp_width :: real
  tp_height :: real
  tp_rail :: bool
  tp_mute :: bool

datatype ('s, 'v) component =
    NicknameEntryC
  | MainMenuC "'s MainMenuProps"
  | JoinRoomEntryC "'s JoinRoomEntryProps"
  | RoomC "('s, 'v) RoomProps"
  | SettingsPanelC "'s SettingsPanelProps"
  | ParticipantTileC "'v ParticipantTileProps"
  | PresentationStageC string "'v option"
  | ThemeToggleC Theme "Theme \<Rightarrow> ('s, unit) act"

type_synonym ('s, 'v) doc = "('s, ('s, 'v) component) html"

section \<open>Small components\<close>

definition text_of_flag :: "bool \<Rightarrow> string" where
  "text_of_flag b = (if b then ''true'' else ''false'')"

definition theme_toggle :: "Theme \<Rightarrow> (Theme \<Rightarrow> ('s, unit) act) \<Rightarrow> ('s, 'v) doc" where
  "theme_toggle t on_change = Elem ''button''
     [tag_attr ''type'' ''button'', css ''theme-toggle font-manrope'', click (on_change (toggle_theme t)), label ''Switch theme'',
      tag_attr ''aria-pressed'' (text_of_flag (t = Dark)), tag_attr ''title'' (''Switch to '' @ next_label t @ '' theme'')]
     [Elem ''span'' [css (classes [''theme-toggle__track'', case t of Light \<Rightarrow> ''theme-toggle__track--light'' | Dark \<Rightarrow> ''theme-toggle__track--dark''])]
       [Elem ''span'' [css ''theme-toggle__thumb''] []]]"

text \<open>A cut text ends in the ellipsis, code point 8230.\<close>

definition cut_text :: "string \<times> bool \<Rightarrow> ('s, 'v) doc list" where
  "cut_text t = Txt (fst t) # shown_if (snd t) (Sym 8230)"

definition participant_tile :: "('s, 'v, 'z) browser_scheme \<Rightarrow> 'v ParticipantTileProps \<Rightarrow> ('s, ('s, 'v) doc) act" where
  "participant_tile B p = bindM (media_stream_has_video B (tp_media p)) (\<lambda>has_video. retM
     (Elem ''div''
       [css (classes (''room-page__tile'' # shown_if (tp_rail p) ''room-page__tile--rail''
          @ shown_if has_video ''room-page__tile--has-video'')),
        tag_attr ''style'' (''width:'' @ fixed 1 (tp_width p) @ ''px;height:'' @ fixed 1 (tp_height p) @ ''px;flex:0 0 auto;'')]
       (shown_if has_video (Elem ''video''
          [css ''room-page__tile-video'', (''autoplay'', Flag True), (''playsinline'', Flag True), (''muted'', Flag (tp_mute p)),
           label (tp_name p @ '' camera'')] [])
        @ [Elem ''span'' [css ''room-page__tile-name'', tag_attr ''title'' (tp_name p)]
             (cut_text (truncate_str (tp_name p) MAX_NAME_CHARS))])))"

text \<open>The effect of a tile, keyed by its media and whether it is muted; \<open>video\<close> is the element of its reference.\<close>

definition tile_effect :: "('s, 'v, 'z) view_env_scheme \<Rightarrow> 'v option \<Rightarrow> 'v option \<Rightarrow> bool \<Rightarrow> ('s, unit) act" where
  "tile_effect B video media mute = bindM (media_stream_has_video B media) (\<lambda>has_video. case video of None \<Rightarrow> retM ()
     | Some video_el \<Rightarrow> bindM (set_muted B video_el mute) (\<lambda>_.
         if \<not> has_video then set_src_object B video_el None
         else (case media of Some js \<Rightarrow> if is_stream B js then set_src_object B video_el (Some js) else retM ()
           | None \<Rightarrow> retM ())))"

definition presentation_stage :: "string \<Rightarrow> 'v option \<Rightarrow> ('s, 'v) doc" where
  "presentation_stage caption media = Elem ''div'' [css ''room-page__presentation-placeholder'']
     (if media \<noteq> None
      then [Elem ''video'' [css ''room-page__presentation-video'', (''autoplay'', Flag True), (''playsinline'', Flag True),
              (''muted'', Flag True), label caption] []]
      else [Elem ''span'' [css ''room-page__presentation-label''] [Txt caption],
            Elem ''span'' [css ''room-page__presentation-hint''] [Txt ''Screen share will appear here'']])"

definition stage_effect :: "('s, 'v, 'z) view_env_scheme \<Rightarrow> 'v option \<Rightarrow> 'v option \<Rightarrow> ('s, unit) act" where
  "stage_effect B video media = (case video of None \<Rightarrow> retM ()
     | Some video_el \<Rightarrow> set_src_object B video_el (case media of None \<Rightarrow> None | Some js \<Rightarrow> if is_stream B js then Some js else None))"

section \<open>Icons\<close>

definition svg_icon :: "(string \<times> 's attr) list \<Rightarrow> string \<Rightarrow> bool \<Rightarrow> ('s, 'v) doc list \<Rightarrow> ('s, 'v) doc" where
  "svg_icon first stroke hidden shapes = Elem ''svg''
     (first @ [tag_attr ''fill'' ''none'', tag_attr ''stroke'' ''currentColor'', tag_attr ''stroke-width'' stroke,
        tag_attr ''stroke-linecap'' ''round'', tag_attr ''stroke-linejoin'' ''round'']
      @ shown_if hidden (tag_attr ''aria-hidden'' ''true'')) shapes"

definition svg_ns :: "(string \<times> 's attr) list" where
  "svg_ns = [tag_attr ''xmlns'' ''http://www.w3.org/2000/svg'', tag_attr ''viewBox'' ''0 0 24 24'']"

definition svg_path :: "string \<Rightarrow> ('s, 'v) doc" where
  "svg_path d = Elem ''path'' [tag_attr ''d'' d] []"

definition page_arrow_chevron :: "bool \<Rightarrow> ('s, 'v) doc" where
  "page_arrow_chevron left = svg_icon (css ''room-page__page-arrow-icon'' # svg_ns) ''2.2'' True
     [svg_path (if left then ''M15 18L9 12L15 6'' else ''M9 18L15 12L9 6'')]"

definition create_plus_icon :: "('s, 'v) doc" where
  "create_plus_icon = svg_icon (css ''main-menu__card-svg'' # svg_ns) ''2.2'' False [svg_path ''M12 6v12'', svg_path ''M6 12h12'']"

definition join_enter_icon :: "('s, 'v) doc" where
  "join_enter_icon = svg_icon (css ''main-menu__card-svg'' # svg_ns) ''2.2'' False
     [svg_path ''M3 12h8.5'', svg_path ''M9.5 9 13 12l-3.5 3'', svg_path ''M15.5 6.5h4v11h-4'']"

definition svg_small :: "(string \<times> 's attr) list" where
  "svg_small = svg_ns @ [tag_attr ''width'' ''22'', tag_attr ''height'' ''22'']"

definition back_arrow_icon :: "('s, 'v) doc" where
  "back_arrow_icon = svg_icon svg_small ''2.4'' False [svg_path ''M19 12H5'', svg_path ''M11 6l-6 6 6 6'']"

definition forward_arrow_icon :: "('s, 'v) doc" where
  "forward_arrow_icon = svg_icon svg_small ''2.2'' False [svg_path ''M5 12h14'', svg_path ''M13 6l6 6-6 6'']"

definition link_icon :: "('s, 'v) doc" where
  "link_icon = svg_icon (svg_ns @ [tag_attr ''width'' ''34'', tag_attr ''height'' ''34'']) ''2.2'' False
     [svg_path ''M10 13a5 5 0 0 1 0-7l1-1a5 5 0 0 1 7 7l-1 1'', svg_path ''M14 11a5 5 0 0 1 0 7l-1 1a5 5 0 0 1-7-7l1-1'']"

definition GEAR_PATH :: string where
  "GEAR_PATH = ''M19.4 15a1.65 1.65 0 0 0 .33 1.82l.06.06a2 2 0 0 1 0 2.83 2 2 0 0 1-2.83 0l-.06-.06a1.65 1.65 0 0 0-1.82-.33 1''
     @ ''.65 1.65 0 0 0-1 1.51V21a2 2 0 0 1-4 0v-.09a1.65 1.65 0 0 0-1-1.51 1.65 1.65 0 0 0-1.82.33l-.06.06a2 2 0 0 1-2''
     @ ''.83 0 2 2 0 0 1 0-2.83l.06-.06a1.65 1.65 0 0 0 .33-1.82 1.65 1.65 0 0 0-1.51-1H3a2 2 0 0 1 0-4h.09a1.65 1.65 0''
     @ '' 0 0 1.51-1 1.65 1.65 0 0 0-.33-1.82l-.06-.06a2 2 0 0 1 0-2.83 2 2 0 0 1 2.83 0l.06.06a1.65 1.65 0 0 0 1.82.33''
     @ ''h.01a1.65 1.65 0 0 0 .99-1.51V3a2 2 0 0 1 4 0v.09a1.65 1.65 0 0 0 .99 1.51h.01a1.65 1.65 0 0 0 1.82-.33l.06-.0''
     @ ''6a2 2 0 0 1 2.83 0 2 2 0 0 1 0 2.83l-.06.06a1.65 1.65 0 0 0-.33 1.82v.01a1.65 1.65 0 0 0 1.51.99H21a2 2 0 0 1 ''
     @ ''0 4h-.09a1.65 1.65 0 0 0-1.51.99z''"

definition settings_gear_icon :: "('s, 'v) doc" where
  "settings_gear_icon = svg_icon svg_ns ''1.9'' True
     [Elem ''circle'' [tag_attr ''cx'' ''12'', tag_attr ''cy'' ''12'', tag_attr ''r'' ''3''] [], svg_path GEAR_PATH]"

end
