(* ===== verification/Page_Screens.thy ===== *)
theory Page_Screens
  imports Page_View
begin

text \<open>
  What each screen of the page shows, from \<^verbatim>\<open>client/src/components/settings_panel.rs\<close>, \<^verbatim>\<open>nickname_entry.rs\<close>,
  \<^verbatim>\<open>main_menu.rs\<close>, \<^verbatim>\<open>join_room_entry.rs\<close>, \<^verbatim>\<open>room.rs\<close> and the end of \<^verbatim>\<open>app.rs\<close>: a screen is a function of the state of
  the render, which its handlers capture, and of its properties.
\<close>

section \<open>The settings panel\<close>

definition tab_button :: "DeviceKind \<Rightarrow> DeviceKind \<Rightarrow> (('v, 'x) shown_scheme, 'c) html" where
  "tab_button kind selected = Elem ''button''
     [tag_attr ''type'' ''button'', css (classes (''settings-panel__nav-btn'' # shown_if (selected = kind) ''settings-panel__nav-btn--active'')),
      click (modM (\<lambda>s. s\<lparr>panel_tab := kind\<rparr>))] [Txt (nav_label kind)]"

definition device_button :: "string \<Rightarrow> (string \<Rightarrow> ('s, unit) act) \<Rightarrow> DeviceEntry \<Rightarrow> ('s, 'c) html" where
  "device_button selected on_select entry = Elem ''button''
     [tag_attr ''type'' ''button'', css (classes (''settings-panel__item'' # shown_if (selected = device_id entry) ''settings-panel__item--selected'')),
      click (on_select (device_id entry))] [Elem ''span'' [] [Txt (device_label entry)]]"

definition render_device_list :: "DeviceEntry list \<Rightarrow> string \<Rightarrow> (string \<Rightarrow> ('s, unit) act) \<Rightarrow> ('s, 'c) html" where
  "render_device_list devices selected on_select = Elem ''div'' [css ''settings-panel__list'']
     (if devices = [] then [Elem ''p'' [css ''body-md''] [Txt ''No devices found.'']]
      else map (device_button selected on_select) devices)"

definition level_slider :: "32 word \<Rightarrow> (string \<Rightarrow> ('s, unit) act) \<Rightarrow> ('s, 'c) html" where
  "level_slider value oninput = Elem ''input''
     [css ''settings-panel__slider'', tag_attr ''type'' ''range'', tag_attr ''min'' (show_nat (unat MIN_LEVEL)),
      tag_attr ''max'' (show_nat (unat MAX_LEVEL)), tag_attr ''value'' (show_nat (unat value)),
      tag_attr ''style'' (''--pct: '' @ fixed 2 (real (unat value) / real (unat MAX_LEVEL) * 100) @ ''%;''), (''oninput'', OnText oninput)] []"

text \<open>A button with an icon, and the one that switches the microphone or the camera, in the panel and in the room.\<close>

definition control_button :: "string \<Rightarrow> ('s, unit) act \<Rightarrow> string \<Rightarrow> string \<Rightarrow> string \<Rightarrow> string \<Rightarrow> ('s, 'c) html" where
  "control_button style act name title icon_css src = Elem ''button''
     [tag_attr ''type'' ''button'', css style, click act, label name, tag_attr ''title'' title]
     [Elem ''img'' [css icon_css, tag_attr ''src'' src, tag_attr ''alt'' [], tag_attr ''aria-hidden'' ''true''] []]"

definition quick_button :: "string list \<Rightarrow> bool \<Rightarrow> ('s, unit) act \<Rightarrow> string \<Rightarrow> string \<Rightarrow> string \<Rightarrow> string \<Rightarrow> ('s, 'c) html" where
  "quick_button styles on toggle name title icon_css src = control_button (classes (''settings-panel__quick-btn'' # styles
     @ [if on then ''settings-panel__quick-btn--on'' else ''settings-panel__quick-btn--off''])) toggle name title icon_css src"

definition mic_icon :: "bool \<Rightarrow> string" where
  "mic_icon on = (if on then ''icons/microphone.svg'' else ''icons/mute-enabled-microphone.svg'')"
definition camera_icon :: "bool \<Rightarrow> string" where
  "camera_icon on = (if on then ''icons/camera.svg'' else ''icons/cameraDisabled.svg'')"

definition panel_devices :: "('v, 'x) shown_scheme \<Rightarrow> 's SettingsPanelProps \<Rightarrow> ('s, 'c) html" where
  "panel_devices s p = (case panel_tab s of
       InputKind \<Rightarrow> render_device_list (inputs (panel_catalog s)) (mic_device_id (sp_settings p)) (cb_mic_device (sp_calls p))
     | OutputKind \<Rightarrow> render_device_list (outputs (panel_catalog s)) (speaker_device_id (sp_settings p)) (cb_speaker_device (sp_calls p))
     | CameraKind \<Rightarrow> render_device_list (cameras (panel_catalog s)) (camera_device_id (sp_settings p)) (cb_camera_device (sp_calls p)))"

definition settings_panel :: "('v, 'x) shown_scheme \<Rightarrow> ('v, 'x) shown_scheme SettingsPanelProps
    \<Rightarrow> (('v, 'x) shown_scheme, 'v) doc" where
  "settings_panel s p = (let c = sp_settings p; calls = sp_calls p in
     Elem ''div'' [css ''settings-panel'', tag_attr ''role'' ''presentation'']
      [Elem ''button'' [tag_attr ''type'' ''button'', css ''settings-panel__backdrop'', tag_attr ''aria-hidden'' ''true'', tag_attr ''tabindex'' ''-1'',
         click (sp_close p)] [],
       Elem ''div'' [css ''settings-panel__panel font-manrope text-on-background'', tag_attr ''role'' ''dialog'', tag_attr ''aria-modal'' ''true'',
         tag_attr ''aria-labelledby'' ''settings-panel-title'']
        [Elem ''nav'' [css ''settings-panel__nav'', label ''Settings sections'']
          [Elem ''h2'' [css ''settings-panel__nav-title''] [Txt ''Settings''],
           tab_button InputKind (panel_tab s), tab_button OutputKind (panel_tab s), tab_button CameraKind (panel_tab s),
           Elem ''div'' [css ''settings-panel__theme-switch'']
            [Elem ''span'' [css ''settings-panel__theme-label''] [Txt ''Theme''], Comp (ThemeToggleC (theme c) (cb_theme calls))],
           Elem ''div'' [css ''settings-panel__quick-toggles'', label ''Quick media toggles'']
            [quick_button [] (mic_enabled c) (cb_mic calls)
               (if mic_enabled c then ''Turn microphone off'' else ''Turn microphone on'')
               (if mic_enabled c then ''Microphone on'' else ''Microphone off'') ''settings-panel__quick-icon'' (mic_icon (mic_enabled c)),
             quick_button [] (camera_enabled c) (cb_camera calls)
               (if camera_enabled c then ''Turn camera off'' else ''Turn camera on'')
               (if camera_enabled c then ''Camera on'' else ''Camera off'') ''settings-panel__quick-icon'' (camera_icon (camera_enabled c))]],
         Elem ''section'' [css ''settings-panel__main'']
          ([Elem ''header'' [css ''settings-panel__header'']
             [Elem ''h3'' [tag_attr ''id'' ''settings-panel-title'', css ''settings-panel__section-title''] [Txt (device_title (panel_tab s))],
              Elem ''button'' [tag_attr ''type'' ''button'', css ''settings-panel__close'', label ''Close'', click (sp_close p)] [Sym 215]],
            panel_devices s p]
           @ (case panel_catalog_error s of None \<Rightarrow> []
              | Some message \<Rightarrow> [Elem ''p'' [css ''body-md'', tag_attr ''role'' ''alert''] [Txt message]])
           @ shown_if (panel_tab s = InputKind)
               (Elem ''div'' [css ''settings-panel__slider-row''] [level_slider (input_level c) (on_level_input (cb_input_level calls))])
           @ shown_if (panel_tab s = OutputKind)
               (Elem ''div'' [css ''settings-panel__slider-row''] [level_slider (output_level c) (on_level_input (cb_output_level calls))]))]])"

text \<open>The two effects of the panel, on its hooks.\<close>

definition panel_catalog_effect :: "(('v, 'x) shown_scheme, 'v, 'z) device_env_scheme \<Rightarrow> (('v, 'x) shown_scheme, unit) act" where
  "panel_catalog_effect B = catalog_effect B (\<lambda>found. modM (\<lambda>s. s\<lparr>panel_catalog := found\<rparr>)) (\<lambda>e. modM (\<lambda>s. s\<lparr>panel_catalog_error := e\<rparr>))"

definition panel_camera_effect :: "('v, 'x) shown_scheme SettingsPanelProps \<Rightarrow> (('v, 'x) shown_scheme, unit) act" where
  "panel_camera_effect p = bindM (getM (\<lambda>s. (panel_camera_done s, panel_catalog s))) (\<lambda>(over, found).
     bindM (camera_default_effect over found (camera_device_id (sp_settings p)) (cb_camera_device (sp_calls p))) (\<lambda>over'.
     modM (\<lambda>s. s\<lparr>panel_camera_done := over'\<rparr>)))"

section \<open>The forms\<close>

definition alert_line :: "string \<Rightarrow> string option \<Rightarrow> ('s, 'c) html list" where
  "alert_line style message = (case message of None \<Rightarrow> []
     | Some m \<Rightarrow> [Elem ''p'' [css style, tag_attr ''role'' ''alert''] [Txt m]])"

definition nickname_entry :: "(('v, 'x) shown_scheme, 'v, 'z) view_env_scheme \<Rightarrow> ('v, 'x) shown_scheme \<Rightarrow> (('v, 'x) shown_scheme, 'v) doc" where
  "nickname_entry B s = (let f = nickname_form s in
     Elem ''main'' [css ''nickname-entry font-manrope text-on-background'']
      [Elem ''section'' [css ''nickname-entry__card'', label ''Nickname entry card'']
        [Elem ''div'' [css ''nickname-entry__avatar'', tag_attr ''aria-hidden'' ''true'']
          [Elem ''img'' [css ''nickname-entry__avatar-logo'', tag_attr ''src'' (logo_url B), tag_attr ''width'' ''44'', tag_attr ''height'' ''44'',
             tag_attr ''alt'' []] []],
         Elem ''h1'' [css ''nickname-entry__title h1''] [Txt ''Enter your nickname''],
         Elem ''form'' [css ''nickname-entry__form'', (''onsubmit'', On (nickname_on_submit B s))]
          ([Elem ''input'' [tag_attr ''id'' ''nickname-input'',
              css (classes ([''nickname-entry__input'', ''font-manrope'', ''body-lg'', ''text-on-surface'']
                @ shown_if (nick_error f \<noteq> None) ''nickname-entry__input--error'')),
              tag_attr ''type'' ''text'', tag_attr ''value'' (nick_value f), (''oninput'', OnText (nickname_on_input s)),
              tag_attr ''placeholder'' ''e.g. Maverick'', tag_attr ''autocomplete'' ''nickname''] [],
            Elem ''p'' [css ''nickname-entry__hint''] [Txt ''English letters, numbers, underscores,'', Elem ''br'' [] [],
              Txt ''no spaces (3'', Sym 8211, Txt ''24 chars)'']]
           @ alert_line ''nickname-entry__error body-md'' (nick_error f)
           @ [Elem ''button'' [css ''nickname-entry__button'', tag_attr ''type'' ''submit'', (''disabled'', Flag (is_submitting f))]
               [Elem ''span'' [css ''nickname-entry__button-label''] [Txt (if is_submitting f then ''Connecting...'' else ''Continue'')],
                Elem ''span'' [css ''nickname-entry__button-arrow'', tag_attr ''aria-hidden'' ''true''] [forward_arrow_icon]]])]])"

definition settings_button :: "string \<Rightarrow> ('s, unit) act \<Rightarrow> ('s, 'v) doc" where
  "settings_button style open_settings = Elem ''button''
     [tag_attr ''type'' ''button'', css style, label ''Settings'', tag_attr ''aria-haspopup'' ''dialog'', click open_settings] [settings_gear_icon]"

definition settings_dialog :: "('s, unit) act \<Rightarrow> SettingsState \<Rightarrow> 's setting_calls \<Rightarrow> ('s, 'v) doc" where
  "settings_dialog close_settings c calls = Comp (SettingsPanelC \<lparr>sp_close = close_settings, sp_settings = c, sp_calls = calls\<rparr>)"

definition menu_card :: "('s, unit) act \<Rightarrow> bool \<Rightarrow> string \<Rightarrow> ('s, 'v) doc \<Rightarrow> string \<Rightarrow> string \<Rightarrow> ('s, 'v) doc" where
  "menu_card act busy style icon title hint = Elem ''button''
     [tag_attr ''type'' ''button'', css ''main-menu__card'', click act, (''disabled'', Flag busy)]
     [Elem ''span'' [css style, tag_attr ''aria-hidden'' ''true''] [icon],
      Elem ''span'' [css ''main-menu__card-title h2''] [Txt title], Elem ''span'' [css ''main-menu__card-text body-md''] [Txt hint]]"

definition main_menu :: "(('v, 'x) shown_scheme, 'v, 'z) view_env_scheme \<Rightarrow> ('v, 'x) shown_scheme
    \<Rightarrow> ('v, 'x) shown_scheme MainMenuProps \<Rightarrow> (('v, 'x) shown_scheme, 'v) doc" where
  "main_menu B s p = (let f = menu_form s in
     Elem ''div'' [css ''main-menu font-manrope text-on-background'']
      ([Elem ''div'' [css ''main-menu__actions main-menu__actions--floating'']
         [settings_button ''main-menu__icon-btn main-menu__icon-btn--settings'' (modM (\<lambda>s. s\<lparr>menu_settings_open := True\<rparr>))],
        Elem ''main'' [css ''main-menu__content'']
         ([Elem ''header'' [css ''main-menu__heading'']
            [Elem ''h1'' [css ''h1 main-menu__title''] [Txt ''Get connected''],
             Elem ''p'' [css ''body-lg main-menu__subtitle''] [Txt ''Start a new space or drop into an existing one.'']],
           Elem ''section'' [css ''main-menu__cards'']
            [menu_card (menu_on_create B s) (menu_busy f) ''main-menu__card-icon main-menu__card-icon--primary'' create_plus_icon
               ''Create Room'' ''Start a fresh session and invite your team.'',
             menu_card (mp_join_room p) (menu_busy f) ''main-menu__card-icon main-menu__card-icon--secondary'' join_enter_icon
               ''Join Room'' ''Enter a link or code to hop right in.'']]
          @ alert_line ''body-md'' (action_error f)
          @ [Elem ''button'' [tag_attr ''type'' ''button'', css ''main-menu__back body-md'', click (mp_back p)]
              [Elem ''span'' [css ''main-menu__back-arrow'', tag_attr ''aria-hidden'' ''true''] [back_arrow_icon],
               Elem ''span'' [] [Txt ''Go Back'']]])]
       @ shown_if (menu_settings_open s)
           (settings_dialog (modM (\<lambda>s. s\<lparr>menu_settings_open := False\<rparr>)) (mp_settings p) (mp_calls p))))"

text \<open>Enter in the field submits the form its reference holds.\<close>

definition join_on_keydown :: "(('v, 'x) shown_scheme, 'v, 'z) view_env_scheme \<Rightarrow> string \<Rightarrow> (('v, 'x) shown_scheme, unit) act" where
  "join_on_keydown B key = (if key \<noteq> ''Enter'' \<and> key \<noteq> ''NumpadEnter'' then retM ()
     else bindM (node_of B ''form'') (\<lambda>e. case e of None \<Rightarrow> retM () | Some form \<Rightarrow> request_submit B form))"

definition join_room_entry :: "(('v, 'x) shown_scheme, 'v, 'z) view_env_scheme \<Rightarrow> ('v, 'x) shown_scheme
    \<Rightarrow> ('v, 'x) shown_scheme JoinRoomEntryProps \<Rightarrow> (('v, 'x) shown_scheme, 'v) doc" where
  "join_room_entry B s p = (let f = join_form s in
     Elem ''div'' [css ''join-room-entry-page'']
      ([Elem ''div'' [css ''join-room-entry__actions join-room-entry__actions--floating'']
         [settings_button ''join-room-entry__icon-btn join-room-entry__icon-btn--settings'' (modM (\<lambda>s. s\<lparr>join_settings_open := True\<rparr>))],
        Elem ''main'' [css ''join-room-entry font-manrope text-on-background'']
         [Elem ''section'' [css ''join-room-entry__card'', label ''Join room card'']
           [Elem ''div'' [css ''join-room-entry__avatar'', tag_attr ''aria-hidden'' ''true''] [link_icon],
            Elem ''h1'' [css ''join-room-entry__title h1''] [Txt ''Join a room''],
            Elem ''form'' [css ''join-room-entry__form'', (''onsubmit'', On (join_run_submit B s))]
             ([Elem ''input'' [tag_attr ''id'' ''join-room-input'',
                 css (classes ([''join-room-entry__input'', ''font-manrope'', ''body-lg'', ''text-on-surface'']
                   @ shown_if (join_error f \<noteq> None) ''join-room-entry__input--error'')),
                 tag_attr ''type'' ''text'', tag_attr ''value'' (room_target f), (''oninput'', OnText join_on_input),
                 (''onkeydown'', OnText (join_on_keydown B)), tag_attr ''placeholder'' ''e.g. 2f7d1d3e-8e2a-4f0b-a7f2-90d34d77a3b5'',
                 tag_attr ''autocomplete'' ''off''] [],
               Elem ''p'' [css ''join-room-entry__hint''] [Txt ''Paste the room UUID from your host.'']]
              @ alert_line ''join-room-entry__error body-md'' (join_error f)
              @ [Elem ''button'' [css ''join-room-entry__button'', tag_attr ''type'' ''submit'', (''disabled'', Flag (join_busy f))]
                  [Elem ''span'' [css ''join-room-entry__button-label''] [Txt (if join_busy f then ''Joining...'' else ''Join room'')],
                   Elem ''span'' [css ''join-room-entry__button-arrow'', tag_attr ''aria-hidden'' ''true''] [forward_arrow_icon]],
                 Elem ''button'' [tag_attr ''type'' ''button'', css ''join-room-entry__back'', click (jp_back p)] [Txt ''Back'']])]]]
       @ shown_if (join_settings_open s)
           (settings_dialog (modM (\<lambda>s. s\<lparr>join_settings_open := False\<rparr>)) (jp_settings p) (jp_calls p))))"

section \<open>The room\<close>

definition cluster_style :: "real \<Rightarrow> real \<Rightarrow> string" where
  "cluster_style w h = ''width:'' @ fixed 1 w @ ''px;min-width:'' @ fixed 1 w @ ''px;max-width:'' @ fixed 1 w
     @ ''px;min-height:'' @ fixed 1 h @ ''px;max-height:'' @ fixed 1 h @ ''px;''"

definition page_arrow :: "string \<Rightarrow> bool \<Rightarrow> string \<Rightarrow> ('s, unit) act \<Rightarrow> bool \<Rightarrow> ('s, 'v) doc" where
  "page_arrow style off name turn left = Elem ''button''
     [tag_attr ''type'' ''button'', css style, (''disabled'', Flag off), label name, click turn] [page_arrow_chevron left]"

text \<open>The tiles of a slice that starts at \<open>start\<close>; what a tile gets by its place is \<open>view_participants\<close>.\<close>

definition slice_tiles :: "(string \<times> 'v option \<times> bool) list \<Rightarrow> real \<Rightarrow> real \<Rightarrow> bool \<Rightarrow> ('s, 'v) doc list" where
  "slice_tiles ps w h rail = map (\<lambda>(name, media, is_self). Comp (ParticipantTileC
     \<lparr>tp_name = name, tp_media = media, tp_width = w, tp_height = h, tp_rail = rail, tp_mute = is_self\<rparr>)) ps"

definition view_tiles :: "(string \<times> 'v option \<times> bool) list \<Rightarrow> ParticipantLayout \<Rightarrow> string \<Rightarrow> bool \<Rightarrow> nat
    \<Rightarrow> ('s, unit) act \<Rightarrow> ('s, unit) act \<Rightarrow> ('s, 'v) doc" where
  "view_tiles ps layout style show_arrows page on_prev on_next =
     Elem ''section'' [css ''room-page__tiles-wrap'', label ''Participants'']
      [Elem ''div'' [css ''room-page__tiles-strip'']
        (shown_if show_arrows (page_arrow ''room-page__page-arrow'' (page = 0) ''Previous participants'' on_prev True)
         @ [Elem ''div'' [css ''room-page__tiles-viewport'']
             [Elem ''div'' [css ''room-page__tiles'', tag_attr ''style'' style] (slice_tiles ps (tile_width layout) (tile_height layout) False)]]
         @ shown_if show_arrows (page_arrow ''room-page__page-arrow'' (page + 1 \<ge> page_count layout) ''Next participants'' on_next False))]"

definition view_presentation :: "string \<Rightarrow> (string \<times> 'v option \<times> bool) list \<Rightarrow> 'v option \<Rightarrow> string \<Rightarrow> real \<Rightarrow> bool \<Rightarrow> nat \<Rightarrow> nat
    \<Rightarrow> ('s, unit) act \<Rightarrow> ('s, unit) act \<Rightarrow> ('s, 'v) doc" where
  "view_presentation caption ps media style tile_h show_arrows page pages on_prev on_next =
     Elem ''div'' [css ''room-page__presentation-main'']
      [Elem ''div'' [css ''room-page__presentation-stage'', tag_attr ''role'' ''region'', label ''Screen share'']
        [Comp (PresentationStageC caption media)],
       Elem ''aside'' [css ''room-page__participants-rail'', label ''Participants'']
        [Elem ''div'' [css ''room-page__participants-rail-strip'']
          (shown_if show_arrows (page_arrow ''room-page__page-arrow room-page__page-arrow--rail-prev'' (page = 0) ''Previous participants'' on_prev True)
           @ [Elem ''div'' [css ''room-page__participants-rail-viewport'']
               [Elem ''div'' [css ''room-page__participants-rail-tiles'', tag_attr ''style'' style] (slice_tiles ps RAIL_TILE_W_PX tile_h True)]]
           @ shown_if show_arrows (page_arrow ''room-page__page-arrow room-page__page-arrow--rail-next'' (page + 1 \<ge> pages) ''Next participants'' on_next False))]]"

text \<open>What the room derives from its state and properties before it renders.\<close>

definition room_layout :: "('v, 'x) room_page_scheme \<Rightarrow> ('s, 'v) RoomProps \<Rightarrow> ParticipantLayout \<times> bool" where
  "room_layout s p = resolve_participant_layout (fst (tile_area_wh s)) (snd (tile_area_wh s)) (length (rp_participants p))"

definition room_presents :: "('v, 'x) room_page_scheme \<Rightarrow> ('s, 'v) RoomProps \<Rightarrow> bool" where
  "room_presents s p = shows_presentation (rp_remote_active p) s (rp_remote_media p \<noteq> None)"

definition room_pages :: "('v, 'x) room_page_scheme \<Rightarrow> ('s, 'v) RoomProps \<Rightarrow> nat" where
  "room_pages s p = room_page_count (room_presents s p) (fst (room_layout s p)) (length (rp_participants p))"

definition room_page_shown :: "('v, 'x) room_page_scheme \<Rightarrow> ('s, 'v) RoomProps \<Rightarrow> nat" where
  "room_page_shown s p = current_page (page_index s) (room_pages s p)"

definition room_slice :: "('v, 'x) room_page_scheme \<Rightarrow> ('s, 'v) RoomProps \<Rightarrow> nat \<times> nat \<times> bool" where
  "room_slice s p = visible_range (room_presents s p) (room_layout s p) (length (rp_participants p)) (room_page_shown s p)"

definition room_tiles :: "('v, 'x) room_page_scheme \<Rightarrow> ('s, 'v) RoomProps \<Rightarrow> (string \<times> 'v option \<times> bool) list" where
  "room_tiles s p = (case room_slice s p of (start, end', _) \<Rightarrow>
     view_participants (rp_participants p) start end' (rp_media p) (rp_your_nickname p))"

definition turn_prev :: "('v, 'x) room_page_scheme \<Rightarrow> (('v, 'x) room_page_scheme, unit) act" where
  "turn_prev seen = modM (\<lambda>s. s\<lparr>page_index := on_page_prev (page_index seen)\<rparr>)"
definition turn_next :: "('v, 'x) room_page_scheme \<Rightarrow> nat \<Rightarrow> (('v, 'x) room_page_scheme, unit) act" where
  "turn_next seen pages = modM (\<lambda>s. s\<lparr>page_index := on_page_next pages (page_index seen)\<rparr>)"

definition room_area :: "('v, 'x) room_page_scheme \<Rightarrow> (('v, 'x) room_page_scheme, 'v) RoomProps \<Rightarrow> (('v, 'x) room_page_scheme, 'v) doc" where
  "room_area s p = (let layout = fst (room_layout s p); pages = room_pages s p; page = room_page_shown s p;
       (start, end', arrows) = room_slice s p; ps = room_tiles s p; next = turn_next s pages in
     if room_presents s p
     then view_presentation (stage_caption s (rp_remote_owner p)) ps (stage_media s (rp_remote_media p))
       (cluster_style RAIL_TILE_W_PX (rail_band_h start end')) (RAIL_TILE_W_PX / TILE_ASPECT_W_OVER_H) arrows page pages (turn_prev s) next
     else view_tiles ps layout (cluster_style (band (cols layout) (tile_width layout)) (band (rows layout) (tile_height layout)))
       arrows page (turn_prev s) next)"

definition room_toggle_screen :: "(('v, 'x) room_page_scheme, 'v, 'z) view_env_scheme \<Rightarrow> ('v, 'x) room_page_scheme
    \<Rightarrow> (('v, 'x) room_page_scheme, 'v) RoomProps \<Rightarrow> (('v, 'x) room_page_scheme, unit) act" where
  "room_toggle_screen B s p = on_toggle_screen B s (rp_share_started p) (rp_share_stopped p) (rp_share_error p)"

definition room_controls :: "(('v, 'x) room_page_scheme, 'v, 'z) view_env_scheme \<Rightarrow> ('v, 'x) room_page_scheme
    \<Rightarrow> (('v, 'x) room_page_scheme, 'v) RoomProps \<Rightarrow> (('v, 'x) room_page_scheme, 'v) doc" where
  "room_controls B s p = (let c = rp_settings p; calls = rp_calls p; sharing = screen_sharing s in
     Elem ''footer'' [css (classes (''room-page__controls'' # shown_if (room_presents s p) ''room-page__controls--broadcast-column'')),
         label ''Call controls'']
      [quick_button [''room-page__control-btn''] (mic_enabled c) (cb_mic calls)
         (if mic_enabled c then ''Mute microphone'' else ''Unmute microphone'')
         (if mic_enabled c then ''Microphone on'' else ''Microphone muted'') ''settings-panel__quick-icon'' (mic_icon (mic_enabled c)),
       quick_button [''room-page__control-btn''] (camera_enabled c) (cb_camera calls)
         (if camera_enabled c then ''Turn camera off'' else ''Turn camera on'')
         (if camera_enabled c then ''Camera on'' else ''Camera off'') ''settings-panel__quick-icon room-page__cam-icon''
         (camera_icon (camera_enabled c)),
       control_button (classes [''settings-panel__quick-btn'', ''room-page__control-btn'', ''room-page__control-btn--wide'', ''room-page__screen-btn'',
           if sharing then ''room-page__screen-btn--active'' else ''room-page__screen-btn--inactive''])
         (room_toggle_screen B s p) (if sharing then ''Stop sharing screen'' else ''Share screen'')
         (if sharing then ''Screen sharing on'' else ''Share screen'')
         ''settings-panel__quick-icon room-page__screen-icon'' ''icons/screenShare.svg'',
       control_button ''room-page__end-btn'' (rp_end_call p) ''End call'' ''End call'' ''room-page__end-icon'' ''icons/phone.svg''])"

definition room_id_chip :: "(('v, 'x) room_page_scheme, 'v, 'z) view_env_scheme \<Rightarrow> ('v, 'x) room_page_scheme
    \<Rightarrow> string \<Rightarrow> (('v, 'x) room_page_scheme, 'v) doc" where
  "room_id_chip B s room = Elem ''div'' [css ''room-page__top-left'']
     [Elem ''div'' [css ''room-page__id-copy-chip'']
       [Elem ''span'' [css ''room-page__id-text'', tag_attr ''title'' room] (cut_text (truncate_str room MAX_ROOM_ID_DISPLAY_CHARS)),
        Elem ''button'' [tag_attr ''type'' ''button'', css ''room-page__id-copy-hit'', click (on_copy_room_id B room), label ''Copy room ID'']
         [Elem ''img'' [tag_attr ''src'' (if copy_flash s then ''icons/copied.svg'' else ''icons/copy.svg''), tag_attr ''alt'' [],
            tag_attr ''aria-hidden'' ''true'', css ''room-page__copy-icon''] []]]]"

definition room_screen :: "(('v, 'x) room_page_scheme, 'v, 'z) view_env_scheme \<Rightarrow> ('v, 'x) room_page_scheme
    \<Rightarrow> (('v, 'x) room_page_scheme, 'v) RoomProps \<Rightarrow> (('v, 'x) room_page_scheme, 'v) doc" where
  "room_screen B s p = Elem ''div''
     [css (classes ([''room-page'', ''font-manrope'', ''text-on-background''] @ shown_if (room_presents s p) ''room-page--presentation''))]
     ([room_id_chip B s (rp_room_id p),
       Elem ''div'' [css ''room-page__actions room-page__actions--floating'']
        [settings_button ''room-page__icon-btn room-page__icon-btn--settings'' (modM (\<lambda>s. s\<lparr>is_settings_open := True\<rparr>))],
       Elem ''main'' [css ''room-page__main'']
        [Elem ''div'' [css ''room-page__viewport-fill''] [room_area s p], room_controls B s p]]
      @ (case rp_media_error p of None \<Rightarrow> []
         | Some e \<Rightarrow> [Elem ''div'' [css ''room-page__media-warning'', tag_attr ''role'' ''status'', tag_attr ''aria-live'' ''polite''] [Txt e]])
      @ shown_if (is_settings_open s)
          (settings_dialog (modM (\<lambda>s. s\<lparr>is_settings_open := False\<rparr>)) (rp_settings p) (rp_calls p)))"

text \<open>The effect of the mounted room: what it observes; the result is what its clean-up drops.\<close>

definition read_size :: "(('v, 'x) room_page_scheme, 'v, 'z) view_env_scheme \<Rightarrow> 'v option \<Rightarrow> (('v, 'x) room_page_scheme, unit) act" where
  "read_size B e = (case e of None \<Rightarrow> retM () | Some el \<Rightarrow> bindM (client_size B el) (\<lambda>(w, h). size_observed w h))"

definition size_effect :: "(('v, 'x) room_page_scheme, 'v, 'z) view_env_scheme \<Rightarrow> (('v, 'x) room_page_scheme, 'v option \<times> 'v) act" where
  "size_effect B =
     bindM (listen_resize B (bindM (node_of B ''tiles_wrap'') (read_size B))) (\<lambda>listener.
     bindM (node_of B ''tiles_wrap'') (\<lambda>e.
     bindM (case e of None \<Rightarrow> retM None
       | Some el \<Rightarrow> bindM (observe_size B el (read_size B (Some el))) (\<lambda>ro. bindM (read_size B (Some el)) (\<lambda>_. retM (Some ro)))) (\<lambda>ro.
     bindM (spawn_local B (bindM (sleep_ms B 48) (\<lambda>_. bindM (node_of B ''tiles_wrap'') (read_size B)))) (\<lambda>_.
       retM (ro, listener)))))"

definition size_cleanup :: "(('v, 'x) room_page_scheme, 'v, 'z) view_env_scheme \<Rightarrow> 'v option \<times> 'v \<Rightarrow> (('v, 'x) room_page_scheme, unit) act" where
  "size_cleanup B r = bindM (case fst r of None \<Rightarrow> retM () | Some ro \<Rightarrow> disconnect_observer B ro) (\<lambda>_. unlisten_resize B (snd r))"

section \<open>The page\<close>

definition page_calls :: "('v, 'x) app_scheme \<Rightarrow> ('v, 'x) app_scheme setting_calls" where
  "page_calls s = \<lparr>cb_theme = on_theme s, cb_mic = on_toggle_mic s, cb_camera = on_toggle_camera s,
     cb_input_level = on_input_level_change s, cb_output_level = on_output_level_change s, cb_mic_device = on_mic_device_change s,
     cb_speaker_device = on_speaker_device_change s, cb_camera_device = on_camera_device_change s\<rparr>"

definition room_props :: "(('v, 'x) shown_scheme, 'v, 'z) view_env_scheme \<Rightarrow> ('v, 'x) shown_scheme \<Rightarrow> ActiveRoom
    \<Rightarrow> (('v, 'x) shown_scheme, 'v) RoomProps" where
  "room_props B s room = \<lparr>rp_room_id = room_name room, rp_your_nickname = your_nickname room, rp_participants = participants room,
     rp_settings = settings s, rp_calls = page_calls s, rp_share_started = on_screen_share_started B s,
     rp_share_stopped = on_screen_share_stopped B s, rp_share_error = on_share_error, rp_on_media_error = on_share_error,
     rp_end_call = on_back_to_main_menu B s, rp_remote_active = False, rp_media = participant_media s room,
     rp_remote_media = map_option snd (remote_presentation s room), rp_remote_owner = map_option fst (remote_presentation s room),
     rp_media_error = media_error s\<rparr>"

definition app_view :: "(('v, 'x) shown_scheme, 'v, 'z) view_env_scheme \<Rightarrow> ('v, 'x) shown_scheme \<Rightarrow> (('v, 'x) shown_scheme, 'v) doc" where
  "app_view B s = (case screen s of
       NicknameScreen \<Rightarrow> Comp NicknameEntryC
     | MainMenuScreen \<Rightarrow> Comp (MainMenuC \<lparr>mp_settings = settings s, mp_calls = page_calls s, mp_back = on_back_to_nickname B s,
         mp_join_room = on_open_join_room, mp_session = session_prop s\<rparr>)
     | JoinRoomScreen \<Rightarrow> Comp (JoinRoomEntryC \<lparr>jp_back = on_back_to_main_menu B s, jp_settings = settings s, jp_calls = page_calls s,
         jp_session = session_prop s\<rparr>)
     | RoomScreen \<Rightarrow> (case active_room s of Some room \<Rightarrow> Comp (RoomC (room_props B s room))
         | None \<Rightarrow> Elem ''main'' [css ''font-manrope text-on-background'']
             [Elem ''p'' [] [Txt (case app_error s of Some e \<Rightarrow> e | None \<Rightarrow> ''Connecting to room...'')]]))"

text \<open>One component drawn, and the whole page.\<close>

definition draw :: "(('v, 'x) shown_scheme, 'v, 'z) view_env_scheme \<Rightarrow> ('v, 'x) shown_scheme \<Rightarrow> (('v, 'x) shown_scheme, 'v) component
    \<Rightarrow> (('v, 'x) shown_scheme, (('v, 'x) shown_scheme, 'v) doc) act" where
  "draw B s c = (case c of
       NicknameEntryC \<Rightarrow> retM (nickname_entry B s)
     | MainMenuC p \<Rightarrow> retM (main_menu B s p)
     | JoinRoomEntryC p \<Rightarrow> retM (join_room_entry B s p)
     | RoomC p \<Rightarrow> retM (room_screen B s p)
     | SettingsPanelC p \<Rightarrow> retM (settings_panel s p)
     | ParticipantTileC p \<Rightarrow> participant_tile B p
     | PresentationStageC caption media \<Rightarrow> retM (presentation_stage caption media)
     | ThemeToggleC t f \<Rightarrow> retM (theme_toggle t f))"

definition page_html :: "(('v, 'x) shown_scheme, 'v, 'z) view_env_scheme \<Rightarrow> ('v, 'x) shown_scheme
    \<Rightarrow> (('v, 'x) shown_scheme, (('v, 'x) shown_scheme, 'v) doc) act" where
  "page_html B s = expand 4 (draw B s) (app_view B s)"

end
