(* ===== verification/Client_Room_Pages.thy ===== *)
theory Client_Room_Pages
  imports Client_Room
begin

text \<open>
  The pages of the room screen hold every participant exactly once, and the
  tiles of a page fit the room they are given.
\<close>

section \<open>Layouts\<close>

lemma grids_list: "grids = [(1, 1), (1, 2), (1, 3), (2, 1), (2, 2), (2, 3)]"
  by (simp add: grids_def GRID_COLS_def GRID_ROWS_def upt_rec)

text \<open>What every choice of the two loops satisfies: a grid of the list, large enough, with the size for that grid.\<close>

definition fitting :: "real \<Rightarrow> real \<Rightarrow> nat \<Rightarrow> candidate \<Rightarrow> bool" where
  "fitting aw ah n c \<longleftrightarrow> (case c of (nc, nr, tw, th, _) \<Rightarrow>
     1 \<le> nc \<and> nc \<le> GRID_COLS \<and> 1 \<le> nr \<and> nr \<le> GRID_ROWS \<and> n \<le> nc * nr \<and> (tw, th) = tile_size_for_grid aw ah nc nr)"

lemma consider_fitting:
  assumes "fst g \<in> {1..GRID_ROWS}" "snd g \<in> {1..GRID_COLS}" "\<forall>c. best = Some c \<longrightarrow> fitting aw ah n c"
  shows "(consider_grid aw ah n best g = Some c \<longrightarrow> fitting aw ah n c)
    \<and> (best \<noteq> None \<or> n \<le> snd g * fst g \<longrightarrow> consider_grid aw ah n best g \<noteq> None)"
  using assms by (cases g; cases best) (auto simp: consider_grid_def fitting_def Let_def split: prod.splits if_splits)

lemma foldl_fitting:
  "\<lbrakk> \<forall>g\<in>set gs. fst g \<in> {1..GRID_ROWS} \<and> snd g \<in> {1..GRID_COLS}; \<forall>c. best = Some c \<longrightarrow> fitting aw ah n c \<rbrakk> \<Longrightarrow>
     (\<forall>c. foldl (consider_grid aw ah n) best gs = Some c \<longrightarrow> fitting aw ah n c)
     \<and> (best \<noteq> None \<or> (\<exists>g\<in>set gs. n \<le> snd g * fst g) \<longrightarrow> foldl (consider_grid aw ah n) best gs \<noteq> None)"
proof (induction gs arbitrary: best)
  case (Cons g gs)
  let ?b = "consider_grid aw ah n best g"
  have g: "fst g \<in> {1..GRID_ROWS}" "snd g \<in> {1..GRID_COLS}" using Cons.prems(1) by simp_all
  have "\<forall>c. ?b = Some c \<longrightarrow> fitting aw ah n c" "best \<noteq> None \<or> n \<le> snd g * fst g \<longrightarrow> ?b \<noteq> None"
    using consider_fitting [OF g Cons.prems(2)] by blast+
  with Cons.IH [of ?b] Cons.prems(1) show ?case by auto
qed simp

lemma best_layout:
  assumes "n \<le> TILES_PER_PAGE"
  obtains nc nr where "1 \<le> nc" "nc \<le> GRID_COLS" "1 \<le> nr" "nr \<le> GRID_ROWS" "max n 1 \<le> nc * nr"
    "best_single_page_layout aw ah n = \<lparr>cols = nc, rows = nr, tile_width = fst (tile_size_for_grid (max aw 0) (max ah 0) nc nr),
       tile_height = snd (tile_size_for_grid (max aw 0) (max ah 0) nc nr), per_page = TILES_PER_PAGE, page_count = 1\<rparr>"
proof -
  let ?f = "foldl (consider_grid (max aw 0) (max ah 0) (max n 1)) None grids"
  have "\<forall>g\<in>set grids. fst g \<in> {1..GRID_ROWS} \<and> snd g \<in> {1..GRID_COLS}"
    by (simp add: grids_list GRID_ROWS_def GRID_COLS_def)
  moreover have "\<exists>g\<in>set grids. max n 1 \<le> snd g * fst g"
    using assms by (auto simp: grids_list TILES_PER_PAGE_def GRID_ROWS_def GRID_COLS_def intro!: bexI [of _ "(2, 3)"])
  ultimately have "\<forall>c. ?f = Some c \<longrightarrow> fitting (max aw 0) (max ah 0) (max n 1) c" "?f \<noteq> None"
    using foldl_fitting [of grids None] by blast+
  then obtain nc nr tw th sc where f: "?f = Some (nc, nr, tw, th, sc)" "fitting (max aw 0) (max ah 0) (max n 1) (nc, nr, tw, th, sc)"
    by (metis not_None_eq prod_cases5)
  then have "(tw, th) = tile_size_for_grid (max aw 0) (max ah 0) nc nr" by (simp add: fitting_def)
  then have "tw = fst (tile_size_for_grid (max aw 0) (max ah 0) nc nr)" "th = snd (tile_size_for_grid (max aw 0) (max ah 0) nc nr)"
    by (metis fst_conv, metis snd_conv)
  then show ?thesis using f by (intro that [of nc nr]) (auto simp: fitting_def best_single_page_layout_def)
qed

lemma paged_counts:
  "per_page (paged_grid_layout aw ah n) = TILES_PER_PAGE"
  "page_count (paged_grid_layout aw ah n) = max 1 ((n + TILES_PER_PAGE - 1) div TILES_PER_PAGE)"
proof -
  have t: "TILES_PER_PAGE = 6" by (simp add: TILES_PER_PAGE_def GRID_ROWS_def GRID_COLS_def)
  have b: "per_page (best_single_page_layout aw ah n) = 6 \<and> page_count (best_single_page_layout aw ah n) = 1"
    by (simp add: best_single_page_layout_def t split: option.splits prod.splits)
  have "n \<le> 6 \<Longrightarrow> (n + 5) div 6 \<le> 1" "\<not> n \<le> 6 \<Longrightarrow> 1 \<le> (n + 5) div 6" by presburger+
  then show "per_page (paged_grid_layout aw ah n) = TILES_PER_PAGE"
    "page_count (paged_grid_layout aw ah n) = max 1 ((n + TILES_PER_PAGE - 1) div TILES_PER_PAGE)"
    using b by (auto simp: paged_grid_layout_def t split: prod.splits)
qed

lemma resolved_counts:
  "per_page (fst (resolve_participant_layout vw vh n)) = TILES_PER_PAGE"
  "page_count (fst (resolve_participant_layout vw vh n)) = max 1 ((n + TILES_PER_PAGE - 1) div TILES_PER_PAGE)"
  by (auto simp: resolve_participant_layout_def Let_def paged_counts TILES_PER_PAGE_def GRID_ROWS_def GRID_COLS_def)

section \<open>Pages\<close>

lemma chunks:
  "concat (map (\<lambda>p. take (min (p * k + k) (length xs) - p * k) (drop (p * k) xs)) [0..<m]) = take (m * k) xs"
proof (induction m)
  case (Suc m)
  have "take (min (m * k + k) (length xs) - m * k) (drop (m * k) xs) = take k (drop (m * k) xs)"
    by (cases "m * k + k \<le> length xs") simp_all
  then show ?case using Suc take_add [of "m * k" k xs] by (simp add: add.commute)
qed simp

text \<open>
  Paging loses and repeats nobody: in the grid and beside a shared screen, for every viewport, the slices
  of the pages \<open>0\<close> to \<open>pages - 1\<close>, put together, are the list of participants; and whatever index the state
  holds, the slice shown lies within the list, so that taking it never panics.
\<close>
lemma pages_partition:
  fixes names :: "string list"
  defines "n \<equiv> length names"
  shows "let L = resolve_participant_layout vw vh n; pages = room_page_count presentation (fst L) n in
    concat (map (\<lambda>p. case visible_range presentation L n p of (s, e, _) \<Rightarrow> take (e - s) (drop s names)) [0..<pages]) = names
    \<and> (case visible_range presentation L n (current_page i pages) of (s, e, _) \<Rightarrow> s \<le> e \<and> e \<le> n)"
proof -
  define L where "L = resolve_participant_layout vw vh n"
  define k where "k = (if presentation then RAIL_TILES_PER_PAGE else TILES_PER_PAGE)"
  define pages where "pages = room_page_count presentation (fst L) n"
  have t: "TILES_PER_PAGE = 6" by (simp add: TILES_PER_PAGE_def GRID_ROWS_def GRID_COLS_def)
  have r: "\<exists>b. visible_range presentation L n p = (p * k, min (p * k + k) n, b)" for p
    by (simp add: visible_range_def k_def L_def resolved_counts Let_def)
  have pk: "pages = max 1 ((n + k - 1) div k)" "0 < k"
  proof -
    have "(n - 1) div 4 + 1 = max 1 ((n + 3) div 4)" by (cases n) auto
    then show "pages = max 1 ((n + k - 1) div k)" "0 < k"
      by (simp_all add: pages_def room_page_count_def rail_page_count_def k_def L_def resolved_counts RAIL_TILES_PER_PAGE_def t add.commute)
  qed
  have all: "n \<le> pages * k"
  proof -
    have "n + k - 1 < ((n + k - 1) div k + 1) * k" using pk(2) by (simp add: dividend_less_div_times)
    then show ?thesis using pk by (cases "(n + k - 1) div k") (auto simp: algebra_simps)
  qed
  have inside: "current_page i pages * k \<le> n"
  proof -
    have "current_page i pages \<le> pages - 1" by (simp add: current_page_def)
    moreover have "(pages - 1) * k \<le> n"
    proof (cases "n = 0")
      case True
      then show ?thesis using pk by (cases "k - 1") (auto simp: max_def)
    next
      case False
      have "(n + k - 1) div k * k \<le> n + k - 1" by (rule div_times_less_eq_dividend)
      then have "(n + k - 1) div k * k - k \<le> n" by linarith
      then show ?thesis using pk by (auto simp: diff_mult_distrib max_def)
    qed
    ultimately show ?thesis by (meson le_trans mult_le_mono1)
  qed
  have one: "(case visible_range presentation L n p of (s, e, _) \<Rightarrow> take (e - s) (drop s names)) =
      take (min (p * k + k) (length names) - p * k) (drop (p * k) names)" for p
    using r [of p] by (auto simp: n_def)
  have "concat (map (\<lambda>p. case visible_range presentation L n p of (s, e, _) \<Rightarrow> take (e - s) (drop s names)) [0..<pages]) = names"
    unfolding one chunks using all by (simp add: n_def)
  moreover have "case visible_range presentation L n (current_page i pages) of (s, e, _) \<Rightarrow> s \<le> e \<and> e \<le> n"
    using r [of "current_page i pages"] inside by auto
  ultimately show ?thesis by (simp add: Let_def L_def pages_def)
qed

section \<open>Tiles\<close>

lemma aspect_pos: "TILE_ASPECT_W_OVER_H > 0"
  by (simp add: TILE_ASPECT_W_OVER_H_def)

text \<open>A tile of a grid keeps 16:9 and stays in its cell, also after the upscale.\<close>

lemma grid_size:
  assumes "1 \<le> nc" "1 \<le> nr" "real (nc - 1) * TILE_GAP_PX \<le> aw" "real (nr - 1) * TILE_GAP_PX \<le> ah"
  shows "fst (tile_size_for_grid aw ah nc nr) = snd (tile_size_for_grid aw ah nc nr) * TILE_ASPECT_W_OVER_H"
    "band nc (fst (tile_size_for_grid aw ah nc nr)) \<le> aw" "band nr (snd (tile_size_for_grid aw ah nc nr)) \<le> ah"
proof -
  define w where "w = (aw - real (nc - 1) * TILE_GAP_PX) / real nc"
  define h where "h = (ah - real (nr - 1) * TILE_GAP_PX) / real nr"
  have wh: "0 \<le> w" "0 \<le> h" "real nc * w + real (nc - 1) * TILE_GAP_PX = aw" "real nr * h + real (nr - 1) * TILE_GAP_PX = ah"
    using assms by (simp_all add: w_def h_def)
  obtain t where t: "tile_size_for_grid aw ah nc nr = cap_height h (t, t / TILE_ASPECT_W_OVER_H)" "t \<le> w"
  proof (rule that)
    have m: "max 0 ((aw - real (nc - 1) * TILE_GAP_PX) / real nc) = w" "max 0 ((ah - real (nr - 1) * TILE_GAP_PX) / real nr) = h"
      using wh(1,2) by (simp_all only: w_def h_def max_absorb2)
    show "tile_size_for_grid aw ah nc nr =
        cap_height h (min (fst (tile_size_16_9_in_cell w h) * TILE_SIZE_BOOST) w,
          min (fst (tile_size_16_9_in_cell w h) * TILE_SIZE_BOOST) w / TILE_ASPECT_W_OVER_H)"
      unfolding tile_size_for_grid_def Let_def m by (rule refl)
  qed simp
  have s: "fst (tile_size_for_grid aw ah nc nr) = snd (tile_size_for_grid aw ah nc nr) * TILE_ASPECT_W_OVER_H
      \<and> fst (tile_size_for_grid aw ah nc nr) \<le> w \<and> snd (tile_size_for_grid aw ah nc nr) \<le> h"
    using t(2) aspect_pos by (auto simp: t(1) cap_height_def field_simps)
  then show "fst (tile_size_for_grid aw ah nc nr) = snd (tile_size_for_grid aw ah nc nr) * TILE_ASPECT_W_OVER_H" by blast
  have "real nc * fst (tile_size_for_grid aw ah nc nr) \<le> real nc * w" "real nr * snd (tile_size_for_grid aw ah nc nr) \<le> real nr * h"
    using s by (simp_all add: mult_left_mono)
  then show "band nc (fst (tile_size_for_grid aw ah nc nr)) \<le> aw" "band nr (snd (tile_size_for_grid aw ah nc nr)) \<le> ah"
    using wh(3,4) by (simp_all add: band_def)
qed

lemma gap_bound: "k \<le> GRID_COLS \<Longrightarrow> real (k - 1) * TILE_GAP_PX \<le> 28" "k \<le> GRID_ROWS \<Longrightarrow> real (k - 1) * TILE_GAP_PX \<le> 14"
  by (auto simp: GRID_COLS_def GRID_ROWS_def TILE_GAP_PX_def)

lemma paged_fit:
  assumes "28 \<le> aw" "14 \<le> ah"
  shows "let L = paged_grid_layout aw ah n in
    tile_width L = tile_height L * TILE_ASPECT_W_OVER_H \<and> band (cols L) (tile_width L) \<le> aw \<and> band (rows L) (tile_height L) \<le> ah
    \<and> (if n \<le> TILES_PER_PAGE then n \<le> cols L * rows L else cols L * rows L = TILES_PER_PAGE)"
proof (cases "n \<le> TILES_PER_PAGE")
  case True
  then obtain nc nr where g: "1 \<le> nc" "nc \<le> GRID_COLS" "1 \<le> nr" "nr \<le> GRID_ROWS" "max n 1 \<le> nc * nr"
    "best_single_page_layout aw ah n = \<lparr>cols = nc, rows = nr, tile_width = fst (tile_size_for_grid (max aw 0) (max ah 0) nc nr),
       tile_height = snd (tile_size_for_grid (max aw 0) (max ah 0) nc nr), per_page = TILES_PER_PAGE, page_count = 1\<rparr>"
    by (rule best_layout)
  have "real (nc - 1) * TILE_GAP_PX \<le> aw" "real (nr - 1) * TILE_GAP_PX \<le> ah"
    using gap_bound(1) [OF g(2)] gap_bound(2) [OF g(4)] assms by linarith+
  from grid_size [OF g(1,3) this] show ?thesis
    using True g(5,6) assms by (simp add: paged_grid_layout_def max_absorb1)
next
  case False
  have "1 \<le> GRID_COLS" "1 \<le> GRID_ROWS" by (simp_all add: GRID_COLS_def GRID_ROWS_def)
  moreover have "real (GRID_COLS - 1) * TILE_GAP_PX \<le> aw" "real (GRID_ROWS - 1) * TILE_GAP_PX \<le> ah"
    using gap_bound(1) [of GRID_COLS] gap_bound(2) [of GRID_ROWS] assms by simp_all
  ultimately show ?thesis
    using False grid_size [of GRID_COLS GRID_ROWS aw ah] assms
    by (simp add: paged_grid_layout_def max_absorb1 case_prod_unfold Let_def TILES_PER_PAGE_def)
qed

text \<open>The minimum width gives way: seven participants in a viewport 400 pixels wide have tiles of at most 92 pixels.\<close>

lemma narrow_tiles:
  assumes "14 \<le> vh"
  shows "tile_width (fst (resolve_participant_layout 400 vh 7)) \<le> 92 \<and> (92 :: real) < TILE_MIN_W_PX"
proof -
  have t: "TILES_PER_PAGE = 6" by (simp add: TILES_PER_PAGE_def GRID_ROWS_def GRID_COLS_def)
  have "fst (resolve_participant_layout 400 vh 7) = paged_grid_layout 304 vh 7"
    using assms by (simp add: resolve_participant_layout_def Let_def paged_counts t max_absorb1 ARROW_SLOT_PX_def)
  moreover have "cols (paged_grid_layout 304 vh 7) = 3"
    by (simp add: paged_grid_layout_def t GRID_COLS_def split: prod.split)
  moreover have "band (cols (paged_grid_layout 304 vh 7)) (tile_width (paged_grid_layout 304 vh 7)) \<le> 304"
    using paged_fit [of 304 vh 7, OF _ assms] unfolding Let_def by linarith
  ultimately show ?thesis by (simp add: band_def TILE_GAP_PX_def TILE_MIN_W_PX_def)
qed

text \<open>
  C33. The tiles fit. In a viewport at least 124 pixels wide and 14 pixels high, for any positive number of participants,
  the chosen layout has 16:9 tiles whose rows and columns, gaps included, stay within the viewport, less the two arrow
  slots when there are pages, and its grid has a cell for every participant of a page. Fitting comes before the
  minimum width of 160 pixels: where a cell is narrower than that, the tile takes the width of the cell
  (lemma narrow_tiles), which the comment on the minimum rules out.
\<close>
theorem tiles_fit:
  assumes "124 \<le> vw" "14 \<le> vh" "0 < n"
  shows "let L = fst (resolve_participant_layout vw vh n); arrows = snd (resolve_participant_layout vw vh n) in
    tile_width L = tile_height L * TILE_ASPECT_W_OVER_H
    \<and> band (cols L) (tile_width L) \<le> vw - (if arrows then 2 * ARROW_SLOT_PX else 0) \<and> band (rows L) (tile_height L) \<le> vh
    \<and> min n (per_page L) \<le> cols L * rows L \<and> (arrows \<longleftrightarrow> n > per_page L)"
proof -
  have t: "TILES_PER_PAGE = 6" by (simp add: TILES_PER_PAGE_def GRID_ROWS_def GRID_COLS_def)
  have pc: "page_count (paged_grid_layout aw ah n) \<le> 1 \<longleftrightarrow> n \<le> 6" for aw ah
    unfolding paged_counts t by presburger
  then have pc2: "1 < page_count (paged_grid_layout aw ah n) \<longleftrightarrow> \<not> n \<le> 6" for aw ah
    by (simp add: not_le [symmetric] del: not_le)
  define aw where "aw = (if n \<le> 6 then vw else vw - 2 * ARROW_SLOT_PX)"
  have aw: "28 \<le> aw" using assms by (simp add: aw_def ARROW_SLOT_PX_def)
  have r: "resolve_participant_layout vw vh n = (paged_grid_layout aw vh n, \<not> n \<le> 6)"
    using assms pc [unfolded One_nat_def] pc2 [unfolded One_nat_def]
    by (simp add: resolve_participant_layout_def Let_def aw_def max_absorb1 ARROW_SLOT_PX_def)
  show ?thesis
    using paged_fit [OF aw assms(2), of n] by (auto simp: r Let_def paged_counts t aw_def split: if_splits)
qed

theorem tiles_fit_witness:
  "band (cols (fst (resolve_participant_layout 800 600 7))) (tile_width (fst (resolve_participant_layout 800 600 7))) \<le> 704"
proof -
  let ?r = "resolve_participant_layout 800 600 7"
  have "band (cols (fst ?r)) (tile_width (fst ?r)) \<le> 800 - (if snd ?r then 2 * ARROW_SLOT_PX else 0) \<and> (snd ?r \<longleftrightarrow> 7 > per_page (fst ?r))"
  proof -
    have "(124 :: real) \<le> 800" "(14 :: real) \<le> 600" "0 < (7 :: nat)" by simp_all
    from tiles_fit [OF this, unfolded Let_def] show ?thesis by blast
  qed
  moreover have "7 > per_page (fst ?r)" by (simp add: resolved_counts TILES_PER_PAGE_def GRID_ROWS_def GRID_COLS_def)
  ultimately have "snd ?r" "band (cols (fst ?r)) (tile_width (fst ?r)) \<le> 800 - (if snd ?r then 2 * ARROW_SLOT_PX else 0)"
    by blast+
  then show ?thesis by (simp add: ARROW_SLOT_PX_def)
qed

end
