(* ===== verification/Wire_Json.thy ===== *)
theory Wire_Json
  imports Redis_Memory
begin

text \<open>
  JSON as the services and the page exchange it: values, and the way the derived readers of the Rust types take a
  value apart. The text of a value is a parameter with one law, that reading the text of a value gives it
  back (locale \<open>json_text\<close>); a codec that meets the law closes the theory.
\<close>

section \<open>Values and derived readers\<close>

datatype jvalue =
    JNull
  | JBool bool
  | JNum int
  | JStr string
  | JArr "jvalue list"
  | JObj "(string \<times> jvalue) list"

text \<open>
  A derived reader takes a struct from an object or from an array of its fields in order. In an object other keys
  are skipped, a key given twice is an error, and a missing key is one unless the field is an
  \<^verbatim>\<open>Option\<close>; \<open>struct_fields\<close> lists the values of the fields, each with a flag that tells whether
  it may be missing.
\<close>

definition take_field :: "(string \<times> jvalue) list \<Rightarrow> string \<times> bool \<Rightarrow> jvalue option" where
  "take_field kvs f = (case filter (\<lambda>kv. fst kv = fst f) kvs of
     [] \<Rightarrow> if snd f then Some JNull else None
   | [kv] \<Rightarrow> Some (snd kv)
   | _ \<Rightarrow> None)"

definition struct_fields :: "(string \<times> bool) list \<Rightarrow> jvalue \<Rightarrow> jvalue list option" where
  "struct_fields fs j = (case j of
     JObj kvs \<Rightarrow> those (map (take_field kvs) fs)
   | JArr vs \<Rightarrow> if length vs = length fs then Some vs else None
   | _ \<Rightarrow> None)"

text \<open>An enum with a \<^verbatim>\<open>type\<close> tag: the tag, and what is left for the fields of the variant.\<close>

definition tagged :: "jvalue \<Rightarrow> (string \<times> jvalue) option" where
  "tagged j = (case j of
     JObj kvs \<Rightarrow> (case take_field kvs (''type'', False) of
         Some (JStr t) \<Rightarrow> Some (t, JObj (filter (\<lambda>kv. fst kv \<noteq> ''type'') kvs))
       | _ \<Rightarrow> None)
   | JArr (JStr t # vs) \<Rightarrow> Some (t, JArr vs)
   | _ \<Rightarrow> None)"

definition variant :: "string \<Rightarrow> (string \<times> jvalue) list \<Rightarrow> jvalue" where
  "variant t kvs = JObj ((''type'', JStr t) # kvs)"

fun read_str :: "jvalue \<Rightarrow> string option" where
  "read_str (JStr s) = Some s"
| "read_str _ = None"

fun read_strs :: "jvalue \<Rightarrow> string list option" where
  "read_strs (JArr vs) = those (map read_str vs)"
| "read_strs _ = None"

fun read_opt_strs :: "jvalue \<Rightarrow> string list option option" where
  "read_opt_strs JNull = Some None"
| "read_opt_strs j = map_option Some (read_strs j)"

fun read_u32 :: "jvalue \<Rightarrow> 32 word option" where
  "read_u32 (JNum n) = (if 0 \<le> n \<and> n < 2 ^ 32 then Some (word_of_int n) else None)"
| "read_u32 _ = None"

text \<open>A variant without fields, from its name or from an object that has the name as its only key.\<close>

fun read_unit_variant :: "jvalue \<Rightarrow> string option" where
  "read_unit_variant (JStr s) = Some s"
| "read_unit_variant (JObj [(s, JNull)]) = Some s"
| "read_unit_variant _ = None"

definition write_opt_strs :: "string list option \<Rightarrow> jvalue" where
  "write_opt_strs p = (case p of None \<Rightarrow> JNull | Some xs \<Rightarrow> JArr (map JStr xs))"

definition string_fields :: "string list \<Rightarrow> jvalue \<Rightarrow> string list option" where
  "string_fields names j = Option.bind (struct_fields (map (\<lambda>n. (n, False)) names) j) (\<lambda>vs. those (map read_str vs))"

lemma those_map_Some [simp]: "those (map (\<lambda>x. Some (f x)) xs) = Some (map f xs)"
  by (induction xs) auto

lemma read_strs_text [simp]: "read_strs (JArr (map JStr xs)) = Some xs"
  by (simp add: comp_def)

lemma read_write_opt_strs [simp]: "read_opt_strs (write_opt_strs p) = Some p"
  by (cases p) (simp_all add: write_opt_strs_def comp_def)

lemma read_u32_write [simp]: "read_u32 (JNum (uint w)) = Some w"
  using uint_lt2p [of w] by (simp add: word_of_int_uint)

lemma tagged_variant [simp]: "list_all (\<lambda>kv. fst kv \<noteq> ''type'') kvs \<Longrightarrow> tagged (variant t kvs) = Some (t, JObj kvs)"
proof -
  assume *: "list_all (\<lambda>kv. fst kv \<noteq> ''type'') kvs"
  then have "filter (\<lambda>kv. fst kv = ''type'') kvs = []" "filter (\<lambda>kv. fst kv \<noteq> ''type'') kvs = kvs"
    by (simp_all add: list_all_iff filter_empty_conv)
  then show ?thesis by (simp add: tagged_def variant_def take_field_def)
qed

text \<open>The fields of a value written in order are read back.\<close>

lemma take_field_Cons:
  "take_field ((k, v) # kvs) (k, opt) = (if k \<in> fst ` set kvs then None else Some v)"
  "k \<noteq> l \<Longrightarrow> take_field ((k, v) # kvs) (l, opt) = take_field kvs (l, opt)"
proof -
  have "filter (\<lambda>kv. fst kv = k) kvs = [] \<longleftrightarrow> k \<notin> fst ` set kvs"
    by (auto simp: filter_empty_conv)
  then show "take_field ((k, v) # kvs) (k, opt) = (if k \<in> fst ` set kvs then None else Some v)"
    by (auto simp: take_field_def split: list.split)
qed (simp add: take_field_def)

lemma read_fields:
  assumes "distinct (map fst kvs)"
  shows "struct_fields (map (\<lambda>kv. (fst kv, opt (fst kv))) kvs) (JObj kvs) = Some (map snd kvs)"
proof -
  have "take_field kvs (fst kv, opt (fst kv)) = Some (snd kv)" if "kv \<in> set kvs" for kv
    using assms that
  proof (induction kvs)
    case (Cons x xs)
    then show ?case by (cases x) (cases "kv = x", auto simp: take_field_Cons image_iff)
  qed simp
  then have "map (take_field kvs) (map (\<lambda>kv. (fst kv, opt (fst kv))) kvs) = map (\<lambda>kv. Some (snd kv)) kvs" by simp
  then show ?thesis by (simp add: struct_fields_def del: map_map)
qed

section \<open>Texts\<close>

locale json_text =
  fixes put :: "jvalue \<Rightarrow> string" and get :: "string \<Rightarrow> jvalue option"
  assumes get_put: "get (put j) = Some j"

text \<open>A codec: a letter for the constructor, marked strings, items led by a comma.\<close>

fun enc_json :: "jvalue \<Rightarrow> string" and enc_items :: "jvalue list \<Rightarrow> string"
  and enc_entries :: "(string \<times> jvalue) list \<Rightarrow> string" where
  "enc_json JNull = ''n''"
| "enc_json (JBool b) = (if b then ''t'' else ''f'')"
| "enc_json (JNum i) = CHR ''i'' # enc_str (show_int i)"
| "enc_json (JStr s) = CHR ''s'' # enc_str s"
| "enc_json (JArr vs) = CHR ''['' # enc_items vs"
| "enc_json (JObj kvs) = CHR ''{'' # enc_entries kvs"
| "enc_items [] = '']''"
| "enc_items (v # vs) = CHR '','' # enc_json v @ enc_items vs"
| "enc_entries [] = ''}''"
| "enc_entries ((k, v) # kvs) = CHR '','' # enc_str k @ enc_json v @ enc_entries kvs"

fun dec_json :: "nat \<Rightarrow> string \<Rightarrow> (jvalue \<times> string) option" and dec_items :: "nat \<Rightarrow> string \<Rightarrow> (jvalue list \<times> string) option"
  and dec_entries :: "nat \<Rightarrow> string \<Rightarrow> ((string \<times> jvalue) list \<times> string) option" where
  "dec_json 0 s = None"
| "dec_json (Suc n) [] = None"
| "dec_json (Suc n) (c # s) =
     (if c = CHR ''n'' then Some (JNull, s)
      else if c = CHR ''t'' then Some (JBool True, s)
      else if c = CHR ''f'' then Some (JBool False, s)
      else if c = CHR ''i'' then Option.bind (dec_str s) (\<lambda>(x, r). map_option (\<lambda>i. (JNum i, r)) (dec_int x))
      else if c = CHR ''s'' then map_option (\<lambda>(x, r). (JStr x, r)) (dec_str s)
      else if c = CHR ''['' then map_option (\<lambda>(x, r). (JArr x, r)) (dec_items n s)
      else if c = CHR ''{'' then map_option (\<lambda>(x, r). (JObj x, r)) (dec_entries n s)
      else None)"
| "dec_items 0 s = None"
| "dec_items (Suc n) [] = None"
| "dec_items (Suc n) (c # s) =
     (if c = CHR '']'' then Some ([], s)
      else Option.bind (dec_json n s) (\<lambda>(v, r). map_option (\<lambda>(vs, q). (v # vs, q)) (dec_items n r)))"
| "dec_entries 0 s = None"
| "dec_entries (Suc n) [] = None"
| "dec_entries (Suc n) (c # s) =
     (if c = CHR ''}'' then Some ([], s)
      else Option.bind (dec_str s) (\<lambda>(k, r). Option.bind (dec_json n r) (\<lambda>(v, q).
        map_option (\<lambda>(kvs, z). ((k, v) # kvs, z)) (dec_entries n q))))"

lemma dec_enc_json:
  "length (enc_json j) \<le> n \<Longrightarrow> dec_json n (enc_json j @ r) = Some (j, r)"
  "length (enc_items vs) \<le> n \<Longrightarrow> dec_items n (enc_items vs @ r) = Some (vs, r)"
  "length (enc_entries kvs) \<le> n \<Longrightarrow> dec_entries n (enc_entries kvs @ r) = Some (kvs, r)"
proof (induction j and vs and kvs arbitrary: n r and n r and n r rule: enc_json_enc_items_enc_entries.induct)
  case (8 v vs)
  then show ?case by (cases n) auto
next
  case (10 k v kvs)
  then show ?case by (cases n) (auto simp: dec_enc_str)
qed (case_tac [!] n, auto simp: dec_enc_str dec_show_int split: if_splits)

definition text_of_json :: "jvalue \<Rightarrow> string" where
  "text_of_json = enc_json"

definition json_of_text :: "string \<Rightarrow> jvalue option" where
  "json_of_text s = (case dec_json (length s) s of Some (j, []) \<Rightarrow> Some j | _ \<Rightarrow> None)"

interpretation marked: json_text text_of_json json_of_text
  using dec_enc_json(1) [of _ _ "[]"] by unfold_locales (simp add: text_of_json_def json_of_text_def)

end
