(* ===== verification/Wire_Format.thy ===== *)
theory Wire_Format
  imports Wire_Json Client_Signaling Signaling_Messages Connector
begin

text \<open>
  The JSON both sides derive for the messages of \<^verbatim>\<open>signaling/src/message.rs\<close> and
  \<^verbatim>\<open>client/src/signaling.rs\<close>, and for the bodies of \<^verbatim>\<open>connector/src/message.rs\<close> and
  \<^verbatim>\<open>client/src/connector_api.rs\<close>: a writer where the type derives \<^verbatim>\<open>Serialize\<close>, a reader
  where it derives \<^verbatim>\<open>Deserialize\<close>. The two sides declare their types apart; the theorems say that
  what one side writes the other reads, as the message it means.
\<close>

section \<open>Messages of the page\<close>

definition write_out_message :: "OutMessage \<Rightarrow> jvalue" where
  "write_out_message m = (case m of
     OutAttach token \<Rightarrow> variant ''attach'' [(''token'', JStr token)]
   | OutCreate session \<Rightarrow> variant ''create'' [(''session_id'', JStr session)]
   | OutJoin session room \<Rightarrow> variant ''join'' [(''session_id'', JStr session), (''room_id'', JStr room)]
   | OutLeave session room people \<Rightarrow> variant ''leave'' [(''session_id'', JStr session), (''room_id'', JStr room),
       (''participants'', write_opt_strs people)]
   | OutSdp session sdp sdp_type \<Rightarrow> variant ''sdp'' [(''session_id'', JStr session), (''sdp'', JStr sdp), (''sdp_type'', JStr sdp_type)]
   | OutCandidate session candidate mid \<Rightarrow> variant ''candidate'' [(''session_id'', JStr session),
       (''candidate'', JStr candidate), (''sdp_mid'', JStr mid)])"

definition read_client_message :: "jvalue \<Rightarrow> ClientMessage option" where
  "read_client_message j = Option.bind (tagged j) (\<lambda>(t, b).
     if t = ''attach'' then (case string_fields [''token''] b of Some [token] \<Rightarrow> Some (Attach token) | _ \<Rightarrow> None)
     else if t = ''logout'' then (case struct_fields [(''session_id'', False), (''participants'', True)] b of
         Some [JStr session, people] \<Rightarrow> map_option (Logout session) (read_opt_strs people) | _ \<Rightarrow> None)
     else if t = ''sdp'' then (case string_fields [''session_id'', ''sdp'', ''sdp_type''] b of
         Some [session, sdp, sdp_type] \<Rightarrow> Some (ClientMessage.Sdp session sdp sdp_type) | _ \<Rightarrow> None)
     else if t = ''candidate'' then (case string_fields [''session_id'', ''candidate'', ''sdp_mid''] b of
         Some [session, candidate, mid] \<Rightarrow> Some (ClientMessage.Candidate session candidate mid) | _ \<Rightarrow> None)
     else if t = ''create'' then (case string_fields [''session_id''] b of Some [session] \<Rightarrow> Some (Create session) | _ \<Rightarrow> None)
     else if t = ''join'' then (case string_fields [''session_id'', ''room_id''] b of Some [session, room] \<Rightarrow> Some (Join session room) | _ \<Rightarrow> None)
     else if t = ''leave'' then (case struct_fields [(''session_id'', False), (''room_id'', False), (''participants'', True)] b of
         Some [JStr session, JStr room, people] \<Rightarrow> map_option (Leave session room) (read_opt_strs people) | _ \<Rightarrow> None)
     else None)"

text \<open>The request a message of the page is meant as.\<close>

definition meant_request :: "OutMessage \<Rightarrow> ClientMessage" where
  "meant_request m = (case m of
     OutAttach token \<Rightarrow> Attach token | OutCreate session \<Rightarrow> Create session | OutJoin session room \<Rightarrow> Join session room
   | OutLeave session room people \<Rightarrow> Leave session room people | OutSdp session sdp sdp_type \<Rightarrow> ClientMessage.Sdp session sdp sdp_type
   | OutCandidate session candidate mid \<Rightarrow> ClientMessage.Candidate session candidate mid)"

section \<open>Messages of a signaling node\<close>

definition server_code_name :: "ServerErrorCode \<Rightarrow> string" where
  "server_code_name c = (case c of
     ServerErrorCode.InvalidJson \<Rightarrow> ''invalid_json'' | ServerErrorCode.InvalidPayload \<Rightarrow> ''invalid_payload''
   | ServerErrorCode.Unauthorized \<Rightarrow> ''unauthorized'' | ServerErrorCode.SessionConflict \<Rightarrow> ''session_conflict''
   | ServerErrorCode.AlreadyAuthorized \<Rightarrow> ''already_authorized'' | ServerErrorCode.LeaveRoomMismatch \<Rightarrow> ''leave_room_mismatch''
   | ServerErrorCode.RoomNotFound \<Rightarrow> ''room_not_found'' | ServerErrorCode.NicknameTaken \<Rightarrow> ''nickname_taken''
   | ServerErrorCode.AlreadyInRoom \<Rightarrow> ''already_in_room'' | ServerErrorCode.NotInRoom \<Rightarrow> ''not_in_room''
   | ServerErrorCode.SfuCapacityExhausted \<Rightarrow> ''sfu_capacity_exhausted'' | ServerErrorCode.SfuUnavailable \<Rightarrow> ''sfu_unavailable''
   | ServerErrorCode.SfuRejected \<Rightarrow> ''sfu_rejected'' | ServerErrorCode.InvalidRoomAssignment \<Rightarrow> ''invalid_room_assignment''
   | ServerErrorCode.StorageUnavailable \<Rightarrow> ''storage_unavailable'' | ServerErrorCode.WriteFailed \<Rightarrow> ''write_failed'')"

definition client_codes :: "(string \<times> ClientErrorCode) list" where
  "client_codes =
     [(''invalid_json'', ClientErrorCode.InvalidJson), (''invalid_payload'', ClientErrorCode.InvalidPayload),
      (''unauthorized'', ClientErrorCode.Unauthorized), (''session_conflict'', ClientErrorCode.SessionConflict),
      (''already_authorized'', ClientErrorCode.AlreadyAuthorized), (''leave_room_mismatch'', ClientErrorCode.LeaveRoomMismatch),
      (''room_not_found'', ClientErrorCode.RoomNotFound), (''nickname_taken'', ClientErrorCode.NicknameTaken),
      (''already_in_room'', ClientErrorCode.AlreadyInRoom), (''not_in_room'', ClientErrorCode.NotInRoom),
      (''sfu_capacity_exhausted'', ClientErrorCode.SfuCapacityExhausted), (''sfu_unavailable'', ClientErrorCode.SfuUnavailable),
      (''sfu_rejected'', ClientErrorCode.SfuRejected), (''invalid_room_assignment'', ClientErrorCode.InvalidRoomAssignment),
      (''storage_unavailable'', ClientErrorCode.StorageUnavailable), (''write_failed'', ClientErrorCode.WriteFailed)]"

definition write_server_message :: "ServerMessage \<Rightarrow> jvalue" where
  "write_server_message m = (case m of
     Attached nick session \<Rightarrow> variant ''attached'' [(''nickname'', JStr nick), (''session_id'', JStr session)]
   | LoggedOut nick \<Rightarrow> variant ''logged_out'' [(''nickname'', JStr nick)]
   | ServerMessage.Sdp source sdp sdp_type \<Rightarrow> variant ''sdp'' [(''from'', JStr source), (''sdp'', JStr sdp), (''sdp_type'', JStr sdp_type)]
   | ServerMessage.Candidate source candidate mid \<Rightarrow> variant ''candidate'' [(''from'', JStr source),
       (''candidate'', JStr candidate), (''sdp_mid'', JStr mid)]
   | Created room you \<Rightarrow> variant ''created'' [(''room_id'', JStr room), (''your_nickname'', JStr you)]
   | Joined room you people \<Rightarrow> variant ''joined'' [(''room_id'', JStr room), (''your_nickname'', JStr you),
       (''participants'', JArr (map JStr people))]
   | RoomClosed room reason \<Rightarrow> variant ''room_closed'' [(''room_id'', JStr room), (''reason'', JStr reason)]
   | Left room \<Rightarrow> variant ''left'' [(''room_id'', JStr room)]
   | ParticipantJoined nick \<Rightarrow> variant ''participant_joined'' [(''nickname'', JStr nick)]
   | ParticipantLeft nick \<Rightarrow> variant ''participant_left'' [(''nickname'', JStr nick)]
   | Error code message \<Rightarrow> variant ''error'' [(''code'', JStr (server_code_name code)), (''message'', JStr message)]
   | ServiceUnavailable dep ms \<Rightarrow> variant ''service_unavailable'' [(''dependency'', JStr dep), (''retry_after_ms'', JNum (uint ms))])"

definition read_in_message :: "jvalue \<Rightarrow> InMessage option" where
  "read_in_message j = Option.bind (tagged j) (\<lambda>(t, b).
     if t = ''attached'' then (case string_fields [''nickname'', ''session_id''] b of Some [nick, session] \<Rightarrow> Some (InAttached nick session) | _ \<Rightarrow> None)
     else if t = ''logged_out'' then (case string_fields [''nickname''] b of Some [nick] \<Rightarrow> Some (InLoggedOut nick) | _ \<Rightarrow> None)
     else if t = ''sdp'' then (case string_fields [''from'', ''sdp'', ''sdp_type''] b of
         Some [source, sdp, sdp_type] \<Rightarrow> Some (InSdp source sdp sdp_type) | _ \<Rightarrow> None)
     else if t = ''candidate'' then (case string_fields [''from'', ''candidate'', ''sdp_mid''] b of
         Some [source, candidate, mid] \<Rightarrow> Some (InCandidate source candidate mid) | _ \<Rightarrow> None)
     else if t = ''created'' then (case string_fields [''room_id'', ''your_nickname''] b of Some [room, you] \<Rightarrow> Some (InCreated room you) | _ \<Rightarrow> None)
     else if t = ''joined'' then (case struct_fields [(''room_id'', False), (''your_nickname'', False), (''participants'', False)] b of
         Some [JStr room, JStr you, people] \<Rightarrow> map_option (InJoined room you) (read_strs people) | _ \<Rightarrow> None)
     else if t = ''room_closed'' then (case string_fields [''room_id'', ''reason''] b of Some [room, reason] \<Rightarrow> Some (InRoomClosed room reason) | _ \<Rightarrow> None)
     else if t = ''left'' then (case string_fields [''room_id''] b of Some [room] \<Rightarrow> Some (InLeft room) | _ \<Rightarrow> None)
     else if t = ''participant_joined'' then (case string_fields [''nickname''] b of Some [nick] \<Rightarrow> Some (InParticipantJoined nick) | _ \<Rightarrow> None)
     else if t = ''participant_left'' then (case string_fields [''nickname''] b of Some [nick] \<Rightarrow> Some (InParticipantLeft nick) | _ \<Rightarrow> None)
     else if t = ''error'' then (case struct_fields [(''code'', False), (''message'', False)] b of
         Some [code, JStr message] \<Rightarrow> Option.bind (read_unit_variant code) (\<lambda>name. map_option (\<lambda>c. InError c message) (map_of client_codes name))
       | _ \<Rightarrow> None)
     else if t = ''service_unavailable'' then (case struct_fields [(''dependency'', False), (''retry_after_ms'', False)] b of
         Some [JStr dep, ms] \<Rightarrow> map_option (InServiceUnavailable dep) (read_u32 ms) | _ \<Rightarrow> None)
     else None)"

definition meant_code :: "ServerErrorCode \<Rightarrow> ClientErrorCode" where
  "meant_code c = (case c of
     ServerErrorCode.InvalidJson \<Rightarrow> ClientErrorCode.InvalidJson | ServerErrorCode.InvalidPayload \<Rightarrow> ClientErrorCode.InvalidPayload
   | ServerErrorCode.Unauthorized \<Rightarrow> ClientErrorCode.Unauthorized | ServerErrorCode.SessionConflict \<Rightarrow> ClientErrorCode.SessionConflict
   | ServerErrorCode.AlreadyAuthorized \<Rightarrow> ClientErrorCode.AlreadyAuthorized
   | ServerErrorCode.LeaveRoomMismatch \<Rightarrow> ClientErrorCode.LeaveRoomMismatch
   | ServerErrorCode.RoomNotFound \<Rightarrow> ClientErrorCode.RoomNotFound | ServerErrorCode.NicknameTaken \<Rightarrow> ClientErrorCode.NicknameTaken
   | ServerErrorCode.AlreadyInRoom \<Rightarrow> ClientErrorCode.AlreadyInRoom | ServerErrorCode.NotInRoom \<Rightarrow> ClientErrorCode.NotInRoom
   | ServerErrorCode.SfuCapacityExhausted \<Rightarrow> ClientErrorCode.SfuCapacityExhausted
   | ServerErrorCode.SfuUnavailable \<Rightarrow> ClientErrorCode.SfuUnavailable | ServerErrorCode.SfuRejected \<Rightarrow> ClientErrorCode.SfuRejected
   | ServerErrorCode.InvalidRoomAssignment \<Rightarrow> ClientErrorCode.InvalidRoomAssignment
   | ServerErrorCode.StorageUnavailable \<Rightarrow> ClientErrorCode.StorageUnavailable
   | ServerErrorCode.WriteFailed \<Rightarrow> ClientErrorCode.WriteFailed)"

definition meant_notice :: "ServerMessage \<Rightarrow> InMessage" where
  "meant_notice m = (case m of
     Attached nick session \<Rightarrow> InAttached nick session | LoggedOut nick \<Rightarrow> InLoggedOut nick
   | ServerMessage.Sdp source sdp sdp_type \<Rightarrow> InSdp source sdp sdp_type
   | ServerMessage.Candidate source candidate mid \<Rightarrow> InCandidate source candidate mid
   | Created room you \<Rightarrow> InCreated room you | Joined room you people \<Rightarrow> InJoined room you people
   | RoomClosed room reason \<Rightarrow> InRoomClosed room reason | Left room \<Rightarrow> InLeft room
   | ParticipantJoined nick \<Rightarrow> InParticipantJoined nick | ParticipantLeft nick \<Rightarrow> InParticipantLeft nick
   | Error code message \<Rightarrow> InError (meant_code code) message | ServiceUnavailable dep ms \<Rightarrow> InServiceUnavailable dep ms)"

text \<open>Fields as the writers put them, in the order the readers ask for them.\<close>

lemma take_fields [simp]:
  "take_field ((k, v) # kvs) (l, opt) = (if k = l then (if l \<in> fst ` set kvs then None else Some v) else take_field kvs (l, opt))"
  by (auto simp: take_field_Cons)

lemma read_request: "read_client_message (write_out_message m) = Some (meant_request m)"
  by (cases m) (simp_all add: read_client_message_def write_out_message_def meant_request_def string_fields_def struct_fields_def)

lemma client_code: "map_of client_codes (server_code_name c) = Some (meant_code c)"
  by (cases c) (simp_all add: client_codes_def server_code_name_def meant_code_def)

lemma read_notice: "read_in_message (write_server_message m) = Some (meant_notice m)"
  by (cases m) (simp_all add: read_in_message_def write_server_message_def meant_notice_def string_fields_def struct_fields_def
      client_code comp_def del: read_strs.simps read_u32.simps)

section \<open>Bodies of the connector\<close>

definition write_request :: "api_request \<Rightarrow> jvalue" where
  "write_request r = (case r of
     ApiAuth nick \<Rightarrow> JObj [(''nickname'', JStr nick)]
   | ApiCreate session \<Rightarrow> JObj [(''session_id'', JStr session)]
   | ApiJoin session room \<Rightarrow> JObj [(''session_id'', JStr session), (''room_id'', JStr room)]
   | ApiLogout session \<Rightarrow> JObj [(''session_id'', JStr session)]
   | ApiRenew session \<Rightarrow> JObj [(''session_id'', JStr session)])"

definition read_auth_request :: "jvalue \<Rightarrow> string option" where
  "read_auth_request j = (case string_fields [''nickname''] j of Some [nick] \<Rightarrow> Some nick | _ \<Rightarrow> None)"

definition read_session_request :: "jvalue \<Rightarrow> string option" where
  "read_session_request j = (case string_fields [''session_id''] j of Some [session] \<Rightarrow> Some session | _ \<Rightarrow> None)"

definition read_join_request :: "jvalue \<Rightarrow> (string \<times> string) option" where
  "read_join_request j = (case string_fields [''session_id'', ''room_id''] j of Some [session, room] \<Rightarrow> Some (session, room) | _ \<Rightarrow> None)"

definition write_auth_response :: "AuthResponse \<Rightarrow> jvalue" where
  "write_auth_response a = JObj [(''nickname'', JStr (auth_nickname a)), (''session_id'', JStr (auth_session_id a))]"

definition write_ready_response :: "SignalingReadyResponse \<Rightarrow> jvalue" where
  "write_ready_response r = JObj [(''signaling_url'', JStr (signaling_url r)), (''session_id'', JStr (ready_session_id r)),
     (''token'', JStr (ready_token r))]"

definition connector_code_name :: "ConnectorErrorCode \<Rightarrow> string" where
  "connector_code_name c = (case c of
     ConnectorErrorCode.InvalidPayload \<Rightarrow> ''invalid_payload'' | ConnectorErrorCode.Unauthorized \<Rightarrow> ''unauthorized''
   | ConnectorErrorCode.NicknameTaken \<Rightarrow> ''nickname_taken'' | ConnectorErrorCode.RoomNotFound \<Rightarrow> ''room_not_found''
   | ConnectorErrorCode.StorageUnavailable \<Rightarrow> ''storage_unavailable'' | NoHealthySignaling \<Rightarrow> ''no_healthy_signaling''
   | ConnectorErrorCode.UnknownSignalingRoute \<Rightarrow> ''unknown_signaling_route'' | TokenIssueFailed \<Rightarrow> ''token_issue_failed'')"

definition write_error_response :: "ErrorResponse \<Rightarrow> jvalue" where
  "write_error_response e = JObj [(''code'', JStr (connector_code_name (err_code e))), (''message'', JStr (err_message e))]"

definition read_auth_response :: "jvalue \<Rightarrow> ClientAuthResponse option" where
  "read_auth_response j = (case string_fields [''nickname'', ''session_id''] j of
     Some [nick, session] \<Rightarrow> Some \<lparr>resp_nickname = nick, resp_session_id = session\<rparr> | _ \<Rightarrow> None)"

definition read_ready_response :: "jvalue \<Rightarrow> ClientReadyResponse option" where
  "read_ready_response j = (case string_fields [''signaling_url'', ''session_id'', ''token''] j of
     Some [url, session, token] \<Rightarrow> Some \<lparr>resp_signaling_url = url, resp_ready_session = session, resp_token = token\<rparr> | _ \<Rightarrow> None)"

definition read_error_payload :: "jvalue \<Rightarrow> string option" where
  "read_error_payload j = (case string_fields [''message''] j of Some [message] \<Rightarrow> Some message | _ \<Rightarrow> None)"

lemma read_bodies [simp]:
  "read_auth_request (write_request (ApiAuth nick)) = Some nick"
  "read_session_request (write_request (ApiCreate session)) = Some session"
  "read_join_request (write_request (ApiJoin session room)) = Some (session, room)"
  "read_session_request (write_request (ApiLogout session)) = Some session"
  "read_session_request (write_request (ApiRenew session)) = Some session"
  "read_auth_response (write_auth_response a) = Some \<lparr>resp_nickname = auth_nickname a, resp_session_id = auth_session_id a\<rparr>"
  "read_ready_response (write_ready_response r) =
     Some \<lparr>resp_signaling_url = signaling_url r, resp_ready_session = ready_session_id r, resp_token = ready_token r\<rparr>"
  "read_error_payload (write_error_response e) = Some (err_message e)"
  by (simp_all add: read_auth_request_def read_session_request_def read_join_request_def read_auth_response_def
      read_ready_response_def read_error_payload_def write_request_def write_auth_response_def write_ready_response_def
      write_error_response_def string_fields_def struct_fields_def)

section \<open>Property\<close>

text \<open>
  C28. The two ends of the signaling socket speak one language. Whatever message the page writes, the node reads it as the request
  it means, and whatever message a node writes, the page reads it as the notice it means, error codes and absent
  participants included.
\<close>

theorem wire_agrees:
  "read_client_message (write_out_message out) = Some (meant_request out) \<and>
   read_in_message (write_server_message msg) = Some (meant_notice msg)"
  by (simp add: read_request read_notice)

end
