(* ===== verification/Connector_Service.thy ===== *)
theory Connector_Service
  imports Wire_Format
begin

text \<open>
  The connector as a service: \<^verbatim>\<open>main\<close>, its routes and the CORS layer of
  \<^verbatim>\<open>services/connector/src/main.rs\<close>, with the JSON bodies of \<^verbatim>\<open>Wire_Format\<close> around the handlers
  of \<^verbatim>\<open>Connector\<close>; what an answer can look like; and the calls of the page
  (\<^verbatim>\<open>client/src/connector_api.rs\<close>) over a connection that delivers.
\<close>

section \<open>Requests and answers\<close>

datatype HttpMethod = GET | HEAD | POST | OPTIONS | OtherMethod

record http_request =
  req_method :: HttpMethod
  req_path :: string
  req_json_type :: bool
  req_body :: string

text \<open>An answer of a handler, or one the framework gives in its place.\<close>

datatype conn_answer =
    AuthAnswer AuthResponse
  | ReadyAnswer SignalingReadyResponse
  | ErrorAnswer ErrorResponse
  | HealthAnswer string
  | EmptyAnswer
  | FrameworkAnswer string

record CorsLayer =
  allow_origins :: "string list"
  allow_methods :: "HttpMethod list"
  allow_headers :: "string list"
  max_age_secs :: nat

text \<open>
  What the frameworks bring: the JSON texts; what axum makes of a body (the JSON value, or the answer that rejects it), of a value of
  the wrong shape, of a path without a route and of a method a route does not have; what the CORS layer answers itself,
  and that is nothing where it hands the request on; which texts are header values, which are socket addresses, and opening a
  listener. All of it is code of axum, tower-http and serde, and none of it is fixed here. A HEAD of the health check, which axum
  answers from the GET route without its body, counts as another method. Headers of answers are left out.
\<close>

record 'w http_stack =
  put_json :: "jvalue \<Rightarrow> string"
  get_json :: "string \<Rightarrow> jvalue option"
  read_body :: "http_request \<Rightarrow> (nat \<times> string) + jvalue"
  shape_rejection :: "http_request \<Rightarrow> nat \<times> string"
  no_route :: "http_request \<Rightarrow> nat \<times> string"
  other_method :: "http_request \<Rightarrow> nat \<times> string"
  layer_answer :: "CorsLayer \<Rightarrow> http_request \<Rightarrow> (nat \<times> string) option"
  header_value :: "string \<Rightarrow> bool"
  socket_address :: "string \<Rightarrow> bool"
  bind_listener :: "string \<Rightarrow> ('w, string, unit) prog"

text \<open>The argument \<open>Json(payload)\<close> of a handler: the value the framework reads, as the type of the payload reads it.\<close>

definition json_payload :: "('w, 'q) http_stack_scheme \<Rightarrow> (jvalue \<Rightarrow> 'a option) \<Rightarrow> http_request \<Rightarrow> (nat \<times> string) + 'a" where
  "json_payload N read r =
     (case read_body N r of Inl rejection \<Rightarrow> Inl rejection
      | Inr j \<Rightarrow> (case read j of None \<Rightarrow> Inl (shape_rejection N r) | Some q \<Rightarrow> Inr q))"

definition framework :: "nat \<times> string \<Rightarrow> nat \<times> conn_answer" where
  "framework = map_prod id FrameworkAnswer"

definition answer_error :: "HandlerError \<Rightarrow> nat \<times> conn_answer" where
  "answer_error err = map_prod id ErrorAnswer (into_response err)"

definition answered :: "('a \<Rightarrow> nat \<times> conn_answer) \<Rightarrow> ('w, 'a) http \<Rightarrow> ('w, nat \<times> conn_answer) act" where
  "answered f m = bindM m (\<lambda>r. retM (case r of Inr x \<Rightarrow> f x | Inl err \<Rightarrow> answer_error err))"

definition post_route :: "('w, 'q) http_stack_scheme \<Rightarrow> (jvalue \<Rightarrow> 'b option) \<Rightarrow> ('a \<Rightarrow> nat \<times> conn_answer) \<Rightarrow> ('b \<Rightarrow> ('w, 'a) http)
    \<Rightarrow> http_request \<Rightarrow> ('w, nat \<times> conn_answer) act" where
  "post_route N read f handler r =
     (if req_method r \<noteq> POST then retM (framework (other_method N r))
      else case json_payload N read r of Inl rejection \<Rightarrow> retM (framework rejection)
      | Inr q \<Rightarrow> answered f (handler q))"

definition connector_routes :: "('w, 'q) http_stack_scheme \<Rightarrow> ('w, 'z) conn_env_scheme \<Rightarrow> ConnectorConfig \<Rightarrow> http_request
    \<Rightarrow> ('w, nat \<times> conn_answer) act" where
  "connector_routes N E cfg r =
     (if req_path r = ''/auth'' then post_route N read_auth_request (\<lambda>a. (200, AuthAnswer a)) (auth E cfg) r
      else if req_path r = ''/create'' then post_route N read_session_request (\<lambda>a. (200, ReadyAnswer a)) (create E cfg) r
      else if req_path r = ''/join'' then
        post_route N read_join_request (\<lambda>a. (200, ReadyAnswer a)) (\<lambda>(session, room). join E cfg session room) r
      else if req_path r = ''/logout'' then post_route N read_session_request (\<lambda>st. (st, EmptyAnswer)) (logout E) r
      else if req_path r = ''/session/renew'' then post_route N read_session_request (\<lambda>st. (st, EmptyAnswer)) (session_renew E cfg) r
      else if req_path r = ''/health'' then
        retM (if req_method r = GET then (fst conn_health, HealthAnswer (snd conn_health)) else framework (other_method N r))
      else retM (framework (no_route N r)))"

definition cors_layer :: "('w, 'q) http_stack_scheme \<Rightarrow> string list \<Rightarrow> CorsLayer option" where
  "cors_layer N origins =
     (if origins = [] then None
      else let origin_values = filter (header_value N) (map trim origins)
      in if origin_values = [] then None
         else Some \<lparr>allow_origins = origin_values, allow_methods = [GET, POST, OPTIONS], allow_headers = [''content-type''],
           max_age_secs = 600\<rparr>)"

text \<open>The routes under the layer that \<open>main\<close> puts around them, if the configuration makes one.\<close>

definition layered :: "('w, 'q) http_stack_scheme \<Rightarrow> CorsLayer option \<Rightarrow> (http_request \<Rightarrow> ('w, nat \<times> conn_answer) act)
    \<Rightarrow> http_request \<Rightarrow> ('w, nat \<times> conn_answer) act" where
  "layered N layer app r =
     (case Option.bind layer (\<lambda>l. layer_answer N l r) of Some a \<Rightarrow> retM (framework a) | None \<Rightarrow> app r)"

definition connector_app :: "('w, 'q) http_stack_scheme \<Rightarrow> ('w, 'z) conn_env_scheme \<Rightarrow> ConnectorConfig \<Rightarrow> http_request
    \<Rightarrow> ('w, nat \<times> conn_answer) act" where
  "connector_app N E cfg = layered N (cors_layer N (cors_allowed_origins cfg)) (connector_routes N E cfg)"

section \<open>Start\<close>

datatype start_error = LoadConfig string | InvalidAddr string | RedisStart redis_error | BindListener string

definition connector_main :: "('w, 'q) http_stack_scheme \<Rightarrow> ('w, 'z) conn_env_scheme \<Rightarrow> (string \<Rightarrow> string option)
    \<Rightarrow> ('w, start_error, ConnectorConfig \<times> CorsLayer option) prog" where
  "connector_main N E env_var =
     (case connector_from_env env_var of Inl err \<Rightarrow> failM (LoadConfig err)
      | Inr cfg \<Rightarrow>
          if \<not> socket_address N (connector_addr cfg) then failM (InvalidAddr (connector_addr cfg)) else
          tryM (map_errM RedisStart (conn_init_redis E)) (\<lambda>_.
          let layer = cors_layer N (cors_allowed_origins cfg) in
          tryM (map_errM BindListener (bind_listener N (connector_addr cfg))) (\<lambda>_. okM (cfg, layer))))"

section \<open>What an answer can be\<close>

definition post_paths :: "string list" where
  "post_paths = [''/auth'', ''/create'', ''/join'', ''/logout'', ''/session/renew'']"

text \<open>The status of an error code.\<close>

definition error_status :: "ConnectorErrorCode \<Rightarrow> nat" where
  "error_status c = (case c of
     ConnectorErrorCode.InvalidPayload \<Rightarrow> 400 | ConnectorErrorCode.Unauthorized \<Rightarrow> 401 | ConnectorErrorCode.NicknameTaken \<Rightarrow> 409
   | ConnectorErrorCode.RoomNotFound \<Rightarrow> 404 | TokenIssueFailed \<Rightarrow> 500 | _ \<Rightarrow> 503)"

text \<open>When the framework answers in place of a handler, and what.\<close>

definition framework_answers :: "('w, 'q) http_stack_scheme \<Rightarrow> ConnectorConfig \<Rightarrow> http_request \<Rightarrow> nat \<times> string \<Rightarrow> bool" where
  "framework_answers N cfg r a \<longleftrightarrow>
     (case Option.bind (cors_layer N (cors_allowed_origins cfg)) (\<lambda>l. layer_answer N l r) of
        Some b \<Rightarrow> a = b
      | None \<Rightarrow>
          if req_path r \<in> set post_paths then
            (if req_method r \<noteq> POST then a = other_method N r
             else (case read_body N r of Inl rejection \<Rightarrow> a = rejection
               | Inr j \<Rightarrow> a = shape_rejection N r
                   \<and> (req_path r = ''/auth'' \<and> read_auth_request j = None
                      \<or> req_path r = ''/join'' \<and> read_join_request j = None
                      \<or> req_path r \<in> {''/create'', ''/logout'', ''/session/renew''} \<and> read_session_request j = None)))
          else if req_path r = ''/health'' then req_method r \<noteq> GET \<and> a = other_method N r
          else a = no_route N r)"

definition answer_typed :: "('w, 'q) http_stack_scheme \<Rightarrow> ConnectorConfig \<Rightarrow> http_request \<Rightarrow> nat \<Rightarrow> conn_answer \<Rightarrow> bool" where
  "answer_typed N cfg r st ans = (case ans of
     AuthAnswer _ \<Rightarrow> st = 200 \<and> req_method r = POST \<and> req_path r = ''/auth''
   | ReadyAnswer _ \<Rightarrow> st = 200 \<and> req_method r = POST \<and> req_path r \<in> {''/create'', ''/join''}
   | ErrorAnswer e \<Rightarrow> st = error_status (err_code e) \<and> err_message e \<noteq> [] \<and> req_method r = POST \<and> req_path r \<in> set post_paths
   | HealthAnswer t \<Rightarrow> st = 200 \<and> t = ''ok'' \<and> req_method r = GET \<and> req_path r = ''/health''
   | EmptyAnswer \<Rightarrow> st = 204 \<and> req_method r = POST \<and> req_path r \<in> {''/logout'', ''/session/renew''}
   | FrameworkAnswer t \<Rightarrow> framework_answers N cfg r (st, t))"

lemma no_content:
  "fst (logout E session w) = Inr st \<Longrightarrow> st = 204"
  "fst (session_renew E cfg session w) = Inr st \<Longrightarrow> st = 204"
  by (auto simp: logout_def session_renew_def prog_simps split: sum.splits option.splits if_splits)

text \<open>\<open>refuses P m\<close>: whatever error \<open>m\<close> ends with satisfies \<open>P\<close>.\<close>

definition refuses :: "('e \<Rightarrow> bool) \<Rightarrow> ('w, 'e, 'a) prog \<Rightarrow> bool" where
  "refuses P m \<longleftrightarrow> (\<forall>w err. fst (m w) = Inl err \<longrightarrow> P err)"

named_theorems refuses_intros "rules that push a condition on errors through a program"

lemma refuses_basic [refuses_intros]:
  "refuses P (okM x)" "P err \<Longrightarrow> refuses P (failM err)" "refuses P (liftM a)"
  by (simp_all add: refuses_def prog_simps)

lemma refuses_tryM [refuses_intros]: "refuses P m \<Longrightarrow> (\<And>x. refuses P (f x)) \<Longrightarrow> refuses P (tryM m f)"
  by (auto simp: refuses_def prog_simps split: sum.splits)

lemma refuses_bindM [refuses_intros]: "(\<And>x. refuses P (f x)) \<Longrightarrow> refuses P (bindM m f)"
  by (simp add: refuses_def prog_simps)

lemma refuses_map_errM [refuses_intros]: "(\<And>err. P (g err)) \<Longrightarrow> refuses P (map_errM g m)"
  by (auto simp: refuses_def prog_simps map_sum_def split: sum.splits)

lemma refuses_case [refuses_intros]:
  "refuses P a \<Longrightarrow> (\<And>x. refuses P (b x)) \<Longrightarrow> refuses P (case z of None \<Rightarrow> a | Some x \<Rightarrow> b x)"
  "(\<And>x. refuses P (c x)) \<Longrightarrow> (\<And>y. refuses P (d y)) \<Longrightarrow> refuses P (case q of Inl x \<Rightarrow> c x | Inr y \<Rightarrow> d y)"
  "refuses P a \<Longrightarrow> refuses P e \<Longrightarrow> refuses P (if t then a else e)"
  by (auto split: option.split sum.split)

text \<open>The handlers refuse with a payload error only under a text of their own.\<close>

definition plain_error :: "HandlerError \<Rightarrow> bool" where
  "plain_error err \<longleftrightarrow> err \<noteq> HandlerError.InvalidPayload []"

lemma plain_mapped [refuses_intros]: "plain_error (conn_map_redis_error err)"
  by (simp add: plain_error_def conn_map_redis_error_def split: RedisError.split)

lemma plain_basic [refuses_intros]:
  "plain_error HandlerError.Unauthorized" "plain_error SupervisorUnavailable" "plain_error SignalingUnavailable"
  "plain_error HandlerError.UnknownSignalingRoute" "plain_error Token"
  "text \<noteq> [] \<Longrightarrow> plain_error (HandlerError.InvalidPayload text)" "text \<noteq> [] \<Longrightarrow> refuses plain_error (validated text v)"
  by (simp_all add: plain_error_def validated_def refuses_def prog_simps split: sum.split)

lemma handlers_plain:
  "refuses plain_error (auth E cfg nick)" "refuses plain_error (create E cfg session)" "refuses plain_error (join E cfg session room)"
  "refuses plain_error (logout E session)" "refuses plain_error (session_renew E cfg session)"
  by (auto simp: auth_def create_def join_def logout_def session_renew_def connM_def Let_def
      select_least_loaded_signaling_def issue_signaling_token_def intro!: refuses_intros)

lemma error_typed:
  assumes "plain_error err"
  shows "st = status_for_error err \<Longrightarrow> e = snd (into_response err) \<Longrightarrow> st = error_status (err_code e) \<and> err_message e \<noteq> []"
  using assms by (cases err) (simp_all add: status_for_error_def into_response_def conn_map_error_def error_status_def plain_error_def)

text \<open>A route under the layer: the framework answers and nothing else happens, or the handler answers.\<close>

lemma post_route_typed:
  assumes "req_path r \<in> set post_paths" "\<And>q. refuses plain_error (handler q)"
    and "Option.bind (cors_layer N (cors_allowed_origins cfg)) (\<lambda>l. layer_answer N l r) = None"
    and "\<And>j. read j = None \<Longrightarrow> req_path r = ''/auth'' \<and> read_auth_request j = None \<or> req_path r = ''/join'' \<and> read_join_request j = None
      \<or> req_path r \<in> {''/create'', ''/logout'', ''/session/renew''} \<and> read_session_request j = None"
    and "\<And>q x. req_method r = POST \<Longrightarrow> fst (handler q w) = Inr x \<Longrightarrow> answer_typed N cfg r (fst (f x)) (snd (f x)) \<and> (\<forall>t. snd (f x) \<noteq> FrameworkAnswer t)"
  defines "run \<equiv> post_route N read f handler r w"
  shows "answer_typed N cfg r (fst (fst run)) (snd (fst run)) \<and> ((\<exists>t. snd (fst run) = FrameworkAnswer t) \<longrightarrow> snd run = w)"
proof (cases "req_method r = POST")
  case True
  show ?thesis
  proof (cases "json_payload N read r")
    case (Inl a)
    then have "framework_answers N cfg r a" using True assms(1,3,4)
      by (auto simp: json_payload_def framework_answers_def split: sum.splits option.splits)
    then show ?thesis using True Inl by (cases a) (simp add: run_def post_route_def prog_simps framework_def answer_typed_def)
  next
    case (Inr q)
    show ?thesis
    proof (cases "fst (handler q w)")
      case (Inl err)
      with assms(2) [of q] have "plain_error err" by (simp add: refuses_def)
      from error_typed [OF this refl refl] True Inr Inl assms(1) show ?thesis
        by (simp add: run_def post_route_def answered_def prog_simps answer_error_def answer_typed_def into_response_def)
    next
      case (Inr x)
      with True \<open>json_payload N read r = Inr q\<close> assms(5) [OF True Inr] show ?thesis
        by (simp add: run_def post_route_def answered_def prog_simps)
    qed
  qed
next
  case False
  then have "framework_answers N cfg r (other_method N r)" using assms(1,3) by (simp add: framework_answers_def)
  then show ?thesis using False
    by (cases "other_method N r") (simp add: run_def post_route_def prog_simps framework_def answer_typed_def)
qed

lemma app_typed:
  assumes "run = connector_app N E cfg r w"
  shows "answer_typed N cfg r (fst (fst run)) (snd (fst run)) \<and> ((\<exists>t. snd (fst run) = FrameworkAnswer t) \<longrightarrow> snd run = w)"
proof (cases "Option.bind (cors_layer N (cors_allowed_origins cfg)) (\<lambda>l. layer_answer N l r)")
  case (Some a)
  then show ?thesis
    by (cases a) (simp add: assms connector_app_def layered_def prog_simps framework_def answer_typed_def framework_answers_def)
next
  case None
  then have app: "run = connector_routes N E cfg r w" by (simp add: assms connector_app_def layered_def)
  note typed = post_route_typed [OF _ _ None]
  consider "req_path r = ''/auth''" | "req_path r = ''/create''" | "req_path r = ''/join''" | "req_path r = ''/logout''"
    | "req_path r = ''/session/renew''" | "req_path r = ''/health''" | "req_path r \<notin> set post_paths" "req_path r \<noteq> ''/health''"
    by (auto simp: post_paths_def)
  then show ?thesis
  proof cases
    case 1
    then have "run = post_route N read_auth_request (\<lambda>a. (200, AuthAnswer a)) (auth E cfg) r w" by (simp add: app connector_routes_def)
    then show ?thesis
      by (simp only:) (rule typed, use 1 handlers_plain in \<open>simp_all add: post_paths_def answer_typed_def\<close>)
  next
    case 2
    then have "run = post_route N read_session_request (\<lambda>a. (200, ReadyAnswer a)) (create E cfg) r w" by (simp add: app connector_routes_def)
    then show ?thesis
      by (simp only:) (rule typed, use 2 handlers_plain in \<open>simp_all add: post_paths_def answer_typed_def\<close>)
  next
    case 3
    then have "run = post_route N read_join_request (\<lambda>a. (200, ReadyAnswer a)) (\<lambda>(session, room). join E cfg session room) r w"
      by (simp add: app connector_routes_def)
    then show ?thesis
      by (simp only:) (rule typed, use 3 handlers_plain in \<open>auto simp: post_paths_def answer_typed_def\<close>)
  next
    case 4
    then have "run = post_route N read_session_request (\<lambda>st. (st, EmptyAnswer)) (logout E) r w" by (simp add: app connector_routes_def)
    then show ?thesis
      by (simp only:) (rule typed, use 4 handlers_plain in \<open>auto simp: post_paths_def answer_typed_def dest: no_content\<close>)
  next
    case 5
    then have "run = post_route N read_session_request (\<lambda>st. (st, EmptyAnswer)) (session_renew E cfg) r w" by (simp add: app connector_routes_def)
    then show ?thesis
      by (simp only:) (rule typed, use 5 handlers_plain in \<open>auto simp: post_paths_def answer_typed_def dest: no_content\<close>)
  next
    case 6
    then show ?thesis using None
      by (cases "other_method N r") (simp add: app connector_routes_def prog_simps conn_health_def answer_typed_def framework_def
          framework_answers_def post_paths_def)
  next
    case 7
    then have "run = (framework (no_route N r), w)" by (simp add: app connector_routes_def post_paths_def prog_simps)
    then show ?thesis using None 7
      by (cases "no_route N r") (simp add: answer_typed_def framework_def framework_answers_def)
  qed
qed

section \<open>Properties\<close>

text \<open>
  C17. The answers of the connector are typed: whatever request arrives, whatever Redis does and whatever the framework makes of requests,
  the status, the path, the method and the kind of the body belong together. A handler answers only a POST on its own path (GET for
  the health check): with its own body and status 200, with 204 and no body, or with an error body whose
  status is the one of its code and whose text is not empty. Otherwise the framework answered: the CORS layer, for an unknown path or
  another method, or with the rejection of a body that it could not read or that is not of the type of the handler's payload; then none of the
  handlers behind the POST routes ran, and the world is as before.
\<close>

theorem connector_answers_typed:
  "case connector_app N E cfg r w of ((st, ans), w') \<Rightarrow>
     answer_typed N cfg r st ans \<and> (case ans of FrameworkAnswer _ \<Rightarrow> w' = w | _ \<Rightarrow> True)"
proof -
  obtain st ans w' where run: "connector_app N E cfg r w = ((st, ans), w')" by (metis prod.collapse)
  with app_typed [OF refl, where N = N and E = E and cfg = cfg and r = r and w = w] show ?thesis by (simp split: conn_answer.split)
qed

end
