(* ===== verification/Client_Sdp_Lines.thy ===== *)
theory Client_Sdp_Lines
  imports Client_Sdp
begin

text \<open>
  The rewritten offer against its line-by-line specification: one pass over the lines that remembers the kind
  of the current media section. The lemmas take the text apart into lines, and the lines into sections.
\<close>

section \<open>Specification\<close>

text \<open>The mid of the section a media line opens, and the number of video sections then seen.\<close>

definition section_mid :: "string \<Rightarrow> nat \<Rightarrow> string option \<times> nat" where
  "section_mid line v =
     (if starts_with ''m=audio'' line then (Some ''audio_main'', v)
      else if starts_with ''m=video'' line then (Some (if v = 0 then ''video_camera'' else ''video_screen''), Suc v)
      else (None, v))"

fun retag :: "string option \<Rightarrow> nat \<Rightarrow> string list \<Rightarrow> string list" where
  "retag cur v [] = []"
| "retag cur v (l # ls) =
     (if starts_with ''m='' l
      then l # retag (fst (section_mid l v)) (snd (section_mid l v)) ls
      else (case cur of None \<Rightarrow> l | Some mid \<Rightarrow> rewrite_mid_line mid l) # retag cur v ls)"

fun new_mids :: "string option \<Rightarrow> nat \<Rightarrow> string list \<Rightarrow> string list" where
  "new_mids cur v [] = []"
| "new_mids cur v (l # ls) =
     (if starts_with ''m='' l
      then new_mids (fst (section_mid l v)) (snd (section_mid l v)) ls
      else (case cur of None \<Rightarrow> [] | Some mid \<Rightarrow> if starts_with ''a=mid:'' l then [mid] else []) @ new_mids cur v ls)"

definition bundle_line :: "string list \<Rightarrow> string \<Rightarrow> string" where
  "bundle_line mids l = (if starts_with ''a=group:BUNDLE'' l \<and> mids \<noteq> [] then ''a=group:BUNDLE '' @ join_with '' '' mids else l)"

definition media_line :: "string \<Rightarrow> bool" where
  "media_line l \<longleftrightarrow> starts_with ''m='' l"

definition retagged_offer :: "string list \<Rightarrow> string list" where
  "retagged_offer ls =
     map (bundle_line (new_mids None 0 ls)) (takeWhile (\<lambda>l. \<not> media_line l) ls)
       @ retag None 0 (dropWhile (\<lambda>l. \<not> media_line l) ls)"

text \<open>Whether the text ends in a section that is copied as it is.\<close>

definition ends_plain :: "string list \<Rightarrow> bool" where
  "ends_plain ls \<longleftrightarrow> filter media_line ls \<noteq> [] \<and> fst (section_mid (last (filter media_line ls)) 0) = None"

section \<open>Lines\<close>

definition plain_line :: "string \<Rightarrow> bool" where
  "plain_line l \<longleftrightarrow> l \<noteq> [] \<and> NL \<notin> set l \<and> CR \<notin> set l"

definition ended :: "string \<Rightarrow> string list \<Rightarrow> string" where
  "ended d ls = concat (map (\<lambda>l. l @ d) ls)"

lemma starts_with_iff: "starts_with p s \<longleftrightarrow> (\<exists>r. s = p @ r)"
  by (auto simp: starts_with_def strip_prefix_iff)

lemma join_Cons: "join_with d (x # xs) = (if xs = [] then x else x @ d @ join_with d xs)"
  by (cases xs) auto

lemma ended_join: "ls \<noteq> [] \<Longrightarrow> ended d ls = join_with d ls @ d"
  by (induction ls) (auto simp: ended_def join_Cons)

lemma join_append: "xs \<noteq> [] \<Longrightarrow> ys \<noteq> [] \<Longrightarrow> join_with d (xs @ ys) = join_with d xs @ d @ join_with d ys"
  by (induction xs) (auto simp: join_Cons)

lemma crlf_to_lf_line: "CR \<notin> set l \<Longrightarrow> crlf_to_lf (l @ CR # NL # s) = l @ NL # crlf_to_lf s"
proof (induction l)
  case (Cons c l)
  then show ?case by (cases l) auto
qed simp

lemma crlf_to_lf_ended: "\<forall>l\<in>set ls. plain_line l \<Longrightarrow> crlf_to_lf (ended [CR, NL] ls) = ended [NL] ls"
  by (induction ls) (simp_all add: ended_def crlf_to_lf_line plain_line_def)

lemma lf_to_crlf_line: "NL \<notin> set l \<Longrightarrow> lf_to_crlf l = l"
  by (induction l) (auto simp: lf_to_crlf_def)

lemma lf_to_crlf_append: "lf_to_crlf (a @ b) = lf_to_crlf a @ lf_to_crlf b"
  by (simp add: lf_to_crlf_def)

lemma lf_to_crlf_join: "\<forall>l\<in>set ls. NL \<notin> set l \<Longrightarrow> lf_to_crlf (join_with [NL] ls) = join_with [CR, NL] ls"
proof (induction ls)
  case (Cons l ls)
  have [simp]: "lf_to_crlf (NL # s) = CR # NL # lf_to_crlf s" for s
    by (simp add: lf_to_crlf_def)
  from Cons show ?case by (auto simp: join_Cons lf_to_crlf_append lf_to_crlf_line)
qed (simp add: lf_to_crlf_def)

lemma split_on_join:
  "\<lbrakk> ls \<noteq> []; \<forall>l\<in>set ls. NL \<notin> set l \<rbrakk> \<Longrightarrow> split_on NL (join_with [NL] ls) = ls"
  by (induction ls) (auto simp: join_Cons split_on_append split_on_single)

lemma split_on_ended:
  "\<forall>l\<in>set ls. NL \<notin> set l \<Longrightarrow> split_on NL (ended [NL] ls) = ls @ [[]]"
  by (induction ls) (simp_all add: ended_def split_on_append)

lemma strip_cr_plain: "CR \<notin> set l \<Longrightarrow> strip_cr l = l"
  by (cases l rule: rev_cases) (auto simp: strip_cr_def)

lemma str_lines_join:
  assumes "ls \<noteq> []" "\<forall>l\<in>set ls. plain_line l"
  shows "str_lines (join_with [NL] ls) = ls" "str_lines (join_with [NL] ls @ [NL]) = ls"
proof -
  have b: "map strip_cr (butlast ls) = butlast ls"
    using assms by (intro map_idI) (auto simp: plain_line_def strip_cr_plain dest: in_set_butlastD)
  have a: "map strip_cr ls = ls"
    using assms by (intro map_idI) (auto simp: plain_line_def strip_cr_plain)
  have nl: "\<forall>l\<in>set ls. NL \<notin> set l" using assms by (simp add: plain_line_def)
  have "last ls \<noteq> []" using assms by (auto simp: plain_line_def)
  then show "str_lines (join_with [NL] ls) = ls"
    using assms(1) b by (simp add: str_lines_def split_on_join [OF assms(1) nl])
  show "str_lines (join_with [NL] ls @ [NL]) = ls"
    using a by (simp add: str_lines_def ended_join [OF assms(1), symmetric] split_on_ended [OF nl])
qed

section \<open>Sections\<close>

text \<open>The lines of a text, split before each media line.\<close>

fun groups :: "string list \<Rightarrow> string list list" where
  "groups [] = []"
| "groups [l] = [[l]]"
| "groups (l # l' # ls) =
     (if media_line l' then [l] # groups (l' # ls)
      else (case groups (l' # ls) of [] \<Rightarrow> [[l]] | g # gs \<Rightarrow> (l # g) # gs))"

definition text_of :: "string list list \<Rightarrow> string list" where
  "text_of gs = (if gs = [] then [] else map (join_with [NL]) (butlast gs) @ [join_with [NL] (last gs) @ [NL]])"

lemma groups_first: "\<exists>g gs. groups (l # ls) = (l # g) # gs"
proof (induction ls arbitrary: l)
  case (Cons l' ls)
  obtain g gs where "groups (l' # ls) = (l' # g) # gs" using Cons.IH by blast
  then show ?case by simp
qed simp

lemma groups_nonempty [simp]: "groups (l # ls) \<noteq> []"
  using groups_first [of l ls] by auto

lemma groups_concat: "concat (groups ls) = ls"
  by (induction ls rule: groups.induct) (auto split: list.splits)

lemma groups_shape: "groups ls = g # gs \<Longrightarrow> g \<noteq> [] \<and> (\<forall>l\<in>set (tl g). \<not> media_line l)
    \<and> (\<forall>h\<in>set gs. h \<noteq> [] \<and> media_line (hd h) \<and> (\<forall>l\<in>set (tl h). \<not> media_line l))"
proof (induction ls arbitrary: g gs rule: groups.induct)
  case (3 l l' ls)
  obtain h hs where h: "groups (l' # ls) = (l' # h) # hs" using groups_first by blast
  show ?case
  proof (cases "media_line l'")
    case True
    then have "g = [l]" "gs = (l' # h) # hs" using 3(3) h by simp_all
    then show ?thesis using 3(1) [OF True h] True by simp
  next
    case False
    then show ?thesis using 3(2) [OF False h] 3(3) h by auto
  qed
qed auto

lemma split_str_nonempty [simp]: "split_str p s \<noteq> []"
  by (cases s) (auto simp: push_char_def split: option.splits list.splits)

lemma split_str_line:
  "NL \<notin> set l \<Longrightarrow> split_str (NL # p) (l @ s) = (case split_str (NL # p) s of w # ws \<Rightarrow> (l @ w) # ws | [] \<Rightarrow> [l])"
proof (induction l)
  case Nil
  show ?case using split_str_nonempty [of "NL # p" s] by (auto split: list.splits simp del: split_str_nonempty)
next
  case (Cons c l)
  then show ?case by (auto simp: push_char_def split: list.splits)
qed

lemma text_of_simps:
  "text_of [[l]] = [l @ [NL]]"
  "gs \<noteq> [] \<Longrightarrow> text_of ([l] # gs) = l # text_of gs"
  "g \<noteq> [] \<Longrightarrow> text_of ((l # g) # gs) = (l @ NL # hd (text_of (g # gs))) # tl (text_of (g # gs))"
  by (auto simp: text_of_def join_Cons)

lemma text_of_nonempty [simp]: "text_of gs = [] \<longleftrightarrow> gs = []"
  by (simp add: text_of_def)

lemma not_media_text: "\<not> media_line l \<Longrightarrow> l \<noteq> [] \<Longrightarrow> strip_prefix ''m='' (l @ NL # s) = None"
proof (cases l)
  case (Cons c k)
  assume "\<not> media_line l"
  then show ?thesis using Cons by (cases k) (auto simp: media_line_def starts_with_def)
qed simp

lemma split_groups:
  assumes "ls \<noteq> []" "\<forall>l\<in>set ls. plain_line l"
  shows "split_str (NL # ''m='') (ended [NL] ls) = hd (text_of (groups ls)) # map (drop 2) (tl (text_of (groups ls)))"
  using assms
proof (induction ls rule: groups.induct)
  case (2 l)
  then show ?case by (simp add: ended_def plain_line_def split_str_line text_of_simps push_char_def)
next
  case (3 l l' ls)
  let ?S = "split_str (NL # ''m='')"
  let ?T = "text_of (groups (l' # ls))"
  have l: "NL \<notin> set l" and l': "NL \<notin> set l'" "l' \<noteq> []" using 3(4) by (simp_all add: plain_line_def)
  have T: "ended [NL] (l # l' # ls) = l @ NL # ended [NL] (l' # ls)" by (simp add: ended_def)
  have ne: "groups (l' # ls) \<noteq> []" by (rule groups_nonempty)
  show ?case
  proof (cases "media_line l'")
    case True
    then obtain r where r: "l' = ''m='' @ r" by (auto simp: media_line_def starts_with_iff)
    have e: "ended [NL] (l' # ls) = ''m='' @ r @ NL # ended [NL] ls" by (simp add: ended_def r)
    have x: "?S (ended [NL] (l' # ls)) =
        (case ?S (r @ NL # ended [NL] ls) of w # ws \<Rightarrow> (''m='' @ w) # ws | [] \<Rightarrow> [''m=''])"
      unfolding e by (rule split_str_line) simp
    have ih: "?S (ended [NL] (l' # ls)) = hd ?T # map (drop 2) (tl ?T)"
      using 3(1) True 3(4) by simp
    have "?S (r @ NL # ended [NL] ls) = map (drop 2) ?T"
      using x ih ne split_str_nonempty [of "NL # ''m=''" "r @ NL # ended [NL] ls"]
      by (cases ?T) (auto split: list.splits simp del: split_str_nonempty)
    moreover have "?S (NL # ended [NL] (l' # ls)) = [] # ?S (r @ NL # ended [NL] ls)"
      unfolding e by simp
    ultimately show ?thesis
      unfolding T using True ne by (simp add: split_str_line [OF l] text_of_simps del: split_str.simps)
  next
    case False
    obtain h hs where h: "groups (l' # ls) = (l' # h) # hs" using groups_first by blast
    have ih: "?S (ended [NL] (l' # ls)) = hd ?T # map (drop 2) (tl ?T)"
      using 3(2) False 3(4) by simp
    have "strip_prefix ''m='' (ended [NL] (l' # ls)) = None"
      using not_media_text [OF False l'(2)] by (simp add: ended_def)
    then have "?S (NL # ended [NL] (l' # ls)) = push_char NL (?S (ended [NL] (l' # ls)))" by simp
    then show ?thesis
      unfolding T using False h ih by (simp add: split_str_line [OF l] text_of_simps push_char_def del: split_str.simps)
  qed
qed simp

text \<open>What the closure does to each section, on its lines.\<close>

fun section_lines :: "nat \<Rightarrow> string list list \<Rightarrow> string list list" where
  "section_lines v [] = []"
| "section_lines v (g # gs) =
     retag None v g # section_lines (snd (section_mid (hd g) v)) gs"

fun section_mids :: "nat \<Rightarrow> string list list \<Rightarrow> string list" where
  "section_mids v [] = []"
| "section_mids v (g # gs) = new_mids None v g @ section_mids (snd (section_mid (hd g) v)) gs"

lemma retag_plain: "\<forall>l\<in>set ls. \<not> media_line l \<Longrightarrow>
    retag cur v (ls @ rest) = (case cur of None \<Rightarrow> ls | Some mid \<Rightarrow> map (rewrite_mid_line mid) ls) @ retag cur v rest"
  by (induction ls) (auto simp: media_line_def split: option.splits)

lemma new_mids_plain: "\<forall>l\<in>set ls. \<not> media_line l \<Longrightarrow>
    new_mids cur v (ls @ rest) =
      (case cur of None \<Rightarrow> [] | Some mid \<Rightarrow> map (\<lambda>_. mid) (filter (starts_with ''a=mid:'') ls)) @ new_mids cur v rest"
  by (induction ls) (auto simp: media_line_def split: option.splits)

definition sectioned :: "string list list \<Rightarrow> bool" where
  "sectioned gs \<longleftrightarrow> (\<forall>g\<in>set gs. g \<noteq> [] \<and> media_line (hd g) \<and> (\<forall>l\<in>set (tl g). \<not> media_line l))"

lemma retag_next: "ls = [] \<or> media_line (hd ls) \<Longrightarrow> retag cur v ls = retag None v ls"
  "ls = [] \<or> media_line (hd ls) \<Longrightarrow> new_mids cur v ls = new_mids None v ls"
  by (cases ls; simp add: media_line_def)+

lemma sectioned_first: "sectioned gs \<Longrightarrow> concat gs = [] \<or> media_line (hd (concat gs))"
  by (cases gs) (auto simp: sectioned_def hd_append)

lemma section_lines_concat:
  "sectioned gs \<Longrightarrow> concat (section_lines v gs) = retag None v (concat gs)
     \<and> section_mids v gs = new_mids None v (concat gs)"
proof (induction gs arbitrary: v)
  case (Cons g gs)
  then obtain m ls where g: "g = m # ls" "media_line m" "\<forall>l\<in>set ls. \<not> media_line l"
    by (cases g) (auto simp: sectioned_def)
  have s: "sectioned gs" using Cons.prems by (simp add: sectioned_def)
  note n = retag_next [OF sectioned_first [OF s]]
  show ?case
    using Cons.IH [OF s] g retag_plain [OF g(3), of _ _ "[]"] new_mids_plain [OF g(3), of _ _ "[]"]
    by (auto simp: media_line_def retag_plain [OF g(3)] new_mids_plain [OF g(3)] n(1) [of "fst (section_mid m v)"] n(2) [of "fst (section_mid m v)"]
        split: option.splits)
qed simp

section \<open>The rewriting, section by section\<close>

fun out_texts :: "nat \<Rightarrow> string list list \<Rightarrow> string list" where
  "out_texts v [] = []"
| "out_texts v (g # gs) =
     (join_with [NL] (retag None v g) @ (if gs = [] \<and> fst (section_mid (hd g) v) = None then [NL] else []))
       # out_texts (snd (section_mid (hd g) v)) gs"

lemma starts_with_ended:
  "NL \<notin> set p \<Longrightarrow> starts_with p (l @ NL # s) \<longleftrightarrow> starts_with p l"
proof
  assume p: "NL \<notin> set p" and "starts_with p (l @ NL # s)"
  then obtain r where "p @ r = l @ NL # s" by (metis starts_with_iff)
  then obtain us where "p @ us = l \<or> (p = l @ us \<and> us @ r = NL # s)" by (auto simp: append_eq_append_conv2)
  with p show "starts_with p l" by (cases us) (auto simp: starts_with_iff)
qed (auto simp: starts_with_iff)

lemma starts_with_text:
  assumes "NL \<notin> set p"
  shows "starts_with p (join_with [NL] (m # ls)) \<longleftrightarrow> starts_with p m"
    "starts_with p (join_with [NL] (m # ls) @ [NL]) \<longleftrightarrow> starts_with p m"
  using starts_with_ended [OF assms] by (auto simp: join_Cons)

lemma rewrite_section_lines:
  assumes "ls \<noteq> []" "\<forall>l\<in>set ls. plain_line l" "t = join_with [NL] ls \<or> t = join_with [NL] ls @ [NL]"
  shows "rewrite_section_mid t mid mids = (join_with [NL] (map (rewrite_mid_line mid) ls), mids @ old_mids mid ls)"
  using str_lines_join [OF assms(1,2)] assms(3) by (auto simp: rewrite_section_mid_def)

lemma old_mids_names: "map snd (old_mids mid ls) = map (\<lambda>_. mid) (filter (starts_with ''a=mid:'') ls)"
  by (simp add: old_mids_def comp_def)

lemma media_not_mid: "media_line m \<Longrightarrow> rewrite_mid_line mid m = m \<and> \<not> starts_with ''a=mid:'' m"
  by (auto simp: media_line_def starts_with_iff rewrite_mid_line_def)

lemma media_drop: "media_line m \<Longrightarrow> ''m='' @ drop 2 (m @ s) = m @ s"
  by (auto simp: media_line_def starts_with_iff)

lemma rewrite_groups:
  assumes "sectioned gs" "\<forall>l\<in>set (concat gs). plain_line l"
  shows "fst (rewrite_sections (map (drop 2) (text_of gs)) v mids) = out_texts v gs
    \<and> map snd (snd (rewrite_sections (map (drop 2) (text_of gs)) v mids)) = map snd mids @ section_mids v gs"
  using assms
proof (induction gs arbitrary: v mids)
  case (Cons g gs)
  then obtain m ls where g: "g = m # ls" "media_line m" "\<forall>l\<in>set ls. \<not> media_line l"
    by (cases g) (auto simp: sectioned_def)
  define t where "t = hd (text_of (g # gs))"
  have tx: "text_of (g # gs) = t # text_of gs" by (cases gs) (simp_all add: text_of_def t_def)
  have t: "t = join_with [NL] (m # ls) @ (if gs = [] then [NL] else [])"
    by (simp add: t_def text_of_def g)
  have full: "''m='' @ drop 2 t = t"
  proof -
    have "\<exists>z. t = m @ z" by (auto simp: t join_Cons)
    then show ?thesis using media_drop [OF g(2)] by blast
  qed
  have p: "g \<noteq> []" "\<forall>l\<in>set g. plain_line l" using Cons.prems g by auto
  have rw: "rewrite_section_mid t mid mids =
      (join_with [NL] (map (rewrite_mid_line mid) g), mids @ old_mids mid g)" for mid mids
    by (rule rewrite_section_lines [OF p]) (simp add: t g)
  have sa: "starts_with ''m=audio'' t = starts_with ''m=audio'' m" "starts_with ''m=video'' t = starts_with ''m=video'' m"
    using starts_with_text [of "''m=audio''" m ls] starts_with_text [of "''m=video''" m ls] by (auto simp: t)
  have rt: "retag None v g = (case fst (section_mid m v) of None \<Rightarrow> g | Some mid \<Rightarrow> map (rewrite_mid_line mid) g)"
    using retag_plain [OF g(3), of _ _ "[]"] g media_not_mid [OF g(2)]
    by (auto simp: media_line_def split: option.splits)
  have nm: "new_mids None v g = (case fst (section_mid m v) of None \<Rightarrow> [] | Some mid \<Rightarrow> map snd (old_mids mid g))"
    using new_mids_plain [OF g(3), of _ _ "[]"] g media_not_mid [OF g(2)]
    by (auto simp: media_line_def old_mids_names split: option.splits)
  have ih: "fst (rewrite_sections (map (drop 2) (text_of gs)) v' mids') = out_texts v' gs"
    "map snd (snd (rewrite_sections (map (drop 2) (text_of gs)) v' mids')) = map snd mids' @ section_mids v' gs"
    for v' mids' using Cons by (auto simp: sectioned_def)
  have h: "hd g = m" and t': "t = join_with [NL] g @ (if gs = [] then [NL] else [])" by (simp_all add: g t)
  note step = tx list.map rewrite_sections.simps full sa rw out_texts.simps section_mids.simps h rt nm
    Let_def case_prod_unfold fst_conv snd_conv ih map_append append_assoc
  show ?case
  proof (cases "fst (section_mid m v)")
    case None
    then have "\<not> starts_with ''m=audio'' m" "\<not> starts_with ''m=video'' m" "snd (section_mid m v) = v"
      by (auto simp: section_mid_def split: if_splits)
    with None show ?thesis unfolding step by (simp add: t' ih)
  next
    case (Some mid)
    then show ?thesis unfolding step by (auto simp: section_mid_def ih split: if_splits)
  qed
qed (simp add: text_of_def)

definition solid :: "string \<Rightarrow> bool" where
  "solid l \<longleftrightarrow> l \<noteq> [] \<and> NL \<notin> set l \<and> CR \<notin> set l"

lemma solid_rewritten: "solid l \<Longrightarrow> NL \<notin> set mid \<and> CR \<notin> set mid \<Longrightarrow> solid (rewrite_mid_line mid l)"
  by (simp add: solid_def rewrite_mid_line_def)

lemma solid_plain: "plain_line l \<Longrightarrow> solid l"
  by (simp add: solid_def plain_line_def)

lemma retag_lines:
  "\<lbrakk> list_all solid ls; case cur of None \<Rightarrow> True | Some mid \<Rightarrow> NL \<notin> set mid \<and> CR \<notin> set mid \<rbrakk> \<Longrightarrow> list_all solid (retag cur v ls)"
proof (induction ls arbitrary: cur v)
  case (Cons l ls)
  have m: "case fst (section_mid l v) of None \<Rightarrow> True | Some mid \<Rightarrow> NL \<notin> set mid \<and> CR \<notin> set mid"
    by (simp add: section_mid_def)
  show ?case
  proof (cases "starts_with ''m='' l")
    case True
    then show ?thesis using Cons.prems(1) Cons.IH [OF _ m] by simp
  next
    case False
    have "list_all solid (retag cur v ls)" using Cons by simp
    then show ?thesis using False Cons.prems solid_rewritten by (cases cur) simp_all
  qed
qed simp

lemma retag_nonempty: "retag cur v ls = [] \<longleftrightarrow> ls = []"
  by (cases ls) auto

lemma ends_with_char: "ends_with [c] s \<longleftrightarrow> s \<noteq> [] \<and> last s = c"
  by (cases s rule: rev_cases) (simp_all add: ends_with_iff)

lemma last_join: "ls \<noteq> [] \<Longrightarrow> list_all solid ls \<Longrightarrow> join_with [NL] ls \<noteq> [] \<and> last (join_with [NL] ls) = last (last ls)"
  by (induction ls) (simp_all add: join_Cons solid_def)

lemma not_ends_nl:
  assumes "ls \<noteq> []" "list_all solid ls"
  shows "\<not> ends_with [NL] (join_with [NL] ls)"
proof -
  have "solid (last ls)" using assms by (simp add: list_all_iff)
  then have "last (last ls) \<noteq> NL" by (cases "last ls" rule: rev_cases) (auto simp: solid_def)
  then show ?thesis using last_join [OF assms] by (simp add: ends_with_char)
qed

lemma append_out_texts:
  assumes "sectioned gs" "\<forall>l\<in>set (concat gs). plain_line l" "sess \<noteq> []" "list_all solid sess"
  shows "append_sections (join_with [NL] sess) (out_texts v gs) =
    join_with [NL] (sess @ concat (section_lines v gs))
      @ (if gs \<noteq> [] \<and> fst (section_mid (hd (last gs)) 0) = None then [NL] else [])"
  using assms
proof (induction gs arbitrary: v sess)
  case (Cons g gs)
  have ne: "\<not> ends_with [NL] (join_with [NL] sess)" by (rule not_ends_nl [OF Cons.prems(3,4)])
  have g: "g \<noteq> []" "retag None v g \<noteq> []" using Cons.prems(1) by (auto simp: sectioned_def retag_nonempty)
  have r: "list_all solid (retag None v g)"
    using Cons.prems(2) solid_plain by (intro retag_lines) (auto simp: list_all_iff)
  have k: "fst (section_mid (hd g) v) = None \<longleftrightarrow> fst (section_mid (hd g) 0) = None"
    by (auto simp: section_mid_def)
  have j: "join_with [NL] sess @ NL # join_with [NL] (retag None v g) = join_with [NL] (sess @ retag None v g)"
    using join_append [OF Cons.prems(3) g(2)] by simp
  show ?case
  proof (cases "gs = []")
    case True
    then show ?thesis using ne j k by simp
  next
    case False
    have s: "sectioned gs" "\<forall>l\<in>set (concat gs). plain_line l"
      using Cons.prems(1,2) by (auto simp: sectioned_def)
    have "append_sections (join_with [NL] sess) (out_texts v (g # gs)) =
        append_sections (join_with [NL] (sess @ retag None v g)) (out_texts (snd (section_mid (hd g) v)) gs)"
      using False ne j by simp
    also have "\<dots> = join_with [NL] ((sess @ retag None v g) @ concat (section_lines (snd (section_mid (hd g) v)) gs))
        @ (if gs \<noteq> [] \<and> fst (section_mid (hd (last gs)) 0) = None then [NL] else [])"
      by (rule Cons.IH [OF s]) (use Cons.prems g r in auto)
    finally show ?thesis using False by simp
  qed
qed simp

lemma media_first: "zs = [] \<or> media_line (hd zs) \<Longrightarrow>
    takeWhile (\<lambda>l. \<not> media_line l) zs = [] \<and> dropWhile (\<lambda>l. \<not> media_line l) zs = zs"
  by (cases zs) auto

lemma groups_take:
  assumes "ls \<noteq> []" "\<not> media_line (hd ls)" "groups ls = g # gs"
  shows "takeWhile (\<lambda>l. \<not> media_line l) ls = g" "dropWhile (\<lambda>l. \<not> media_line l) ls = concat gs"
    "sectioned gs" "g \<noteq> []"
proof -
  have sh: "g \<noteq> []" "\<forall>l\<in>set (tl g). \<not> media_line l" and sg: "sectioned gs"
    using groups_shape [OF assms(3)] by (simp_all add: sectioned_def)
  have c: "ls = g @ concat gs" using groups_concat [of ls] assms(3) by simp
  have n: "\<forall>l\<in>set g. \<not> media_line l" using sh assms(2) c by (cases g) auto
  have "takeWhile (\<lambda>l. \<not> media_line l) (concat gs) = []" "dropWhile (\<lambda>l. \<not> media_line l) (concat gs) = concat gs"
    using media_first [OF sectioned_first [OF sg]] by blast+
  with n show "takeWhile (\<lambda>l. \<not> media_line l) ls = g" "dropWhile (\<lambda>l. \<not> media_line l) ls = concat gs"
    unfolding c by (simp_all add: takeWhile_append2 dropWhile_append2)
  show "sectioned gs" "g \<noteq> []" by (fact sg, fact sh(1))
qed

lemma filter_media: "sectioned gs \<Longrightarrow> filter media_line (concat gs) = map hd gs"
proof (induction gs)
  case (Cons g gs)
  then obtain m ls where "g = m # ls" "media_line m" "\<forall>l\<in>set ls. \<not> media_line l" "sectioned gs"
    by (cases g) (auto simp: sectioned_def)
  moreover from this(3) have "filter media_line ls = []" by (simp add: filter_empty_conv)
  ultimately show ?case using Cons.IH by simp
qed simp

section \<open>The offer handed to the SFU\<close>

lemma plain_bundle: "solid l \<Longrightarrow> \<forall>mid\<in>set mids. NL \<notin> set mid \<and> CR \<notin> set mid \<Longrightarrow> solid (bundle_line mids l)"
proof -
  have "\<forall>mid\<in>set mids. NL \<notin> set mid \<and> CR \<notin> set mid \<Longrightarrow> NL \<notin> set (join_with '' '' mids) \<and> CR \<notin> set (join_with '' '' mids)"
    by (induction mids) (auto simp: join_Cons)
  then show "solid l \<Longrightarrow> \<forall>mid\<in>set mids. NL \<notin> set mid \<and> CR \<notin> set mid \<Longrightarrow> solid (bundle_line mids l)"
    by (simp add: solid_def bundle_line_def)
qed

lemma new_mids_known: "(case cur of None \<Rightarrow> True | Some mid \<Rightarrow> mid \<in> {''audio_main'', ''video_camera'', ''video_screen''}) \<Longrightarrow>
    set (new_mids cur v ls) \<subseteq> {''audio_main'', ''video_camera'', ''video_screen''}"
proof (induction ls arbitrary: cur v)
  case (Cons l ls)
  have "case fst (section_mid l v) of None \<Rightarrow> True | Some mid \<Rightarrow> mid \<in> {''audio_main'', ''video_camera'', ''video_screen''}"
    by (simp add: section_mid_def)
  from Cons.IH [OF this] Cons.IH [OF Cons.prems] Cons.prems show ?case
    by (cases cur) (auto split: if_splits)
qed simp

text \<open>The lines of the rewritten offer are lines, and its session part is written line by line.\<close>

lemma retagged_solid:
  assumes "\<forall>l\<in>set ls. plain_line l"
  shows "list_all solid (retagged_offer ls)"
proof -
  have sub: "set (takeWhile (\<lambda>l. \<not> media_line l) ls) \<subseteq> set ls" "set (dropWhile (\<lambda>l. \<not> media_line l) ls) \<subseteq> set ls"
    by (auto dest: set_takeWhileD set_dropWhileD)
  have "\<forall>mid\<in>set (new_mids None 0 ls). NL \<notin> set mid \<and> CR \<notin> set mid"
    using new_mids_known [of None 0 ls] by auto
  then have "list_all solid (map (bundle_line (new_mids None 0 ls)) (takeWhile (\<lambda>l. \<not> media_line l) ls))"
    using assms sub(1) solid_plain plain_bundle by (auto simp: list_all_iff)
  moreover have "list_all solid (retag None 0 (dropWhile (\<lambda>l. \<not> media_line l) ls))"
    using assms sub(2) solid_plain by (intro retag_lines) (auto simp: list_all_iff)
  ultimately show ?thesis by (simp add: retagged_offer_def)
qed

lemma bundle_text:
  assumes "g \<noteq> []" "\<forall>l\<in>set g. plain_line l" "map snd m = mids"
  shows "rewrite_bundle_group (join_with [NL] g @ (if ending then [NL] else [])) m = join_with [NL] (map (bundle_line mids) g)"
proof -
  have "rewrite_bundle_line m = bundle_line mids"
    by (auto simp: rewrite_bundle_line_def bundle_line_def assms(3) [symmetric])
  then show ?thesis using str_lines_join [OF assms(1,2)] by (simp add: rewrite_bundle_group_def)
qed

lemma ends_plain_groups:
  assumes "sectioned gs" "ls = g @ concat gs" "\<forall>l\<in>set g. \<not> media_line l"
  shows "ends_plain ls \<longleftrightarrow> gs \<noteq> [] \<and> fst (section_mid (hd (last gs)) 0) = None"
proof -
  have "filter media_line ls = map hd gs" using filter_media [OF assms(1)] assms(3) by (simp add: assms(2) filter_empty_conv)
  then show ?thesis by (cases "gs = []") (simp_all add: ends_plain_def last_map)
qed

lemma rewritten_offer:
  assumes "ls \<noteq> []" "\<forall>l\<in>set ls. plain_line l" "\<not> media_line (hd ls)"
  shows "rewrite_offer_mids_for_sfu (ended [CR, NL] ls) =
    join_with [CR, NL] (retagged_offer ls) @ (if ends_plain ls then [CR, NL] else [])"
proof -
  obtain g gs where gs: "groups ls = g # gs" using groups_first assms(1) by (cases ls) blast+
  note tk = groups_take [OF assms(1,3) gs]
  have c: "ls = g @ concat gs" using groups_concat [of ls] gs by simp
  have pg: "\<forall>l\<in>set g. plain_line l" "\<forall>l\<in>set (concat gs). plain_line l" using assms(2) c by auto
  define mids where "mids = new_mids None 0 ls"
  have gm: "\<forall>l\<in>set g. \<not> media_line l" using tk(1) by (metis set_takeWhileD)
  have mids: "section_mids 0 gs = mids"
    using section_lines_concat [OF tk(3), of 0] new_mids_plain [OF gm, of None 0 "concat gs"] by (simp add: mids_def c)
  define sess where "sess = map (bundle_line mids) g"
  have out: "sess @ concat (section_lines 0 gs) = retagged_offer ls"
    using section_lines_concat [OF tk(3), of 0] tk(1,2) by (simp add: retagged_offer_def sess_def mids_def)
  have solid: "list_all solid (retagged_offer ls)" by (rule retagged_solid [OF assms(2)])
  have sess: "sess \<noteq> []" "list_all solid sess" using tk(4) solid by (simp_all add: sess_def flip: out)
  have hd: "hd (text_of (groups ls)) = join_with [NL] g @ (if gs = [] then [NL] else [])" "tl (text_of (groups ls)) = text_of gs"
    by (auto simp: gs text_of_def)
  have "rewrite_offer_mids_for_sfu (ended [CR, NL] ls) = lf_to_crlf (append_sections (join_with [NL] sess) (out_texts 0 gs))"
    using rewrite_groups [OF tk(3) pg(2), of 0 "[]"] mids bundle_text [OF tk(4) pg(1)]
    by (simp add: rewrite_offer_mids_for_sfu_def crlf_to_lf_ended [OF assms(2)] split_groups [OF assms(1,2)] hd sess_def
        case_prod_unfold Let_def)
  also have "\<dots> = lf_to_crlf (join_with [NL] (retagged_offer ls)) @ (if ends_plain ls then [CR, NL] else [])"
    by (simp add: append_out_texts [OF tk(3) pg(2) sess] ends_plain_groups [OF tk(3) c gm] lf_to_crlf_append out)
      (simp add: lf_to_crlf_def)
  also have "lf_to_crlf (join_with [NL] (retagged_offer ls)) = join_with [CR, NL] (retagged_offer ls)"
    using solid by (intro lf_to_crlf_join) (simp add: list_all_iff solid_def)
  finally show ?thesis .
qed

text \<open>
  C13. The offer sent to the SFU is the browser's offer with its mids renamed: for a text of nonempty lines,
  each ended by CRLF, whose first line opens no media section, \<open>rewrite_offer_mids_for_sfu\<close> returns exactly the
  lines of \<open>retagged_offer\<close> (every \<open>a=mid:\<close> line of an audio section says \<open>audio_main\<close>, of the first video section
  \<open>video_camera\<close>, of a later one \<open>video_screen\<close>, the BUNDLE line of the session part lists these mids in order,
  every other line is untouched), separated by CRLF; the last line keeps its terminator only where the text ends
  in a section of another kind.
\<close>
theorem offer_rewrite_by_line:
  assumes "ls \<noteq> []" "\<forall>l\<in>set ls. plain_line l" "\<not> media_line (hd ls)"
  shows "rewrite_offer_mids_for_sfu (ended [CR, NL] ls) =
    join_with [CR, NL] (retagged_offer ls) @ (if ends_plain ls then [CR, NL] else [])"
  by (rule rewritten_offer [OF assms])

definition demo_offer :: "string list" where
  "demo_offer = [''v=0'', ''a=group:BUNDLE 0 1 2'', ''m=audio 9'', ''a=mid:0'', ''m=video 9'', ''a=mid:1'', ''a=sendrecv'',
     ''m=video 9'', ''a=mid:2'']"

theorem offer_rewrite_by_line_witness:
  "rewrite_offer_mids_for_sfu (ended [CR, NL] demo_offer) =
    join_with [CR, NL] [''v=0'', ''a=group:BUNDLE audio_main video_camera video_screen'', ''m=audio 9'', ''a=mid:audio_main'',
      ''m=video 9'', ''a=mid:video_camera'', ''a=sendrecv'', ''m=video 9'', ''a=mid:video_screen'']"
proof -
  have w: "demo_offer \<noteq> []" "\<forall>l\<in>set demo_offer. plain_line l" "\<not> media_line (hd demo_offer)" by code_simp+
  have r: "retagged_offer demo_offer = [''v=0'', ''a=group:BUNDLE audio_main video_camera video_screen'', ''m=audio 9'',
      ''a=mid:audio_main'', ''m=video 9'', ''a=mid:video_camera'', ''a=sendrecv'', ''m=video 9'', ''a=mid:video_screen'']"
    by code_simp
  have e: "\<not> ends_plain demo_offer" by code_simp
  show ?thesis using offer_rewrite_by_line [OF w] by (simp only: r e if_False append_Nil2)
qed

section \<open>Relayed tracks\<close>

lemma split_once_parts: "split_once d s = Some (a, b) \<Longrightarrow> s = a @ d # b \<and> d \<notin> set a"
  by (induction d s arbitrary: a rule: split_once.induct) (auto split: if_splits option.splits prod.splits)

lemma split_once_iff: "split_once d s = Some (a, b) \<longleftrightarrow> s = a @ d # b \<and> d \<notin> set a"
  using split_once_parts split_once_append by blast

text \<open>
  A relayed track finds its publisher: \<open>remote_source_from_relay_track_id\<close> names a publisher and a slot
  exactly for the ids \<open>publisher|source:mid\<close> in which the publisher is nonempty and has no bar and the source is nonempty
  and has no colon, and the slot is the screen exactly when the source is \<open>screen\<close>; every other id is refused.
\<close>
theorem relay_track_routes:
  "remote_source_from_relay_track_id s = Some (p, slot) \<longleftrightarrow>
     (\<exists>t m. s = p @ ''|'' @ t @ '':'' @ m \<and> p \<noteq> [] \<and> t \<noteq> [] \<and> CHR ''|'' \<notin> set p \<and> CHR '':'' \<notin> set t
        \<and> slot = (if t = ''screen'' then SourceScreen else SourceCamera))"
proof -
  have "remote_source_from_relay_track_id s = Some (p, slot) \<longleftrightarrow>
      (\<exists>r t m. split_once (CHR ''|'') s = Some (p, r) \<and> split_once (CHR '':'') r = Some (t, m) \<and> p \<noteq> [] \<and> t \<noteq> []
        \<and> slot = (if t = ''screen'' then SourceScreen else SourceCamera))"
    unfolding remote_source_from_relay_track_id_def by (auto split: option.splits prod.splits if_split_asm)
  also have "\<dots> \<longleftrightarrow> (\<exists>t m. s = p @ ''|'' @ t @ '':'' @ m \<and> p \<noteq> [] \<and> t \<noteq> [] \<and> CHR ''|'' \<notin> set p \<and> CHR '':'' \<notin> set t
        \<and> slot = (if t = ''screen'' then SourceScreen else SourceCamera))"
    unfolding split_once_iff append_Cons append_Nil by blast
  finally show ?thesis .
qed

end
