(* ===== verification/Client_Media_Operations.thy ===== *)
theory Client_Media_Operations
  imports Client_Media Client_Sdp_Lines
begin

text \<open>
  The life of a media session, as a rely and guarantee argument: \<open>onward\<close> is what other tasks may do to a session
  while a promise is awaited (a closed session stays closed, its generation does not go back), and every operation of
  the session does no more than that. So a session that was closed stays closed, and every task of it that begins afterwards
  finds it closed. A task suspended at an await when the session was closed is not undone by that: what it may still do is shown
  at the end.
\<close>

section \<open>Rely and guarantee\<close>

definition cells_onward :: "'v session_cells \<Rightarrow> 'v session_cells \<Rightarrow> bool" where
  "cells_onward c d \<longleftrightarrow> (closed c \<longrightarrow> closed d) \<and> media_generation c \<le> media_generation d"

definition onward :: "('v, 'x) page_scheme \<Rightarrow> ('v, 'x) page_scheme \<Rightarrow> bool" where
  "onward s t \<longleftrightarrow> next_sid s \<le> next_sid t \<and> (\<forall>i < next_sid s. cells_onward (cells s i) (cells t i))"

definition same_cells :: "('v, 'x) page_scheme \<Rightarrow> ('v, 'x) page_scheme \<Rightarrow> bool" where
  "same_cells s t \<longleftrightarrow> cells t = cells s \<and> next_sid t = next_sid s"

lemma cells_onward_refl [simp]: "cells_onward c c"
  by (simp add: cells_onward_def)

lemma onward_refl [simp]: "onward s s"
  by (simp add: onward_def)

lemma onward_trans: "onward s t \<Longrightarrow> onward t u \<Longrightarrow> onward s u"
  unfolding onward_def cells_onward_def by (meson less_le_trans order_trans)

lemma onward_same: "onward s t \<Longrightarrow> same_cells t u \<Longrightarrow> onward s u"
  by (simp add: onward_def same_cells_def)

lemma keeps_onwardI: "(\<And>s. onward s (snd (m s))) \<Longrightarrow> keeps (onward s0) m"
  using onward_trans by (blast intro: keepsI)

lemma keeps_sameI: "(\<And>s. same_cells s (snd (m s))) \<Longrightarrow> keeps (onward s0) m"
  using onward_same by (blast intro: keepsI)

text \<open>
  The browser on a page: a synchronous operation leaves the cells of the sessions alone, an awaited promise and
  a spawned task go onward.
\<close>

locale media_page =
  fixes B :: "(('v, 'x) page_scheme, 'v, 'z) browser_scheme"
  assumes sync_values: "same_cells s (snd (js_object B s))" "same_cells s (snd (js_array B vs s))"
      "same_cells s (snd (js_get B v n s))" "same_cells s (snd (js_set B v n x s))" "same_cells s (snd (js_apply B v x vs s))"
    and sync_media: "same_cells s (snd (media_devices B v s))" "same_cells s (snd (user_media_promise B v x y s))"
      "same_cells s (snd (new_stream B s))" "same_cells s (snd (stream_tracks B v s))" "same_cells s (snd (audio_tracks B v s))"
      "same_cells s (snd (video_tracks B v s))" "same_cells s (snd (add_track B v x s))" "same_cells s (snd (track_stop B v s))"
    and sync_connection: "same_cells s (snd (new_connection B v s))" "same_cells s (snd (create_offer B v s))"
      "same_cells s (snd (set_local_description B v n m s))" "same_cells s (snd (set_remote_description B v n m s))"
      "same_cells s (snd (close_connection B v s))" "same_cells s (snd (console_error B n s))"
      "same_cells s (snd (socket_send B v n s))"
    and awaited: "onward s (snd (js_await B v s))"
    and spawned: "(\<And>t. onward t (snd (task t))) \<Longrightarrow> onward s (snd (spawn_local B task s))"
begin

lemmas keeps_browser = sync_values [THEN keeps_sameI] sync_media [THEN keeps_sameI] sync_connection [THEN keeps_sameI]
  awaited [THEN keeps_onwardI]

lemma keeps_cellM: "keeps (onward s0) (cellM h f)"
  by (simp add: cellM_def keeps_intros)

lemma keeps_setM: "(\<And>c. cells_onward c (u c)) \<Longrightarrow> keeps (onward s0) (setM h u)"
  by (rule keeps_onwardI) (simp add: setM_def onward_def prog_simps)

lemma keeps_spawn: "(\<And>s1. keeps (onward s1) m) \<Longrightarrow> keeps (onward s0) (spawn_local B m)"
  by (rule keeps_onwardI, rule spawned) (simp add: keeps_def)

lemmas media_intros = keeps_intros keeps_browser keeps_cellM keeps_setM keeps_spawn

end

lemma next_count_ge [simp]: "g \<le> next_count g"
proof (cases "g = - 1")
  case False
  then have "1 + g \<noteq> 0" by (simp add: add_eq_0_iff)
  then have "unat (g + 1) = Suc (unat g)" using unatSuc [of g] by (simp add: add.commute)
  then show ?thesis by (simp add: next_count_def word_le_nat_alt)
qed (simp add: next_count_def)

lemma set_sender_fields [simp]:
  "closed (set_sender slot v c) = closed c" "media_generation (set_sender slot v c) = media_generation c"
  by (cases slot; simp)+

context media_page
begin

lemma keeps_text: "keeps (onward s0) (media_error_text B v)" "keeps (onward s0) (prop_text B v n)" "keeps (onward s0) (fn_of B v n)"
  by (auto simp: media_error_text_def prop_text_def fn_of_def okayM_def Let_def intro!: media_intros)

lemma keeps_okayM: "keeps (onward s0) q \<Longrightarrow> keeps (onward s0) (okayM q)"
  by (auto simp: okayM_def intro!: media_intros)

lemma keeps_optM: "keeps (onward s0) q \<Longrightarrow> (\<And>x. keeps (onward s0) (f x)) \<Longrightarrow> keeps (onward s0) (optM q f)"
  by (auto simp: optM_def intro!: media_intros)

lemma keeps_text_errM: "keeps (onward s0) q \<Longrightarrow> keeps (onward s0) (text_errM B q)"
  by (auto simp: text_errM_def intro!: media_intros keeps_text)

lemma keeps_generation: "keeps (onward s0) (next_generation h)" "keeps (onward s0) (is_stale h g)"
  by (auto simp: next_generation_def is_stale_def cells_onward_def intro!: media_intros)

lemma keeps_tracks: "keeps (onward s0) (stop_all_tracks B v)" "keeps (onward s0) (first_track_kind B v n)"
    "keeps (onward s0) (add_tracks B v ts)"
  by (auto simp: stop_all_tracks_def first_track_kind_def add_tracks_def intro!: media_intros)

lemma keeps_error: "(\<And>e. keeps (onward s0) (cb e)) \<Longrightarrow> keeps (onward s0) (emit_error B cb sev stg msg tech)"
  by (auto simp: emit_error_def log_media_error_def Let_def intro!: media_intros)

lemma keeps_senders: "keeps (onward s0) (rtc_add_track_return B c t v)" "keeps (onward s0) (add_transceiver_sender B c n)"
    "keeps (onward s0) (sender_replace_track B c z)"
  by (auto simp: rtc_add_track_return_def add_transceiver_sender_def sender_replace_track_def
      intro!: media_intros keeps_okayM keeps_text_errM)

lemma keeps_send: "keeps (onward s0) (send_client_message B sock msg)"
  by (auto simp: send_client_message_def intro!: media_intros)

lemma keeps_offer: "keeps (onward s0) (send_local_offer B h)"
  by (auto simp: send_local_offer_def send_sdp_def Let_def intro!: media_intros keeps_text keeps_text_errM keeps_send)

lemma keeps_user_media: "keeps (onward s0) (get_user_media B mic cam a b)"
  by (auto simp: get_user_media_def media_track_constraint_def Let_def intro!: media_intros)

lemma keeps_teardown: "keeps (onward s0) (teardown_mic_graph B h)"
  by (auto simp: teardown_mic_graph_def cells_onward_def intro!: media_intros keeps_text)

lemma keeps_graph: "keeps (onward s0) (mic_graph B raw lv)"
  unfolding mic_graph_def resume_context_def
  by (auto intro!: media_intros keeps_text keeps_okayM keeps_optM keeps_tracks)

lemma keeps_process: "keeps (onward s0) (process_local_media_for_send B h raw lv)"
  unfolding process_local_media_for_send_def copy_stream_tracks_to_new_def Let_def
  by (auto simp: cells_onward_def intro!: media_intros keeps_teardown keeps_graph keeps_tracks)

lemmas media_keeps = media_intros keeps_text keeps_okayM keeps_text_errM keeps_generation keeps_tracks keeps_error keeps_senders
  keeps_send keeps_offer keeps_user_media keeps_teardown keeps_process

lemma keeps_slots:
  assumes "\<And>e s1. keeps (onward s1) (cb e)" "\<And>s1. keeps (onward s1) up"
  shows "keeps (onward s0) (attach_captured B h v t)" "keeps (onward s0) (offer_or_report B h cb sev stg msg)"
    "keeps (onward s0) (silence_slot B h cb slot stg msg)" "keeps (onward s0) (drop_local_stream B h)"
    "keeps (onward s0) (drop_screen_stream B h)" "keeps (onward s0) (apply_slot B h cb up slot on z v stg msg msg2)"
  unfolding attach_captured_def attach_first_def offer_or_report_def silence_slot_def drop_local_stream_def
    drop_screen_stream_def apply_slot_def switch_slot_def
  by (auto simp: cells_onward_def intro!: media_keeps assms)

text \<open>Every task and every operation that spawns it goes onward, if the page's callbacks do.\<close>

lemma keeps_tasks:
  assumes cb: "\<And>e s1. keeps (onward s1) (cb e)" "\<And>s1. keeps (onward s1) up"
  shows "keeps (onward s0) (start_task B h cb g mic cam a b lv)" "keeps (onward s0) (apply_task B h cb up g mic cam a b lv)"
    "keeps (onward s0) (publish_task B h cb up g v t)" "keeps (onward s0) (stop_share_task B h cb up g)"
  unfolding start_task_def start_offer_def apply_task_def capture_off_def capture_switch_def capture_renegotiate_def
    publish_task_def share_attach_def share_failed_def stop_share_task_def
  by (auto simp: cells_onward_def intro!: media_keeps keeps_slots assms)

lemma keeps_operations:
  assumes cb: "\<And>e s1. keeps (onward s1) (cb e)" "\<And>s1. keeps (onward s1) up"
  shows "keeps (onward s0) (apply_local_media B h cb mic cam a b lv up)" "keeps (onward s0) (publish_screen_share B h cb v up)"
    "keeps (onward s0) (stop_screen_share B h cb up)" "keeps (onward s0) (handle_remote_sdp B h cb sdp ty)"
    "keeps (onward s0) (handle_remote_ice_candidate B h cb cand mid)" "keeps (onward s0) (set_input_level B h lv)"
    "keeps (onward s0) (session_close B h)"
  unfolding apply_local_media_def publish_screen_share_def stop_screen_share_def handle_remote_sdp_def
    handle_remote_ice_candidate_def candidate_failed_def set_input_level_def session_close_def
  by (auto simp: cells_onward_def intro!: media_keeps keeps_tasks assms)

lemma keeps_track_event:
  assumes "\<And>e s1. keeps (onward s1) (cb e)" "\<And>m s1. keeps (onward s1) (streams m)"
  shows "keeps (onward s0) (on_track B h streams cb t)"
  unfolding on_track_def slot_stream_def
  by (auto simp: cells_onward_def intro!: media_keeps assms)

lemma keeps_start:
  assumes "\<And>e s1. keeps (onward s1) (cb e)"
  shows "keeps (onward s0) (session_start B transport mic cam a b lv cb)"
proof -
  have "keeps (onward s0) (new_cells c)" for c :: "'v session_cells"
    by (rule keeps_onwardI) (simp add: new_cells_def onward_def)
  moreover have "keeps (onward s0) (create_peer_connection B)"
    unfolding create_peer_connection_def by (auto intro!: media_keeps)
  ultimately show ?thesis
    unfolding session_start_def Let_def
    by (auto intro!: media_keeps keeps_tasks [where up = "retM ()"] assms)
qed

end

section \<open>Steps of a page\<close>

text \<open>One call of the page on a session, one event of the browser, or one task that begins; with the awaits inside, at which
  others run. A task suspended at an await goes on inside such a step, or as any change \<open>onward\<close>.\<close>

inductive page_step :: "(('v, 'x) page_scheme, 'v, 'z) browser_scheme \<Rightarrow> (WebRtcMediaError \<Rightarrow> (('v, 'x) page_scheme, unit) act)
    \<Rightarrow> (('v, 'x) page_scheme, unit) act \<Rightarrow> ('v, 'x) page_scheme \<Rightarrow> ('v, 'x) page_scheme \<Rightarrow> bool"
  for B cb up where
  "page_step B cb up s (snd (session_start B transport mic cam a b lv cb s))"
| "page_step B cb up s (snd (apply_local_media B h cb mic cam a b lv up s))"
| "page_step B cb up s (snd (publish_screen_share B h cb v up s))"
| "page_step B cb up s (snd (stop_screen_share B h cb up s))"
| "page_step B cb up s (snd (handle_remote_sdp B h cb sdp ty s))"
| "page_step B cb up s (snd (handle_remote_ice_candidate B h cb cand mid s))"
| "page_step B cb up s (snd (set_input_level B h lv s))"
| "page_step B cb up s (snd (on_track B h (\<lambda>_. up) cb tr s))"
| "page_step B cb up s (snd (session_close B h s))"
| "page_step B cb up s (snd (start_task B h cb g mic cam a b lv s))"
| "page_step B cb up s (snd (apply_task B h cb up g mic cam a b lv s))"
| "page_step B cb up s (snd (publish_task B h cb up g v tr s))"
| "page_step B cb up s (snd (stop_share_task B h cb up g s))"

definition page_callbacks :: "(WebRtcMediaError \<Rightarrow> (('v, 'x) page_scheme, unit) act) \<Rightarrow> (('v, 'x) page_scheme, unit) act \<Rightarrow> bool" where
  "page_callbacks cb up \<longleftrightarrow> (\<forall>e s. onward s (snd (cb e s))) \<and> (\<forall>s. onward s (snd (up s)))"

context media_page
begin

lemma step_onward:
  assumes "page_callbacks cb up" "page_step B cb up s t"
  shows "onward s t"
proof -
  have c: "keeps (onward s0) (cb e)" "keeps (onward s0) up" for s0 e
    using assms(1) by (auto simp: page_callbacks_def intro: keeps_onwardI)
  have d: "keeps (onward s) m \<Longrightarrow> onward s (snd (m s))" for m :: "(('v, 'x) page_scheme, 'b) act"
    by (rule keepsD) simp_all
  from assms(2) show ?thesis
    by cases (auto intro!: d keeps_start keeps_operations keeps_track_event keeps_tasks c)
qed

lemma steps_onward:
  "page_callbacks cb up \<Longrightarrow> (page_step B cb up)\<^sup>*\<^sup>* s t \<Longrightarrow> onward s t"
  by (rotate_tac, induction rule: rtranclp_induct) (auto intro: onward_trans step_onward)

lemma close_onward: "sid h < next_sid s \<Longrightarrow> closed (cells (snd (session_close B h s)) (sid h))
    \<and> sid h < next_sid (snd (session_close B h s))"
proof -
  assume i: "sid h < next_sid s"
  let ?s = "snd (setM h (\<lambda>c. c\<lparr>closed := True\<rparr>) s)"
  let ?rest = "bindM (setM h (\<lambda>c. c\<lparr>media_generation := next_count (media_generation c)\<rparr>)) (\<lambda>_.
     bindM (teardown_mic_graph B h) (\<lambda>_.
     bindM (cellM h local_stream) (\<lambda>l. bindM (case l of None \<Rightarrow> retM () | Some stream \<Rightarrow> stop_all_tracks B stream) (\<lambda>_.
     bindM (cellM h screen_stream) (\<lambda>d. bindM (case d of None \<Rightarrow> retM () | Some stream \<Rightarrow> stop_all_tracks B stream) (\<lambda>_.
       close_connection B (pc h)))))))"
  have "keeps (onward ?s) ?rest" by (auto simp: cells_onward_def intro!: media_keeps)
  then have "onward ?s (snd (?rest ?s))" by (rule keepsD) simp
  moreover have "snd (session_close B h s) = snd (?rest ?s)"
    by (simp only: session_close_def prog_apply(4) [of "setM h (\<lambda>c. c\<lparr>closed := True\<rparr>)"])
  ultimately have "onward ?s (snd (session_close B h s))" by (simp only:)
  then show ?thesis using i by (auto simp: onward_def cells_onward_def setM_def prog_simps dest: less_le_trans)
qed

end

section \<open>A browser\<close>

text \<open>
  A concrete browser: media streams are identities whose tracks the page keeps, a stopped track is
  recorded, every promise is fulfilled, and \<open>during\<close> is what the rest of the page does while one is awaited.
\<close>

datatype js = JText string | JNumber real | JFlag bool | JNull | JUndefined | JObject | JFn string | JPromise js
  | JStream nat | JTrack string nat

record tab = "js page" +
  streams :: "nat \<Rightarrow> js list"
  next_stream :: nat
  stopped :: "js list"

fun demo_apply :: "js \<Rightarrow> js list \<Rightarrow> tab \<Rightarrow> (js + js) \<times> tab" where
  "demo_apply (JFn f) args s = (Inr (if f = ''replaceTrack'' then JPromise JUndefined else JObject), s)"
| "demo_apply v args s = (Inl JObject, s)"

fun demo_await :: "(js \<Rightarrow> tab \<Rightarrow> tab) \<Rightarrow> js \<Rightarrow> tab \<Rightarrow> (js + js) \<times> tab" where
  "demo_await during (JPromise v) s = (Inr v, during v s)"
| "demo_await during v s = (Inr v, s)"

fun demo_tracks :: "js \<Rightarrow> tab \<Rightarrow> js list" where
  "demo_tracks (JStream i) s = streams s i"
| "demo_tracks v s = []"

fun track_kind_of :: "js \<Rightarrow> string" where
  "track_kind_of (JTrack k i) = k"
| "track_kind_of v = []"

definition demo_capture :: "tab \<Rightarrow> (js + js) \<times> tab" where
  "demo_capture s = (Inr (JPromise (JStream (next_stream s))),
     s\<lparr>streams := (streams s)(next_stream s := [JTrack ''video'' (next_stream s)]), next_stream := Suc (next_stream s)\<rparr>)"

definition demo_new_stream :: "tab \<Rightarrow> (js + js) \<times> tab" where
  "demo_new_stream s = (Inr (JStream (next_stream s)),
     s\<lparr>streams := (streams s)(next_stream s := []), next_stream := Suc (next_stream s)\<rparr>)"

fun demo_add_track :: "js \<Rightarrow> js \<Rightarrow> tab \<Rightarrow> unit \<times> tab" where
  "demo_add_track (JStream i) t s = ((), s\<lparr>streams := (streams s)(i := streams s i @ [t])\<rparr>)"
| "demo_add_track v t s = ((), s)"

definition demo_browser :: "(js \<Rightarrow> tab \<Rightarrow> tab) \<Rightarrow> (tab, js) browser" where
  "demo_browser during = \<lparr>js_as_string = (\<lambda>v. case v of JText t \<Rightarrow> Some t | _ \<Rightarrow> None), js_stringify = (\<lambda>_. None),
     out_json = (\<lambda>_. Inr ''{}''), in_json = (\<lambda>_. Inl ''''), socket_open = (\<lambda>_. okM JObject), socket_send = (\<lambda>_ _. okM ()),
     socket_handlers = (\<lambda>_ _. retM ()), socket_close = (\<lambda>_. retM ()),
     js_string = JText, js_number = JNumber, js_bool = JFlag, js_null = JNull, js_undefined = JUndefined,
     js_object = retM JObject, js_array = (\<lambda>_. retM JObject), js_get = (\<lambda>v n. okM (if n = ''sdp'' then JText ''v=0'' else JFn n)),
     js_set = (\<lambda>_ _ _. okM True), js_apply = (\<lambda>f _ args. demo_apply f args), js_await = demo_await during,
     js_debug = (\<lambda>_. []), is_function = (\<lambda>v. case v of JFn _ \<Rightarrow> True | _ \<Rightarrow> False),
     is_promise = (\<lambda>v. case v of JPromise _ \<Rightarrow> True | _ \<Rightarrow> False), is_stream = (\<lambda>v. case v of JStream _ \<Rightarrow> True | _ \<Rightarrow> False),
     is_track = (\<lambda>v. case v of JTrack _ _ \<Rightarrow> True | _ \<Rightarrow> False), js_window = Some JObject, media_devices = okM,
     user_media_promise = (\<lambda>_ _ _. demo_capture), new_stream = demo_new_stream, stream_tracks = (\<lambda>v. getM (demo_tracks v)),
     audio_tracks = (\<lambda>v. getM (\<lambda>s. filter (\<lambda>t. track_kind_of t = ''audio'') (demo_tracks v s))),
     video_tracks = (\<lambda>v. getM (\<lambda>s. filter (\<lambda>t. track_kind_of t = ''video'') (demo_tracks v s))),
     add_track = demo_add_track, track_kind = track_kind_of, track_id = (\<lambda>_. []),
     track_stop = (\<lambda>t. modM (\<lambda>s. s\<lparr>stopped := t # stopped s\<rparr>)), new_connection = (\<lambda>_. okM JObject),
     create_offer = (\<lambda>_. retM (JPromise JObject)), set_local_description = (\<lambda>_ _ _. retM (JPromise JUndefined)),
     set_remote_description = (\<lambda>_ _ _. retM (JPromise JUndefined)), close_connection = (\<lambda>_. retM ()),
     console_error = (\<lambda>_. retM ()), spawn_local = (\<lambda>m. m)\<rparr>"

lemma same_cells_refl [simp]: "same_cells s s"
  by (simp add: same_cells_def)

lemma demo_page:
  assumes "\<And>v s. onward s (during v s)"
  shows "media_page (demo_browser during)"
proof
  fix s :: tab and v x :: js and vs :: "js list" and n m :: string and task :: "(tab, unit) act"
  show "same_cells s (snd (js_apply (demo_browser during) v x vs s))"
    by (cases v) (simp_all add: demo_browser_def)
  show "same_cells s (snd (add_track (demo_browser during) v x s))"
    by (cases v) (simp_all add: demo_browser_def same_cells_def)
  show "onward s (snd (js_await (demo_browser during) v s))"
    by (cases v) (simp_all add: demo_browser_def assms)
  show "onward s (snd (spawn_local (demo_browser during) task s))" if "\<And>t. onward t (snd (task t))"
    using that by (simp add: demo_browser_def)
qed (simp_all add: demo_browser_def prog_simps demo_capture_def demo_new_stream_def same_cells_def)

text \<open>A page on which the call ends while the sender takes its new track.\<close>

definition demo_session :: "js WebRtcRoomSession" where
  "demo_session = \<lparr>sid = 0, pc = JObject, signaling = \<lparr>socket = JObject, transport_session = ''s''\<rparr>\<rparr>"

definition hang_up :: "js \<Rightarrow> tab \<Rightarrow> tab" where
  "hang_up v s = (if v = JUndefined then snd (session_close (demo_browser (\<lambda>_ t. t)) demo_session s) else s)"

interpretation quiet_page: media_page "demo_browser (\<lambda>_ s. s)"
  by (rule demo_page) simp

lemma hang_up_onward: "onward s (hang_up v s)"
proof -
  have "keeps (onward s) (session_close (demo_browser (\<lambda>_ t. t)) demo_session)"
    by (rule quiet_page.keeps_operations(7) [where cb = "\<lambda>_. retM ()" and up = "retM ()"]) (simp_all add: keeps_intros)
  then have "onward s (snd (session_close (demo_browser (\<lambda>_ t. t)) demo_session s))" by (rule keepsD) simp
  then show ?thesis by (simp add: hang_up_def)
qed

interpretation busy_page: media_page "demo_browser hang_up"
  by (rule demo_page) (rule hang_up_onward)

section \<open>The end of a session, and superseded captures\<close>


definition demo_page_state :: tab where
  "demo_page_state = \<lparr>cells = (\<lambda>_. fresh_cells (Some JObject) (Some JObject) (Some JObject)), next_sid = 1,
     streams = (\<lambda>_. []), next_stream = 0, stopped = []\<rparr>"


text \<open>
  C18. A capture that was superseded while the user was asked is discarded: when the prompt of \<open>apply_task\<close> or of
  the first \<open>start_task\<close> yields a stream in a state in which the session has been closed or has begun another generation, the task only
  stops the tracks of that stream: no sender, no local stream, no offer is touched.
\<close>
theorem capture_superseded:
  assumes "get_user_media B mic cam a b s = (Inr stream, t)" "mic \<or> cam" "\<not> stale g (cells s (sid h))" "stale g (cells t (sid h))"
  shows "apply_task B h cb up g mic cam a b lv s = stop_all_tracks B stream t \<and> start_task B h cb g mic cam a b lv s = stop_all_tracks B stream t"
  using assms by (auto simp: start_task_def apply_task_def is_stale_def cellM_def prog_simps)

definition hang_up_early :: "js \<Rightarrow> tab \<Rightarrow> tab" where
  "hang_up_early v s = snd (session_close (demo_browser (\<lambda>_ t. t)) demo_session s)"

theorem capture_superseded_witness:
  "let s = snd (apply_task (demo_browser hang_up_early) demo_session (\<lambda>_. retM ()) (retM ()) 0 False True [] [] 50 demo_page_state) in
   stopped s = [JTrack ''video'' 0] \<and> local_stream (cells s 0) = None"
proof -
  let ?B = "demo_browser hang_up_early"
  define t where "t = snd (get_user_media ?B False True [] [] demo_page_state)"
  have r: "fst (get_user_media ?B False True [] [] demo_page_state) = Inr (JStream 0)"
    by (simp add: get_user_media_def demo_browser_def media_track_constraint_def trim_def trim_start_def trim_end_def demo_capture_def
        prog_simps demo_page_state_def)
  have t: "closed (cells t 0)" "local_stream (cells t 0) = None" "streams t 0 = [JTrack ''video'' 0]" "stopped t = []"
    by (simp_all add: t_def get_user_media_def demo_browser_def media_track_constraint_def trim_def trim_start_def trim_end_def demo_capture_def
        prog_simps demo_page_state_def hang_up_early_def session_close_def setM_def cellM_def teardown_mic_graph_def demo_session_def fresh_cells_def)
  have g: "get_user_media ?B False True [] [] demo_page_state = (Inr (JStream 0), t)"
    using r by (simp add: t_def prod_eq_iff)
  have "apply_task ?B demo_session (\<lambda>_. retM ()) (retM ()) 0 False True [] [] 50 demo_page_state = stop_all_tracks ?B (JStream 0) t"
    using capture_superseded [OF g, of 0 demo_session] t(1)
    by (simp add: stale_def demo_session_def demo_page_state_def fresh_cells_def)
  then show ?thesis using t
    by (simp add: stop_all_tracks_def demo_browser_def prog_simps)
qed

text \<open>
  Only the prompt is guarded: a call that ends while a sender takes its track leaves the captured track running, in the local
  stream of the closed session.
\<close>

lemma late_close_keeps_capture:
  "let s = snd (apply_task (demo_browser hang_up) demo_session (\<lambda>_. retM ()) (retM ()) 0 False True [] [] 50 demo_page_state) in
   closed (cells s 0) \<and> local_stream (cells s 0) = Some (JStream 1) \<and> streams s 1 = [JTrack ''video'' 0] \<and> stopped s = []"
proof -
  let ?B = "demo_browser hang_up" and ?cb = "\<lambda>_. retM ()" and ?h = demo_session
  have browser: "\<And>v s. js_await ?B v s = demo_await hang_up v s" "\<And>v s. stream_tracks ?B v s = (demo_tracks v s, s)"
    "\<And>s. new_stream ?B s = demo_new_stream s" "\<And>v t s. add_track ?B v t s = demo_add_track v t s"
    "\<And>v n s. js_get ?B v n s = (Inr (if n = ''sdp'' then JText ''v=0'' else JFn n), s)"
    "\<And>f v args s. js_apply ?B f v args s = demo_apply f args s"
    "\<And>v. is_track ?B v = (case v of JTrack _ _ \<Rightarrow> True | _ \<Rightarrow> False)" "track_kind ?B = track_kind_of"
    "\<And>v. is_promise ?B v = (case v of JPromise _ \<Rightarrow> True | _ \<Rightarrow> False)"
    by (simp_all add: demo_browser_def prog_simps)
  have open_cells: "cells demo_page_state = (\<lambda>_. fresh_cells (Some JObject) (Some JObject) (Some JObject))"
    by (simp add: demo_page_state_def)
  define t1 where "t1 = snd (get_user_media ?B False True [] [] demo_page_state)"
  have r1: "fst (get_user_media ?B False True [] [] demo_page_state) = Inr (JStream 0)"
    and t1: "cells t1 = cells demo_page_state" "streams t1 0 = [JTrack ''video'' 0]" "next_stream t1 = 1" "stopped t1 = []"
    by (simp_all add: t1_def get_user_media_def demo_browser_def media_track_constraint_def trim_def trim_start_def trim_end_def
        demo_capture_def prog_simps demo_page_state_def hang_up_def)
  define t2 where "t2 = snd (process_local_media_for_send ?B ?h (JStream 0) 50 t1)"
  have r2: "fst (process_local_media_for_send ?B ?h (JStream 0) 50 t1) = JStream 1"
    and t2: "cells t2 0 = fresh_cells (Some JObject) (Some JObject) (Some JObject)" "streams t2 1 = [JTrack ''video'' 0]" "stopped t2 = []"
    by (simp_all add: t2_def process_local_media_for_send_def teardown_mic_graph_def setM_def cellM_def first_track_kind_def browser
        copy_stream_tracks_to_new_def add_tracks_def demo_new_stream_def prog_simps t1 open_cells fresh_cells_def demo_session_def
        eq_ignore_ascii_case_def ascii_lower_def Let_def)
  have hang: "closed (cells (hang_up JUndefined s) 0)" "streams (hang_up JUndefined s) = streams s"
    "sender_of slot (cells (hang_up JUndefined s) 0) = sender_of slot (cells s 0)"
    "stopped (hang_up JUndefined s) = stopped s" "local_stream (cells (hang_up JUndefined s) 0) = None"
    "screen_stream (cells (hang_up JUndefined s) 0) = None"
    if "local_stream (cells s 0) = None" "screen_stream (cells s 0) = None" for s slot
    using that by (cases slot; simp add: hang_up_def session_close_def setM_def cellM_def teardown_mic_graph_def demo_browser_def
        demo_session_def prog_simps fn_of_def okayM_def split: option.splits)+
  define t3 where "t3 = hang_up JUndefined t2"
  have t3: "closed (cells t3 0)" "local_stream (cells t3 0) = None" "screen_stream (cells t3 0) = None"
    "sender_of VideoSlot (cells t3 0) = Some JObject" "streams t3 1 = [JTrack ''video'' 0]" "stopped t3 = []"
    using t2 hang [of t2] by (simp_all add: t3_def fresh_cells_def)
  define t4 where "t4 = hang_up JUndefined t3"
  have t4: "closed (cells t4 0)" "local_stream (cells t4 0) = None" "streams t4 1 = [JTrack ''video'' 0]" "stopped t4 = []"
    using t3 hang [of t3] by (simp_all add: t4_def)
  have rep: "sender_replace_track ?B JObject z s = (Inr (), hang_up JUndefined s)" for z s
    by (simp add: sender_replace_track_def browser prog_simps okayM_def text_errM_def)
  have audio: "apply_slot ?B ?h ?cb (retM ()) AudioSlot False z v stg m1 m2 t2 = (Some False, t3)" for z v stg m1 m2
    by (simp add: apply_slot_def silence_slot_def cellM_def prog_simps rep t2 t3_def fresh_cells_def demo_session_def)
  have video: "apply_slot ?B ?h ?cb (retM ()) VideoSlot True (Some t) v stg m1 m2 t3 = (Some False, t4)" for t v stg m1 m2
    using t3(4) by (simp add: apply_slot_def switch_slot_def cellM_def prog_simps rep t4_def demo_session_def)
  have find: "first_track_kind ?B (JStream 1) ''audio'' t2 = (None, t2)"
    "first_track_kind ?B (JStream 1) ''video'' t2 = (Some (JTrack ''video'' 0), t2)"
    by (simp_all add: first_track_kind_def browser prog_simps t2(2) [unfolded One_nat_def] eq_ignore_ascii_case_def ascii_lower_def)
  have "apply_task ?B ?h ?cb (retM ()) 0 False True [] [] 50 demo_page_state =
      capture_renegotiate ?B ?h ?cb (retM ()) (JStream 1) False t4"
    using r1 r2 t1(1)
    by (simp add: apply_task_def is_stale_def cellM_def stale_def prog_simps open_cells fresh_cells_def
        capture_switch_def t1_def [symmetric] t2_def [symmetric] find [unfolded One_nat_def] audio video)
  then show ?thesis using t4
    by (simp add: Let_def capture_renegotiate_def drop_local_stream_def setM_def cellM_def prog_simps demo_session_def)
qed

end
