(* ===== verification/Client_App_Operations.thy ===== *)
theory Client_App_Operations
  imports Client_Room Client_Media_Operations
begin

text \<open>
  The handlers of the page: the roster follows the events of the server, the end of a room closes its media, and the
  test for a room id accepts the texts of the right form.
\<close>

section \<open>Roster\<close>

lemma unique_fold:
  "distinct acc \<Longrightarrow> let r = foldl (\<lambda>unique name. if list_ex (\<lambda>existing. existing = name) unique then unique else unique @ [name]) acc ps
     in distinct r \<and> set r = set acc \<union> set ps"
proof (induction ps arbitrary: acc)
  case (Cons p ps)
  let ?a = "if list_ex (\<lambda>existing. existing = p) acc then acc else acc @ [p]"
  have "distinct ?a" "set ?a = set acc \<union> {p}" using Cons.prems by (auto simp: list_ex_iff)
  with Cons.IH [of ?a] show ?case by (auto simp: Let_def)
qed simp

lemma unique_participants: "distinct (unique_participants ps)" "set (unique_participants ps) = set ps"
  using unique_fold [of "[]" ps] by (auto simp: unique_participants_def Let_def)

text \<open>One event. The callback holds the state handles of the render in which the connection was started; \<open>reads\<close> is what
  the framework gives it to read through them: the current state, or still that of the render.\<close>

definition play :: "(('v, 'x) app_scheme, 'v, 'z) page_env_scheme \<Rightarrow> (('v, 'x) app_scheme \<Rightarrow> ('v, 'x) app_scheme)
    \<Rightarrow> ('v, 'x) app_scheme \<Rightarrow> SignalingEvent \<Rightarrow> ('v, 'x) app_scheme" where
  "play B reads s ev = snd (signaling_event B (reads s) ev s)"

text \<open>A move of the roster: a nickname, and whether it joined or left.\<close>

definition move_event :: "bool \<times> string \<Rightarrow> SignalingEvent" where
  "move_event m = (if fst m then EvParticipantJoined (snd m) else EvParticipantLeft (snd m))"

definition move_set :: "string set \<Rightarrow> bool \<times> string \<Rightarrow> string set" where
  "move_set names m = (if fst m then insert (snd m) names else names - {snd m})"

text \<open>The page after \<open>RoomReady\<close> and these moves.\<close>

definition play_room :: "(('v, 'x) app_scheme, 'v, 'z) page_env_scheme \<Rightarrow> (('v, 'x) app_scheme \<Rightarrow> ('v, 'x) app_scheme)
    \<Rightarrow> RoomSnapshot \<Rightarrow> (bool \<times> string) list \<Rightarrow> ('v, 'x) app_scheme \<Rightarrow> ('v, 'x) app_scheme" where
  "play_room B reads snap moves s = foldl (\<lambda>t m. play B reads t (move_event m)) (play B reads s (RoomReady snap)) moves"

lemma play_move:
  assumes "active_room s = Some r" "distinct (participants r)"
  shows "\<exists>r'. active_room (play B (\<lambda>t. t) s (move_event m)) = Some r' \<and> distinct (participants r')
    \<and> set (participants r') = move_set (set (participants r)) m \<and> room_name r' = room_name r \<and> your_nickname r' = your_nickname r"
  using assms
  by (auto simp: play_def move_event_def move_set_def prog_simps active_room_with_participant_def
      active_room_without_participant_def list_ex_iff)

lemma play_moves:
  assumes "active_room s = Some r" "distinct (participants r)"
  shows "\<exists>r'. active_room (foldl (\<lambda>t m. play B (\<lambda>t. t) t (move_event m)) s moves) = Some r' \<and> distinct (participants r')
    \<and> set (participants r') = foldl move_set (set (participants r)) moves \<and> room_name r' = room_name r
    \<and> your_nickname r' = your_nickname r"
  using assms
proof (induction moves arbitrary: s r)
  case (Cons m moves)
  obtain r1 where r1: "active_room (play B (\<lambda>t. t) s (move_event m)) = Some r1" "distinct (participants r1)"
    "set (participants r1) = move_set (set (participants r)) m" "room_name r1 = room_name r" "your_nickname r1 = your_nickname r"
    using play_move [OF Cons.prems] by blast
  from Cons.IH [OF r1(1,2)] show ?case using r1(3-5) by simp
qed simp

text \<open>A handle that still reads a state without a room.\<close>

lemma blind_move: "active_room u = None \<Longrightarrow> active_room (play B (\<lambda>_. u) s (move_event m)) = None"
  by (simp add: play_def move_event_def prog_simps active_room_with_participant_def active_room_without_participant_def)

lemma blind_moves:
  assumes "active_room u = None"
  shows "active_room (foldl (\<lambda>t m. play B (\<lambda>_. u) t (move_event m)) s (m # moves)) = None"
proof (induction moves arbitrary: m s)
  case (Cons n moves)
  from Cons [where m = n and s = "play B (\<lambda>_. u) s (move_event m)"] show ?case by simp
qed (simp add: blind_move [OF assms])

text \<open>
  C35. The roster follows the server if the callback reads the current room. After \<open>RoomReady\<close> and any sequence of joins and
  departures, the page then shows the room of the snapshot with a list of participants that has no duplicates and holds exactly
  the nicknames of the snapshot as moved by the events. The condition is needed: a callback that still reads the state of the
  render in which the connection was started, where there was no room yet, leaves the page without a room after the first
  join or departure.
\<close>
theorem roster_follows_events:
  "(\<exists>r. active_room (play_room B (\<lambda>t. t) snap moves s) = Some r
     \<and> distinct (participants r) \<and> set (participants r) = foldl move_set (set (snap_participants snap)) moves
     \<and> room_name r = snap_room_id snap \<and> your_nickname r = snap_your_nickname snap)
   \<and> active_room (play_room B (\<lambda>_. u\<lparr>active_room := None\<rparr>) snap (m # moves) s) = None"
proof
  have "active_room (play B (\<lambda>t. t) s (RoomReady snap)) = Some (active_room_from snap)"
    by (simp add: play_def prog_simps)
  from play_moves [OF this] show "\<exists>r. active_room (play_room B (\<lambda>t. t) snap moves s) = Some r
     \<and> distinct (participants r) \<and> set (participants r) = foldl move_set (set (snap_participants snap)) moves
     \<and> room_name r = snap_room_id snap \<and> your_nickname r = snap_your_nickname snap"
    by (simp add: active_room_from_def unique_participants play_room_def)
  show "active_room (play_room B (\<lambda>_. u\<lparr>active_room := None\<rparr>) snap (m # moves) s) = None"
    unfolding play_room_def by (rule blind_moves) simp
qed

section \<open>Room ids\<close>

lemma hex_not_hyphen: "list_all is_hexdigit s \<Longrightarrow> CHR ''-'' \<notin> set s"
  by (auto simp: list_all_iff is_hexdigit_def)

lemma split_on_join_back: "join_with [d] (split_on d s) = s"
proof (induction s)
  case (Cons c s)
  obtain w ws where "split_on d s = w # ws" by (cases "split_on d s") (auto elim: split_on.elims split: list.splits if_splits)
  then show ?case using Cons by (auto simp: join_Cons)
qed simp

lemma uuid_cut:
  assumes "length v = 36"
  shows "v = take 8 v @ v ! 8 # take 4 (drop 9 v) @ v ! 13 # take 4 (drop 14 v) @ v ! 18 # take 4 (drop 19 v) @ v ! 23 # drop 24 v"
proof -
  have c: "drop i v = v ! i # drop (Suc i) v" if "i < 36" for i
    using that assms by (simp add: Cons_nth_drop_Suc)
  have t: "drop i v = take 4 (drop i v) @ drop (4 + i) v" for i
    by (metis append_take_drop_id drop_drop)
  have "v = take 8 v @ drop 8 v" by simp
  also have "drop 8 v = v ! 8 # drop 9 v" using c [of 8] by simp
  also have "drop 9 v = take 4 (drop 9 v) @ v ! 13 # drop 14 v" using t [of 9] c [of 13] by simp
  also have "drop 14 v = take 4 (drop 14 v) @ v ! 18 # drop 19 v" using t [of 14] c [of 18] by simp
  also have "drop 19 v = take 4 (drop 19 v) @ v ! 23 # drop 24 v" using t [of 19] c [of 23] by simp
  finally show ?thesis .
qed

lemma uuid_positions:
  "is_uuid_like v \<longleftrightarrow> length v = 36 \<and> v ! 8 = CHR ''-'' \<and> v ! 13 = CHR ''-'' \<and> v ! 18 = CHR ''-'' \<and> v ! 23 = CHR ''-''
     \<and> (\<forall>i < 36. i \<in> {8, 13, 18, 23} \<or> is_hexdigit (v ! i))"
proof -
  have "list_all (\<lambda>(i, c). i \<in> {8, 13, 18, 23} \<or> is_hexdigit c) (zip [0..<length v] v) \<longleftrightarrow>
      (\<forall>i < length v. i \<in> {8, 13, 18, 23} \<or> is_hexdigit (v ! i))"
    by (simp add: list_all_length)
  then show ?thesis unfolding is_uuid_like_def by auto
qed

lemma hex_part:
  assumes "\<forall>i < 36. i \<in> {8, 13, 18, 23} \<or> is_hexdigit (v ! i)" "length v = 36" "i + k \<le> 36" "{8, 13, 18, 23} \<inter> {i ..< i + k} = {}"
  shows "list_all is_hexdigit (take k (drop i v))"
proof (unfold list_all_length, intro allI impI)
  fix j assume j: "j < length (take k (drop i v))"
  then have "i + j < 36" "i + j \<notin> {8, 13, 18, 23}" using assms(2-4) by auto
  then have "is_hexdigit (v ! (i + j))" using assms(1) by blast
  then show "is_hexdigit (take k (drop i v) ! j)" using j assms(2,3) by simp
qed

text \<open>
  The client's test for a room id is the textual form of a UUID: \<open>is_uuid_like\<close> accepts exactly the texts whose parts
  between hyphens are five, of 8, 4, 4, 4 and 12 characters, all of them hexadecimal digits.
\<close>
theorem uuid_like_form:
  "is_uuid_like v \<longleftrightarrow> map length (split_on (CHR ''-'') v) = [8, 4, 4, 4, 12]
     \<and> list_all (list_all is_hexdigit) (split_on (CHR ''-'') v)"
proof
  assume u: "is_uuid_like v"
  then have l: "length v = 36" and h: "\<forall>i < 36. i \<in> {8, 13, 18, 23} \<or> is_hexdigit (v ! i)"
    and d: "v ! 8 = CHR ''-''" "v ! 13 = CHR ''-''" "v ! 18 = CHR ''-''" "v ! 23 = CHR ''-''"
    by (simp_all add: uuid_positions)
  have p: "list_all is_hexdigit (take 8 v)" "list_all is_hexdigit (take 4 (drop 9 v))" "list_all is_hexdigit (take 4 (drop 14 v))"
    "list_all is_hexdigit (take 4 (drop 19 v))" "list_all is_hexdigit (drop 24 v)"
    using hex_part [OF h l, of 0 8] hex_part [OF h l, of 9 4] hex_part [OF h l, of 14 4] hex_part [OF h l, of 19 4]
      hex_part [OF h l, of 24 12] l by auto
  note n = p [THEN hex_not_hyphen]
  have "split_on (CHR ''-'') v = [take 8 v, take 4 (drop 9 v), take 4 (drop 14 v), take 4 (drop 19 v), drop 24 v]"
    by (subst uuid_cut [OF l]) (simp only: d split_on_append [OF n(1)] split_on_append [OF n(2)] split_on_append [OF n(3)]
        split_on_append [OF n(4)] split_on_single [OF n(5)])
  then show "map length (split_on (CHR ''-'') v) = [8, 4, 4, 4, 12] \<and> list_all (list_all is_hexdigit) (split_on (CHR ''-'') v)"
    using p l by simp
next
  assume a: "map length (split_on (CHR ''-'') v) = [8, 4, 4, 4, 12] \<and> list_all (list_all is_hexdigit) (split_on (CHR ''-'') v)"
  then obtain a b c d e where s: "split_on (CHR ''-'') v = [a, b, c, d, e]"
    and l: "length a = 8" "length b = 4" "length c = 4" "length d = 4" "length e = 12"
    by (auto simp: map_eq_Cons_conv)
  have v: "v = a @ CHR ''-'' # b @ CHR ''-'' # c @ CHR ''-'' # d @ CHR ''-'' # e"
    using split_on_join_back [of "CHR ''-''" v] s by simp
  have h: "list_all is_hexdigit (a @ b @ c @ d @ e)" using a s by simp
  have "is_hexdigit (v ! i)" if i: "i < 36" "i \<notin> {8, 13, 18, 23}" for i
  proof -
    have "v ! i \<in> set (a @ b @ c @ d @ e)"
    proof -
      consider "i < 8" | "9 \<le> i" "i < 13" | "14 \<le> i" "i < 18" | "19 \<le> i" "i < 23" | "24 \<le> i"
        using i by (auto) linarith
      then show ?thesis
        by cases (use i l in \<open>auto simp: v nth_append nth_Cons'\<close>)
    qed
    then show ?thesis using h by (simp only: list_all_iff)
  qed
  then show "is_uuid_like v"
    by (auto simp: uuid_positions l) (simp_all add: v l nth_append)
qed

section \<open>Leaving a room\<close>

text \<open>The cleanup of the room effect closes the session of the room and forgets the streams, and any later start or capture
  task of that session does nothing.\<close>

lemma cleanup_closes:
  assumes "media_page B" "webrtc_session s = Some h" "sid h < next_sid s"
  shows "closed (cells (snd (room_cleanup B s)) (sid h)) \<and> remote_streams (snd (room_cleanup B s)) = Map.empty"
proof -
  have "closed (cells (snd (session_close B h (s\<lparr>webrtc_session := None\<rparr>))) (sid h))"
    using media_page.close_onward [OF assms(1), of h "s\<lparr>webrtc_session := None\<rparr>"] assms(3) by simp
  then show ?thesis by (simp add: room_cleanup_def prog_simps assms(2))
qed

lemma cleanup_stops_tasks:
  assumes "media_page B" "webrtc_session s = Some h" "sid h < next_sid s" "t = snd (room_cleanup B s)"
  shows "start_task B h cb g mic cam a b lv t = ((), t)" "apply_task B h cb up g mic cam a b lv t = ((), t)"
  using cleanup_closes [OF assms(1-3)]
  by (simp_all add: assms(4) start_task_def apply_task_def is_stale_def cellM_def stale_def prog_simps)

end
