(* ===== verification/Client_Checks.thy ===== *)
theory Client_Checks
  imports Client_App_Operations Connector
begin

text \<open>
  Checks on both sides of the wire: the nicknames the browser accepts against those the connector accepts.
\<close>

lemma trim_no_whitespace: "\<not> list_ex is_whitespace v \<Longrightarrow> trim v = v"
proof -
  assume "\<not> list_ex is_whitespace v"
  then have "\<forall>c\<in>set v. \<not> is_whitespace c" by (simp add: list_ex_iff)
  then have "dropWhile is_whitespace v = v" "dropWhile is_whitespace (rev v) = rev v"
    using last_in_set [of v] by (auto simp: dropWhile_eq_self_iff hd_rev)
  then show ?thesis by (simp add: trim_def trim_start_def trim_end_def)
qed

lemma nickname_char: "is_ascii_alphanumeric c \<or> c = CHR ''_'' \<Longrightarrow> \<not> is_whitespace c \<and> (of_char c :: nat) < 128 \<and> c \<noteq> CHR ''-''"
  by (auto simp: is_ascii_alphanumeric_def is_whitespace_def Let_def)

lemma utf8_ascii: "\<forall>c\<in>set s. (of_char c :: nat) < 128 \<Longrightarrow> utf8_len s = length s"
  by (induction s) (auto simp: utf8_len_def)

lemma accepted_nickname:
  assumes "client_validate_nickname v = Inr ()"
  shows "validate_auth v = Inr () \<and> trim v = v \<and> length v \<le> 24 \<and> CHR ''-'' \<notin> set v \<and> \<not> list_all (\<lambda>c. c = CHR ''_'') v"
proof -
  have ws: "\<not> list_ex is_whitespace v" and ch: "ascii_nickname_chars_only v"
    and sh: "validate_shape_when_nonempty v = Inr ()"
    using assms by (auto simp: client_validate_nickname_def validate_charset_def validate_no_whitespace_def result_then_def
        split: if_splits)
  have ok: "\<forall>c\<in>set v. is_ascii_alphanumeric c \<or> c = CHR ''_''"
    using ch by (simp add: ascii_nickname_chars_only_def list_all_iff)
  have u: "utf8_len v = length v" using ok nickname_char by (intro utf8_ascii) blast
  have t: "trim v = v" by (rule trim_no_whitespace [OF ws])
  have len: "3 \<le> length v" "length v \<le> 24" "\<not> list_all (\<lambda>c. c = CHR ''_'') v"
    using sh u by (auto simp: validate_shape_when_nonempty_def MIN_NICKNAME_LEN_def MAX_NICKNAME_LEN_def split: if_splits)
  have "list_all (\<lambda>ch. is_ascii_alphanumeric ch \<or> ch = CHR ''_'' \<or> ch = CHR ''-'') v"
    using ok by (auto simp: list_all_iff)
  then have "validate_auth v = Inr ()"
    using t len by (simp add: validate_auth_def validate_nickname_def Let_def)
  moreover have "CHR ''-'' \<notin> set v" using ok nickname_char by blast
  ultimately show ?thesis
    using t len by blast
qed

text \<open>
  C36. The browser's check of a nickname against the connector's: \<open>client_validate_nickname\<close> accepts a text exactly when
  the connector accepts it, trimming it changes nothing, it has at most 24 characters and no hyphen, and it is not made of
  underscores only. So a nickname the browser lets through is never refused for its form, and is the one the connector stores.
\<close>
theorem nickname_checks_agree:
  "client_validate_nickname v = Inr () \<longleftrightarrow>
     validate_auth v = Inr () \<and> trim v = v \<and> length v \<le> 24 \<and> CHR ''-'' \<notin> set v \<and> \<not> list_all (\<lambda>c. c = CHR ''_'') v"
proof
  show "client_validate_nickname v = Inr () \<Longrightarrow> validate_auth v = Inr () \<and> trim v = v \<and> length v \<le> 24 \<and> CHR ''-'' \<notin> set v \<and> \<not> list_all (\<lambda>c. c = CHR ''_'') v"
    by (rule accepted_nickname)
next
  assume a: "validate_auth v = Inr () \<and> trim v = v \<and> length v \<le> 24 \<and> CHR ''-'' \<notin> set v \<and> \<not> list_all (\<lambda>c. c = CHR ''_'') v"
  then have len: "3 \<le> length v" and ch: "list_all (\<lambda>ch. is_ascii_alphanumeric ch \<or> ch = CHR ''_'' \<or> ch = CHR ''-'') v"
    by (auto simp: validate_auth_def validate_nickname_def Let_def split: if_splits)
  have ok: "\<forall>c\<in>set v. is_ascii_alphanumeric c \<or> c = CHR ''_''"
    using ch a by (auto simp: list_all_iff)
  have "\<not> list_ex is_whitespace v" using ok nickname_char by (auto simp: list_ex_iff)
  moreover have "ascii_nickname_chars_only v" using ok by (simp add: ascii_nickname_chars_only_def list_all_iff)
  moreover have "utf8_len v = length v" using ok nickname_char by (intro utf8_ascii) blast
  ultimately show "client_validate_nickname v = Inr ()"
    using a len by (auto simp: client_validate_nickname_def validate_charset_def validate_no_whitespace_def result_then_def
        validate_shape_when_nonempty_def MIN_NICKNAME_LEN_def MAX_NICKNAME_LEN_def)
qed

end
