(* ===== verification/Page_Calls.thy ===== *)
theory Page_Calls
  imports Connector_Service Connector_Operations Client_Checks
begin

text \<open>
  The page and the connector as one system. The page's HTTP client is joined to the connector by a connection that
  delivers: a body the page writes reaches \<open>connector_app\<close>, and the page reads the body the connector
  writes. The state is the page's with the connector's world behind it.
\<close>

section \<open>A connection that delivers\<close>

definition answer_text :: "('w, 'q) http_stack_scheme \<Rightarrow> conn_answer \<Rightarrow> string" where
  "answer_text N ans = (case ans of
     AuthAnswer a \<Rightarrow> put_json N (write_auth_response a)
   | ReadyAnswer r \<Rightarrow> put_json N (write_ready_response r)
   | ErrorAnswer e \<Rightarrow> put_json N (write_error_response e)
   | HealthAnswer t \<Rightarrow> put_json N (JObj [(''status'', JStr t)])
   | FrameworkAnswer t \<Rightarrow> t
   | EmptyAnswer \<Rightarrow> [])"

definition received :: "('w, 'q) http_stack_scheme \<Rightarrow> nat \<times> conn_answer \<Rightarrow> http_response" where
  "received N a = (let j = get_json N (answer_text N (snd a)) in
     \<lparr>status = fst a, as_auth = Option.bind j read_auth_response, as_ready = Option.bind j read_ready_response,
      as_error = Option.bind j read_error_payload\<rparr>)"

text \<open>The framework on such a connection: a body of JSON that the page sends as such is within the limit and is read, and the CORS
  layer hands on what is no preflight.\<close>

definition delivering :: "('w, 'q) http_stack_scheme \<Rightarrow> ('w, 'q) http_stack_scheme" where
  "delivering N = N\<lparr>
     read_body := (\<lambda>r. case get_json N (req_body r) of Some j \<Rightarrow> if req_json_type r then Inr j else read_body N r | None \<Rightarrow> read_body N r),
     layer_answer := (\<lambda>layer r. if req_method r = OPTIONS then layer_answer N layer r else None)\<rparr>"

lemma delivering_sel [simp]:
  "put_json (delivering N) = put_json N" "get_json (delivering N) = get_json N"
  "req_json_type r \<Longrightarrow> get_json N (req_body r) = Some j \<Longrightarrow> read_body (delivering N) r = Inr j"
  "req_method r \<noteq> OPTIONS \<Longrightarrow> layer_answer (delivering N) layer r = None"
  by (simp_all add: delivering_def)

lemma delivered: "req_method r \<noteq> OPTIONS \<Longrightarrow> connector_app (delivering N) E cfg r = connector_routes (delivering N) E cfg r"
  by (auto simp: connector_app_def layered_def split: bind_split)

definition wired_http :: "('w, 'q) http_stack_scheme \<Rightarrow> ('w, 'z) conn_env_scheme \<Rightarrow> ConnectorConfig \<Rightarrow> 'w http_env" where
  "wired_http N E cfg =
     \<lparr>connector_base_url = None, api_json = (\<lambda>r. Inr (put_json N (write_request r))),
      http_post = (\<lambda>url body. bindM (connector_app (delivering N) E cfg
        \<lparr>req_method = POST, req_path = url, req_json_type = True, req_body = body\<rparr>) (\<lambda>a. okM (received N a)))\<rparr>"

text \<open>The answer of a handler as the page sees it: an error is its text.\<close>

definition told :: "('a \<Rightarrow> 'b) \<Rightarrow> ('w, 'a) http \<Rightarrow> ('w, string, 'b) prog" where
  "told f m w = (map_sum (snd \<circ> conn_map_error) f (fst (m w)), snd (m w))"

definition client_auth :: "AuthResponse \<Rightarrow> ClientAuthResponse" where
  "client_auth a = \<lparr>resp_nickname = auth_nickname a, resp_session_id = auth_session_id a\<rparr>"

definition client_ready :: "SignalingReadyResponse \<Rightarrow> ClientReadyResponse" where
  "client_ready r = \<lparr>resp_signaling_url = signaling_url r, resp_ready_session = ready_session_id r, resp_token = ready_token r\<rparr>"

locale joined_ends =
  fixes N :: "('w, 'q) http_stack_scheme" and E :: "('w, 'z) conn_env_scheme" and cfg :: ConnectorConfig
  assumes texts: "json_text (put_json N) (get_json N)"
begin

lemma get_put [simp]: "get_json N (put_json N j) = Some j"
  using texts by (rule json_text.get_put)

lemma refused [simp]:
  "parse_json_response f (received N (answer_error err)) = Inl (snd (conn_map_error err))"
  "parse_empty_response (received N (answer_error err)) = Inl (snd (conn_map_error err))"
  by (simp_all add: parse_json_response_def parse_empty_response_def refusal_text_def received_def answer_error_def answer_text_def
      into_response_def status_for_error_def Let_def split: HandlerError.split)

lemma accepted [simp]:
  "parse_json_response as_auth (received N (200, AuthAnswer a)) = Inr (client_auth a)"
  "parse_json_response as_ready (received N (200, ReadyAnswer r)) = Inr (client_ready r)"
  "parse_empty_response (received N (204, EmptyAnswer)) = Inr ()"
  by (simp_all add: parse_json_response_def parse_empty_response_def received_def answer_text_def client_auth_def client_ready_def Let_def)

lemma call_eval:
  assumes "\<And>s. connector_app (delivering N) E cfg \<lparr>req_method = POST, req_path = path, req_json_type = True,
      req_body = put_json N (write_request req)\<rparr> s = answered f m s"
    and "\<And>x. fst (m w) = Inr x \<Longrightarrow> parse (received N (f x)) = Inr (g x)" "\<And>err. parse (received N (answer_error err)) = Inl (snd (conn_map_error err))"
  shows "api_call (wired_http N E cfg) path req parse w = told g m w"
  using assms by (cases "fst (m w)")
    (simp_all add: api_call_def wired_http_def post_json_def endpoint_def prog_simps told_def answered_def)

lemma calls:
  "api_auth (wired_http N E cfg) nick w = told client_auth (auth E cfg nick) w"
  "api_create (wired_http N E cfg) session w = told client_ready (create E cfg session) w"
  "api_join (wired_http N E cfg) session room w = told client_ready (join E cfg session room) w"
  "renew_session (wired_http N E cfg) session w = told (\<lambda>_. ()) (session_renew E cfg session) w"
proof -
  note served = delivered connector_routes_def post_route_def json_payload_def
  show "api_auth (wired_http N E cfg) nick w = told client_auth (auth E cfg nick) w"
    unfolding api_auth_def by (rule call_eval [where f = "\<lambda>a. (200, AuthAnswer a)"]) (simp_all add: served)
  show "api_create (wired_http N E cfg) session w = told client_ready (create E cfg session) w"
    unfolding api_create_def by (rule call_eval [where f = "\<lambda>a. (200, ReadyAnswer a)"]) (simp_all add: served)
  show "api_join (wired_http N E cfg) session room w = told client_ready (join E cfg session room) w"
    unfolding api_join_def by (rule call_eval [where f = "\<lambda>a. (200, ReadyAnswer a)"]) (simp_all add: served)
  show "renew_session (wired_http N E cfg) session w = told (\<lambda>_. ()) (session_renew E cfg session) w"
    unfolding renew_session_def by (rule call_eval [where f = "\<lambda>st. (st, EmptyAnswer)"]) (simp_all add: served, auto dest: no_content)
qed

lemma logout_call: "logout_best_effort (wired_http N E cfg) session w = ((), snd (logout E session w))"
  by (simp add: logout_best_effort_def wired_http_def endpoint_def prog_simps delivered connector_routes_def post_route_def json_payload_def
      answered_def)

end

section \<open>The page in front of the connector\<close>

text \<open>The world of the connector lies behind the fields of the page.\<close>

definition behind_page :: "'w http_env \<Rightarrow> ('v, 'w) app_scheme http_env" where
  "behind_page H = \<lparr>connector_base_url = connector_base_url H, api_json = api_json H,
     http_post = (\<lambda>url body s. (fst (http_post H url body (app.more s)), app.more_update (\<lambda>w. snd (http_post H url body w)) s))\<rparr>"

lemma behind_call:
  "api_call (behind_page H) path req parse s =
     (fst (api_call H path req parse (app.more s)), app.more_update (\<lambda>w. snd (api_call H path req parse w)) s)"
  by (cases s) (simp add: api_call_def behind_page_def post_json_def endpoint_def prog_simps split: sum.split)

lemma behind_calls:
  "api_auth (behind_page H) nick s = (fst (api_auth H nick (app.more s)), app.more_update (\<lambda>w. snd (api_auth H nick w)) s)"
  "api_create (behind_page H) session s = (fst (api_create H session (app.more s)), app.more_update (\<lambda>w. snd (api_create H session w)) s)"
  "api_join (behind_page H) session room s =
     (fst (api_join H session room (app.more s)), app.more_update (\<lambda>w. snd (api_join H session room w)) s)"
  by (simp_all add: api_auth_def api_create_def api_join_def behind_call)

definition demo_stack :: "sig_mem http_stack" where
  "demo_stack = \<lparr>put_json = text_of_json, get_json = json_of_text,
     read_body = (\<lambda>r. if req_json_type r then (case json_of_text (req_body r) of None \<Rightarrow> Inl (400, ''rejected'') | Some j \<Rightarrow> Inr j)
       else Inl (415, ''rejected'')),
     shape_rejection = (\<lambda>_. (422, ''rejected'')), no_route = (\<lambda>_. (404, [])), other_method = (\<lambda>_. (405, [])),
     layer_answer = (\<lambda>_ r. if req_method r = OPTIONS then Some (200, []) else None), header_value = (\<lambda>_. True),
     socket_address = (\<lambda>_. True), bind_listener = (\<lambda>_. okM ())\<rparr>"

interpretation demo_ends: joined_ends demo_stack mem_conn_env demo_conn_config
  by unfold_locales (simp add: demo_stack_def marked.get_put)

context joined_ends
begin

lemma submit_eval:
  assumes "http B = behind_page (wired_http N E cfg)"
  shows "nickname_submit_task B nick s = ((), (case fst (auth E cfg nick (app.more s)) of
      Inr a \<Rightarrow> snd (on_nickname_success (auth_session_id a) (app.more_update (\<lambda>w. snd (auth E cfg nick w)) s))
    | Inl err \<Rightarrow> (app.more_update (\<lambda>w. snd (auth E cfg nick w)) s)
        \<lparr>nickname_form := (nickname_form s)\<lparr>nick_error := Some (snd (conn_map_error err))\<rparr>\<rparr>)
    \<lparr>nickname_form := (case fst (auth E cfg nick (app.more s)) of Inr _ \<Rightarrow> nickname_form s
       | Inl err \<Rightarrow> (nickname_form s)\<lparr>nick_error := Some (snd (conn_map_error err))\<rparr>)\<lparr>is_submitting := False\<rparr>\<rparr>)"
  by (cases s) (simp add: nickname_submit_task_def submit_nickname_def assms behind_calls calls told_def client_auth_def prog_simps
      nick_form_def on_nickname_success_def split: sum.split)

lemma create_task_eval:
  assumes "http B = behind_page (wired_http N E cfg)"
  shows "create_task B session s = ((), (case fst (create E cfg session (app.more s)) of
      Inr r \<Rightarrow> (app.more_update (\<lambda>w. snd (create E cfg session w)) s)
        \<lparr>app_error := None, signaling_start := Some (signaling_start_new (client_ready r) IntentCreate),
         menu_form := (menu_form s)\<lparr>menu_busy := False\<rparr>\<rparr>
    | Inl err \<Rightarrow> (app.more_update (\<lambda>w. snd (create E cfg session w)) s)
        \<lparr>menu_form := (menu_form s)\<lparr>action_error := Some (snd (conn_map_error err)), menu_busy := False\<rparr>\<rparr>))"
  by (cases s) (simp add: create_task_def assms behind_calls calls told_def prog_simps set_menu_def on_signaling_ready_def
      split: sum.split)

end

section \<open>Properties\<close>

text \<open>
  C11. Signing in, from the form to the store. For a nickname the form accepts, the task of the form ends in one of two ways. If the
  nickname is free, the page shows the main menu, with the fresh session, and the store leases exactly the text of the form to
  this session. If it is leased, the form says so, the screen and the session of the page stay, and the store is as before.
\<close>

theorem page_signs_in:
  fixes s :: "('v, 'w) app_scheme"
  assumes "json_text (put_json N) (get_json N)" "conn_world E view" "http B = behind_page (wired_http N E cfg)"
    and "client_validate_nickname nick = Inr ()"
    and "new_session = fst (new_uuid E (app.more s))" "view (app.more s) (session_key new_session) = None"
    and "1000 \<le> conn_session_ttl cfg" "conn_session_ttl cfg div 1000 < 2 ^ 63" "t = snd (nickname_submit_task B nick s)"
  shows "if view (app.more s) (nick_key nick) = None
    then app.session_id t = Some new_session \<and> screen t = MainMenuScreen \<and> app_error t = None
      \<and> view (app.more t) = (view (app.more s))(nick_key nick \<mapsto> (StrVal new_session, None), session_key new_session \<mapsto>
          (HashVal [''nickname'' \<mapsto> nick, ''room_id'' \<mapsto> []], Some (1000 * (conn_session_ttl cfg div 1000))))
    else nick_error (nickname_form t) = Some ''Nickname already taken'' \<and> app.session_id t = app.session_id s
      \<and> screen t = screen s \<and> view (app.more t) = view (app.more s)"
proof -
  have ok: "validate_auth nick = Inr ()" "trim nick = nick" using accepted_nickname [OF assms(4)] by auto
  note eval = conn_world.auth_eval [OF assms(2,5,6) ok(2) [symmetric] assms(7,8), unfolded ok(1)]
  note submit = joined_ends.submit_eval [OF joined_ends.intro [OF assms(1)] assms(3), of nick s]
  show ?thesis
    using eval by (cases "view (app.more s) (nick_key nick)")
      (simp_all add: assms(9) submit ok on_nickname_success_def prog_simps conn_map_error_def)
qed

text \<open>
  C12. Creating a room, from the menu to the start of the signaling connection. The task of the button leaves the store alone. It ends with the
  page about to connect to the node the decision names, with the session, the intent to create and a token for them; or with
  the text of the refusal shown in the menu, and the start of the page unchanged.
\<close>

theorem page_gets_start:
  fixes s :: "('v, 'w) app_scheme"
  assumes "json_text (put_json N) (get_json N)" "conn_world E view" "http B = behind_page (wired_http N E cfg)"
    and "st = view (app.more s)" "is_hash st SUPERVISOR_HEARTBEAT_KEY" "is_hash st (session_key new_session)"
    and "is_zset st SIGNALING_NODES_KEY" "is_zset st SIGNALING_INSTANCE_LOAD_KEY"
    and "t1 = fst (unix_time E (snd (get_supervisor_status E (app.more s))))"
    and "w1 = snd (conn_session_get E new_session (snd (check_supervisor_freshness E cfg (app.more s))))"
    and "t2 = fst (unix_time E (snd (load_signaling_loads E w1)))"
    and "t = snd (create_task B new_session s)"
  shows "view (app.more t) = st \<and> \<not> menu_busy (menu_form t)
    \<and> (case create_decision st cfg (conn_uuid_ok E new_session) t1 t2 new_session of
         Inl e \<Rightarrow> action_error (menu_form t) = Some (snd (conn_map_error e)) \<and> signaling_start t = signaling_start s
       | Inr (nick, inst) \<Rightarrow> \<exists>claims. i_session_id claims = new_session \<and> i_nickname claims = nick \<and> i_signaling_instance_id claims = sig_id inst
           \<and> i_intent claims = ''create'' \<and> i_room_id claims = None
           \<and> (case jwt_encode E claims (token_secret cfg) of
                None \<Rightarrow> action_error (menu_form t) = Some ''Failed to issue token'' \<and> signaling_start t = signaling_start s
              | Some tok \<Rightarrow> app_error t = None \<and> signaling_start t = Some \<lparr>start_url = ws_url inst, start_session_id = new_session,
                  start_token = tok, start_intent = IntentCreate\<rparr>))"
proof -
  define w2 where "w2 = snd (select_least_loaded_signaling E cfg w1)"
  note typed = assms(5-8) [unfolded assms(4)]
  note eval = conn_world.create_eval [OF assms(2) typed assms(9-11) w2_def]
  note task = joined_ends.create_task_eval [OF joined_ends.intro [OF assms(1)] assms(3), of new_session s]
  show ?thesis
  proof (cases "create_decision st cfg (conn_uuid_ok E new_session) t1 t2 new_session")
    case (Inl e)
    then show ?thesis using eval by (simp add: assms(4,12) task)
  next
    case (Inr d)
    obtain nick inst where d: "d = (nick, inst)" by (cases d)
    obtain claims where c: "i_session_id claims = new_session" "i_nickname claims = nick" "i_signaling_instance_id claims = sig_id inst"
      "i_intent claims = ''create''" "i_room_id claims = None"
      "fst (issue_signaling_token E cfg new_session nick (sig_id inst) ''create'' None w2) =
         (case jwt_encode E claims (token_secret cfg) of None \<Rightarrow> Inl Token | Some tok \<Rightarrow> Inr tok)"
      by (rule conn_world.issue_eval [OF assms(2)])
    have made: "fst (create E cfg new_session (app.more s)) = (case jwt_encode E claims (token_secret cfg) of None \<Rightarrow> Inl Token
        | Some tok \<Rightarrow> Inr \<lparr>signaling_url = ws_url inst, ready_session_id = new_session, ready_token = tok\<rparr>)"
      using eval(1) Inr d c(6) by (simp add: assms(4) split: option.split)
    have "case jwt_encode E claims (token_secret cfg) of
        None \<Rightarrow> action_error (menu_form t) = Some ''Failed to issue token'' \<and> signaling_start t = signaling_start s
      | Some tok \<Rightarrow> app_error t = None \<and> signaling_start t = Some \<lparr>start_url = ws_url inst, start_session_id = new_session,
          start_token = tok, start_intent = IntentCreate\<rparr>"
      unfolding assms(12) task made
      by (simp add: conn_map_error_def signaling_start_new_def client_ready_def split: option.split)
    moreover have "view (app.more t) = st \<and> \<not> menu_busy (menu_form t)"
      unfolding assms(12) task using eval(3) by (simp add: assms(4) split: sum.split)
    ultimately show ?thesis using c(1-5) Inr d by auto
  qed
qed

section \<open>Witnesses\<close>

text \<open>A browser that does nothing, a page that was just loaded, and the connector of the small deployment behind it.\<close>

definition idle_browser :: "('w, unit) browser" where
  "idle_browser = \<lparr>js_as_string = (\<lambda>_. None), js_stringify = (\<lambda>_. None), out_json = (\<lambda>_. Inl []), in_json = (\<lambda>_. Inl []),
     socket_open = (\<lambda>_. okM ()), socket_send = (\<lambda>_ _. okM ()), socket_handlers = (\<lambda>_ _. retM ()), socket_close = (\<lambda>_. retM ()),
     js_string = (\<lambda>_. ()), js_number = (\<lambda>_. ()), js_bool = (\<lambda>_. ()), js_null = (), js_undefined = (), js_object = retM (),
     js_array = (\<lambda>_. retM ()), js_get = (\<lambda>_ _. okM ()), js_set = (\<lambda>_ _ _. okM True), js_apply = (\<lambda>_ _ _. okM ()), js_await = okM,
     js_debug = (\<lambda>_. []), is_function = (\<lambda>_. False), is_promise = (\<lambda>_. False), is_stream = (\<lambda>_. False), is_track = (\<lambda>_. False),
     js_window = None, media_devices = okM, user_media_promise = (\<lambda>_ _ _. okM ()), new_stream = okM (), stream_tracks = (\<lambda>_. retM []),
     audio_tracks = (\<lambda>_. retM []), video_tracks = (\<lambda>_. retM []), add_track = (\<lambda>_ _. retM ()), track_kind = (\<lambda>_. []),
     track_id = (\<lambda>_. []), track_stop = (\<lambda>_. retM ()), new_connection = (\<lambda>_. okM ()), create_offer = (\<lambda>_. retM ()),
     set_local_description = (\<lambda>_ _ _. retM ()), set_remote_description = (\<lambda>_ _ _. retM ()), close_connection = (\<lambda>_. retM ()),
     console_error = (\<lambda>_. retM ()), spawn_local = (\<lambda>m. m)\<rparr>"

definition idle_page :: "('w, 'q) http_stack_scheme \<Rightarrow> ('w, 'z) conn_env_scheme \<Rightarrow> ConnectorConfig
    \<Rightarrow> ((unit, 'w) app_scheme, unit) page_env" where
  "idle_page N E cfg = browser.extend idle_browser
     \<lparr>http = behind_page (wired_http N E cfg), prefers_dark = False, set_html_class = (\<lambda>_. retM ()), set_interval = (\<lambda>_ _. retM ()),
      clear_interval = (\<lambda>_. retM ()), listen_pagehide = (\<lambda>_. retM ()), unlisten_pagehide = (\<lambda>_. retM ())\<rparr>"

lemma idle_page_http: "http (idle_page N E cfg) = behind_page (wired_http N E cfg)"
  by (simp add: idle_page_def idle_browser_def browser.defs)

definition loaded_page :: "'w \<Rightarrow> (unit, 'w) app_scheme" where
  "loaded_page w = \<lparr>cells = (\<lambda>_. fresh_cells None None None), next_sid = 0, settings = default_settings, screen = NicknameScreen,
     session_id = None, handoff_complete = False, signaling_ws_connected = False, signaling_start = None, signaling_client = None,
     active_room = None, app_error = None, media_error = None, webrtc_session = None, skip_media_apply = False, local_media_rev = 0,
     remote_streams = Map.empty, nickname_form = \<lparr>nick_value = [], nick_error = None, attempted_submit = False, is_submitting = False\<rparr>,
     menu_form = \<lparr>action_error = None, menu_busy = False\<rparr>, join_form = \<lparr>room_target = [], join_error = None, join_busy = False\<rparr>,
     \<dots> = w\<rparr>"

theorem page_signs_in_witness:
  "let B = idle_page demo_stack mem_conn_env demo_conn_config; s = loaded_page conn_demo_world;
       t = snd (nickname_submit_task B ''bob'' s); u = snd (nickname_submit_task B ''ann'' s) in
   app.session_id t = Some (mem_uuid 0) \<and> screen t = MainMenuScreen \<and> nick_error (nickname_form u) = Some ''Nickname already taken''"
proof -
  have new: "mem_uuid 0 = fst (new_uuid mem_conn_env (app.more (loaded_page conn_demo_world)))"
    by (simp add: loaded_page_def mem_new_uuid_def conn_demo_world_def sig_demo_world_def)
  have "mem_uuid 0 \<noteq> ''s1''" by (simp add: mem_uuid_def)
  then have free: "mem_view (app.more (loaded_page conn_demo_world)) (session_key (mem_uuid 0)) = None"
    by (simp add: loaded_page_def conn_demo_view)
  have names: "client_validate_nickname ''bob'' = Inr ()" "client_validate_nickname ''ann'' = Inr ()"
    by (simp_all add: client_validate_nickname_def validate_charset_def validate_no_whitespace_def result_then_def
        ascii_nickname_chars_only_def validate_shape_when_nonempty_def utf8_len_def MIN_NICKNAME_LEN_def MAX_NICKNAME_LEN_def
        is_whitespace_def is_ascii_alphanumeric_def)
  have life: "1000 \<le> conn_session_ttl demo_conn_config" "conn_session_ttl demo_conn_config div 1000 < 2 ^ 63"
    by (simp_all add: demo_conn_config_def)
  note signs = page_signs_in [OF demo_ends.texts mem_conn.conn_world_axioms idle_page_http _ new free life refl]
  show ?thesis
    using signs [OF names(1)] signs [OF names(2)] by (simp add: loaded_page_def conn_demo_view Let_def)
qed

theorem page_gets_start_witness:
  "let B = idle_page demo_stack mem_conn_env demo_conn_config; t = snd (create_task B ''s1'' (loaded_page conn_demo_world)) in
   map_option start_url (signaling_start t) = Some ''ws://h1'' \<and> map_option start_intent (signaling_start t) = Some IntentCreate"
proof -
  have more: "app.more (loaded_page conn_demo_world) = conn_demo_world" by (simp add: loaded_page_def)
  note start = page_gets_start [OF demo_ends.texts mem_conn.conn_world_axioms idle_page_http refl,
      where s = "loaded_page conn_demo_world" and new_session = "''s1''", unfolded more,
      OF conn_demo_view(4) conn_demo_typed(1) conn_demo_view(6,7) demo_times(1) refl demo_times(2) refl]
  show ?thesis using start [unfolded demo_decision] by (auto simp: Let_def)
qed

end
