(* ===== verification/Page_Shows.thy ===== *)
theory Page_Shows
  imports Page_Screens Client_Room_Pages Page_Calls
begin

text \<open>
  What the drawn page does: which voices it plays, where its arrows lead, and what its buttons do.
\<close>

section \<open>Drawing\<close>

text \<open>The elements of a tree that play sound are the videos that are not muted; \<open>aloud\<close> are their labels.\<close>

definition sounding :: "string \<times> (string \<times> 's attr) list \<Rightarrow> bool" where
  "sounding e \<longleftrightarrow> fst e = ''video'' \<and> (case map_of (snd e) ''muted'' of Some (Flag b) \<Rightarrow> \<not> b | _ \<Rightarrow> True)"

definition voice :: "string \<times> (string \<times> 's attr) list \<Rightarrow> string" where
  "voice e = (case map_of (snd e) ''aria-label'' of Some (Val v) \<Rightarrow> v | _ \<Rightarrow> [])"

definition aloud :: "('s, 'c) html \<Rightarrow> string list" where
  "aloud doc = map voice (filter sounding (elems doc))"

lemma aloud_simps [simp]:
  "aloud (Elem tag attrs kids) = (if sounding (tag, attrs) then [voice (tag, attrs)] else []) @ concat (map aloud kids)"
  "aloud (Txt t) = []" "aloud (Sym n) = []" "aloud (Comp c) = []"
proof -
  have "map voice (filter sounding (concat (map elems kids))) = concat (map (\<lambda>k. map voice (filter sounding (elems k))) kids)"
    by (induction kids) simp_all
  then show "aloud (Elem tag attrs kids) = (if sounding (tag, attrs) then [voice (tag, attrs)] else []) @ concat (map aloud kids)"
    by (simp add: aloud_def [abs_def])
qed (simp_all add: aloud_def)

definition has_tracks :: "('s, 'v, 'z) browser_scheme \<Rightarrow> ('v \<Rightarrow> 'v list) \<Rightarrow> 'v option \<Rightarrow> bool" where
  "has_tracks B tracks media = (case media of None \<Rightarrow> False | Some js \<Rightarrow> is_stream B js \<and> tracks js \<noteq> [])"

text \<open>A drawing that leaves the state as it is.\<close>

lemma expand_keeps:
  "(\<And>c s. snd (d c s) = s) \<Longrightarrow> snd (expand n d doc s) = s"
  "(\<And>c s. snd (d c s) = s) \<Longrightarrow> snd (expands n d docs s) = s"
  by (induction n d doc and n d docs arbitrary: s and s rule: expand_expands.induct) (simp_all add: bindM_def retM_def)

locale still_drawing =
  fixes d :: "'c \<Rightarrow> ('s, ('s, 'c) html) act"
  assumes still: "\<And>c s. snd (d c s) = s"
begin

lemma expand_still: "snd (expand n d doc s) = s" "snd (expands n d docs s) = s"
  by (simp_all add: expand_keeps still)

lemma expand_steps:
  "fst (expand n d (Elem tag attrs kids) s) = Elem tag attrs (map (\<lambda>k. fst (expand n d k s)) kids)"
  "fst (expand n d (Txt t) s) = Txt t" "fst (expand n d (Sym k) s) = Sym k"
  "fst (expand (Suc n) d (Comp c) s) = fst (expand n d (fst (d c s)) s)"
proof -
  have "fst (expands n d kids s) = map (\<lambda>k. fst (expand n d k s)) kids"
    by (induction kids) (simp_all add: bindM_def retM_def expand_still)
  then show "fst (expand n d (Elem tag attrs kids) s) = Elem tag attrs (map (\<lambda>k. fst (expand n d k s)) kids)"
    by (simp add: bindM_def retM_def)
qed (simp_all add: bindM_def retM_def still)

end

text \<open>The drawing of the page, when reading the tracks of a stream changes nothing.\<close>

lemma still_tile:
  assumes "\<And>js s. video_tracks B js s = (tracks js, s)"
  shows "media_stream_has_video B media s = (has_tracks B tracks media, s)"
  by (simp add: media_stream_has_video_def has_tracks_def bindM_def retM_def assms split: option.splits)

lemma still_page:
  assumes "\<And>js s. video_tracks B js s = (tracks js, s)"
  shows "still_drawing (draw B s)"
  by unfold_locales (simp add: draw_def participant_tile_def bindM_def retM_def still_tile [OF assms] split: component.splits)

section \<open>Voices\<close>

lemma aloud_icons [simp]:
  "aloud settings_gear_icon = []" "aloud (page_arrow_chevron b) = []"
  by (simp_all add: settings_gear_icon_def page_arrow_chevron_def svg_icon_def svg_path_def sounding_def)

text \<open>The voices of a document as the page draws it, up to \<open>n\<close> components deep.\<close>

definition voices :: "(('v, 'x) shown_scheme, 'v, 'z) view_env_scheme \<Rightarrow> ('v, 'x) shown_scheme \<Rightarrow> nat \<Rightarrow> (('v, 'x) shown_scheme, 'v) doc \<Rightarrow> string list" where
  "voices B s n doc = aloud (fst (expand n (draw B s) doc s))"

lemma voices_steps:
  assumes "\<And>js s. video_tracks B js s = (tracks js, s)"
  shows "voices B s n (Elem tag attrs kids) = (if sounding (tag, attrs) then [voice (tag, attrs)] else []) @ concat (map (voices B s n) kids)"
    "voices B s n (Txt t) = []" "voices B s n (Sym k) = []" "voices B s (Suc n) (Comp c) = voices B s n (fst (draw B s c s))"
  by (simp_all add: voices_def [abs_def] still_drawing.expand_steps [OF still_page [OF assms]] comp_def del: expand.simps)

lemma voices_small:
  assumes "\<And>js s. video_tracks B js s = (tracks js, s)"
  shows "voices B s (Suc n) (Comp (ParticipantTileC p)) = (if has_tracks B tracks (tp_media p) \<and> \<not> tp_mute p then [tp_name p @ '' camera''] else [])"
    "voices B s (Suc n) (Comp (PresentationStageC caption media)) = []"
    "voices B s (Suc n) (Comp (ThemeToggleC t f)) = []"
  by (simp_all add: voices_steps [OF assms] draw_def participant_tile_def presentation_stage_def theme_toggle_def still_tile [OF assms]
    bindM_def retM_def sounding_def voice_def css_def label_def tag_attr_def cut_text_def shown_if_def)

lemmas attr_defs = css_def label_def tag_attr_def click_def

text \<open>No element but a video sounds.\<close>

lemma sounding_tag [simp]: "tag \<noteq> ''video'' \<Longrightarrow> \<not> sounding (tag, attrs)"
  by (simp add: sounding_def)

lemma concat_map_nil: "(\<And>x. x \<in> set xs \<Longrightarrow> f x = []) \<Longrightarrow> concat (map f xs) = []"
  by simp

lemma voices_panel:
  assumes "\<And>js s. video_tracks B js s = (tracks js, s)"
  shows "voices B s (Suc (Suc n)) (Comp (SettingsPanelC p)) = []"
proof -
  note v = voices_steps(1-3) [OF assms] voices_small [OF assms]
  have l: "voices B s m (render_device_list ds sel f) = []" for m ds sel and f :: "string \<Rightarrow> (('a, 'b) shown_scheme, unit) act"
    by (simp add: v render_device_list_def device_button_def)
  have d: "voices B s m (panel_devices s p) = []" for m
    by (simp add: panel_devices_def l split: DeviceKind.split)
  show ?thesis
    by (subst voices_steps(4) [OF assms]) (auto simp: v d draw_def retM_def settings_panel_def Let_def tab_button_def quick_button_def control_button_def level_slider_def shown_if_def
      split: option.splits)
qed

lemma voices_tiles:
  assumes "\<And>js s. video_tracks B js s = (tracks js, s)"
  shows "concat (map (voices B s (Suc n)) (slice_tiles ps w h rail)) =
    map (\<lambda>(name, media, me). name @ '' camera'') (filter (\<lambda>(name, media, me). has_tracks B tracks media \<and> \<not> me) ps)"
  by (induction ps) (auto simp: slice_tiles_def voices_small [OF assms] split: if_splits)

lemma voices_room:
  assumes "\<And>js s. video_tracks B js s = (tracks js, s)"
  shows "voices B s (Suc (Suc (Suc n))) (Comp (RoomC p)) =
    map (\<lambda>(name, media, me). name @ '' camera'') (filter (\<lambda>(name, media, me). has_tracks B tracks media \<and> \<not> me) (room_tiles s p))"
proof -
  note v = voices_steps(1-3) [OF assms] voices_small [OF assms]
  have i: "voices B s m settings_gear_icon = []" "voices B s m (page_arrow_chevron b) = []" for m b
    by (simp_all add: v settings_gear_icon_def page_arrow_chevron_def svg_icon_def svg_path_def)
  have a: "voices B s m (page_arrow style off name turn left) = []" for m style off name left and turn :: "(('a, 'b) shown_scheme, unit) act"
    by (simp add: page_arrow_def v i)
  have area: "voices B s (Suc (Suc n)) (room_area s p) =
      map (\<lambda>(name, media, me). name @ '' camera'') (filter (\<lambda>(name, media, me). has_tracks B tracks media \<and> \<not> me) (room_tiles s p))"
    by (simp add: room_area_def Let_def view_presentation_def view_tiles_def v a shown_if_def voices_tiles [OF assms] split: prod.split)
  show ?thesis
    by (subst voices_steps(4) [OF assms]) (auto simp: v draw_def retM_def room_screen_def room_id_chip_def settings_button_def i area room_controls_def Let_def
      quick_button_def control_button_def cut_text_def settings_dialog_def voices_panel [OF assms] shown_if_def split: option.split)
qed

lemma tiles_of_slice:
  "view_participants names start end' (map f names) me = map (\<lambda>name. (name, f name, name = me)) (take (end' - start) (drop start names))"
  by (rule nth_equalityI) (auto simp: view_participants_def)

text \<open>
  C15. The voices of a call. On the room screen, drawn with all its components, exactly these videos play sound: the cameras
  of the other participants of the page shown, when their stream has a video track. One's own voice never plays, nor
  the shared screen, nor a participant of another page or one whose stream has sound only.
\<close>
theorem page_plays:
  assumes "\<And>js s. video_tracks B js s = (tracks js, s)" "screen s = RoomScreen" "active_room s = Some room"
  shows "aloud (fst (page_html B s s)) = map (\<lambda>name. name @ '' camera'')
    (filter (\<lambda>name. name \<noteq> your_nickname room \<and> has_tracks B tracks (case remote_streams s name of None \<Rightarrow> None | Some media \<Rightarrow> camera media))
      (case room_slice s (room_props B s room) of (start, end', _) \<Rightarrow> take (end' - start) (drop start (participants room))))"
proof -
  have "aloud (fst (page_html B s s)) = voices B s (Suc (Suc (Suc 1))) (Comp (RoomC (room_props B s room)))"
    by (simp add: page_html_def voices_def app_view_def assms(2,3) numeral_eq_Suc del: expand.simps)
  also have "\<dots> = map (\<lambda>(name, media, me). name @ '' camera'')
      (filter (\<lambda>(name, media, me). has_tracks B tracks media \<and> \<not> me) (room_tiles s (room_props B s room)))"
    by (rule voices_room) (rule assms(1))
  finally show ?thesis
    by (auto simp: room_tiles_def room_props_def participant_media_def tiles_of_slice filter_map comp_def cong: conj_cong split: prod.split)
qed

section \<open>Buttons\<close>

text \<open>What a click with this label does in a tree, if anything bears the label.\<close>

definition handler :: "string \<times> (string \<times> 's attr) list \<Rightarrow> ('s, unit) act" where
  "handler e = (case (map_of (snd e) ''disabled'', map_of (snd e) ''onclick'') of
     (Some (Flag True), _) \<Rightarrow> retM () | (_, Some (On f)) \<Rightarrow> f | _ \<Rightarrow> retM ())"

definition hits :: "string \<Rightarrow> ('s, 'c) html list \<Rightarrow> ('s, unit) act option" where
  "hits name docs = map_option handler (find (labelled name) (concat (map elems docs)))"

lemma find_app: "find P (xs @ ys) = (case find P xs of None \<Rightarrow> find P ys | Some x \<Rightarrow> Some x)"
  by (induction xs) simp_all

lemma press_hits: "press name doc = (case hits name [doc] of None \<Rightarrow> retM () | Some f \<Rightarrow> f)"
  by (simp add: press_def hits_def handler_def split: option.split)

lemma hits_steps:
  "hits name [] = None" "hits name (Txt t # ks) = hits name ks" "hits name (Sym n # ks) = hits name ks"
  "hits name (Comp c # ks) = hits name ks"
  "hits name (Elem tag attrs kids # ks) = (if labelled name (tag, attrs) then Some (handler (tag, attrs))
     else case hits name kids of None \<Rightarrow> hits name ks | Some f \<Rightarrow> Some f)"
  "hits name (ks @ ks') = (case hits name ks of None \<Rightarrow> hits name ks' | Some f \<Rightarrow> Some f)"
  by (simp_all add: hits_def find_app split: option.split)

lemma hits_cons: "hits name (k # ks) = (case hits name [k] of None \<Rightarrow> hits name ks | Some f \<Rightarrow> Some f)"
  by (simp add: hits_def find_app split: option.split)

lemma hits_tiles: "hits name (slice_tiles ps w h rail) = None"
  by (induction ps) (auto simp: slice_tiles_def hits_steps)

lemma hits_icons:
  "hits name [settings_gear_icon] = None" "hits name [page_arrow_chevron b] = None" "hits name (cut_text t) = None"
  by (simp_all add: settings_gear_icon_def page_arrow_chevron_def svg_icon_def svg_path_def svg_ns_def hits_steps labelled_def
    attr_defs shown_if_def cut_text_def)

text \<open>The parts of the room.\<close>

lemma hits_parts:
  "hits name [quick_button styles b turn what title icon src] = (if what = name then Some turn else None)"
  "hits name [control_button style turn what title icon src] = (if what = name then Some turn else None)"
  "hits name [settings_button style f] = (if name = ''Settings'' then Some f else None)"
  "hits name [room_id_chip B s room] = (if name = ''Copy room ID'' then Some (on_copy_room_id B room) else None)"
  "hits name [page_arrow style off what turn left] = (if what = name then Some (if off then retM () else turn) else None)"
  by (auto simp: quick_button_def control_button_def settings_button_def room_id_chip_def page_arrow_def hits_steps hits_icons labelled_def handler_def
    attr_defs)
definition mic_label :: "SettingsState \<Rightarrow> string" where
  "mic_label c = (if mic_enabled c then ''Mute microphone'' else ''Unmute microphone'')"
definition camera_label :: "SettingsState \<Rightarrow> string" where
  "camera_label c = (if camera_enabled c then ''Turn camera off'' else ''Turn camera on'')"
definition share_label :: "bool \<Rightarrow> string" where
  "share_label sharing = (if sharing then ''Stop sharing screen'' else ''Share screen'')"

text \<open>The labels of the arrows, and what they do; the other labels of the area belong to its sections.\<close>

definition arrow_action :: "string \<Rightarrow> ('v, 'x) room_page_scheme \<Rightarrow> (('v, 'x) room_page_scheme, 'v) RoomProps \<Rightarrow> (('v, 'x) room_page_scheme, unit) act option" where
  "arrow_action name s p = (if \<not> snd (snd (room_slice s p)) then None
     else if name = ''Previous participants'' then Some (if room_page_shown s p = 0 then retM () else turn_prev s)
     else if name = ''Next participants'' then Some (if room_page_shown s p + 1 \<ge> room_pages s p then retM () else turn_next s (room_pages s p))
     else None)"

lemma pages_of_grid: "\<not> room_presents s p \<Longrightarrow> page_count (fst (room_layout s p)) = room_pages s p"
  by (simp add: room_pages_def room_page_count_def)

lemma hits_shown: "hits name (shown_if c x) = (if c then hits name [x] else None)"
  by (simp add: shown_if_def hits_steps)

lemma hits_views:
  assumes "name \<noteq> ''Participants''" "name \<noteq> ''Screen share''"
  shows "hits name [view_tiles ps layout style arrows page prev nxt] =
      (if arrows \<and> name = ''Previous participants'' then Some (if page = 0 then retM () else prev)
       else if arrows \<and> name = ''Next participants'' then Some (if page + 1 \<ge> page_count layout then retM () else nxt) else None)"
    "hits name [view_presentation caption ps media style h arrows page pages prev nxt] =
      (if arrows \<and> name = ''Previous participants'' then Some (if page = 0 then retM () else prev)
       else if arrows \<and> name = ''Next participants'' then Some (if page + 1 \<ge> pages then retM () else nxt) else None)"
  using assms by (simp_all add: view_tiles_def view_presentation_def hits_steps hits_shown hits_tiles hits_parts labelled_def attr_defs)

lemma hits_area:
  assumes "name \<noteq> ''Participants''" "name \<noteq> ''Screen share''"
  shows "hits name [room_area s p] = arrow_action name s p"
proof -
  obtain a e arrows where r: "room_slice s p = (a, e, arrows)" by (cases "room_slice s p")
  show ?thesis
    by (cases "room_presents s p") (auto simp: room_area_def r Let_def hits_views [OF assms] arrow_action_def pages_of_grid)
qed

lemma hits_four: "hits name [a, b, c, d] = (case hits name [a] of Some f \<Rightarrow> Some f | None \<Rightarrow>
    case hits name [b] of Some f \<Rightarrow> Some f | None \<Rightarrow> case hits name [c] of Some f \<Rightarrow> Some f | None \<Rightarrow> hits name [d])"
  using hits_cons [of name a "[b, c, d]"] hits_cons [of name b "[c, d]"] hits_cons [of name c "[d]"]
  by (simp split: option.split)

lemma hits_controls:
  assumes "name \<noteq> ''Call controls''"
  shows "hits name [room_controls B s p] =
    (if name = mic_label (rp_settings p) then Some (cb_mic (rp_calls p))
     else if name = camera_label (rp_settings p) then Some (cb_camera (rp_calls p))
     else if name = share_label (screen_sharing s) then Some (room_toggle_screen B s p)
     else if name = ''End call'' then Some (rp_end_call p) else None)"
proof -
  have outer: "hits name [Elem tag [css st, label ''Call controls''] kids] = hits name kids" for tag st kids
    using assms by (simp add: hits_steps labelled_def attr_defs split: option.split)
  show ?thesis
    by (auto simp: room_controls_def Let_def outer hits_four hits_parts mic_label_def camera_label_def share_label_def)
qed

text \<open>Every button of the room.\<close>

lemma press_room:
  assumes "name \<noteq> ''Participants''" "name \<noteq> ''Screen share''" "name \<noteq> ''Call controls''"
  shows "press name (room_screen B s p) =
    (if name = ''Copy room ID'' then on_copy_room_id B (rp_room_id p)
     else if name = ''Settings'' then modM (\<lambda>s. s\<lparr>is_settings_open := True\<rparr>)
     else case arrow_action name s p of Some f \<Rightarrow> f
       | None \<Rightarrow> (case hits name [room_controls B s p] of Some f \<Rightarrow> f | None \<Rightarrow> retM ()))"
proof -
  have outer: "hits name [Elem tag [css st] kids] = hits name kids" for tag st and kids :: "(('a, 'b) room_page_scheme, 'a) doc list"
    by (simp add: hits_steps labelled_def attr_defs split: option.split)
  have two: "hits name [k, k'] = (case hits name [k] of None \<Rightarrow> hits name [k'] | Some f \<Rightarrow> Some f)" for k k' :: "(('a, 'b) room_page_scheme, 'a) doc"
    by (rule hits_cons)
  have three: "hits name [k, k', k''] = (case hits name [k] of None \<Rightarrow> hits name [k', k''] | Some f \<Rightarrow> Some f)" for k k' k'' :: "(('a, 'b) room_page_scheme, 'a) doc"
    by (rule hits_cons)
  have warning: "hits name (case e of None \<Rightarrow> []
      | Some m \<Rightarrow> [Elem ''div'' [css st, tag_attr ''role'' r, tag_attr ''aria-live'' l] [Txt m]]) = None" for e st r l
    by (simp add: hits_steps labelled_def attr_defs split: option.split)
  have dialog: "hits name (shown_if c (settings_dialog f x y)) = None" for c x y and f :: "(('a, 'b) room_page_scheme, unit) act"
    by (simp add: hits_steps hits_shown settings_dialog_def)
  have "hits name [room_screen B s p] = hits name
      [room_id_chip B s (rp_room_id p),
       Elem ''div'' [css ''room-page__actions room-page__actions--floating'']
        [settings_button ''room-page__icon-btn room-page__icon-btn--settings'' (modM (\<lambda>s. s\<lparr>is_settings_open := True\<rparr>))],
       Elem ''main'' [css ''room-page__main'']
        [Elem ''div'' [css ''room-page__viewport-fill''] [room_area s p], room_controls B s p]]"
    unfolding room_screen_def outer by (simp only: hits_steps(6) warning dialog option.case) (simp split: option.split)
  then show ?thesis
    by (simp add: press_hits three two outer hits_parts hits_area assms split: option.split)
qed

text \<open>
  C16. The buttons of the call do what they say. On the room screen of the page the microphone and the camera button flip
  exactly their setting, and pressing the button that then stands there brings the state of before back; the
  share button starts or stops the share, and the others leave the room, open the settings and copy the id of the room.
\<close>
theorem room_buttons:
  "let doc = (\<lambda>s. room_screen B s (room_props B s room));
       mic = (\<lambda>s. snd (press (mic_label (settings s)) (doc s) s)); cam = (\<lambda>s. snd (press (camera_label (settings s)) (doc s) s)) in
     mic s = s\<lparr>settings := (settings s)\<lparr>mic_enabled := \<not> mic_enabled (settings s)\<rparr>\<rparr>
   \<and> cam s = s\<lparr>settings := (settings s)\<lparr>camera_enabled := \<not> camera_enabled (settings s)\<rparr>\<rparr>
   \<and> mic (mic s) = s \<and> cam (cam s) = s
   \<and> press (share_label (screen_sharing s)) (doc s)
       = on_toggle_screen B s (on_screen_share_started B s) (on_screen_share_stopped B s) on_share_error
   \<and> press ''End call'' (doc s) = on_back_to_main_menu B s
   \<and> press ''Settings'' (doc s) = modM (\<lambda>s. s\<lparr>is_settings_open := True\<rparr>)
   \<and> press ''Copy room ID'' (doc s) = on_copy_room_id B (room_name room)"
proof -
  have n: "mic_label c \<notin> {''Participants'', ''Screen share'', ''Call controls'', ''Copy room ID'', ''Settings'', ''Previous participants'', ''Next participants''}"
    "camera_label c \<notin> {''Participants'', ''Screen share'', ''Call controls'', ''Copy room ID'', ''Settings'', ''Previous participants'', ''Next participants''}"
    "share_label b \<notin> {''Participants'', ''Screen share'', ''Call controls'', ''Copy room ID'', ''Settings'', ''Previous participants'', ''Next participants''}"
    "camera_label c \<noteq> mic_label c" "share_label b \<noteq> mic_label c" "share_label b \<noteq> camera_label c"
    "''End call'' \<noteq> mic_label c" "''End call'' \<noteq> camera_label c" "''End call'' \<noteq> share_label b" for c b
    by (auto simp: mic_label_def camera_label_def share_label_def)
  have p: "rp_settings (room_props B s room) = settings s" "cb_mic (rp_calls (room_props B s room)) = on_toggle_mic s"
    "cb_camera (rp_calls (room_props B s room)) = on_toggle_camera s" "rp_end_call (room_props B s room) = on_back_to_main_menu B s"
    "rp_room_id (room_props B s room) = room_name room" for s
    by (simp_all add: room_props_def page_calls_def)
  have off: "arrow_action name s q = None" if "name \<notin> {''Previous participants'', ''Next participants''}" for name s q
    using that by (simp add: arrow_action_def)
  have t: "press (mic_label (settings s)) (room_screen B s (room_props B s room)) = on_toggle_mic s"
    "press (camera_label (settings s)) (room_screen B s (room_props B s room)) = on_toggle_camera s" for s
    using n(1,2) [of "settings s"] by (simp_all add: press_room off hits_controls p n(4))
  have r: "press (share_label (screen_sharing s)) (room_screen B s (room_props B s room)) = room_toggle_screen B s (room_props B s room)"
    using n(3) [of "screen_sharing s"] by (simp add: press_room off hits_controls p n(5,6))
  show ?thesis
    unfolding Let_def t r
    by (simp add: press_room off hits_controls p n(7-9) on_toggle_mic_def on_toggle_camera_def change_settings_def modM_def
      room_toggle_screen_def room_props_def)
qed

section \<open>Pages\<close>

lemma arrows_shown:
  "snd (snd (room_slice s p)) \<longleftrightarrow> room_pages s p > 1"
proof -
  let ?n = "length (rp_participants p)"
  have "snd (resolve_participant_layout w h n) \<longleftrightarrow> page_count (fst (resolve_participant_layout w h n)) > 1" for w h n
    by (simp add: resolve_participant_layout_def Let_def paged_counts TILES_PER_PAGE_def GRID_ROWS_def GRID_COLS_def)
  then show ?thesis
    by (simp add: room_slice_def visible_range_def room_pages_def room_page_count_def room_layout_def Let_def)
qed

text \<open>Turning a page changes the index only, and what the room derives does not depend on it.\<close>

lemma derived_same [simp]:
  "room_presents (s\<lparr>page_index := i\<rparr>) p = room_presents s p" "room_layout (s\<lparr>page_index := i\<rparr>) p = room_layout s p"
  "room_pages (s\<lparr>page_index := i\<rparr>) p = room_pages s p"
  by (simp_all add: room_presents_def shows_presentation_def room_layout_def room_pages_def)

lemma press_next:
  "press ''Next participants'' (room_screen B s p) =
     (if room_page_shown s p + 1 < room_pages s p then turn_next s (room_pages s p) else retM ())"
  by (simp add: press_room arrow_action_def arrows_shown hits_controls mic_label_def camera_label_def share_label_def)

lemma press_prev:
  "press ''Previous participants'' (room_screen B s p) =
     (if room_pages s p > 1 \<and> room_page_shown s p \<noteq> 0 then turn_prev s else retM ())"
  by (simp add: press_room arrow_action_def arrows_shown hits_controls mic_label_def camera_label_def share_label_def)

definition next_page :: "(('v, 'x) room_page_scheme, 'v, 'z) view_env_scheme \<Rightarrow> (('v, 'x) room_page_scheme, 'v) RoomProps
    \<Rightarrow> ('v, 'x) room_page_scheme \<Rightarrow> ('v, 'x) room_page_scheme" where
  "next_page B p s = snd (press ''Next participants'' (room_screen B s p) s)"

lemma next_page_step: "next_page B p (s\<lparr>page_index := i\<rparr>) = s\<lparr>page_index := if i + 1 < room_pages s p then i + 1 else i\<rparr>"
  by (auto simp: next_page_def press_next room_page_shown_def current_page_def turn_next_def on_page_next_def modM_def retM_def min_def)

lemma next_pages: "(next_page B p ^^ k) (s\<lparr>page_index := 0\<rparr>) = s\<lparr>page_index := min k (room_pages s p - 1)\<rparr>"
  by (induction k) (auto simp: next_page_step min_def)

lemma names_of_slice: "map fst (view_participants names start end' media me) = take (end' - start) (drop start names)"
  by (rule nth_equalityI) (auto simp: view_participants_def)

lemma tile_names:
  "map fst (room_tiles s p) = (case room_slice s p of (start, end', _) \<Rightarrow> take (end' - start) (drop start (rp_participants p)))"
  by (simp add: room_tiles_def names_of_slice split: prod.split)

text \<open>
  C34. The arrows reach everybody. From the first page, where the room starts, pressing the next arrow until the last page
  shows every participant exactly once, in their order, in the grid and beside a shared screen; at the end the arrow does
  nothing more, and the other arrow leads back page by page.
\<close>
theorem arrows_reach_everyone:
  "let first = s\<lparr>page_index := 0\<rparr>; turned = (\<lambda>k. (next_page B p ^^ k) first); pages = room_pages s p in
     concat (map (\<lambda>k. map fst (room_tiles (turned k) p)) [0..<pages]) = rp_participants p
   \<and> turned pages = turned (pages - 1)
   \<and> snd (press ''Previous participants'' (room_screen B (turned k) p) (turned k)) = turned (min k (pages - 1) - 1)"
proof -
  define pages where "pages = room_pages s p"
  have reached: "(next_page B p ^^ k) (s\<lparr>page_index := 0\<rparr>) = s\<lparr>page_index := min k (pages - 1)\<rparr>" for k
    by (simp add: next_pages pages_def)
  have slice: "room_slice (s\<lparr>page_index := k\<rparr>) p = visible_range (room_presents s p) (room_layout s p) (length (rp_participants p)) k"
    if "k < pages" for k
    using that by (simp add: room_slice_def room_page_shown_def current_page_def pages_def min_absorb1)
  have "concat (map (\<lambda>k. map fst (room_tiles ((next_page B p ^^ k) (s\<lparr>page_index := 0\<rparr>)) p)) [0..<pages]) =
      concat (map (\<lambda>k. case visible_range (room_presents s p) (room_layout s p) (length (rp_participants p)) k of
        (a, e, _) \<Rightarrow> take (e - a) (drop a (rp_participants p))) [0..<pages])"
    by (intro arg_cong [of _ _ concat] map_cong refl) (simp add: reached tile_names slice min_absorb1)
  also have "\<dots> = rp_participants p"
    using pages_partition [of "fst (tile_area_wh s)" "snd (tile_area_wh s)" "rp_participants p" "room_presents s p"]
    by (simp add: Let_def room_layout_def pages_def room_pages_def)
  finally have all: "concat (map (\<lambda>k. map fst (room_tiles ((next_page B p ^^ k) (s\<lparr>page_index := 0\<rparr>)) p)) [0..<pages]) = rp_participants p" .
  have returned: "snd (press ''Previous participants'' (room_screen B (s\<lparr>page_index := j\<rparr>) p) (s\<lparr>page_index := j\<rparr>)) = s\<lparr>page_index := j - 1\<rparr>"
    if "j \<le> pages - 1" for j
    using that by (cases "j = 0") (auto simp: press_prev room_page_shown_def current_page_def turn_prev_def on_page_prev_def
      modM_def retM_def pages_def)
  have "snd (press ''Previous participants'' (room_screen B ((next_page B p ^^ k) (s\<lparr>page_index := 0\<rparr>)) p)
      ((next_page B p ^^ k) (s\<lparr>page_index := 0\<rparr>))) = s\<lparr>page_index := min k (pages - 1) - 1\<rparr>"
    unfolding reached by (rule returned) simp
  with all show ?thesis by (simp add: Let_def reached flip: pages_def)
qed

section \<open>Witness\<close>

text \<open>A browser in which every value is a stream with one video track, and a call of three of whom one sends.\<close>

definition demo_view :: "((unit, unit) shown_scheme, unit) view_env" where
  "demo_view = browser.extend (idle_browser\<lparr>is_stream := \<lambda>_. True, video_tracks := \<lambda>_. retM [()]\<rparr>)
     \<lparr>http = \<lparr>connector_base_url = None, api_json = (\<lambda>_. Inl []), http_post = (\<lambda>_ _. failM [])\<rparr>, prefers_dark = False,
      set_html_class = (\<lambda>_. retM ()), set_interval = (\<lambda>_ _. retM ()), clear_interval = (\<lambda>_. retM ()), listen_pagehide = (\<lambda>_. retM ()),
      unlisten_pagehide = (\<lambda>_. retM ()), navigator_of = id, is_nullish = (\<lambda>_. False), array_values = (\<lambda>_. []), videos_in = (\<lambda>_. okM []),
      is_video = (\<lambda>_. True), write_clipboard = (\<lambda>_. retM ()), sleep_ms = (\<lambda>_. retM ()), node_of = (\<lambda>_. retM None),
      client_size = (\<lambda>_. retM (0, 0)), listen_resize = (\<lambda>_. retM ()), unlisten_resize = (\<lambda>_. retM ()), observe_size = (\<lambda>_ _. retM ()),
      disconnect_observer = (\<lambda>_. retM ()), set_muted = (\<lambda>_ _. retM ()), set_src_object = (\<lambda>_ _. retM ()), request_submit = (\<lambda>_. retM ()),
      logo_url = []\<rparr>"

definition demo_call :: "unit shown" where
  "demo_call = (loaded_page \<lparr>screen_sharing = False, screen_share_stream = None, copy_flash = False, tile_area_wh = (800, 600), page_index = 0,
      is_settings_open = False, menu_settings_open = False, join_settings_open = False, panel_tab = InputKind, panel_catalog = empty_catalog,
      panel_catalog_error = None, panel_camera_done = False\<rparr>)
     \<lparr>screen := RoomScreen, active_room := Some \<lparr>room_name = ''r'', your_nickname = ''me'', participants = [''me'', ''ann'', ''bob'']\<rparr>,
      remote_streams := [''ann'' \<mapsto> \<lparr>camera = Some (), screen_media = None\<rparr>]\<rparr>"

lemma demo_reads: "video_tracks demo_view js s = ([()], s)" "is_stream demo_view js"
  by (simp_all add: demo_view_def idle_browser_def browser.defs retM_def)

interpretation demo_drawing: still_drawing "draw demo_view s" for s
  by (rule still_page [of _ "\<lambda>_. [()]"]) (rule demo_reads)

lemma room_slice_counts:
  "room_slice s p = (let n = length (rp_participants p); k = (if room_presents s p then RAIL_TILES_PER_PAGE else TILES_PER_PAGE) in
     (room_page_shown s p * k, min (room_page_shown s p * k + k) n, room_pages s p > 1))"
  using arrows_shown [of s p] by (auto simp: room_slice_def visible_range_def room_layout_def resolved_counts Let_def)

theorem page_plays_witness:
  "aloud (fst (page_html demo_view demo_call demo_call)) = [''ann camera'']"
proof -
  let ?r = "\<lparr>room_name = ''r'', your_nickname = ''me'', participants = [''me'', ''ann'', ''bob'']\<rparr>"
  have c: "screen demo_call = RoomScreen" "active_room demo_call = Some ?r" "remote_streams demo_call = [''ann'' \<mapsto> \<lparr>camera = Some (), screen_media = None\<rparr>]"
    "page_index demo_call = 0" "screen_sharing demo_call = False"
    by (simp_all add: demo_call_def loaded_page_def)
  have v: "\<And>js s. video_tracks demo_view js s = ((\<lambda>_. [()]) js, s)" by (simp add: demo_reads)
  have "room_presents demo_call (room_props demo_view demo_call ?r) = False"
    by (simp add: room_presents_def shows_presentation_def room_props_def remote_presentation_def c)
  then have "\<exists>b. room_slice demo_call (room_props demo_view demo_call ?r) = (0, 3, b)"
    by (simp add: room_slice_counts room_page_shown_def current_page_def c Let_def TILES_PER_PAGE_def GRID_ROWS_def GRID_COLS_def room_props_def)
  then show ?thesis
    using page_plays [OF v c(1,2)] by (auto simp: c(3) has_tracks_def demo_reads(2))
qed

end
