(* ===== verification/Replies.thy ===== *)
theory Replies
  imports Signaling_Handlers
begin

text \<open>
  What a signaling node says on a socket: every message of a client that is handled to the end is answered exactly once, by the
  answer of its kind or by one error, and a candidate that is taken by none. The frames sent are an observation of
  the world (locale \<open>talking_world\<close>); a handler is taken apart into steps that are mute and the one step that speaks.
\<close>

section \<open>Steps that say nothing\<close>

text \<open>\<open>Q\<close> holds of the world whatever the node does except writing to the socket.\<close>

locale silent_world =
  fixes E :: "('w, 'z) sig_env_scheme" and Q :: "'w \<Rightarrow> bool"
  assumes silent_outside:
    "keeps Q (redis E c)" "keeps Q (unix_time E)" "keeps Q (new_uuid E)" "keeps Q (try_send E tx m)"
    "keeps Q (jwt_decode E token secret)" "keeps Q (sfu_connect E addr)" "keeps Q (sfu_rpc E ch req)"
begin

abbreviation Q_node :: "('w, 'y) node_scheme \<Rightarrow> bool" where
  "Q_node s \<equiv> Q (world s)"

lemma silent_conv:
  "keeps Q (as_int r)" "keeps Q (as_bool r)" "keeps Q (as_opt_string r)" "keeps Q (as_string r)" "keeps Q (as_list r)"
  "keeps Q (as_hash r)" "keeps Q (as_opt_score r)" "keeps Q (as_scores r)" "keeps Q (as_scan r)" "keeps Q (as_unit r)"
  by (simp_all add: keeps_def)

lemma silent_call: "(\<And>r. keeps Q (conv r)) \<Longrightarrow> keeps Q (scall E c conv)" "(\<And>r. keeps Q (conv' r)) \<Longrightarrow> keeps Q (call E c conv')"
  unfolding scall_def call_def by (intro keeps_intros silent_outside; simp)+

lemma silent_clock: "keeps Q (sig_unix_now E)"
  unfolding sig_unix_now_def by (rule silent_outside)

lemmas silent_base = keeps_intros silent_conv silent_call silent_clock silent_outside

lemma silent_session:
  "keeps Q (consume_jti E j ttl)" "keeps Q (session_set_owner E s owner)" "keeps Q (acquire_session_lock E s owner ttl)"
  "keeps Q (release_session_lock E s owner)" "keeps Q (release_nick_lease E n s)" "keeps Q (session_get E s)"
  "keeps Q (session_set_room E s room)" "keeps Q (session_delete E s)"
  "keeps Q (increment_instance_load E i)" "keeps Q (decrement_instance_load E i)"
  unfolding consume_jti_def session_set_owner_def acquire_session_lock_def release_session_lock_def release_nick_lease_def
    session_get_def session_set_room_def session_delete_def increment_instance_load_def decrement_instance_load_def with_op_timeout_def room_fail_def
  by (rule silent_base | simp)+

lemma silent_rooms:
  "keeps Q (get_room_route E r)" "keeps Q (join_room E r n)" "keeps Q (srem_member E r n)" "keeps Q (leave_room_redis E r n)"
  "keeps Q (delete_room E r)" "keeps Q (assign_room_to_least_loaded_sfu E r oid host port)" "keeps Q (close_room_binding E r)"
  unfolding get_room_route_def join_room_def srem_member_def leave_room_redis_def delete_room_def
    assign_room_to_least_loaded_sfu_def close_room_binding_def sig_decrement_sfu_room_load_def update_sfu_idle_since_def with_op_timeout_def room_fail_def
  by (rule silent_base | simp)+

lemma silent_on_world: "keeps Q m \<Longrightarrow> keeps Q_node (on_world m)"
  by (simp add: keeps_def on_world_def)

lemma silent_node:
  "keeps Q_node (on_sfu f)" "keeps Q_node (on_peers g)" "keeps Q_node (on_sessions h)" "keeps Q_node (spawn t)"
  "keeps Q_node (lift_result r)"
  by (simp_all add: keeps_def node_ops prog_simps lift_result_def)

lemma silent_redisM: "keeps Q m \<Longrightarrow> keeps Q_node (redisM m)"
  unfolding redisM_def by (intro keeps_intros silent_on_world)

lemma silent_token: "keeps Q (validate_connector_token (jwt_decode E) token secret node)"
  unfolding validate_connector_token_def by (rule silent_base | simp split: option.split)+

lemmas silent_ops = silent_token silent_session silent_rooms silent_outside silent_clock

lemma silent_modM: "(\<And>s. world (u s) = world s) \<Longrightarrow> keeps Q_node (modM u)"
  by (simp add: keeps_def prog_simps)

lemma silent_probe: "keeps Q_node (is_redis_available E)"
  unfolding is_redis_available_def by (rule silent_base silent_on_world | simp)+

lemma silent_client:
  "keeps Q_node (ensure_peer E addr room nick)" "keeps Q_node (delete_peer E addr room nick reason)"
  "keeps Q_node (handle_sdp E addr room nick sdp sdp_type)" "keeps Q_node (add_ice_candidate E addr room nick candidate sdp_mid)"
  unfolding run_rpc_def grpc_client_def channel_for_def ensure_peer_def ensure_listener_def delete_peer_def handle_sdp_def
    add_ice_candidate_def Let_def
  by (rule keeps_intros silent_on_world silent_node silent_ops | simp)+

lemma silent_broadcast: "keeps Q_node (broadcast E room except payload)"
  unfolding broadcast_def by (rule keeps_intros silent_on_world silent_outside)+

lemma silent_detach: "keeps Q_node (detach_peer E room nick reason)" "keeps Q_node (detach_stale_peers E room stale reason)"
proof -
  show d: "keeps Q_node (detach_peer E room nick reason)" for nick reason
    unfolding detach_peer_def by (rule keeps_intros silent_on_world silent_node silent_ops silent_client silent_probe)+
  show "keeps Q_node (detach_stale_peers E room stale reason)"
    unfolding detach_stale_peer_def [abs_def]
    by (rule keeps_detach_stale) (unfold detach_stale_peer_def, (rule keeps_intros silent_broadcast d)+)
qed

lemmas silent_all = keeps_intros silent_redisM silent_on_world silent_node silent_ops silent_modM silent_probe silent_client
  silent_broadcast silent_detach

lemma silent_parts:
  "keeps Q_node (require_redis E)" "keeps Q_node (check_session E s)" "keeps Q_node (leave_room E s room nick participants reason)"
  "keeps Q_node (session_sfu E session)" "keeps Q_node (enter_room s room)" "keeps Q_node stop_renewer"
  "keeps Q_node (spawn_lease_renewer s nick)"
  unfolding check_session_def leave_room_def session_sfu_def enter_room_def stop_renewer_def spawn_lease_renewer_def require_redis_def
  by (rule silent_all | simp split: option.split)+

end

section \<open>Answers\<close>

text \<open>The frames written to the socket grow by what is sent, and by nothing else.\<close>

locale talking_world =
  fixes E :: "('w, 'z) sig_env_scheme" and frames :: "'w \<Rightarrow> ServerMessage list"
  assumes silent: "silent_world E (\<lambda>w. frames w = said)"
    and sent: "fst (ws_send E m w) \<Longrightarrow> frames (snd (ws_send E m w)) = frames w @ [m]"

definition mute :: "('w \<Rightarrow> ServerMessage list) \<Rightarrow> ('w conn, 'a) act \<Rightarrow> bool" where
  "mute frames m \<longleftrightarrow> (\<forall>c. frames (world (snd (m c))) = frames (world c))"

text \<open>A run that ends well has said \<open>fs\<close> with \<open>P fs\<close>; one that ends in an error has said nothing, unless the socket is broken.\<close>

definition spoken :: "('w \<Rightarrow> ServerMessage list) \<Rightarrow> (ServerMessage list \<Rightarrow> bool) \<Rightarrow> ServerMessage list \<Rightarrow> (WsHandlerError + 'a) \<times> 'w conn \<Rightarrow> bool" where
  "spoken frames P before run = (case fst run of
     Inr _ \<Rightarrow> \<exists>fs. P fs \<and> frames (world (snd run)) = before @ fs
   | Inl err \<Rightarrow> err \<noteq> WriteFailed \<longrightarrow> frames (world (snd run)) = before)"

definition says :: "('w \<Rightarrow> ServerMessage list) \<Rightarrow> (ServerMessage list \<Rightarrow> bool) \<Rightarrow> ('w, 'a) handler \<Rightarrow> bool" where
  "says frames P m \<longleftrightarrow> (\<forall>c. spoken frames P (frames (world c)) (m c))"

definition sure :: "('s, 'e, 'a) prog \<Rightarrow> bool" where
  "sure m \<longleftrightarrow> (\<forall>s. \<exists>x. fst (m s) = Inr x)"

named_theorems says_intros "rules for what a handler says"

lemma sure_intros [says_intros]: "sure (okM x)" "(\<And>x. sure (f x)) \<Longrightarrow> sure (bindM m f)"
  by (simp_all add: sure_def prog_simps)

lemma saysD: "says frames P m \<Longrightarrow> spoken frames P (frames (world c)) (m c)"
  by (simp add: says_def)

lemma muteD: "mute frames m \<Longrightarrow> frames (world (snd (m c))) = frames (world c)"
  by (simp add: mute_def)

lemma says_mute: "mute frames m \<Longrightarrow> P [] \<Longrightarrow> says frames P m"
  by (simp add: says_def spoken_def muteD split: sum.split)

lemma says_fail [says_intros]: "says frames P (failM err)"
  by (simp add: says_def spoken_def prog_simps)

lemma says_bindM [says_intros]:
  assumes "mute frames n" "\<And>x. says frames P (g x)"
  shows "says frames P (bindM n g)"
  unfolding says_def 
proof
  fix c
  show "spoken frames P (frames (world c)) (bindM n g c)"
    using saysD [OF assms(2), where c = "snd (n c)"] by (simp add: prog_simps muteD [OF assms(1)])
qed

lemma says_tryM [says_intros]:
  assumes "mute frames m" "\<And>x. says frames P (f x)"
  shows "says frames P (tryM m f)"
  unfolding says_def
proof
  fix c
  show "spoken frames P (frames (world c)) (tryM m f c)"
  proof (cases "fst (m c)")
    case (Inl err)
    then show ?thesis by (simp add: prog_simps spoken_def muteD [OF assms(1)])
  next
    case (Inr x)
    then show ?thesis
      using saysD [OF assms(2), where c = "snd (m c)"] by (simp add: prog_simps muteD [OF assms(1)])
  qed
qed

lemma says_before:
  assumes "says frames P m" "\<And>x. mute frames (f x)" "\<And>x. sure (f x)"
  shows "says frames P (tryM m f)"
  unfolding says_def
proof
  fix c
  show "spoken frames P (frames (world c)) (tryM m f c)"
  proof (cases "fst (m c)")
    case (Inl err)
    then show ?thesis using saysD [OF assms(1), of c] by (simp add: prog_simps spoken_def)
  next
    case (Inr x)
    obtain y where "fst (f x (snd (m c))) = Inr y" using assms(3) by (auto simp: sure_def)
    then show ?thesis
      using Inr saysD [OF assms(1), of c] by (simp add: prog_simps spoken_def muteD [OF assms(2)])
  qed
qed

lemma says_released:
  assumes "says frames P m" "mute frames n"
  shows "says frames P (bindM m (\<lambda>result. bindM n (\<lambda>_. lift_result result)))"
  unfolding says_def
proof
  fix c
  show "spoken frames P (frames (world c)) (bindM m (\<lambda>result. bindM n (\<lambda>_. lift_result result)) c)"
    using saysD [OF assms(1), of c] by (cases "fst (m c)") (simp_all add: prog_simps spoken_def lift_result_def muteD [OF assms(2)])
qed

lemma says_case [says_intros]:
  "says frames P a \<Longrightarrow> says frames P b \<Longrightarrow> says frames P (if t then a else b)"
  "says frames P a \<Longrightarrow> (\<And>x. says frames P (f x)) \<Longrightarrow> says frames P (case z of None \<Rightarrow> a | Some x \<Rightarrow> f x)"
  "(\<And>x. says frames P (g x)) \<Longrightarrow> (\<And>x. says frames P (f x)) \<Longrightarrow> says frames P (case q of Inl x \<Rightarrow> g x | Inr x \<Rightarrow> f x)"
  "(\<And>x y. says frames P (h x y)) \<Longrightarrow> says frames P (case p of (x, y) \<Rightarrow> h x y)"
  by (auto split: option.split sum.split prod.split)

text \<open>The answer of each kind of request.\<close>

fun answers :: "ClientMessage \<Rightarrow> ServerMessage list \<Rightarrow> bool" where
  "answers (Attach token) fs \<longleftrightarrow> (\<exists>nick session. fs = [Attached nick session])"
| "answers (Logout session people) fs \<longleftrightarrow> (\<exists>nick. fs = [LoggedOut nick])"
| "answers (Create session) fs \<longleftrightarrow> (\<exists>room nick. fs = [Created room nick])"
| "answers (Join session room) fs \<longleftrightarrow> (\<exists>nick people. fs = [Joined room nick people])"
| "answers (Leave session room people) fs \<longleftrightarrow> fs = [Left room]"
| "answers (ClientMessage.Sdp session sdp sdp_type) fs \<longleftrightarrow> (\<exists>answer kind. fs = [ServerMessage.Sdp ''sfu'' answer kind])"
| "answers (ClientMessage.Candidate session candidate mid) fs \<longleftrightarrow> fs = []"

context talking_world
begin

lemma mute_if_silent: "(\<And>said. keeps (\<lambda>c. frames (world c) = said) m) \<Longrightarrow> mute frames m"
  by (simp add: mute_def keeps_def)

lemma mute_all:
  "mute frames (require_redis E)" "mute frames (check_session E s)" "mute frames (leave_room E s room nick people reason)"
  "mute frames (session_sfu E session)" "mute frames (enter_room s room)" "mute frames stop_renewer"
  "mute frames (spawn_lease_renewer s nick)" "mute frames (is_redis_available E)" "mute frames (broadcast E room except payload)"
  "mute frames (detach_stale_peers E room stale reason)" "mute frames (getM k)" "mute frames (on_sessions h)" "mute frames (on_peers g)"
  "mute frames (okM x)" "mute frames (ensure_peer E addr room nick)" "mute frames (handle_sdp E addr room nick sdp sdp_type)"
  "mute frames (add_ice_candidate E addr room nick candidate sdp_mid)"
  by (rule mute_if_silent, rule silent_world.silent_all [OF silent] silent_world.silent_parts [OF silent] keeps_intros)+

end

context talking_world
begin

lemma says_reply [says_intros]: "P [payload] \<Longrightarrow> says frames P (reply_with E payload)"
  by (auto simp: says_def spoken_def reply_with_def send_message_def prog_simps on_world_def log_write_failure_def sent split: if_splits)

lemmas mute_rules = mute_if_silent silent_world.silent_all [OF silent] silent_world.silent_parts [OF silent]

lemma says_attach: "says frames (answers (Attach token)) (handle_attach E token)"
  unfolding handle_attach_def by (rule says_intros mute_rules | simp split: option.split)+

lemma says_logout: "says frames (answers (Logout s people)) (handle_logout E s people)"
  unfolding handle_logout_def by (rule says_intros mute_rules | simp)+

lemma says_leave: "says frames (answers (Leave s room people)) (handle_leave E s room people)"
  unfolding handle_leave_def by (rule says_intros mute_rules | simp)+

lemma says_sdp: "says frames (answers (ClientMessage.Sdp s sdp sdp_type)) (handle_sdp_message E s sdp sdp_type)"
  unfolding handle_sdp_message_def by (rule says_intros mute_rules | simp)+

lemma says_candidate: "says frames (answers (ClientMessage.Candidate s candidate mid)) (handle_candidate E s candidate mid)"
  unfolding handle_candidate_def by (rule says_mute mute_rules | simp split: prod.split)+

lemma says_locked: "says frames P body \<Longrightarrow> says frames P (with_session_lock E s body)"
  unfolding with_session_lock_def by (rule says_intros says_released mute_rules | assumption | simp)+

lemma says_join: "says frames (answers (Join s room)) (handle_join E tx s room)"
  unfolding handle_join_def handle_join_locked_def
  by (rule says_locked, (rule says_intros mute_rules says_before | simp split: option.split)+)

lemma says_create: "says frames (answers (Create s)) (handle_create E tx s)"
  unfolding handle_create_def handle_create_locked_def Let_def
  by (rule says_locked, (rule says_intros mute_rules says_before | simp split: option.split)+)

lemma says_handler: "says frames (answers msg) (handle_client_message E tx msg)"
  by (cases msg) (simp_all add: says_attach says_logout says_leave says_sdp says_candidate says_join says_create del: answers.simps)

end

section \<open>Property\<close>

text \<open>What a text frame may be answered with.\<close>

definition fair_answer :: "('w, 'z) sig_env_scheme \<Rightarrow> string \<Rightarrow> ServerMessage list \<Rightarrow> bool" where
  "fair_answer E text fs = (case parse_client_message E text of
     None \<Rightarrow> fs = [Error ServerErrorCode.InvalidJson ''Malformed JSON'']
   | Some msg \<Rightarrow> (case validate (uuid_ok E) msg of
       Inl err \<Rightarrow> fs = [Error ServerErrorCode.InvalidPayload (validation_text err)]
     | Inr _ \<Rightarrow> answers msg fs \<or> (\<exists>err. fs = [Error (fst (map_error err)) (snd (map_error err))])))"

context talking_world
begin

lemma error_sent:
  assumes "fst (send_error E code message c) = Inr ()"
  shows "frames (world (snd (send_error E code message c))) = frames (world c) @ [Error code message]"
  using assms by (auto simp: send_error_def send_message_def prog_simps on_world_def sent split: if_splits)

lemma text_answered:
  assumes "on_text E tx text c = (Continue, c')"
  shows "\<exists>fs. frames (world c') = frames (world c) @ fs \<and> fair_answer E text fs"
proof (cases "parse_client_message E text")
  case None
  then have "flow_of (fst (send_error E ServerErrorCode.InvalidJson ''Malformed JSON'' c)) = Continue"
    "c' = snd (send_error E ServerErrorCode.InvalidJson ''Malformed JSON'' c)"
    using assms by (auto simp: on_text_def prog_simps)
  then show ?thesis using error_sent None by (auto simp: flow_of_def fair_answer_def split: sum.splits)
next
  case (Some msg)
  show ?thesis
  proof (cases "validate (uuid_ok E) msg")
    case (Inl err)
    then have "flow_of (fst (send_error E ServerErrorCode.InvalidPayload (validation_text err) c)) = Continue"
      "c' = snd (send_error E ServerErrorCode.InvalidPayload (validation_text err) c)"
      using assms Some by (auto simp: on_text_def prog_simps)
    then show ?thesis using error_sent Some Inl by (auto simp: flow_of_def fair_answer_def split: sum.splits)
  next
    case (Inr u)
    let ?run = "handle_client_message E tx msg c"
    have said: "spoken frames (answers msg) (frames (world c)) ?run" by (rule saysD [OF says_handler])
    show ?thesis
    proof (cases "fst ?run")
      case (Inl err)
      let ?e = "send_error E (fst (map_error err)) (snd (map_error err)) (snd ?run)"
      have "err \<noteq> WriteFailed" "flow_of (fst ?e) = Continue" "c' = snd ?e"
        using assms Some Inr Inl by (auto simp: on_text_def prog_simps split: if_splits)
      then have "frames (world c') = frames (world c) @ [Error (fst (map_error err)) (snd (map_error err))]"
        using error_sent [of "fst (map_error err)" "snd (map_error err)" "snd ?run"] said Inl
        by (auto simp: spoken_def flow_of_def split: sum.splits)
      then show ?thesis using Some Inr by (auto simp: fair_answer_def)
    next
      case (Inr v)
      then have "c' = snd ?run" using assms Some \<open>validate (uuid_ok E) msg = Inr u\<close> by (simp add: on_text_def prog_simps)
      then show ?thesis using said Inr Some \<open>validate (uuid_ok E) msg = Inr u\<close> by (auto simp: spoken_def fair_answer_def)
    qed
  qed
qed

end

text \<open>
  C8. Every message is answered once. Whatever text frame a client sends, in whatever state and however Redis and the
  SFUs answer, if the connection goes on then the node has written to the socket exactly the answer of the kind of the request, or
  exactly one error, or nothing for a candidate that was taken; a text that is no message and a request that is not valid get the error
  that says so.
\<close>

theorem every_frame_answered:
  assumes "talking_world E frames" "on_text E tx text c = (Continue, c')"
  shows "\<exists>fs. frames (world c') = frames (world c) @ fs \<and> fair_answer E text fs"
  by (rule talking_world.text_answered [OF assms])

lemma mem_silent:
  assumes "redis E = mem_redis" "unix_time E = mem_time" "new_uuid E = mem_new_uuid" "jwt_decode E = mem_jwt_decode"
    and "try_send E = (\<lambda>tx m w. (True, w\<lparr>m_outbox := m_outbox w @ [(tx, m)]\<rparr>))"
    and "sfu_connect E = (\<lambda>addr w. (Inr 0, w))" "sfu_rpc E = mem_rpc"
  shows "silent_world E (\<lambda>w. m_frames w = said)"
  using assms by unfold_locales
    (simp_all add: keeps_def mem_redis_def mem_time_def mem_new_uuid_def mem_jwt_decode_def mem_rpc_def split: prod.split)

interpretation mem_talk: talking_world mem_sig_env m_frames
  by (rule talking_world.intro) (rule mem_silent, simp_all)

theorem every_frame_answered_witness:
  "\<exists>c'. on_text mem_sig_env 0 ''nonsense'' (fresh_context demo_node) = (Continue, c')
     \<and> (\<exists>fs. m_frames (world c') = m_frames (world (fresh_context demo_node)) @ fs \<and> fair_answer mem_sig_env ''nonsense'' fs)"
proof -
  have "mem_client_message ''nonsense'' = None" by (simp add: mem_client_message_def)
  then have "on_text mem_sig_env 0 ''nonsense'' (fresh_context demo_node) = (Continue, snd (on_text mem_sig_env 0 ''nonsense'' (fresh_context demo_node)))"
    by (simp add: on_text_def prog_simps send_error_def send_message_def on_world_def flow_of_def)
  then show ?thesis using every_frame_answered [OF mem_talk.talking_world_axioms] by blast
qed

end
