(* ===== verification/Page_Socket.thy ===== *)
theory Page_Socket
  imports Replies Wire_Format
begin

text \<open>
  The page and a signaling node over the socket: what the page writes is read by the node, and what the node answers is
  read by the page. A request to enter a room is told to the page by exactly one event.
\<close>

section \<open>The page listening\<close>

text \<open>A page whose events are recorded; data frames are texts.\<close>

definition listening_page :: "(jvalue \<Rightarrow> string) \<Rightarrow> (string \<Rightarrow> jvalue option) \<Rightarrow> (SignalingEvent list, string) socket_env" where
  "listening_page put get = \<lparr>js_as_string = Some, js_stringify = Some, out_json = (\<lambda>m. Inr (put (write_out_message m))),
     in_json = (\<lambda>t. case Option.bind (get t) read_in_message of None \<Rightarrow> Inl ''unreadable'' | Some m \<Rightarrow> Inr m),
     socket_open = okM, socket_send = (\<lambda>_ _. okM ()), socket_handlers = (\<lambda>_ _. retM ()), socket_close = (\<lambda>_. retM ())\<rparr>"

definition heard :: "(jvalue \<Rightarrow> string) \<Rightarrow> (string \<Rightarrow> jvalue option) \<Rightarrow> SignalingStart \<Rightarrow> ServerMessage list \<Rightarrow> SignalingEvent list" where
  "heard put get start fs = snd (forM (\<lambda>f. ws_on_message (listening_page put get) [] start (\<lambda>ev. modM (\<lambda>evs. evs @ [ev]))
     (put (write_server_message f))) fs [])"

text \<open>A node that reads texts as the derived reader does.\<close>

definition reads_texts :: "(string \<Rightarrow> jvalue option) \<Rightarrow> ('w, 'z) sig_env_scheme \<Rightarrow> bool" where
  "reads_texts get S \<longleftrightarrow> (\<forall>t. parse_client_message S t = Option.bind (get t) read_client_message)"

context json_text
begin

lemma node_reads: "reads_texts get S \<Longrightarrow> parse_client_message S (put (write_out_message m)) = Some (meant_request m)"
  by (simp add: reads_texts_def get_put read_request)

lemma page_reads:
  "ws_on_message (listening_page put get) v start events (put (write_server_message f)) =
     handle_server_message (listening_page put get) v start events (meant_notice f)"
  by (simp add: ws_on_message_def listening_page_def get_put read_notice)

lemma heard_one:
  "heard put get start [Created room you] =
     [RoomReady \<lparr>snap_room_id = room, snap_your_nickname = you, snap_participants = [you]\<rparr>]"
  "heard put get start [Joined room you people] = [RoomReady \<lparr>snap_room_id = room, snap_your_nickname = you,
     snap_participants = (if list_ex (\<lambda>nick. nick = you) people then people else people @ [you])\<rparr>]"
  "heard put get start [Error code message] = [EvError (error_server (meant_code code) message)]"
  by (simp_all add: heard_def page_reads meant_notice_def prog_simps)

end

section \<open>Property\<close>

text \<open>
  C14. Entering a room is told to the page once. When the page asks to create or to join a room and the connection goes on, what the
  node has written makes the page see exactly one event: the room is ready, with the page's own nickname among the participants and,
  for a join, under the requested id; or an error with a code.
\<close>

theorem entering_is_told:
  assumes "json_text put get" "talking_world S frames" "reads_texts get S"
    and "m = OutCreate session \<or> m = OutJoin session room"
    and "on_text S tx (put (write_out_message m)) c = (Continue, c')"
  shows "\<exists>fs ev. frames (world c') = frames (world c) @ fs \<and> heard put get start fs = [ev]
    \<and> (case ev of
         RoomReady snap \<Rightarrow> snap_your_nickname snap \<in> set (snap_participants snap) \<and> (m = OutCreate session \<or> snap_room_id snap = room)
       | EvError err \<Rightarrow> sig_err_code err \<noteq> None
       | _ \<Rightarrow> False)"
proof -
  obtain fs where fs: "frames (world c') = frames (world c) @ fs" "fair_answer S (put (write_out_message m)) fs"
    using talking_world.text_answered [OF assms(2,5)] by blast
  note hears = json_text.heard_one [OF assms(1)]
  have "answers (meant_request m) fs \<or> (\<exists>code message. fs = [Error code message])"
    using fs(2) json_text.node_reads [OF assms(1,3)] by (auto simp: fair_answer_def split: sum.splits)
  then have "\<exists>ev. heard put get start fs = [ev] \<and> (case ev of
         RoomReady snap \<Rightarrow> snap_your_nickname snap \<in> set (snap_participants snap) \<and> (m = OutCreate session \<or> snap_room_id snap = room)
       | EvError err \<Rightarrow> sig_err_code err \<noteq> None
       | _ \<Rightarrow> False)"
    using assms(4) by (auto simp: meant_request_def hears error_server_def list_ex_iff)
  with fs(1) show ?thesis by blast
qed

definition reading_env :: "sig_mem sig_env" where
  "reading_env = mem_sig_env\<lparr>parse_client_message := \<lambda>t. Option.bind (json_of_text t) read_client_message\<rparr>"

interpretation reading_talk: talking_world reading_env m_frames
  by (rule talking_world.intro) (rule mem_silent, simp_all add: reading_env_def)

text \<open>A session id of the wrong form: the page is told of the refused request.\<close>

theorem entering_is_told_witness:
  "\<exists>c'. on_text reading_env 0 (text_of_json (write_out_message (OutCreate ''s1''))) (fresh_context demo_node) = (Continue, c')
     \<and> (\<exists>fs ev. m_frames (world c') = m_frames (world (fresh_context demo_node)) @ fs
       \<and> heard text_of_json json_of_text \<lparr>start_url = ''ws://h1'', start_session_id = ''s1'', start_token = ''t'',
           start_intent = IntentCreate\<rparr> fs = [ev])"
proof -
  let ?t = "text_of_json (write_out_message (OutCreate ''s1''))" and ?c = "fresh_context demo_node"
  have reads: "reads_texts json_of_text reading_env" by (simp add: reads_texts_def reading_env_def)
  have runs: "on_text reading_env 0 ?t ?c = (Continue, snd (on_text reading_env 0 ?t ?c))"
    using marked.node_reads [OF reads, of "OutCreate ''s1''"]
    by (simp add: on_text_def meant_request_def prog_simps send_error_def send_message_def on_world_def flow_of_def reading_env_def
        mem_sig_env_def mem_env_def env.defs validate_session_id_def)
  then show ?thesis
    using entering_is_told [OF marked.json_text_axioms reading_talk.talking_world_axioms reads _ runs] runs by blast
qed

end
