(* ===== verification/Offer_Handoff.thy ===== *)
theory Offer_Handoff
  imports Client_Sdp_Lines Sfu_Client
begin

text \<open>
  The offer between the page and the signaling node: the page renames the mids of its offer before it sends it, and the node
  looks for the ICE user fragment in what it receives. The renaming does not get in the way.
\<close>

section \<open>Texts of lines\<close>

lemma trim_end_cr_plain: "CR \<notin> set l \<Longrightarrow> trim_end_cr l = l"
  by (cases l rule: rev_cases) (auto simp: trim_end_cr_def)

text \<open>A text of lines ended or separated by CRLF has these lines.\<close>

lemma str_lines_crlf:
  assumes "xs \<noteq> []" "list_all solid xs"
  shows "str_lines (join_with [CR, NL] xs @ (if ending then [CR, NL] else [])) = xs"
proof (cases ending)
  case True
  have "join_with [CR, NL] xs @ [CR, NL] = ended [NL] (map (\<lambda>l. l @ [CR]) xs)"
    using ended_join [OF assms(1), of "[CR, NL]"] by (simp add: ended_def comp_def)
  moreover have "\<forall>l\<in>set (map (\<lambda>l. l @ [CR]) xs). NL \<notin> set l" using assms(2) by (auto simp: list_all_iff solid_def)
  ultimately have "split_on NL (join_with [CR, NL] xs @ [CR, NL]) = map (\<lambda>l. l @ [CR]) xs @ [[]]"
    using split_on_ended by simp
  then show ?thesis using True by (simp add: str_lines_def strip_cr_def comp_def)
next
  case False
  obtain ys y where xs: "xs = ys @ [y]" using assms(1) by (cases xs rule: rev_cases) auto
  have "join_with [CR, NL] xs = join_with [NL] (map (\<lambda>l. l @ [CR]) ys @ [y])"
    unfolding xs by (induction ys) (auto simp: join_Cons)
  moreover have "\<forall>l\<in>set (map (\<lambda>l. l @ [CR]) ys @ [y]). NL \<notin> set l" using assms(2) by (auto simp: xs list_all_iff solid_def)
  ultimately have "split_on NL (join_with [CR, NL] xs) = map (\<lambda>l. l @ [CR]) ys @ [y]"
    using split_on_join [of "map (\<lambda>l. l @ [CR]) ys @ [y]"] by simp
  moreover have "y \<noteq> []" using assms(2) by (simp add: xs solid_def)
  ultimately show ?thesis using False by (simp add: str_lines_def strip_cr_def comp_def xs)
qed

section \<open>Lines that carry no fragment\<close>

definition silent_line :: "string \<Rightarrow> bool" where
  "silent_line l \<longleftrightarrow> strip_prefix ''a=ice-ufrag:'' (trim_end_cr l) = None"

lemma ufrag_skip: "silent_line l \<Longrightarrow> first_ufrag_line (l # ls) = first_ufrag_line ls"
  by (simp add: silent_line_def)

lemma ufrag_step: "l = k \<or> silent_line l \<and> silent_line k \<Longrightarrow> first_ufrag_line ls = first_ufrag_line ks
    \<Longrightarrow> first_ufrag_line (l # ls) = first_ufrag_line (k # ks)"
  by (auto simp: silent_line_def Let_def cong: if_cong split: option.split)

lemma silent_lines:
  "CR \<notin> set l \<Longrightarrow> starts_with ''a=mid:'' l \<Longrightarrow> silent_line l" "CR \<notin> set l \<Longrightarrow> starts_with ''a=group:BUNDLE'' l \<Longrightarrow> silent_line l"
  by (auto simp: silent_line_def trim_end_cr_plain starts_with_iff)

lemma renamed_line: "solid l \<Longrightarrow> solid (rewrite_mid_line mid l) \<Longrightarrow> rewrite_mid_line mid l = l
    \<or> silent_line (rewrite_mid_line mid l) \<and> silent_line l"
  using silent_lines(1) [of l] silent_lines(1) [of "rewrite_mid_line mid l"]
  by (auto simp: rewrite_mid_line_def solid_def starts_with_iff)

lemma bundled_line: "solid l \<Longrightarrow> solid (bundle_line mids l) \<Longrightarrow> bundle_line mids l = l
    \<or> silent_line (bundle_line mids l) \<and> silent_line l"
  using silent_lines(2) [of l] silent_lines(2) [of "bundle_line mids l"]
  by (auto simp: bundle_line_def solid_def starts_with_iff)

lemma ufrag_bundled:
  "list_all solid g \<Longrightarrow> list_all solid (map (bundle_line mids) g) \<Longrightarrow> first_ufrag_line rest = first_ufrag_line rest'
    \<Longrightarrow> first_ufrag_line (map (bundle_line mids) g @ rest) = first_ufrag_line (g @ rest')"
proof (induction g)
  case (Cons l g)
  then show ?case using ufrag_step [OF bundled_line [of l mids]] by (simp del: first_ufrag_line.simps)
qed simp

lemma ufrag_retagged:
  "list_all solid ls \<Longrightarrow> list_all solid (retag cur v ls) \<Longrightarrow> first_ufrag_line (retag cur v ls) = first_ufrag_line ls"
proof (induction ls arbitrary: cur v)
  case (Cons l ls)
  show ?case
  proof (cases "\<exists>mid. cur = Some mid \<and> \<not> starts_with ''m='' l")
    case True
    then obtain mid where "cur = Some mid" "\<not> starts_with ''m='' l" by blast
    then show ?thesis using Cons ufrag_step [OF renamed_line [of l mid]] by (simp del: first_ufrag_line.simps)
  next
    case False
    then obtain cur' v' where r: "retag cur v (l # ls) = l # retag cur' v' ls"
      by (cases "starts_with ''m='' l"; cases cur) auto
    then have "first_ufrag_line (retag cur' v' ls) = first_ufrag_line ls" using Cons by simp
    then show ?thesis unfolding r by (intro ufrag_step) simp_all
  qed
qed simp

section \<open>Property\<close>

text \<open>
  C29. Renaming keeps the ICE generation. The user fragment the signaling node finds in the offer the page sends is the one of the
  offer the browser made, so that a renegotiation without a restart is not taken for one, and a restart is seen.
\<close>

theorem offer_keeps_ufrag:
  assumes "ls \<noteq> []" "\<forall>l\<in>set ls. plain_line l" "\<not> media_line (hd ls)"
  shows "first_ice_ufrag (rewrite_offer_mids_for_sfu (ended [CR, NL] ls)) = first_ice_ufrag (ended [CR, NL] ls)"
proof -
  let ?head = "takeWhile (\<lambda>l. \<not> media_line l) ls" and ?rest = "dropWhile (\<lambda>l. \<not> media_line l) ls"
  have plain: "list_all solid ls" using assms(2) solid_plain by (simp add: list_all_iff)
  have solid: "list_all solid (retagged_offer ls)" by (rule retagged_solid [OF assms(2)])
  have parts: "list_all solid ?head" "list_all solid ?rest"
    using plain by (auto simp: list_all_iff dest: set_takeWhileD set_dropWhileD)
  have ne: "retagged_offer ls \<noteq> []" using assms(1,3) by (cases ls) (simp_all add: retagged_offer_def)
  have "first_ufrag_line (retagged_offer ls) = first_ufrag_line (?head @ ?rest)"
    unfolding retagged_offer_def
    using solid by (intro ufrag_bundled ufrag_retagged parts) (simp_all add: retagged_offer_def)
  moreover have "str_lines (ended [CR, NL] ls) = ls"
    using str_lines_crlf [OF assms(1) plain, of True] ended_join [OF assms(1), of "[CR, NL]"] by simp
  ultimately show ?thesis
    unfolding first_ice_ufrag_def rewritten_offer [OF assms] str_lines_crlf [OF ne solid] by simp
qed

theorem offer_keeps_ufrag_witness:
  "first_ice_ufrag (rewrite_offer_mids_for_sfu (ended [CR, NL] [''v=0'', ''m=audio 9'', ''a=mid:0'', ''a=ice-ufrag:F7''])) = Some ''F7''"
proof -
  have "first_ice_ufrag (ended [CR, NL] [''v=0'', ''m=audio 9'', ''a=mid:0'', ''a=ice-ufrag:F7'']) = Some ''F7''"
    by (simp add: ended_def first_ice_ufrag_def str_lines_def strip_cr_def trim_end_cr_def first_word_def trim_def trim_start_def
        trim_end_def is_whitespace_def Let_def)
  then show ?thesis
    using offer_keeps_ufrag [of "[''v=0'', ''m=audio 9'', ''a=mid:0'', ''a=ice-ufrag:F7'']"]
    by (simp add: plain_line_def media_line_def starts_with_def)
qed

end
