(* ===== verification/Service_Start.thy ===== *)
theory Service_Start
  imports Node_Invariants Supervisor
begin

text \<open>
  The start of the services: \<^verbatim>\<open>main\<close> of the signaling node, with its routes and its shutdown, and \<^verbatim>\<open>main\<close>
  of the supervisor up to its loops. A node that started is in the state from which the invariants of \<open>Node_Invariants\<close>
  are proved; one that was shut down refuses every connection.
\<close>

section \<open>A signaling node\<close>

datatype node_error = NodeConfig string | NodeAddr string | NodeRedis redis_error | NodeAdminAddr string | NodeBind string

text \<open>Socket addresses and the listener are parameters; the admin server runs beside and shares the state.\<close>

definition signaling_main :: "('w, 'z) sig_env_scheme \<Rightarrow> (string \<Rightarrow> string option) \<Rightarrow> (string \<Rightarrow> (string \<times> 16 word) option)
    \<Rightarrow> (string \<Rightarrow> ('w, string, unit) prog) \<Rightarrow> ('w, node_error, 'w node) prog" where
  "signaling_main E env_var socket_addr listen =
     (case from_env env_var socket_addr of Inl err \<Rightarrow> failM (NodeConfig err)
      | Inr cfg \<Rightarrow>
          if socket_addr (signaling_addr cfg) = None then failM (NodeAddr (signaling_addr cfg)) else
          tryM (map_errM NodeRedis (init_redis E)) (\<lambda>_.
          if socket_addr (admin_grpc_addr cfg) = None then failM (NodeAdminAddr (admin_grpc_addr cfg)) else
          tryM (map_errM NodeBind (listen (signaling_addr cfg))) (\<lambda>_.
          bindM (getM (\<lambda>w. state_new w cfg)) okM)))"

text \<open>A request by method and path: the health route, the socket, or a status without a body.\<close>

definition signaling_app :: "'w node \<Rightarrow> bool \<Rightarrow> string \<Rightarrow> (nat \<times> string) + 'w conn" where
  "signaling_app n is_get path =
     (if path = ''/health'' then Inl (if is_get then health else (405, []))
      else if path = ''/ws'' then (if is_get then ws_upgrade n else Inl (405, []))
      else Inl (404, []))"

definition signaling_shutdown :: "('w, 'z) sig_env_scheme \<Rightarrow> ('w node, unit) act" where
  "signaling_shutdown E = run_purge E RedisDown"

lemma started_node:
  assumes "fst (signaling_main E env_var socket_addr listen w) = Inr n"
  obtains w' cfg where "from_env env_var socket_addr = Inr cfg" "n = sys_node (sys_start w' cfg)"
  using assms
  by (auto simp: signaling_main_def prog_simps sys_start_def split: sum.splits if_splits)

section \<open>The supervisor\<close>

datatype supervisor_error = LoadSupervisorConfig string | OpenRedis | RedisUnreachable string | SeedInventory store_error

datatype background = HeartbeatLoop | SignalingProbeLoop | SfuProbeLoop | JanitorLoop

text \<open>\<open>n\<close> bounds the attempts looked at while waiting for Redis; the result is absent while the wait goes on. After the
  start the four loops run beside the watch over Redis, which starts with Redis taken to be up.\<close>

definition supervisor_main :: "('w, 'z) sup_env_scheme \<Rightarrow> (string \<Rightarrow> bool) \<Rightarrow> (string \<Rightarrow> string option) \<Rightarrow> string \<Rightarrow> nat
    \<Rightarrow> ('w, (supervisor_error + SupervisorConfig \<times> background list \<times> bool) option) act" where
  "supervisor_main E client_opens env_var fresh_uuid n =
     (case supervisor_from_env env_var fresh_uuid of Inl err \<Rightarrow> retM (Some (Inl (LoadSupervisorConfig err)))
      | Inr cfg \<Rightarrow>
          if \<not> client_opens (sup_redis_url cfg) then retM (Some (Inl OpenRedis)) else
          bindM (wait_for_redis E n) (\<lambda>waited. case waited of
            None \<Rightarrow> retM None
          | Some (Inl message) \<Rightarrow> retM (Some (Inl (RedisUnreachable message)))
          | Some (Inr _) \<Rightarrow> bindM (supervisor_start E cfg) (\<lambda>started. retM (Some (case started of
                Inl err \<Rightarrow> Inl (SeedInventory err)
              | Inr _ \<Rightarrow> Inr (cfg, [HeartbeatLoop, SignalingProbeLoop, SfuProbeLoop, JanitorLoop], False))))))"

text \<open>The watch over a number of ticks.\<close>

fun redis_watch :: "('w, 'z) sup_env_scheme \<Rightarrow> SupervisorConfig \<Rightarrow> nat \<Rightarrow> bool \<Rightarrow> ('w, bool) act" where
  "redis_watch E cfg 0 was_down = retM was_down"
| "redis_watch E cfg (Suc n) was_down = bindM (redis_check_tick E cfg was_down) (redis_watch E cfg n)"

end
