(* ===== verification/Spec2Isabelle.thy ===== *)
theory Spec2Isabelle
  imports Token_Handoff Supervisor_Operations Page_Shows Page_Socket Offer_Handoff Service_Start
begin

text \<open>
  Verification of a video-call service: the control plane written in Rust (\<^verbatim>\<open>src/common/control_store\<close> and
  \<^verbatim>\<open>src/services\<close>) and the browser client written in Rust for WebAssembly (\<^verbatim>\<open>src/client\<close>).

  \<^bold>\<open>The program.\<close> Four parts share one Redis server. The \<^emph>\<open>connector\<close> (HTTP) leases nicknames, keeps sessions
  and answers create and join requests with the URL of a signaling node and a signed token. A \<^emph>\<open>signaling node\<close>
  (WebSocket) checks the token, binds the connection to the session, creates and joins rooms, assigns a room to
  the least loaded SFU with a Lua script, and relays offers, candidates and events between the participants and the SFU (gRPC).
  The \<^emph>\<open>supervisor\<close> writes its heartbeat, probes nodes and SFUs, and runs a janitor that reclaims what dead nodes left.
  The \<^emph>\<open>page\<close> signs in, asks for a room, opens the socket, captures media, negotiates WebRTC and lays out the tiles.
  The SFU itself is C++ and is only called.

  \<^bold>\<open>Reading guide.\<close> A function that may fail is a \<open>prog\<close>, a state transformer with a sum as its result (\<open>Inl\<close>
  is \<^verbatim>\<open>Err\<close>); one that cannot is an \<open>act\<close>; \<open>tryM\<close> is the question mark operator and \<open>bindM\<close> plain sequencing
  (\<open>Calls_Prelude\<close>). Names are those of the source, with a prefix where two crates use the same name
  (\<open>sig_\<close>, \<open>conn_\<close>, \<open>sup_\<close>, \<open>client_\<close>, \<open>api_\<close>). Integers keep their width where it matters: words for the
  configuration values, capacities, ports and generations, \<open>wrap_i64\<close> and \<open>sub_i64\<close> for signed time arithmetic.

  \<^bold>\<open>Theories and sources.\<close>
  \<^item> \<open>Store_Models\<close>, \<open>Control_Store\<close>: \<^verbatim>\<open>keys.rs\<close>, \<^verbatim>\<open>models.rs\<close> and \<^verbatim>\<open>storage.rs\<close> of the control store.
  \<^item> \<open>Redis_Commands\<close>, \<open>Redis_Client\<close>, \<open>Redis_Memory\<close>: the commands the code issues, their documented effect on a
    map from keys to values (\<open>cmd_doc\<close>, with the Lua scripts of \<^verbatim>\<open>signaling/src/redis.rs\<close> translated), the contracts
    \<open>redis_server\<close> (may fail at any command), \<open>redis_up\<close>, \<open>redis_scan\<close> and \<open>store_world\<close>, and an executable server that meets them.
  \<^item> \<open>Signaling_Redis\<close>, \<open>Signaling_Messages\<close>, \<open>Peer_Registry\<close>, \<open>Session_Registry\<close>, \<open>Sfu_Client\<close>, \<open>Signaling_State\<close>,
    \<open>Sfu_Events\<close>, \<open>Websocket\<close>, \<open>Service_Start\<close>: \<^verbatim>\<open>redis.rs\<close>, \<^verbatim>\<open>message.rs\<close> with \<^verbatim>\<open>auth.rs\<close> and
    \<^verbatim>\<open>config.rs\<close>, \<^verbatim>\<open>peer_registry.rs\<close>, \<^verbatim>\<open>session_registry.rs\<close>, \<^verbatim>\<open>sfu.rs\<close>, \<^verbatim>\<open>state.rs\<close> with
    \<^verbatim>\<open>admin.rs\<close>, \<^verbatim>\<open>websocket.rs\<close> and \<^verbatim>\<open>main.rs\<close> of the signaling node. \<open>node\<close> is the shared state, \<open>conn\<close>
    extends it by the context of one connection; \<open>Signaling_Memory\<close> is the concrete node of the witnesses.
  \<^item> \<open>Connector\<close>, \<open>Connector_Service\<close>: the connector, with its routes, CORS settings and start.
  \<^item> \<open>Supervisor\<close>: \<^verbatim>\<open>probes.rs\<close>, \<^verbatim>\<open>config.rs\<close> and \<^verbatim>\<open>main.rs\<close> of the supervisor.
  \<^item> \<open>Wire_Json\<close>, \<open>Wire_Format\<close>: the JSON that the types of both sides derive.
  \<^item> \<open>Client_Signaling\<close> (\<^verbatim>\<open>nickname.rs\<close>, \<^verbatim>\<open>connector_api.rs\<close>, \<^verbatim>\<open>signaling.rs\<close>), \<open>Client_Sdp\<close> and \<open>Client_Media\<close>
    (\<^verbatim>\<open>webrtc_room.rs\<close>), \<open>Client_App\<close> (\<^verbatim>\<open>app.rs\<close>, \<^verbatim>\<open>theme.rs\<close> and the forms), \<open>Client_Devices\<close>
    (devices and the screen picker), \<open>Client_Room\<close> (the state and layout of the room screen), \<open>Page_View\<close> and
    \<open>Page_Screens\<close> (the markup of \<^verbatim>\<open>app.rs\<close> and of every component, as trees whose attributes hold the handlers).

  \<^bold>\<open>What the lemmas show.\<close>
  \<^item> \<open>Control_Store\<close>, \<open>Room_Operations\<close>: each storage operation evaluated over the keys; selection of the least loaded SFU,
    loads that stay natural and within capacity, assignment as one atomic step, locks and single use of token identifiers.
  \<^item> \<open>Node_Invariants\<close>: invariants of every reachable state of a node, whatever its clients, Redis and the SFUs
    do (\<open>sys_step\<close>): registries, lease renewers, finality of a purge, the loop over stale peers.
  \<^item> \<open>Key_Frames\<close>, \<open>Signaling_Handlers\<close>, \<open>Room_Entry\<close>: the keys a handler may touch, even when Redis fails in the
    middle; attach, create and join against specifications of their outcome (\<open>attached_store\<close>, \<open>joined_store\<close>, \<open>checked\<close>); detaching
    gives back exactly \<open>departed\<close>; a used token stays used over all later messages (\<open>later\<close>).
  \<^item> \<open>Replies\<close>: every frame of a client is answered exactly once.
  \<^item> \<open>Connector_Operations\<close>, \<open>Supervisor_Operations\<close>: sign-in, renewal, the decisions of create and join; one turn of the janitor
    against the store it must leave, key by key (\<open>swept\<close>); probes and heartbeats as the connector sees them; waiting for Redis ends; inventory texts.
  \<^item> \<open>Token_Handoff\<close>, \<open>Page_Calls\<close>, \<open>Page_Socket\<close>, \<open>Offer_Handoff\<close>: compositions. The token the connector issues binds at
    the named node and at no other; the form of the page leads to the lease in the store and the menu to the start of
    the connection; what a node answers is one event of the page; the renamed offer keeps its ICE user fragment.
  \<^item> \<open>Client_Sdp_Lines\<close>, \<open>Client_Media_Operations\<close>, \<open>Client_App_Operations\<close>, \<open>Client_Room_Pages\<close>, \<open>Client_Checks\<close>: the rewritten
    offer line by line, the life of a media session under arbitrary interleaving, the roster, the pages and tiles, the checks of input.
  \<^item> \<open>Page_Shows\<close>: the drawn page: whose voices it plays, that its arrows reach every participant, what its buttons do.

  \<^bold>\<open>Interfaces.\<close> Each contract a component relies on is a locale, interpreted on the model: \<open>store_world\<close>, \<open>sig_world\<close> and
  \<open>conn_world\<close> (a Redis that answers, and an outside that leaves its keys alone), \<open>node_kept\<close> and \<open>conn_kept\<close> (what keeps an
  invariant of a node), \<open>media_page\<close> (what other tasks may do to a media session), \<open>still_drawing\<close> (drawing a
  component changes nothing), \<open>json_text\<close> (texts of JSON values),
  \<open>joined_ends\<close> (a network and a framework between page and connector that deliver), \<open>silent_world\<close> and \<open>talking_world\<close> (frames sent on a socket).

  \<^bold>\<open>Modelling decisions.\<close>
  \<^item> Redis, the token library, gRPC, sockets, the browser, JSON texts, the clock and fresh identifiers are parameters (the fields of
    \<open>env\<close>, \<open>sig_env\<close>, \<open>conn_env\<close>, \<open>sup_env\<close>, \<open>browser\<close>, \<open>http_env\<close> and \<open>http_stack\<close>); what is assumed of them is
    documented behaviour and stands in the locales above. A time-out is one of the outcomes of the call that is awaited.
  \<^item> A handler is one step of the node: the model does not interleave two handlers between their awaits. The registry invariants
    hold for every single registry operation, hence for interleavings too. Expiry of keys is a change of the world between steps.
  \<^item> In the page a task runs up to its awaits, and an awaited promise may change the whole state of the page in any way \<open>media_page\<close>
    allows (\<open>onward\<close>), so that a session may be closed or superseded at every await. A task that was suspended past its check when its
    session was closed is not covered by the finality of the close; \<open>late_close_keeps_capture\<close> shows what it may still do.
    What a captured state handle of the framework reads is the argument \<open>seen\<close>; the roster is stated for both readings.
  \<^item> The web framework of the connector is a parameter (\<open>http_stack\<close>): how the CORS layer answers, what an unknown path, another
    method and a body it rejects are answered with. Only the routes, the order of the layer and the handlers are the source's.
  \<^item> Scores and layout measures are reals where the code has \<^verbatim>\<open>f64\<close>; strings have one character per scalar value, below 256.
  \<^item> A screen is a tree computed from the state of the render; \<open>expand\<close> draws the components in it, four levels deep, which is the
    depth of the deepest chain (a screen, the settings panel, its theme button). A click is looked up by the label of the element.
  \<^item> Bounds and fuel: a scan reads at most \<open>scan_budget\<close> pages and is assumed to fit within it (\<open>redis_scan\<close>);
    \<open>wait_for_redis\<close> looks at a number of attempts and is proved to return at the first one that ends the wait, for any larger
    number; every other loop terminates by its structure or by the measure given with it.

  \<^bold>\<open>Not modelled.\<close> Style sheets, and which element a reference of the page holds (a parameter);
  logging; the runtime, tracing and signal handlers of the services; the C++ SFU, the protocol files, the generated stubs and the deployment
  files, which hold no Rust. Equality of an executed run with a real browser or server is outside the logic.
\<close>

end
